(* ===== verification/Py_Prelude.thy ===== *)
theory Py_Prelude
  imports Complex_Main "HOL-Library.AList" "HOL-Library.Char_ord" "HOL-Library.List_Lexorder"
    "HOL-Library.Product_Lexorder"
begin

text \<open>
  What every component of the model uses of Python: JSON-like values, dictionaries as
  association lists in insertion order, strings over the code points 0 to 255, instants of
  time, the exceptions the modelled code raises, and the generic lemmas about them. The
  collection \<open>py_simps\<close> holds the equations the component proofs rewrite with.
\<close>

named_theorems py_simps

section \<open>Values and dictionaries\<close>

text \<open>
  A Python \<open>float\<close> is an exact rational or one of the three special values; the rounding of
  IEEE doubles is not modelled. A dictionary keeps its keys in insertion order; assigning to
  an existing key keeps its position.
\<close>

type_synonym 'v dict = "(string \<times> 'v) list"

datatype pyfloat = Fin rat | PInf | NInf | NaN

datatype pyval =
    VNone
  | VBool bool
  | VInt int
  | VFloat pyfloat
  | VStr string
  | VList "pyval list"
  | VDict "(string \<times> pyval) list"

type_synonym json = "pyval dict"

abbreviation dset :: "string \<Rightarrow> 'v \<Rightarrow> 'v dict \<Rightarrow> 'v dict" where
  "dset \<equiv> AList.update"

abbreviation dpop :: "string \<Rightarrow> 'v dict \<Rightarrow> 'v dict" where
  "dpop \<equiv> AList.delete"

definition dvalues :: "'v dict \<Rightarrow> 'v list" where
  "dvalues d = map snd d"

definition dkeys :: "'v dict \<Rightarrow> string list" where
  "dkeys d = map fst d"

text \<open>The display \<open>{**a, **b}\<close> and \<open>a.update(b)\<close>.\<close>

definition dmerge :: "'v dict \<Rightarrow> 'v dict \<Rightarrow> 'v dict" where
  "dmerge a b = fold (\<lambda>(k, v) d. dset k v d) b a"

text \<open>\<open>d.setdefault(k, v)\<close>.\<close>

definition dsetdefault :: "string \<Rightarrow> 'v \<Rightarrow> 'v dict \<Rightarrow> 'v dict" where
  "dsetdefault k v d = (case map_of d k of None \<Rightarrow> dset k v d | Some _ \<Rightarrow> d)"

text \<open>\<open>d.get(k)\<close> on a JSON object: a missing key reads as \<open>None\<close>.\<close>

definition jget :: "json \<Rightarrow> string \<Rightarrow> pyval" where
  "jget d k = (case map_of d k of None \<Rightarrow> VNone | Some v \<Rightarrow> v)"

fun truthy :: "pyval \<Rightarrow> bool" where
  "truthy VNone = False"
| "truthy (VBool b) = b"
| "truthy (VInt i) = (i \<noteq> 0)"
| "truthy (VFloat (Fin r)) = (r \<noteq> 0)"
| "truthy (VFloat _) = True"
| "truthy (VStr s) = (s \<noteq> [])"
| "truthy (VList xs) = (xs \<noteq> [])"
| "truthy (VDict d) = (d \<noteq> [])"

text \<open>Python's \<open>a or b\<close>, on values and on optional strings.\<close>

definition py_or :: "pyval \<Rightarrow> pyval \<Rightarrow> pyval" where
  "py_or a b = (if truthy a then a else b)"

definition or_str :: "string option \<Rightarrow> string option \<Rightarrow> string option" where
  "or_str a b = (case a of Some (c # cs) \<Rightarrow> a | _ \<Rightarrow> b)"

definition truthy_str :: "string option \<Rightarrow> bool" where
  "truthy_str a = (case a of Some (c # cs) \<Rightarrow> True | _ \<Rightarrow> False)"

text \<open>The tests \<open>isinstance(v, dict)\<close>, \<open>isinstance(v, str)\<close> and \<open>isinstance(v, list)\<close>.\<close>

fun as_dict :: "pyval \<Rightarrow> json option" where
  "as_dict (VDict d) = Some d"
| "as_dict _ = None"

fun as_str :: "pyval \<Rightarrow> string option" where
  "as_str (VStr s) = Some s"
| "as_str _ = None"

fun as_list :: "pyval \<Rightarrow> pyval list option" where
  "as_list (VList xs) = Some xs"
| "as_list _ = None"

text \<open>\<open>dict(v or {})\<close> for a value that is absent or an object.\<close>

definition dict_or_empty :: "pyval \<Rightarrow> json" where
  "dict_or_empty v = (case as_dict v of None \<Rightarrow> [] | Some d \<Rightarrow> d)"

fun opt_str :: "string option \<Rightarrow> pyval" where
  "opt_str None = VNone"
| "opt_str (Some s) = VStr s"

section \<open>Strings\<close>

definition is_space :: "char \<Rightarrow> bool" where
  "is_space c = (c \<in> {CHR 0x09, CHR 0x0A, CHR 0x0B, CHR 0x0C, CHR 0x0D, CHR 0x1C, CHR 0x1D,
     CHR 0x1E, CHR 0x1F, CHR 0x20, CHR 0x85, CHR 0xA0})"

definition strip :: "string \<Rightarrow> string" where
  "strip s = rev (dropWhile is_space (rev (dropWhile is_space s)))"

text \<open>\<open>str.lower\<close> on the Latin-1 range.\<close>

definition lower_char :: "char \<Rightarrow> char" where
  "lower_char c = (let n = (of_char c :: nat)
     in if 65 \<le> n \<and> n \<le> 90 \<or> 192 \<le> n \<and> n \<le> 222 \<and> n \<noteq> 215 then char_of (n + 32) else c)"

definition lower :: "string \<Rightarrow> string" where
  "lower s = map lower_char s"

definition startswith :: "string \<Rightarrow> string \<Rightarrow> bool" where
  "startswith s p = (take (length p) s = p)"

definition endswith :: "string \<Rightarrow> string \<Rightarrow> bool" where
  "endswith s p = (length p \<le> length s \<and> drop (length s - length p) s = p)"

definition replace_char :: "char \<Rightarrow> char \<Rightarrow> string \<Rightarrow> string" where
  "replace_char a b s = map (\<lambda>c. if c = a then b else c) s"

text \<open>A string between single quotes, as the messages print identifiers.\<close>

definition quote :: "string \<Rightarrow> string" where
  "quote s = CHR 0x27 # s @ [CHR 0x27]"

text \<open>Python's slice \<open>xs[-n:]\<close> for a positive \<open>n\<close>.\<close>

definition last_n :: "nat \<Rightarrow> 'a list \<Rightarrow> 'a list" where
  "last_n n xs = drop (length xs - n) xs"

text \<open>Python's slice \<open>xs[:n]\<close>: a negative bound drops elements from the end.\<close>

definition slice_to :: "int \<Rightarrow> 'a list \<Rightarrow> 'a list" where
  "slice_to n xs = (if 0 \<le> n then take (nat n) xs else take (length xs - nat (- n)) xs)"

fun nat_str :: "nat \<Rightarrow> string" where
  "nat_str n = (if n < 10 then [''0123456789'' ! n]
     else nat_str (n div 10) @ [''0123456789'' ! (n mod 10)])"

declare nat_str.simps [simp del]

definition int_str :: "int \<Rightarrow> string" where
  "int_str i = (if i < 0 then CHR ''-'' # nat_str (nat (- i)) else nat_str (nat i))"

definition pad :: "nat \<Rightarrow> nat \<Rightarrow> string" where
  "pad k n = (let s = nat_str n in replicate (k - length s) (CHR ''0'') @ s)"

section \<open>Time\<close>

text \<open>
  An aware \<open>datetime\<close> is its instant, in microseconds since 1970-01-01T00:00:00Z; every
  datetime of the modelled code is in UTC (\<open>app/core/time.py\<close>), so \<open>ensure_utc\<close> does not
  move it. \<open>isoformat\<close> prints it as Python does, through the proleptic Gregorian calendar.
\<close>

type_synonym datetime = int

definition seconds :: "int \<Rightarrow> int" where
  "seconds n = n * 1000000"

definition civil_from_days :: "int \<Rightarrow> int \<times> int \<times> int" where
  "civil_from_days days =
    (let z = days + 719468; era = z div 146097; doe = z mod 146097;
         yoe = (doe - doe div 1460 + doe div 36524 - doe div 146096) div 365;
         doy = doe - (365 * yoe + yoe div 4 - yoe div 100);
         mp = (5 * doy + 2) div 153;
         d = doy - (153 * mp + 2) div 5 + 1;
         m = (if mp < 10 then mp + 3 else mp - 9);
         y = yoe + era * 400 + (if m \<le> 2 then 1 else 0)
     in (y, m, d))"

definition isoformat :: "datetime \<Rightarrow> string" where
  "isoformat t =
    (let us = t mod 1000000; secs = t div 1000000; sod = secs mod 86400;
         (y, m, d) = civil_from_days (secs div 86400)
     in pad 4 (nat y) @ ''-'' @ pad 2 (nat m) @ ''-'' @ pad 2 (nat d) @ ''T'' @
        pad 2 (nat (sod div 3600)) @ '':'' @ pad 2 (nat (sod div 60 mod 60)) @ '':'' @
        pad 2 (nat (sod mod 60)) @
        (if us = 0 then [] else ''.'' @ pad 6 (nat us)) @ ''+00:00'')"

text \<open>\<open>value.isoformat() if value else None\<close>.\<close>

definition iso_or_none :: "datetime option \<Rightarrow> pyval" where
  "iso_or_none t = (case t of None \<Rightarrow> VNone | Some d \<Rightarrow> VStr (isoformat d))"

section \<open>Exceptions\<close>

text \<open>
  The exceptions the modelled code raises, with their messages; \<open>OtherError\<close> is any other class, by
  its name, raised by code the model takes as a parameter. \<open>ValidationError\<close> is
  pydantic's, a subclass of \<open>ValueError\<close>, as are the two wait errors.
\<close>

datatype exc =
    ApprovalRequiredError string
  | AttributeError string
  | ExecutionCancelledError string
  | ExecutionPausedError string
  | OtherError string string
  | TimeoutError string
  | ExecutionNotFoundError string
  | WorkflowNotFoundError string
  | ExecutionWaitNotFoundError string
  | ExecutionWaitConflictError string
  | ExecutionApprovalSuspendedError string
  | ContainerRuntimeError string
  | CrewAIUnsupportedOperationError string
  | IntegrityError string
  | KeyError string
  | OverflowError string
  | PermissionError string
  | RuntimeError string
  | TypeError string
  | ValidationError string
  | ValueError string

fun is_value_error :: "exc \<Rightarrow> bool" where
  "is_value_error (ValueError _) = True"
| "is_value_error (ValidationError _) = True"
| "is_value_error (ExecutionWaitNotFoundError _) = True"
| "is_value_error (ExecutionWaitConflictError _) = True"
| "is_value_error _ = False"

fun exc_str :: "exc \<Rightarrow> string" where
  "exc_str (ApprovalRequiredError m) = m"
| "exc_str (AttributeError m) = m"
| "exc_str (ExecutionCancelledError m) = m"
| "exc_str (ExecutionPausedError m) = m"
| "exc_str (OtherError _ m) = m"
| "exc_str (TimeoutError m) = m"
| "exc_str (ExecutionNotFoundError m) = m"
| "exc_str (WorkflowNotFoundError m) = m"
| "exc_str (ExecutionWaitNotFoundError m) = m"
| "exc_str (ExecutionWaitConflictError m) = m"
| "exc_str (ExecutionApprovalSuspendedError m) = m"
| "exc_str (ContainerRuntimeError m) = m"
| "exc_str (CrewAIUnsupportedOperationError m) = m"
| "exc_str (IntegrityError m) = m"
| "exc_str (KeyError m) = m"
| "exc_str (OverflowError m) = m"
| "exc_str (PermissionError m) = m"
| "exc_str (RuntimeError m) = m"
| "exc_str (TypeError m) = m"
| "exc_str (ValidationError m) = m"
| "exc_str (ValueError m) = m"

text \<open>\<open>type(exc).__name__\<close>, and the exceptions caught by \<open>except ExecutionPausedError\<close>.\<close>

fun exc_name :: "exc \<Rightarrow> string" where
  "exc_name (ApprovalRequiredError _) = ''ApprovalRequiredError''"
| "exc_name (AttributeError _) = ''AttributeError''"
| "exc_name (ExecutionCancelledError _) = ''ExecutionCancelledError''"
| "exc_name (ExecutionPausedError _) = ''ExecutionPausedError''"
| "exc_name (OtherError n _) = n"
| "exc_name (TimeoutError _) = ''TimeoutError''"
| "exc_name (ExecutionNotFoundError _) = ''ExecutionNotFoundError''"
| "exc_name (WorkflowNotFoundError _) = ''WorkflowNotFoundError''"
| "exc_name (ExecutionWaitNotFoundError _) = ''ExecutionWaitNotFoundError''"
| "exc_name (ExecutionWaitConflictError _) = ''ExecutionWaitConflictError''"
| "exc_name (ExecutionApprovalSuspendedError _) = ''ExecutionApprovalSuspendedError''"
| "exc_name (ContainerRuntimeError _) = ''ContainerRuntimeError''"
| "exc_name (CrewAIUnsupportedOperationError _) = ''CrewAIUnsupportedOperationError''"
| "exc_name (IntegrityError _) = ''IntegrityError''"
| "exc_name (KeyError _) = ''KeyError''"
| "exc_name (OverflowError _) = ''OverflowError''"
| "exc_name (PermissionError _) = ''PermissionError''"
| "exc_name (RuntimeError _) = ''RuntimeError''"
| "exc_name (TypeError _) = ''TypeError''"
| "exc_name (ValidationError _) = ''ValidationError''"
| "exc_name (ValueError _) = ''ValueError''"

fun is_paused_error :: "exc \<Rightarrow> bool" where
  "is_paused_error (ExecutionPausedError _) = True"
| "is_paused_error (ExecutionApprovalSuspendedError _) = True"
| "is_paused_error _ = False"

fun is_cancelled_error :: "exc \<Rightarrow> bool" where
  "is_cancelled_error (ExecutionCancelledError _) = True"
| "is_cancelled_error _ = False"

section \<open>Shared lemmas\<close>

lemma jget_dset [simp]: "jget (dset k v d) k' = (if k = k' then v else jget d k')"
  by (simp add: jget_def update_conv')

lemma jget_dpop [simp]: "jget (dpop k d) k' = (if k = k' then VNone else jget d k')"
  by (simp add: jget_def delete_conv')

lemma jget_Nil [simp]: "jget [] k = VNone"
  by (simp add: jget_def)

lemma jget_Cons [simp]: "jget ((k, v) # d) k' = (if k = k' then v else jget d k')"
  by (simp add: jget_def)

lemma map_of_dset [simp]: "map_of (dset k v d) = (map_of d)(k \<mapsto> v)"
  by (simp add: update_conv')

lemma map_of_dpop [simp]: "map_of (dpop k d) = (map_of d)(k := None)"
  by (simp add: delete_conv')

lemma dvalues_Nil [simp]: "dvalues [] = []"
  by (simp add: dvalues_def)

lemma dvalues_Cons [simp]: "dvalues (x # d) = snd x # dvalues d"
  by (simp add: dvalues_def)

lemma in_dvalues_map_of: "map_of d k = Some v \<Longrightarrow> v \<in> set (dvalues d)"
  by (force simp: dvalues_def dest: map_of_SomeD)

lemma dvalues_in_map_of:
  assumes "distinct (map fst d)" and "v \<in> set (dvalues d)"
  shows "\<exists>k. map_of d k = Some v"
  using assms by (force simp: dvalues_def)

lemma distinct_fst_dset [simp]:
  "distinct (map fst d) \<Longrightarrow> distinct (map fst (dset k v d))"
  by (rule distinct_update)

lemma or_str_None [simp]: "or_str None b = b"
  by (simp add: or_str_def)

lemma set_strip_subset: "set (strip s) \<subseteq> set s"
  unfolding strip_def by (metis set_dropWhileD set_rev subsetI)

lemma length_last_n: "length (last_n n xs) = min n (length xs)"
  by (simp add: last_n_def)

lemma last_n_id: "length xs \<le> n \<Longrightarrow> last_n n xs = xs"
  by (simp add: last_n_def)

lemma set_last_n_subset: "set (last_n n xs) \<subseteq> set xs"
  by (simp add: last_n_def set_drop_subset)

lemma set_slice_to_subset: "set (slice_to n xs) \<subseteq> set xs"
  by (simp add: slice_to_def set_take_subset)

lemma length_slice_to_le: "length (slice_to n xs) \<le> length xs"
  by (simp add: slice_to_def)

end
