(* ===== verification/Domain.thy ===== *)
theory Domain
  imports Py_Prelude
begin

text \<open>
  The domain contracts of \<open>app/domain\<close> that the runtime keeps: executions
  (\<open>executions.py\<close>), their events (\<open>events.py\<close>), durable waits (\<open>execution_waits.py\<close>),
  the in-process state of a native run (\<open>runtime/native/state.py\<close>), approval rows and the
  state Docker reports for a worker container (\<open>runtime/containers.py\<close>). A pydantic model is
  a record with all of its fields; a validator is a function that returns the normalised
  record or the error it raises.
\<close>

section \<open>Executions\<close>

datatype ExecutionStatus =
    CREATED
  | QUEUED
  | RUNNING
  | WAITING_FOR_INPUT
  | WAITING_FOR_APPROVAL
  | WAITING_FOR_EVENT
  | SLEEPING
  | PAUSED
  | CANCELLING
  | COMPLETED
  | FAILED
  | CANCELLED

primrec execution_status_value :: "ExecutionStatus \<Rightarrow> string" where
  "execution_status_value CREATED = ''created''"
| "execution_status_value QUEUED = ''queued''"
| "execution_status_value RUNNING = ''running''"
| "execution_status_value WAITING_FOR_INPUT = ''waiting_for_input''"
| "execution_status_value WAITING_FOR_APPROVAL = ''waiting_for_approval''"
| "execution_status_value WAITING_FOR_EVENT = ''waiting_for_event''"
| "execution_status_value SLEEPING = ''sleeping''"
| "execution_status_value PAUSED = ''paused''"
| "execution_status_value CANCELLING = ''cancelling''"
| "execution_status_value COMPLETED = ''completed''"
| "execution_status_value FAILED = ''failed''"
| "execution_status_value CANCELLED = ''cancelled''"

record ExecutionArtifact =
  art_id :: string
  art_execution_id :: string
  art_event_id :: "string option"
  art_type :: string
  art_name :: string
  art_content_json :: "json option"
  art_content_text :: "string option"
  art_uri :: "string option"
  art_media_type :: "string option"
  art_size_bytes :: "int option"
  art_created_at :: datetime
  art_metadata :: json

record Execution =
  e_id :: string
  e_workflow_id :: string
  e_goal_id :: "string option"
  e_workflow_version_id :: "string option"
  e_runtime_adapter_id :: string
  e_runtime_revision_id :: "string option"
  e_runtime_fingerprint :: "string option"
  e_status :: ExecutionStatus
  e_trigger_type :: string
  e_trigger_payload :: json
  e_input_payload :: json
  e_output_payload :: "json option"
  e_error :: "string option"
  e_created_at :: datetime
  e_started_at :: "datetime option"
  e_completed_at :: "datetime option"
  e_updated_at :: datetime
  e_created_by :: "string option"
  e_worker_id :: "string option"
  e_last_heartbeat_at :: "datetime option"
  e_container_id :: "string option"
  e_container_name :: "string option"
  e_container_image :: "string option"
  e_container_status :: "string option"
  e_container_started_at :: "datetime option"
  e_container_ended_at :: "datetime option"
  e_container_exit_code :: "int option"
  e_replacement_of_execution_id :: "string option"
  e_restart_reason :: "string option"
  e_metadata :: json

section \<open>Execution events\<close>

datatype (plugins only: code size) ExecutionEventType =
    WORKFLOW_STARTED
  | WORKFLOW_COMPLETED
  | WORKFLOW_FAILED
  | EXECUTION_CREATED
  | EXECUTION_STARTED
  | EXECUTION_CYCLE_STARTED
  | EXECUTION_CYCLE_COMPLETED
  | EXECUTION_CYCLE_FAILED
  | EXECUTION_CYCLE_GUARD_TRIGGERED
  | EXECUTION_WAITING
  | EXECUTION_WOKEN
  | EXECUTION_PAUSED
  | EXECUTION_RESUMED
  | EXECUTION_CANCELLED
  | EXECUTION_COMPLETED
  | EXECUTION_FAILED
  | EXECUTION_REPAIRED
  | TASK_STARTED
  | AGENT_STEP_STARTED
  | AGENT_STEP_COMPLETED
  | AGENT_STEP_FAILED
  | SUBAGENT_TASK_ASSIGNED
  | SUBAGENT_PROGRESS_UPDATED
  | SUBAGENT_STEP_COMPLETED
  | SUBAGENT_STEP_FAILED
  | SUBAGENT_NEEDS_INPUT
  | SUBAGENT_NEEDS_APPROVAL
  | AGENT_MESSAGE_CREATED
  | ROUTING_DECISION_RECORDED
  | ROUTING_EVALUATION_RECORDED
  | LLM_REQUEST_CREATED
  | LLM_RESPONSE_CREATED
  | MODEL_FALLBACK_USED
  | MODEL_FALLBACK_FAILED
  | TOKEN_USAGE_RECORDED
  | TOKEN_BUDGET_WARNING
  | TOKEN_BUDGET_EXCEEDED
  | CONTEXT_HEALTH_RECORDED
  | CONTEXT_COMPACTION_STARTED
  | CONTEXT_COMPACTION_COMPLETED
  | CONTEXT_COMPACTION_FAILED
  | SUPERVISOR_STEERING_REQUESTED
  | SUPERVISOR_STEERING_APPLIED
  | TOOL_CALL_STARTED
  | TOOL_CALL_COMPLETED
  | TOOL_CALL_FAILED
  | HANDOFF_REQUESTED
  | HANDOFF_COMPLETED
  | ARTIFACT_CREATED
  | APPROVAL_REQUESTED
  | APPROVAL_GRANTED
  | APPROVAL_REJECTED
  | CONTAINER_CREATED
  | CONTAINER_STARTED
  | CONTAINER_REPLACED
  | CONTAINER_STOPPED
  | CONTAINER_FAILED
  | ONECLI_WORKER_ENFORCEMENT_RECORDED
  | RUNTIME_REVISION_RESOLVED
  | RUNTIME_REVISION_INVALIDATED
  | RUNTIME_BUILD_STARTED
  | RUNTIME_BUILD_COMPLETED
  | RUNTIME_BUILD_FAILED
  | MONITOR_FINDING_CREATED
  | MONITOR_EVALUATION_RECORDED
  | MONITOR_IMPROVEMENT_PROPOSED
  | MONITOR_IMPROVEMENT_COMPARED
  | OUTBOUND_WEBHOOK_QUEUED
  | OUTBOUND_WEBHOOK_SENT
  | OUTBOUND_WEBHOOK_FAILED
  | AGENT_IMPORT_PREVIEWED
  | AGENT_IMPORT_COMMITTED

primrec event_type_value :: "ExecutionEventType \<Rightarrow> string" where
  "event_type_value WORKFLOW_STARTED = ''workflow.started''"
| "event_type_value WORKFLOW_COMPLETED = ''workflow.completed''"
| "event_type_value WORKFLOW_FAILED = ''workflow.failed''"
| "event_type_value EXECUTION_CREATED = ''execution.created''"
| "event_type_value EXECUTION_STARTED = ''execution.started''"
| "event_type_value EXECUTION_CYCLE_STARTED = ''execution.cycle.started''"
| "event_type_value EXECUTION_CYCLE_COMPLETED = ''execution.cycle.completed''"
| "event_type_value EXECUTION_CYCLE_FAILED = ''execution.cycle.failed''"
| "event_type_value EXECUTION_CYCLE_GUARD_TRIGGERED = ''execution.cycle.guard_triggered''"
| "event_type_value EXECUTION_WAITING = ''execution.waiting''"
| "event_type_value EXECUTION_WOKEN = ''execution.woken''"
| "event_type_value EXECUTION_PAUSED = ''execution.paused''"
| "event_type_value EXECUTION_RESUMED = ''execution.resumed''"
| "event_type_value EXECUTION_CANCELLED = ''execution.cancelled''"
| "event_type_value EXECUTION_COMPLETED = ''execution.completed''"
| "event_type_value EXECUTION_FAILED = ''execution.failed''"
| "event_type_value EXECUTION_REPAIRED = ''execution.repaired''"
| "event_type_value TASK_STARTED = ''task.started''"
| "event_type_value AGENT_STEP_STARTED = ''agent.step.started''"
| "event_type_value AGENT_STEP_COMPLETED = ''agent.step.completed''"
| "event_type_value AGENT_STEP_FAILED = ''agent.step.failed''"
| "event_type_value SUBAGENT_TASK_ASSIGNED = ''subagent.task.assigned''"
| "event_type_value SUBAGENT_PROGRESS_UPDATED = ''subagent.progress.updated''"
| "event_type_value SUBAGENT_STEP_COMPLETED = ''subagent.step.completed''"
| "event_type_value SUBAGENT_STEP_FAILED = ''subagent.step.failed''"
| "event_type_value SUBAGENT_NEEDS_INPUT = ''subagent.needs_input''"
| "event_type_value SUBAGENT_NEEDS_APPROVAL = ''subagent.needs_approval''"
| "event_type_value AGENT_MESSAGE_CREATED = ''agent.message.created''"
| "event_type_value ROUTING_DECISION_RECORDED = ''routing.decision.recorded''"
| "event_type_value ROUTING_EVALUATION_RECORDED = ''routing.evaluation.recorded''"
| "event_type_value LLM_REQUEST_CREATED = ''llm.request.created''"
| "event_type_value LLM_RESPONSE_CREATED = ''llm.response.created''"
| "event_type_value MODEL_FALLBACK_USED = ''model.fallback.used''"
| "event_type_value MODEL_FALLBACK_FAILED = ''model.fallback.failed''"
| "event_type_value TOKEN_USAGE_RECORDED = ''token.usage.recorded''"
| "event_type_value TOKEN_BUDGET_WARNING = ''token.budget.warning''"
| "event_type_value TOKEN_BUDGET_EXCEEDED = ''token.budget.exceeded''"
| "event_type_value CONTEXT_HEALTH_RECORDED = ''context.health.recorded''"
| "event_type_value CONTEXT_COMPACTION_STARTED = ''context.compaction.started''"
| "event_type_value CONTEXT_COMPACTION_COMPLETED = ''context.compaction.completed''"
| "event_type_value CONTEXT_COMPACTION_FAILED = ''context.compaction.failed''"
| "event_type_value SUPERVISOR_STEERING_REQUESTED = ''supervisor.steering.requested''"
| "event_type_value SUPERVISOR_STEERING_APPLIED = ''supervisor.steering.applied''"
| "event_type_value TOOL_CALL_STARTED = ''tool.call.started''"
| "event_type_value TOOL_CALL_COMPLETED = ''tool.call.completed''"
| "event_type_value TOOL_CALL_FAILED = ''tool.call.failed''"
| "event_type_value HANDOFF_REQUESTED = ''handoff.requested''"
| "event_type_value HANDOFF_COMPLETED = ''handoff.completed''"
| "event_type_value ARTIFACT_CREATED = ''artifact.created''"
| "event_type_value APPROVAL_REQUESTED = ''approval.requested''"
| "event_type_value APPROVAL_GRANTED = ''approval.granted''"
| "event_type_value APPROVAL_REJECTED = ''approval.rejected''"
| "event_type_value CONTAINER_CREATED = ''container.created''"
| "event_type_value CONTAINER_STARTED = ''container.started''"
| "event_type_value CONTAINER_REPLACED = ''container.replaced''"
| "event_type_value CONTAINER_STOPPED = ''container.stopped''"
| "event_type_value CONTAINER_FAILED = ''container.failed''"
| "event_type_value ONECLI_WORKER_ENFORCEMENT_RECORDED = ''onecli.worker.enforcement.recorded''"
| "event_type_value RUNTIME_REVISION_RESOLVED = ''runtime.revision.resolved''"
| "event_type_value RUNTIME_REVISION_INVALIDATED = ''runtime.revision.invalidated''"
| "event_type_value RUNTIME_BUILD_STARTED = ''runtime.build.started''"
| "event_type_value RUNTIME_BUILD_COMPLETED = ''runtime.build.completed''"
| "event_type_value RUNTIME_BUILD_FAILED = ''runtime.build.failed''"
| "event_type_value MONITOR_FINDING_CREATED = ''monitor.finding.created''"
| "event_type_value MONITOR_EVALUATION_RECORDED = ''monitor.evaluation.recorded''"
| "event_type_value MONITOR_IMPROVEMENT_PROPOSED = ''monitor.improvement.proposed''"
| "event_type_value MONITOR_IMPROVEMENT_COMPARED = ''monitor.improvement.compared''"
| "event_type_value OUTBOUND_WEBHOOK_QUEUED = ''outbound_webhook.queued''"
| "event_type_value OUTBOUND_WEBHOOK_SENT = ''outbound_webhook.sent''"
| "event_type_value OUTBOUND_WEBHOOK_FAILED = ''outbound_webhook.failed''"
| "event_type_value AGENT_IMPORT_PREVIEWED = ''agent.import.previewed''"
| "event_type_value AGENT_IMPORT_COMMITTED = ''agent.import.committed''"

record ExecutionEvent =
  ev_id :: string
  ev_execution_id :: string
  ev_workflow_id :: "string option"
  ev_agent_id :: "string option"
  ev_task_id :: "string option"
  ev_tool_call_id :: "string option"
  ev_model_request_id :: "string option"
  ev_parent_event_id :: "string option"
  ev_trace_id :: "string option"
  ev_span_id :: "string option"
  ev_event_type :: ExecutionEventType
  ev_timestamp :: datetime
  ev_sequence :: int
  ev_actor_type :: string
  ev_actor :: "string option"
  ev_source :: "string option"
  ev_status :: "string option"
  ev_payload :: json
  ev_payload_sha256 :: "string option"
  ev_metrics :: json
  ev_redacted_fields :: "string list"
  ev_metadata :: json

text \<open>\<open>normalize_event_fields\<close>: the actor type of an event built without one.\<close>

definition default_actor_type :: "string option \<Rightarrow> string" where
  "default_actor_type actor = (if truthy_str actor then ''agent'' else ''system'')"

section \<open>Durable waits\<close>

datatype ExecutionWaitKind = INPUT | APPROVAL | EVENT | SLEEP

primrec wait_kind_value :: "ExecutionWaitKind \<Rightarrow> string" where
  "wait_kind_value INPUT = ''input''"
| "wait_kind_value APPROVAL = ''approval''"
| "wait_kind_value EVENT = ''event''"
| "wait_kind_value SLEEP = ''sleep''"

datatype ExecutionWaitStatus = PENDING | RESOLVED | EXPIRED | CANCELLED

primrec wait_status_value :: "ExecutionWaitStatus \<Rightarrow> string" where
  "wait_status_value PENDING = ''pending''"
| "wait_status_value RESOLVED = ''resolved''"
| "wait_status_value EXPIRED = ''expired''"
| "wait_status_value ExecutionWaitStatus.CANCELLED = ''cancelled''"

definition TERMINAL_EXECUTION_WAIT_STATUSES :: "ExecutionWaitStatus set" where
  "TERMINAL_EXECUTION_WAIT_STATUSES = {RESOLVED, EXPIRED, ExecutionWaitStatus.CANCELLED}"

record ExecutionWait =
  w_id :: string
  w_execution_id :: string
  w_kind :: ExecutionWaitKind
  w_status :: ExecutionWaitStatus
  w_idempotency_key :: string
  w_correlation_key :: "string option"
  w_checkpoint :: json
  w_request_payload :: json
  w_policy :: json
  w_resolution_payload :: "json option"
  w_resolution_key :: "string option"
  w_wake_at :: "datetime option"
  w_deadline_at :: "datetime option"
  w_resolved_at :: "datetime option"
  w_resolved_by :: "string option"
  w_created_at :: datetime
  w_updated_at :: datetime
  w_metadata :: json

text \<open>The length limits pydantic checks on the fields before the validator runs.\<close>

definition max_len :: "nat \<Rightarrow> string option \<Rightarrow> bool" where
  "max_len n s = (case s of None \<Rightarrow> True | Some t \<Rightarrow> length t \<le> n)"

definition wait_fields_ok :: "ExecutionWait \<Rightarrow> bool" where
  "wait_fields_ok w \<longleftrightarrow>
     1 \<le> length (w_idempotency_key w) \<and> length (w_idempotency_key w) \<le> 255 \<and>
     max_len 255 (w_correlation_key w) \<and> max_len 255 (w_resolution_key w) \<and>
     max_len 255 (w_resolved_by w)"

definition validate_lifecycle :: "ExecutionWait \<Rightarrow> exc + ExecutionWait" where
  "validate_lifecycle w =
    (if \<not> wait_fields_ok w then Inl (ValidationError ''field length'')
     else if strip (w_idempotency_key w) = [] then
       Inl (ValidationError ''Execution wait idempotency_key must not be empty.'')
     else if w_kind w = SLEEP \<and> w_wake_at w = None then
       Inl (ValidationError ''Sleep waits require wake_at.'')
     else if w_kind w \<noteq> SLEEP \<and> w_wake_at w \<noteq> None then
       Inl (ValidationError ''Only sleep waits may define wake_at.'')
     else if w_kind w = EVENT \<and>
         strip (case w_correlation_key w of None \<Rightarrow> [] | Some c \<Rightarrow> c) = [] then
       Inl (ValidationError ''Event waits require correlation_key.'')
     else if (case (w_wake_at w, w_deadline_at w) of
                (Some wake, Some deadline) \<Rightarrow> deadline < wake | _ \<Rightarrow> False) then
       Inl (ValidationError ''Execution wait deadline_at cannot be earlier than wake_at.'')
     else if w_status w = PENDING \<and> w_resolved_at w \<noteq> None then
       Inl (ValidationError ''Pending execution waits cannot have resolved_at.'')
     else if w_status w \<in> TERMINAL_EXECUTION_WAIT_STATUSES \<and> w_resolved_at w = None then
       Inr (w\<lparr>w_resolved_at := Some (w_updated_at w)\<rparr>)
     else Inr w)"

section \<open>Approval rows, run state and containers\<close>

text \<open>
  A row of \<open>_approval_requests\<close>. Its \<open>requested_at\<close> and \<open>responded_at\<close> are the ISO strings
  the store writes.
\<close>

record ApprovalRequest =
  ar_id :: string
  ar_execution_id :: string
  ar_event_id :: "string option"
  ar_tool_id :: string
  ar_status :: string
  ar_request_payload :: json
  ar_response_payload :: json
  ar_requested_at :: string
  ar_responded_at :: "string option"
  ar_responded_by :: "string option"

text \<open>
  \<open>NativeExecutionState\<close>, the fields the modelled operations read or write; the memory entries,
  graph contexts and compacted packs belong to the agent executor, which is not modelled.
\<close>

record NativeExecutionState =
  st_execution_id :: string
  st_workflow_id :: string
  st_trace_id :: string
  st_paused :: bool
  st_cancelled :: bool
  st_sequence :: int
  st_node_outputs :: json
  st_node_outcomes :: json
  st_node_errors :: json
  st_task_tool_results :: json
  st_current_node_id :: "string option"
  st_current_agent_id :: "string option"
  st_current_task_id :: "string option"
  st_planned_node_ids :: "string list"
  st_terminal_node_ids :: "string list"
  st_last_event_id :: "string option"

record RuntimeContainerState =
  c_container_id :: string
  c_name :: string
  c_image :: string
  c_status :: string
  c_labels :: "string dict"
  c_started_at :: "datetime option"
  c_finished_at :: "datetime option"
  c_exit_code :: "int option"

text \<open>
  What the Docker daemon keeps, as its client library presents it: containers and images with
  the JSON object \<open>attrs\<close> their inspection returns.
\<close>

record docker_container =
  dk_id :: string
  dk_name :: string
  dk_status :: string
  dk_image_tags :: "string list"
  dk_attrs :: json

record docker_image =
  di_id :: string
  di_tags :: "string list"
  di_attrs :: json

record docker_daemon =
  dd_containers :: "docker_container list"
  dd_images :: "docker_image list"

section \<open>What the validator guarantees\<close>

lemma validate_lifecycle_InrD:
  assumes "validate_lifecycle w = Inr w'"
  shows "w' = w \<or> w' = w\<lparr>w_resolved_at := Some (w_updated_at w)\<rparr>"
  using assms by (auto simp: validate_lifecycle_def split: if_splits)

lemma validate_lifecycle_frame:
  assumes "validate_lifecycle w = Inr w'"
  shows "w_id w' = w_id w" "w_execution_id w' = w_execution_id w" "w_status w' = w_status w"
    "w_idempotency_key w' = w_idempotency_key w" "w_kind w' = w_kind w"
    "w_created_at w' = w_created_at w" "w_wake_at w' = w_wake_at w"
    "w_deadline_at w' = w_deadline_at w" "w_correlation_key w' = w_correlation_key w"
    "w_resolution_key w' = w_resolution_key w" "w_metadata w' = w_metadata w"
  using validate_lifecycle_InrD [OF assms] by auto

lemma pending_not_terminal [simp]: "PENDING \<notin> TERMINAL_EXECUTION_WAIT_STATUSES"
  by (simp add: TERMINAL_EXECUTION_WAIT_STATUSES_def)

lemma wait_status_cases: "w_status w = PENDING \<or> w_status w \<in> TERMINAL_EXECUTION_WAIT_STATUSES"
  by (cases "w_status w") (auto simp: TERMINAL_EXECUTION_WAIT_STATUSES_def)

definition wait_guards_ok :: "ExecutionWait \<Rightarrow> bool" where
  "wait_guards_ok w \<longleftrightarrow> wait_fields_ok w \<and> strip (w_idempotency_key w) \<noteq> [] \<and>
     \<not> (w_kind w = SLEEP \<and> w_wake_at w = None) \<and> \<not> (w_kind w \<noteq> SLEEP \<and> w_wake_at w \<noteq> None) \<and>
     \<not> (w_kind w = EVENT \<and> strip (case w_correlation_key w of None \<Rightarrow> [] | Some c \<Rightarrow> c) = []) \<and>
     \<not> (case (w_wake_at w, w_deadline_at w) of
          (Some wake, Some deadline) \<Rightarrow> deadline < wake | _ \<Rightarrow> False) \<and>
     \<not> (w_status w = PENDING \<and> w_resolved_at w \<noteq> None)"

lemma validate_lifecycle_guards:
  "validate_lifecycle w = (if wait_guards_ok w then
       Inr (if w_status w \<in> TERMINAL_EXECUTION_WAIT_STATUSES \<and> w_resolved_at w = None
            then w\<lparr>w_resolved_at := Some (w_updated_at w)\<rparr> else w)
     else validate_lifecycle w)"
proof (cases "wait_guards_ok w")
  case True
  then show ?thesis
    unfolding wait_guards_ok_def validate_lifecycle_def by (simp only: simp_thms if_True if_False) simp
qed simp

lemma validate_lifecycle_InrE:
  "validate_lifecycle w = Inr w' \<Longrightarrow> wait_guards_ok w"
  unfolding wait_guards_ok_def validate_lifecycle_def
  by (simp only: split: if_split_asm) (simp_all only: simp_thms sum.distinct)

lemma validate_lifecycle_InrI:
  assumes "wait_guards_ok w" and "w_status w = PENDING \<or> w_resolved_at w \<noteq> None"
  shows "validate_lifecycle w = Inr w"
  using assms by (subst validate_lifecycle_guards) auto

section \<open>Runtime revisions\<close>

datatype RuntimeRevisionStatus = REV_PENDING | REV_BUILDING | REV_READY | REV_FAILED | REV_INVALIDATED

primrec revision_status_value :: "RuntimeRevisionStatus \<Rightarrow> string" where
  "revision_status_value REV_PENDING = ''pending''"
| "revision_status_value REV_BUILDING = ''building''"
| "revision_status_value REV_READY = ''ready''"
| "revision_status_value REV_FAILED = ''failed''"
| "revision_status_value REV_INVALIDATED = ''invalidated''"

record RuntimeRevision =
  rv_id :: string
  rv_fingerprint :: string
  rv_source_path :: string
  rv_build_status :: RuntimeRevisionStatus
  rv_image_name :: "string option"
  rv_image_tag :: "string option"
  rv_base_image :: "string option"
  rv_build_log_ref :: "string option"
  rv_created_at :: datetime
  rv_updated_at :: datetime
  rv_ready_at :: "datetime option"
  rv_invalidated_at :: "datetime option"
  rv_invalidation_reason :: "string option"
  rv_metadata :: json

end
