(* ===== verification/Execution_Activity.thy ===== *)
theory Execution_Activity
  imports Domain
begin

text \<open>
  \<open>app/services/execution_activity.py\<close>: which events count as agent activity, how an event is
  recorded on its execution, and how the last activity is read back. \<open>datetime.fromisoformat\<close>
  accepts many formats and is a parameter, \<open>fromiso\<close>, of the reader.
\<close>

definition ACTIVITY_EVENT_TYPES :: "ExecutionEventType list" where
  "ACTIVITY_EVENT_TYPES =
    [EXECUTION_STARTED, EXECUTION_CYCLE_STARTED, EXECUTION_CYCLE_COMPLETED,
     EXECUTION_CYCLE_FAILED, EXECUTION_CYCLE_GUARD_TRIGGERED, EXECUTION_PAUSED,
     EXECUTION_RESUMED, TASK_STARTED, AGENT_STEP_STARTED, AGENT_STEP_COMPLETED,
     AGENT_STEP_FAILED, SUBAGENT_TASK_ASSIGNED, SUBAGENT_PROGRESS_UPDATED,
     SUBAGENT_STEP_COMPLETED, SUBAGENT_STEP_FAILED, SUBAGENT_NEEDS_INPUT,
     SUBAGENT_NEEDS_APPROVAL, AGENT_MESSAGE_CREATED, LLM_REQUEST_CREATED,
     LLM_RESPONSE_CREATED, CONTEXT_HEALTH_RECORDED, CONTEXT_COMPACTION_STARTED,
     CONTEXT_COMPACTION_COMPLETED, CONTEXT_COMPACTION_FAILED, TOOL_CALL_STARTED,
     TOOL_CALL_COMPLETED, TOOL_CALL_FAILED, HANDOFF_REQUESTED, ARTIFACT_CREATED,
     APPROVAL_REQUESTED, APPROVAL_GRANTED, APPROVAL_REJECTED, RUNTIME_BUILD_STARTED,
     RUNTIME_BUILD_COMPLETED, RUNTIME_BUILD_FAILED]"

definition activity_payload_for_event :: "ExecutionEvent \<Rightarrow> json option" where
  "activity_payload_for_event event =
    (if ev_event_type event \<notin> set ACTIVITY_EVENT_TYPES then None
     else Some
       [(''last_activity_at'', VStr (isoformat (ev_timestamp event))),
        (''last_activity_event_id'', VStr (ev_id event)),
        (''last_activity_event_type'', VStr (event_type_value (ev_event_type event))),
        (''last_activity_sequence'', VInt (ev_sequence event)),
        (''last_activity_agent_id'', opt_str (ev_agent_id event)),
        (''last_activity_task_id'', opt_str (ev_task_id event)),
        (''last_activity_tool_call_id'', opt_str (ev_tool_call_id event)),
        (''last_activity_model_request_id'', opt_str (ev_model_request_id event))])"

text \<open>The changed execution, or \<open>None\<close> where the code returns \<open>False\<close>.\<close>

definition apply_activity_to_execution :: "Execution \<Rightarrow> ExecutionEvent \<Rightarrow> Execution option" where
  "apply_activity_to_execution execution event =
    (case activity_payload_for_event event of
       None \<Rightarrow> None
     | Some activity \<Rightarrow>
         Some (execution\<lparr>e_metadata := dset ''runtime_activity'' (VDict activity) (e_metadata execution),
                         e_updated_at := ev_timestamp event\<rparr>))"

definition replace_Z :: "string \<Rightarrow> string" where
  "replace_Z s = concat (map (\<lambda>c. if c = CHR ''Z'' then ''+00:00'' else [c]) s)"

definition execution_last_activity_at ::
  "(string \<Rightarrow> datetime option) \<Rightarrow> Execution \<Rightarrow> datetime option" where
  "execution_last_activity_at fromiso execution =
    (case as_dict (jget (e_metadata execution) ''runtime_activity'') of
       None \<Rightarrow> None
     | Some activity \<Rightarrow>
         (case as_str (jget activity ''last_activity_at'') of
            None \<Rightarrow> None
          | Some raw_value \<Rightarrow>
              if raw_value = [] then None else fromiso (replace_Z raw_value)))"

section \<open>Recording and reading back\<close>

text \<open>\<open>isoformat\<close> never prints a \<open>Z\<close>, so the replacement leaves its output alone.\<close>

lemma digit_not_Z: "(n::nat) < 10 \<Longrightarrow> ''0123456789'' ! n \<noteq> CHR ''Z''"
  by (auto simp: less_Suc_eq numeral_eq_Suc)

lemma nat_str_no_Z: "CHR ''Z'' \<notin> set (nat_str n)"
proof (induction n rule: nat_str.induct)
  case (1 n)
  show ?case
  proof (cases "n < 10")
    case True
    then show ?thesis using digit_not_Z [OF True] by (subst nat_str.simps) (simp del: nth_Cons')
  next
    case False
    with 1 have "CHR ''Z'' \<notin> set (nat_str (n div 10))" by simp
    then show ?thesis using False digit_not_Z [of "n mod 10"]
      by (subst nat_str.simps) (simp del: nth_Cons')
  qed
qed

lemma pad_no_Z: "CHR ''Z'' \<notin> set (pad k n)"
  using nat_str_no_Z by (simp add: pad_def Let_def)

lemma isoformat_no_Z: "CHR ''Z'' \<notin> set (isoformat t)"
  by (simp add: isoformat_def Let_def pad_no_Z split: prod.split)

lemma replace_Z_id: "CHR ''Z'' \<notin> set s \<Longrightarrow> replace_Z s = s"
  by (induction s) (auto simp: replace_Z_def)

lemma isoformat_nonempty: "isoformat t \<noteq> []"
  by (simp add: isoformat_def Let_def split: prod.split)

lemma apply_activity_reads_back:
  assumes "apply_activity_to_execution execution event = Some execution'"
    and "fromiso (isoformat (ev_timestamp event)) = Some (ev_timestamp event)"
  shows "execution_last_activity_at fromiso execution' = Some (ev_timestamp event)"
  using assms
  by (auto simp: apply_activity_to_execution_def activity_payload_for_event_def
      execution_last_activity_at_def replace_Z_id isoformat_no_Z isoformat_nonempty
      split: if_splits)

lemma apply_activity_frame:
  assumes "apply_activity_to_execution execution event = Some execution'"
  shows "e_id execution' = e_id execution" "e_status execution' = e_status execution"
    "e_worker_id execution' = e_worker_id execution"
    "k \<noteq> ''runtime_activity'' \<Longrightarrow> jget (e_metadata execution') k = jget (e_metadata execution) k"
  using assms by (auto simp: apply_activity_to_execution_def split: option.splits)

end
