(* ===== verification/Execution_Store.thy ===== *)
theory Execution_Store
  imports Execution_Activity
begin

text \<open>
  \<open>InMemoryExecutionStore\<close> of \<open>app/runtime/native/state.py\<close> with the repositories it is built
  from (\<open>app/db/repositories/executions.py\<close>). The store holds values: a caller that reads an
  execution gets a copy and writes it back with \<open>update_execution\<close>, as with the SQL store.
  Every operation takes the clock reading \<open>now\<close> it uses and returns its result with the new
  store. Coroutines interleave between operations only, so each operation is one step.
\<close>

section \<open>State\<close>

record store =
  executions :: "Execution dict"
  events :: "(ExecutionEvent list) dict"
  sequences :: "int dict"
  artifacts :: "(ExecutionArtifact list) dict"
  approval_requests :: "ApprovalRequest dict"
  waits :: "ExecutionWait dict"

definition empty_store :: store where
  "empty_store = \<lparr>executions = [], events = [], sequences = [], artifacts = [],
     approval_requests = [], waits = []\<rparr>"

definition get_default :: "'v dict \<Rightarrow> string \<Rightarrow> 'v \<Rightarrow> 'v" where
  "get_default d k x = (case map_of d k of None \<Rightarrow> x | Some v \<Rightarrow> v)"

section \<open>Executions\<close>

definition repo_save_execution :: "datetime \<Rightarrow> Execution \<Rightarrow> store \<Rightarrow> Execution \<times> store" where
  "repo_save_execution now execution s =
    (let execution' = execution\<lparr>e_updated_at := now\<rparr>
     in (execution', s\<lparr>executions := dset (e_id execution) execution' (executions s)\<rparr>))"

definition get_execution :: "string \<Rightarrow> store \<Rightarrow> Execution option" where
  "get_execution execution_id s = map_of (executions s) execution_id"

text \<open>\<open>save_execution\<close>: \<open>create_execution\<close> and \<open>save_execution\<close> of the repository do the same.\<close>

definition save_execution :: "datetime \<Rightarrow> Execution \<Rightarrow> store \<Rightarrow> Execution \<times> store" where
  "save_execution now execution s =
    (case get_execution (e_id execution) s of
       None \<Rightarrow> repo_save_execution now execution s
     | Some _ \<Rightarrow> repo_save_execution now execution s)"

definition update_execution :: "datetime \<Rightarrow> Execution \<Rightarrow> store \<Rightarrow> store" where
  "update_execution now execution s = snd (repo_save_execution now execution s)"

definition list_executions :: "store \<Rightarrow> Execution list" where
  "list_executions s = dvalues (executions s)"

definition active_status_values :: "string list" where
  "active_status_values =
    [''queued'', ''running'', ''waiting_for_input'', ''waiting_for_approval'',
     ''waiting_for_event'', ''sleeping'', ''paused'', ''cancelling'']"

definition list_active_executions :: "store \<Rightarrow> Execution list" where
  "list_active_executions s =
    filter (\<lambda>execution. execution_status_value (e_status execution) \<in> set active_status_values)
      (dvalues (executions s))"

definition list_executions_by_workflow :: "string \<Rightarrow> store \<Rightarrow> Execution list" where
  "list_executions_by_workflow workflow_id s =
    filter (\<lambda>execution. e_workflow_id execution = workflow_id) (dvalues (executions s))"

definition list_executions_by_agent :: "string \<Rightarrow> store \<Rightarrow> Execution list" where
  "list_executions_by_agent agent_id s =
    filter (\<lambda>execution. VStr agent_id \<in>
        set (case as_list (jget (e_metadata execution) ''agent_ids'') of None \<Rightarrow> [] | Some xs \<Rightarrow> xs))
      (dvalues (executions s))"

text \<open>
  \<open>delete_execution\<close>; the repository's \<open>_sequences\<close> counter is not among what it clears.
\<close>

definition delete_execution :: "string \<Rightarrow> store \<Rightarrow> bool \<times> store" where
  "delete_execution execution_id s =
    (map_of (executions s) execution_id \<noteq> None,
     s\<lparr>executions := dpop execution_id (executions s),
       events := dpop execution_id (events s),
       artifacts := dpop execution_id (artifacts s),
       approval_requests :=
         filter (\<lambda>(request_id, request). ar_execution_id request \<noteq> execution_id) (approval_requests s),
       waits := filter (\<lambda>(wait_id, wait). w_execution_id wait \<noteq> execution_id) (waits s)\<rparr>)"

section \<open>Events and artifacts\<close>

definition append_event :: "ExecutionEvent \<Rightarrow> store \<Rightarrow> ExecutionEvent \<times> store" where
  "append_event event s =
    (let eid = ev_execution_id event;
         next_sequence = get_default (sequences s) eid 0 + 1;
         event' = event\<lparr>ev_sequence := next_sequence\<rparr>
     in (event', s\<lparr>sequences := dset eid next_sequence (sequences s),
                   events := dset eid (get_default (events s) eid [] @ [event']) (events s)\<rparr>))"

definition save_event :: "datetime \<Rightarrow> ExecutionEvent \<Rightarrow> store \<Rightarrow> ExecutionEvent \<times> store" where
  "save_event now event s =
    (let (saved, s1) = append_event event s
     in case get_execution (ev_execution_id saved) s1 of
          None \<Rightarrow> (saved, s1)
        | Some execution \<Rightarrow>
            (case apply_activity_to_execution execution saved of
               None \<Rightarrow> (saved, s1)
             | Some execution' \<Rightarrow> (saved, snd (repo_save_execution now execution' s1))))"

definition list_events :: "string \<Rightarrow> store \<Rightarrow> ExecutionEvent list" where
  "list_events execution_id s = get_default (events s) execution_id []"

definition list_events_after :: "string \<Rightarrow> int \<Rightarrow> store \<Rightarrow> ExecutionEvent list" where
  "list_events_after execution_id after_sequence s =
    filter (\<lambda>event. ev_sequence event > after_sequence) (get_default (events s) execution_id [])"

text \<open>The loop of \<open>delete_event\<close> over the dictionary's items.\<close>

fun delete_event_items ::
  "string \<Rightarrow> (string \<times> ExecutionEvent list) list \<Rightarrow> (string \<times> ExecutionEvent list) option" where
  "delete_event_items event_id [] = None"
| "delete_event_items event_id ((execution_id, evs) # rest) =
    (let remaining = filter (\<lambda>event. ev_id event \<noteq> event_id) evs
     in if length remaining \<noteq> length evs then Some (execution_id, remaining)
        else delete_event_items event_id rest)"

definition delete_event :: "string \<Rightarrow> store \<Rightarrow> bool \<times> store" where
  "delete_event event_id s =
    (case delete_event_items event_id (events s) of
       None \<Rightarrow> (False, s)
     | Some (execution_id, remaining) \<Rightarrow>
         (True, s\<lparr>events := dset execution_id remaining (events s)\<rparr>))"

definition save_artifact :: "ExecutionArtifact \<Rightarrow> store \<Rightarrow> store" where
  "save_artifact artifact s =
    s\<lparr>artifacts := dset (art_execution_id artifact)
        (get_default (artifacts s) (art_execution_id artifact) [] @ [artifact]) (artifacts s)\<rparr>"

definition list_artifacts :: "string \<Rightarrow> store \<Rightarrow> ExecutionArtifact list" where
  "list_artifacts execution_id s = get_default (artifacts s) execution_id []"

section \<open>Approval requests\<close>

definition create_approval_request ::
  "datetime \<Rightarrow> string \<Rightarrow> string \<Rightarrow> string option \<Rightarrow> string \<Rightarrow> string \<Rightarrow> json \<Rightarrow> store \<Rightarrow> store" where
  "create_approval_request now request_id execution_id event_id tool_id status payload s =
    s\<lparr>approval_requests := dset request_id
        \<lparr>ar_id = request_id, ar_execution_id = execution_id, ar_event_id = event_id,
         ar_tool_id = tool_id, ar_status = status, ar_request_payload = payload,
         ar_response_payload = [], ar_requested_at = isoformat now, ar_responded_at = None,
         ar_responded_by = None\<rparr> (approval_requests s)\<rparr>"

definition update_approval_request ::
  "datetime \<Rightarrow> string \<Rightarrow> string \<Rightarrow> json \<Rightarrow> string option \<Rightarrow> store \<Rightarrow> store" where
  "update_approval_request now request_id status response_payload responded_by s =
    (case map_of (approval_requests s) request_id of
       None \<Rightarrow> s
     | Some current \<Rightarrow>
         s\<lparr>approval_requests := dset request_id
            (current\<lparr>ar_status := status, ar_response_payload := response_payload,
               ar_responded_at := Some (isoformat now), ar_responded_by := responded_by\<rparr>)
            (approval_requests s)\<rparr>)"

definition get_approval_request :: "string \<Rightarrow> store \<Rightarrow> ApprovalRequest option" where
  "get_approval_request request_id s = map_of (approval_requests s) request_id"

text \<open>Python's \<open>max\<close> with a key: the first of the largest.\<close>

fun max_by :: "('a \<Rightarrow> 'k::linorder) \<Rightarrow> 'a \<Rightarrow> 'a list \<Rightarrow> 'a" where
  "max_by key best [] = best"
| "max_by key best (x # xs) = max_by key (if key best < key x then x else best) xs"

definition request_key :: "ApprovalRequest \<Rightarrow> string \<times> string" where
  "request_key item = (ar_requested_at item, ar_id item)"

definition resolve_pending_approval_request ::
  "datetime \<Rightarrow> string \<Rightarrow> string \<Rightarrow> string \<Rightarrow> json \<Rightarrow> string option \<Rightarrow> store \<Rightarrow>
     ApprovalRequest option \<times> store" where
  "resolve_pending_approval_request now execution_id tool_id status response_payload responded_by s =
    (case filter (\<lambda>item. ar_execution_id item = execution_id \<and> ar_tool_id item = tool_id)
            (dvalues (approval_requests s)) of
       [] \<Rightarrow> (None, s)
     | m # ms \<Rightarrow>
         (let current = max_by request_key m ms
          in if ar_status current = status then (Some current, s)
             else if ar_status current \<noteq> ''pending'' then (None, s)
             else (let s' = update_approval_request now (ar_id current) status response_payload
                              responded_by s
                   in (get_approval_request (ar_id current) s', s'))))"

definition list_approval_requests :: "string \<Rightarrow> store \<Rightarrow> ApprovalRequest list" where
  "list_approval_requests execution_id s =
    sort_key request_key
      (filter (\<lambda>item. ar_execution_id item = execution_id) (dvalues (approval_requests s)))"

section \<open>The wait ledger\<close>

definition create_execution_wait :: "ExecutionWait \<Rightarrow> store \<Rightarrow> exc + (ExecutionWait \<times> store)" where
  "create_execution_wait wait s =
    (case find (\<lambda>item. w_execution_id item = w_execution_id wait \<and>
                       w_idempotency_key item = w_idempotency_key wait) (dvalues (waits s)) of
       Some existing \<Rightarrow> Inr (existing, s)
     | None \<Rightarrow>
         if w_status wait = PENDING \<and>
            (\<exists>item \<in> set (dvalues (waits s)).
               w_execution_id item = w_execution_id wait \<and> w_status item = PENDING)
         then Inl (ValueError (''Execution '' @ quote (w_execution_id wait) @ '' already has a pending wait.''))
         else Inr (wait, s\<lparr>waits := dset (w_id wait) wait (waits s)\<rparr>))"

definition get_execution_wait :: "string \<Rightarrow> store \<Rightarrow> ExecutionWait option" where
  "get_execution_wait wait_id s = map_of (waits s) wait_id"

definition wait_key :: "ExecutionWait \<Rightarrow> datetime \<times> string" where
  "wait_key wait = (w_created_at wait, w_id wait)"

definition list_execution_waits ::
  "string \<Rightarrow> ExecutionWaitStatus option \<Rightarrow> store \<Rightarrow> ExecutionWait list" where
  "list_execution_waits execution_id status s =
    (let items = filter (\<lambda>wait. w_execution_id wait = execution_id) (dvalues (waits s));
         items' = (case status of None \<Rightarrow> items
                   | Some st \<Rightarrow> filter (\<lambda>wait. w_status wait = st) items)
     in sort_key wait_key items')"

definition resolve_execution_wait ::
  "datetime \<Rightarrow> string \<Rightarrow> ExecutionWaitStatus \<Rightarrow> string \<Rightarrow> json \<Rightarrow> string option \<Rightarrow> store \<Rightarrow>
     (ExecutionWait option \<times> bool) \<times> store" where
  "resolve_execution_wait now wait_id status resolution_key resolution_payload resolved_by s =
    (case map_of (waits s) wait_id of
       None \<Rightarrow> ((None, False), s)
     | Some wait \<Rightarrow>
         if w_status wait \<noteq> PENDING then
           ((if w_resolution_key wait = Some resolution_key then Some wait else None, False), s)
         else
           (let updated = wait\<lparr>w_status := status, w_resolution_key := Some resolution_key,
                  w_resolution_payload := Some resolution_payload, w_resolved_at := Some now,
                  w_resolved_by := resolved_by, w_updated_at := now\<rparr>
            in ((Some updated, True), s\<lparr>waits := dset wait_id updated (waits s)\<rparr>)))"

definition time_or_0 :: "datetime option \<Rightarrow> datetime" where
  "time_or_0 t = (case t of None \<Rightarrow> 0 | Some d \<Rightarrow> d)"

definition due :: "datetime \<Rightarrow> datetime option \<Rightarrow> bool" where
  "due before t = (case t of None \<Rightarrow> False | Some d \<Rightarrow> d \<le> before)"

definition list_due_execution_waits :: "datetime \<Rightarrow> int \<Rightarrow> store \<Rightarrow> ExecutionWait list" where
  "list_due_execution_waits before limit s =
    slice_to limit (sort_key (\<lambda>wait. (time_or_0 (w_wake_at wait), w_created_at wait, w_id wait))
      (filter (\<lambda>wait. w_status wait = PENDING \<and> due before (w_wake_at wait)) (dvalues (waits s))))"

definition list_expired_execution_waits :: "datetime \<Rightarrow> int \<Rightarrow> store \<Rightarrow> ExecutionWait list" where
  "list_expired_execution_waits before limit s =
    slice_to limit (sort_key (\<lambda>wait. (time_or_0 (w_deadline_at wait), w_created_at wait, w_id wait))
      (filter (\<lambda>wait. w_status wait = PENDING \<and> due before (w_deadline_at wait)) (dvalues (waits s))))"

definition list_pending_execution_waits_by_correlation ::
  "string \<Rightarrow> int \<Rightarrow> store \<Rightarrow> ExecutionWait list" where
  "list_pending_execution_waits_by_correlation correlation_key limit s =
    slice_to limit (sort_key wait_key
      (filter (\<lambda>wait. w_status wait = PENDING \<and> w_correlation_key wait = Some correlation_key)
        (dvalues (waits s))))"

section \<open>Worker locks\<close>

text \<open>\<open>(now - last_heartbeat).total_seconds() > stale_after_seconds\<close>, or no heartbeat at all.\<close>

definition heartbeat_is_stale :: "datetime \<Rightarrow> int \<Rightarrow> datetime option \<Rightarrow> bool" where
  "heartbeat_is_stale now stale_after_seconds last_heartbeat =
    (case last_heartbeat of None \<Rightarrow> True | Some h \<Rightarrow> now - h > seconds stale_after_seconds)"

definition acquire_lock :: "datetime \<Rightarrow> string \<Rightarrow> string \<Rightarrow> int \<Rightarrow> store \<Rightarrow> bool \<times> store" where
  "acquire_lock now execution_id worker_id stale_after_seconds s =
    (case map_of (executions s) execution_id of
       None \<Rightarrow> (False, s)
     | Some execution \<Rightarrow>
         if e_worker_id execution = None \<or> e_worker_id execution = Some worker_id \<or>
            heartbeat_is_stale now stale_after_seconds (e_last_heartbeat_at execution)
         then (True, s\<lparr>executions := dset execution_id
                 (execution\<lparr>e_worker_id := Some worker_id, e_last_heartbeat_at := Some now\<rparr>)
                 (executions s)\<rparr>)
         else (False, s))"

definition release_lock :: "string \<Rightarrow> string \<Rightarrow> store \<Rightarrow> bool \<times> store" where
  "release_lock execution_id worker_id s =
    (case map_of (executions s) execution_id of
       None \<Rightarrow> (False, s)
     | Some execution \<Rightarrow>
         if e_worker_id execution \<noteq> Some worker_id then (False, s)
         else (True, s\<lparr>executions := dset execution_id (execution\<lparr>e_worker_id := None\<rparr>)
                 (executions s)\<rparr>))"

definition heartbeat :: "datetime \<Rightarrow> string \<Rightarrow> string \<Rightarrow> store \<Rightarrow> Execution option \<times> store" where
  "heartbeat now execution_id worker_id s =
    (case map_of (executions s) execution_id of
       None \<Rightarrow> (None, s)
     | Some execution \<Rightarrow>
         if e_worker_id execution \<noteq> None \<and> e_worker_id execution \<noteq> Some worker_id
         then (Some execution, s)
         else (let execution' = execution\<lparr>e_worker_id := Some worker_id,
                                          e_last_heartbeat_at := Some now\<rparr>
               in (Some execution', s\<lparr>executions := dset execution_id execution' (executions s)\<rparr>)))"

end
