(* ===== verification/Wait_Ledger.thy ===== *)
theory Wait_Ledger
  imports Execution_Store
begin

text \<open>
  The contract every execution store keeps for its wait ledger, as a locale, and what follows
  from it for any interleaving of creators and resolvers: a wait is claimed at most once, a
  settled wait never changes, an execution never has two pending waits, and two stores that
  keep the contract cannot be told apart. The in-memory store keeps it; the SQL store does too
  (theory \<open>SQL_Ledger\<close>).
\<close>

section \<open>Sequences of ledger operations\<close>

datatype ledger_op =
    Create ExecutionWait
  | Resolve datetime string ExecutionWaitStatus string json "string option"

datatype ledger_obs =
    Raised
  | Created ExecutionWait
  | Claimed ExecutionWait
  | NotClaimed "ExecutionWait option"

type_synonym 'l create_fn = "ExecutionWait \<Rightarrow> 'l \<Rightarrow> exc + (ExecutionWait \<times> 'l)"
type_synonym 'l resolve_fn = "datetime \<Rightarrow> string \<Rightarrow> ExecutionWaitStatus \<Rightarrow> string \<Rightarrow> json \<Rightarrow>
  string option \<Rightarrow> 'l \<Rightarrow> exc + ((ExecutionWait option \<times> bool) \<times> 'l)"

fun ledger_step :: "'l create_fn \<Rightarrow> 'l resolve_fn \<Rightarrow> ledger_op \<Rightarrow> 'l \<Rightarrow> ledger_obs \<times> 'l" where
  "ledger_step create resolve (Create w) l =
    (case create w l of Inl _ \<Rightarrow> (Raised, l) | Inr (w', l') \<Rightarrow> (Created w', l'))"
| "ledger_step create resolve (Resolve now i st k p b) l =
    (case resolve now i st k p b l of
       Inl _ \<Rightarrow> (Raised, l)
     | Inr ((Some w, True), l') \<Rightarrow> (Claimed w, l')
     | Inr ((r, _), l') \<Rightarrow> (NotClaimed r, l'))"

fun ledger_run :: "'l create_fn \<Rightarrow> 'l resolve_fn \<Rightarrow> ledger_op list \<Rightarrow> 'l \<Rightarrow> ledger_obs list \<times> 'l" where
  "ledger_run create resolve [] l = ([], l)"
| "ledger_run create resolve (x # xs) l =
    (let (ob, l') = ledger_step create resolve x l; (obs, l'') = ledger_run create resolve xs l'
     in (ob # obs, l''))"

fun claimed_ids :: "ledger_obs list \<Rightarrow> string list" where
  "claimed_ids [] = []"
| "claimed_ids (Claimed w # obs) = w_id w # claimed_ids obs"
| "claimed_ids (_ # obs) = claimed_ids obs"

fun created_ids :: "ledger_op list \<Rightarrow> string list" where
  "created_ids [] = []"
| "created_ids (Create w # xs) = w_id w # created_ids xs"
| "created_ids (_ # xs) = created_ids xs"

text \<open>
  What a caller passes: a wait the model validator accepted, and a terminal status with keys
  that fit their 255-character columns.
\<close>

definition resolution_ok :: "ExecutionWaitStatus \<Rightarrow> string \<Rightarrow> string option \<Rightarrow> bool" where
  "resolution_ok st k b \<longleftrightarrow> st \<in> TERMINAL_EXECUTION_WAIT_STATUSES \<and> length k \<le> 255 \<and> max_len 255 b"

fun op_ok :: "ledger_op \<Rightarrow> bool" where
  "op_ok (Create w) = (validate_lifecycle w = Inr w \<and> w_status w = PENDING)"
| "op_ok (Resolve now i st k p b) = resolution_ok st k b"

text \<open>A script is admissible when its operations are and the ids it creates are new.\<close>

definition script_ok ::
  "(string \<Rightarrow> 'l \<Rightarrow> ExecutionWait option) \<Rightarrow> ledger_op list \<Rightarrow> 'l \<Rightarrow> bool" where
  "script_ok get xs l \<longleftrightarrow> (\<forall>x \<in> set xs. op_ok x) \<and> distinct (created_ids xs) \<and>
     (\<forall>i \<in> set (created_ids xs). get i l = None)"

definition resolved_wait ::
  "datetime \<Rightarrow> ExecutionWaitStatus \<Rightarrow> string \<Rightarrow> json \<Rightarrow> string option \<Rightarrow> ExecutionWait \<Rightarrow> ExecutionWait" where
  "resolved_wait now st k p b w = w\<lparr>w_status := st, w_resolution_key := Some k,
     w_resolution_payload := Some p, w_resolved_at := Some now, w_resolved_by := b,
     w_updated_at := now\<rparr>"

lemma resolved_wait_simps [simp]:
  "w_id (resolved_wait now st k p b w) = w_id w"
  "w_execution_id (resolved_wait now st k p b w) = w_execution_id w"
  "w_idempotency_key (resolved_wait now st k p b w) = w_idempotency_key w"
  "w_status (resolved_wait now st k p b w) = st"
  "w_resolution_key (resolved_wait now st k p b w) = Some k"
  "w_kind (resolved_wait now st k p b w) = w_kind w"
  by (simp_all add: resolved_wait_def)

definition same_slot :: "ExecutionWait \<Rightarrow> ExecutionWait \<Rightarrow> bool" where
  "same_slot w v \<longleftrightarrow> w_execution_id w = w_execution_id v \<and>
     (w_status w = PENDING \<and> w_status v = PENDING \<or> w_idempotency_key w = w_idempotency_key v)"

lemma same_slot_commute: "same_slot w v = same_slot v w"
  by (auto simp: same_slot_def)

lemma resolution_ok_not_pending: "resolution_ok st k b \<Longrightarrow> st \<noteq> PENDING"
  by (auto simp: resolution_ok_def)

section \<open>The contract\<close>

locale wait_ledger =
  fixes create :: "'l create_fn"
    and resolve :: "'l resolve_fn"
    and get :: "string \<Rightarrow> 'l \<Rightarrow> ExecutionWait option"
    and invar :: "'l \<Rightarrow> bool"
  assumes get_id: "invar l \<Longrightarrow> get i l = Some w \<Longrightarrow> w_id w = i"
    and slot_unique: "invar l \<Longrightarrow> get i l = Some w \<Longrightarrow> get j l = Some v \<Longrightarrow> same_slot w v \<Longrightarrow> i = j"
    and resolve_missing: "invar l \<Longrightarrow> get i l = None \<Longrightarrow>
      resolve now i st k p b l = Inr ((None, False), l)"
    and resolve_settled: "invar l \<Longrightarrow> get i l = Some w \<Longrightarrow> w_status w \<noteq> PENDING \<Longrightarrow>
      resolve now i st k p b l =
        Inr ((if w_resolution_key w = Some k then Some w else None, False), l)"
    and resolve_pending: "invar l \<Longrightarrow> get i l = Some w \<Longrightarrow> w_status w = PENDING \<Longrightarrow>
      resolution_ok st k b \<Longrightarrow>
      \<exists>l'. resolve now i st k p b l = Inr ((Some (resolved_wait now st k p b w), True), l') \<and>
        invar l' \<and> (\<forall>j. get j l' = (if j = i then Some (resolved_wait now st k p b w) else get j l))"
    and create_existing: "invar l \<Longrightarrow> get i l = Some w \<Longrightarrow>
      w_execution_id w = w_execution_id v \<Longrightarrow> w_idempotency_key w = w_idempotency_key v \<Longrightarrow>
      op_ok (Create v) \<Longrightarrow> create v l = Inr (w, l)"
    and create_conflict: "invar l \<Longrightarrow> get i l = Some w \<Longrightarrow> w_status w = PENDING \<Longrightarrow>
      w_execution_id w = w_execution_id v \<Longrightarrow> op_ok (Create v) \<Longrightarrow>
      (\<And>j u. get j l = Some u \<Longrightarrow> w_execution_id u = w_execution_id v \<Longrightarrow>
         w_idempotency_key u \<noteq> w_idempotency_key v) \<Longrightarrow> \<exists>e. create v l = Inl e"
    and create_fresh: "invar l \<Longrightarrow> op_ok (Create v) \<Longrightarrow> get (w_id v) l = None \<Longrightarrow>
      (\<And>j u. get j l = Some u \<Longrightarrow> \<not> same_slot u v) \<Longrightarrow>
      \<exists>l'. create v l = Inr (v, l') \<and> invar l' \<and>
        (\<forall>j. get j l' = (if j = w_id v then Some v else get j l))"
begin

definition settled :: "string \<Rightarrow> 'l \<Rightarrow> bool" where
  "settled i l \<longleftrightarrow> (\<exists>w. get i l = Some w \<and> w_status w \<noteq> PENDING)"

text \<open>The three outcomes of a creation.\<close>

lemma create_cases:
  assumes inv: "invar l" and ok: "op_ok (Create v)" and fresh: "get (w_id v) l = None"
  obtains (existing) i w where "get i l = Some w" "w_execution_id w = w_execution_id v"
      "w_idempotency_key w = w_idempotency_key v" "create v l = Inr (w, l)"
  | (conflict) e where "create v l = Inl e"
      "\<And>j u. get j l = Some u \<Longrightarrow> w_execution_id u = w_execution_id v \<Longrightarrow>
         w_idempotency_key u \<noteq> w_idempotency_key v"
  | (inserted) l' where "create v l = Inr (v, l')" "invar l'"
      "\<And>j. get j l' = (if j = w_id v then Some v else get j l)"
      "\<And>j u. get j l = Some u \<Longrightarrow> \<not> same_slot u v"
proof -
  consider (a) i w where "get i l = Some w" "w_execution_id w = w_execution_id v"
      "w_idempotency_key w = w_idempotency_key v"
    | (b) i w where "get i l = Some w" "w_execution_id w = w_execution_id v" "w_status w = PENDING"
      "\<And>j u. get j l = Some u \<Longrightarrow> w_execution_id u = w_execution_id v \<Longrightarrow>
         w_idempotency_key u \<noteq> w_idempotency_key v"
    | (c) "\<And>j u. get j l = Some u \<Longrightarrow> \<not> same_slot u v"
    unfolding same_slot_def by blast
  then show ?thesis
  proof cases
    case a
    then show ?thesis using create_existing [OF inv a(1,2,3) ok] existing by blast
  next
    case b
    have "\<exists>e. create v l = Inl e" by (rule create_conflict [OF inv b(1,3,2) ok]) (rule b(4))
    then show ?thesis using conflict b(4) by blast
  next
    case c
    have "\<exists>l'. create v l = Inr (v, l') \<and> invar l' \<and>
        (\<forall>j. get j l' = (if j = w_id v then Some v else get j l))"
      by (rule create_fresh [OF inv ok fresh]) (rule c)
    then show ?thesis using inserted c by blast
  qed
qed

lemma step_invar:
  assumes "invar l" and "op_ok x" and "\<And>i. i \<in> set (created_ids [x]) \<Longrightarrow> get i l = None"
  shows "invar (snd (ledger_step create resolve x l))"
proof (cases x)
  case (Create v)
  with assms have ok: "op_ok (Create v)" and fr: "get (w_id v) l = None" by simp_all
  show ?thesis using assms(1)
    by (cases rule: create_cases [OF assms(1) ok fr]) (simp_all add: Create)
next
  case (Resolve now i st k p b)
  with assms have ok: "resolution_ok st k b" by simp
  show ?thesis
  proof (cases "get i l")
    case None
    then show ?thesis using assms(1) by (simp add: Resolve resolve_missing)
  next
    case (Some w)
    show ?thesis
    proof (cases "w_status w = PENDING")
      case True
      then show ?thesis using resolve_pending [OF assms(1) Some True ok, of now p]
        by (auto simp: Resolve)
    next
      case False
      then show ?thesis using assms(1) by (simp add: Resolve resolve_settled [OF assms(1) Some])
    qed
  qed
qed

text \<open>Ids that are neither created nor present stay absent.\<close>

lemma step_absent:
  assumes "invar l" and "op_ok x" and "\<And>i. i \<in> set (created_ids [x]) \<Longrightarrow> get i l = None"
    and "j \<notin> set (created_ids [x])" and "get j l = None"
  shows "get j (snd (ledger_step create resolve x l)) = None"
proof (cases x)
  case (Create v)
  with assms have ok: "op_ok (Create v)" and fr: "get (w_id v) l = None" and j: "j \<noteq> w_id v"
    by simp_all
  show ?thesis using assms(5) j
    by (cases rule: create_cases [OF assms(1) ok fr]) (simp_all add: Create)
next
  case (Resolve now i st k p b)
  with assms have ok: "resolution_ok st k b" by simp
  show ?thesis
  proof (cases "get i l")
    case None
    then show ?thesis using assms by (simp add: Resolve resolve_missing)
  next
    case (Some w)
    show ?thesis
    proof (cases "w_status w = PENDING")
      case True
      then show ?thesis using resolve_pending [OF assms(1) Some True ok, of now p] assms(5) Some
        by (auto simp: Resolve)
    next
      case False
      then show ?thesis using assms by (simp add: Resolve resolve_settled [OF assms(1) Some])
    qed
  qed
qed

text \<open>A settled wait is never touched again.\<close>

lemma step_settled:
  assumes "invar l" and "op_ok x" and "\<And>i. i \<in> set (created_ids [x]) \<Longrightarrow> get i l = None"
    and g: "get j l = Some w" "w_status w \<noteq> PENDING"
  shows "get j (snd (ledger_step create resolve x l)) = Some w"
    and "j \<notin> set (claimed_ids [fst (ledger_step create resolve x l)])"
proof -
  have "get j (snd (ledger_step create resolve x l)) = Some w \<and>
    j \<notin> set (claimed_ids [fst (ledger_step create resolve x l)])"
  proof (cases x)
    case (Create v)
    with assms have ok: "op_ok (Create v)" and fr: "get (w_id v) l = None" by simp_all
    have "j \<noteq> w_id v" using fr g by auto
    then show ?thesis using g
      by (cases rule: create_cases [OF assms(1) ok fr]) (simp_all add: Create)
  next
    case (Resolve now i st k p b)
    with assms have ok: "resolution_ok st k b" by simp
    show ?thesis
    proof (cases "get i l")
      case None
      then show ?thesis using assms by (simp add: Resolve resolve_missing)
    next
      case (Some u)
      show ?thesis
      proof (cases "w_status u = PENDING")
        case True
        with Some g have "i \<noteq> j" by auto
        then show ?thesis
          using resolve_pending [OF assms(1) Some True ok, of now p] g get_id [OF assms(1) Some]
          by (auto simp: Resolve)
      next
        case False
        then show ?thesis using g by (simp add: Resolve resolve_settled [OF assms(1) Some])
      qed
    qed
  qed
  then show "get j (snd (ledger_step create resolve x l)) = Some w"
    and "j \<notin> set (claimed_ids [fst (ledger_step create resolve x l)])" by blast+
qed

text \<open>A claim settles the wait it claims.\<close>

lemma step_claimed:
  assumes "invar l" and "op_ok x" and "j \<in> set (claimed_ids [fst (ledger_step create resolve x l)])"
  shows "settled j (snd (ledger_step create resolve x l))"
proof (cases x)
  case (Create v)
  then show ?thesis using assms(3) by (auto split: sum.splits)
next
  case (Resolve now i st k p b)
  with assms have ok: "resolution_ok st k b" by simp
  show ?thesis
  proof (cases "get i l")
    case None
    then show ?thesis using assms by (simp add: Resolve resolve_missing)
  next
    case (Some u)
    show ?thesis
    proof (cases "w_status u = PENDING")
      case True
      show ?thesis
        using resolve_pending [OF assms(1) Some True ok, of now p] assms(3)
          get_id [OF assms(1) Some] resolution_ok_not_pending [OF ok]
        by (auto simp: Resolve settled_def)
    next
      case False
      then show ?thesis using assms
        by (simp add: Resolve resolve_settled [OF assms(1) Some] split: if_splits)
    qed
  qed
qed

lemma claimed_ids_Cons: "claimed_ids (ob # obs) = claimed_ids [ob] @ claimed_ids obs"
  by (cases ob) simp_all

lemma run_Cons_simps:
  "snd (ledger_run create resolve (x # xs) l) =
     snd (ledger_run create resolve xs (snd (ledger_step create resolve x l)))"
  "claimed_ids (fst (ledger_run create resolve (x # xs) l)) =
     claimed_ids [fst (ledger_step create resolve x l)] @
     claimed_ids (fst (ledger_run create resolve xs (snd (ledger_step create resolve x l))))"
  by (simp add: case_prod_unfold Let_def)
    (simp only: ledger_run.simps Let_def case_prod_unfold fst_conv, rule claimed_ids_Cons)

lemma created_ids_Cons: "created_ids (x # xs) = created_ids [x] @ created_ids xs"
  by (cases x) simp_all

lemma script_ok_Cons:
  assumes "invar l" and "script_ok get (x # xs) l"
  shows "op_ok x" and "\<And>i. i \<in> set (created_ids [x]) \<Longrightarrow> get i l = None"
    and "script_ok get xs (snd (ledger_step create resolve x l))"
proof -
  from assms(2) show ok: "op_ok x" by (simp add: script_ok_def)
  from assms(2) show new: "\<And>i. i \<in> set (created_ids [x]) \<Longrightarrow> get i l = None"
    by (subst (asm) script_ok_def) (auto simp: created_ids_Cons [of x xs])
  have "get i (snd (ledger_step create resolve x l)) = None" if "i \<in> set (created_ids xs)" for i
    by (rule step_absent [OF assms(1) ok new])
      (use assms(2) that in \<open>auto simp: script_ok_def created_ids_Cons [of x xs]\<close>)
  then show "script_ok get xs (snd (ledger_step create resolve x l))"
    using assms(2) by (auto simp: script_ok_def created_ids_Cons [of x xs])
qed

lemma run_invar:
  "invar l \<Longrightarrow> script_ok get xs l \<Longrightarrow> invar (snd (ledger_run create resolve xs l))"
proof (induction xs arbitrary: l)
  case Nil
  then show ?case by simp
next
  case (Cons x xs)
  note ok = script_ok_Cons [OF Cons.prems]
  have "invar (snd (ledger_step create resolve x l))"
    by (rule step_invar [OF Cons.prems(1) ok(1,2)])
  then have "invar (snd (ledger_run create resolve xs (snd (ledger_step create resolve x l))))"
    by (rule Cons.IH [OF _ ok(3)])
  then show ?case by (simp only: run_Cons_simps)
qed

lemma run_settled:
  "invar l \<Longrightarrow> script_ok get xs l \<Longrightarrow> get j l = Some w \<Longrightarrow> w_status w \<noteq> PENDING \<Longrightarrow>
   get j (snd (ledger_run create resolve xs l)) = Some w \<and>
   j \<notin> set (claimed_ids (fst (ledger_run create resolve xs l)))"
proof (induction xs arbitrary: l)
  case Nil
  then show ?case by simp
next
  case (Cons x xs)
  note ok = script_ok_Cons [OF Cons.prems(1,2)]
  let ?l = "snd (ledger_step create resolve x l)"
  have "invar ?l" by (rule step_invar [OF Cons.prems(1) ok(1,2)])
  moreover have "get j ?l = Some w"
    by (rule step_settled(1) [OF Cons.prems(1) ok(1,2) Cons.prems(3,4)])
  moreover have "j \<notin> set (claimed_ids [fst (ledger_step create resolve x l)])"
    by (rule step_settled(2) [OF Cons.prems(1) ok(1,2) Cons.prems(3,4)])
  ultimately show ?case using Cons.IH [OF _ ok(3)] Cons.prems(4)
    by (simp only: run_Cons_simps set_append Un_iff simp_thms)
qed

theorem run_claims_distinct:
  "invar l \<Longrightarrow> script_ok get xs l \<Longrightarrow> distinct (claimed_ids (fst (ledger_run create resolve xs l)))"
proof (induction xs arbitrary: l)
  case Nil
  then show ?case by simp
next
  case (Cons x xs)
  note ok = script_ok_Cons [OF Cons.prems]
  let ?o = "fst (ledger_step create resolve x l)" and ?l = "snd (ledger_step create resolve x l)"
  let ?rest = "claimed_ids (fst (ledger_run create resolve xs ?l))"
  have inv: "invar ?l" by (rule step_invar [OF Cons.prems(1) ok(1,2)])
  have "distinct ?rest" by (rule Cons.IH [OF inv ok(3)])
  moreover have "j \<notin> set ?rest" if "j \<in> set (claimed_ids [?o])" for j
    using step_claimed [OF Cons.prems(1) ok(1) that] run_settled [OF inv ok(3)]
    by (auto simp: settled_def)
  moreover have "distinct (claimed_ids [?o])" by (cases ?o) simp_all
  ultimately have "distinct (claimed_ids [?o] @ ?rest)" by auto
  then show ?case by (simp only: run_Cons_simps)
qed

end

section \<open>Two ledgers cannot be told apart\<close>

locale ledger_pair =
  a: wait_ledger create1 resolve1 get1 invar1 + b: wait_ledger create2 resolve2 get2 invar2
  for create1 :: "'l create_fn" and resolve1 get1 invar1
    and create2 :: "'m create_fn" and resolve2 get2 invar2
begin

definition related :: "'l \<Rightarrow> 'm \<Rightarrow> bool" where
  "related l m \<longleftrightarrow> invar1 l \<and> invar2 m \<and> (\<forall>i. get1 i l = get2 i m)"

lemma step_related:
  assumes rel: "related l m" and ok: "op_ok x"
    and new: "\<And>i. i \<in> set (created_ids [x]) \<Longrightarrow> get1 i l = None"
  shows "fst (ledger_step create1 resolve1 x l) = fst (ledger_step create2 resolve2 x m)"
    and "related (snd (ledger_step create1 resolve1 x l)) (snd (ledger_step create2 resolve2 x m))"
proof -
  from rel have i1: "invar1 l" and i2: "invar2 m" and g: "\<And>i. get1 i l = get2 i m"
    by (simp_all add: related_def)
  have "fst (ledger_step create1 resolve1 x l) = fst (ledger_step create2 resolve2 x m) \<and>
    related (snd (ledger_step create1 resolve1 x l)) (snd (ledger_step create2 resolve2 x m))"
  proof (cases x)
    case (Create v)
    with ok have okv: "op_ok (Create v)" by simp
    from new Create have f1: "get1 (w_id v) l = None" by simp
    show ?thesis
    proof (cases rule: a.create_cases [OF i1 okv f1])
      case (1 i w)
      have "create2 v m = Inr (w, m)"
        by (rule b.create_existing [OF i2 _ 1(2,3) okv]) (use 1(1) g in simp)
      then show ?thesis using 1(4) rel by (simp add: Create)
    next
      case (2 e)
      have "\<exists>e'. create2 v m = Inl e'"
      proof (rule ccontr)
        assume no: "\<nexists>e'. create2 v m = Inl e'"
        have "\<not> same_slot u v" if u: "get1 j l = Some u" for j u
        proof
          assume "same_slot u v"
          then have "w_execution_id u = w_execution_id v" "w_status u = PENDING"
            using 2(2) [OF u] by (auto simp: same_slot_def)
          then have "\<exists>e'. create2 v m = Inl e'"
            using b.create_conflict [OF i2, of j u v] u g 2(2) okv by auto
          with no show False ..
        qed
        then show False using a.create_fresh [OF i1 okv f1] 2(1) by auto
      qed
      then show ?thesis using 2(1) rel by (auto simp: Create)
    next
      case (3 l')
      from 3(4) have "\<And>j u. get2 j m = Some u \<Longrightarrow> \<not> same_slot u v" by (simp flip: g)
      then obtain m' where "create2 v m = Inr (v, m')" "invar2 m'"
        "\<forall>j. get2 j m' = (if j = w_id v then Some v else get2 j m)"
        using b.create_fresh [OF i2 okv] f1 g by auto
      then show ?thesis using 3(1,2,3) by (simp add: Create related_def g)
    qed
  next
    case (Resolve now i st k p b)
    with ok have rok: "resolution_ok st k b" by simp
    show ?thesis
    proof (cases "get1 i l")
      case None
      then show ?thesis using rel i1 i2
        by (simp add: Resolve a.resolve_missing b.resolve_missing g)
    next
      case (Some w)
      with g have Some2: "get2 i m = Some w" by simp
      show ?thesis
      proof (cases "w_status w = PENDING")
        case True
        from a.resolve_pending [OF i1 Some True rok, of now p]
          b.resolve_pending [OF i2 Some2 True rok, of now p]
        show ?thesis by (auto simp: Resolve related_def g)
      next
        case False
        then show ?thesis using rel
          by (simp add: Resolve a.resolve_settled [OF i1 Some] b.resolve_settled [OF i2 Some2])
      qed
    qed
  qed
  then show "fst (ledger_step create1 resolve1 x l) = fst (ledger_step create2 resolve2 x m)"
    and "related (snd (ledger_step create1 resolve1 x l)) (snd (ledger_step create2 resolve2 x m))"
    by blast+
qed

theorem run_related:
  "related l m \<Longrightarrow> script_ok get1 xs l \<Longrightarrow>
   fst (ledger_run create1 resolve1 xs l) = fst (ledger_run create2 resolve2 xs m) \<and>
   related (snd (ledger_run create1 resolve1 xs l)) (snd (ledger_run create2 resolve2 xs m))"
proof (induction xs arbitrary: l m)
  case Nil
  then show ?case by simp
next
  case (Cons x xs)
  from Cons.prems(1) have i1: "invar1 l" by (simp add: related_def)
  note ok = a.script_ok_Cons [OF i1 Cons.prems(2)]
  note st = step_related [OF Cons.prems(1) ok(1,2)]
  show ?case using Cons.IH [OF st(2) ok(3)] st(1)
    by (simp add: case_prod_unfold Let_def)
qed

end

section \<open>The in-memory store keeps the contract\<close>

definition ledger_inv :: "store \<Rightarrow> bool" where
  "ledger_inv s \<longleftrightarrow> distinct (map fst (waits s)) \<and>
     (\<forall>i w. map_of (waits s) i = Some w \<longrightarrow> w_id w = i) \<and>
     (\<forall>i j w v. map_of (waits s) i = Some w \<longrightarrow> map_of (waits s) j = Some v \<longrightarrow>
        same_slot w v \<longrightarrow> i = j)"

abbreviation mem_resolve :: "store resolve_fn" where
  "mem_resolve now i st k p b s \<equiv> Inr (resolve_execution_wait now i st k p b s)"

lemma ledger_inv_eq: "waits s' = waits s \<Longrightarrow> ledger_inv s' = ledger_inv s"
  by (simp add: ledger_inv_def)

lemma ledger_inv_distinct: "ledger_inv s \<Longrightarrow> distinct (map fst (waits s))"
  by (simp add: ledger_inv_def)

lemma find_wait_None:
  assumes "find P (dvalues d) = None" and "map_of d i = Some w"
  shows "\<not> P w"
  using assms in_dvalues_map_of [OF assms(2)] by (auto simp: find_None_iff)

lemma find_wait_Some:
  assumes "distinct (map fst d)" and "find P (dvalues d) = Some w"
  shows "\<exists>i. map_of d i = Some w \<and> P w"
  using assms(2) dvalues_in_map_of [OF assms(1)] by (auto simp: find_Some_iff)

lemma ledger_inv_insert:
  assumes "ledger_inv s" and "map_of (waits s) (w_id v) = None"
    and "\<And>j u. map_of (waits s) j = Some u \<Longrightarrow> \<not> same_slot u v"
  shows "ledger_inv (s\<lparr>waits := dset (w_id v) v (waits s)\<rparr>)"
  using assms same_slot_commute by (auto simp: ledger_inv_def split: if_splits)

lemma ledger_inv_resolved:
  assumes "ledger_inv s" and "map_of (waits s) i = Some w" and "w_status w = PENDING" and "st \<noteq> PENDING"
  shows "ledger_inv (s\<lparr>waits := dset i (resolved_wait now st k p b w) (waits s)\<rparr>)"
  using assms unfolding ledger_inv_def by (auto simp: same_slot_def split: if_splits)

interpretation mem: wait_ledger create_execution_wait mem_resolve get_execution_wait ledger_inv
proof (unfold_locales, goal_cases)
  case (1 l i w)
  then show ?case by (simp add: ledger_inv_def get_execution_wait_def)
next
  case (2 l i w j v)
  then show ?case unfolding ledger_inv_def get_execution_wait_def by blast
next
  case (3 l i now st k p b)
  then show ?case by (simp add: resolve_execution_wait_def get_execution_wait_def)
next
  case (4 l i w now st k p b)
  then show ?case by (simp add: resolve_execution_wait_def get_execution_wait_def)
next
  case (5 l i w st k b now p)
  have "ledger_inv (l\<lparr>waits := dset i (resolved_wait now st k p b w) (waits l)\<rparr>)"
    by (rule ledger_inv_resolved [OF 5(1) _ 5(3) resolution_ok_not_pending [OF 5(4)]])
      (use 5(2) in \<open>simp add: get_execution_wait_def\<close>)
  then show ?case using 5
    by (simp add: resolve_execution_wait_def get_execution_wait_def resolved_wait_def Let_def)
next
  case (6 l i w v)
  let ?P = "\<lambda>item. w_execution_id item = w_execution_id v \<and> w_idempotency_key item = w_idempotency_key v"
  have w: "map_of (waits l) i = Some w" "?P w" using 6 by (simp_all add: get_execution_wait_def)
  have "find ?P (dvalues (waits l)) = Some w"
  proof (cases "find ?P (dvalues (waits l))")
    case None
    then show ?thesis using find_wait_None [OF None w(1)] w(2) by simp
  next
    case (Some u)
    then obtain j where u: "map_of (waits l) j = Some u" "?P u"
      using find_wait_Some [OF ledger_inv_distinct [OF 6(1)] Some] by blast
    then have "j = i" using 6(1) w unfolding ledger_inv_def same_slot_def by metis
    with u w Some show ?thesis by simp
  qed
  then show ?case by (simp add: create_execution_wait_def)
next
  case (7 l i w v)
  have "find (\<lambda>item. w_execution_id item = w_execution_id v \<and>
      w_idempotency_key item = w_idempotency_key v) (dvalues (waits l)) = None"
    using 7(6) dvalues_in_map_of [OF ledger_inv_distinct [OF 7(1)]]
    unfolding find_None_iff get_execution_wait_def by blast
  moreover have "w \<in> set (dvalues (waits l))"
    using 7(2) by (auto simp: get_execution_wait_def intro: in_dvalues_map_of)
  ultimately show ?case using 7(3,4,5) by (auto simp: create_execution_wait_def)
next
  case (8 l v)
  have no: "\<not> same_slot u v" if "u \<in> set (dvalues (waits l))" for u
    using that 8(4) dvalues_in_map_of [OF ledger_inv_distinct [OF 8(1)]]
    unfolding get_execution_wait_def by blast
  then have "find (\<lambda>item. w_execution_id item = w_execution_id v \<and>
      w_idempotency_key item = w_idempotency_key v) (dvalues (waits l)) = None"
    by (auto simp: find_None_iff same_slot_def)
  moreover have "\<not> (\<exists>item \<in> set (dvalues (waits l)).
      w_execution_id item = w_execution_id v \<and> w_status item = PENDING)"
    using no 8(2) by (auto simp: same_slot_def)
  moreover have "ledger_inv (l\<lparr>waits := dset (w_id v) v (waits l)\<rparr>)"
    by (rule ledger_inv_insert [OF 8(1)]) (use 8(3,4) in \<open>simp_all add: get_execution_wait_def\<close>)
  ultimately show ?case by (auto simp: create_execution_wait_def get_execution_wait_def)
qed

end
