(* ===== verification/SQL_Ledger.thy ===== *)
theory SQL_Ledger
  imports Wait_Ledger
begin

text \<open>
  The wait ledger of \<open>SQLExecutionStore\<close> (\<open>app/runtime/native/state.py\<close>) over the table
  \<open>execution_waits\<close> of \<open>app/db/models/executions.py\<close>: rows with string columns, a primary key
  and the two unique constraints, where a \<open>NULL\<close> active slot never collides. One statement is
  one step of the database. The foreign key to \<open>executions\<close> is not modelled: the callers look
  the execution up first.
\<close>

record ExecutionWaitORM =
  o_id :: string
  o_execution_id :: string
  o_kind :: string
  o_status :: string
  o_idempotency_key :: string
  o_active_slot :: "string option"
  o_correlation_key :: "string option"
  o_checkpoint_json :: json
  o_request_payload_json :: json
  o_policy_json :: json
  o_resolution_payload_json :: "json option"
  o_resolution_key :: "string option"
  o_wake_at :: "datetime option"
  o_deadline_at :: "datetime option"
  o_resolved_at :: "datetime option"
  o_resolved_by :: "string option"
  o_metadata_json :: json
  o_created_at :: datetime
  o_updated_at :: datetime

type_synonym wait_table = "ExecutionWaitORM list"

section \<open>Rows and waits\<close>

definition execution_wait_to_orm :: "ExecutionWait \<Rightarrow> ExecutionWaitORM" where
  "execution_wait_to_orm wait =
    \<lparr>o_id = w_id wait, o_execution_id = w_execution_id wait, o_kind = wait_kind_value (w_kind wait),
     o_status = wait_status_value (w_status wait), o_idempotency_key = w_idempotency_key wait,
     o_active_slot = (if w_status wait = PENDING then Some ''active'' else None),
     o_correlation_key = w_correlation_key wait, o_checkpoint_json = w_checkpoint wait,
     o_request_payload_json = w_request_payload wait, o_policy_json = w_policy wait,
     o_resolution_payload_json = w_resolution_payload wait, o_resolution_key = w_resolution_key wait,
     o_wake_at = w_wake_at wait, o_deadline_at = w_deadline_at wait,
     o_resolved_at = w_resolved_at wait, o_resolved_by = w_resolved_by wait,
     o_metadata_json = w_metadata wait, o_created_at = w_created_at wait,
     o_updated_at = w_updated_at wait\<rparr>"

definition parse_kind :: "string \<Rightarrow> ExecutionWaitKind option" where
  "parse_kind s = find (\<lambda>k. wait_kind_value k = s) [INPUT, APPROVAL, EVENT, SLEEP]"

definition parse_wait_status :: "string \<Rightarrow> ExecutionWaitStatus option" where
  "parse_wait_status s =
    find (\<lambda>k. wait_status_value k = s) [PENDING, RESOLVED, EXPIRED, ExecutionWaitStatus.CANCELLED]"

definition execution_wait_from_orm :: "ExecutionWaitORM \<Rightarrow> exc + ExecutionWait" where
  "execution_wait_from_orm orm =
    (case (parse_kind (o_kind orm), parse_wait_status (o_status orm)) of
       (Some kind, Some status) \<Rightarrow>
         validate_lifecycle
           \<lparr>w_id = o_id orm, w_execution_id = o_execution_id orm, w_kind = kind, w_status = status,
            w_idempotency_key = o_idempotency_key orm, w_correlation_key = o_correlation_key orm,
            w_checkpoint = o_checkpoint_json orm, w_request_payload = o_request_payload_json orm,
            w_policy = o_policy_json orm, w_resolution_payload = o_resolution_payload_json orm,
            w_resolution_key = o_resolution_key orm, w_wake_at = o_wake_at orm,
            w_deadline_at = o_deadline_at orm, w_resolved_at = o_resolved_at orm,
            w_resolved_by = o_resolved_by orm, w_created_at = o_created_at orm,
            w_updated_at = o_updated_at orm, w_metadata = o_metadata_json orm\<rparr>
     | _ \<Rightarrow> Inl (ValidationError ''enum''))"

section \<open>Statements\<close>

text \<open>Whether inserting \<open>new\<close> beside \<open>r\<close> violates a key of the table.\<close>

definition violates :: "ExecutionWaitORM \<Rightarrow> ExecutionWaitORM \<Rightarrow> bool" where
  "violates new r \<longleftrightarrow> o_id r = o_id new \<or>
     o_execution_id r = o_execution_id new \<and> o_idempotency_key r = o_idempotency_key new \<or>
     o_execution_id r = o_execution_id new \<and> o_active_slot new \<noteq> None \<and>
       o_active_slot r = o_active_slot new"

definition sql_create_execution_wait ::
  "ExecutionWait \<Rightarrow> wait_table \<Rightarrow> exc + (ExecutionWait \<times> wait_table)" where
  "sql_create_execution_wait wait rows =
    (let entity = execution_wait_to_orm wait
     in if \<not> (\<exists>r \<in> set rows. violates entity r) then
          (case execution_wait_from_orm entity of
             Inl e \<Rightarrow> Inl e | Inr w \<Rightarrow> Inr (w, rows @ [entity]))
        else
          (case find (\<lambda>r. o_execution_id r = w_execution_id wait \<and>
                          o_idempotency_key r = w_idempotency_key wait) rows of
             None \<Rightarrow> Inl (IntegrityError ''unique constraint'')
           | Some existing \<Rightarrow>
               (case execution_wait_from_orm existing of
                  Inl e \<Rightarrow> Inl e | Inr w \<Rightarrow> Inr (w, rows))))"

definition sql_get_execution_wait :: "string \<Rightarrow> wait_table \<Rightarrow> exc + ExecutionWait option" where
  "sql_get_execution_wait wait_id rows =
    (case find (\<lambda>r. o_id r = wait_id) rows of
       None \<Rightarrow> Inr None
     | Some entity \<Rightarrow>
         (case execution_wait_from_orm entity of Inl e \<Rightarrow> Inl e | Inr w \<Rightarrow> Inr (Some w)))"

definition sql_update_row ::
  "datetime \<Rightarrow> ExecutionWaitStatus \<Rightarrow> string \<Rightarrow> json \<Rightarrow> string option \<Rightarrow> ExecutionWaitORM \<Rightarrow> ExecutionWaitORM" where
  "sql_update_row now status resolution_key resolution_payload resolved_by r =
    r\<lparr>o_status := wait_status_value status, o_resolution_key := Some resolution_key,
      o_resolution_payload_json := Some resolution_payload, o_resolved_at := Some now,
      o_resolved_by := resolved_by, o_updated_at := now, o_active_slot := None\<rparr>"

definition sql_resolve_execution_wait ::
  "datetime \<Rightarrow> string \<Rightarrow> ExecutionWaitStatus \<Rightarrow> string \<Rightarrow> json \<Rightarrow> string option \<Rightarrow> wait_table \<Rightarrow>
     exc + ((ExecutionWait option \<times> bool) \<times> wait_table)" where
  "sql_resolve_execution_wait now wait_id status resolution_key resolution_payload resolved_by rows =
    (let hit = (\<lambda>r. o_id r = wait_id \<and> o_status r = ''pending'');
         rowcount = length (filter hit rows);
         rows' = map (\<lambda>r. if hit r then sql_update_row now status resolution_key
                             resolution_payload resolved_by r else r) rows
     in case find (\<lambda>r. o_id r = wait_id) rows' of
          None \<Rightarrow> Inr ((None, False), rows')
        | Some entity \<Rightarrow>
            (case execution_wait_from_orm entity of
               Inl e \<Rightarrow> Inl e
             | Inr resolved \<Rightarrow>
                 if rowcount = 1 then Inr ((Some resolved, True), rows')
                 else if w_resolution_key resolved = Some resolution_key
                 then Inr ((Some resolved, False), rows')
                 else Inr ((None, False), rows')))"

section \<open>The round trip between rows and waits\<close>

lemma parse_kind_value [simp]: "parse_kind (wait_kind_value k) = Some k"
  by (cases k) (simp_all add: parse_kind_def)

lemma parse_wait_status_value [simp]: "parse_wait_status (wait_status_value k) = Some k"
  by (cases k) (simp_all add: parse_wait_status_def)

lemma from_to_orm: "execution_wait_from_orm (execution_wait_to_orm w) = validate_lifecycle w"
  by (cases w) (simp add: execution_wait_from_orm_def execution_wait_to_orm_def)

lemma status_value_pending [simp]: "wait_status_value st = ''pending'' \<longleftrightarrow> st = PENDING"
  by (cases st) simp_all

text \<open>
  A well-formed table: each row is the image of a valid wait, primary keys are distinct and
  no two rows are in the same slot.
\<close>

definition row_of :: "ExecutionWait \<Rightarrow> ExecutionWaitORM \<Rightarrow> bool" where
  "row_of w r \<longleftrightarrow> r = execution_wait_to_orm w \<and> validate_lifecycle w = Inr w"

definition sql_inv :: "wait_table \<Rightarrow> bool" where
  "sql_inv rows \<longleftrightarrow> distinct (map o_id rows) \<and> (\<forall>r \<in> set rows. \<exists>w. row_of w r) \<and>
     (\<forall>r \<in> set rows. \<forall>r' \<in> set rows. \<forall>w w'. row_of w r \<longrightarrow> row_of w' r' \<longrightarrow>
        same_slot w w' \<longrightarrow> r = r')"

definition sql_lookup :: "string \<Rightarrow> wait_table \<Rightarrow> ExecutionWait option" where
  "sql_lookup i rows = (case sql_get_execution_wait i rows of Inl _ \<Rightarrow> None | Inr w \<Rightarrow> w)"

lemma from_row_of: "row_of w r \<Longrightarrow> execution_wait_from_orm r = Inr w"
  by (simp add: row_of_def from_to_orm)

lemma row_of_simps:
  "row_of w r \<Longrightarrow> o_id r = w_id w" "row_of w r \<Longrightarrow> o_execution_id r = w_execution_id w"
  "row_of w r \<Longrightarrow> o_idempotency_key r = w_idempotency_key w"
  "row_of w r \<Longrightarrow> (o_status r = ''pending'') = (w_status w = PENDING)"
  "row_of w r \<Longrightarrow> o_active_slot r = (if w_status w = PENDING then Some ''active'' else None)"
  by (simp_all add: row_of_def execution_wait_to_orm_def)

lemma row_of_unique: "row_of w r \<Longrightarrow> row_of w' r \<Longrightarrow> w = w'"
  by (metis from_row_of sum.inject(2))

lemma find_id_iff:
  "distinct (map o_id rows) \<Longrightarrow> find (\<lambda>r. o_id r = i) rows = Some r \<longleftrightarrow> r \<in> set rows \<and> o_id r = i"
  by (induction rows) (auto simp: image_iff)

lemma sql_lookup_Some_iff:
  assumes "sql_inv rows"
  shows "sql_lookup i rows = Some w \<longleftrightarrow> (\<exists>r \<in> set rows. row_of w r \<and> w_id w = i)"
proof
  assume "sql_lookup i rows = Some w"
  then obtain r where f: "find (\<lambda>r. o_id r = i) rows = Some r"
    and e: "execution_wait_from_orm r = Inr w"
    by (auto simp: sql_lookup_def sql_get_execution_wait_def split: option.splits sum.splits)
  from f assms have r: "r \<in> set rows" "o_id r = i" by (auto simp: find_id_iff sql_inv_def)
  with assms obtain u where "row_of u r" by (auto simp: sql_inv_def)
  with e have "row_of w r" using from_row_of by fastforce
  with r show "\<exists>r \<in> set rows. row_of w r \<and> w_id w = i" using row_of_simps(1) by fastforce
next
  assume "\<exists>r \<in> set rows. row_of w r \<and> w_id w = i"
  then obtain r where r: "r \<in> set rows" "row_of w r" "w_id w = i" by blast
  then have "find (\<lambda>r. o_id r = i) rows = Some r"
    using assms row_of_simps(1) by (auto simp: find_id_iff sql_inv_def)
  then show "sql_lookup i rows = Some w"
    using r by (simp add: sql_lookup_def sql_get_execution_wait_def from_row_of)
qed

lemma sql_lookup_None_iff:
  assumes "sql_inv rows"
  shows "sql_lookup i rows = None \<longleftrightarrow> (\<forall>r \<in> set rows. o_id r \<noteq> i)"
  using sql_lookup_Some_iff [OF assms, of i] assms
  unfolding sql_inv_def by (metis (mono_tags, lifting) not_Some_eq row_of_simps(1))


section \<open>The SQL store keeps the contract\<close>

lemma validate_resolved:
  assumes "validate_lifecycle w = Inr w" and "resolution_ok st k b"
  shows "validate_lifecycle (resolved_wait now st k p b w) = Inr (resolved_wait now st k p b w)"
proof (rule validate_lifecycle_InrI)
  show "wait_guards_ok (resolved_wait now st k p b w)"
    using validate_lifecycle_InrE [OF assms(1)] assms(2) resolution_ok_not_pending [OF assms(2)]
    by (simp add: wait_guards_ok_def wait_fields_ok_def resolved_wait_def resolution_ok_def max_len_def)
qed (simp add: resolved_wait_def)

lemma row_of_updated:
  assumes "row_of w r" and "resolution_ok st k b"
  shows "row_of (resolved_wait now st k p b w) (sql_update_row now st k p b r)"
  using assms validate_resolved resolution_ok_not_pending [OF assms(2)]
  by (auto simp: row_of_def execution_wait_to_orm_def sql_update_row_def resolved_wait_def)

lemma sql_inv_append:
  assumes inv: "sql_inv rows" and v: "row_of v r"
    and new: "\<And>r' u. r' \<in> set rows \<Longrightarrow> row_of u r' \<Longrightarrow> w_id u \<noteq> w_id v \<and> \<not> same_slot u v"
  shows "sql_inv (rows @ [r])"
proof -
  have "o_id r' \<noteq> o_id r" if "r' \<in> set rows" for r'
    using that inv new v row_of_simps(1) unfolding sql_inv_def by metis
  then have "o_id r \<notin> o_id ` set rows" by (auto dest: sym)
  then have "distinct (map o_id (rows @ [r]))" using inv by (simp add: sql_inv_def)
  moreover have "a = c" if ac: "a \<in> set (rows @ [r])" "c \<in> set (rows @ [r])"
    and w: "row_of w a" "row_of w' c" "same_slot w w'" for a c w w'
  proof -
    have split: "(x \<in> set rows \<and> \<not> same_slot u v) \<or> x = r \<and> u = v"
      if "x \<in> set (rows @ [r])" "row_of u x" for x u
      using that new row_of_unique [OF v, of u] by auto
    from split [OF ac(1) w(1)] split [OF ac(2) w(2)] w(3) show ?thesis
      using inv w(1,2) same_slot_commute [of v w'] by (auto simp: sql_inv_def)
  qed
  moreover have "\<exists>w. row_of w x" if "x \<in> set (rows @ [r])" for x
    using that inv v by (auto simp: sql_inv_def)
  ultimately show ?thesis unfolding sql_inv_def by blast
qed

definition update_at :: "(ExecutionWaitORM \<Rightarrow> ExecutionWaitORM) \<Rightarrow> string \<Rightarrow> wait_table \<Rightarrow> wait_table" where
  "update_at f i rows = map (\<lambda>r. if o_id r = i then f r else r) rows"

lemma sql_inv_update:
  fixes now p
  assumes inv: "sql_inv rows" and r: "r \<in> set rows" "row_of w r" "w_id w = i"
    and pend: "w_status w = PENDING" and ok: "resolution_ok st k b"
  defines "f \<equiv> sql_update_row now st k p b"
  shows "sql_inv (update_at f i rows)"
    and "sql_lookup j (update_at f i rows) =
      (if j = i then Some (resolved_wait now st k p b w) else sql_lookup j rows)"
proof -
  have fid: "o_id (f x) = o_id x" for x by (simp add: f_def sql_update_row_def)
  have only: "x = r" if "x \<in> set rows" "o_id x = i" for x
    using that r inv row_of_simps(1) [OF r(2)] by (auto simp: sql_inv_def distinct_map inj_on_def)
  let ?w = "resolved_wait now st k p b w"
  have fr: "row_of ?w (f r)" unfolding f_def by (rule row_of_updated [OF r(2) ok])
  have ids: "map o_id (update_at f i rows) = map o_id rows"
    by (simp add: update_at_def fid)
  have mem: "x \<in> set (update_at f i rows) \<longleftrightarrow> x = f r \<or> x \<in> set rows \<and> o_id x \<noteq> i" for x
  proof
    assume "x \<in> set (update_at f i rows)"
    then obtain y where y: "y \<in> set rows" "x = (if o_id y = i then f y else y)"
      unfolding update_at_def by auto
    then show "x = f r \<or> x \<in> set rows \<and> o_id x \<noteq> i"
      using only [OF y(1)] by (cases "o_id y = i") simp_all
  next
    assume "x = f r \<or> x \<in> set rows \<and> o_id x \<noteq> i"
    then show "x \<in> set (update_at f i rows)"
      using r(1,3) row_of_simps(1) [OF r(2)] unfolding update_at_def set_map image_iff by metis
  qed
  have old: "x = f r \<and> u = ?w \<or> x \<in> set rows \<and> w_id u \<noteq> i"
    if "x \<in> set (update_at f i rows)" "row_of u x" for x u
  proof (cases "x = f r")
    case True
    then show ?thesis using row_of_unique [OF that(2)] fr by simp
  next
    case False
    then show ?thesis using that(1) mem row_of_simps(1) [OF that(2)] by simp
  qed
  have slot: "\<not> same_slot ?w u" if "x \<in> set rows" "row_of u x" "w_id u \<noteq> i" for x u
  proof
    assume "same_slot ?w u"
    then have "same_slot w u"
      using resolution_ok_not_pending [OF ok] by (auto simp: same_slot_def)
    then have "r = x" using inv r(1,2) that(1,2) by (auto simp: sql_inv_def)
    with that r show False using row_of_unique by blast
  qed
  show inv': "sql_inv (update_at f i rows)"
    unfolding sql_inv_def
  proof (intro conjI ballI allI impI)
    show "distinct (map o_id (update_at f i rows))" using inv by (simp add: ids sql_inv_def)
  next
    fix x assume "x \<in> set (update_at f i rows)"
    then show "\<exists>w. row_of w x" using mem fr inv by (auto simp: sql_inv_def)
  next
    fix x y u v
    assume "x \<in> set (update_at f i rows)" "y \<in> set (update_at f i rows)"
      "row_of u x" "row_of v y" "same_slot u v"
    then show "x = y" using old slot inv same_slot_commute unfolding sql_inv_def by metis
  qed
  show "sql_lookup j (update_at f i rows) = (if j = i then Some ?w else sql_lookup j rows)"
  proof (cases "j = i")
    case True
    have "f r \<in> set (update_at f i rows)" by (simp add: mem)
    then have "sql_lookup j (update_at f i rows) = Some ?w"
      using fr r(3) True by (auto simp: sql_lookup_Some_iff [OF inv'])
    with True show ?thesis by simp
  next
    case False
    have "sql_lookup j (update_at f i rows) = Some u \<longleftrightarrow> sql_lookup j rows = Some u" for u
      unfolding sql_lookup_Some_iff [OF inv'] sql_lookup_Some_iff [OF inv]
      using False mem fr r row_of_simps(1) row_of_unique by (metis resolved_wait_simps(1))
    then have "sql_lookup j (update_at f i rows) = sql_lookup j rows"
      by (metis option.collapse option.distinct(1))
    with False show ?thesis by simp
  qed
qed

lemma sql_resolve_no_hit:
  assumes "\<And>r. r \<in> set rows \<Longrightarrow> \<not> (o_id r = i \<and> o_status r = ''pending'')"
  shows "sql_resolve_execution_wait now i st k p b rows =
    (case find (\<lambda>r. o_id r = i) rows of
       None \<Rightarrow> Inr ((None, False), rows)
     | Some entity \<Rightarrow>
         (case execution_wait_from_orm entity of
            Inl e \<Rightarrow> Inl e
          | Inr w \<Rightarrow> Inr ((if w_resolution_key w = Some k then Some w else None, False), rows)))"
proof -
  have "map (\<lambda>r. if o_id r = i \<and> o_status r = ''pending'' then sql_update_row now st k p b r else r) rows = rows"
    by (rule map_idI) (use assms in auto)
  moreover have "length (filter (\<lambda>r. o_id r = i \<and> o_status r = ''pending'') rows) = 0"
    using assms by (simp add: filter_empty_conv)
  ultimately show ?thesis
    by (simp add: sql_resolve_execution_wait_def Let_def split: option.split sum.split)
qed

lemma sql_resolve_hit:
  assumes inv: "sql_inv rows" and r: "r \<in> set rows" "row_of w r" "w_id w = i"
    and pend: "w_status w = PENDING" and ok: "resolution_ok st k b"
  shows "sql_resolve_execution_wait now i st k p b rows =
    Inr ((Some (resolved_wait now st k p b w), True), update_at (sql_update_row now st k p b) i rows)"
proof -
  have ri: "o_id r = i" using r row_of_simps(1) by blast
  have only: "x = r" if "x \<in> set rows" "o_id x = i" for x
    using that r(1) ri inv by (auto simp: sql_inv_def distinct_map inj_on_def)
  have rp: "o_status r = ''pending''" using row_of_simps(4) [OF r(2)] pend by simp
  have same: "o_id x = i \<and> o_status x = ''pending'' \<longleftrightarrow> o_id x = i" if "x \<in> set rows" for x
    using only [OF that] rp by auto
  have rows': "map (\<lambda>x. if o_id x = i \<and> o_status x = ''pending'' then sql_update_row now st k p b x else x) rows
    = update_at (sql_update_row now st k p b) i rows"
    unfolding update_at_def by (rule map_cong [OF refl]) (simp add: same)
  have "filter (\<lambda>x. o_id x = i \<and> o_status x = ''pending'') rows = filter (\<lambda>x. o_id x = i) rows"
    by (rule filter_cong [OF refl]) (simp add: same)
  moreover have "distinct (filter (\<lambda>x. o_id x = i) rows)"
    using inv by (auto simp: sql_inv_def distinct_map)
  moreover have "set (filter (\<lambda>x. o_id x = i) rows) = {r}"
    using only r(1) ri unfolding set_filter by blast
  ultimately have count: "length (filter (\<lambda>x. o_id x = i \<and> o_status x = ''pending'') rows) = 1"
    using distinct_card [of "filter (\<lambda>x. o_id x = i) rows"] by simp
  note upd = sql_inv_update [OF inv r pend ok, where now = now and p = p]
  have "sql_lookup i (update_at (sql_update_row now st k p b) i rows) = Some (resolved_wait now st k p b w)"
    by (simp add: upd(2))
  then obtain x where "find (\<lambda>r. o_id r = i) (update_at (sql_update_row now st k p b) i rows) = Some x"
    "execution_wait_from_orm x = Inr (resolved_wait now st k p b w)"
    by (auto simp: sql_lookup_def sql_get_execution_wait_def split: option.splits sum.splits)
  then show ?thesis
    by (simp add: sql_resolve_execution_wait_def Let_def rows' count)
qed

lemma find_slot_row:
  assumes inv: "sql_inv rows" and r: "r \<in> set rows" "row_of w r"
    and key: "w_execution_id w = eid" "w_idempotency_key w = k"
  shows "find (\<lambda>r. o_execution_id r = eid \<and> o_idempotency_key r = k) rows = Some r"
proof -
  let ?P = "\<lambda>r. o_execution_id r = eid \<and> o_idempotency_key r = k"
  have "?P r" using key row_of_simps(2,3) [OF r(2)] by simp
  then have "find ?P rows \<noteq> None" using r(1) unfolding find_None_iff by blast
  then obtain r' where r': "find ?P rows = Some r'" by blast
  then have m: "r' \<in> set rows" "?P r'" by (auto simp: find_Some_iff)
  with inv obtain w' where w': "row_of w' r'" by (auto simp: sql_inv_def)
  have "same_slot w' w" using m(2) key row_of_simps(2,3) [OF w'] by (simp add: same_slot_def)
  then have "r' = r" using inv m(1) r w' by (auto simp: sql_inv_def)
  with r' show ?thesis by simp
qed

interpretation sql: wait_ledger sql_create_execution_wait sql_resolve_execution_wait sql_lookup sql_inv
proof (unfold_locales, goal_cases)
  case (1 l i w)
  then show ?case by (auto simp: sql_lookup_Some_iff)
next
  case (2 l i w j v)
  then obtain r r' where "r \<in> set l" "row_of w r" "w_id w = i" "r' \<in> set l" "row_of v r'" "w_id v = j"
    by (auto simp: sql_lookup_Some_iff)
  then show ?case using 2(1,4) row_of_unique unfolding sql_inv_def by metis
next
  case (3 l i now st k p b)
  then have no: "\<And>r. r \<in> set l \<Longrightarrow> o_id r \<noteq> i" by (simp add: sql_lookup_None_iff)
  then have "find (\<lambda>r. o_id r = i) l = None" by (simp add: find_None_iff)
  then show ?case using no by (subst sql_resolve_no_hit) simp_all
next
  case (4 l i w now st k p b)
  then obtain r where r: "r \<in> set l" "row_of w r" "w_id w = i" by (auto simp: sql_lookup_Some_iff)
  then have f: "find (\<lambda>r. o_id r = i) l = Some r"
    using 4(1) row_of_simps(1) [OF r(2)] by (simp add: find_id_iff sql_inv_def)
  have "\<not> (o_id x = i \<and> o_status x = ''pending'')" if "x \<in> set l" for x
  proof
    assume x: "o_id x = i \<and> o_status x = ''pending''"
    with that r 4(1) have "x = r"
      using row_of_simps(1) [OF r(2)] unfolding sql_inv_def distinct_map inj_on_def by auto
    with x 4(3) row_of_simps(4) [OF r(2)] show False by simp
  qed
  then show ?case using f from_row_of [OF r(2)] by (subst sql_resolve_no_hit) simp_all
next
  case (5 l i w st k b now p)
  then obtain r where r: "r \<in> set l" "row_of w r" "w_id w = i" by (auto simp: sql_lookup_Some_iff)
  show ?case
    using sql_resolve_hit [OF 5(1) r 5(3,4), of now p]
      sql_inv_update [OF 5(1) r 5(3,4), where now = now and p = p] by blast
next
  case (6 l i w v)
  then obtain r where r: "r \<in> set l" "row_of w r" by (auto simp: sql_lookup_Some_iff)
  have "violates (execution_wait_to_orm v) r"
    using 6(3,4) row_of_simps(2,3) [OF r(2)] by (simp add: violates_def execution_wait_to_orm_def)
  then show ?case
    using r find_slot_row [OF 6(1) r 6(3,4)] from_row_of [OF r(2)]
    by (auto simp: sql_create_execution_wait_def Let_def)
next
  case (7 l i w v)
  then obtain r where r: "r \<in> set l" "row_of w r" by (auto simp: sql_lookup_Some_iff)
  have v: "violates (execution_wait_to_orm v) r"
    using 7(3,4,5) row_of_simps(2,5) [OF r(2)] by (simp add: violates_def execution_wait_to_orm_def)
  have "\<not> (o_execution_id x = w_execution_id v \<and> o_idempotency_key x = w_idempotency_key v)"
    if "x \<in> set l" for x
  proof -
    from that 7(1) obtain u where u: "row_of u x" by (auto simp: sql_inv_def)
    then have "sql_lookup (w_id u) l = Some u" using 7(1) that by (auto simp: sql_lookup_Some_iff)
    then show ?thesis using 7(6) row_of_simps(2,3) [OF u] by auto
  qed
  then have "find (\<lambda>r. o_execution_id r = w_execution_id v \<and>
      o_idempotency_key r = w_idempotency_key v) l = None"
    by (simp add: find_None_iff)
  then show ?case using r(1) v by (auto simp: sql_create_execution_wait_def Let_def)
next
  case (8 l v)
  let ?e = "execution_wait_to_orm v"
  have val: "validate_lifecycle v = Inr v" and pend: "w_status v = PENDING" using 8(2) by simp_all
  then have row: "row_of v ?e" by (simp add: row_of_def)
  have new: "w_id u \<noteq> w_id v \<and> \<not> same_slot u v" if "x \<in> set l" "row_of u x" for x u
  proof -
    have "sql_lookup (w_id u) l = Some u" using 8(1) that by (auto simp: sql_lookup_Some_iff)
    then show ?thesis using 8(3,4) by auto
  qed
  have "\<not> violates ?e x" if "x \<in> set l" for x
  proof -
    from that 8(1) obtain u where u: "row_of u x" by (auto simp: sql_inv_def)
    show ?thesis using new [OF that u] row_of_simps [OF u] pend
      by (auto simp: violates_def execution_wait_to_orm_def same_slot_def split: if_splits)
  qed
  then have "sql_create_execution_wait v l = Inr (v, l @ [?e])"
    by (simp add: sql_create_execution_wait_def Let_def from_to_orm val)
  moreover have inv: "sql_inv (l @ [?e])" by (rule sql_inv_append [OF 8(1) row new])
  moreover have "sql_lookup j (l @ [?e]) = (if j = w_id v then Some v else sql_lookup j l)" for j
  proof (cases "j = w_id v")
    case True
    then have "sql_lookup j (l @ [?e]) = Some v"
      using row by (auto simp: sql_lookup_Some_iff [OF inv])
    with True show ?thesis by simp
  next
    case False
    have "sql_lookup j (l @ [?e]) = Some u \<longleftrightarrow> sql_lookup j l = Some u" for u
      using False row_of_unique [OF row] unfolding sql_lookup_Some_iff [OF inv] sql_lookup_Some_iff [OF 8(1)]
      by auto
    then have "sql_lookup j (l @ [?e]) = sql_lookup j l" by (metis option.collapse option.distinct(1))
    with False show ?thesis by simp
  qed
  ultimately show ?case by blast
qed

interpretation stores: ledger_pair create_execution_wait mem_resolve get_execution_wait ledger_inv
  sql_create_execution_wait sql_resolve_execution_wait sql_lookup sql_inv
  by unfold_locales

end
