(* ===== verification/Operations.thy ===== *)
theory Operations
  imports Py_Prelude
begin

text \<open>
  \<open>RuntimeOperationsRecorder\<close> of \<open>app/runtime/operations.py\<close>: the counters and the bounded log of
  recent actions that the control plane and the reconciler write.
\<close>

record operations =
  op_counters :: "int dict"
  op_recent_actions :: "json list"
  op_max_recent_actions :: nat

definition new_operations :: "nat \<Rightarrow> operations" where
  "new_operations max_recent_actions =
    \<lparr>op_counters = [], op_recent_actions = [], op_max_recent_actions = max_recent_actions\<rparr>"

definition counter :: "string \<Rightarrow> operations \<Rightarrow> int" where
  "counter name r = (case map_of (op_counters r) name of None \<Rightarrow> 0 | Some n \<Rightarrow> n)"

definition increment :: "string \<Rightarrow> int \<Rightarrow> operations \<Rightarrow> operations" where
  "increment name amount r = r\<lparr>op_counters := dset name (counter name r + amount) (op_counters r)\<rparr>"

definition record_action :: "string \<Rightarrow> json \<Rightarrow> operations \<Rightarrow> operations" where
  "record_action action payload r =
    (let r1 = increment (''action.'' @ action) 1 r
     in r1\<lparr>op_recent_actions := last_n (op_max_recent_actions r)
          (op_recent_actions r1 @ [dmerge [(''action'', VStr action)] payload])\<rparr>)"

datatype op_call = Increment string int | RecordAction string json

fun op_apply :: "op_call \<Rightarrow> operations \<Rightarrow> operations" where
  "op_apply (Increment name n) r = increment name n r"
| "op_apply (RecordAction a p) r = record_action a p r"

lemma counter_increment: "counter m (increment n k r) = (if m = n then counter n r + k else counter m r)"
  by (simp add: counter_def increment_def)

lemma counter_record: "counter m (record_action a p r) = counter m r + (if m = ''action.'' @ a then 1 else 0)"
  by (simp add: record_action_def Let_def counter_def increment_def)

fun op_amount :: "string \<Rightarrow> op_call \<Rightarrow> int" where
  "op_amount m (Increment n k) = (if m = n then k else 0)"
| "op_amount m (RecordAction a p) = (if m = ''action.'' @ a then 1 else 0)"

lemma op_apply_counter: "counter m (op_apply x r) = counter m r + op_amount m x"
  by (cases x) (simp_all add: counter_increment counter_record)

lemma op_apply_bounded:
  "length (op_recent_actions r) \<le> op_max_recent_actions r \<Longrightarrow>
   length (op_recent_actions (op_apply x r)) \<le> op_max_recent_actions (op_apply x r) \<and>
   op_max_recent_actions (op_apply x r) = op_max_recent_actions r"
  by (cases x) (simp_all add: increment_def record_action_def Let_def length_last_n)

text \<open>
  The operations recorder counts exactly and stays bounded: after any sequence of calls each
  counter is the sum of the amounts added to it, recorded actions counting one each, and the log
  of recent actions never holds more than its maximum.
\<close>

theorem operations_count_exactly:
  "counter m (fold op_apply xs (new_operations n)) = sum_list (map (op_amount m) xs) \<and>
   length (op_recent_actions (fold op_apply xs (new_operations n))) \<le> n"
proof -
  have count: "counter m (fold op_apply xs r) = counter m r + sum_list (map (op_amount m) xs)" for r
    by (induction xs arbitrary: r) (simp_all add: op_apply_counter)
  have bound: "length (op_recent_actions (fold op_apply xs r)) \<le> op_max_recent_actions r"
    if "length (op_recent_actions r) \<le> op_max_recent_actions r" for r
    using that
  proof (induction xs arbitrary: r)
    case (Cons x xs)
    from op_apply_bounded [OF Cons.prems, of x] Cons.IH [of "op_apply x r"] show ?case by simp
  qed simp
  show ?thesis using count [of "new_operations n"] bound [of "new_operations n"]
    by (simp add: new_operations_def counter_def)
qed

end
