(* ===== verification/Samples.thy ===== *)
theory Samples
  imports Domain
begin

text \<open>
  Concrete executions and waits on which the witnesses evaluate the properties.
\<close>

definition sample_execution :: Execution where
  "sample_execution = \<lparr>e_id = ''ex-1'', e_workflow_id = ''wf-1'', e_goal_id = None,
     e_workflow_version_id = None, e_runtime_adapter_id = ''native'',
     e_runtime_revision_id = None, e_runtime_fingerprint = None, e_status = PAUSED,
     e_trigger_type = ''manual'', e_trigger_payload = [], e_input_payload = [],
     e_output_payload = None, e_error = None, e_created_at = 0, e_started_at = Some 0,
     e_completed_at = None, e_updated_at = 0, e_created_by = None, e_worker_id = None,
     e_last_heartbeat_at = None, e_container_id = None, e_container_name = None,
     e_container_image = None, e_container_status = None, e_container_started_at = None,
     e_container_ended_at = None, e_container_exit_code = None,
     e_replacement_of_execution_id = None, e_restart_reason = None, e_metadata = []\<rparr>"

definition sample_wait :: ExecutionWait where
  "sample_wait = \<lparr>w_id = ''w-1'', w_execution_id = ''ex-1'', w_kind = INPUT, w_status = PENDING,
     w_idempotency_key = ''k-1'', w_correlation_key = None, w_checkpoint = [],
     w_request_payload = [], w_policy = [], w_resolution_payload = None,
     w_resolution_key = None, w_wake_at = None, w_deadline_at = None, w_resolved_at = None,
     w_resolved_by = None, w_created_at = 0, w_updated_at = 0, w_metadata = []\<rparr>"

definition sample_event :: ExecutionEvent where
  "sample_event = \<lparr>ev_id = ''ev-1'', ev_execution_id = ''ex-1'', ev_workflow_id = Some ''wf-1'',
     ev_agent_id = None, ev_task_id = None, ev_tool_call_id = None, ev_model_request_id = None,
     ev_parent_event_id = None, ev_trace_id = None, ev_span_id = None,
     ev_event_type = TOOL_CALL_STARTED, ev_timestamp = 0, ev_sequence = 0,
     ev_actor_type = ''system'', ev_actor = None, ev_source = None, ev_status = None,
     ev_payload = [(''x-api-key'', VStr ''k''), (''n'', VInt 1)], ev_payload_sha256 = None,
     ev_metrics = [], ev_redacted_fields = [], ev_metadata = []\<rparr>"

lemma sample_execution_simps [simp]:
  "e_id sample_execution = ''ex-1''"
  "e_workflow_id sample_execution = ''wf-1''"
  "e_goal_id sample_execution = None"
  "e_workflow_version_id sample_execution = None"
  "e_runtime_adapter_id sample_execution = ''native''"
  "e_runtime_revision_id sample_execution = None"
  "e_runtime_fingerprint sample_execution = None"
  "e_status sample_execution = PAUSED"
  "e_trigger_type sample_execution = ''manual''"
  "e_trigger_payload sample_execution = []"
  "e_input_payload sample_execution = []"
  "e_output_payload sample_execution = None"
  "e_error sample_execution = None"
  "e_created_at sample_execution = 0"
  "e_started_at sample_execution = Some 0"
  "e_completed_at sample_execution = None"
  "e_updated_at sample_execution = 0"
  "e_created_by sample_execution = None"
  "e_worker_id sample_execution = None"
  "e_last_heartbeat_at sample_execution = None"
  "e_container_id sample_execution = None"
  "e_container_name sample_execution = None"
  "e_container_image sample_execution = None"
  "e_container_status sample_execution = None"
  "e_container_started_at sample_execution = None"
  "e_container_ended_at sample_execution = None"
  "e_container_exit_code sample_execution = None"
  "e_replacement_of_execution_id sample_execution = None"
  "e_restart_reason sample_execution = None"
  "e_metadata sample_execution = []"
  by (simp_all add: sample_execution_def)

lemma sample_wait_simps [simp]:
  "w_id sample_wait = ''w-1''"
  "w_execution_id sample_wait = ''ex-1''"
  "w_kind sample_wait = INPUT"
  "w_status sample_wait = PENDING"
  "w_idempotency_key sample_wait = ''k-1''"
  "w_correlation_key sample_wait = None"
  "w_checkpoint sample_wait = []"
  "w_request_payload sample_wait = []"
  "w_policy sample_wait = []"
  "w_resolution_payload sample_wait = None"
  "w_resolution_key sample_wait = None"
  "w_wake_at sample_wait = None"
  "w_deadline_at sample_wait = None"
  "w_resolved_at sample_wait = None"
  "w_resolved_by sample_wait = None"
  "w_created_at sample_wait = 0"
  "w_updated_at sample_wait = 0"
  "w_metadata sample_wait = []"
  by (simp_all add: sample_wait_def)

lemma sample_wait_valid [simp]: "validate_lifecycle sample_wait = Inr sample_wait"
  by (rule validate_lifecycle_InrI)
    (simp_all add: wait_guards_ok_def wait_fields_ok_def max_len_def strip_def is_space_def)

end
