(* ===== verification/Events.thy ===== *)
theory Events
  imports Execution_Store Operations Samples
begin

text \<open>
  Secret redaction (\<open>app/observability/redaction.py\<close>), the event bus
  (\<open>app/observability/event_bus.py\<close>) and the emitter every component records its events with
  (\<open>app/runtime/native/events.py\<close>), over the world the process-wide components share: the
  execution store, the clock, the supply of UUIDs, the redactor, the engine's run states and
  the approval manager's waiters. The exporters of the bus and the runtime-visualisation
  publisher only write outwards and are left out.
\<close>

section \<open>Redaction\<close>

definition SECRET_KEY_NAMES :: "string list" where
  "SECRET_KEY_NAMES =
    [''api_key'', ''apikey'', ''authorization'', ''auth_token'', ''access_token'',
     ''refresh_token'', ''id_token'', ''token'', ''password'', ''secret'']"

definition key_looks_secret :: "string \<Rightarrow> bool" where
  "key_looks_secret key =
    (let normalized = replace_char CHR ''-'' CHR ''_'' (lower (strip key))
     in if normalized \<in> set SECRET_KEY_NAMES then True
        else if list_ex (endswith normalized)
          [''_api_key'', ''_apikey'', ''_auth_token'', ''_access_token'', ''_refresh_token''] then True
        else if list_ex (endswith normalized) [''_password'', ''_secret''] then True
        else False)"

text \<open>
  A compiled pattern: its text and the methods \<open>search\<close> and \<open>sub("[REDACTED]", _)\<close> of \<open>re\<close>.
  The patterns of a deployment include those its environment adds.
\<close>

record Pattern =
  p_pattern :: string
  p_search :: "string \<Rightarrow> bool"
  p_sub :: "string \<Rightarrow> string"

record Redactor =
  r_enabled :: bool
  r_patterns :: "Pattern list"

definition redact_pattern :: "Pattern \<Rightarrow> string \<times> string list \<Rightarrow> string \<times> string list" where
  "redact_pattern pattern acc =
    (let (redacted, fields) = acc
     in if p_search pattern redacted then (p_sub pattern redacted, fields @ [p_pattern pattern])
        else (redacted, fields))"

definition redact_text :: "Redactor \<Rightarrow> string \<Rightarrow> string \<times> string list" where
  "redact_text redactor v =
    (if \<not> r_enabled redactor then (v, [])
     else fold redact_pattern (r_patterns redactor) (v, []))"

definition nested_path :: "string \<Rightarrow> string \<Rightarrow> string" where
  "nested_path path key = (if path \<noteq> [] then path @ ''.'' @ key else key)"

fun redact_value :: "Redactor \<Rightarrow> string \<Rightarrow> pyval \<Rightarrow> pyval \<times> string list"
  and redact_items :: "Redactor \<Rightarrow> string \<Rightarrow> (string \<times> pyval) list \<Rightarrow> (string \<times> pyval) list \<times> string list"
  and redact_list :: "Redactor \<Rightarrow> string \<Rightarrow> nat \<Rightarrow> pyval list \<Rightarrow> pyval list \<times> string list" where
  "redact_value redactor path v =
    (if \<not> r_enabled redactor then (v, [])
     else case v of
       VStr s \<Rightarrow> (let t = redact_text redactor s in (VStr (fst t), snd t))
     | VDict d \<Rightarrow> (let result = redact_items redactor path d in (VDict (fst result), snd result))
     | VList xs \<Rightarrow> (let items = redact_list redactor path 0 xs in (VList (fst items), snd items))
     | _ \<Rightarrow> (v, []))"
| "redact_items redactor path [] = ([], [])"
| "redact_items redactor path ((key, item) # rest) =
    (let result = redact_items redactor path rest
     in if key_looks_secret key
        then ((key, VStr ''[REDACTED]'') # fst result, nested_path path key # snd result)
        else (let redacted = redact_value redactor (nested_path path key) item
              in ((key, fst redacted) # fst result, snd redacted @ snd result)))"
| "redact_list redactor path index [] = ([], [])"
| "redact_list redactor path index (item # rest) =
    (let redacted = redact_value redactor (path @ ''['' @ nat_str index @ '']'') item;
         result = redact_list redactor path (index + 1) rest
     in (fst redacted # fst result, snd redacted @ snd result))"

declare redact_value.simps [simp del]

text \<open>\<open>redact_value\<close> on the three JSON objects of an event.\<close>

definition redact_json :: "Redactor \<Rightarrow> json \<Rightarrow> json \<times> string list" where
  "redact_json redactor d =
    (let (v, fields) = redact_value redactor [] (VDict d) in (dict_or_empty v, fields))"

definition publish :: "Redactor \<Rightarrow> ExecutionEvent \<Rightarrow> ExecutionEvent" where
  "publish redactor event =
    (let (payload, fields) = redact_json redactor (ev_payload event);
         (metrics, metric_fields) = redact_json redactor (ev_metrics event);
         (metadata, meta_fields) = redact_json redactor (ev_metadata event)
     in if fields \<noteq> [] \<or> metric_fields \<noteq> [] \<or> meta_fields \<noteq> [] then
          event\<lparr>ev_payload := payload, ev_metrics := metrics, ev_metadata := metadata,
                ev_redacted_fields := sorted_list_of_set
                  (set (ev_redacted_fields event @ fields @ metric_fields @ meta_fields))\<rparr>
        else event)"

section \<open>The world\<close>

text \<open>
  The clock is read as one instant within an operation; it moves between operations.
  \<open>uuid_supply\<close> is the sequence of results of \<open>uuid4\<close>. \<open>states\<close> is \<open>NativeWorkflowEngine._states\<close>,
  \<open>pending_approvals\<close> and \<open>request_ids\<close> are the dictionaries of \<open>ApprovalManager\<close> (a future is
  the decision it holds, or \<open>None\<close> while it is not done), \<open>tasks\<close> the executions whose task of
  \<open>ExecutionControlPlane._tasks\<close> is running, \<open>daemon\<close> what the Docker daemon keeps, \<open>revisions\<close> the
  rows of the runtime-revision repository.
\<close>

record ApprovalDecision =
  d_granted :: bool
  d_reason :: "string option"
  d_metadata :: json

record world =
  db :: store
  clock :: datetime
  uuid_supply :: "nat \<Rightarrow> string"
  uuid_count :: nat
  redactor :: Redactor
  states :: "NativeExecutionState dict"
  pending_approvals :: "ApprovalDecision option dict"
  request_ids :: "string dict"
  tasks :: "string list"
  daemon :: docker_daemon
  operations :: operations
  revisions :: "RuntimeRevision dict"

type_synonym 'a act = "world \<Rightarrow> (exc + 'a) \<times> world"

text \<open>The continuation of a call: an exception ends the operation and keeps the effects so far.\<close>

fun andthen :: "(exc + 'a) \<times> world \<Rightarrow> ('a \<Rightarrow> 'b act) \<Rightarrow> (exc + 'b) \<times> world" where
  "andthen (Inl e, w) f = (Inl e, w)"
| "andthen (Inr x, w) f = f x w"

definition uuid4 :: "world \<Rightarrow> string \<times> world" where
  "uuid4 w = (uuid_supply w (uuid_count w), w\<lparr>uuid_count := uuid_count w + 1\<rparr>)"

definition db_update_execution :: "Execution \<Rightarrow> world \<Rightarrow> world" where
  "db_update_execution execution w = w\<lparr>db := update_execution (clock w) execution (db w)\<rparr>"

section \<open>Emitting\<close>

definition new_state :: "string \<Rightarrow> string \<Rightarrow> world \<Rightarrow> NativeExecutionState \<times> world" where
  "new_state execution_id workflow_id w =
    (let (trace_id, w') = uuid4 w
     in (\<lparr>st_execution_id = execution_id, st_workflow_id = workflow_id, st_trace_id = trace_id,
          st_paused = False, st_cancelled = False, st_sequence = 0, st_node_outputs = [],
          st_node_outcomes = [], st_node_errors = [], st_task_tool_results = [], st_current_node_id = None,
          st_current_agent_id = None, st_current_task_id = None, st_planned_node_ids = [],
          st_terminal_node_ids = [], st_last_event_id = None\<rparr>, w'))"

definition next_sequence :: "NativeExecutionState \<Rightarrow> int \<times> NativeExecutionState" where
  "next_sequence state =
    (let n = st_sequence state + 1 in (n, state\<lparr>st_sequence := n\<rparr>))"

text \<open>The \<open>ExecutionEvent(...)\<close> that \<open>emit\<close> constructs.\<close>

definition build_event ::
  "NativeExecutionState \<Rightarrow> ExecutionEventType \<Rightarrow> string option \<Rightarrow> json \<Rightarrow> json \<Rightarrow> json \<Rightarrow>
   string option \<Rightarrow> string option \<Rightarrow> string option \<Rightarrow> string option \<Rightarrow> string option \<Rightarrow>
   string \<Rightarrow> string \<Rightarrow> int \<Rightarrow> datetime \<Rightarrow> ExecutionEvent" where
  "build_event state event_type actor payload metrics metadata agent_id task_id tool_call_id
     model_request_id parent_event_id event_id span_id sequence now =
    \<lparr>ev_id = event_id, ev_execution_id = st_execution_id state,
     ev_workflow_id = Some (st_workflow_id state),
     ev_agent_id = or_str agent_id (st_current_agent_id state),
     ev_task_id = or_str task_id (st_current_task_id state),
     ev_tool_call_id = tool_call_id, ev_model_request_id = model_request_id,
     ev_parent_event_id = or_str parent_event_id (st_last_event_id state),
     ev_trace_id = Some (st_trace_id state), ev_span_id = Some span_id,
     ev_event_type = event_type, ev_timestamp = now, ev_sequence = sequence,
     ev_actor_type = default_actor_type actor, ev_actor = actor, ev_source = None,
     ev_status = None, ev_payload = payload, ev_payload_sha256 = None,
     ev_metrics = metrics, ev_redacted_fields = [], ev_metadata = metadata\<rparr>"

definition emit ::
  "NativeExecutionState \<Rightarrow> ExecutionEventType \<Rightarrow> string option \<Rightarrow> json \<Rightarrow> json \<Rightarrow> json \<Rightarrow>
   string option \<Rightarrow> string option \<Rightarrow> string option \<Rightarrow> string option \<Rightarrow> string option \<Rightarrow>
   world \<Rightarrow> ExecutionEvent \<times> NativeExecutionState \<times> world" where
  "emit state event_type actor payload metrics metadata agent_id task_id tool_call_id
     model_request_id parent_event_id w =
    (let (span_id, w1) = uuid4 w;
         (sequence, state1) = next_sequence state;
         (event_id, w2) = uuid4 w1;
         event = build_event state event_type actor payload metrics metadata agent_id task_id
           tool_call_id model_request_id parent_event_id event_id span_id sequence (clock w);
         prepared = publish (redactor w2) event;
         (saved, s) = save_event (clock w2) prepared (db w2)
     in (saved, state1\<lparr>st_sequence := ev_sequence saved, st_last_event_id := Some (ev_id saved)\<rparr>,
         w2\<lparr>db := s\<rparr>))"

text \<open>The common call \<open>emit(state, event_type, payload=payload)\<close>.\<close>

definition emit_payload ::
  "NativeExecutionState \<Rightarrow> ExecutionEventType \<Rightarrow> json \<Rightarrow> world \<Rightarrow>
   ExecutionEvent \<times> NativeExecutionState \<times> world" where
  "emit_payload state event_type payload w =
    emit state event_type None payload [] [] None None None None None w"

definition record_artifact ::
  "NativeExecutionState \<Rightarrow> string \<Rightarrow> string \<Rightarrow> string \<Rightarrow> string option \<Rightarrow> int option \<Rightarrow> json \<Rightarrow>
   world \<Rightarrow> ExecutionArtifact \<times> NativeExecutionState \<times> world" where
  "record_artifact state name artifact_type uri media_type size_bytes metadata w =
    (let (artifact_id, w1) = uuid4 w;
         artifact = \<lparr>art_id = artifact_id, art_execution_id = st_execution_id state,
           art_event_id = None, art_type = artifact_type, art_name = name,
           art_content_json = None, art_content_text = None, art_uri = Some uri,
           art_media_type = media_type, art_size_bytes = size_bytes, art_created_at = clock w,
           art_metadata = metadata\<rparr>;
         w2 = w1\<lparr>db := save_artifact artifact (db w1)\<rparr>;
         (saved, state', w3) = emit state ARTIFACT_CREATED None
           [(''artifact_id'', VStr artifact_id), (''name'', VStr name),
            (''artifact_type'', VStr artifact_type), (''uri'', VStr uri)]
           [(''artifact_size_bytes'', VInt (case size_bytes of None \<Rightarrow> 0 | Some n \<Rightarrow> n))] []
           None None None None None w2
     in (artifact, state', w3))"

text \<open>
  \<open>ExecutionControlPlane._event_state_for\<close>, and the same steps inline in
  \<open>ExecutionWaitService._emit\<close>: a state that continues the execution's event stream.
\<close>

definition event_state_for :: "string \<Rightarrow> string \<Rightarrow> world \<Rightarrow> NativeExecutionState \<times> world" where
  "event_state_for execution_id workflow_id w =
    (let existing_events = list_events execution_id (db w);
         (state, w1) = new_state execution_id workflow_id w
     in if existing_events \<noteq> [] then
          (let last_event = last existing_events
           in (state\<lparr>st_sequence := ev_sequence last_event, st_last_event_id := Some (ev_id last_event),
                    st_trace_id := (case or_str (ev_trace_id last_event) (Some (st_trace_id state)) of
                                      Some t \<Rightarrow> t | None \<Rightarrow> st_trace_id state)\<rparr>, w1))
        else (state, w1))"

text \<open>The two calls together: a fresh state for the stream, then one event.\<close>

definition emit_for :: "string \<Rightarrow> string \<Rightarrow> ExecutionEventType \<Rightarrow> json \<Rightarrow> world \<Rightarrow> world" where
  "emit_for execution_id workflow_id event_type payload w =
    (let (state, w1) = event_state_for execution_id workflow_id w
     in snd (snd (emit_payload state event_type payload w1)))"


section \<open>Redaction removes the values of secret keys\<close>

text \<open>No key that looks secret, at any depth, holds anything but the placeholder.\<close>

fun secrets_hidden :: "pyval \<Rightarrow> bool" and secrets_hidden_items :: "(string \<times> pyval) list \<Rightarrow> bool"
  and secrets_hidden_list :: "pyval list \<Rightarrow> bool" where
  "secrets_hidden v = (case v of VDict d \<Rightarrow> secrets_hidden_items d
     | VList xs \<Rightarrow> secrets_hidden_list xs | _ \<Rightarrow> True)"
| "secrets_hidden_items [] = True"
| "secrets_hidden_items ((k, v) # rest) =
    ((if key_looks_secret k then v = VStr ''[REDACTED]'' else secrets_hidden v) \<and> secrets_hidden_items rest)"
| "secrets_hidden_list [] = True"
| "secrets_hidden_list (v # rest) = (secrets_hidden v \<and> secrets_hidden_list rest)"

declare secrets_hidden.simps [simp del]

lemma secrets_hidden_simps [simp]:
  "secrets_hidden (VDict d) = secrets_hidden_items d"
  "secrets_hidden (VList xs) = secrets_hidden_list xs"
  "secrets_hidden (VStr s)"
  by (simp_all add: secrets_hidden.simps)

lemma fold_redact_pattern_fields:
  "snd acc \<noteq> [] \<Longrightarrow> snd (fold redact_pattern ps acc) \<noteq> []"
  by (induction ps arbitrary: acc) (simp_all add: redact_pattern_def case_prod_unfold Let_def)

lemma redact_text_unchanged:
  "snd (redact_text r s) = [] \<Longrightarrow> fst (redact_text r s) = s"
proof -
  have "snd (fold redact_pattern ps (s, [])) = [] \<Longrightarrow> fold redact_pattern ps (s, []) = (s, [])" for ps
  proof (induction ps)
    case (Cons p ps)
    have "redact_pattern p (s, []) = (if p_search p s then (p_sub p s, [p_pattern p]) else (s, []))"
      by (simp add: redact_pattern_def)
    then show ?case
      using Cons fold_redact_pattern_fields [of "(p_sub p s, [p_pattern p])" ps]
      by (auto split: if_splits)
  qed simp
  from this [of "r_patterns r"] show "snd (redact_text r s) = [] \<Longrightarrow> fst (redact_text r s) = s"
    by (auto simp: redact_text_def)
qed

lemma redact_value_hides:
  "r_enabled r \<Longrightarrow> secrets_hidden (fst (redact_value r path v))"
  "r_enabled r \<Longrightarrow> secrets_hidden_items (fst (redact_items r path d))"
  "r_enabled r \<Longrightarrow> secrets_hidden_list (fst (redact_list r path i xs))"
proof (induction r path v and r path d and r path i xs rule: redact_value_redact_items_redact_list.induct)
  case (1 r path v)
  then show ?case
    by (subst redact_value.simps)
      (auto simp: Let_def secrets_hidden.simps split: pyval.split)
qed (auto simp: Let_def)

lemma redact_value_unchanged:
  "snd (redact_value r path v) = [] \<Longrightarrow> fst (redact_value r path v) = v"
  "snd (redact_items r path d) = [] \<Longrightarrow> fst (redact_items r path d) = d"
  "snd (redact_list r path i xs) = [] \<Longrightarrow> fst (redact_list r path i xs) = xs"
proof (induction r path v and r path d and r path i xs rule: redact_value_redact_items_redact_list.induct)
  case (1 r path v)
  show ?case
  proof (cases "r_enabled r")
    case True
    then show ?thesis using 1 redact_text_unchanged [of r]
      by (cases v) (simp_all add: Let_def redact_value.simps)
  next
    case False
    then show ?thesis by (simp add: redact_value.simps)
  qed
qed (auto simp: Let_def split: if_splits)

lemma redact_json_hides:
  "r_enabled r \<Longrightarrow> secrets_hidden_items (fst (redact_json r d))"
  using redact_value_hides(2) [of r "[]" d]
  by (simp add: redact_json_def redact_value.simps dict_or_empty_def Let_def)

lemma redact_json_unchanged:
  "snd (redact_json r d) = [] \<Longrightarrow> fst (redact_json r d) = d"
  using redact_value_unchanged(1) [of r "[]" "VDict d"]
  by (simp add: redact_json_def case_prod_unfold dict_or_empty_def Let_def)

section \<open>What emitting changes\<close>

lemma publish_frame [simp]:
  "ev_id (publish r e) = ev_id e" "ev_execution_id (publish r e) = ev_execution_id e"
  "ev_event_type (publish r e) = ev_event_type e" "ev_timestamp (publish r e) = ev_timestamp e"
  "ev_sequence (publish r e) = ev_sequence e" "ev_trace_id (publish r e) = ev_trace_id e"
  by (simp_all add: publish_def Let_def case_prod_unfold)

lemma uuid4_simps [simp]:
  "db (snd (uuid4 w)) = db w" "clock (snd (uuid4 w)) = clock w"
  "redactor (snd (uuid4 w)) = redactor w" "states (snd (uuid4 w)) = states w"
  "pending_approvals (snd (uuid4 w)) = pending_approvals w"
  "request_ids (snd (uuid4 w)) = request_ids w" "tasks (snd (uuid4 w)) = tasks w"
  "daemon (snd (uuid4 w)) = daemon w" "operations (snd (uuid4 w)) = operations w"
  "uuid_supply (snd (uuid4 w)) = uuid_supply w" "uuid_count (snd (uuid4 w)) = uuid_count w + 1"
  "fst (uuid4 w) = uuid_supply w (uuid_count w)"
  by (simp_all add: uuid4_def)

lemma append_event_simps [simp]:
  "executions (snd (append_event e s)) = executions s"
  "waits (snd (append_event e s)) = waits s"
  "artifacts (snd (append_event e s)) = artifacts s"
  "approval_requests (snd (append_event e s)) = approval_requests s"
  "ev_execution_id (fst (append_event e s)) = ev_execution_id e"
  "ev_event_type (fst (append_event e s)) = ev_event_type e"
  "ev_id (fst (append_event e s)) = ev_id e"
  by (simp_all add: append_event_def Let_def)

lemma repo_save_simps [simp]:
  "waits (snd (repo_save_execution now e s)) = waits s"
  "events (snd (repo_save_execution now e s)) = events s"
  "sequences (snd (repo_save_execution now e s)) = sequences s"
  "artifacts (snd (repo_save_execution now e s)) = artifacts s"
  "approval_requests (snd (repo_save_execution now e s)) = approval_requests s"
  by (simp_all add: repo_save_execution_def Let_def)

lemma save_event_frame [simp]:
  "waits (snd (save_event now e s)) = waits s"
  "artifacts (snd (save_event now e s)) = artifacts s"
  "approval_requests (snd (save_event now e s)) = approval_requests s"
  "events (snd (save_event now e s)) = events (snd (append_event e s))"
  "sequences (snd (save_event now e s)) = sequences (snd (append_event e s))"
  "fst (save_event now e s) = fst (append_event e s)"
  by (simp_all add: save_event_def Let_def case_prod_unfold split: option.split)

text \<open>
  Two executions that differ in nothing but the recorded activity and the time of the last
  update, and two stores whose executions differ in nothing else.
\<close>

definition same_but_activity :: "Execution \<Rightarrow> Execution \<Rightarrow> bool" where
  "same_but_activity e e' \<longleftrightarrow>
     (\<exists>m t. e' = e\<lparr>e_metadata := m, e_updated_at := t\<rparr> \<and>
        (\<forall>k. k \<noteq> ''runtime_activity'' \<longrightarrow> jget m k = jget (e_metadata e) k))"

definition executions_kept :: "store \<Rightarrow> store \<Rightarrow> bool" where
  "executions_kept s s' \<longleftrightarrow>
     (\<forall>i. (case get_execution i s of None \<Rightarrow> get_execution i s' = None
           | Some e \<Rightarrow> (\<exists>e'. get_execution i s' = Some e' \<and> same_but_activity e e')))"

lemma same_but_activity_refl [simp]: "same_but_activity e e"
  unfolding same_but_activity_def by (rule exI [of _ "e_metadata e"], rule exI [of _ "e_updated_at e"]) simp

lemma same_but_activity_trans:
  assumes "same_but_activity a b" and "same_but_activity b c"
  shows "same_but_activity a c"
proof -
  from assms obtain m t m' t' where b: "b = a\<lparr>e_metadata := m, e_updated_at := t\<rparr>"
      "\<And>k. k \<noteq> ''runtime_activity'' \<Longrightarrow> jget m k = jget (e_metadata a) k"
    and c: "c = b\<lparr>e_metadata := m', e_updated_at := t'\<rparr>"
      "\<And>k. k \<noteq> ''runtime_activity'' \<Longrightarrow> jget m' k = jget (e_metadata b) k"
    unfolding same_but_activity_def by blast
  have "c = a\<lparr>e_metadata := m', e_updated_at := t'\<rparr>" by (simp add: b(1) c(1))
  moreover have "jget m' k = jget (e_metadata a) k" if "k \<noteq> ''runtime_activity''" for k
    using b(2) [OF that] c(2) [OF that] by (simp add: b(1))
  ultimately show ?thesis unfolding same_but_activity_def by blast
qed

lemma same_but_activityI:
  "e' = e\<lparr>e_metadata := m, e_updated_at := t\<rparr> \<Longrightarrow>
   (\<And>k. k \<noteq> ''runtime_activity'' \<Longrightarrow> jget m k = jget (e_metadata e) k) \<Longrightarrow> same_but_activity e e'"
  unfolding same_but_activity_def by blast

lemma same_but_activityD:
  assumes "same_but_activity e e'"
  shows "e_id e' = e_id e" "e_status e' = e_status e" "e_worker_id e' = e_worker_id e"
    "e_workflow_id e' = e_workflow_id e" "e_container_id e' = e_container_id e"
    "e_input_payload e' = e_input_payload e" "e_output_payload e' = e_output_payload e"
    "e_error e' = e_error e" "e_completed_at e' = e_completed_at e"
    "e_runtime_adapter_id e' = e_runtime_adapter_id e"
    "k \<noteq> ''runtime_activity'' \<Longrightarrow> jget (e_metadata e') k = jget (e_metadata e) k"
  using assms by (auto simp: same_but_activity_def)

lemma executions_kept_refl [simp]: "executions_kept s s"
  by (simp add: executions_kept_def split: option.split)

lemma executions_kept_eq: "executions s' = executions s \<Longrightarrow> executions_kept s s'"
  by (simp add: executions_kept_def get_execution_def split: option.split)

lemma executions_kept_trans:
  assumes "executions_kept a b" and "executions_kept b c"
  shows "executions_kept a c"
  unfolding executions_kept_def
proof (intro allI)
  fix i
  show "case get_execution i a of None \<Rightarrow> get_execution i c = None
    | Some e \<Rightarrow> \<exists>e'. get_execution i c = Some e' \<and> same_but_activity e e'"
    using assms [unfolded executions_kept_def, THEN spec, of i]
    by (auto split: option.splits intro: same_but_activity_trans)
qed

lemma executions_keptD:
  "executions_kept s s' \<Longrightarrow> get_execution i s = Some e \<Longrightarrow>
   \<exists>e'. get_execution i s' = Some e' \<and> same_but_activity e e'"
  unfolding executions_kept_def by (force split: option.splits)

lemma executions_kept_None:
  "executions_kept s s' \<Longrightarrow> get_execution i s' = None \<longleftrightarrow> get_execution i s = None"
  using executions_keptD [of s s' i]
  by (cases "get_execution i s") (auto simp: executions_kept_def split: option.splits dest!: spec [of _ i])

text \<open>The store is keyed by the ids of its executions.\<close>

definition keyed :: "store \<Rightarrow> bool" where
  "keyed s \<longleftrightarrow> (\<forall>i e. map_of (executions s) i = Some e \<longrightarrow> e_id e = i)"

lemma keyedD: "keyed s \<Longrightarrow> get_execution i s = Some e \<Longrightarrow> e_id e = i"
  by (simp add: keyed_def get_execution_def)

lemma keyed_save [simp]: "keyed s \<Longrightarrow> keyed (snd (repo_save_execution now e s))"
  by (simp add: keyed_def repo_save_execution_def Let_def)

lemma keyed_eq: "executions s' = executions s \<Longrightarrow> keyed s \<Longrightarrow> keyed s'"
  by (simp add: keyed_def)

lemma keyed_save_event [simp]: "keyed s \<Longrightarrow> keyed (snd (save_event now e s))"
  by (auto simp: save_event_def Let_def case_prod_unfold keyed_eq [of "snd (append_event e s)" s]
      split: option.split)

lemma save_event_kept:
  assumes "keyed s"
  shows "executions_kept s (snd (save_event now e s))"
proof -
  let ?s1 = "snd (append_event e s)" and ?saved = "fst (append_event e s)"
  have k1: "executions_kept s ?s1" by (rule executions_kept_eq) simp
  show ?thesis
  proof (cases "get_execution (ev_execution_id e) s")
    case None
    then show ?thesis using k1
      by (simp add: save_event_def Let_def case_prod_unfold get_execution_def)
  next
    case (Some x)
    then have xid: "e_id x = ev_execution_id e" using keyedD [OF assms] by blast
    show ?thesis
    proof (cases "apply_activity_to_execution x ?saved")
      case None
      with Some k1 show ?thesis
        by (simp add: save_event_def Let_def case_prod_unfold get_execution_def)
    next
      case (Some x')
      then have "same_but_activity x (x'\<lparr>e_updated_at := now\<rparr>)" and id': "e_id x' = e_id x"
        by (auto simp: apply_activity_to_execution_def intro: same_but_activityI split: option.splits)
      with Some \<open>get_execution (ev_execution_id e) s = Some x\<close> xid show ?thesis
        by (auto simp: save_event_def Let_def case_prod_unfold get_execution_def executions_kept_def
            repo_save_execution_def split: option.splits)
    qed
  qed
qed

lemma save_event_no_activity:
  assumes "ev_event_type e \<notin> set ACTIVITY_EVENT_TYPES"
  shows "executions (snd (save_event now e s)) = executions s"
  using assms
  by (simp add: save_event_def Let_def case_prod_unfold apply_activity_to_execution_def
      activity_payload_for_event_def split: option.split)

lemma build_event_simps [simp]:
  "ev_id (build_event st ty ac p m md a t tc mr pe i sp sq now) = i"
  "ev_execution_id (build_event st ty ac p m md a t tc mr pe i sp sq now) = st_execution_id st"
  "ev_event_type (build_event st ty ac p m md a t tc mr pe i sp sq now) = ty"
  "ev_timestamp (build_event st ty ac p m md a t tc mr pe i sp sq now) = now"
  "ev_payload (build_event st ty ac p m md a t tc mr pe i sp sq now) = p"
  by (simp_all add: build_event_def)

lemma emit_simps [simp]:
  "clock (snd (snd (emit st ty ac p m md a t tc mr pe w))) = clock w"
  "redactor (snd (snd (emit st ty ac p m md a t tc mr pe w))) = redactor w"
  "states (snd (snd (emit st ty ac p m md a t tc mr pe w))) = states w"
  "pending_approvals (snd (snd (emit st ty ac p m md a t tc mr pe w))) = pending_approvals w"
  "request_ids (snd (snd (emit st ty ac p m md a t tc mr pe w))) = request_ids w"
  "tasks (snd (snd (emit st ty ac p m md a t tc mr pe w))) = tasks w"
  "daemon (snd (snd (emit st ty ac p m md a t tc mr pe w))) = daemon w"
  "operations (snd (snd (emit st ty ac p m md a t tc mr pe w))) = operations w"
  "uuid_supply (snd (snd (emit st ty ac p m md a t tc mr pe w))) = uuid_supply w"
  "uuid_count (snd (snd (emit st ty ac p m md a t tc mr pe w))) = uuid_count w + 2"
  "waits (db (snd (snd (emit st ty ac p m md a t tc mr pe w)))) = waits (db w)"
  "approval_requests (db (snd (snd (emit st ty ac p m md a t tc mr pe w)))) = approval_requests (db w)"
  "artifacts (db (snd (snd (emit st ty ac p m md a t tc mr pe w)))) = artifacts (db w)"
  by (simp_all add: emit_def Let_def case_prod_unfold)

lemma emit_executions:
  "ty \<notin> set ACTIVITY_EVENT_TYPES \<Longrightarrow>
   executions (db (snd (snd (emit st ty ac p m md a t tc mr pe w)))) = executions (db w)"
  "keyed (db w) \<Longrightarrow> executions_kept (db w) (db (snd (snd (emit st ty ac p m md a t tc mr pe w))))"
  "keyed (db w) \<Longrightarrow> keyed (db (snd (snd (emit st ty ac p m md a t tc mr pe w))))"
  by (simp_all add: emit_def Let_def case_prod_unfold save_event_no_activity save_event_kept)

text \<open>The event an emission appends is the last of its execution's stream.\<close>

lemma append_event_list:
  "list_events i (snd (append_event e s)) =
     (if i = ev_execution_id e then list_events i s @ [fst (append_event e s)] else list_events i s)"
  by (simp add: append_event_def list_events_def get_default_def Let_def)

lemma list_events_eq: "events s' = events s \<Longrightarrow> list_events i s' = list_events i s"
  by (simp add: list_events_def)

lemma emit_appends:
  "list_events i (db (snd (snd (emit st ty ac p m md a t tc mr pe w)))) =
     (if i = st_execution_id st then list_events i (db w) @ [fst (emit st ty ac p m md a t tc mr pe w)]
      else list_events i (db w))"
  by (simp add: emit_def Let_def case_prod_unfold append_event_list
      list_events_eq [OF save_event_frame(4)])

lemma emit_event_type [simp]:
  "ev_event_type (fst (emit st ty ac p m md a t tc mr pe w)) = ty"
  by (simp add: emit_def Let_def case_prod_unfold)

lemma event_state_for_simps [simp]:
  "db (snd (event_state_for i wid w)) = db w" "clock (snd (event_state_for i wid w)) = clock w"
  "redactor (snd (event_state_for i wid w)) = redactor w"
  "states (snd (event_state_for i wid w)) = states w"
  "pending_approvals (snd (event_state_for i wid w)) = pending_approvals w"
  "request_ids (snd (event_state_for i wid w)) = request_ids w"
  "tasks (snd (event_state_for i wid w)) = tasks w"
  "daemon (snd (event_state_for i wid w)) = daemon w"
  "operations (snd (event_state_for i wid w)) = operations w"
  "uuid_supply (snd (event_state_for i wid w)) = uuid_supply w"
  "uuid_count (snd (event_state_for i wid w)) = uuid_count w + 1"
  "st_execution_id (fst (event_state_for i wid w)) = i"
  by (simp_all add: event_state_for_def new_state_def Let_def case_prod_unfold)

lemma emit_for_eq:
  "emit_for i wid ty payload w =
     snd (snd (emit (fst (event_state_for i wid w)) ty None payload [] [] None None None None None
       (snd (event_state_for i wid w))))"
  by (simp add: emit_for_def emit_payload_def case_prod_unfold Let_def)

lemma emit_for_simps [simp]:
  "clock (emit_for i wid ty payload w) = clock w" "redactor (emit_for i wid ty payload w) = redactor w"
  "states (emit_for i wid ty payload w) = states w"
  "pending_approvals (emit_for i wid ty payload w) = pending_approvals w"
  "request_ids (emit_for i wid ty payload w) = request_ids w"
  "tasks (emit_for i wid ty payload w) = tasks w"
  "daemon (emit_for i wid ty payload w) = daemon w"
  "operations (emit_for i wid ty payload w) = operations w"
  "uuid_supply (emit_for i wid ty payload w) = uuid_supply w"
  "uuid_count (emit_for i wid ty payload w) = uuid_count w + 3"
  "waits (db (emit_for i wid ty payload w)) = waits (db w)"
  "approval_requests (db (emit_for i wid ty payload w)) = approval_requests (db w)"
  "artifacts (db (emit_for i wid ty payload w)) = artifacts (db w)"
  by (simp_all add: emit_for_eq)

lemma emit_for_executions:
  "ty \<notin> set ACTIVITY_EVENT_TYPES \<Longrightarrow> executions (db (emit_for i wid ty payload w)) = executions (db w)"
  "keyed (db w) \<Longrightarrow> executions_kept (db w) (db (emit_for i wid ty payload w))"
  "keyed (db w) \<Longrightarrow> keyed (db (emit_for i wid ty payload w))"
  using emit_executions [where w = "snd (event_state_for i wid w)"] by (simp_all add: emit_for_eq)

definition emitted :: "string \<Rightarrow> string \<Rightarrow> ExecutionEventType \<Rightarrow> json \<Rightarrow> world \<Rightarrow> ExecutionEvent" where
  "emitted i wid ty payload w =
     fst (emit_payload (fst (event_state_for i wid w)) ty payload (snd (event_state_for i wid w)))"

lemma emit_for_events [simp]:
  "list_events j (db (emit_for i wid ty payload w)) =
     (if j = i then list_events i (db w) @ [emitted i wid ty payload w] else list_events j (db w))"
  "ev_event_type (emitted i wid ty payload w) = ty"
  by (simp_all add: emit_for_eq emit_appends emitted_def emit_payload_def)

text \<open>
  With redaction enabled, an event that leaves the event bus, and so every event the emitter
  stores, has no value but the placeholder under a key that looks secret, at any depth of its
  payload, metrics and metadata; where nothing was redacted the three objects are unchanged.
\<close>

theorem published_events_hide_secrets:
  assumes "r_enabled r"
  shows "secrets_hidden_items (ev_payload (publish r e)) \<and>
    secrets_hidden_items (ev_metrics (publish r e)) \<and>
    secrets_hidden_items (ev_metadata (publish r e))"
  using redact_json_hides [OF assms, of "ev_payload e"] redact_json_hides [OF assms, of "ev_metrics e"]
    redact_json_hides [OF assms, of "ev_metadata e"] redact_json_unchanged [of r "ev_payload e"]
    redact_json_unchanged [of r "ev_metrics e"] redact_json_unchanged [of r "ev_metadata e"]
  by (auto simp: publish_def Let_def case_prod_unfold)

theorem published_events_hide_secrets_witness:
  "secrets_hidden_items (ev_payload (publish \<lparr>r_enabled = True, r_patterns = []\<rparr> sample_event)) \<and>
   ev_payload (publish \<lparr>r_enabled = True, r_patterns = []\<rparr> sample_event) =
     [(''x-api-key'', VStr ''[REDACTED]''), (''n'', VInt 1)]"
  using published_events_hide_secrets [of "\<lparr>r_enabled = True, r_patterns = []\<rparr>" sample_event]
  by (simp add: publish_def sample_event_def redact_json_def redact_value.simps dict_or_empty_def
      key_looks_secret_def lower_def lower_char_def strip_def is_space_def replace_char_def
      endswith_def SECRET_KEY_NAMES_def nested_path_def Let_def)

end
