(* ===== verification/Store_Invariants.thy ===== *)
theory Store_Invariants
  imports Events Wait_Ledger
begin

text \<open>
  The store as a state machine: one step for each operation of the in-memory store that
  changes it. The invariants of the reachable stores: event sequence numbers increase along
  each execution's stream and are never used twice, the dictionaries are keyed by the ids of
  their values, and the wait ledger keeps its contract. Then the worker locks.
\<close>

section \<open>Steps and reachable stores\<close>

inductive store_step :: "store \<Rightarrow> store \<Rightarrow> bool" where
  step_save_execution: "store_step s (snd (save_execution now e s))"
| step_update_execution: "store_step s (update_execution now e s)"
| step_delete_execution: "store_step s (snd (delete_execution i s))"
| step_save_event: "store_step s (snd (save_event now ev s))"
| step_delete_event: "store_step s (snd (delete_event i s))"
| step_save_artifact: "store_step s (save_artifact art s)"
| step_create_approval: "store_step s (create_approval_request now ri ei evi ti st p s)"
| step_update_approval: "store_step s (update_approval_request now ri st p b s)"
| step_resolve_approval: "store_step s (snd (resolve_pending_approval_request now ei ti st p b s))"
| step_create_wait: "create_execution_wait w s = Inr (w', s') \<Longrightarrow> op_ok (Create w) \<Longrightarrow>
    get_execution_wait (w_id w) s = None \<Longrightarrow> store_step s s'"
| step_resolve_wait: "resolution_ok st k b \<Longrightarrow>
    store_step s (snd (resolve_execution_wait now i st k p b s))"
| step_acquire: "store_step s (snd (acquire_lock now i wk n s))"
| step_release: "store_step s (snd (release_lock i wk s))"
| step_heartbeat: "store_step s (snd (heartbeat now i wk s))"

abbreviation store_reachable :: "store \<Rightarrow> bool" where
  "store_reachable s \<equiv> store_step\<^sup>*\<^sup>* empty_store s"

section \<open>Event streams\<close>

lemma sorted_wrt_le_last:
  fixes f :: "'a \<Rightarrow> 'b::linorder"
  shows "sorted_wrt (<) (map f xs) \<Longrightarrow> x \<in> set xs \<Longrightarrow> f x \<le> f (last xs)"
  by (induction xs) (auto simp: less_imp_le)

definition sequence_of :: "string \<Rightarrow> store \<Rightarrow> int" where
  "sequence_of i s = get_default (sequences s) i 0"

definition stream_ok :: "store \<Rightarrow> bool" where
  "stream_ok s \<longleftrightarrow> (\<forall>i. 0 \<le> sequence_of i s \<and>
     sorted_wrt (<) (map ev_sequence (list_events i s)) \<and>
     (\<forall>e \<in> set (list_events i s). 1 \<le> ev_sequence e \<and> ev_sequence e \<le> sequence_of i s))"

text \<open>What a step does to the streams.\<close>

definition stream_grows :: "store \<Rightarrow> store \<Rightarrow> bool" where
  "stream_grows s s' \<longleftrightarrow> (\<forall>i. sequence_of i s \<le> sequence_of i s' \<and>
     (\<forall>e \<in> set (list_events i s'). e \<in> set (list_events i s) \<or> sequence_of i s < ev_sequence e))"

lemma stream_grows_refl [simp]: "stream_grows s s"
  by (simp add: stream_grows_def)

lemma stream_grows_trans: "stream_grows a b \<Longrightarrow> stream_grows b c \<Longrightarrow> stream_grows a c"
  unfolding stream_grows_def by (meson order.trans order.strict_trans1)

lemma same_streams:
  assumes "events s' = events s" and "sequences s' = sequences s"
  shows "stream_ok s' = stream_ok s" and "stream_grows s s'"
  using assms by (simp_all add: stream_ok_def stream_grows_def list_events_def sequence_of_def)

lemma shrunk_streams:
  assumes "sequences s' = sequences s" and "stream_ok s"
    and "\<And>i. \<exists>P. list_events i s' = filter P (list_events i s)"
  shows "stream_ok s'" and "stream_grows s s'"
proof -
  have sub: "set (list_events i s') \<subseteq> set (list_events i s)" for i using assms(3) [of i] by auto
  have sorted: "sorted_wrt (<) (map ev_sequence (list_events i s'))" for i
  proof -
    obtain P where P: "list_events i s' = filter P (list_events i s)" using assms(3) by blast
    have "sorted_wrt (<) (map ev_sequence (list_events i s))" using assms(2) by (simp add: stream_ok_def)
    then show ?thesis unfolding P sorted_wrt_map by (rule sorted_wrt_filter)
  qed
  show "stream_ok s'" using assms(2) sub sorted unfolding stream_ok_def sequence_of_def assms(1) by blast
  show "stream_grows s s'" using sub unfolding stream_grows_def sequence_of_def assms(1) by blast
qed

lemma append_event_stream:
  assumes "stream_ok s"
  shows "stream_ok (snd (append_event e s))" and "stream_grows s (snd (append_event e s))"
proof -
  let ?s = "snd (append_event e s)" and ?e = "fst (append_event e s)"
  have seq: "sequence_of i ?s = (if i = ev_execution_id e then sequence_of i s + 1 else sequence_of i s)" for i
    by (simp add: sequence_of_def append_event_def Let_def get_default_def)
  have es: "ev_sequence ?e = sequence_of (ev_execution_id e) s + 1"
    by (simp add: sequence_of_def append_event_def Let_def)
  have old: "ev_sequence x \<le> sequence_of i s + 1" if "x \<in> set (list_events i s)" for x i
    using assms that unfolding stream_ok_def by fastforce
  show "stream_ok ?s" using assms unfolding stream_ok_def append_event_list seq
    by (auto simp: es sorted_wrt_append old)
  show "stream_grows s ?s" using assms unfolding stream_grows_def append_event_list seq
    by (auto simp: es)
qed

lemma delete_event_items_filter:
  "delete_event_items x d = Some (i, evs) \<Longrightarrow> distinct (map fst d) \<Longrightarrow>
   \<exists>evs'. map_of d i = Some evs' \<and> evs = filter (\<lambda>e. ev_id e \<noteq> x) evs'"
proof (induction d)
  case (Cons p d)
  obtain j evs' where p: "p = (j, evs')" by force
  show ?case
  proof (cases "length (filter (\<lambda>e. ev_id e \<noteq> x) evs') \<noteq> length evs'")
    case True
    then show ?thesis using Cons.prems by (auto simp: p Let_def)
  next
    case False
    then have "delete_event_items x d = Some (i, evs)" using Cons.prems by (simp add: p Let_def)
    moreover from this Cons obtain evs'' where "map_of d i = Some evs''" "evs = filter (\<lambda>e. ev_id e \<noteq> x) evs''"
      by auto
    moreover have "i \<noteq> j" using Cons.prems(2) calculation(2) by (force simp: p dest: map_of_SomeD)
    ultimately show ?thesis by (auto simp: p)
  qed
qed simp

definition dicts_ok :: "store \<Rightarrow> bool" where
  "dicts_ok s \<longleftrightarrow> distinct (map fst (events s)) \<and> keyed s \<and> ledger_inv s"

lemma list_events_store: "list_events i (s\<lparr>events := d\<rparr>) = get_default d i []"
  by (simp add: list_events_def)

lemma delete_event_stream:
  assumes "distinct (map fst (events s))" and "stream_ok s"
  shows "stream_ok (snd (delete_event x s))" and "stream_grows s (snd (delete_event x s))"
proof -
  have "\<exists>P. list_events i (snd (delete_event x s)) = filter P (list_events i s)" for i
  proof (cases "delete_event_items x (events s)")
    case None
    then show ?thesis by (auto simp: delete_event_def intro: exI [of _ "\<lambda>_. True"])
  next
    case (Some p)
    obtain j evs where p: "p = (j, evs)" by force
    from delete_event_items_filter [OF Some [unfolded p] assms(1)] show ?thesis
      using Some by (cases "i = j") (auto simp: delete_event_def p list_events_store get_default_def
          list_events_def intro: exI [of _ "\<lambda>_. True"])
  qed
  moreover have "sequences (snd (delete_event x s)) = sequences s"
    by (simp add: delete_event_def split: option.split)
  ultimately show "stream_ok (snd (delete_event x s))" "stream_grows s (snd (delete_event x s))"
    using shrunk_streams assms(2) by blast+
qed

lemma delete_execution_stream:
  assumes "stream_ok s"
  shows "stream_ok (snd (delete_execution x s))" and "stream_grows s (snd (delete_execution x s))"
proof -
  have "\<exists>P. list_events i (snd (delete_execution x s)) = filter P (list_events i s)" for i
    by (rule exI [of _ "\<lambda>_. i \<noteq> x"])
      (simp add: delete_execution_def list_events_def get_default_def)
  moreover have "sequences (snd (delete_execution x s)) = sequences s"
    by (simp add: delete_execution_def)
  ultimately show "stream_ok (snd (delete_execution x s))" "stream_grows s (snd (delete_execution x s))"
    using shrunk_streams assms by blast+
qed

section \<open>The invariants\<close>

lemmas step_defs = save_execution_def update_execution_def repo_save_execution_def
  save_artifact_def create_approval_request_def update_approval_request_def
  resolve_pending_approval_request_def create_execution_wait_def resolve_execution_wait_def
  acquire_lock_def release_lock_def heartbeat_def Let_def

lemma store_step_streams:
  assumes "store_step s s'" and "dicts_ok s" and "stream_ok s"
  shows "stream_ok s' \<and> stream_grows s s'"
  using assms
proof cases
  case (step_delete_execution i)
  then show ?thesis using delete_execution_stream assms(3) by simp
next
  case (step_save_event now ev)
  then show ?thesis using append_event_stream [OF assms(3), of ev]
      same_streams [of "snd (save_event now ev s)" "snd (append_event ev s)"]
      stream_grows_trans by auto
next
  case (step_delete_event i)
  then show ?thesis using delete_event_stream assms(2,3) by (simp add: dicts_ok_def)
qed (rule conjI; (rule same_streams(1) [THEN iffD2] same_streams(2));
     use assms(3) in \<open>auto simp: step_defs split: option.splits list.splits if_splits sum.splits\<close>)+

lemma map_of_filter_SomeD:
  "distinct (map fst d) \<Longrightarrow> map_of (filter P d) i = Some v \<Longrightarrow> map_of d i = Some v"
  by (metis (no_types, lifting) distinct_map_filter filter_is_subset map_of_SomeD map_of_is_SomeI subsetD)

lemma ledger_inv_filter:
  assumes "ledger_inv s" and "waits s' = filter P (waits s)"
  shows "ledger_inv s'"
proof -
  have d: "distinct (map fst (waits s))" by (rule ledger_inv_distinct [OF assms(1)])
  have sub: "map_of (waits s') i = Some w \<Longrightarrow> map_of (waits s) i = Some w" for i w
    using map_of_filter_SomeD [OF d] assms(2) by simp
  have "distinct (map fst (waits s'))" using d assms(2) by (simp add: distinct_map_filter)
  then show ?thesis using assms(1) sub unfolding ledger_inv_def by blast
qed

lemma ledger_inv_create:
  assumes "ledger_inv s" and "op_ok (Create w)" and "get_execution_wait (w_id w) s = None"
    and "create_execution_wait w s = Inr (w', s')"
  shows "ledger_inv s'"
  using mem.step_invar [OF assms(1,2)] assms(3,4) by simp

lemma ledger_inv_resolve:
  assumes "ledger_inv s" and "resolution_ok st k b"
  shows "ledger_inv (snd (resolve_execution_wait now i st k p b s))"
proof -
  have "snd (ledger_step create_execution_wait mem_resolve (Resolve now i st k p b) s) =
      snd (resolve_execution_wait now i st k p b s)"
    by (simp add: case_prod_unfold split: option.split bool.split)
  then show ?thesis using mem.step_invar [OF assms(1), of "Resolve now i st k p b"] assms(2) by simp
qed

lemma keyed_dset: "keyed s \<Longrightarrow> e_id e = i \<Longrightarrow> keyed (s\<lparr>executions := dset i e (executions s)\<rparr>)"
  by (simp add: keyed_def)

lemma keyed_get: "keyed s \<Longrightarrow> map_of (executions s) i = Some e \<Longrightarrow> e_id e = i"
  by (simp add: keyed_def)

lemma keyed_steps:
  assumes "keyed s"
  shows "keyed (snd (acquire_lock now i wk n s))" "keyed (snd (release_lock i wk s))"
    "keyed (snd (heartbeat now i wk s))" "keyed (snd (save_execution now e s))"
    "keyed (update_execution now e s)"
  using assms keyed_get [OF assms]
  by (auto simp: acquire_lock_def release_lock_def heartbeat_def save_execution_def
      update_execution_def Let_def intro!: keyed_dset split: option.split)

lemma store_step_waits:
  assumes "store_step s s'" and "ledger_inv s"
  shows "ledger_inv s'"
  using assms
proof cases
  case (step_delete_execution i)
  then show ?thesis using ledger_inv_filter [OF assms(2)] by (simp add: delete_execution_def)
next
  case (step_create_wait w w')
  then show ?thesis using ledger_inv_create [OF assms(2)] by blast
next
  case (step_resolve_wait st k b now i p)
  then show ?thesis using ledger_inv_resolve [OF assms(2)] by simp
next
  case (step_save_event now ev)
  then show ?thesis using assms(2) by (simp add: ledger_inv_eq [OF save_event_frame(1)])
qed (rule ledger_inv_eq [THEN iffD2, OF _ assms(2)];
     auto simp: step_defs delete_event_def split: option.splits list.splits if_splits)+

lemma store_step_keyed:
  assumes "store_step s s'" and "keyed s"
  shows "keyed s'"
  using assms
proof cases
  case (step_delete_execution i)
  then show ?thesis using assms(2) by (simp add: delete_execution_def keyed_def)
qed (auto simp: keyed_steps assms(2) create_execution_wait_def resolve_execution_wait_def
      save_artifact_def create_approval_request_def update_approval_request_def
      resolve_pending_approval_request_def delete_event_def Let_def
      intro: keyed_eq [OF _ assms(2)] split: option.splits list.splits if_splits)

lemma distinct_dset_events: "distinct (map fst (events s)) \<Longrightarrow> distinct (map fst (events (snd (append_event e s))))"
  by (simp add: append_event_def Let_def)

lemma store_step_event_keys:
  assumes "store_step s s'" and "distinct (map fst (events s))"
  shows "distinct (map fst (events s'))"
  using assms
proof cases
  case (step_save_event now ev)
  then show ?thesis using assms(2) distinct_dset_events by simp
next
  case (step_delete_execution i)
  then show ?thesis using assms(2) by (simp add: delete_execution_def distinct_delete)
next
  case (step_delete_event i)
  then show ?thesis using assms(2) by (simp add: delete_event_def split: option.split)
qed (use assms(2) in \<open>auto simp: step_defs split: option.splits list.splits if_splits\<close>)

lemma store_step_dicts: "store_step s s' \<Longrightarrow> dicts_ok s \<Longrightarrow> dicts_ok s'"
  using store_step_waits store_step_keyed store_step_event_keys by (auto simp: dicts_ok_def)

lemma store_steps_inv:
  assumes "store_step\<^sup>*\<^sup>* s s'" and "dicts_ok s" and "stream_ok s"
  shows "dicts_ok s' \<and> stream_ok s' \<and> stream_grows s s'"
  using assms
proof (induction rule: rtranclp_induct)
  case base
  then show ?case by simp
next
  case (step y z)
  then show ?case using store_step_dicts store_step_streams stream_grows_trans by blast
qed

lemma empty_store_inv: "dicts_ok empty_store" "stream_ok empty_store"
  by (simp_all add: dicts_ok_def stream_ok_def empty_store_def keyed_def ledger_inv_def
      sequence_of_def list_events_def get_default_def)

text \<open>
  C14: In every store that operations reach from the empty one, each execution's events carry
  strictly increasing sequence numbers starting at 1 or later, none above the execution's
  counter; deleting events or the execution itself does not let a number be used again.
\<close>

theorem event_sequences_increase:
  assumes "store_reachable s"
  shows "sorted_wrt (<) (map ev_sequence (list_events i s)) \<and>
    (\<forall>e \<in> set (list_events i s). 1 \<le> ev_sequence e \<and> ev_sequence e \<le> sequence_of i s)"
  using store_steps_inv [OF assms empty_store_inv] unfolding stream_ok_def by blast

definition sample_stream :: store where
  "sample_stream = snd (save_event 0 sample_event (snd (save_event 0 sample_event empty_store)))"

lemma sample_stream_reachable: "store_reachable sample_stream"
  unfolding sample_stream_def by (meson r_into_rtranclp rtranclp.rtrancl_into_rtrancl step_save_event)

lemma sample_stream_events:
  "map ev_sequence (list_events ''ex-1'' sample_stream) = [1, 2]"
  by (simp add: sample_stream_def list_events_eq [OF save_event_frame(4)] append_event_list
      append_event_def Let_def get_default_def empty_store_def sample_event_def list_events_def)

theorem event_sequences_increase_witness:
  "sorted_wrt (<) (map ev_sequence (list_events ''ex-1'' sample_stream)) \<and>
   map ev_sequence (list_events ''ex-1'' sample_stream) = [1, 2]"
  using event_sequences_increase [OF sample_stream_reachable, of "''ex-1''"] sample_stream_events
  by blast

text \<open>
  A reader that asks for the events after the last sequence number it has seen gets exactly
  the events that appeared since, in order: none twice and none missed, whatever operations ran
  in between.
\<close>

theorem polling_sees_new_events:
  assumes "store_reachable s" and "store_step\<^sup>*\<^sup>* s s'"
    and "k = (if list_events i s = [] then 0 else ev_sequence (last (list_events i s)))"
  shows "list_events_after i k s' =
    filter (\<lambda>e. e \<notin> set (list_events i s)) (list_events i s')"
proof -
  from store_steps_inv [OF assms(1) empty_store_inv] have inv: "dicts_ok s" "stream_ok s" by auto
  from store_steps_inv [OF assms(2) inv] have s': "stream_ok s'" "stream_grows s s'" by auto
  have seen: "ev_sequence e \<le> k" if "e \<in> set (list_events i s)" for e
  proof -
    from that have ne: "list_events i s \<noteq> []" by auto
    have "sorted_wrt (<) (map ev_sequence (list_events i s))" using inv(2) by (simp add: stream_ok_def)
    then show ?thesis using sorted_wrt_le_last that ne assms(3) by simp
  qed
  have k: "k \<le> sequence_of i s" using inv(2) assms(3) unfolding stream_ok_def
    by (metis last_in_set)
  have "ev_sequence e > k \<longleftrightarrow> e \<notin> set (list_events i s)" if "e \<in> set (list_events i s')" for e
    using that seen k s'(2) unfolding stream_grows_def by (meson not_le order.strict_trans1)
  then show ?thesis by (simp add: list_events_after_def list_events_def [symmetric] cong: filter_cong)
qed

theorem polling_sees_new_events_witness:
  "list_events_after ''ex-1'' 2 (snd (save_event 9 sample_event sample_stream)) =
    filter (\<lambda>e. e \<notin> set (list_events ''ex-1'' sample_stream))
      (list_events ''ex-1'' (snd (save_event 9 sample_event sample_stream)))"
proof (rule polling_sees_new_events [OF sample_stream_reachable])
  show "store_step\<^sup>*\<^sup>* sample_stream (snd (save_event 9 sample_event sample_stream))"
    using step_save_event by blast
  show "2 = (if list_events ''ex-1'' sample_stream = [] then 0
      else ev_sequence (last (list_events ''ex-1'' sample_stream)))"
    using sample_stream_events by (auto simp: last_map [symmetric])
qed

section \<open>Worker locks\<close>

datatype lock_op = Acquire datetime string | Release string | Heartbeat datetime string

fun lock_step :: "string \<Rightarrow> int \<Rightarrow> lock_op \<Rightarrow> store \<Rightarrow> store" where
  "lock_step i n (Acquire now wk) s = snd (acquire_lock now i wk n s)"
| "lock_step i n (Release wk) s = snd (release_lock i wk s)"
| "lock_step i n (Heartbeat now wk) s = snd (heartbeat now i wk s)"

text \<open>
  Operations that run while the worker \<open>a\<close> is alive: it does not release the lock, its own
  heartbeats come after \<open>h\<close>, and the others compete for the lock within \<open>n\<close> seconds of \<open>h\<close>.
\<close>

fun while_alive :: "string \<Rightarrow> datetime \<Rightarrow> int \<Rightarrow> lock_op \<Rightarrow> bool" where
  "while_alive a h n (Acquire now wk) = (if wk = a then h \<le> now else now - h \<le> seconds n)"
| "while_alive a h n (Release wk) = (wk \<noteq> a)"
| "while_alive a h n (Heartbeat now wk) = (wk = a \<longrightarrow> h \<le> now)"

definition holds_lock :: "string \<Rightarrow> string \<Rightarrow> datetime \<Rightarrow> store \<Rightarrow> bool" where
  "holds_lock i a h s \<longleftrightarrow> (case get_execution i s of None \<Rightarrow> False
     | Some e \<Rightarrow> e_worker_id e = Some a \<and>
         (case e_last_heartbeat_at e of None \<Rightarrow> False | Some t \<Rightarrow> h \<le> t))"

lemma lock_step_holder:
  assumes "holds_lock i a h s" and "while_alive a h n x"
  shows "holds_lock i a h (lock_step i n x s)"
proof -
  from assms(1) obtain e t where e: "get_execution i s = Some e" "e_worker_id e = Some a"
    "e_last_heartbeat_at e = Some t" "h \<le> t"
    by (auto simp: holds_lock_def split: option.splits)
  then show ?thesis using assms(2)
    by (cases x) (auto simp: holds_lock_def acquire_lock_def release_lock_def heartbeat_def
        get_execution_def heartbeat_is_stale_def Let_def split: if_splits)
qed

text \<open>
  A worker that holds an execution's lock keeps it through every sequence of lock
  operations by other workers, as long as they compete within \<open>stale_after_seconds\<close> of its last
  heartbeat and it does not release the lock itself.
\<close>

theorem lock_holder_keeps_lock:
  assumes "holds_lock i a h s" and "\<forall>x \<in> set xs. while_alive a h n x"
  shows "holds_lock i a h (fold (lock_step i n) xs s)"
  using assms by (induction xs arbitrary: s) (simp_all add: lock_step_holder)

theorem lock_holder_keeps_lock_witness:
  "holds_lock ''ex-1'' ''a'' 0
    (fold (lock_step ''ex-1'' 30) [Acquire (seconds 30) ''b'', Heartbeat 5 ''b'', Release ''b'']
      (empty_store\<lparr>executions := [(''ex-1'', sample_execution\<lparr>e_worker_id := Some ''a'',
         e_last_heartbeat_at := Some 0\<rparr>)]\<rparr>))"
  by (rule lock_holder_keeps_lock)
    (simp_all add: holds_lock_def get_execution_def)

text \<open>
  \<open>acquire_lock\<close> succeeds exactly when the execution exists and is free, already the
  worker's, or its heartbeat is older than the limit; a success makes the worker the owner with
  a fresh heartbeat, a refusal changes nothing.
\<close>

theorem acquire_lock_behaviour:
  "fst (acquire_lock now i wk n s) =
     (case get_execution i s of None \<Rightarrow> False
      | Some e \<Rightarrow> e_worker_id e = None \<or> e_worker_id e = Some wk \<or>
          heartbeat_is_stale now n (e_last_heartbeat_at e)) \<and>
   (if fst (acquire_lock now i wk n s) then holds_lock i wk now (snd (acquire_lock now i wk n s))
    else snd (acquire_lock now i wk n s) = s)"
  by (auto simp: acquire_lock_def get_execution_def holds_lock_def split: option.split)

end
