(* ===== verification/Wait_Service.thy ===== *)
theory Wait_Service
  imports Events Wait_Ledger
begin

text \<open>
  \<open>ExecutionWaitService\<close> of \<open>app/services/execution_waits.py\<close>: suspending an execution on a
  durable wait and waking it. \<open>resolve_wait\<close> calls the control plane's \<open>resume\<close>; it is an
  argument here, with what the service relies on stated in the locale \<open>resumer\<close>, which the
  control plane's theory interprets.
\<close>

section \<open>Creating waits\<close>

primrec WAIT_EXECUTION_STATUS :: "ExecutionWaitKind \<Rightarrow> ExecutionStatus" where
  "WAIT_EXECUTION_STATUS INPUT = WAITING_FOR_INPUT"
| "WAIT_EXECUTION_STATUS APPROVAL = WAITING_FOR_APPROVAL"
| "WAIT_EXECUTION_STATUS EVENT = WAITING_FOR_EVENT"
| "WAIT_EXECUTION_STATUS SLEEP = SLEEPING"

definition WAIT_CREATION_SOURCE_STATUSES :: "ExecutionStatus set" where
  "WAIT_CREATION_SOURCE_STATUSES =
    {PAUSED, WAITING_FOR_INPUT, WAITING_FOR_APPROVAL, WAITING_FOR_EVENT, SLEEPING}"

definition execution_not_found :: "string \<Rightarrow> exc" where
  "execution_not_found execution_id =
    ExecutionNotFoundError (''Execution '' @ quote execution_id @ '' was not found'')"

text \<open>The keyword arguments of \<open>create_wait\<close> other than the execution and the key.\<close>

record wait_request =
  q_kind :: ExecutionWaitKind
  q_checkpoint :: "json option"
  q_request_payload :: json
  q_policy :: json
  q_correlation_key :: "string option"
  q_wake_at :: "datetime option"
  q_deadline_at :: "datetime option"
  q_metadata :: json

text \<open>The \<open>ExecutionWait(...)\<close> that \<open>create_wait\<close> constructs, before its validator runs.\<close>

definition requested_wait :: "Execution \<Rightarrow> string \<Rightarrow> string \<Rightarrow> datetime \<Rightarrow> wait_request \<Rightarrow> ExecutionWait" where
  "requested_wait execution wait_id normalized_key now q =
    \<lparr>w_id = wait_id, w_execution_id = e_id execution, w_kind = q_kind q, w_status = PENDING,
     w_idempotency_key = normalized_key,
     w_correlation_key = (case q_correlation_key q of None \<Rightarrow> None
        | Some c \<Rightarrow> if strip c \<noteq> [] then Some (strip c) else None),
     w_checkpoint = (case q_checkpoint q of Some c \<Rightarrow> c
        | None \<Rightarrow> (case e_output_payload execution of None \<Rightarrow> [] | Some p \<Rightarrow> p)),
     w_request_payload = q_request_payload q, w_policy = q_policy q, w_resolution_payload = None,
     w_resolution_key = None, w_wake_at = q_wake_at q, w_deadline_at = q_deadline_at q,
     w_resolved_at = None, w_resolved_by = None, w_created_at = now, w_updated_at = now,
     w_metadata = q_metadata q\<rparr>"

definition active_wait_entry :: "ExecutionWait \<Rightarrow> pyval" where
  "active_wait_entry saved =
    VDict [(''wait_id'', VStr (w_id saved)), (''kind'', VStr (wait_kind_value (w_kind saved))),
           (''created_at'', VStr (isoformat (w_created_at saved))),
           (''wake_at'', iso_or_none (w_wake_at saved)),
           (''deadline_at'', iso_or_none (w_deadline_at saved))]"

definition waiting_payload :: "ExecutionWait \<Rightarrow> json" where
  "waiting_payload saved =
    [(''wait_id'', VStr (w_id saved)), (''kind'', VStr (wait_kind_value (w_kind saved))),
     (''status'', VStr (wait_status_value (w_status saved))),
     (''correlation_key'', opt_str (w_correlation_key saved)),
     (''wake_at'', iso_or_none (w_wake_at saved)),
     (''deadline_at'', iso_or_none (w_deadline_at saved))]"

text \<open>The part of \<open>create_wait\<close> after the ledger accepted the wait.\<close>

definition suspend_on :: "Execution \<Rightarrow> ExecutionWaitKind \<Rightarrow> ExecutionWait \<Rightarrow> world \<Rightarrow> world" where
  "suspend_on execution kind saved w =
    (let execution' = execution\<lparr>e_status := WAIT_EXECUTION_STATUS kind,
           e_metadata := dset ''active_wait'' (active_wait_entry saved) (e_metadata execution)\<rparr>
     in emit_for (e_id execution) (e_workflow_id execution) EXECUTION_WAITING
          (waiting_payload saved) (db_update_execution execution' w))"

definition create_wait ::
  "string \<Rightarrow> string \<Rightarrow> wait_request \<Rightarrow> (ExecutionWait \<times> bool) act" where
  "create_wait execution_id idempotency_key q w =
    (case get_execution execution_id (db w) of
       None \<Rightarrow> (Inl (execution_not_found execution_id), w)
     | Some execution \<Rightarrow>
         if e_status execution \<notin> WAIT_CREATION_SOURCE_STATUSES then
           (Inl (ExecutionWaitConflictError
              ''Execution must be paused at a persisted checkpoint before a durable wait can be created.''), w)
         else
           let normalized_key = strip idempotency_key in
           if normalized_key = [] then (Inl (ValueError ''idempotency_key must not be empty''), w)
           else if (case (q_wake_at q, q_deadline_at q) of
                      (Some wake, Some deadline) \<Rightarrow> deadline < wake | _ \<Rightarrow> False) then
             (Inl (ValueError ''deadline_at cannot be earlier than wake_at''), w)
           else
             case list_execution_waits execution_id (Some PENDING) (db w) of
               existing # _ \<Rightarrow>
                 if w_idempotency_key existing = normalized_key then (Inr (existing, False), w)
                 else (Inl (ExecutionWaitConflictError (''Execution '' @ quote execution_id @
                         '' already has pending wait '' @ quote (w_id existing) @ ''.'')), w)
             | [] \<Rightarrow>
                 let (wait_id, w1) = uuid4 w in
                 case validate_lifecycle (requested_wait execution wait_id normalized_key (clock w) q) of
                   Inl e \<Rightarrow> (Inl e, w1)
                 | Inr wait \<Rightarrow>
                     (case create_execution_wait wait (db w1) of
                        Inl e \<Rightarrow>
                          (case list_execution_waits execution_id (Some PENDING) (db w1) of
                             existing # _ \<Rightarrow>
                               if w_idempotency_key existing = normalized_key
                               then (Inr (existing, False), w1)
                               else (Inl (ExecutionWaitConflictError (''Execution '' @ quote execution_id @
                                      '' acquired another pending wait concurrently.'')), w1)
                           | [] \<Rightarrow> (Inl (ExecutionWaitConflictError (''Execution '' @ quote execution_id @
                                      '' acquired another pending wait concurrently.'')), w1))
                      | Inr (saved, s) \<Rightarrow>
                          (Inr (saved, True), suspend_on execution (q_kind q) saved (w1\<lparr>db := s\<rparr>))))"

definition get_wait :: "string \<Rightarrow> string \<Rightarrow> world \<Rightarrow> exc + ExecutionWait" where
  "get_wait execution_id wait_id w =
    (case get_execution_wait wait_id (db w) of
       None \<Rightarrow> Inl (ExecutionWaitNotFoundError (''Execution wait '' @ quote wait_id @ '' was not found''))
     | Some wait \<Rightarrow>
         if w_execution_id wait \<noteq> execution_id
         then Inl (ExecutionWaitNotFoundError (''Execution wait '' @ quote wait_id @ '' was not found''))
         else Inr wait)"

definition list_waits ::
  "string \<Rightarrow> ExecutionWaitStatus option \<Rightarrow> world \<Rightarrow> exc + ExecutionWait list" where
  "list_waits execution_id status w =
    (case get_execution execution_id (db w) of
       None \<Rightarrow> Inl (execution_not_found execution_id)
     | Some _ \<Rightarrow> Inr (list_execution_waits execution_id status (db w)))"

section \<open>Resolving waits\<close>

record wait_outcome =
  out_wait :: ExecutionWait
  out_claimed :: bool
  out_resumed :: bool
  out_execution :: "Execution option"

text \<open>
  \<open>dict(v or {})\<close>; a list of pairs, which \<open>dict\<close> also takes, is not a value stored in these
  places.
\<close>

definition py_dict :: "pyval \<Rightarrow> exc + json" where
  "py_dict v =
    (if \<not> truthy v then Inr []
     else case v of VDict d \<Rightarrow> Inr d
       | VStr _ \<Rightarrow> Inl (ValueError ''dictionary update sequence element has the wrong length'')
       | _ \<Rightarrow> Inl (TypeError ''object is not iterable''))"

definition waits_on :: "Execution \<Rightarrow> string \<Rightarrow> bool" where
  "waits_on execution wait_id =
    (case as_dict (jget (e_metadata execution) ''active_wait'') of
       None \<Rightarrow> False | Some active_wait \<Rightarrow> jget active_wait ''wait_id'' = VStr wait_id)"

definition last_resolved_entry :: "ExecutionWait \<Rightarrow> pyval" where
  "last_resolved_entry resolved =
    VDict [(''wait_id'', VStr (w_id resolved)), (''kind'', VStr (wait_kind_value (w_kind resolved))),
           (''status'', VStr (wait_status_value (w_status resolved))),
           (''resolution_key'', opt_str (w_resolution_key resolved)),
           (''resolved_at'', iso_or_none (w_resolved_at resolved))]"

definition wait_resolution_entry :: "ExecutionWait \<Rightarrow> pyval" where
  "wait_resolution_entry resolved =
    VDict [(''kind'', VStr (wait_kind_value (w_kind resolved))),
           (''status'', VStr (wait_status_value (w_status resolved))),
           (''payload'', VDict (case w_resolution_payload resolved of None \<Rightarrow> [] | Some p \<Rightarrow> p)),
           (''resolved_at'', iso_or_none (w_resolved_at resolved))]"

definition woken_payload :: "ExecutionWait \<Rightarrow> bool \<Rightarrow> json" where
  "woken_payload resolved resume_requested =
    [(''wait_id'', VStr (w_id resolved)), (''kind'', VStr (wait_kind_value (w_kind resolved))),
     (''status'', VStr (wait_status_value (w_status resolved))),
     (''resolution_key'', opt_str (w_resolution_key resolved)),
     (''resume_requested'', VBool resume_requested)]"

text \<open>The execution written back after a claim, before any resume.\<close>

definition woken_execution :: "string \<Rightarrow> ExecutionWait \<Rightarrow> json \<Rightarrow> Execution \<Rightarrow> Execution" where
  "woken_execution wait_id resolved wait_resolutions execution =
    (let metadata = (if waits_on execution wait_id then dpop ''active_wait'' (e_metadata execution)
                     else e_metadata execution)
     in execution\<lparr>e_metadata := dset ''last_resolved_wait'' (last_resolved_entry resolved) metadata,
          e_input_payload := dset ''wait_resolutions''
            (VDict (dset (w_id resolved) (wait_resolution_entry resolved) wait_resolutions))
            (e_input_payload execution),
          e_status := PAUSED\<rparr>)"

text \<open>The part of \<open>resolve_wait\<close> after the claim.\<close>

definition wake_execution ::
  "(string \<Rightarrow> Execution act) \<Rightarrow> ExecutionWait \<Rightarrow> ExecutionWaitStatus \<Rightarrow> bool \<Rightarrow> Execution \<Rightarrow>
   wait_outcome act" where
  "wake_execution resume resolved status resume_requested execution w =
    (case py_dict (jget (e_input_payload execution) ''wait_resolutions'') of
       Inl e \<Rightarrow> (Inl e, w)
     | Inr wait_resolutions \<Rightarrow>
         let w1 = emit_for (e_id execution) (e_workflow_id execution) EXECUTION_WOKEN
                    (woken_payload resolved resume_requested)
                    (db_update_execution
                       (woken_execution (w_id resolved) resolved wait_resolutions execution) w)
         in if resume_requested \<and> status = RESOLVED then
              andthen (resume (e_id execution) w1)
                (\<lambda>resumed_execution w2.
                   (Inr \<lparr>out_wait = resolved, out_claimed = True, out_resumed = True,
                         out_execution = Some resumed_execution\<rparr>, w2))
            else (Inr \<lparr>out_wait = resolved, out_claimed = True, out_resumed = False,
                       out_execution = None\<rparr>, w1))"

definition none_or_str :: "string option \<Rightarrow> string" where
  "none_or_str s = (case s of None \<Rightarrow> ''None'' | Some t \<Rightarrow> t)"

text \<open>The checks \<open>resolve_wait\<close> makes of a wait that is still pending.\<close>

definition check_suspended ::
  "string \<Rightarrow> ExecutionWait \<Rightarrow> ExecutionWaitStatus \<Rightarrow> bool \<Rightarrow> world \<Rightarrow> exc + Execution" where
  "check_suspended execution_id wait status resume_requested w =
    (case get_execution execution_id (db w) of
       None \<Rightarrow> Inl (execution_not_found execution_id)
     | Some execution \<Rightarrow>
         if e_status execution \<noteq> WAIT_EXECUTION_STATUS (w_kind wait) \<or> \<not> waits_on execution (w_id wait) then
           Inl (ExecutionWaitConflictError (''Execution '' @ quote execution_id @
             '' is no longer suspended on wait '' @ quote (w_id wait) @ ''.''))
         else if resume_requested \<and> status = RESOLVED \<and> e_runtime_adapter_id execution \<noteq> ''native'' then
           Inl (ExecutionWaitConflictError
             ''Automatic durable wait resume currently requires the native runtime.'')
         else Inr execution)"

definition resolve_wait ::
  "(string \<Rightarrow> Execution act) \<Rightarrow> string \<Rightarrow> string \<Rightarrow> string \<Rightarrow> json \<Rightarrow> ExecutionWaitStatus \<Rightarrow>
   string option \<Rightarrow> bool \<Rightarrow> wait_outcome act" where
  "resolve_wait resume execution_id wait_id resolution_key resolution_payload status resolved_by
     resume_requested w =
    (if status \<notin> TERMINAL_EXECUTION_WAIT_STATUSES then
       (Inl (ValueError ''Execution waits may only resolve to resolved, expired, or cancelled.''), w)
     else let normalized_key = strip resolution_key in
     if normalized_key = [] then (Inl (ValueError ''resolution_key must not be empty''), w)
     else case get_wait execution_id wait_id w of
       Inl e \<Rightarrow> (Inl e, w)
     | Inr wait \<Rightarrow>
         (case (if w_status wait = PENDING
                then (case check_suspended execution_id wait status resume_requested w of
                        Inl e \<Rightarrow> Inl e | Inr execution \<Rightarrow> Inr (Some execution))
                else Inr None) of
            Inl e \<Rightarrow> (Inl e, w)
          | Inr execution \<Rightarrow>
              let ((resolved, claimed), s) = resolve_execution_wait (clock w) (w_id wait) status
                     normalized_key resolution_payload resolved_by (db w);
                  w1 = w\<lparr>db := s\<rparr>
              in case resolved of
                   None \<Rightarrow>
                     (case get_wait execution_id wait_id w1 of
                        Inl e \<Rightarrow> (Inl e, w1)
                      | Inr current \<Rightarrow>
                          (Inl (ExecutionWaitConflictError (''Execution wait '' @ quote wait_id @
                             '' was already resolved by key '' @
                             quote (none_or_str (w_resolution_key current)) @ ''.'')), w1))
                 | Some won \<Rightarrow>
                     if \<not> claimed then
                       (Inr \<lparr>out_wait = won, out_claimed = False, out_resumed = False,
                             out_execution = None\<rparr>, w1)
                     else
                       (case (case execution of Some e \<Rightarrow> Some e
                              | None \<Rightarrow> get_execution execution_id (db w1)) of
                          None \<Rightarrow> (Inl (execution_not_found execution_id), w1)
                        | Some e \<Rightarrow>
                            wake_execution resume won status resume_requested e w1)))"

section \<open>Waking due waits and events\<close>

datatype wake_item =
    Woken string string bool bool "string option"
  | WakeFailed string string string

record wake_report =
  rep_expired_scanned :: nat
  rep_due_scanned :: nat
  rep_items :: "wake_item list"

text \<open>The body of the loops: one call of \<open>resolve_wait\<close>, any exception reported as an item.\<close>

definition wake_one ::
  "(ExecutionWait \<Rightarrow> wait_outcome act) \<Rightarrow> string option \<Rightarrow> (wait_outcome \<Rightarrow> bool) \<Rightarrow> ExecutionWait \<Rightarrow>
   world \<Rightarrow> wake_item \<times> world" where
  "wake_one call status resumed wait w =
    (case call wait w of
       (Inl e, w') \<Rightarrow> (WakeFailed (w_id wait) (w_execution_id wait) (exc_str e), w')
     | (Inr outcome, w') \<Rightarrow>
         (Woken (w_id wait) (w_execution_id wait) (out_claimed outcome) (resumed outcome) status, w'))"

fun wake_loop :: "(ExecutionWait \<Rightarrow> world \<Rightarrow> wake_item \<times> world) \<Rightarrow> ExecutionWait list \<Rightarrow> world \<Rightarrow>
  wake_item list \<times> world" where
  "wake_loop one [] w = ([], w)"
| "wake_loop one (wait # rest) w =
    (let (item, w1) = one wait w; (items, w2) = wake_loop one rest w1 in (item # items, w2))"

definition deadline_key :: "ExecutionWait \<Rightarrow> string" where
  "deadline_key wait = ''deadline:'' @ w_id wait @ '':'' @
    (case w_deadline_at wait of None \<Rightarrow> ''expired'' | Some d \<Rightarrow> isoformat d)"

definition timer_key :: "ExecutionWait \<Rightarrow> string" where
  "timer_key wait = ''timer:'' @ w_id wait @ '':'' @
    (case w_wake_at wait of None \<Rightarrow> ''due'' | Some d \<Rightarrow> isoformat d)"

definition expire_wait :: "(string \<Rightarrow> Execution act) \<Rightarrow> ExecutionWait \<Rightarrow> wait_outcome act" where
  "expire_wait resume wait =
    resolve_wait resume (w_execution_id wait) (w_id wait) (deadline_key wait)
      [(''deadline_at'', iso_or_none (w_deadline_at wait)),
       (''reason'', VStr ''Execution wait deadline expired.'')]
      EXPIRED (Some ''runtime_reconciler'') False"

definition fire_timer :: "(string \<Rightarrow> Execution act) \<Rightarrow> ExecutionWait \<Rightarrow> wait_outcome act" where
  "fire_timer resume wait =
    resolve_wait resume (w_execution_id wait) (w_id wait) (timer_key wait)
      [(''wake_at'', iso_or_none (w_wake_at wait))]
      RESOLVED (Some ''runtime_reconciler'') True"

definition wake_due_waits ::
  "(string \<Rightarrow> Execution act) \<Rightarrow> datetime option \<Rightarrow> int \<Rightarrow> world \<Rightarrow> wake_report \<times> world" where
  "wake_due_waits resume now limit w =
    (let current_time = (case now of None \<Rightarrow> clock w | Some t \<Rightarrow> t);
         expired = list_expired_execution_waits current_time limit (db w);
         (outcomes1, w1) = wake_loop (wake_one (expire_wait resume)
            (Some (wait_status_value EXPIRED)) (\<lambda>outcome. False)) expired w;
         due_waits = list_due_execution_waits current_time limit (db w1);
         (outcomes2, w2) = wake_loop (wake_one (fire_timer resume)
            (Some (wait_status_value RESOLVED)) out_resumed) due_waits w1
     in (\<lparr>rep_expired_scanned = length expired, rep_due_scanned = length due_waits,
          rep_items = outcomes1 @ outcomes2\<rparr>, w2))"

record event_report =
  er_correlation_key :: string
  er_matched :: nat
  er_items :: "wake_item list"

definition deliver_event ::
  "(string \<Rightarrow> Execution act) \<Rightarrow> string \<Rightarrow> string \<Rightarrow> json \<Rightarrow> string option \<Rightarrow> ExecutionWait \<Rightarrow> wait_outcome act" where
  "deliver_event resume correlation event_id payload resolved_by wait =
    resolve_wait resume (w_execution_id wait) (w_id wait) (''event:'' @ event_id @ '':'' @ w_id wait)
      [(''event_id'', VStr event_id), (''correlation_key'', VStr correlation),
       (''payload'', VDict payload)]
      RESOLVED (or_str resolved_by (Some ''event_trigger'')) True"

definition wake_event ::
  "(string \<Rightarrow> Execution act) \<Rightarrow> string \<Rightarrow> string \<Rightarrow> json \<Rightarrow> string option \<Rightarrow> int \<Rightarrow> event_report act" where
  "wake_event resume correlation_key event_id event_payload resolved_by limit w =
    (let normalized_correlation = strip correlation_key; normalized_event_id = strip event_id
     in if normalized_correlation = [] then (Inl (ValueError ''correlation_key must not be empty''), w)
        else if normalized_event_id = [] then (Inl (ValueError ''event_id must not be empty''), w)
        else
          let candidates = list_pending_execution_waits_by_correlation normalized_correlation limit (db w);
              event_waits = filter (\<lambda>wait. w_kind wait = EVENT) candidates;
              (outcomes, w1) = wake_loop (wake_one (deliver_event resume normalized_correlation
                 normalized_event_id event_payload resolved_by) None out_resumed) event_waits w
          in (Inr \<lparr>er_correlation_key = normalized_correlation, er_matched = length event_waits,
                   er_items = outcomes\<rparr>, w1))"

section \<open>What the listings and updates do\<close>

lemma in_pending_list:
  "x \<in> set (list_execution_waits i (Some PENDING) s) \<longleftrightarrow>
     x \<in> set (dvalues (waits s)) \<and> w_execution_id x = i \<and> w_status x = PENDING"
  by (auto simp: list_execution_waits_def Let_def)

lemma pending_listD:
  assumes "ledger_inv s" and "list_execution_waits i (Some PENDING) s = x # xs"
  shows "get_execution_wait (w_id x) s = Some x" "w_execution_id x = i" "w_status x = PENDING"
proof -
  have x: "x \<in> set (dvalues (waits s))" "w_execution_id x = i" "w_status x = PENDING"
    using in_pending_list [of x i s] assms(2) by simp_all
  then obtain j where "map_of (waits s) j = Some x"
    using dvalues_in_map_of [OF ledger_inv_distinct [OF assms(1)]] by blast
  then show "get_execution_wait (w_id x) s = Some x"
    using assms(1) by (auto simp: ledger_inv_def get_execution_wait_def)
  show "w_execution_id x = i" "w_status x = PENDING" by (rule x)+
qed

lemma pending_list_Nil_iff:
  assumes "ledger_inv s"
  shows "list_execution_waits i (Some PENDING) s = [] \<longleftrightarrow>
    (\<forall>j v. get_execution_wait j s = Some v \<longrightarrow> w_execution_id v = i \<longrightarrow> w_status v \<noteq> PENDING)"
proof
  assume nil: "list_execution_waits i (Some PENDING) s = []"
  show "\<forall>j v. get_execution_wait j s = Some v \<longrightarrow> w_execution_id v = i \<longrightarrow> w_status v \<noteq> PENDING"
    using in_pending_list [of _ i s] nil in_dvalues_map_of [of "waits s"]
    unfolding get_execution_wait_def by fastforce
next
  assume no: "\<forall>j v. get_execution_wait j s = Some v \<longrightarrow> w_execution_id v = i \<longrightarrow> w_status v \<noteq> PENDING"
  show "list_execution_waits i (Some PENDING) s = []"
  proof (cases "list_execution_waits i (Some PENDING) s")
    case (Cons x xs)
    then show ?thesis using pending_listD [OF assms Cons] no by blast
  qed
qed

lemma pending_list_single:
  assumes inv: "ledger_inv s" and w: "get_execution_wait j s = Some v" "w_execution_id v = i"
    "w_status v = PENDING"
  shows "\<exists>xs. list_execution_waits i (Some PENDING) s = v # xs"
proof (cases "list_execution_waits i (Some PENDING) s")
  case Nil
  then show ?thesis using pending_list_Nil_iff [OF inv] w by blast
next
  case (Cons x xs)
  note x = pending_listD [OF inv Cons]
  have "same_slot x v" using x w by (simp add: same_slot_def)
  then have "w_id x = j" using mem.slot_unique [OF inv x(1) w(1)] by simp
  with x(1) w(1) have "x = v" by simp
  with Cons show ?thesis by blast
qed

lemma db_update_simps [simp]:
  "waits (db (db_update_execution e w)) = waits (db w)"
  "events (db (db_update_execution e w)) = events (db w)"
  "approval_requests (db (db_update_execution e w)) = approval_requests (db w)"
  "artifacts (db (db_update_execution e w)) = artifacts (db w)"
  "clock (db_update_execution e w) = clock w"
  "states (db_update_execution e w) = states w" "tasks (db_update_execution e w) = tasks w"
  "daemon (db_update_execution e w) = daemon w"
  "operations (db_update_execution e w) = operations w"
  "pending_approvals (db_update_execution e w) = pending_approvals w"
  "request_ids (db_update_execution e w) = request_ids w"
  "redactor (db_update_execution e w) = redactor w"
  "uuid_count (db_update_execution e w) = uuid_count w"
  "uuid_supply (db_update_execution e w) = uuid_supply w"
  by (simp_all add: db_update_execution_def update_execution_def)

lemma db_update_get [simp]:
  "get_execution i (db (db_update_execution e w)) =
     (if i = e_id e then Some (e\<lparr>e_updated_at := clock w\<rparr>) else get_execution i (db w))"
  by (simp add: db_update_execution_def update_execution_def repo_save_execution_def
      get_execution_def Let_def)

lemma db_update_keyed [simp]: "keyed (db w) \<Longrightarrow> keyed (db (db_update_execution e w))"
  by (simp add: db_update_execution_def update_execution_def)

lemma get_execution_eq: "executions s' = executions s \<Longrightarrow> get_execution i s' = get_execution i s"
  by (simp add: get_execution_def)

lemma get_wait_eq: "waits s' = waits s \<Longrightarrow> get_execution_wait i s' = get_execution_wait i s"
  by (simp add: get_execution_wait_def)

lemma waiting_not_activity [simp]:
  "EXECUTION_WAITING \<notin> set ACTIVITY_EVENT_TYPES" "EXECUTION_WOKEN \<notin> set ACTIVITY_EVENT_TYPES"
  by (simp_all add: ACTIVITY_EVENT_TYPES_def)

lemma emit_for_get [simp]:
  "ty \<notin> set ACTIVITY_EVENT_TYPES \<Longrightarrow>
   get_execution j (db (emit_for i wid ty payload w)) = get_execution j (db w)"
  by (rule get_execution_eq) (rule emit_for_executions(1))

lemma emit_for_get_wait [simp]:
  "get_execution_wait j (db (emit_for i wid ty payload w)) = get_execution_wait j (db w)"
  by (rule get_wait_eq) simp

lemma db_update_get_wait [simp]:
  "get_execution_wait j (db (db_update_execution e w)) = get_execution_wait j (db w)"
  by (rule get_wait_eq) simp

lemma db_update_list_events [simp]:
  "list_events j (db (db_update_execution e w)) = list_events j (db w)"
  by (rule list_events_eq) simp

section \<open>Creating a wait\<close>

lemma suspend_on_effect:
  assumes "keyed (db w)"
  shows "waits (db (suspend_on e kind saved w)) = waits (db w)"
    and "get_execution j (db (suspend_on e kind saved w)) =
      (if j = e_id e then Some (e\<lparr>e_status := WAIT_EXECUTION_STATUS kind,
           e_metadata := dset ''active_wait'' (active_wait_entry saved) (e_metadata e),
           e_updated_at := clock w\<rparr>) else get_execution j (db w))"
    and "\<exists>ev. list_events (e_id e) (db (suspend_on e kind saved w)) =
      list_events (e_id e) (db w) @ [ev] \<and> ev_event_type ev = EXECUTION_WAITING"
    and "keyed (db (suspend_on e kind saved w))"
    and "clock (suspend_on e kind saved w) = clock w"
  using assms
  by (simp_all add: suspend_on_def Let_def emit_for_executions(3))

lemma waits_on_active [simp]:
  "waits_on (e\<lparr>e_status := st, e_metadata := dset ''active_wait'' (active_wait_entry saved) m,
     e_updated_at := t\<rparr>) i \<longleftrightarrow> i = w_id saved"
  by (auto simp: waits_on_def active_wait_entry_def)

text \<open>The cases in which \<open>create_wait\<close> suspends the execution.\<close>

lemma create_wait_TrueE:
  assumes "create_wait i k q w = (Inr (wait, True), w')"
  obtains e v s where "get_execution i (db w) = Some e" "e_status e \<in> WAIT_CREATION_SOURCE_STATUSES"
    "strip k \<noteq> []" "list_execution_waits i (Some PENDING) (db w) = []"
    "validate_lifecycle (requested_wait e (uuid_supply w (uuid_count w)) (strip k) (clock w) q) = Inr v"
    "create_execution_wait v (db w) = Inr (wait, s)"
    "w' = suspend_on e (q_kind q) wait ((snd (uuid4 w))\<lparr>db := s\<rparr>)"
  using assms
  by (auto simp: create_wait_def Let_def case_prod_unfold
      split: option.splits if_splits list.splits sum.splits prod.splits)

lemma requested_wait_simps [simp]:
  "w_id (requested_wait e i k now q) = i" "w_execution_id (requested_wait e i k now q) = e_id e"
  "w_status (requested_wait e i k now q) = PENDING"
  "w_idempotency_key (requested_wait e i k now q) = k"
  "w_kind (requested_wait e i k now q) = q_kind q"
  by (simp_all add: requested_wait_def)

lemma validated_request:
  assumes "validate_lifecycle (requested_wait e i k now q) = Inr v"
  shows "v = requested_wait e i k now q" and "op_ok (Create v)"
proof -
  have "v = requested_wait e i k now q"
    using validate_lifecycle_guards [of "requested_wait e i k now q"] assms
      validate_lifecycle_InrE [OF assms] by simp
  then show "v = requested_wait e i k now q" "op_ok (Create v)" using assms by simp_all
qed

text \<open>What \<open>create_wait\<close> promises when it suspends on a new wait.\<close>

definition suspended_on :: "string \<Rightarrow> ExecutionWait \<Rightarrow> store \<Rightarrow> bool" where
  "suspended_on i wait s \<longleftrightarrow>
     get_execution_wait (w_id wait) s = Some wait \<and> w_execution_id wait = i \<and> w_status wait = PENDING \<and>
     (case get_execution i s of None \<Rightarrow> False
      | Some e \<Rightarrow> e_status e = WAIT_EXECUTION_STATUS (w_kind wait) \<and> waits_on e (w_id wait))"

definition key_unused :: "string \<Rightarrow> string \<Rightarrow> store \<Rightarrow> bool" where
  "key_unused i k s \<longleftrightarrow>
     list_all (\<lambda>v. \<not> (w_execution_id v = i \<and> w_idempotency_key v = k)) (dvalues (waits s))"

definition uuid_fresh :: "world \<Rightarrow> bool" where
  "uuid_fresh w \<longleftrightarrow> get_execution_wait (uuid_supply w (uuid_count w)) (db w) = None"

lemma create_wait_new:
  assumes "create_wait i k q w = (Inr (wait, True), w')" and "ledger_inv (db w)" and "keyed (db w)"
    and "key_unused i (strip k) (db w)" and "uuid_fresh w"
  shows "suspended_on i wait (db w')" "w_idempotency_key wait = strip k" "w_kind wait = q_kind q"
    "ledger_inv (db w')" "keyed (db w')" "clock w' = clock w"
    "\<And>j. j \<noteq> i \<Longrightarrow> get_execution j (db w') = get_execution j (db w)"
    "\<exists>ev. list_events i (db w') = list_events i (db w) @ [ev] \<and> ev_event_type ev = EXECUTION_WAITING"
proof -
  from assms(1) obtain e v s where e: "get_execution i (db w) = Some e"
    and v: "validate_lifecycle (requested_wait e (uuid_supply w (uuid_count w)) (strip k) (clock w) q) = Inr v"
    and c: "create_execution_wait v (db w) = Inr (wait, s)"
    and w': "w' = suspend_on e (q_kind q) wait ((snd (uuid4 w))\<lparr>db := s\<rparr>)"
    and nil: "list_execution_waits i (Some PENDING) (db w) = []"
    by (rule create_wait_TrueE)
  note ok = validated_request [OF v]
  have eid: "e_id e = i" using keyedD [OF assms(3) e] .
  have "find (\<lambda>item. w_execution_id item = w_execution_id v \<and> w_idempotency_key item = w_idempotency_key v)
      (dvalues (waits (db w))) = None"
    using assms(4) by (auto simp: find_None_iff key_unused_def list_all_iff ok(1) eid)
  with c have s: "wait = v" "s = (db w)\<lparr>waits := dset (w_id v) v (waits (db w))\<rparr>"
    by (auto simp: create_execution_wait_def split: if_splits)
  have inv: "ledger_inv s"
    using mem.step_invar [OF assms(2) ok(2)] assms(5) c
    by (simp add: ok(1) uuid_fresh_def)
  have k: "keyed s" using assms(3) by (simp add: s keyed_def)
  let ?w1 = "(snd (uuid4 w))\<lparr>db := s\<rparr>"
  note eff = suspend_on_effect [where w = ?w1 and e = e and kind = "q_kind q" and saved = wait, folded w', simplified, OF k]
  show "w_idempotency_key wait = strip k" "w_kind wait = q_kind q" by (simp_all add: s(1) ok(1))
  show "suspended_on i wait (db w')" using eff(1,2)
    by (simp add: suspended_on_def get_execution_wait_def s ok(1) eid)
  show "ledger_inv (db w')" using inv eff(1) by (simp add: ledger_inv_def)
  show "keyed (db w')" "clock w' = clock w" using eff(4,5) by simp_all
  show "get_execution j (db w') = get_execution j (db w)" if "j \<noteq> i" for j
    using that eff(2) by (simp add: eid s(2) get_execution_def)
  show "\<exists>ev. list_events i (db w') = list_events i (db w) @ [ev] \<and> ev_event_type ev = EXECUTION_WAITING"
    using eff(3) by (simp add: eid s(2) list_events_def)
qed

lemma suspended_pending_list:
  assumes "suspended_on i wait s" and "ledger_inv s"
  shows "\<exists>xs. list_execution_waits i (Some PENDING) s = wait # xs"
  using pending_list_single [OF assms(2), of "w_id wait" wait i] assms(1) by (simp add: suspended_on_def)

lemma suspended_execution:
  assumes "suspended_on i wait s"
  obtains e where "get_execution i s = Some e" "e_status e = WAIT_EXECUTION_STATUS (w_kind wait)"
    "waits_on e (w_id wait)" "e_status e \<in> WAIT_CREATION_SOURCE_STATUSES"
proof -
  from assms obtain e where e: "get_execution i s = Some e"
    "e_status e = WAIT_EXECUTION_STATUS (w_kind wait)" "waits_on e (w_id wait)"
    by (auto simp: suspended_on_def split: option.splits)
  moreover have "e_status e \<in> WAIT_CREATION_SOURCE_STATUSES"
    using e(2) by (cases "w_kind wait") (simp_all add: WAIT_CREATION_SOURCE_STATUSES_def)
  ultimately show thesis using that by blast
qed

section \<open>Resolving a wait\<close>

lemma check_suspended_ok:
  assumes "suspended_on i wait (db w)" and "resume_requested \<and> status = RESOLVED \<longrightarrow>
    (case get_execution i (db w) of None \<Rightarrow> False | Some e \<Rightarrow> e_runtime_adapter_id e = ''native'')"
    and "get_execution i (db w) = Some e"
  shows "check_suspended i wait status resume_requested w = Inr e"
  using assms by (auto simp: suspended_on_def check_suspended_def)

lemma get_wait_suspended: "suspended_on i wait (db w) \<Longrightarrow> get_wait i (w_id wait) w = Inr wait"
  by (simp add: get_wait_def suspended_on_def)

lemma resolve_pending_store:
  assumes "get_execution_wait j s = Some wait" and "w_status wait = PENDING"
  shows "resolve_execution_wait now j st k p b s =
    ((Some (resolved_wait now st k p b wait), True),
     s\<lparr>waits := dset j (resolved_wait now st k p b wait) (waits s)\<rparr>)"
  using assms by (simp add: resolve_execution_wait_def get_execution_wait_def resolved_wait_def Let_def)

text \<open>A suspended execution: the claim always succeeds and the work after it is \<open>wake_execution\<close>.\<close>

lemma resolve_wait_suspended:
  assumes "suspended_on i wait (db w)" and "get_execution i (db w) = Some e"
    and "status \<in> TERMINAL_EXECUTION_WAIT_STATUSES" and "strip key \<noteq> []"
    and "resume_requested \<and> status = RESOLVED \<longrightarrow> e_runtime_adapter_id e = ''native''"
  shows "resolve_wait resume i (w_id wait) key payload status by_whom resume_requested w =
    wake_execution resume (resolved_wait (clock w) status (strip key) payload by_whom wait)
      status resume_requested e
      (w\<lparr>db := (db w)\<lparr>waits := dset (w_id wait)
         (resolved_wait (clock w) status (strip key) payload by_whom wait) (waits (db w))\<rparr>\<rparr>)"
proof -
  have pend: "w_status wait = PENDING" and g: "get_execution_wait (w_id wait) (db w) = Some wait"
    using assms(1) by (simp_all add: suspended_on_def)
  have "check_suspended i wait status resume_requested w = Inr e"
    using check_suspended_ok [OF assms(1) _ assms(2)] assms(2,5) by simp
  then show ?thesis
    using assms(3,4) get_wait_suspended [OF assms(1)] pend resolve_pending_store [OF g pend]
    by (simp add: resolve_wait_def Let_def)
qed

lemma waits_on_woken [simp]:
  "\<not> waits_on (woken_execution j v r e\<lparr>e_updated_at := t\<rparr>) j"
  by (auto simp: woken_execution_def waits_on_def Let_def split: option.splits)

lemma woken_execution_simps [simp]:
  "e_status (woken_execution j v r e) = PAUSED" "e_id (woken_execution j v r e) = e_id e"
  "jget (e_input_payload (woken_execution j v r e)) ''wait_resolutions'' =
     VDict (dset (w_id v) (wait_resolution_entry v) r)"
  "e_runtime_adapter_id (woken_execution j v r e) = e_runtime_adapter_id e"
  by (simp_all add: woken_execution_def Let_def)

text \<open>The effect of \<open>wake_execution\<close> when it does not resume.\<close>

lemma wake_execution_parked:
  assumes "py_dict (jget (e_input_payload e) ''wait_resolutions'') = Inr r"
    and "\<not> (resume_requested \<and> status = RESOLVED)" and "keyed (db w)"
  shows "\<exists>w'. wake_execution resume v status resume_requested e w =
      (Inr \<lparr>out_wait = v, out_claimed = True, out_resumed = False, out_execution = None\<rparr>, w') \<and>
    waits (db w') = waits (db w) \<and> clock w' = clock w \<and> keyed (db w') \<and>
    (\<forall>j. get_execution j (db w') = (if j = e_id e
       then Some ((woken_execution (w_id v) v r e)\<lparr>e_updated_at := clock w\<rparr>) else get_execution j (db w)))"
  using assms by (auto simp: wake_execution_def Let_def emit_for_executions(3))

text \<open>The execution is awake: not waiting, paused, with the resolution in its input.\<close>

definition awake_with :: "string \<Rightarrow> ExecutionWait \<Rightarrow> store \<Rightarrow> bool" where
  "awake_with i v s \<longleftrightarrow>
     get_execution_wait (w_id v) s = Some v \<and>
     (case get_execution i s of None \<Rightarrow> False
      | Some e \<Rightarrow> e_status e = PAUSED \<and> \<not> waits_on e (w_id v) \<and>
          (case as_dict (jget (e_input_payload e) ''wait_resolutions'') of None \<Rightarrow> False
           | Some r \<Rightarrow> jget r (w_id v) = wait_resolution_entry v))"

lemma resolve_wait_parks:
  assumes "suspended_on i wait (db w)" and "get_execution i (db w) = Some e" and "keyed (db w)"
    and "status \<in> TERMINAL_EXECUTION_WAIT_STATUSES" and "strip key \<noteq> []"
    and "\<not> (resume_requested \<and> status = RESOLVED)"
    and "py_dict (jget (e_input_payload e) ''wait_resolutions'') = Inr r"
  shows "\<exists>w' v. v = resolved_wait (clock w) status (strip key) payload by_whom wait \<and>
    resolve_wait resume i (w_id wait) key payload status by_whom resume_requested w =
      (Inr \<lparr>out_wait = v, out_claimed = True, out_resumed = False, out_execution = None\<rparr>, w') \<and>
    awake_with i v (db w') \<and> clock w' = clock w \<and> keyed (db w') \<and>
    waits (db w') = dset (w_id wait) v (waits (db w)) \<and>
    (\<forall>j. j \<noteq> i \<longrightarrow> get_execution j (db w') = get_execution j (db w))"
proof -
  define v where "v = resolved_wait (clock w) status (strip key) payload by_whom wait"
  define w1 where "w1 = w\<lparr>db := (db w)\<lparr>waits := dset (w_id wait) v (waits (db w))\<rparr>\<rparr>"
  have vid: "w_id v = w_id wait" by (simp add: v_def)
  have eid: "e_id e = i" by (rule keyedD [OF assms(3,2)])
  have k: "keyed (db w1)" using assms(3) by (simp add: keyed_def w1_def)
  have call: "resolve_wait resume i (w_id wait) key payload status by_whom resume_requested w =
      wake_execution resume v status resume_requested e w1"
    unfolding v_def w1_def
    by (rule resolve_wait_suspended [OF assms(1,2,4,5)]) (use assms(6) in blast)
  from wake_execution_parked [OF assms(7,6) k, of resume v] obtain w' where
    w': "wake_execution resume v status resume_requested e w1 =
      (Inr \<lparr>out_wait = v, out_claimed = True, out_resumed = False, out_execution = None\<rparr>, w')"
    "waits (db w') = waits (db w1)" "clock w' = clock w1" "keyed (db w')"
    "\<forall>j. get_execution j (db w') = (if j = e_id e
       then Some ((woken_execution (w_id v) v r e)\<lparr>e_updated_at := clock w1\<rparr>)
       else get_execution j (db w1))"
    by blast
  have ge: "get_execution i (db w') = Some ((woken_execution (w_id v) v r e)\<lparr>e_updated_at := clock w1\<rparr>)"
    using w'(5) eid by simp
  have "awake_with i v (db w')"
    unfolding awake_with_def ge using w'(2) by (simp add: get_execution_wait_def w1_def vid)
  moreover have "get_execution j (db w') = get_execution j (db w)" if "j \<noteq> i" for j
    using w'(5) that by (simp add: eid get_execution_def w1_def)
  moreover have "waits (db w') = dset (w_id wait) v (waits (db w))" "clock w' = clock w"
    using w'(2,3) by (simp_all add: w1_def)
  ultimately show ?thesis using call w'(1,4) v_def by auto
qed

text \<open>A wait that is settled: the same key is acknowledged, another one refused, nothing changes.\<close>

lemma resolve_wait_settled:
  assumes "ledger_inv (db w)" and "get_execution_wait j (db w) = Some v" and "w_execution_id v = i"
    and "w_status v \<noteq> PENDING" and "status \<in> TERMINAL_EXECUTION_WAIT_STATUSES" and "strip key \<noteq> []"
  shows "resolve_wait resume i j key payload status by_whom rr w =
    (if w_resolution_key v = Some (strip key)
     then Inr \<lparr>out_wait = v, out_claimed = False, out_resumed = False, out_execution = None\<rparr>
     else Inl (ExecutionWaitConflictError (''Execution wait '' @ quote j @
            '' was already resolved by key '' @ quote (none_or_str (w_resolution_key v)) @ ''.'')), w)"
proof -
  have "w_id v = j" using mem.get_id [OF assms(1,2)] .
  then show ?thesis using assms
    by (simp add: resolve_wait_def get_wait_def resolve_execution_wait_def get_execution_wait_def Let_def)
qed

lemma check_suspendedD:
  assumes "check_suspended i v status rr w = Inr e" and "get_execution_wait (w_id v) (db w) = Some v"
    and "w_execution_id v = i" and "w_status v = PENDING"
  shows "suspended_on i v (db w)" "get_execution i (db w) = Some e"
    "rr \<and> status = RESOLVED \<longrightarrow> e_runtime_adapter_id e = ''native''"
  using assms by (auto simp: check_suspended_def suspended_on_def split: option.splits if_splits)

text \<open>Every call either changes nothing or claims a wait the execution is suspended on.\<close>

lemma resolve_wait_cases:
  assumes "ledger_inv (db w)"
  obtains (kept) "snd (resolve_wait resume i j key payload status by_whom rr w) = w"
      "\<And>out. fst (resolve_wait resume i j key payload status by_whom rr w) = Inr out \<Longrightarrow> \<not> out_claimed out"
  | (claimed) v e where "suspended_on i v (db w)" "w_id v = j" "get_execution i (db w) = Some e"
      "status \<in> TERMINAL_EXECUTION_WAIT_STATUSES" "strip key \<noteq> []"
      "rr \<and> status = RESOLVED \<longrightarrow> e_runtime_adapter_id e = ''native''"
proof (cases "status \<in> TERMINAL_EXECUTION_WAIT_STATUSES \<and> strip key \<noteq> []")
  case False
  then have "\<exists>x. resolve_wait resume i j key payload status by_whom rr w = (Inl x, w)"
    by (cases "status \<in> TERMINAL_EXECUTION_WAIT_STATUSES") (simp_all add: resolve_wait_def Let_def)
  then show ?thesis by (intro kept) auto
next
  case ok: True
  show ?thesis
  proof (cases "get_wait i j w")
    case (Inl x)
    with ok have "resolve_wait resume i j key payload status by_whom rr w = (Inl x, w)"
      by (simp add: resolve_wait_def Let_def)
    then show ?thesis by (intro kept) auto
  next
    case (Inr v)
    then have v: "get_execution_wait j (db w) = Some v" "w_execution_id v = i"
      by (auto simp: get_wait_def split: option.splits if_splits)
    have id: "w_id v = j" using mem.get_id [OF assms v(1)] .
    show ?thesis
    proof (cases "w_status v = PENDING")
      case False
      then show ?thesis using resolve_wait_settled [OF assms v(1,2) False, of status key] ok
        by (intro kept) (auto split: if_splits)
    next
      case True
      show ?thesis
      proof (cases "check_suspended i v status rr w")
        case (Inl x)
        with Inr True ok have "resolve_wait resume i j key payload status by_whom rr w = (Inl x, w)"
          by (simp add: resolve_wait_def Let_def)
        then show ?thesis by (intro kept) auto
      next
        case (Inr e)
        from check_suspendedD [OF this] v id True show ?thesis using ok by (intro claimed) auto
      qed
    qed
  qed
qed

section \<open>The lists of due waits\<close>

lemma strip_id: "s \<noteq> [] \<Longrightarrow> \<not> is_space (hd s) \<Longrightarrow> \<not> is_space (last s) \<Longrightarrow> strip s = s"
proof -
  assume s: "s \<noteq> []" "\<not> is_space (hd s)" "\<not> is_space (last s)"
  have "dropWhile is_space xs = xs" if "xs \<noteq> []" "\<not> is_space (hd xs)" for xs
    using that by (cases xs) simp_all
  from this [of s] this [of "rev s"] s show "strip s = s" by (simp add: strip_def hd_rev)
qed

lemma last_isoformat: "last (isoformat t) = CHR ''0''" "isoformat t \<noteq> []"
proof -
  have "\<exists>xs. isoformat t = xs @ ''+00:00''"
    unfolding isoformat_def Let_def case_prod_unfold
    by (simp only: append_assoc [symmetric]) blast
  then show "last (isoformat t) = CHR ''0''" "isoformat t \<noteq> []" by auto
qed

lemma not_space [simp]: "\<not> is_space (CHR ''0'')" "\<not> is_space (CHR ''d'')"
  "\<not> is_space (CHR ''t'')" "\<not> is_space (CHR ''e'')"
  by (simp_all add: is_space_def)

lemma strip_prefixed:
  "\<not> is_space c \<Longrightarrow> ys \<noteq> [] \<Longrightarrow> \<not> is_space (last ys) \<Longrightarrow> strip (c # xs @ ys) = c # xs @ ys"
  by (rule strip_id) simp_all

lemma wake_keys [simp]:
  "strip (deadline_key v) = deadline_key v" "deadline_key v \<noteq> []"
  "strip (timer_key v) = timer_key v" "timer_key v \<noteq> []"
proof -
  have d: "deadline_key v = CHR ''d'' # (''eadline:'' @ w_id v @ '':'') @
      (case w_deadline_at v of None \<Rightarrow> ''expired'' | Some d \<Rightarrow> isoformat d)"
    by (simp add: deadline_key_def)
  have t: "timer_key v = CHR ''t'' # (''imer:'' @ w_id v @ '':'') @
      (case w_wake_at v of None \<Rightarrow> ''due'' | Some d \<Rightarrow> isoformat d)"
    by (simp add: timer_key_def)
  show "strip (deadline_key v) = deadline_key v" "strip (timer_key v) = timer_key v"
    unfolding d t by (rule strip_prefixed; cases "w_deadline_at v"; cases "w_wake_at v";
        simp add: last_isoformat del: append_Cons)+
  show "deadline_key v \<noteq> []" "timer_key v \<noteq> []" by (simp_all add: d t)
qed

definition pending_due :: "datetime \<Rightarrow> (ExecutionWait \<Rightarrow> datetime option) \<Rightarrow> store \<Rightarrow> ExecutionWait list" where
  "pending_due t tm s = filter (\<lambda>v. w_status v = PENDING \<and> due t (tm v)) (dvalues (waits s))"

lemma slice_to_all: "int (length xs) \<le> n \<Longrightarrow> slice_to n xs = xs"
  by (simp add: slice_to_def)

lemma due_lists_sorted:
  "list_expired_execution_waits t n s = slice_to n (sort_key (\<lambda>wait. (time_or_0 (w_deadline_at wait),
     w_created_at wait, w_id wait)) (pending_due t w_deadline_at s))"
  "list_due_execution_waits t n s = slice_to n (sort_key (\<lambda>wait. (time_or_0 (w_wake_at wait),
     w_created_at wait, w_id wait)) (pending_due t w_wake_at s))"
  by (simp_all add: list_expired_execution_waits_def list_due_execution_waits_def pending_due_def)

lemma length_pending_due: "length (pending_due t tm s) \<le> length (waits s)"
  unfolding pending_due_def dvalues_def by (rule le_trans [OF length_filter_le]) simp

lemma covering_limit:
  assumes "int (length (waits s)) \<le> n"
  shows "set (list_expired_execution_waits t n s) = set (pending_due t w_deadline_at s)"
    and "set (list_due_execution_waits t n s) = set (pending_due t w_wake_at s)"
  using assms length_pending_due [of t w_deadline_at s] length_pending_due [of t w_wake_at s]
  by (simp_all add: due_lists_sorted slice_to_all)

lemma ledger_ids: "ledger_inv s \<Longrightarrow> map w_id (dvalues (waits s)) = map fst (waits s)"
  unfolding ledger_inv_def dvalues_def
  by (auto simp: list_eq_iff_nth_eq)

lemma in_ledger: "ledger_inv s \<Longrightarrow> v \<in> set (dvalues (waits s)) \<longleftrightarrow> get_execution_wait (w_id v) s = Some v"
  using dvalues_in_map_of [OF ledger_inv_distinct, of s v] in_dvalues_map_of [of "waits s" "w_id v" v]
  unfolding get_execution_wait_def ledger_inv_def by blast

lemma in_pending_due:
  "ledger_inv s \<Longrightarrow> v \<in> set (pending_due t tm s) \<longleftrightarrow>
     get_execution_wait (w_id v) s = Some v \<and> w_status v = PENDING \<and> due t (tm v)"
  by (auto simp: pending_due_def in_ledger)

lemma distinct_slice_to: "distinct (map f xs) \<Longrightarrow> distinct (map f (slice_to n xs))"
  by (simp add: slice_to_def take_map [symmetric])

lemma distinct_sort_key: "distinct (map f (sort_key k xs)) = distinct (map f xs)"
  by (metis distinct_map distinct_sort set_sort)

lemma distinct_pending_due:
  assumes "ledger_inv s"
  shows "distinct (map w_id (pending_due t tm s))" "distinct (map w_execution_id (pending_due t tm s))"
proof -
  show ids: "distinct (map w_id (pending_due t tm s))"
    unfolding pending_due_def using ledger_ids [OF assms] ledger_inv_distinct [OF assms]
    by (simp add: distinct_map_filter)
  have "u = v" if "u \<in> set (pending_due t tm s)" "v \<in> set (pending_due t tm s)"
    "w_execution_id u = w_execution_id v" for u v
  proof -
    have "same_slot u v" using that in_pending_due [OF assms] by (simp add: same_slot_def)
    then have "w_id u = w_id v" using that mem.slot_unique [OF assms] in_pending_due [OF assms] by blast
    then show ?thesis using ids that by (auto simp: distinct_map inj_on_def)
  qed
  then show "distinct (map w_execution_id (pending_due t tm s))"
    using ids by (auto simp: distinct_map inj_on_def)
qed

lemma distinct_due_lists:
  assumes "ledger_inv s"
  shows "distinct (map w_id (list_expired_execution_waits t n s))"
    "distinct (map w_execution_id (list_expired_execution_waits t n s))"
    "distinct (map w_id (list_due_execution_waits t n s))"
    "distinct (map w_execution_id (list_due_execution_waits t n s))"
  unfolding due_lists_sorted
  by (rule distinct_slice_to; simp only: distinct_sort_key distinct_pending_due [OF assms])+

lemma not_among_pending:
  assumes inv: "ledger_inv s" and v: "get_execution_wait (w_id v) s = Some v" "w_status v = PENDING"
    and xs: "v \<notin> set xs" "set xs \<subseteq> set (pending_due t tm s)"
  shows "w_id v \<notin> w_id ` set xs" "w_execution_id v \<notin> w_execution_id ` set xs"
proof -
  have u: "get_execution_wait (w_id u) s = Some u" "w_status u = PENDING" if "u \<in> set xs" for u
    using that xs(2) in_pending_due [OF inv] by blast+
  show id: "w_id v \<notin> w_id ` set xs" using u(1) v(1) xs(1) by force
  show "w_execution_id v \<notin> w_execution_id ` set xs"
  proof
    assume "w_execution_id v \<in> w_execution_id ` set xs"
    then obtain x where x: "x \<in> set xs" "w_execution_id v = w_execution_id x" by blast
    then have "same_slot v x" using u(2) v(2) by (simp add: same_slot_def)
    then have "w_id v = w_id x" using mem.slot_unique [OF inv v(1) u(1)] x(1) by blast
    then show False using id x(1) by blast
  qed
qed

lemma length_dset_existing: "map_of d k = Some x \<Longrightarrow> length (dset k v d) = length d"
  by (induction d) auto

section \<open>The interface to the control plane\<close>

text \<open>
  A consistent world: executions and run states are filed under their own ids.
\<close>

definition world_ok :: "world \<Rightarrow> bool" where
  "world_ok w \<longleftrightarrow> keyed (db w) \<and> (\<forall>i st. map_of (states w) i = Some st \<longrightarrow> st_execution_id st = i)"

text \<open>
  What the service relies on in \<open>ExecutionControlPlane.resume\<close>: it leaves the wait ledger, the
  clock and every other execution alone.
\<close>

locale resumer =
  fixes resume :: "string \<Rightarrow> Execution act"
  assumes resume_waits: "waits (db (snd (resume i w))) = waits (db w)"
    and resume_clock: "clock (snd (resume i w)) = clock w"
    and resume_others: "world_ok w \<Longrightarrow> j \<noteq> i \<Longrightarrow>
      get_execution j (db (snd (resume i w))) = get_execution j (db w)"
    and resume_keyed: "world_ok w \<Longrightarrow> world_ok (snd (resume i w))"
begin

lemma andthen_world: "snd (andthen (r, w) (\<lambda>x w. (Inr (f x), w))) = w"
  by (cases r) simp_all

lemma wake_execution_frame:
  assumes "world_ok w"
  shows "waits (db (snd (wake_execution resume v status rr e w))) = waits (db w)"
    and "clock (snd (wake_execution resume v status rr e w)) = clock w"
    and "j \<noteq> e_id e \<Longrightarrow> get_execution j (db (snd (wake_execution resume v status rr e w))) =
      get_execution j (db w)"
    and "world_ok (snd (wake_execution resume v status rr e w))"
proof -
  have snd_andthen: "snd (andthen x (\<lambda>y w2. (Inr (f y), w2))) = snd x" for x and f :: "Execution \<Rightarrow> wait_outcome"
    by (cases x; cases "fst x") auto
  define r where "r = py_dict (jget (e_input_payload e) ''wait_resolutions'')"
  define w1 where "w1 d = emit_for (e_id e) (e_workflow_id e) EXECUTION_WOKEN (woken_payload v rr)
      (db_update_execution (woken_execution (w_id v) v d e) w)" for d
  have w1: "world_ok (w1 d)" "waits (db (w1 d)) = waits (db w)" "clock (w1 d) = clock w"
    "j \<noteq> e_id e \<Longrightarrow> get_execution j (db (w1 d)) = get_execution j (db w)" for d j
    using assms by (simp_all add: w1_def world_ok_def emit_for_executions(3))
  have eq: "snd (wake_execution resume v status rr e w) =
    (case r of Inl _ \<Rightarrow> w | Inr d \<Rightarrow> if rr \<and> status = RESOLVED then snd (resume (e_id e) (w1 d)) else w1 d)"
    by (simp add: wake_execution_def r_def w1_def Let_def snd_andthen split: sum.split)
  show "waits (db (snd (wake_execution resume v status rr e w))) = waits (db w)"
    "clock (snd (wake_execution resume v status rr e w)) = clock w"
    "j \<noteq> e_id e \<Longrightarrow> get_execution j (db (snd (wake_execution resume v status rr e w))) =
      get_execution j (db w)"
    "world_ok (snd (wake_execution resume v status rr e w))"
    unfolding eq by (simp_all add: w1 assms resume_waits resume_clock resume_others resume_keyed split: sum.split)
qed

text \<open>A resolution touches its own wait and its own execution only.\<close>

lemma resolve_wait_frame:
  assumes inv: "ledger_inv (db w)" and k: "world_ok w"
    and w': "w' = snd (resolve_wait resume i j key payload status by_whom rr w)"
  shows "x \<noteq> j \<Longrightarrow> get_execution_wait x (db w') = get_execution_wait x (db w)"
    and "x \<noteq> i \<Longrightarrow> get_execution x (db w') = get_execution x (db w)"
    and "clock w' = clock w" and "world_ok w'" and "ledger_inv (db w')"
    and "get_execution_wait x (db w) = Some u \<Longrightarrow> w_status u \<noteq> PENDING \<Longrightarrow>
      get_execution_wait x (db w') = Some u"
    and "length (waits (db w')) = length (waits (db w))"
proof -
  have "(x \<noteq> j \<longrightarrow> get_execution_wait x (db w') = get_execution_wait x (db w)) \<and>
    (x \<noteq> i \<longrightarrow> get_execution x (db w') = get_execution x (db w)) \<and>
    clock w' = clock w \<and> world_ok w' \<and> ledger_inv (db w') \<and>
    (get_execution_wait x (db w) = Some u \<longrightarrow> w_status u \<noteq> PENDING \<longrightarrow>
      get_execution_wait x (db w') = Some u) \<and> length (waits (db w')) = length (waits (db w))"
  proof (rule resolve_wait_cases [OF inv, of resume i j key payload status by_whom rr])
    assume "snd (resolve_wait resume i j key payload status by_whom rr w) = w"
    then show ?thesis using inv k by (simp add: w')
  next
    fix v e
    assume v: "suspended_on i v (db w)" "w_id v = j" "get_execution i (db w) = Some e"
      "status \<in> TERMINAL_EXECUTION_WAIT_STATUSES" "strip key \<noteq> []"
      "rr \<and> status = RESOLVED \<longrightarrow> e_runtime_adapter_id e = ''native''"
    define v' where "v' = resolved_wait (clock w) status (strip key) payload by_whom v"
    define w1 where "w1 = w\<lparr>db := (db w)\<lparr>waits := dset j v' (waits (db w))\<rparr>\<rparr>"
    have call: "w' = snd (wake_execution resume v' status rr e w1)"
      unfolding w' v'_def w1_def using resolve_wait_suspended [OF v(1,3-6)] v(2) by simp
    have k1: "world_ok w1" using k by (simp add: world_ok_def keyed_def w1_def)
    have pend: "get_execution_wait j (db w) = Some v" "w_status v = PENDING"
      using v(1,2) by (simp_all add: suspended_on_def)
    have "status \<noteq> PENDING" using v(4) by auto
    then have inv1: "ledger_inv (db w1)"
      using ledger_inv_resolved [OF inv _ pend(2)] pend(1)
      by (simp add: w1_def v'_def get_execution_wait_def)
    note frame = wake_execution_frame [OF k1, where v = v' and status = status and rr = rr and e = e,
        folded call]
    have eid: "e_id e = i" using k v(3) keyedD unfolding world_ok_def by blast
    have g: "get_execution_wait x (db w') = (if x = j then Some v' else get_execution_wait x (db w))"
      using frame(1) by (simp add: get_execution_wait_def w1_def)
    have "ledger_inv (db w')" using inv1 frame(1) by (simp add: ledger_inv_def)
    moreover have "get_execution x (db w') = get_execution x (db w)" if "x \<noteq> i"
      using frame(3) [of x] that by (simp add: eid w1_def get_execution_def)
    moreover have "clock w' = clock w" using frame(2) by (simp add: w1_def)
    moreover have "get_execution_wait x (db w') = Some u"
      if "get_execution_wait x (db w) = Some u" "w_status u \<noteq> PENDING"
      using that pend g by auto
    moreover have "length (waits (db w')) = length (waits (db w))"
      using frame(1) pend(1) by (simp add: w1_def get_execution_wait_def length_dset_existing)
    ultimately show ?thesis using frame(4) g by simp
  qed
  then show "x \<noteq> j \<Longrightarrow> get_execution_wait x (db w') = get_execution_wait x (db w)"
    and "x \<noteq> i \<Longrightarrow> get_execution x (db w') = get_execution x (db w)"
    and "clock w' = clock w" and "world_ok w'" and "ledger_inv (db w')"
    and "get_execution_wait x (db w) = Some u \<Longrightarrow> w_status u \<noteq> PENDING \<Longrightarrow>
      get_execution_wait x (db w') = Some u"
    and "length (waits (db w')) = length (waits (db w))" by blast+
qed

text \<open>A wait the execution is suspended on is settled by the call, whatever the resume does.\<close>

lemma resolve_wait_claims:
  assumes "suspended_on i v (db w)" and "get_execution i (db w) = Some e" and "world_ok w"
    and "status \<in> TERMINAL_EXECUTION_WAIT_STATUSES" and "strip key \<noteq> []"
    and "rr \<and> status = RESOLVED \<longrightarrow> e_runtime_adapter_id e = ''native''"
  shows "get_execution_wait (w_id v)
      (db (snd (resolve_wait resume i (w_id v) key payload status by_whom rr w))) =
    Some (resolved_wait (clock w) status (strip key) payload by_whom v)"
proof -
  define v' where "v' = resolved_wait (clock w) status (strip key) payload by_whom v"
  define w1 where "w1 = w\<lparr>db := (db w)\<lparr>waits := dset (w_id v) v' (waits (db w))\<rparr>\<rparr>"
  have "world_ok w1" using assms(3) by (simp add: world_ok_def keyed_def w1_def)
  from wake_execution_frame(1) [OF this, of v' status rr e]
  show ?thesis unfolding resolve_wait_suspended [OF assms(1,2,4-6)] v'_def [symmetric]
    w1_def [symmetric] by (simp add: get_execution_wait_def w1_def)
qed

text \<open>The calls of the wake loops: each resolves its own wait and execution.\<close>

definition wakes :: "(ExecutionWait \<Rightarrow> wait_outcome act) \<Rightarrow> bool" where
  "wakes call \<longleftrightarrow> (\<exists>key payload status by_whom rr. \<forall>v w.
     call v w = resolve_wait resume (w_execution_id v) (w_id v) (key v) (payload v) status by_whom rr w)"

lemma wakes_calls: "wakes (expire_wait resume)" "wakes (fire_timer resume)"
  "wakes (deliver_event resume c ei p b)"
  unfolding wakes_def expire_wait_def fire_timer_def deliver_event_def
  by (intro exI allI, rule refl)+

lemma wake_one_world: "snd (wake_one call st f v w) = snd (call v w)"
  by (auto simp: wake_one_def split: prod.split sum.split)

lemma wake_step_frame:
  assumes "wakes call" and "ledger_inv (db w)" and "world_ok w"
    and w': "w' = snd (wake_one call st f v w)"
  shows "x \<noteq> w_id v \<Longrightarrow> get_execution_wait x (db w') = get_execution_wait x (db w)"
    and "x \<noteq> w_execution_id v \<Longrightarrow> get_execution x (db w') = get_execution x (db w)"
    and "clock w' = clock w" and "world_ok w'" and "ledger_inv (db w')"
    and "get_execution_wait x (db w) = Some u \<Longrightarrow> w_status u \<noteq> PENDING \<Longrightarrow>
      get_execution_wait x (db w') = Some u"
    and "length (waits (db w')) = length (waits (db w))"
proof -
  from assms(1) obtain key payload status by_whom rr where
    "w' = snd (resolve_wait resume (w_execution_id v) (w_id v) (key v) (payload v) status by_whom rr w)"
    unfolding wakes_def w' wake_one_world by metis
  from resolve_wait_frame [OF assms(2,3) this]
  show "x \<noteq> w_id v \<Longrightarrow> get_execution_wait x (db w') = get_execution_wait x (db w)"
    and "x \<noteq> w_execution_id v \<Longrightarrow> get_execution x (db w') = get_execution x (db w)"
    and "clock w' = clock w" and "world_ok w'" and "ledger_inv (db w')"
    and "get_execution_wait x (db w) = Some u \<Longrightarrow> w_status u \<noteq> PENDING \<Longrightarrow>
      get_execution_wait x (db w') = Some u"
    and "length (waits (db w')) = length (waits (db w))" by blast+
qed

lemma wake_loop_Cons_world:
  "snd (wake_loop one (v # vs) w) = snd (wake_loop one vs (snd (one v w)))"
  by (simp add: case_prod_unfold Let_def)

lemma wake_loop_frame:
  assumes "wakes call"
  shows "ledger_inv (db w) \<Longrightarrow> world_ok w \<Longrightarrow> w' = snd (wake_loop (wake_one call st f) vs w) \<Longrightarrow>
    ledger_inv (db w') \<and> world_ok w' \<and> clock w' = clock w \<and>
    (x \<notin> w_id ` set vs \<longrightarrow> get_execution_wait x (db w') = get_execution_wait x (db w)) \<and>
    (i \<notin> w_execution_id ` set vs \<longrightarrow> get_execution i (db w') = get_execution i (db w)) \<and>
    (get_execution_wait x (db w) = Some u \<longrightarrow> w_status u \<noteq> PENDING \<longrightarrow>
      get_execution_wait x (db w') = Some u) \<and> length (waits (db w')) = length (waits (db w))"
proof (induction vs arbitrary: w)
  case Nil
  then show ?case by simp
next
  case (Cons v vs)
  define w1 where "w1 = snd (wake_one call st f v w)"
  note step = wake_step_frame [OF assms Cons.prems(1,2) w1_def]
  have "w' = snd (wake_loop (wake_one call st f) vs w1)"
    using Cons.prems(3) by (simp only: wake_loop_Cons_world w1_def)
  from Cons.IH [OF step(5,4) this] step(1-3) step(6,7) show ?case by auto
qed

lemma wake_loop_settles:
  assumes call: "\<And>v w. call v w = resolve_wait resume (w_execution_id v) (w_id v) (key v) (payload v)
      status by_whom rr w"
    and ok: "status \<in> TERMINAL_EXECUTION_WAIT_STATUSES" "\<And>v. strip (key v) = key v" "\<And>v. key v \<noteq> []"
  shows "ledger_inv (db w) \<Longrightarrow> world_ok w \<Longrightarrow> distinct (map w_id vs) \<Longrightarrow>
    distinct (map w_execution_id vs) \<Longrightarrow> v \<in> set vs \<Longrightarrow> suspended_on (w_execution_id v) v (db w) \<Longrightarrow>
    get_execution (w_execution_id v) (db w) = Some e \<Longrightarrow>
    (rr \<and> status = RESOLVED \<longrightarrow> e_runtime_adapter_id e = ''native'') \<Longrightarrow>
    get_execution_wait (w_id v) (db (snd (wake_loop (wake_one call st f) vs w))) =
      Some (resolved_wait (clock w) status (key v) (payload v) by_whom v)"
proof (induction vs arbitrary: w)
  case Nil
  then show ?case by simp
next
  case (Cons u vs)
  have wk: "wakes call" unfolding wakes_def using call by blast
  define w1 where "w1 = snd (wake_one call st f u w)"
  note step = wake_step_frame [OF wk Cons.prems(1,2) w1_def]
  show ?case
  proof (cases "u = v")
    case True
    have "get_execution_wait (w_id v) (db w1) =
        Some (resolved_wait (clock w) status (key v) (payload v) by_whom v)"
      using resolve_wait_claims [OF Cons.prems(6,7,2) ok(1) _ Cons.prems(8), of "key v" "payload v" by_whom] ok(2,3)
      by (simp add: w1_def wake_one_world call True)
    moreover have "status \<noteq> PENDING" using ok(1) by auto
    ultimately show ?thesis
      unfolding wake_loop_Cons_world w1_def [symmetric]
      using wake_loop_frame [OF wk step(5,4) refl, where x = "w_id v"] by simp
  next
    case False
    with Cons.prems(3-5) have ne: "v \<in> set vs" "w_id v \<noteq> w_id u" "w_execution_id v \<noteq> w_execution_id u"
      by (auto simp: image_iff)
    have "suspended_on (w_execution_id v) v (db w1)"
      using Cons.prems(6) step(1,2) ne by (simp add: suspended_on_def)
    then show ?thesis
      unfolding wake_loop_Cons_world w1_def [symmetric]
      using Cons.IH [OF step(5,4) _ _ ne(1)] Cons.prems(3,4,7,8) ne step(2,3) by simp
  qed
qed

text \<open>
  One pass of \<open>wake_due_waits\<close> with a limit that covers the ledger settles every wait whose time
  has come, and nothing else.
\<close>

lemma wake_due_settles:
  assumes inv: "ledger_inv (db w)" and k: "world_ok w" and lim: "int (length (waits (db w))) \<le> limit"
    and v: "suspended_on i v (db w)" and e: "get_execution i (db w) = Some e"
    and w': "w' = snd (wake_due_waits resume (Some t) limit w)"
  shows "due t (w_deadline_at v) \<Longrightarrow>
      \<exists>v'. get_execution_wait (w_id v) (db w') = Some v' \<and> w_status v' = EXPIRED"
    and "\<not> due t (w_deadline_at v) \<Longrightarrow> due t (w_wake_at v) \<Longrightarrow> e_runtime_adapter_id e = ''native'' \<Longrightarrow>
      \<exists>v'. get_execution_wait (w_id v) (db w') = Some v' \<and> w_status v' = RESOLVED"
    and "\<not> due t (w_deadline_at v) \<Longrightarrow> \<not> due t (w_wake_at v) \<Longrightarrow>
      get_execution_wait (w_id v) (db w') = Some v \<and> get_execution i (db w') = Some e"
proof -
  let ?ex = "wake_one (expire_wait resume) (Some (wait_status_value EXPIRED)) (\<lambda>outcome. False)"
  let ?ti = "wake_one (fire_timer resume) (Some (wait_status_value RESOLVED)) out_resumed"
  let ?expired = "list_expired_execution_waits t limit (db w)"
  define w1 where "w1 = snd (wake_loop ?ex ?expired w)"
  let ?due = "list_due_execution_waits t limit (db w1)"
  have w'_eq: "w' = snd (wake_loop ?ti ?due w1)"
    by (simp add: w' wake_due_waits_def case_prod_unfold Let_def w1_def)
  have i: "w_execution_id v = i" and pend: "w_status v = PENDING"
    and g: "get_execution_wait (w_id v) (db w) = Some v" using v by (simp_all add: suspended_on_def)
  note f1 = wake_loop_frame [OF wakes_calls(1) inv k w1_def]
  have inv1: "ledger_inv (db w1)" and k1: "world_ok w1" using f1 by blast+
  note f2 = wake_loop_frame [OF wakes_calls(2) inv1 k1 w'_eq]
  have lim1: "int (length (waits (db w1))) \<le> limit" using f1 lim by simp
  have mem1: "v \<in> set ?expired \<longleftrightarrow> due t (w_deadline_at v)"
    using covering_limit(1) [OF lim, of t] in_pending_due [OF inv] g pend by simp
  { assume "due t (w_deadline_at v)"
    then have "get_execution_wait (w_id v) (db w1) = Some (resolved_wait (clock w) EXPIRED (deadline_key v)
        [(''deadline_at'', iso_or_none (w_deadline_at v)),
         (''reason'', VStr ''Execution wait deadline expired.'')] (Some ''runtime_reconciler'') v)"
      unfolding w1_def
      by (intro wake_loop_settles [where rr = False, OF _ _ _ _ inv k])
        (use v e i mem1 in \<open>simp_all add: expire_wait_def TERMINAL_EXECUTION_WAIT_STATUSES_def
           distinct_due_lists [OF inv]\<close>)
    then show "\<exists>v'. get_execution_wait (w_id v) (db w') = Some v' \<and> w_status v' = EXPIRED"
      using f2 [of "w_id v"] by simp }
  assume nd: "\<not> due t (w_deadline_at v)"
  have other: "w_id v \<notin> w_id ` set ?expired" "i \<notin> w_execution_id ` set ?expired"
    using not_among_pending [OF inv g pend, of ?expired t w_deadline_at] mem1 nd i
      covering_limit(1) [OF lim, of t] by auto
  have g1: "get_execution_wait (w_id v) (db w1) = Some v" "get_execution i (db w1) = Some e"
    using f1 other g e by metis+
  then have v1: "suspended_on i v (db w1)" using v e by (simp add: suspended_on_def)
  have mem2: "v \<in> set ?due \<longleftrightarrow> due t (w_wake_at v)"
    using covering_limit(2) [OF lim1, of t] in_pending_due [OF inv1] g1 pend by simp
  { assume "due t (w_wake_at v)" "e_runtime_adapter_id e = ''native''"
    then have "get_execution_wait (w_id v) (db w') = Some (resolved_wait (clock w1) RESOLVED (timer_key v)
        [(''wake_at'', iso_or_none (w_wake_at v))] (Some ''runtime_reconciler'') v)"
      unfolding w'_eq
      by (intro wake_loop_settles [where rr = True, OF _ _ _ _ inv1 k1])
        (use v1 g1 i mem2 in \<open>simp_all add: fire_timer_def TERMINAL_EXECUTION_WAIT_STATUSES_def
           distinct_due_lists [OF inv1]\<close>)
    then show "\<exists>v'. get_execution_wait (w_id v) (db w') = Some v' \<and> w_status v' = RESOLVED" by simp }
  assume "\<not> due t (w_wake_at v)"
  then have "w_id v \<notin> w_id ` set ?due" "i \<notin> w_execution_id ` set ?due"
    using not_among_pending [OF inv1 g1(1) pend, of ?due t w_wake_at] mem2 i
      covering_limit(2) [OF lim1, of t] by auto
  then show "get_execution_wait (w_id v) (db w') = Some v \<and> get_execution i (db w') = Some e"
    using f2 g1 by metis
qed

end

section \<open>Properties\<close>

definition sample_world :: world where
  "sample_world = \<lparr>db = empty_store\<lparr>executions := [(''ex-1'', sample_execution)]\<rparr>, clock = 100,
     uuid_supply = (\<lambda>n. ''u'' @ nat_str n), uuid_count = 0,
     redactor = \<lparr>r_enabled = True, r_patterns = []\<rparr>, states = [], pending_approvals = [],
     request_ids = [], tasks = [], daemon = \<lparr>dd_containers = [], dd_images = []\<rparr>, operations = new_operations 50,
     revisions = []\<rparr>"

definition sample_request :: wait_request where
  "sample_request = \<lparr>q_kind = INPUT, q_checkpoint = None, q_request_payload = [], q_policy = [],
     q_correlation_key = None, q_wake_at = None, q_deadline_at = None, q_metadata = []\<rparr>"

definition sample_created :: ExecutionWait where
  "sample_created = requested_wait sample_execution ''u0'' ''k-1'' 100 sample_request"

definition sample_suspended :: world where
  "sample_suspended = snd (create_wait ''ex-1'' ''k-1'' sample_request sample_world)"

lemma sample_world_simps [simp]:
  "db sample_world = empty_store\<lparr>executions := [(''ex-1'', sample_execution)]\<rparr>"
  "clock sample_world = 100" "uuid_count sample_world = 0"
  "uuid_supply sample_world n = ''u'' @ nat_str n"
  by (simp_all add: sample_world_def)

lemma nat_str_0 [simp]: "nat_str 0 = ''0''"
  by (simp add: nat_str.simps)

lemma sample_world_ok: "ledger_inv (db sample_world)" "keyed (db sample_world)"
  "key_unused ''ex-1'' k (db sample_world)" "uuid_fresh sample_world"
  "list_execution_waits i st (db sample_world) = []"
  by (simp_all add: ledger_inv_def keyed_def empty_store_def key_unused_def uuid_fresh_def
      get_execution_wait_def list_execution_waits_def split: option.split)

lemma sample_created_valid: "validate_lifecycle sample_created = Inr sample_created"
  by (rule validate_lifecycle_InrI)
    (simp_all add: sample_created_def requested_wait_def sample_request_def wait_guards_ok_def
      wait_fields_ok_def max_len_def strip_def is_space_def)

lemma strip_k: "strip ''k-1'' = ''k-1''"
  by (simp add: strip_def is_space_def)

lemma sample_create:
  "create_wait ''ex-1'' ''k-1'' sample_request sample_world = (Inr (sample_created, True), sample_suspended)"
proof -
  have g: "get_execution ''ex-1'' (db sample_world) = Some sample_execution"
    by (simp add: get_execution_def)
  have q: "q_wake_at sample_request = None" by (simp add: sample_request_def)
  have u: "uuid4 sample_world = (''u0'', sample_world\<lparr>uuid_count := 1\<rparr>)"
    by (simp add: uuid4_def)
  have c: "create_execution_wait sample_created (db sample_world) = Inr (sample_created,
      (db sample_world)\<lparr>waits := [(''u0'', sample_created)]\<rparr>)"
    by (simp add: create_execution_wait_def empty_store_def sample_created_def)
  have "fst (create_wait ''ex-1'' ''k-1'' sample_request sample_world) = Inr (sample_created, True)"
    unfolding create_wait_def Let_def g strip_k u sample_world_ok(5)
    using sample_created_valid c [simplified] q
    by (simp add: WAIT_CREATION_SOURCE_STATUSES_def sample_created_def [symmetric])
  then show ?thesis by (simp add: sample_suspended_def prod_eq_iff)
qed

text \<open>
  When \<open>create_wait\<close> suspends an execution on a new wait, the wait is in the ledger as
  pending under the normalised key, the execution has the status of the wait's kind and points
  to the wait as its active one, exactly one \<open>execution.waiting\<close> event is appended, and no other
  execution changes.
\<close>

theorem create_wait_suspends:
  assumes "create_wait i k q w = (Inr (wait, True), w')" and "ledger_inv (db w)" and "keyed (db w)"
    and "key_unused i (strip k) (db w)" and "uuid_fresh w"
  shows "suspended_on i wait (db w') \<and> w_idempotency_key wait = strip k \<and> w_kind wait = q_kind q \<and>
    (\<exists>ev. list_events i (db w') = list_events i (db w) @ [ev] \<and> ev_event_type ev = EXECUTION_WAITING) \<and>
    (\<forall>j. j \<noteq> i \<longrightarrow> get_execution j (db w') = get_execution j (db w)) \<and> ledger_inv (db w')"
  using create_wait_new [OF assms] by blast

theorem create_wait_suspends_witness:
  "suspended_on ''ex-1'' sample_created (db sample_suspended) \<and> ledger_inv (db sample_suspended)"
  using create_wait_suspends [OF sample_create sample_world_ok(1-4)] by blast

text \<open>
  A retried \<open>create_wait\<close> with the same key, however its other arguments differ, returns the
  pending wait with \<open>False\<close> and changes nothing; a different key is refused.
\<close>

theorem create_wait_retry:
  assumes "create_wait i k q w = (Inr (wait, True), w')" and "ledger_inv (db w)" and "keyed (db w)"
    and "key_unused i (strip k) (db w)" and "uuid_fresh w"
    and "q_wake_at q' = None \<or> q_deadline_at q' = None"
  shows "create_wait i k' q' w' =
    (if strip k' = strip k then Inr (wait, False)
     else if strip k' = [] then Inl (ValueError ''idempotency_key must not be empty'')
     else Inl (ExecutionWaitConflictError (''Execution '' @ quote i @
            '' already has pending wait '' @ quote (w_id wait) @ ''.'')), w')"
proof -
  note new = create_wait_new [OF assms(1-5)]
  from suspended_execution [OF new(1)] obtain e where e: "get_execution i (db w') = Some e"
    "e_status e \<in> WAIT_CREATION_SOURCE_STATUSES" by blast
  from suspended_pending_list [OF new(1,4)] obtain xs where
    "list_execution_waits i (Some PENDING) (db w') = wait # xs" by blast
  moreover have "strip k \<noteq> []" using assms(1) by (rule create_wait_TrueE)
  ultimately show ?thesis using e new(2) assms(6)
    by (auto simp: create_wait_def Let_def split: option.splits)
qed

theorem create_wait_retry_witness:
  "create_wait ''ex-1'' ''k-1'' sample_request sample_suspended =
    (Inr (sample_created, False), sample_suspended)"
  using create_wait_retry [OF sample_create sample_world_ok(1-4), of sample_request "''k-1''"]
  by (simp add: sample_request_def)

text \<open>
  Round trip: an execution that \<open>create_wait\<close> suspended is woken by resolving that wait
  without a resume. The claim succeeds, the execution is paused and no longer points to the
  wait, the resolution payload is in its input under the wait's id, the ledger holds the wait
  with its final status, and no other execution changes.
\<close>

theorem create_then_resolve:
  assumes "create_wait i k q w = (Inr (wait, True), w1)" and "ledger_inv (db w)" and "keyed (db w)"
    and "key_unused i (strip k) (db w)" and "uuid_fresh w"
    and "get_execution i (db w1) = Some e"
    and "py_dict (jget (e_input_payload e) ''wait_resolutions'') = Inr r"
    and "status \<in> TERMINAL_EXECUTION_WAIT_STATUSES" and "strip key \<noteq> []"
    and "\<not> (rr \<and> status = RESOLVED)"
  shows "\<exists>w2 v. v = resolved_wait (clock w) status (strip key) payload by_whom wait \<and>
    resolve_wait resume i (w_id wait) key payload status by_whom rr w1 =
      (Inr \<lparr>out_wait = v, out_claimed = True, out_resumed = False, out_execution = None\<rparr>, w2) \<and>
    awake_with i v (db w2) \<and> (\<forall>j. j \<noteq> i \<longrightarrow> get_execution j (db w2) = get_execution j (db w))"
proof -
  note new = create_wait_new [OF assms(1-5)]
  show ?thesis
    using resolve_wait_parks [OF new(1) assms(6) new(5) assms(8-10,7), of payload by_whom resume] new(6,7)
    by metis
qed

lemma sample_suspended_execution:
  "\<exists>e. get_execution ''ex-1'' (db sample_suspended) = Some e \<and>
     py_dict (jget (e_input_payload e) ''wait_resolutions'') = Inr []"
proof -
  from sample_create obtain e v s where e: "get_execution ''ex-1'' (db sample_world) = Some e"
    and c: "create_execution_wait v (db sample_world) = Inr (sample_created, s)"
    and w: "sample_suspended = suspend_on e (q_kind sample_request) sample_created ((snd (uuid4 sample_world))\<lparr>db := s\<rparr>)"
    by (rule create_wait_TrueE)
  have e': "e = sample_execution" using e by (simp add: get_execution_def)
  have "executions s = executions (db sample_world)"
    using c by (auto simp: create_execution_wait_def split: option.splits if_splits)
  then have "keyed s" using sample_world_ok(2) by (simp add: keyed_def)
  then show ?thesis unfolding w by (simp add: suspend_on_effect(2) e' py_dict_def)
qed

theorem create_then_resolve_witness:
  "\<exists>w2::world. awake_with ''ex-1'' (resolved_wait 100 EXPIRED ''t-1'' [] None sample_created) (db w2)"
proof -
  from sample_suspended_execution obtain e where e:
    "get_execution ''ex-1'' (db sample_suspended) = Some e"
    "py_dict (jget (e_input_payload e) ''wait_resolutions'') = Inr []" by blast
  have "strip ''t-1'' = ''t-1''" by (simp add: strip_def is_space_def)
  then show ?thesis
    using create_then_resolve [OF sample_create sample_world_ok(1-4) e, of EXPIRED "''t-1''" False
        "[]" None "\<lambda>i w. (Inr sample_execution, w)"]
    by (simp add: TERMINAL_EXECUTION_WAIT_STATUSES_def) blast
qed

text \<open>
  A repeated resolution has no effect: once a wait is settled, resolving it again with the
  key that settled it is acknowledged without a claim, any other key is refused, and in both
  cases the world is unchanged, whatever the control plane's resume would do.
\<close>

theorem settled_resolution_has_no_effect:
  assumes "ledger_inv (db w)" and "get_execution_wait j (db w) = Some v" and "w_execution_id v = i"
    and "w_status v \<noteq> PENDING" and "status \<in> TERMINAL_EXECUTION_WAIT_STATUSES" and "strip key \<noteq> []"
  shows "resolve_wait resume i j key payload status by_whom rr w =
    (if w_resolution_key v = Some (strip key)
     then Inr \<lparr>out_wait = v, out_claimed = False, out_resumed = False, out_execution = None\<rparr>
     else Inl (ExecutionWaitConflictError (''Execution wait '' @ quote j @
            '' was already resolved by key '' @ quote (none_or_str (w_resolution_key v)) @ ''.'')), w)"
  by (rule resolve_wait_settled [OF assms])

definition settled_world :: world where
  "settled_world = sample_world\<lparr>db := (db sample_world)\<lparr>waits :=
     [(''w-1'', sample_wait\<lparr>w_status := RESOLVED, w_resolution_key := Some ''a'',
        w_resolved_at := Some 3\<rparr>)]\<rparr>\<rparr>"

lemma settled_world_ok:
  "ledger_inv (db settled_world)" "keyed (db settled_world)"
  "get_execution_wait ''w-1'' (db settled_world) = Some (sample_wait\<lparr>w_status := RESOLVED,
     w_resolution_key := Some ''a'', w_resolved_at := Some 3\<rparr>)"
  "get_execution ''ex-1'' (db settled_world) = Some sample_execution"
  by (simp_all add: settled_world_def ledger_inv_def keyed_def get_execution_wait_def get_execution_def)

theorem settled_resolution_has_no_effect_witness:
  "snd (resolve_wait (\<lambda>i w. (Inr sample_execution, w)) ''ex-1'' ''w-1'' ''b'' [] RESOLVED None True settled_world)
     = settled_world"
proof -
  have "strip ''b'' \<noteq> []" by (simp add: strip_def is_space_def)
  then show ?thesis
    using settled_resolution_has_no_effect [OF settled_world_ok(1,3), of "''ex-1''" RESOLVED "''b''"
        "\<lambda>i w. (Inr sample_execution, w)" "[]" None True]
    by (simp add: TERMINAL_EXECUTION_WAIT_STATUSES_def)
qed

text \<open>
  A pending wait never redirects an execution that is no longer suspended on it: when the
  execution's status or its active wait differ, \<open>resolve_wait\<close> raises a conflict and neither the
  ledger nor the execution changes, so the wait is not claimed.
\<close>

theorem unsuspended_execution_is_left_alone:
  assumes "get_execution_wait j (db w) = Some v" and "w_id v = j" and "w_execution_id v = i"
    and "w_status v = PENDING" and "get_execution i (db w) = Some e"
    and "e_status e \<noteq> WAIT_EXECUTION_STATUS (w_kind v) \<or> \<not> waits_on e j"
    and "status \<in> TERMINAL_EXECUTION_WAIT_STATUSES" and "strip key \<noteq> []"
  shows "resolve_wait resume i j key payload status by_whom rr w =
    (Inl (ExecutionWaitConflictError (''Execution '' @ quote i @
       '' is no longer suspended on wait '' @ quote j @ ''.'')), w)"
  using assms by (simp add: resolve_wait_def Let_def get_wait_def check_suspended_def)

theorem unsuspended_execution_is_left_alone_witness:
  "snd (resolve_wait (\<lambda>i w. (Inr sample_execution, w)) ''ex-1'' ''w-1'' ''b'' [] RESOLVED None True
     (sample_world\<lparr>db := (db sample_world)\<lparr>waits := [(''w-1'', sample_wait)]\<rparr>\<rparr>))
   = sample_world\<lparr>db := (db sample_world)\<lparr>waits := [(''w-1'', sample_wait)]\<rparr>\<rparr>"
proof -
  have "strip ''b'' \<noteq> []" by (simp add: strip_def is_space_def)
  then show ?thesis
    by (subst unsuspended_execution_is_left_alone [where e = sample_execution and v = sample_wait])
      (simp_all add: get_execution_wait_def get_execution_def TERMINAL_EXECUTION_WAIT_STATUSES_def)
qed

text \<open>
  Reusing the idempotency key of a wait that is already settled strands the execution: when
  it has no pending wait, \<open>create_wait\<close> returns the settled wait as if it were new, moves the
  execution to the waiting status and makes the settled wait its active one. No pending wait
  exists for the execution then, and every attempt to resolve its active wait leaves the world
  unchanged without a claim.
\<close>

theorem settled_key_strands_execution:
  assumes "ledger_inv (db w)" and "keyed (db w)" and "get_execution i (db w) = Some e"
    and "e_status e \<in> WAIT_CREATION_SOURCE_STATUSES"
    and "list_execution_waits i (Some PENDING) (db w) = []"
    and "get_execution_wait j (db w) = Some v" and "w_execution_id v = i"
    and "w_idempotency_key v = strip k" and "strip k \<noteq> []"
    and "validate_lifecycle (requested_wait e (uuid_supply w (uuid_count w)) (strip k) (clock w) q)
      = Inr (requested_wait e (uuid_supply w (uuid_count w)) (strip k) (clock w) q)"
  shows "\<exists>w' e'. create_wait i k q w = (Inr (v, True), w') \<and>
    get_execution i (db w') = Some e' \<and> e_status e' = WAIT_EXECUTION_STATUS (q_kind q) \<and>
    waits_on e' j \<and> list_execution_waits i (Some PENDING) (db w') = [] \<and>
    (\<forall>resume key payload status by_whom rr.
       snd (resolve_wait resume i j key payload status by_whom rr w') = w' \<and>
       (\<forall>out. fst (resolve_wait resume i j key payload status by_whom rr w') = Inr out \<longrightarrow> \<not> out_claimed out))"
proof -
  let ?v = "requested_wait e (uuid_supply w (uuid_count w)) (strip k) (clock w) q"
  have eid: "e_id e = i" by (rule keyedD [OF assms(2,3)])
  have vid: "w_id v = j" by (rule mem.get_id [OF assms(1,6)])
  have settled: "w_status v \<noteq> PENDING"
    using assms(5-7) pending_list_Nil_iff [OF assms(1)] by blast
  have ok: "op_ok (Create ?v)" by (rule validated_request(2) [OF assms(10)])
  have c: "create_execution_wait ?v (db w) = Inr (v, db w)"
    by (rule mem.create_existing [OF assms(1,6) _ _ ok]) (simp_all add: eid assms(7,8))
  have no_bad: "\<not> (case (q_wake_at q, q_deadline_at q) of (Some wake, Some deadline) \<Rightarrow> deadline < wake
      | _ \<Rightarrow> False)"
    using validate_lifecycle_InrE [OF assms(10)] by (simp add: wait_guards_ok_def requested_wait_def)
  define w' where "w' = suspend_on e (q_kind q) v ((snd (uuid4 w))\<lparr>db := db w\<rparr>)"
  have call: "create_wait i k q w = (Inr (v, True), w')"
    using assms(3-5,9,10) no_bad c unfolding create_wait_def
    by (simp add: Let_def case_prod_unfold w'_def split: option.splits)
  have k: "keyed (db ((snd (uuid4 w))\<lparr>db := db w\<rparr>))" using assms(2) by simp
  note eff = suspend_on_effect [OF k, where e = e and kind = "q_kind q" and saved = v, folded w'_def]
  have inv: "ledger_inv (db w')" using assms(1) eff(1) by (simp add: ledger_inv_def)
  have g': "get_execution_wait j (db w') = Some v" using assms(6) eff(1) by (simp add: get_execution_wait_def)
  have none: "list_execution_waits i (Some PENDING) (db w') = []"
    using assms(5) eff(1) by (simp add: list_execution_waits_def)
  have res: "snd (resolve_wait resume i j key payload status by_whom rr w') = w' \<and>
      (\<forall>out. fst (resolve_wait resume i j key payload status by_whom rr w') = Inr out \<longrightarrow> \<not> out_claimed out)"
    for resume key payload status by_whom rr
    by (rule resolve_wait_cases [OF inv, of resume i j key payload status by_whom rr])
      (use g' settled in \<open>auto simp: suspended_on_def\<close>)
  have "get_execution i (db w') = Some (e\<lparr>e_status := WAIT_EXECUTION_STATUS (q_kind q),
      e_metadata := dset ''active_wait'' (active_wait_entry v) (e_metadata e), e_updated_at := clock w\<rparr>)"
    using eff(2) [of i] by (simp add: eid)
  then show ?thesis using call none res vid by (auto intro!: exI [of _ w'])
qed

theorem settled_key_strands_execution_witness:
  "\<exists>w' e'. create_wait ''ex-1'' ''k-1'' sample_request settled_world =
      (Inr (sample_wait\<lparr>w_status := RESOLVED, w_resolution_key := Some ''a'', w_resolved_at := Some 3\<rparr>, True), w') \<and>
    get_execution ''ex-1'' (db w') = Some e' \<and> e_status e' = WAITING_FOR_INPUT"
proof -
  have "validate_lifecycle (requested_wait sample_execution (uuid_supply settled_world (uuid_count settled_world))
      (strip ''k-1'') (clock settled_world) sample_request) =
    Inr (requested_wait sample_execution (uuid_supply settled_world (uuid_count settled_world))
      (strip ''k-1'') (clock settled_world) sample_request)"
    using sample_created_valid by (simp add: settled_world_def strip_k sample_created_def)
  note strand = settled_key_strands_execution [OF settled_world_ok(1,2,4) _ _ settled_world_ok(3) _ _ _ this]
  have "list_execution_waits ''ex-1'' (Some PENDING) (db settled_world) = []"
    by (simp add: list_execution_waits_def settled_world_def)
  moreover have "q_kind sample_request = INPUT" by (simp add: sample_request_def)
  ultimately show ?thesis using strand by (simp add: WAIT_CREATION_SOURCE_STATUSES_def strip_k) blast
qed

end
