(* ===== verification/Approvals.thy ===== *)
theory Approvals
  imports Wait_Service
begin

text \<open>
  \<open>ApprovalManager\<close> of \<open>app/runtime/native/approvals.py\<close>: a tool call asks for a human decision,
  the request and its wait are stored, and the coroutine unwinds; a later call with the same
  arguments consumes the decision. The digest of the arguments (\<open>json.dumps\<close> and SHA-256) and the
  provider of delegated decisions are arguments of the operations. Every store of the repository
  has the methods the manager probes with \<open>hasattr\<close>.
\<close>

section \<open>Decisions\<close>

type_synonym digest_fn = "json \<Rightarrow> string"
type_synonym delegate_fn = "string \<Rightarrow> string \<Rightarrow> json \<Rightarrow> json \<Rightarrow> (ApprovalDecision option) act"

definition approval_key :: "string \<Rightarrow> string \<Rightarrow> string" where
  "approval_key execution_id tool_id = execution_id @ '':'' @ tool_id"

definition persisted_decision :: "ApprovalRequest option \<Rightarrow> ApprovalDecision option" where
  "persisted_decision request =
    (case request of
       None \<Rightarrow> None
     | Some r \<Rightarrow>
         if ar_status r \<notin> {''approved'', ''rejected'', ''expired'', ''cancelled''} then None
         else
           let response = ar_response_payload r
           in Some \<lparr>d_granted = (ar_status r = ''approved'' \<and>
                      (case map_of response ''granted'' of None \<Rightarrow> True | Some v \<Rightarrow> v \<noteq> VBool False)),
                    d_reason = Some (case as_str (jget response ''reason'') of Some t \<Rightarrow> t
                      | None \<Rightarrow> ''Approval request became '' @ ar_status r @ ''.''),
                    d_metadata = dict_or_empty (jget response ''metadata'')\<rparr>)"

text \<open>\<open>str(v or "")\<close> for the digest the execution's metadata holds, a string or absent.\<close>

definition str_or_empty :: "pyval \<Rightarrow> string" where
  "str_or_empty v = (case as_str v of None \<Rightarrow> [] | Some s \<Rightarrow> s)"

definition consume_resolved_decision ::
  "string \<Rightarrow> string \<Rightarrow> string \<Rightarrow> world \<Rightarrow> ApprovalDecision option \<times> world" where
  "consume_resolved_decision execution_id tool_id invocation_digest w =
    (case get_execution execution_id (db w) of
       None \<Rightarrow> (None, w)
     | Some execution \<Rightarrow>
         (case as_dict (jget (e_metadata execution) ''pending_approval'') of
            None \<Rightarrow> (None, w)
          | Some pending \<Rightarrow>
              if jget pending ''tool_id'' \<noteq> VStr tool_id then (None, w)
              else if str_or_empty (jget pending ''invocation_digest'') \<noteq> invocation_digest then (None, w)
              else case as_str (jget pending ''request_id'') of
                None \<Rightarrow> (None, w)
              | Some request_id \<Rightarrow>
                  (case persisted_decision (get_approval_request request_id (db w)) of
                     None \<Rightarrow> (None, w)
                   | Some decision \<Rightarrow>
                       (Some decision,
                        db_update_execution (execution\<lparr>e_metadata :=
                          dpop ''pending_approval'' (e_metadata execution)\<rparr>) w))))"

definition finish_inline_decision :: "string \<Rightarrow> world \<Rightarrow> world" where
  "finish_inline_decision execution_id w =
    (case get_execution execution_id (db w) of
       None \<Rightarrow> w
     | Some execution \<Rightarrow>
         db_update_execution (execution\<lparr>
           e_metadata := dpop ''active_wait'' (dpop ''pending_approval'' (e_metadata execution)),
           e_status := (if e_status execution = WAITING_FOR_APPROVAL then RUNNING
                        else e_status execution)\<rparr>) w)"

section \<open>Recording a decision\<close>

definition resolve_durable_approval_wait ::
  "string \<Rightarrow> string \<Rightarrow> string \<Rightarrow> json \<Rightarrow> string \<Rightarrow> world \<Rightarrow> world" where
  "resolve_durable_approval_wait execution_id approval_request_id status response_payload responded_by w =
    (case find (\<lambda>item. w_kind item = APPROVAL \<and>
                       jget (w_metadata item) ''approval_request_id'' = VStr approval_request_id)
            (list_execution_waits execution_id (Some PENDING) (db w)) of
       None \<Rightarrow> w
     | Some wait \<Rightarrow>
         w\<lparr>db := snd (resolve_execution_wait (clock w) (w_id wait) RESOLVED
              (''approval:'' @ approval_request_id @ '':'' @ status) response_payload
              (Some responded_by) (db w))\<rparr>)"

definition decision_status :: "ApprovalDecision \<Rightarrow> string" where
  "decision_status decision = (if d_granted decision then ''approved'' else ''rejected'')"

definition decision_payload :: "ApprovalDecision \<Rightarrow> json" where
  "decision_payload decision =
    [(''reason'', opt_str (d_reason decision)), (''granted'', VBool (d_granted decision)),
     (''metadata'', VDict (d_metadata decision))]"

definition resolve_approval ::
  "string \<Rightarrow> string \<Rightarrow> ApprovalDecision \<Rightarrow> string \<Rightarrow> world \<Rightarrow> bool \<times> world" where
  "resolve_approval execution_id tool_id decision responded_by w =
    (let key = approval_key execution_id tool_id;
         future = map_of (pending_approvals w) key;
         status = decision_status decision;
         response_payload = decision_payload decision;
         (persisted, s) = resolve_pending_approval_request (clock w) execution_id tool_id status
                            response_payload (Some responded_by) (db w);
         w1 = w\<lparr>db := s\<rparr>
     in case persisted of
          None \<Rightarrow> (False, w1)
        | Some request \<Rightarrow>
            let w2 = resolve_durable_approval_wait execution_id (ar_id request) status
                       response_payload responded_by w1
            in (True, case future of
                        Some None \<Rightarrow> w2\<lparr>pending_approvals := dset key (Some decision) (pending_approvals w2)\<rparr>
                      | _ \<Rightarrow> w2))"

definition approve :: "string \<Rightarrow> string \<Rightarrow> string option \<Rightarrow> world \<Rightarrow> bool \<times> world" where
  "approve execution_id tool_id reason w =
    resolve_approval execution_id tool_id
      \<lparr>d_granted = True, d_reason = reason, d_metadata = [(''mode'', VStr ''manual'')]\<rparr> ''manual'' w"

definition reject :: "string \<Rightarrow> string \<Rightarrow> string option \<Rightarrow> world \<Rightarrow> bool \<times> world" where
  "reject execution_id tool_id reason w =
    resolve_approval execution_id tool_id
      \<lparr>d_granted = False, d_reason = or_str reason (Some ''Rejected''),
       d_metadata = [(''mode'', VStr ''manual'')]\<rparr> ''manual'' w"

section \<open>Requesting approval\<close>

text \<open>The \<open>ExecutionWait(...)\<close> that \<open>_create_durable_approval_wait\<close> constructs.\<close>

definition approval_wait ::
  "string \<Rightarrow> string \<Rightarrow> string \<Rightarrow> json \<Rightarrow> json \<Rightarrow> string \<Rightarrow> datetime \<Rightarrow> ExecutionWait" where
  "approval_wait execution_id tool_id request_id request_payload checkpoint wait_id now =
    \<lparr>w_id = wait_id, w_execution_id = execution_id, w_kind = APPROVAL, w_status = PENDING,
     w_idempotency_key = take 255 (''approval:'' @
        (if request_id \<noteq> [] then request_id else execution_id @ '':'' @ tool_id)),
     w_correlation_key = Some (''approval:'' @ tool_id), w_checkpoint = checkpoint,
     w_request_payload = request_payload, w_policy = [], w_resolution_payload = None,
     w_resolution_key = None, w_wake_at = None, w_deadline_at = None, w_resolved_at = None,
     w_resolved_by = None, w_created_at = now, w_updated_at = now,
     w_metadata = [(''approval_request_id'', VStr request_id), (''tool_id'', VStr tool_id),
                   (''source'', VStr ''approval_manager'')]\<rparr>"

definition create_durable_approval_wait :: "string \<Rightarrow> string \<Rightarrow> string \<Rightarrow> json \<Rightarrow> string act" where
  "create_durable_approval_wait execution_id tool_id request_id request_payload w =
    (let checkpoint = (case get_execution execution_id (db w) of None \<Rightarrow> []
           | Some execution \<Rightarrow> (case e_output_payload execution of None \<Rightarrow> [] | Some p \<Rightarrow> p));
         (wait_id, w1) = uuid4 w
     in case validate_lifecycle (approval_wait execution_id tool_id request_id request_payload
               checkpoint wait_id (clock w)) of
          Inl e \<Rightarrow> (Inl e, w1)
        | Inr wait \<Rightarrow>
            (case create_execution_wait wait (db w1) of
               Inl e \<Rightarrow> (Inl e, w1)
             | Inr (saved, s) \<Rightarrow> (Inr (w_id saved), w1\<lparr>db := s\<rparr>)))"

definition pending_approval_entry ::
  "string \<Rightarrow> string \<Rightarrow> string \<Rightarrow> string \<Rightarrow> json \<Rightarrow> json \<Rightarrow> pyval" where
  "pending_approval_entry request_id wait_id tool_id invocation_digest persisted_payload approval_metadata =
    VDict [(''request_id'', VStr request_id), (''wait_id'', VStr wait_id), (''tool_id'', VStr tool_id),
           (''invocation_digest'', VStr invocation_digest), (''payload'', VDict persisted_payload),
           (''approval_metadata'', VDict approval_metadata)]"

text \<open>The execution as \<open>request_approval\<close> stores it while the decision is open.\<close>

definition await_approval ::
  "string \<Rightarrow> string \<Rightarrow> string \<Rightarrow> string \<Rightarrow> string \<Rightarrow> json \<Rightarrow> json \<Rightarrow> world \<Rightarrow> world" where
  "await_approval execution_id request_id wait_id tool_id invocation_digest persisted_payload
     approval_metadata w =
    (case get_execution execution_id (db w) of
       None \<Rightarrow> w
     | Some execution \<Rightarrow>
         (let metadata = dset ''pending_approval'' (pending_approval_entry request_id wait_id tool_id
                invocation_digest persisted_payload approval_metadata) (e_metadata execution);
              metadata' = (if wait_id \<noteq> [] then dset ''active_wait'' (VDict [(''wait_id'', VStr wait_id),
                  (''kind'', VStr (wait_kind_value APPROVAL))]) metadata else metadata)
          in db_update_execution (execution\<lparr>e_status := WAITING_FOR_APPROVAL,
               e_metadata := metadata'\<rparr>) w))"

text \<open>
  \<open>request_approval\<close> returns a decision, raises, or, with a store that gave no wait id, blocks on
  the process-local future (\<open>AwaitFuture\<close>, continued by \<open>poll_decision\<close>).
\<close>

datatype approval_result = Decided ApprovalDecision | AwaitFuture

definition drop_waiter :: "string \<Rightarrow> world \<Rightarrow> world" where
  "drop_waiter key w = w\<lparr>pending_approvals := dpop key (pending_approvals w),
     request_ids := dpop key (request_ids w)\<rparr>"

definition request_delegated_decision ::
  "delegate_fn option \<Rightarrow> string \<Rightarrow> string \<Rightarrow> json \<Rightarrow> json \<Rightarrow> world \<Rightarrow> ApprovalDecision option \<times> world" where
  "request_delegated_decision delegate execution_id tool_id payload approval_metadata w =
    (case delegate of
       None \<Rightarrow> (None, w)
     | Some provider \<Rightarrow>
         (case provider execution_id tool_id payload approval_metadata w of
            (Inl e, w') \<Rightarrow> (None, w')
          | (Inr decision, w') \<Rightarrow> (decision, w')))"

definition request_approval ::
  "digest_fn \<Rightarrow> delegate_fn option \<Rightarrow> string \<Rightarrow> string \<Rightarrow> json \<Rightarrow> json option \<Rightarrow> string option \<Rightarrow> json \<Rightarrow>
   approval_result act" where
  "request_approval digest delegate execution_id tool_id payload redacted_payload event_id
     approval_metadata w0 =
    (case consume_resolved_decision execution_id tool_id (digest payload) w0 of
       (Some decision, w) \<Rightarrow> (Inr (Decided decision), w)
     | (None, w) \<Rightarrow>
         let key = approval_key execution_id tool_id;
             w1 = w\<lparr>pending_approvals := dset key None (pending_approvals w)\<rparr>;
             persisted_payload = (case redacted_payload of Some p \<Rightarrow> p | None \<Rightarrow> payload);
             request_payload = [(''arguments'', VDict persisted_payload),
               (''approval_metadata'', VDict approval_metadata),
               (''invocation_digest'', VStr (digest payload))];
             (request_id, w2) = uuid4 w1;
             w3 = w2\<lparr>db := create_approval_request (clock w2) request_id execution_id event_id tool_id
                       ''pending'' request_payload (db w2),
                     request_ids := dset key request_id (request_ids w2)\<rparr>
         in case create_durable_approval_wait execution_id tool_id request_id request_payload w3 of
              (Inl e, w4) \<Rightarrow> (Inl e, drop_waiter key w4)
            | (Inr wait_id, w4) \<Rightarrow>
                let w5 = await_approval execution_id request_id wait_id tool_id (digest payload)
                           persisted_payload approval_metadata w4;
                    (delegated, w6) = request_delegated_decision delegate execution_id tool_id
                           persisted_payload approval_metadata w5
                in case delegated of
                     Some decision \<Rightarrow>
                       (Inr (Decided decision),
                        finish_inline_decision execution_id
                          (snd (resolve_approval execution_id tool_id decision ''main_agent'' w6)))
                   | None \<Rightarrow>
                       if wait_id \<noteq> [] then
                         (Inl (ExecutionApprovalSuspendedError (''Execution '' @ quote execution_id @
                            '' is waiting for approval of tool '' @ quote tool_id @ ''.'')),
                          drop_waiter key w6)
                       else (Inr AwaitFuture, w6))"

text \<open>One turn of the loop of \<open>_await_decision\<close>: the future's result, else the stored decision.\<close>

definition poll_decision :: "string \<Rightarrow> string \<Rightarrow> world \<Rightarrow> ApprovalDecision option" where
  "poll_decision key request_id w =
    (case map_of (pending_approvals w) key of
       Some (Some decision) \<Rightarrow> Some decision
     | _ \<Rightarrow> persisted_decision (get_approval_request request_id (db w)))"

text \<open>What \<open>request_approval\<close> does with the decision the loop returned.\<close>

definition resume_after_decision :: "string \<Rightarrow> string \<Rightarrow> world \<Rightarrow> world" where
  "resume_after_decision execution_id key w =
    drop_waiter key
      (case get_execution execution_id (db w) of
         None \<Rightarrow> w
       | Some execution \<Rightarrow>
           if e_status execution = WAITING_FOR_APPROVAL then
             db_update_execution (execution\<lparr>e_status := RUNNING,
               e_metadata := dpop ''active_wait'' (dpop ''pending_approval'' (e_metadata execution))\<rparr>) w
           else w)"

section \<open>The decided row\<close>

definition approvals_keyed :: "store \<Rightarrow> bool" where
  "approvals_keyed s \<longleftrightarrow> distinct (map fst (approval_requests s)) \<and>
     (\<forall>k r. map_of (approval_requests s) k = Some r \<longrightarrow> ar_id r = k)"

lemma approvals_keyed_id: "approvals_keyed s \<Longrightarrow> map_of (approval_requests s) k = Some r \<Longrightarrow> ar_id r = k"
  unfolding approvals_keyed_def by blast

lemma approvals_keyed_row:
  assumes "approvals_keyed s" and "x \<in> set (dvalues (approval_requests s))"
  shows "map_of (approval_requests s) (ar_id x) = Some x"
proof -
  have "distinct (map fst (approval_requests s))" using assms(1) by (simp add: approvals_keyed_def)
  from dvalues_in_map_of [OF this assms(2)] obtain k where "map_of (approval_requests s) k = Some x" ..
  with approvals_keyed_id [OF assms(1)] show ?thesis by blast
qed

lemma max_by_in: "max_by key x xs \<in> set (x # xs)"
proof (induction xs arbitrary: x)
  case (Cons a xs)
  show ?case using Cons.IH [of a] Cons.IH [of x] by auto
qed simp

lemma max_by_map:
  "(\<And>y. y \<in> set (x # xs) \<Longrightarrow> key (f y) = key y) \<Longrightarrow> max_by key (f x) (map f xs) = f (max_by key x xs)"
proof (induction xs arbitrary: x)
  case (Cons a xs)
  have "max_by key (f (if key x < key a then a else x)) (map f xs) =
      f (max_by key (if key x < key a then a else x) xs)"
    by (rule Cons.IH) (use Cons.prems in auto)
  then show ?case using Cons.prems [of x] Cons.prems [of a] by (auto split: if_splits)
qed simp

lemma max_by_ge: "y \<in> set (x # xs) \<Longrightarrow> key y \<le> key (max_by key x xs)"
proof (induction xs arbitrary: x y)
  case (Cons z xs)
  let ?x = "if key x < key z then z else x"
  have "key x \<le> key ?x" "key z \<le> key ?x" by auto
  moreover have "key ?x \<le> key (max_by key ?x xs)" by (rule Cons.IH) simp
  moreover have "key y \<le> key (max_by key ?x xs)" if "y \<in> set xs" by (rule Cons.IH) (use that in simp)
  ultimately show ?case using Cons.prems by (auto intro: order.trans)
qed simp

lemma dset_existing:
  "map_of d k = Some x \<Longrightarrow> distinct (map fst d) \<Longrightarrow>
   dset k v d = map (\<lambda>(k', y). (k', if k' = k then v else y)) d"
proof (induction d)
  case (Cons p d)
  obtain k' y where p: "p = (k', y)" by force
  show ?case
  proof (cases "k' = k")
    case True
    then have "k \<notin> fst ` set d" using Cons.prems(2) by (simp add: p)
    then have "map (\<lambda>(k', y). (k', if k' = k then v else y)) d = d"
      by (induction d) auto
    then show ?thesis by (simp add: p True)
  next
    case False
    then show ?thesis using Cons by (simp add: p)
  qed
qed simp

text \<open>The rows of a tool, before and after one of them is decided.\<close>

definition tool_requests :: "string \<Rightarrow> string \<Rightarrow> store \<Rightarrow> ApprovalRequest list" where
  "tool_requests i t s =
     filter (\<lambda>item. ar_execution_id item = i \<and> ar_tool_id item = t) (dvalues (approval_requests s))"

definition decide_row :: "datetime \<Rightarrow> string \<Rightarrow> json \<Rightarrow> string option \<Rightarrow> ApprovalRequest \<Rightarrow> ApprovalRequest" where
  "decide_row now st p b r = r\<lparr>ar_status := st, ar_response_payload := p,
     ar_responded_at := Some (isoformat now), ar_responded_by := b\<rparr>"

lemma decide_row_simps [simp]:
  "ar_id (decide_row now st p b r) = ar_id r" "ar_execution_id (decide_row now st p b r) = ar_execution_id r"
  "ar_tool_id (decide_row now st p b r) = ar_tool_id r" "ar_status (decide_row now st p b r) = st"
  "ar_response_payload (decide_row now st p b r) = p"
  "request_key (decide_row now st p b r) = request_key r"
  by (simp_all add: decide_row_def request_key_def)

lemma tool_requests_update:
  assumes "approvals_keyed s" and "get_approval_request k s = Some r"
  shows "tool_requests i t (update_approval_request now k st p b s) =
    map (\<lambda>x. if ar_id x = k then decide_row now st p b r else x) (tool_requests i t s)"
proof -
  let ?f = "\<lambda>x. if ar_id x = k then decide_row now st p b r else x"
  have r: "map_of (approval_requests s) k = Some r" "ar_id r = k"
    using assms by (auto simp: get_approval_request_def approvals_keyed_def)
  have d: "distinct (map fst (approval_requests s))" using assms(1) by (simp add: approvals_keyed_def)
  have id: "ar_id y = k'" if "(k', y) \<in> set (approval_requests s)" for k' y
    using that assms(1) d by (auto simp: approvals_keyed_def)
  have vals: "dvalues (approval_requests (update_approval_request now k st p b s)) =
      map ?f (dvalues (approval_requests s))"
    using r(1) id by (auto simp: update_approval_request_def dset_existing [OF r(1) d] dvalues_def
        decide_row_def)
  have keep: "(ar_execution_id (?f x) = i \<and> ar_tool_id (?f x) = t) = (ar_execution_id x = i \<and> ar_tool_id x = t)"
    if x: "x \<in> set (dvalues (approval_requests s))" for x
  proof (cases "ar_id x = k")
    case True
    then have "x = r" using approvals_keyed_row [OF assms(1) x] r(1) by simp
    then show ?thesis by simp
  qed simp
  have "filter (\<lambda>x. ar_execution_id x = i \<and> ar_tool_id x = t) (map ?f xs) =
      map ?f (filter (\<lambda>x. ar_execution_id x = i \<and> ar_tool_id x = t) xs)"
    if "set xs \<subseteq> set (dvalues (approval_requests s))" for xs
    using that keep by (induction xs) auto
  then show ?thesis unfolding tool_requests_def vals by blast
qed

text \<open>The row that decides: the latest request of the tool.\<close>

definition latest_request :: "string \<Rightarrow> string \<Rightarrow> store \<Rightarrow> ApprovalRequest option" where
  "latest_request i t s =
     (case tool_requests i t s of [] \<Rightarrow> None | m # ms \<Rightarrow> Some (max_by request_key m ms))"

lemma resolve_pending_latest:
  "resolve_pending_approval_request now i t st p b s =
    (case latest_request i t s of
       None \<Rightarrow> (None, s)
     | Some c \<Rightarrow> if ar_status c = st then (Some c, s)
         else if ar_status c \<noteq> ''pending'' then (None, s)
         else (get_approval_request (ar_id c) (update_approval_request now (ar_id c) st p b s),
               update_approval_request now (ar_id c) st p b s))"
  by (simp add: resolve_pending_approval_request_def latest_request_def tool_requests_def Let_def
      split: list.split)

lemma latest_request_row:
  assumes "approvals_keyed s" and "latest_request i t s = Some c"
  shows "get_approval_request (ar_id c) s = Some c"
proof -
  from assms(2) obtain m ms where m: "tool_requests i t s = m # ms" "c = max_by request_key m ms"
    by (auto simp: latest_request_def split: list.splits)
  have "c \<in> set (tool_requests i t s)" unfolding m by (rule max_by_in)
  then have "c \<in> set (dvalues (approval_requests s))" by (simp add: tool_requests_def)
  from approvals_keyed_row [OF assms(1) this] show ?thesis by (simp add: get_approval_request_def)
qed

lemma latest_request_update:
  assumes keyed: "approvals_keyed s" and c: "latest_request i t s = Some c"
  shows "latest_request i t (update_approval_request now (ar_id c) st p b s) = Some (decide_row now st p b c)"
proof -
  let ?f = "\<lambda>x. if ar_id x = ar_id c then decide_row now st p b c else x"
  have row: "get_approval_request (ar_id c) s = Some c" by (rule latest_request_row [OF assms])
  from c obtain m ms where m: "tool_requests i t s = m # ms" "c = max_by request_key m ms"
    by (auto simp: latest_request_def split: list.splits)
  have same: "x = c" if "x \<in> set (m # ms)" "ar_id x = ar_id c" for x
  proof -
    have "x \<in> set (tool_requests i t s)" using that(1) m(1) by simp
    then have "x \<in> set (dvalues (approval_requests s))" by (simp add: tool_requests_def)
    from approvals_keyed_row [OF keyed this] that(2) row show ?thesis
      by (simp add: get_approval_request_def)
  qed
  have "request_key (?f x) = request_key x" if "x \<in> set (m # ms)" for x using same [OF that] by auto
  then have "max_by request_key (?f m) (map ?f ms) = ?f (max_by request_key m ms)"
    by (rule max_by_map)
  then show ?thesis unfolding latest_request_def tool_requests_update [OF keyed row] m(1)
    by (simp add: m(2) [symmetric])
qed

lemma update_approvals_keyed:
  "approvals_keyed s \<Longrightarrow> approvals_keyed (update_approval_request now k st p b s)"
  using approvals_keyed_id [of s k]
  by (simp add: approvals_keyed_def update_approval_request_def map_of_dset del: map_of_eq_Some_iff
      split: option.split)

lemma get_updated_row:
  "get_approval_request k s = Some r \<Longrightarrow>
   get_approval_request k (update_approval_request now k st p b s) = Some (decide_row now st p b r)"
  by (simp add: get_approval_request_def update_approval_request_def decide_row_def)

lemma resolve_pending_decided:
  assumes "approvals_keyed s" and "resolve_pending_approval_request now i t st p b s = (Some r, s')"
  shows "latest_request i t s' = Some r" "ar_status r = st" "approvals_keyed s'"
proof -
  obtain c where c: "latest_request i t s = Some c"
    using assms(2) by (auto simp: resolve_pending_latest split: option.splits)
  note row = latest_request_row [OF assms(1) c]
  show "latest_request i t s' = Some r" "ar_status r = st" "approvals_keyed s'"
    using assms c latest_request_update [OF assms(1) c] get_updated_row [OF row]
    by (auto simp: resolve_pending_latest update_approvals_keyed split: if_splits)
qed

lemma decision_status_not_pending [simp]: "decision_status d \<noteq> ''pending''"
  by (simp add: decision_status_def)

lemma resolve_durable_frame [simp]:
  "approval_requests (db (resolve_durable_approval_wait i r st p b w)) = approval_requests (db w)"
  "pending_approvals (resolve_durable_approval_wait i r st p b w) = pending_approvals w"
  "executions (db (resolve_durable_approval_wait i r st p b w)) = executions (db w)"
  "clock (resolve_durable_approval_wait i r st p b w) = clock w"
  by (auto simp: resolve_durable_approval_wait_def resolve_execution_wait_def Let_def
      split: option.splits if_splits)

lemma latest_request_eq:
  "approval_requests s' = approval_requests s \<Longrightarrow> latest_request i t s' = latest_request i t s"
  by (simp add: latest_request_def tool_requests_def)

lemma resolve_approval_True:
  assumes "approvals_keyed (db w)" and "resolve_approval i t d b w = (True, w')"
  obtains r where "latest_request i t (db w') = Some r" "ar_status r = decision_status d"
    "approvals_keyed (db w')"
proof -
  obtain r s where r: "resolve_pending_approval_request (clock w) i t (decision_status d)
      (decision_payload d) (Some b) (db w) = (Some r, s)"
    using assms(2) by (auto simp: resolve_approval_def Let_def split: prod.splits option.splits)
  note dec = resolve_pending_decided [OF assms(1) r]
  have "approval_requests (db w') = approval_requests s"
    using assms(2) r by (auto simp: resolve_approval_def Let_def split: option.splits)
  then show thesis using that [of r] dec latest_request_eq [of "db w'" s]
    by (simp add: approvals_keyed_def)
qed

text \<open>
  The first decision on a tool request wins: once \<open>approve\<close> or \<open>reject\<close> (or a delegated
  decision) has been recorded, the opposite decision is answered with \<open>False\<close> and changes nothing,
  neither the row nor the wait nor a waiter in the process.
\<close>

theorem first_decision_wins:
  assumes "approvals_keyed (db w)" and "resolve_approval i t d b w = (True, w')"
    and "d_granted d \<noteq> d_granted d'"
  shows "resolve_approval i t d' b' w' = (False, w')"
proof -
  from assms(1,2) obtain r where r: "latest_request i t (db w') = Some r"
    "ar_status r = decision_status d" by (rule resolve_approval_True)
  have "decision_status d \<noteq> decision_status d'" using assms(3) by (auto simp: decision_status_def)
  then have "resolve_pending_approval_request (clock w') i t (decision_status d') (decision_payload d')
      (Some b') (db w') = (None, db w')"
    using r by (simp add: resolve_pending_latest)
  then show ?thesis by (simp add: resolve_approval_def Let_def)
qed

section \<open>Asking and deciding\<close>

lemma consume_None: "consume_resolved_decision i t dg w = (None, w') \<Longrightarrow> w' = w"
  by (auto simp: consume_resolved_decision_def split: option.splits if_splits)

lemma consume_SomeE:
  assumes "consume_resolved_decision i t dg w = (Some d, w')"
  obtains e pending rid r where "get_execution i (db w) = Some e"
    "as_dict (jget (e_metadata e) ''pending_approval'') = Some pending"
    "jget pending ''tool_id'' = VStr t" "str_or_empty (jget pending ''invocation_digest'') = dg"
    "jget pending ''request_id'' = VStr rid" "get_approval_request rid (db w) = Some r"
    "persisted_decision (Some r) = Some d"
  using assms
  by (auto simp: consume_resolved_decision_def persisted_decision_def split: option.splits if_splits
      elim!: as_str.elims)

lemma persisted_granted:
  assumes "persisted_decision (Some r) = Some d" and "d_granted d"
  shows "ar_status r = ''approved'' \<and> jget (ar_response_payload r) ''granted'' \<noteq> VBool False"
  using assms by (auto simp: persisted_decision_def jget_def Let_def split: if_splits option.splits)

text \<open>
  C8: A tool call goes ahead on a stored decision only if a human decided on this very call: when
  \<open>request_approval\<close> without a delegate returns a grant, the execution's pending approval names
  the tool and carries the digest of the same arguments, and the stored row it points to is
  approved and not marked as not granted.
\<close>

theorem granted_only_by_matching_approval:
  assumes "request_approval digest None i t payload redacted ev meta w = (Inr (Decided d), w')"
    and "d_granted d"
  shows "\<exists>e pending rid r. get_execution i (db w) = Some e \<and>
    as_dict (jget (e_metadata e) ''pending_approval'') = Some pending \<and>
    jget pending ''tool_id'' = VStr t \<and> str_or_empty (jget pending ''invocation_digest'') = digest payload \<and>
    jget pending ''request_id'' = VStr rid \<and> get_approval_request rid (db w) = Some r \<and>
    ar_status r = ''approved'' \<and> jget (ar_response_payload r) ''granted'' \<noteq> VBool False"
proof -
  have c: "consume_resolved_decision i t (digest payload) w = (Some d, w')"
    using assms(1)
    by (auto simp: request_approval_def request_delegated_decision_def Let_def
        split: prod.splits option.splits sum.splits if_splits)
  then show ?thesis using persisted_granted [OF _ assms(2)] by (elim consume_SomeE) blast
qed

lemma strip_nonempty: "x \<in> set s \<Longrightarrow> \<not> is_space x \<Longrightarrow> strip s \<noteq> []"
  by (auto simp: strip_def) (metis dropWhile_eq_Nil_conv set_dropWhileD set_rev rev_rev_ident dropWhile_last
      hd_dropWhile hd_in_set)

lemma approval_wait_simps [simp]:
  "w_id (approval_wait i t rid p cp wid now) = wid" "w_execution_id (approval_wait i t rid p cp wid now) = i"
  "w_status (approval_wait i t rid p cp wid now) = PENDING"
  "w_kind (approval_wait i t rid p cp wid now) = APPROVAL"
  "jget (w_metadata (approval_wait i t rid p cp wid now)) ''approval_request_id'' = VStr rid"
  "rid \<noteq> [] \<Longrightarrow> w_idempotency_key (approval_wait i t rid p cp wid now) = take 255 (''approval:'' @ rid)"
  by (simp_all add: approval_wait_def)

lemma approval_wait_valid:
  assumes "length t \<le> 246"
  shows "validate_lifecycle (approval_wait i t rid p cp wid now) = Inr (approval_wait i t rid p cp wid now)"
proof (rule validate_lifecycle_InrI)
  have "strip (CHR ''a'' # xs) \<noteq> []" for xs
    by (rule strip_nonempty [of "CHR ''a''"]) (simp_all add: is_space_def)
  then show "wait_guards_ok (approval_wait i t rid p cp wid now)"
    using assms by (simp add: wait_guards_ok_def wait_fields_ok_def max_len_def approval_wait_def)
qed simp

text \<open>The state a request leaves behind: row, wait and execution point to each other.\<close>

definition approval_open ::
  "string \<Rightarrow> string \<Rightarrow> string \<Rightarrow> ExecutionWait \<Rightarrow> string \<Rightarrow> store \<Rightarrow> bool" where
  "approval_open i t rid wait dg s \<longleftrightarrow> suspended_on i wait s \<and> w_kind wait = APPROVAL \<and>
     jget (w_metadata wait) ''approval_request_id'' = VStr rid \<and>
     (case get_approval_request rid s of None \<Rightarrow> False | Some r \<Rightarrow> ar_status r = ''pending'' \<and>
        latest_request i t s = Some r) \<and>
     (case get_execution i s of None \<Rightarrow> False | Some e \<Rightarrow>
        (case as_dict (jget (e_metadata e) ''pending_approval'') of None \<Rightarrow> False | Some pending \<Rightarrow>
           jget pending ''tool_id'' = VStr t \<and> jget pending ''request_id'' = VStr rid \<and>
           jget pending ''invocation_digest'' = VStr dg))"

lemma create_request_latest:
  assumes "map_of (approval_requests s) rid = None"
    and "\<forall>r \<in> set (tool_requests i t s). request_key r < (isoformat now, rid)"
  shows "\<exists>r. get_approval_request rid (create_approval_request now rid i ev t ''pending'' p s) = Some r \<and>
    ar_status r = ''pending'' \<and>
    latest_request i t (create_approval_request now rid i ev t ''pending'' p s) = Some r"
proof -
  define r where "r = \<lparr>ar_id = rid, ar_execution_id = i, ar_event_id = ev, ar_tool_id = t,
     ar_status = ''pending'', ar_request_payload = p, ar_response_payload = [],
     ar_requested_at = isoformat now, ar_responded_at = None, ar_responded_by = None\<rparr>"
  have new: "dset rid r d = d @ [(rid, r)]" if "map_of d rid = None" for d
    using that by (induction d) (auto split: if_splits)
  have tr: "tool_requests i t (create_approval_request now rid i ev t ''pending'' p s) = tool_requests i t s @ [r]"
    using new [OF assms(1)]
    by (simp add: tool_requests_def create_approval_request_def r_def [symmetric] dvalues_def)
      (simp add: r_def)
  have key: "request_key r = (isoformat now, rid)" by (simp add: request_key_def r_def)
  have "max_by request_key m (ms @ [r]) = r" if "\<forall>x \<in> set (m # ms). request_key x < request_key r" for m ms
    using that by (induction ms arbitrary: m) auto
  then have "latest_request i t (create_approval_request now rid i ev t ''pending'' p s) = Some r"
    unfolding latest_request_def tr using assms(2) key by (cases "tool_requests i t s") auto
  moreover have "get_approval_request rid (create_approval_request now rid i ev t ''pending'' p s) = Some r"
    by (simp add: get_approval_request_def create_approval_request_def r_def)
  ultimately show ?thesis by (auto simp: r_def)
qed

text \<open>When a first request can be recorded.\<close>

definition can_request :: "string \<Rightarrow> string \<Rightarrow> world \<Rightarrow> bool" where
  "can_request i t w \<longleftrightarrow>
     (let rid = uuid_supply w (uuid_count w); wid = uuid_supply w (uuid_count w + 1) in
      rid \<noteq> [] \<and> wid \<noteq> [] \<and> length t \<le> 246 \<and>
      map_of (approval_requests (db w)) rid = None \<and> get_execution_wait wid (db w) = None \<and>
      key_unused i (take 255 (''approval:'' @ rid)) (db w) \<and>
      list_execution_waits i (Some PENDING) (db w) = [] \<and>
      (\<forall>r \<in> set (tool_requests i t (db w)). request_key r < (isoformat (clock w), rid)))"

lemma approval_keys_simps [simp]:
  "executions (create_approval_request now rid i ev t st p s) = executions s"
  "waits (create_approval_request now rid i ev t st p s) = waits s"
  by (simp_all add: create_approval_request_def)

lemma approvals_keyed_create:
  "approvals_keyed s \<Longrightarrow> approvals_keyed (create_approval_request now rid i ev t st p s)"
  by (simp add: approvals_keyed_def create_approval_request_def map_of_dset del: map_of_eq_Some_iff)

lemma create_durable_new:
  assumes ok: "length t \<le> 246" and rid: "rid \<noteq> []" and inv: "ledger_inv (db w)"
    and fresh: "get_execution_wait (uuid_supply w (uuid_count w)) (db w) = None"
    and unused: "key_unused i (take 255 (''approval:'' @ rid)) (db w)"
    and none: "list_execution_waits i (Some PENDING) (db w) = []"
  shows "\<exists>cp wait. wait = approval_wait i t rid p cp (uuid_supply w (uuid_count w)) (clock w) \<and>
    create_durable_approval_wait i t rid p w =
      (Inr (w_id wait), (snd (uuid4 w))\<lparr>db := (db w)\<lparr>waits := dset (w_id wait) wait (waits (db w))\<rparr>\<rparr>) \<and>
    ledger_inv ((db w)\<lparr>waits := dset (w_id wait) wait (waits (db w))\<rparr>)"
proof -
  define cp where "cp = (case get_execution i (db w) of None \<Rightarrow> []
    | Some execution \<Rightarrow> (case e_output_payload execution of None \<Rightarrow> [] | Some p \<Rightarrow> p))"
  define wait where "wait = approval_wait i t rid p cp (uuid_supply w (uuid_count w)) (clock w)"
  have v: "validate_lifecycle wait = Inr wait" unfolding wait_def by (rule approval_wait_valid [OF ok])
  have op: "op_ok (Create wait)" using v by (simp add: wait_def)
  have "\<not> same_slot u wait" if "get_execution_wait j (db w) = Some u" for j u
  proof -
    have "u \<in> set (dvalues (waits (db w)))"
      using that in_dvalues_map_of by (fastforce simp: get_execution_wait_def)
    then show ?thesis
      using unused rid that pending_list_Nil_iff [OF inv, of i] none
      by (auto simp: same_slot_def wait_def key_unused_def list_all_iff)
  qed
  then obtain s where s: "create_execution_wait wait (db w) = Inr (wait, s)" "ledger_inv s"
    using mem.create_fresh [OF inv op] fresh by (auto simp: wait_def)
  have "s = (db w)\<lparr>waits := dset (w_id wait) wait (waits (db w))\<rparr>"
  proof -
    have "find (\<lambda>item. w_execution_id item = w_execution_id wait \<and>
        w_idempotency_key item = w_idempotency_key wait) (dvalues (waits (db w))) = None"
      using unused rid by (auto simp: find_None_iff key_unused_def list_all_iff wait_def)
    then show ?thesis using s(1) by (auto simp: create_execution_wait_def split: if_splits)
  qed
  then show ?thesis using s v
    by (auto simp: create_durable_approval_wait_def Let_def case_prod_unfold cp_def [symmetric]
        wait_def [symmetric] intro!: exI [of _ cp] exI [of _ wait])
      (simp_all add: wait_def)
qed

lemma await_approval_effect:
  assumes "get_execution i (db w) = Some e" and "e_id e = i" and "wid \<noteq> []"
    and "w' = await_approval i rid wid t dg p m w"
  shows "\<exists>e'. get_execution i (db w') = Some e' \<and> e_status e' = WAITING_FOR_APPROVAL \<and> waits_on e' wid \<and>
      jget (e_metadata e') ''pending_approval'' = pending_approval_entry rid wid t dg p m"
    and "waits (db w') = waits (db w)" "approval_requests (db w') = approval_requests (db w)"
    and "keyed (db w) \<Longrightarrow> keyed (db w')" "clock w' = clock w" "uuid_supply w' = uuid_supply w"
  using assms by (auto simp: await_approval_def Let_def waits_on_def)

lemma request_approval_opens:
  assumes none: "consume_resolved_decision i t (digest payload) w = (None, w)"
    and inv: "ledger_inv (db w)" and k: "keyed (db w)" and ak: "approvals_keyed (db w)"
    and e: "get_execution i (db w) = Some e" and can: "can_request i t w"
  shows "\<exists>w' wait. request_approval digest None i t payload redacted ev meta w =
      (Inl (ExecutionApprovalSuspendedError (''Execution '' @ quote i @
         '' is waiting for approval of tool '' @ quote t @ ''.'')), w') \<and>
    approval_open i t (uuid_supply w (uuid_count w)) wait (digest payload) (db w') \<and>
    map_of (pending_approvals w') (approval_key i t) = None \<and>
    ledger_inv (db w') \<and> keyed (db w') \<and> approvals_keyed (db w')"
proof -
  let ?rid = "uuid_supply w (uuid_count w)" and ?wid = "uuid_supply w (uuid_count w + 1)"
  let ?p = "case redacted of Some p \<Rightarrow> p | None \<Rightarrow> payload"
  define rp where "rp = [(''arguments'', VDict ?p), (''approval_metadata'', VDict meta),
    (''invocation_digest'', VStr (digest payload))]"
  define s where "s = create_approval_request (clock w) ?rid i ev t ''pending'' rp (db w)"
  define w1 where "w1 = w\<lparr>pending_approvals := dset (approval_key i t) None (pending_approvals w)\<rparr>"
  define w3 where "w3 = (snd (uuid4 w1))\<lparr>db := create_approval_request (clock (snd (uuid4 w1)))
      (fst (uuid4 w1)) i ev t ''pending'' rp (db (snd (uuid4 w1))),
    request_ids := dset (approval_key i t) (fst (uuid4 w1)) (request_ids (snd (uuid4 w1)))\<rparr>"
  have w3: "db w3 = s" "uuid_supply w3 = uuid_supply w" "uuid_count w3 = uuid_count w + 1"
    "clock w3 = clock w" and rid: "fst (uuid4 w1) = ?rid"
    by (simp_all add: w3_def w1_def s_def)
  from can have c: "?rid \<noteq> []" "?wid \<noteq> []" "length t \<le> 246"
    "map_of (approval_requests (db w)) ?rid = None" "get_execution_wait ?wid (db w) = None"
    "key_unused i (take 255 (''approval:'' @ ?rid)) (db w)"
    "list_execution_waits i (Some PENDING) (db w) = []"
    "\<forall>r \<in> set (tool_requests i t (db w)). request_key r < (isoformat (clock w), ?rid)"
    by (simp_all add: can_request_def Let_def)
  have s_ws: "waits s = waits (db w)" "executions s = executions (db w)" by (simp_all add: s_def)
  have "\<exists>cp wait. wait = approval_wait i t ?rid rp cp (uuid_supply w3 (uuid_count w3)) (clock w3) \<and>
    create_durable_approval_wait i t ?rid rp w3 =
      (Inr (w_id wait), (snd (uuid4 w3))\<lparr>db := (db w3)\<lparr>waits := dset (w_id wait) wait (waits (db w3))\<rparr>\<rparr>) \<and>
    ledger_inv ((db w3)\<lparr>waits := dset (w_id wait) wait (waits (db w3))\<rparr>)"
    by (rule create_durable_new [OF c(3,1)])
      (use inv c s_ws in \<open>simp_all add: w3 ledger_inv_def get_execution_wait_def key_unused_def
         list_execution_waits_def\<close>)
  then obtain cp wait where wait: "wait = approval_wait i t ?rid rp cp ?wid (clock w)"
    and call: "create_durable_approval_wait i t ?rid rp w3 =
      (Inr ?wid, (snd (uuid4 w3))\<lparr>db := s\<lparr>waits := dset ?wid wait (waits s)\<rparr>\<rparr>)"
    and inv': "ledger_inv (s\<lparr>waits := dset ?wid wait (waits s)\<rparr>)"
    by (auto simp: w3)
  define w4 where "w4 = (snd (uuid4 w3))\<lparr>db := s\<lparr>waits := dset ?wid wait (waits s)\<rparr>\<rparr>"
  define w5 where "w5 = await_approval i ?rid ?wid t (digest payload) ?p meta w4"
  have e4: "get_execution i (db w4) = Some e" using e s_ws by (simp add: w4_def get_execution_def)
  have k4: "keyed (db w4)" using k s_ws by (simp add: w4_def keyed_def)
  note eff = await_approval_effect [OF e4 keyedD [OF k e] c(2) w5_def]
  from create_request_latest [OF c(4,8), of ev rp, folded s_def] obtain r where
    r: "get_approval_request ?rid s = Some r" "ar_status r = ''pending''" "latest_request i t s = Some r" by blast
  have ar5: "approval_requests (db w5) = approval_requests s" using eff(3) by (simp add: w4_def)
  have gw: "get_execution_wait ?wid (db w5) = Some wait" using eff(2) by (simp add: w4_def get_execution_wait_def)
  from eff(1) obtain e' where e': "get_execution i (db w5) = Some e'" "e_status e' = WAITING_FOR_APPROVAL"
    "waits_on e' ?wid"
    "jget (e_metadata e') ''pending_approval'' = pending_approval_entry ?rid ?wid t (digest payload) ?p meta"
    by blast
  have open5: "approval_open i t ?rid wait (digest payload) (db w5)"
    unfolding approval_open_def suspended_on_def e'(1)
    using gw e'(2-4) r ar5 latest_request_eq [OF ar5]
    by (simp add: wait get_approval_request_def pending_approval_entry_def)
  have final: "request_approval digest None i t payload redacted ev meta w =
      (Inl (ExecutionApprovalSuspendedError (''Execution '' @ quote i @
         '' is waiting for approval of tool '' @ quote t @ ''.'')), drop_waiter (approval_key i t) w5)"
    using c(2)
    by (simp only: request_approval_def Let_def case_prod_unfold none fst_conv snd_conv option.case
        rp_def [symmetric] w1_def [symmetric] rid w3_def [unfolded rid, symmetric] call sum.case w4_def [symmetric]
        w5_def [symmetric] request_delegated_decision_def if_True not_False_eq_True)
  have "waits (db w5) = waits (s\<lparr>waits := dset ?wid wait (waits s)\<rparr>)" using eff(2) by (simp add: w4_def)
  then have "ledger_inv (db w5)" using inv' ledger_inv_eq by blast
  moreover have "approvals_keyed (db w5)"
    using approvals_keyed_create [OF ak] ar5 by (simp add: approvals_keyed_def s_def)
  ultimately show ?thesis using final open5 eff(4) [OF k4]
    by (intro exI [of _ "drop_waiter (approval_key i t) w5"] exI [of _ wait]) (simp add: drop_waiter_def)
qed

lemma resolve_open:
  assumes op: "approval_open i t rid wait dg (db w)" and inv: "ledger_inv (db w)"
    and ak: "approvals_keyed (db w)"
  shows "\<exists>w' r. resolve_approval i t d b w = (True, w') \<and>
    get_execution_wait (w_id wait) (db w') = Some (resolved_wait (clock w) RESOLVED
      (''approval:'' @ rid @ '':'' @ decision_status d) (decision_payload d) (Some b) wait) \<and>
    get_approval_request rid (db w') = Some r \<and> ar_status r = decision_status d \<and>
    ar_response_payload r = decision_payload d \<and>
    get_execution i (db w') = get_execution i (db w) \<and> approvals_keyed (db w')"
proof -
  from op obtain r where r: "get_approval_request rid (db w) = Some r" "ar_status r = ''pending''"
    "latest_request i t (db w) = Some r" "suspended_on i wait (db w)"
    "w_kind wait = APPROVAL" "jget (w_metadata wait) ''approval_request_id'' = VStr rid"
    by (auto simp: approval_open_def split: option.splits)
  have rid: "ar_id r = rid" using approvals_keyed_id [OF ak] r(1) by (simp add: get_approval_request_def)
  define s where "s = update_approval_request (clock w) rid (decision_status d) (decision_payload d) (Some b) (db w)"
  have row: "get_approval_request rid s = Some (decide_row (clock w) (decision_status d) (decision_payload d) (Some b) r)"
    unfolding s_def by (rule get_updated_row [OF r(1)])
  have ws: "waits s = waits (db w)" "executions s = executions (db w)"
    by (simp_all add: s_def update_approval_request_def split: option.split)
  have pend: "resolve_pending_approval_request (clock w) i t (decision_status d) (decision_payload d)
      (Some b) (db w) = (Some (decide_row (clock w) (decision_status d) (decision_payload d) (Some b) r), s)"
    using r(2,3) rid row decision_status_not_pending [THEN not_sym, of d] by (simp add: resolve_pending_latest s_def)
  from suspended_pending_list [OF r(4) inv] obtain xs where
    "list_execution_waits i (Some PENDING) (db w) = wait # xs" by blast
  then have l: "list_execution_waits i (Some PENDING) s = wait # xs"
    using ws(1) by (simp add: list_execution_waits_def)
  have g: "get_execution_wait (w_id wait) s = Some wait" "w_status wait = PENDING"
    using r(4) ws(1) by (simp_all add: suspended_on_def get_execution_wait_def)
  define v where "v = resolved_wait (clock w) RESOLVED (''approval:'' @ rid @ '':'' @ decision_status d)
      (decision_payload d) (Some b) wait"
  define w2 where "w2 = w\<lparr>db := s\<lparr>waits := dset (w_id wait) v (waits s)\<rparr>\<rparr>"
  have dur: "resolve_durable_approval_wait i rid (decision_status d) (decision_payload d) b (w\<lparr>db := s\<rparr>) = w2"
    using l r(5,6) resolve_pending_store [OF g]
    by (simp add: resolve_durable_approval_wait_def w2_def v_def)
  obtain w' where w': "resolve_approval i t d b w = (True, w')" "db w' = db w2"
    using pend dur rid
    by (simp add: resolve_approval_def Let_def split: option.splits)
  have "approvals_keyed s" unfolding s_def by (rule update_approvals_keyed [OF ak])
  then have "approvals_keyed (db w')" using w'(2) by (simp add: w2_def approvals_keyed_def)
  then show ?thesis using w' row ws(2)
    by (simp add: w2_def v_def get_execution_wait_def get_approval_request_def get_execution_def)
qed

lemma consume_decided:
  assumes "get_execution i (db w) = Some e"
    and "as_dict (jget (e_metadata e) ''pending_approval'') = Some pending"
    and "jget pending ''tool_id'' = VStr t" and "jget pending ''request_id'' = VStr rid"
    and "jget pending ''invocation_digest'' = VStr dg"
    and "get_approval_request rid (db w) = Some r" and "ar_status r = decision_status d"
    and "ar_response_payload r = decision_payload d"
  shows "\<exists>d'. fst (consume_resolved_decision i t dg' w) = (if dg' = dg then Some d' else None) \<and>
    d_granted d' = d_granted d \<and> d_metadata d' = d_metadata d"
  using assms
  by (auto simp: consume_resolved_decision_def str_or_empty_def persisted_decision_def Let_def
      decision_status_def decision_payload_def dict_or_empty_def)

text \<open>
  A request for approval without a delegate releases the worker and loses nothing: it raises
  the suspension error with no waiter left in the process, while the store holds the pending
  row, the pending wait and an execution that waits for approval on that wait, all naming the
  same request, tool and digest.
\<close>

theorem request_suspends_durably:
  assumes "consume_resolved_decision i t (digest payload) w = (None, w)"
    and "ledger_inv (db w)" and "keyed (db w)" and "approvals_keyed (db w)"
    and "get_execution i (db w) = Some e" and "can_request i t w"
  shows "\<exists>w' wait. request_approval digest None i t payload redacted ev meta w =
      (Inl (ExecutionApprovalSuspendedError (''Execution '' @ quote i @
         '' is waiting for approval of tool '' @ quote t @ ''.'')), w') \<and>
    approval_open i t (uuid_supply w (uuid_count w)) wait (digest payload) (db w') \<and>
    map_of (pending_approvals w') (approval_key i t) = None"
  using request_approval_opens [where digest = digest and redacted = redacted and ev = ev and meta = meta,
      OF assms] by blast

definition running_world :: world where
  "running_world = sample_world\<lparr>db := (db sample_world)\<lparr>executions :=
     [(''ex-1'', sample_execution\<lparr>e_status := RUNNING\<rparr>)]\<rparr>\<rparr>"

lemma nat_str_1 [simp]: "nat_str (Suc 0) = ''1''"
  by (simp add: nat_str.simps)

lemma running_world_ok:
  "ledger_inv (db running_world)" "keyed (db running_world)" "approvals_keyed (db running_world)"
  "get_execution ''ex-1'' (db running_world) = Some (sample_execution\<lparr>e_status := RUNNING\<rparr>)"
  "can_request ''ex-1'' ''tool'' running_world"
  "consume_resolved_decision ''ex-1'' ''tool'' dg running_world = (None, running_world)"
  by (simp_all add: running_world_def ledger_inv_def keyed_def approvals_keyed_def empty_store_def
      get_execution_def can_request_def get_execution_wait_def key_unused_def list_execution_waits_def
      tool_requests_def consume_resolved_decision_def Let_def)

lemma sample_open:
  obtains w :: world and wait rid where "approval_open ''ex-1'' ''tool'' rid wait ''dg'' (db w)"
    "ledger_inv (db w)" "approvals_keyed (db w)"
  using request_approval_opens [OF running_world_ok(6,1-5), where redacted = None and ev = None
      and meta = "[]" and digest = "\<lambda>p. ''dg''"] by blast

theorem request_suspends_durably_witness:
  "\<exists>(w'::world) wait. approval_open ''ex-1'' ''tool'' ''u0'' wait ''dg'' (db w')"
proof -
  have u: "uuid_supply running_world (uuid_count running_world) = ''u0''" by (simp add: running_world_def)
  from request_suspends_durably [OF running_world_ok(6,1-5), where redacted = None and ev = None
      and meta = "[]" and digest = "\<lambda>p. ''dg''", unfolded u]
  show ?thesis by blast
qed

text \<open>
  Round trip of a decision: on an open approval, \<open>approve\<close>, \<open>reject\<close> and a delegated decision
  are all accepted; the wait is settled as resolved whether the decision grants or not, and the
  next \<open>request_approval\<close> of the same call consumes exactly that decision, while a call with
  other arguments (another digest) does not see it.
\<close>

theorem decision_reaches_the_call:
  assumes "approval_open i t rid wait dg (db w)" and "ledger_inv (db w)" and "approvals_keyed (db w)"
  shows "\<exists>w' d'. resolve_approval i t d b w = (True, w') \<and>
    (\<exists>v. get_execution_wait (w_id wait) (db w') = Some v \<and> w_status v = RESOLVED) \<and>
    d_granted d' = d_granted d \<and>
    fst (consume_resolved_decision i t dg w') = Some d' \<and>
    (\<forall>dg'. dg' \<noteq> dg \<longrightarrow> consume_resolved_decision i t dg' w' = (None, w'))"
proof -
  from resolve_open [OF assms, of d b] obtain w' r where w': "resolve_approval i t d b w = (True, w')"
    "get_execution_wait (w_id wait) (db w') = Some (resolved_wait (clock w) RESOLVED
      (''approval:'' @ rid @ '':'' @ decision_status d) (decision_payload d) (Some b) wait)"
    "get_approval_request rid (db w') = Some r" "ar_status r = decision_status d"
    "ar_response_payload r = decision_payload d" "get_execution i (db w') = get_execution i (db w)" by blast
  from assms(1) obtain e pending where e: "get_execution i (db w) = Some e"
    "as_dict (jget (e_metadata e) ''pending_approval'') = Some pending"
    "jget pending ''tool_id'' = VStr t" "jget pending ''request_id'' = VStr rid"
    "jget pending ''invocation_digest'' = VStr dg"
    by (auto simp: approval_open_def split: option.splits)
  have c: "\<exists>d'. fst (consume_resolved_decision i t dg' w') = (if dg' = dg then Some d' else None) \<and>
      d_granted d' = d_granted d \<and> d_metadata d' = d_metadata d" for dg'
    by (rule consume_decided [OF _ e(2-5) w'(3-5)]) (use e(1) w'(6) in simp)
  have "consume_resolved_decision i t dg' w' = (None, w')" if "dg' \<noteq> dg" for dg'
    using c [of dg'] that consume_None [of i t dg' w'] by (metis prod.collapse)
  moreover obtain d' where "fst (consume_resolved_decision i t dg w') = Some d'" "d_granted d' = d_granted d"
    using c [of dg] by auto
  ultimately show ?thesis using w'(1,2) by (metis resolved_wait_simps(4))
qed

theorem decision_reaches_the_call_witness:
  "\<exists>w w' d'. resolve_approval ''ex-1'' ''tool''
      \<lparr>d_granted = False, d_reason = None, d_metadata = []\<rparr> ''manual'' w = (True, w') \<and>
    \<not> d_granted d' \<and> fst (consume_resolved_decision ''ex-1'' ''tool'' ''dg'' w') = Some d'"
proof -
  obtain w :: world and wait rid where w: "approval_open ''ex-1'' ''tool'' rid wait ''dg'' (db w)"
    "ledger_inv (db w)" "approvals_keyed (db w)" by (rule sample_open)
  from decision_reaches_the_call [OF w, of "\<lparr>d_granted = False, d_reason = None, d_metadata = []\<rparr>" "''manual''"]
  show ?thesis by auto
qed

theorem first_decision_wins_witness:
  "\<exists>w. resolve_approval ''ex-1'' ''tool'' \<lparr>d_granted = False, d_reason = None, d_metadata = []\<rparr> ''b'' w = (False, w)"
proof -
  obtain w :: world and wait rid where w: "approval_open ''ex-1'' ''tool'' rid wait ''dg'' (db w)"
    "ledger_inv (db w)" "approvals_keyed (db w)" by (rule sample_open)
  from resolve_open [OF this, of "\<lparr>d_granted = True, d_reason = None, d_metadata = []\<rparr>" "''a''"]
  obtain w' where "resolve_approval ''ex-1'' ''tool'' \<lparr>d_granted = True, d_reason = None, d_metadata = []\<rparr> ''a'' w
      = (True, w')" by blast
  from first_decision_wins [OF w(3) this, of "\<lparr>d_granted = False, d_reason = None, d_metadata = []\<rparr>" "''b''"]
  show ?thesis by auto
qed

theorem granted_only_by_matching_approval_witness:
  "\<exists>(w::world) e pending rid r. get_execution ''ex-1'' (db w) = Some e \<and>
     as_dict (jget (e_metadata e) ''pending_approval'') = Some pending \<and>
     jget pending ''request_id'' = VStr rid \<and> get_approval_request rid (db w) = Some r \<and>
     ar_status r = ''approved''"
proof -
  define d where "d = \<lparr>d_granted = True, d_reason = None, d_metadata = []\<rparr>"
  obtain w :: world and wait rid where w: "approval_open ''ex-1'' ''tool'' rid wait ''dg'' (db w)"
    "ledger_inv (db w)" "approvals_keyed (db w)" by (rule sample_open)
  from resolve_open [OF this, of d "''a''"] w(1) obtain w' :: world and r e pending where
    "get_approval_request rid (db w') = Some r" "ar_status r = decision_status d"
    "ar_response_payload r = decision_payload d" "get_execution ''ex-1'' (db w') = Some e"
    "as_dict (jget (e_metadata e) ''pending_approval'') = Some pending"
    "jget pending ''tool_id'' = VStr ''tool''" "jget pending ''request_id'' = VStr rid"
    "jget pending ''invocation_digest'' = VStr ''dg''"
    by (auto simp: approval_open_def split: option.splits)
  from consume_decided [OF this(4-8,1-3), of "''dg''"] obtain d' w'' where
    "consume_resolved_decision ''ex-1'' ''tool'' ''dg'' w' = (Some d', w'')" "d_granted d'"
    by (auto simp: d_def) (metis prod.collapse)
  then have "request_approval (\<lambda>p. ''dg'') None ''ex-1'' ''tool'' [] None None [] w' = (Inr (Decided d'), w'')"
    by (simp add: request_approval_def)
  from granted_only_by_matching_approval [OF this \<open>d_granted d'\<close>] show ?thesis by blast
qed

end
