(* ===== verification/Staleness.thy ===== *)
theory Staleness
  imports Approvals
begin

text \<open>
  \<open>app/services/execution_classification.py\<close>: when an execution counts as stale, and the waits
  that are exempt. \<open>datetime.fromisoformat\<close>, used to read the recorded activity back, is the
  parameter \<open>fromiso\<close>.
\<close>

definition STALE_EXECUTION_STATUSES :: "ExecutionStatus set" where
  "STALE_EXECUTION_STATUSES =
    {QUEUED, RUNNING, WAITING_FOR_INPUT, WAITING_FOR_APPROVAL, WAITING_FOR_EVENT, SLEEPING,
     PAUSED, CANCELLING}"

fun INTENTIONAL_WAIT_STATUSES :: "ExecutionStatus \<Rightarrow> string option" where
  "INTENTIONAL_WAIT_STATUSES WAITING_FOR_INPUT = Some ''waiting_for_input''"
| "INTENTIONAL_WAIT_STATUSES WAITING_FOR_APPROVAL = Some ''waiting_for_approval''"
| "INTENTIONAL_WAIT_STATUSES WAITING_FOR_EVENT = Some ''waiting_for_event''"
| "INTENTIONAL_WAIT_STATUSES SLEEPING = Some ''sleeping''"
| "INTENTIONAL_WAIT_STATUSES PAUSED = Some ''paused''"
| "INTENTIONAL_WAIT_STATUSES _ = None"

definition INTENTIONAL_WAIT_CHECKPOINT_STATUSES :: "string dict" where
  "INTENTIONAL_WAIT_CHECKPOINT_STATUSES =
    [(''needs_input'', ''waiting_for_input''), (''needs_approval'', ''waiting_for_approval'')]"

definition has_status :: "pyval \<Rightarrow> string \<Rightarrow> bool" where
  "has_status v status = (case as_dict v of None \<Rightarrow> False | Some d \<Rightarrow> jget d ''status'' = VStr status)"

text \<open>The loop over the runtime-callback checkpoints.\<close>

fun checkpoint_wait_state :: "pyval list \<Rightarrow> string option" where
  "checkpoint_wait_state [] = None"
| "checkpoint_wait_state (checkpoint # rest) =
    (case as_dict checkpoint of
       None \<Rightarrow> checkpoint_wait_state rest
     | Some d \<Rightarrow>
         (case as_str (jget d ''status'') of
            None \<Rightarrow> checkpoint_wait_state rest
          | Some status \<Rightarrow>
              (case map_of INTENTIONAL_WAIT_CHECKPOINT_STATUSES status of
                 Some s \<Rightarrow> Some s
               | None \<Rightarrow> checkpoint_wait_state rest)))"

definition intentional_execution_wait_state :: "Execution \<Rightarrow> string option" where
  "intentional_execution_wait_state execution =
    (case INTENTIONAL_WAIT_STATUSES (e_status execution) of
       Some s \<Rightarrow> Some s
     | None \<Rightarrow>
         let metadata = e_metadata execution in
         if has_status (jget metadata ''pending_subagent_input'') ''needs_input'' then Some ''waiting_for_input''
         else if has_status (jget metadata ''pending_subagent_approval'') ''needs_approval''
         then Some ''waiting_for_approval''
         else
           (case as_dict (jget metadata ''runtime_callbacks'') of
              None \<Rightarrow> None
            | Some callbacks \<Rightarrow>
                (case as_dict (jget callbacks ''checkpoints'') of
                   None \<Rightarrow> None
                 | Some checkpoints \<Rightarrow> checkpoint_wait_state (dvalues checkpoints))))"

definition intentional_long_running_execution :: "Execution \<Rightarrow> bool" where
  "intentional_long_running_execution execution =
    (let metadata = e_metadata execution in
     if (case as_dict (jget metadata ''execution_lifecycle'') of None \<Rightarrow> False
         | Some lifecycle \<Rightarrow> jget lifecycle ''run_mode'' = VStr ''always_on'') then True
     else if (case as_dict (py_or (jget metadata ''runtime_policy'') (jget metadata ''timeout_policy'')) of
                None \<Rightarrow> False | Some policy \<Rightarrow> jget policy ''long_running'' = VBool True) then True
     else jget metadata ''long_running'' = VBool True)"

text \<open>The entries of the returned dictionary.\<close>

record staleness =
  sc_is_stale :: bool
  sc_eligible_status :: bool
  sc_status :: string
  sc_stale_kind :: "string option"
  sc_wait_state :: "string option"
  sc_intentionally_waiting :: bool
  sc_intentionally_long_running :: bool
  sc_reference_at :: datetime
  sc_age_seconds :: int
  sc_stale_after_seconds :: int
  sc_last_heartbeat_at :: "datetime option"
  sc_last_activity_at :: datetime
  sc_last_recorded_activity_at :: "datetime option"
  sc_activity_age_seconds :: int
  sc_idle_timeout_seconds :: "int option"
  sc_runtime_seconds :: "int option"
  sc_run_timeout_seconds :: "int option"
  sc_reason :: "string option"

definition age :: "datetime \<Rightarrow> datetime \<Rightarrow> int" where
  "age now reference = max 0 ((now - reference) div 1000000)"

definition exceeds :: "int option \<Rightarrow> int option \<Rightarrow> bool" where
  "exceeds seconds_value limit =
    (case (seconds_value, limit) of (Some n, Some l) \<Rightarrow> n > l | _ \<Rightarrow> False)"

definition stale_reason :: "Execution \<Rightarrow> string \<Rightarrow> int \<Rightarrow> string" where
  "stale_reason execution middle n =
    ''Execution has status '' @ quote (execution_status_value (e_status execution)) @ middle @
    int_str n @ '' seconds.''"

definition classify_execution_staleness ::
  "(string \<Rightarrow> datetime option) \<Rightarrow> datetime \<Rightarrow> Execution \<Rightarrow> int \<Rightarrow> int option \<Rightarrow> int option \<Rightarrow> staleness" where
  "classify_execution_staleness fromiso now execution stale_after_seconds idle_timeout_seconds
     run_timeout_seconds =
    (let heartbeat_at = e_last_heartbeat_at execution;
         last_activity_at = execution_last_activity_at fromiso execution;
         activity_reference_at = (case last_activity_at of Some t \<Rightarrow> t | None \<Rightarrow> e_updated_at execution);
         heartbeat_reference_at = (case heartbeat_at of Some t \<Rightarrow> t | None \<Rightarrow> activity_reference_at);
         age_seconds = age now heartbeat_reference_at;
         activity_age_seconds = age now activity_reference_at;
         runtime_seconds = (case e_started_at execution of None \<Rightarrow> None | Some t \<Rightarrow> Some (age now t));
         eligible_status = (e_status execution \<in> STALE_EXECUTION_STATUSES);
         wait_state = intentional_execution_wait_state execution;
         intentionally_waiting = (wait_state \<noteq> None);
         intentionally_long_running = intentional_long_running_execution execution;
         approval_worker_wait = (e_status execution = WAITING_FOR_APPROVAL);
         heartbeat_stale = (eligible_status \<and> (\<not> intentionally_waiting \<or> approval_worker_wait) \<and>
                            age_seconds > stale_after_seconds);
         alive_but_idle = (eligible_status \<and> \<not> intentionally_waiting \<and> \<not> heartbeat_stale \<and>
                           exceeds (Some activity_age_seconds) idle_timeout_seconds);
         run_timeout_exceeded = (eligible_status \<and> \<not> intentionally_waiting \<and>
                                 \<not> intentionally_long_running \<and>
                                 exceeds runtime_seconds run_timeout_seconds)
     in \<lparr>sc_is_stale = (heartbeat_stale \<or> alive_but_idle \<or> run_timeout_exceeded),
         sc_eligible_status = eligible_status,
         sc_status = execution_status_value (e_status execution),
         sc_stale_kind = (if heartbeat_stale then Some ''worker_unresponsive''
                          else if alive_but_idle then Some ''alive_but_idle''
                          else if run_timeout_exceeded then Some ''run_timeout_exceeded'' else None),
         sc_wait_state = wait_state, sc_intentionally_waiting = intentionally_waiting,
         sc_intentionally_long_running = intentionally_long_running,
         sc_reference_at = heartbeat_reference_at, sc_age_seconds = age_seconds,
         sc_stale_after_seconds = stale_after_seconds, sc_last_heartbeat_at = heartbeat_at,
         sc_last_activity_at = activity_reference_at, sc_last_recorded_activity_at = last_activity_at,
         sc_activity_age_seconds = activity_age_seconds,
         sc_idle_timeout_seconds = idle_timeout_seconds, sc_runtime_seconds = runtime_seconds,
         sc_run_timeout_seconds = run_timeout_seconds,
         sc_reason = (if heartbeat_stale then Some (stale_reason execution
                          '' with no recent worker heartbeat for '' age_seconds)
                      else if alive_but_idle then Some (stale_reason execution
                          '' and a live worker, but no agent activity for '' activity_age_seconds)
                      else if run_timeout_exceeded then Some (stale_reason execution
                          '' and has exceeded the run timeout after ''
                          (case runtime_seconds of None \<Rightarrow> 0 | Some n \<Rightarrow> n))
                      else None)\<rparr>)"

definition opt_int :: "int option \<Rightarrow> pyval" where
  "opt_int n = (case n of None \<Rightarrow> VNone | Some i \<Rightarrow> VInt i)"

definition classification_json :: "staleness \<Rightarrow> json" where
  "classification_json c =
    [(''is_stale'', VBool (sc_is_stale c)), (''eligible_status'', VBool (sc_eligible_status c)),
     (''status'', VStr (sc_status c)), (''stale_kind'', opt_str (sc_stale_kind c)),
     (''wait_state'', opt_str (sc_wait_state c)),
     (''intentionally_waiting'', VBool (sc_intentionally_waiting c)),
     (''intentionally_long_running'', VBool (sc_intentionally_long_running c)),
     (''reference_at'', VStr (isoformat (sc_reference_at c))),
     (''age_seconds'', VInt (sc_age_seconds c)),
     (''stale_after_seconds'', VInt (sc_stale_after_seconds c)),
     (''last_heartbeat_at'', iso_or_none (sc_last_heartbeat_at c)),
     (''heartbeat_age_seconds'', VInt (sc_age_seconds c)),
     (''last_activity_at'', VStr (isoformat (sc_last_activity_at c))),
     (''last_recorded_activity_at'', iso_or_none (sc_last_recorded_activity_at c)),
     (''activity_age_seconds'', VInt (sc_activity_age_seconds c)),
     (''idle_timeout_seconds'', opt_int (sc_idle_timeout_seconds c)),
     (''runtime_seconds'', opt_int (sc_runtime_seconds c)),
     (''run_timeout_seconds'', opt_int (sc_run_timeout_seconds c)),
     (''reason'', opt_str (sc_reason c))]"

section \<open>Properties\<close>

lemma age_nonneg: "0 \<le> age now t"
  by (simp add: age_def)

lemma exceeds_None: "\<not> exceeds n None"
  by (simp add: exceeds_def split: option.split)

lemma parked_not_stale:
  assumes "e_status execution \<in> {WAITING_FOR_INPUT, WAITING_FOR_EVENT, SLEEPING, PAUSED, CREATED,
    COMPLETED, FAILED, ExecutionStatus.CANCELLED}"
  shows "\<not> sc_is_stale (classify_execution_staleness fromiso now execution n idle run)"
    "sc_stale_kind (classify_execution_staleness fromiso now execution n idle run) = None"
proof -
  have "e_status execution \<notin> STALE_EXECUTION_STATUSES \<or>
      intentional_execution_wait_state execution \<noteq> None \<and> e_status execution \<noteq> WAITING_FOR_APPROVAL"
    using assms by (auto simp: STALE_EXECUTION_STATUSES_def intentional_execution_wait_state_def)
  then show "\<not> sc_is_stale (classify_execution_staleness fromiso now execution n idle run)"
    "sc_stale_kind (classify_execution_staleness fromiso now execution n idle run) = None"
    by (auto simp: classify_execution_staleness_def Let_def)
qed

text \<open>
  An execution parked on a durable input, event or sleep wait, or paused, is never stale,
  however old its heartbeat and activity are and whatever timeouts are configured; nor is one
  that is not yet queued or already finished.
\<close>

theorem parked_executions_are_not_stale:
  assumes "e_status execution \<in> {WAITING_FOR_INPUT, WAITING_FOR_EVENT, SLEEPING, PAUSED, CREATED,
    COMPLETED, FAILED, ExecutionStatus.CANCELLED}"
  shows "\<not> sc_is_stale (classify_execution_staleness fromiso now execution n idle run) \<and>
    sc_stale_kind (classify_execution_staleness fromiso now execution n idle run) = None"
  using parked_not_stale [OF assms] by simp

theorem parked_executions_are_not_stale_witness:
  "\<not> sc_is_stale (classify_execution_staleness (\<lambda>_. None) (seconds 100000) sample_execution 30 None (Some 5))"
  using parked_executions_are_not_stale [of sample_execution "\<lambda>_. None" "seconds 100000" 30 None "Some 5"]
  by simp

text \<open>
  The classification is consistent: an execution is stale exactly when a kind and a reason
  are reported, and the kinds have the order unresponsive, idle, timed out; ages are never
  negative, and a recent heartbeat with no timeouts configured is never stale.
\<close>

theorem staleness_kind_consistent:
  "let c = classify_execution_staleness fromiso now execution n idle run in
   sc_is_stale c = (sc_stale_kind c \<noteq> None) \<and> sc_is_stale c = (sc_reason c \<noteq> None) \<and>
   (sc_stale_kind c = Some ''worker_unresponsive'' \<longleftrightarrow>
      sc_eligible_status c \<and> (\<not> sc_intentionally_waiting c \<or> e_status execution = WAITING_FOR_APPROVAL) \<and>
      n < sc_age_seconds c) \<and>
   (sc_is_stale c \<longrightarrow> sc_eligible_status c) \<and> 0 \<le> sc_age_seconds c \<and> 0 \<le> sc_activity_age_seconds c \<and>
   (idle = None \<and> run = None \<and> sc_age_seconds c \<le> n \<longrightarrow> \<not> sc_is_stale c)"
  unfolding classify_execution_staleness_def Let_def by (auto simp: age_nonneg exceeds_None)

theorem staleness_kind_consistent_witness:
  "sc_stale_kind (classify_execution_staleness (\<lambda>_. None) (seconds 31)
     (sample_execution\<lparr>e_status := RUNNING\<rparr>) 30 None None) = Some ''worker_unresponsive''"
  using staleness_kind_consistent [of "\<lambda>_. None" "seconds 31" "sample_execution\<lparr>e_status := RUNNING\<rparr>" 30 None None]
  by (simp add: classify_execution_staleness_def Let_def age_def seconds_def STALE_EXECUTION_STATUSES_def
      intentional_execution_wait_state_def execution_last_activity_at_def has_status_def exceeds_def)

end
