(* ===== verification/Engine.thy ===== *)
theory Engine
  imports Staleness
begin

text \<open>
  The lifecycle commands of the native engine (\<open>app/runtime/native/engine.py\<close>) and the registry
  that dispatches them to the adapter of an execution (\<open>app/runtime/registry.py\<close>). The node loop
  that runs a workflow is not part of this theory.
\<close>

section \<open>The native engine\<close>

definition DURABLE_WAIT_EXECUTION_STATUSES :: "ExecutionStatus set" where
  "DURABLE_WAIT_EXECUTION_STATUSES =
    {WAITING_FOR_INPUT, WAITING_FOR_APPROVAL, WAITING_FOR_EVENT, SLEEPING}"

definition TERMINAL_EXECUTION_STATUSES :: "ExecutionStatus set" where
  "TERMINAL_EXECUTION_STATUSES = {COMPLETED, FAILED, ExecutionStatus.CANCELLED}"

definition reject_terminal_execution_replay :: "Execution \<Rightarrow> exc option" where
  "reject_terminal_execution_replay execution =
    (if e_status execution \<in> TERMINAL_EXECUTION_STATUSES
     then Some (ValueError (''Execution '' @ quote (e_id execution) @
            '' is terminal and must be retried through a replacement execution.''))
     else None)"

definition hydrate_state_position :: "world \<Rightarrow> NativeExecutionState \<Rightarrow> NativeExecutionState" where
  "hydrate_state_position w state =
    (if st_sequence state \<noteq> 0 \<or> st_last_event_id state \<noteq> None then state
     else case list_events (st_execution_id state) (db w) of
       [] \<Rightarrow> state
     | e # es \<Rightarrow>
         let last_event = last (e # es)
         in state\<lparr>st_sequence := ev_sequence last_event, st_last_event_id := Some (ev_id last_event),
                  st_trace_id := (case or_str (ev_trace_id last_event) (Some (st_trace_id state)) of
                                    Some t \<Rightarrow> t | None \<Rightarrow> st_trace_id state)\<rparr>)"

definition require_execution_and_state :: "string \<Rightarrow> (Execution \<times> NativeExecutionState) act" where
  "require_execution_and_state execution_id w =
    (case get_execution execution_id (db w) of
       None \<Rightarrow> (Inl (execution_not_found execution_id), w)
     | Some execution \<Rightarrow>
         let (fresh, w1) = new_state execution_id (e_workflow_id execution) w;
             state = hydrate_state_position w1
                       (case map_of (states w1) execution_id of Some st \<Rightarrow> st | None \<Rightarrow> fresh)
         in (Inr (execution, state), w1\<lparr>states := dset execution_id state (states w1)\<rparr>))"

text \<open>Emit on the engine's own state of the execution, which is updated in place.\<close>

definition engine_emit :: "string \<Rightarrow> NativeExecutionState \<Rightarrow> ExecutionEventType \<Rightarrow> json \<Rightarrow> world \<Rightarrow> world" where
  "engine_emit execution_id state event_type payload w =
    (let (saved, state', w') = emit_payload state event_type payload w
     in w'\<lparr>states := dset execution_id state' (states w')\<rparr>)"

definition prepare_execution :: "Execution \<Rightarrow> world \<Rightarrow> Execution \<times> world" where
  "prepare_execution execution w =
    (let (fresh, w1) = new_state (e_id execution) (e_workflow_id execution) w;
         state = (case map_of (states w1) (e_id execution) of Some st \<Rightarrow> st | None \<Rightarrow> fresh);
         (saved, s) = save_execution (clock w1) execution (db w1);
         w2 = w1\<lparr>db := s, states := dset (e_id execution) state (states w1)\<rparr>
     in (execution, engine_emit (e_id execution) state EXECUTION_CREATED
           [(''workflow_id'', VStr (e_workflow_id execution)),
            (''trigger'', case map_of (e_metadata execution) ''trigger'' of None \<Rightarrow> VDict [] | Some t \<Rightarrow> t)] w2))"

definition pause_execution :: "string \<Rightarrow> Execution act" where
  "pause_execution execution_id w =
    andthen (require_execution_and_state execution_id w) (\<lambda>(execution, state) w1.
      let state1 = state\<lparr>st_paused := True\<rparr>;
          execution1 = (if e_status execution \<notin> DURABLE_WAIT_EXECUTION_STATUSES
                        then execution\<lparr>e_status := PAUSED\<rparr> else execution)
      in (Inr execution1, engine_emit execution_id state1 EXECUTION_PAUSED
            [(''execution_id'', VStr execution_id)] (db_update_execution execution1 w1)))"

definition resume_execution :: "string \<Rightarrow> Execution act" where
  "resume_execution execution_id w =
    andthen (require_execution_and_state execution_id w) (\<lambda>(execution, state) w1.
      case reject_terminal_execution_replay execution of
        Some e \<Rightarrow> (Inl e, w1)
      | None \<Rightarrow>
          let state1 = state\<lparr>st_paused := False\<rparr>; execution1 = execution\<lparr>e_status := QUEUED\<rparr>
          in (Inr execution1, engine_emit execution_id state1 EXECUTION_RESUMED
                [(''execution_id'', VStr execution_id)] (db_update_execution execution1 w1)))"

definition cancel_execution :: "string \<Rightarrow> Execution act" where
  "cancel_execution execution_id w =
    andthen (require_execution_and_state execution_id w) (\<lambda>(execution, state) w1.
      let cancelled = w1\<lparr>states := dset execution_id (state\<lparr>st_cancelled := True\<rparr>) (states w1)\<rparr>
      in if e_status execution = ExecutionStatus.CANCELLED then (Inr execution, cancelled)
         else if e_status execution \<in> {COMPLETED, FAILED} then (Inr execution, w1)
         else
           let execution1 = execution\<lparr>e_metadata := dset ''cancellation''
                 (VDict [(''requested_at'', VStr (isoformat (clock w1))),
                         (''mode'', VStr (if e_status execution = RUNNING then ''cooperative'' else ''immediate''))])
                 (e_metadata execution)\<rparr>
           in if e_status execution = RUNNING then
                let execution2 = execution1\<lparr>e_status := CANCELLING\<rparr>
                in (Inr execution2, db_update_execution execution2 cancelled)
              else
                let execution2 = execution1\<lparr>e_status := ExecutionStatus.CANCELLED,
                                            e_completed_at := Some (clock w1)\<rparr>
                in (Inr execution2, engine_emit execution_id (state\<lparr>st_cancelled := True\<rparr>) EXECUTION_CANCELLED
                      [(''execution_id'', VStr execution_id)] (db_update_execution execution2 cancelled)))"

section \<open>The registry\<close>

definition crewai_unsupported :: "string \<Rightarrow> exc" where
  "crewai_unsupported operation =
    CrewAIUnsupportedOperationError (''Runtime adapter '' @ quote ''crewai'' @ '' does not support '' @ operation)"

definition dispatch :: "string \<Rightarrow> (string \<Rightarrow> Execution act) \<Rightarrow> string \<Rightarrow> Execution act" where
  "dispatch operation native execution_id w =
    (case get_execution execution_id (db w) of
       None \<Rightarrow> (Inl (execution_not_found execution_id), w)
     | Some execution \<Rightarrow>
         if e_runtime_adapter_id execution = ''native'' then native execution_id w
         else if e_runtime_adapter_id execution = ''crewai'' then (Inl (crewai_unsupported operation), w)
         else (Inl (KeyError (''Runtime adapter '' @ quote (e_runtime_adapter_id execution) @
                 '' is not registered'')), w))"

definition registry_pause :: "string \<Rightarrow> Execution act" where
  "registry_pause = dispatch ''pause_execution'' pause_execution"

definition registry_resume :: "string \<Rightarrow> Execution act" where
  "registry_resume = dispatch ''resume_execution'' resume_execution"

definition registry_cancel :: "string \<Rightarrow> Execution act" where
  "registry_cancel = dispatch ''cancel_execution'' cancel_execution"

definition mark_execution_completed ::
  "Execution \<Rightarrow> json option \<Rightarrow> string option \<Rightarrow> world \<Rightarrow> Execution \<times> world" where
  "mark_execution_completed execution output_payload error w =
    (let execution' = execution\<lparr>e_completed_at := Some (clock w), e_output_payload := output_payload,
           e_error := error, e_status := (if error = None then COMPLETED else FAILED)\<rparr>
     in (execution', db_update_execution execution' w))"

definition EXECUTION_HOST_DOCKER :: string where "EXECUTION_HOST_DOCKER = ''docker''"
definition EXECUTION_HOST_LOCAL :: string where "EXECUTION_HOST_LOCAL = ''local''"

definition normalized_execution_host :: "pyval \<Rightarrow> string option" where
  "normalized_execution_host v =
    (case as_str v of
       None \<Rightarrow> None
     | Some s \<Rightarrow>
         let normalized = lower (strip s)
         in if normalized \<in> {EXECUTION_HOST_DOCKER, EXECUTION_HOST_LOCAL} then Some normalized else None)"

fun first_some :: "('a \<Rightarrow> 'b option) \<Rightarrow> 'a list \<Rightarrow> 'b option" where
  "first_some f [] = None"
| "first_some f (x # xs) = (case f x of Some y \<Rightarrow> Some y | None \<Rightarrow> first_some f xs)"

definition resolve_execution_host :: "json \<Rightarrow> json \<Rightarrow> string option" where
  "resolve_execution_host trigger workflow_metadata =
    (let runtime_metadata = dict_or_empty (jget workflow_metadata ''runtime_execution'')
     in first_some normalized_execution_host
          [jget trigger ''execution_host'', jget trigger ''executionHost'',
           jget runtime_metadata ''execution_host'', jget runtime_metadata ''executionHost'',
           jget workflow_metadata ''execution_host'', jget workflow_metadata ''executionHost''])"

section \<open>What the commands leave alone\<close>

text \<open>
  A command of one execution: it may change that execution's row, its run state, its event stream
  and the supply of identifiers, and nothing else.
\<close>

definition only_touches :: "string \<Rightarrow> world \<Rightarrow> world \<Rightarrow> bool" where
  "only_touches i w w' \<longleftrightarrow> waits (db w') = waits (db w) \<and>
     approval_requests (db w') = approval_requests (db w) \<and> artifacts (db w') = artifacts (db w) \<and>
     clock w' = clock w \<and> daemon w' = daemon w \<and> keyed (db w') \<and>
     (\<forall>j. j \<noteq> i \<longrightarrow> get_execution j (db w') = get_execution j (db w) \<and>
        list_events j (db w') = list_events j (db w))"

lemma only_touches_refl: "keyed (db w) \<Longrightarrow> only_touches i w w"
  by (simp add: only_touches_def)

lemma only_touches_trans: "only_touches i a b \<Longrightarrow> only_touches i b c \<Longrightarrow> only_touches i a c"
  by (simp add: only_touches_def)

lemma only_touches_update:
  "keyed (db w) \<Longrightarrow> e_id e = i \<Longrightarrow> only_touches i w (db_update_execution e w)"
  by (simp add: only_touches_def)

lemma save_event_others:
  assumes "keyed s" and "j \<noteq> ev_execution_id ev"
  shows "get_execution j (snd (save_event now ev s)) = get_execution j s"
proof (cases "get_execution (ev_execution_id ev) s")
  case None
  then show ?thesis by (simp add: save_event_def Let_def case_prod_unfold get_execution_def)
next
  case (Some x)
  have "e_id x = ev_execution_id ev" by (rule keyedD [OF assms(1) Some])
  moreover have "e_id x' = e_id x" if "apply_activity_to_execution x e' = Some x'" for x' e'
    using apply_activity_frame(1) [OF that] .
  ultimately show ?thesis using Some assms(2)
    by (auto simp: save_event_def Let_def case_prod_unfold get_execution_def repo_save_execution_def
        split: option.split)
qed

lemma only_touches_emit:
  assumes "keyed (db w)" and "st_execution_id st = i"
  shows "only_touches i w (snd (snd (emit_payload st ty payload w)))"
  using assms emit_executions(3) [OF assms(1)] save_event_others
  by (simp add: only_touches_def emit_payload_def emit_appends)
    (simp add: emit_def Let_def case_prod_unfold save_event_others)

lemma only_touches_states: "only_touches i w w' \<Longrightarrow> only_touches i w (w'\<lparr>states := d\<rparr>)"
  by (simp add: only_touches_def)

lemma only_touches_engine_emit:
  assumes "keyed (db w)" and "st_execution_id st = i"
  shows "only_touches i w (engine_emit i st ty payload w)"
  using only_touches_states [OF only_touches_emit [OF assms, of ty payload]]
  by (simp add: engine_emit_def Let_def case_prod_unfold)

lemma only_touches_keyed: "only_touches i w w' \<Longrightarrow> keyed (db w')"
  by (simp add: only_touches_def)

end
