(* ===== verification/Py_Numbers.thy ===== *)
theory Py_Numbers
  imports Py_Prelude
begin

text \<open>
  The numeric conversions of Python the runtime policies use: \<open>float(v)\<close> with the grammar of
  numeric literals in strings, \<open>int(f)\<close>, comparisons, \<open>max\<close> and \<open>min\<close>, \<open>**\<close> and the addition of
  a number of seconds to a datetime. A float is an exact rational within the range of doubles or
  one of the special values; rounding to 53 bits is not modelled.
\<close>

definition sbind :: "exc + 'a \<Rightarrow> ('a \<Rightarrow> exc + 'b) \<Rightarrow> exc + 'b" where
  "sbind r f = (case r of Inl e \<Rightarrow> Inl e | Inr x \<Rightarrow> f x)"

lemma sbind_simps [simp]: "sbind (Inl e) f = Inl e" "sbind (Inr x) f = f x"
  by (simp_all add: sbind_def)

lemma sbind_InrE:
  assumes "sbind r f = Inr y"
  obtains x where "r = Inr x" "f x = Inr y"
  using assms by (cases r) auto

section \<open>Floats\<close>

text \<open>The magnitude from which a value rounds to infinity.\<close>

definition float_bound :: rat where "float_bound = 2 ^ 1024 - 2 ^ 970"

definition mk_float :: "rat \<Rightarrow> pyfloat" where
  "mk_float r = (if float_bound \<le> r then PInf else if r \<le> - float_bound then NInf else Fin r)"

fun fless :: "pyfloat \<Rightarrow> pyfloat \<Rightarrow> bool" where
  "fless (Fin a) (Fin b) = (a < b)"
| "fless (Fin a) PInf = True"
| "fless NInf (Fin b) = True"
| "fless NInf PInf = True"
| "fless _ _ = False"

fun fle :: "pyfloat \<Rightarrow> pyfloat \<Rightarrow> bool" where
  "fle NaN b = False"
| "fle a NaN = False"
| "fle a b = (\<not> fless b a)"

text \<open>Python's \<open>max(a, b)\<close> and \<open>min(a, b)\<close>: the first argument unless the second is beyond it.\<close>

definition fmax :: "pyfloat \<Rightarrow> pyfloat \<Rightarrow> pyfloat" where
  "fmax a b = (if fless a b then b else a)"

definition fmin :: "pyfloat \<Rightarrow> pyfloat \<Rightarrow> pyfloat" where
  "fmin a b = (if fless b a then b else a)"

fun fsign :: "pyfloat \<Rightarrow> int" where
  "fsign (Fin r) = (if 0 < r then 1 else if r < 0 then - 1 else 0)"
| "fsign PInf = 1"
| "fsign NInf = - 1"
| "fsign NaN = 0"

fun fmult :: "pyfloat \<Rightarrow> pyfloat \<Rightarrow> pyfloat" where
  "fmult (Fin a) (Fin b) = mk_float (a * b)"
| "fmult NaN b = NaN"
| "fmult a NaN = NaN"
| "fmult a b = (if fsign a * fsign b = 0 then NaN else if 0 < fsign a * fsign b then PInf else NInf)"

text \<open>
  \<open>a ** n\<close> for a float \<open>a\<close> and a natural exponent: a finite power out of range raises.
\<close>

fun fpow :: "pyfloat \<Rightarrow> nat \<Rightarrow> exc + pyfloat" where
  "fpow (Fin a) n = (case mk_float (a ^ n) of
      Fin r \<Rightarrow> Inr (Fin r)
    | _ \<Rightarrow> Inl (OverflowError ''Numerical result out of range''))"
| "fpow a 0 = Inr (Fin 1)"
| "fpow NaN n = Inr NaN"
| "fpow PInf n = Inr PInf"
| "fpow NInf n = Inr (if even n then PInf else NInf)"

section \<open>Reading numbers from strings\<close>

definition digit_val :: "char \<Rightarrow> nat option" where
  "digit_val c = (let n = (of_char c :: nat) in if 48 \<le> n \<and> n \<le> 57 then Some (n - 48) else None)"

text \<open>The rest of a \<open>digitpart\<close>: digits, each optionally after one underscore.\<close>

fun digits_tail :: "nat \<Rightarrow> nat \<Rightarrow> string \<Rightarrow> nat \<times> nat \<times> string" where
  "digits_tail acc n [] = (acc, n, [])"
| "digits_tail acc n [c] =
    (case digit_val c of Some d \<Rightarrow> (acc * 10 + d, n + 1, []) | None \<Rightarrow> (acc, n, [c]))"
| "digits_tail acc n (c # c' # cs) =
    (case digit_val c of
       Some d \<Rightarrow> digits_tail (acc * 10 + d) (n + 1) (c' # cs)
     | None \<Rightarrow>
         if c = CHR ''_'' then
           (case digit_val c' of
              Some d \<Rightarrow> digits_tail (acc * 10 + d) (n + 1) cs
            | None \<Rightarrow> (acc, n, c # c' # cs))
         else (acc, n, c # c' # cs))"

fun digitpart :: "string \<Rightarrow> (nat \<times> nat \<times> string) option" where
  "digitpart [] = None"
| "digitpart (c # cs) = (case digit_val c of None \<Rightarrow> None | Some d \<Rightarrow> Some (digits_tail d 1 cs))"

fun read_sign :: "string \<Rightarrow> bool \<times> string" where
  "read_sign [] = (False, [])"
| "read_sign (c # cs) = (if c = CHR ''-'' then (True, cs) else if c = CHR ''+'' then (False, cs)
     else (False, c # cs))"

definition digits_or_none :: "string \<Rightarrow> nat \<times> nat \<times> string" where
  "digits_or_none s = (case digitpart s of None \<Rightarrow> (0, 0, s) | Some x \<Rightarrow> x)"

definition float_number :: "string \<Rightarrow> rat option" where
  "float_number s =
    (let (whole, nw, rest) = digits_or_none s;
         (frac, nf, rest2) = (case rest of
            c # r \<Rightarrow> if c = CHR ''.'' then digits_or_none r else (0, 0, rest)
          | [] \<Rightarrow> (0, 0, []));
         mantissa = rat_of_nat whole + rat_of_nat frac / 10 ^ nf
     in if nw = 0 \<and> nf = 0 then None
        else case rest2 of
          [] \<Rightarrow> Some mantissa
        | c # r \<Rightarrow>
            if c = CHR ''e'' \<or> c = CHR ''E'' then
              (let (negative, r') = read_sign r in
               case digitpart r' of
                 Some (x, _, []) \<Rightarrow> Some (if negative then mantissa / 10 ^ x else mantissa * 10 ^ x)
               | _ \<Rightarrow> None)
            else None)"

definition float_str :: "string \<Rightarrow> pyfloat option" where
  "float_str s =
    (let (negative, t) = read_sign (strip s) in
     if lower t = ''inf'' \<or> lower t = ''infinity'' then Some (if negative then NInf else PInf)
     else if lower t = ''nan'' then Some NaN
     else map_option (\<lambda>r. mk_float (if negative then - r else r)) (float_number t))"

section \<open>Conversions\<close>

fun py_float :: "pyval \<Rightarrow> exc + pyfloat" where
  "py_float (VFloat f) = Inr f"
| "py_float (VBool b) = Inr (Fin (if b then 1 else 0))"
| "py_float (VInt i) = (case mk_float (rat_of_int i) of
      Fin r \<Rightarrow> Inr (Fin r)
    | _ \<Rightarrow> Inl (OverflowError ''int too large to convert to float''))"
| "py_float (VStr s) = (case float_str s of
      Some f \<Rightarrow> Inr f
    | None \<Rightarrow> Inl (ValueError ''could not convert string to float''))"
| "py_float _ = Inl (TypeError ''float() argument must be a string or a real number'')"

definition trunc :: "rat \<Rightarrow> int" where
  "trunc r = (if 0 \<le> r then \<lfloor>r\<rfloor> else \<lceil>r\<rceil>)"

fun int_of_float :: "pyfloat \<Rightarrow> exc + int" where
  "int_of_float (Fin r) = Inr (trunc r)"
| "int_of_float NaN = Inl (ValueError ''cannot convert float NaN to integer'')"
| "int_of_float _ = Inl (OverflowError ''cannot convert float infinity to integer'')"

text \<open>An \<open>except (TypeError, ValueError)\<close> clause that replaces the result.\<close>

fun except_type_value :: "exc + 'a \<Rightarrow> 'a \<Rightarrow> exc + 'a" where
  "except_type_value (Inr x) d = Inr x"
| "except_type_value (Inl (TypeError m)) d = Inr d"
| "except_type_value (Inl e) d = (if is_value_error e then Inr d else Inl e)"

section \<open>Seconds on the clock\<close>

text \<open>\<open>round(r)\<close> to the nearest integer, halves to even.\<close>

definition round_even :: "rat \<Rightarrow> int" where
  "round_even r =
    (let f = \<lfloor>r\<rfloor>; d = r - of_int f
     in if d < 1 / 2 then f else if 1 / 2 < d then f + 1 else if even f then f else f + 1)"

text \<open>\<open>9999-12-31T23:59:59.999999Z\<close>, the last instant a \<open>datetime\<close> can hold.\<close>

definition datetime_max :: datetime where "datetime_max = 253402300799999999"

text \<open>\<open>t + timedelta(seconds=f)\<close> for a non-negative \<open>f\<close>.\<close>

fun add_seconds :: "datetime \<Rightarrow> pyfloat \<Rightarrow> exc + datetime" where
  "add_seconds t (Fin r) = (let t' = t + round_even (r * 1000000)
     in if t' \<le> datetime_max then Inr t' else Inl (OverflowError ''date value out of range''))"
| "add_seconds t NaN = Inl (ValueError ''cannot convert float NaN to integer'')"
| "add_seconds t _ = Inl (OverflowError ''cannot convert float infinity to integer'')"

section \<open>Lemmas\<close>

lemma fle_refl: "a \<noteq> NaN \<Longrightarrow> fle a a"
  by (cases a) auto

lemma fle_trans: "fle a b \<Longrightarrow> fle b c \<Longrightarrow> fle a c"
  by (cases a; cases b; cases c) auto

lemma fle_Fin [simp]: "fle (Fin a) (Fin b) \<longleftrightarrow> a \<le> b"
  by auto

lemma fless_imp_fle: "fless a b \<Longrightarrow> fle a b"
  by (cases a; cases b) auto

lemma fmax_ge: "a \<noteq> NaN \<Longrightarrow> b \<noteq> NaN \<Longrightarrow> fle a (fmax a b) \<and> fle b (fmax a b)"
  by (cases a; cases b) (auto simp: fmax_def)

lemma fmin_le: "a \<noteq> NaN \<Longrightarrow> b \<noteq> NaN \<Longrightarrow> fle (fmin a b) a \<and> fle (fmin a b) b"
  by (cases a; cases b) (auto simp: fmin_def)

lemma fmax_absorb: "fle a b \<Longrightarrow> fmax a b = b"
  by (cases a; cases b) (auto simp: fmax_def)

lemma fmax_NaN: "a \<noteq> NaN \<Longrightarrow> fmax a b \<noteq> NaN"
  by (cases a; cases b) (auto simp: fmax_def)

lemma mk_float_Fin [simp]: "\<bar>r\<bar> < float_bound \<Longrightarrow> mk_float r = Fin r"
  by (auto simp: mk_float_def)

lemma float_bound_large: "2 ^ 100 \<le> float_bound"
proof -
  have "(2::rat) ^ 970 * 2 \<le> 2 ^ 1024" by (simp add: power_Suc [symmetric] del: power_Suc)
  moreover have "(2::rat) ^ 100 \<le> 2 ^ 970" by (rule power_increasing) simp_all
  ultimately show ?thesis unfolding float_bound_def by linarith
qed

lemma trunc_of_int [simp]: "trunc (of_int i) = i"
  by (simp add: trunc_def)

lemma except_type_value_Inr:
  "except_type_value r d = Inr x \<Longrightarrow> r = Inr x \<or> x = d"
  by (cases r; cases "projl r") (auto split: if_splits)

end
