(* ===== verification/Containers.thy ===== *)
theory Containers
  imports Engine Py_Numbers
begin

text \<open>
  \<open>app/runtime/containers.py\<close>, the manager of worker containers, and
  \<open>app/runtime/lifecycle.py\<close>, the events about containers and runtime revisions. The Docker client
  library is the parameter \<open>docker_api\<close>: each call reads or changes the daemon's state and either
  answers or raises with a message. Environment and file system are the parameter \<open>host\<close>.
\<close>

section \<open>The Docker client\<close>

record RuntimeMount =
  m_source :: string
  m_target :: string
  m_read_only :: bool

record RuntimeContainerConfig =
  cc_runtime_base_image :: string
  cc_network_name :: string
  cc_workdir :: string
  cc_memory_limit_mb :: int
  cc_cpu_limit :: rat
  cc_auto_remove :: bool
  cc_bind_integrations_read_only :: bool

record RuntimeContainerSpec =
  sp_execution_id :: string
  sp_workflow_id :: string
  sp_runtime_revision_id :: string
  sp_image :: string
  sp_goal_id :: "string option"
  sp_command :: "string list"
  sp_env :: "string dict"
  sp_mounts :: "RuntimeMount list"
  sp_labels :: "string dict"
  sp_network_name :: "string option"
  sp_name :: "string option"

text \<open>The keyword arguments of \<open>client.containers.create\<close>; \<open>detach\<close> is always true.\<close>

record container_kwargs =
  kw_image :: string
  kw_name :: string
  kw_command :: "string list option"
  kw_environment :: "string dict"
  kw_labels :: "string dict"
  kw_network :: string
  kw_working_dir :: string
  kw_auto_remove :: bool
  kw_mem_limit :: string
  kw_nano_cpus :: int
  kw_volumes :: "(string \<times> string) dict"

record docker_api =
  api_get :: "string \<Rightarrow> docker_daemon \<Rightarrow> string + docker_container"
  api_create :: "container_kwargs \<Rightarrow> docker_daemon \<Rightarrow> (string + docker_container) \<times> docker_daemon"
  api_start :: "string \<Rightarrow> docker_daemon \<Rightarrow> string option \<times> docker_daemon"
  api_stop :: "string \<Rightarrow> docker_daemon \<Rightarrow> string option \<times> docker_daemon"
  api_remove :: "string \<Rightarrow> bool \<Rightarrow> docker_daemon \<Rightarrow> string option \<times> docker_daemon"
  api_list :: "docker_daemon \<Rightarrow> string + docker_container list"
  api_images :: "docker_daemon \<Rightarrow> string + docker_image list"
  api_remove_image :: "string \<Rightarrow> docker_daemon \<Rightarrow> string option \<times> docker_daemon"

text \<open>The manager: its configuration, its client and \<open>datetime.fromisoformat\<close>.\<close>

record DockerRuntimeManager =
  dm_config :: RuntimeContainerConfig
  dm_api :: docker_api
  dm_fromiso :: "string \<Rightarrow> datetime option"

section \<open>Names, labels and mounts\<close>

definition default_container_name :: "string \<Rightarrow> string" where
  "default_container_name execution_id =
    ''agency-execution-'' @ replace_char (CHR ''/'') (CHR ''-'') (replace_char (CHR '':'') (CHR ''-'') execution_id)"

definition managed_container_labels ::
  "string \<Rightarrow> string \<Rightarrow> string \<Rightarrow> string option \<Rightarrow> string dict \<Rightarrow> string dict" where
  "managed_container_labels execution_id workflow_id runtime_revision_id goal_id extra =
    (let labels = [(''agency.managed'', ''true''), (''agency.execution_id'', execution_id),
                   (''agency.workflow_id'', workflow_id), (''agency.runtime_revision_id'', runtime_revision_id)];
         labels' = (case goal_id of Some (c # cs) \<Rightarrow> dset ''agency.goal_id'' (c # cs) labels | _ \<Rightarrow> labels)
     in dmerge labels' extra)"

definition SENSITIVE_MOUNT_PATH_MARKERS :: "string list" where
  "SENSITIVE_MOUNT_PATH_MARKERS =
    [''.env'', ''api_key'', ''apikey'', ''credential'', ''credentials'', ''key'', ''keys'', ''secret'',
     ''secrets'', ''token'', ''tokens'']"

text \<open>\<open>marker in text\<close>.\<close>

fun contains :: "string \<Rightarrow> string \<Rightarrow> bool" where
  "contains [] p = (p = [])"
| "contains (c # cs) p = (startswith (c # cs) p \<or> contains cs p)"

fun split_on :: "char \<Rightarrow> string \<Rightarrow> string list" where
  "split_on sep [] = [[]]"
| "split_on sep (c # cs) =
    (if c = sep then [] # split_on sep cs
     else case split_on sep cs of [] \<Rightarrow> [[c]] | p # ps \<Rightarrow> (c # p) # ps)"

text \<open>
  \<open>Path(value).parts\<close> on POSIX: the root, if any, then the components without empty ones and \<open>.\<close>.
\<close>

definition path_parts :: "string \<Rightarrow> string list" where
  "path_parts v =
    (if startswith v ''//'' \<and> \<not> startswith v ''///'' then [''//''] else if startswith v ''/'' then [''/''] else []) @
    filter (\<lambda>p. p \<noteq> [] \<and> p \<noteq> ''.'') (split_on (CHR ''/'') v)"

definition sensitive_mount_path_reason :: "string \<Rightarrow> string \<Rightarrow> string option" where
  "sensitive_mount_path_reason source target =
    (let normalized = lower (source @ '' '' @ target);
         parts = map lower (path_parts source @ path_parts target)
     in find (\<lambda>marker. if marker = ''.env''
                       then (\<exists>part \<in> set parts. part = ''.env'' \<or> startswith part ''.env.'')
                       else contains normalized marker)
          SENSITIVE_MOUNT_PATH_MARKERS)"

record host =
  h_getenv :: "string \<Rightarrow> string option"
  h_expanduser :: "string \<Rightarrow> string"
  h_resolve :: "string \<Rightarrow> string"
  h_exists :: "string \<Rightarrow> bool"
  h_writable :: "string \<Rightarrow> bool"
  h_repo_integrations :: string

record mount_settings =
  ms_onecli_enabled :: bool
  ms_onecli_force_for_isolated_workers :: bool
  ms_onecli_gateway_ca_bundle_path :: "string option"
  ms_onecli_gateway_ca_bundle_container_path :: string
  ms_extra_mounts :: "RuntimeMount list"

definition onecli_isolated_mount_lockdown_enabled :: "mount_settings \<Rightarrow> bool" where
  "onecli_isolated_mount_lockdown_enabled settings =
    (ms_onecli_enabled settings \<and> ms_onecli_force_for_isolated_workers settings)"

definition workspace_write_probe_path :: "host \<Rightarrow> string \<Rightarrow> string \<Rightarrow> string option" where
  "workspace_write_probe_path h source target =
    (let source_path = h_expanduser h source
     in if h_exists h source_path then Some source_path
        else if h_exists h target then Some target else None)"

definition require_read_write_mount_writable :: "host \<Rightarrow> string \<Rightarrow> string \<Rightarrow> string \<Rightarrow> exc option" where
  "require_read_write_mount_writable h source target env_name =
    (case workspace_write_probe_path h source target of
       None \<Rightarrow> None
     | Some p \<Rightarrow> if h_writable h p then None
         else Some (ContainerRuntimeError (''Workflow mount '' @ quote source @ '' -> '' @ quote target @
           '' is configured read-write, but Agency cannot write to '' @ quote p @
           ''. Ask the user to approve filesystem write access or fix the host directory permissions, then retry. Check ''
           @ env_name @ '' and the Docker mount for this path.'')))"

definition nonempty_env :: "host \<Rightarrow> string \<Rightarrow> string option" where
  "nonempty_env h name = (case h_getenv h name of Some (c # cs) \<Rightarrow> Some (c # cs) | _ \<Rightarrow> None)"

definition rstrip_slash :: "string \<Rightarrow> string" where
  "rstrip_slash s = rev (dropWhile (\<lambda>c. c = CHR ''/'') (rev s))"

definition default_integrations_source :: "host \<Rightarrow> string" where
  "default_integrations_source h =
    (case nonempty_env h ''AGENCY_BACKEND_HOST_WORKSPACE'' of
       Some ws \<Rightarrow> rstrip_slash (h_expanduser h ws) @ ''/integrations''
     | None \<Rightarrow> (case nonempty_env h ''AGENCY_BACKEND_WORKSPACE'' of
         Some ws \<Rightarrow> rstrip_slash (h_expanduser h ws) @ ''/integrations''
       | None \<Rightarrow> h_repo_integrations h))"

fun workspace_mounts_from :: "host \<Rightarrow> (string \<times> string) list \<Rightarrow> exc + RuntimeMount list" where
  "workspace_mounts_from h [] = Inr []"
| "workspace_mounts_from h ((host_env, target_env) # pairs) =
    (case (nonempty_env h host_env, nonempty_env h target_env) of
       (Some source, Some target) \<Rightarrow>
         (let source_path = h_resolve h (h_expanduser h source) in
          case require_read_write_mount_writable h source_path target host_env of
            Some e \<Rightarrow> Inl e
          | None \<Rightarrow> sbind (workspace_mounts_from h pairs) (\<lambda>ms.
              Inr (\<lparr>m_source = source_path, m_target = target, m_read_only = False\<rparr> # ms)))
     | _ \<Rightarrow> workspace_mounts_from h pairs)"

definition workspace_mounts :: "host \<Rightarrow> exc + RuntimeMount list" where
  "workspace_mounts h = workspace_mounts_from h
     [(''AGENCY_BACKEND_HOST_WORKSPACE'', ''AGENCY_BACKEND_WORKSPACE''),
      (''AGENCY_FRONTEND_HOST_WORKSPACE'', ''AGENCY_FRONTEND_WORKSPACE'')]"

definition codex_home_mount :: "host \<Rightarrow> RuntimeMount list" where
  "codex_home_mount h =
    (case nonempty_env h ''CODEX_HOME_VOLUME'' of
       None \<Rightarrow> []
     | Some source \<Rightarrow>
         [\<lparr>m_source = source,
           m_target = (case or_str (h_getenv h ''EXECUTION_CODEX_HOME'')
             (or_str (h_getenv h ''CODEX_HOME'') (Some ''/codex'')) of Some t \<Rightarrow> t | None \<Rightarrow> ''/codex''),
           m_read_only = False\<rparr>])"

fun extra_mounts :: "bool \<Rightarrow> RuntimeMount list \<Rightarrow> exc + RuntimeMount list" where
  "extra_mounts lockdown [] = Inr []"
| "extra_mounts lockdown (mount # rest) =
    (case (if lockdown then sensitive_mount_path_reason (m_source mount) (m_target mount) else None) of
       Some reason \<Rightarrow> Inl (ContainerRuntimeError
         (''Sensitive execution container extra mount is not allowed when ONECLI_FORCE_FOR_ISOLATED_WORKERS is true: ''
          @ m_source mount @ '' -> '' @ m_target mount @ '' matched '' @ quote reason))
     | None \<Rightarrow> sbind (extra_mounts lockdown rest) (\<lambda>ms. Inr (mount # ms)))"

definition integrations_mount :: "RuntimeContainerConfig \<Rightarrow> host \<Rightarrow> RuntimeMount list" where
  "integrations_mount config h =
    (if nonempty_env h ''AGENCY_BACKEND_HOST_WORKSPACE'' \<noteq> None \<or> h_exists h (default_integrations_source h)
     then [\<lparr>m_source = default_integrations_source h,
             m_target = rstrip_slash (cc_workdir config) @ ''/integrations'',
             m_read_only = cc_bind_integrations_read_only config\<rparr>]
     else [])"

definition ca_bundle_mount :: "mount_settings \<Rightarrow> host \<Rightarrow> RuntimeMount list" where
  "ca_bundle_mount settings h =
    (case ms_onecli_gateway_ca_bundle_path settings of
       Some (c # cs) \<Rightarrow>
         if onecli_isolated_mount_lockdown_enabled settings
         then [\<lparr>m_source = h_resolve h (h_expanduser h (c # cs)),
                 m_target = ms_onecli_gateway_ca_bundle_container_path settings, m_read_only = True\<rparr>]
         else []
     | _ \<Rightarrow> [])"

definition default_mounts :: "RuntimeContainerConfig \<Rightarrow> mount_settings \<Rightarrow> host \<Rightarrow> exc + RuntimeMount list" where
  "default_mounts config settings h =
    (let lockdown = onecli_isolated_mount_lockdown_enabled settings in
     sbind (if lockdown then Inr [] else workspace_mounts h) (\<lambda>workspace.
     sbind (extra_mounts lockdown (ms_extra_mounts settings)) (\<lambda>extra.
     Inr (workspace @ (if lockdown then [] else codex_home_mount h) @ integrations_mount config h @
          extra @ ca_bundle_mount settings h))))"

fun mount_volumes :: "host \<Rightarrow> RuntimeMount list \<Rightarrow> (string \<times> string) dict \<Rightarrow> exc + (string \<times> string) dict" where
  "mount_volumes h [] volumes = Inr volumes"
| "mount_volumes h (mount # rest) volumes =
    (case (if m_read_only mount then None
           else require_read_write_mount_writable h (m_source mount) (m_target mount)
                  ''EXECUTION_CONTAINER_EXTRA_MOUNTS or workspace env'') of
       Some e \<Rightarrow> Inl e
     | None \<Rightarrow> mount_volumes h rest
         (dset (m_source mount) (m_target mount, if m_read_only mount then ''ro'' else ''rw'') volumes))"

definition build_container_kwargs ::
  "RuntimeContainerConfig \<Rightarrow> mount_settings \<Rightarrow> host \<Rightarrow> RuntimeContainerSpec \<Rightarrow> exc + container_kwargs" where
  "build_container_kwargs config settings h spec =
    sbind (if sp_mounts spec \<noteq> [] then Inr (sp_mounts spec) else default_mounts config settings h) (\<lambda>mounts.
    sbind (mount_volumes h mounts []) (\<lambda>volumes.
    Inr \<lparr>kw_image = sp_image spec,
         kw_name = (case or_str (sp_name spec) None of Some n \<Rightarrow> n
                    | None \<Rightarrow> default_container_name (sp_execution_id spec)),
         kw_command = (if sp_command spec = [] then None else Some (sp_command spec)),
         kw_environment = sp_env spec,
         kw_labels = managed_container_labels (sp_execution_id spec) (sp_workflow_id spec)
           (sp_runtime_revision_id spec) (sp_goal_id spec) (sp_labels spec),
         kw_network = (case or_str (sp_network_name spec) None of Some n \<Rightarrow> n | None \<Rightarrow> cc_network_name config),
         kw_working_dir = cc_workdir config, kw_auto_remove = cc_auto_remove config,
         kw_mem_limit = int_str (cc_memory_limit_mb config) @ ''m'',
         kw_nano_cpus = trunc (cc_cpu_limit config * 1000000000), kw_volumes = volumes\<rparr>))"

section \<open>Operations on containers\<close>

definition docker_datetime :: "(string \<Rightarrow> datetime option) \<Rightarrow> pyval \<Rightarrow> datetime option" where
  "docker_datetime fromiso v =
    (case as_str v of Some (c # cs) \<Rightarrow> fromiso (replace_Z (c # cs)) | _ \<Rightarrow> None)"

definition get_container :: "DockerRuntimeManager \<Rightarrow> string \<Rightarrow> world \<Rightarrow> exc + docker_container" where
  "get_container dm container_id w =
    (case api_get (dm_api dm) container_id (daemon w) of
       Inl m \<Rightarrow> Inl (ContainerRuntimeError (''Container '' @ quote container_id @ '' was not found: '' @ m))
     | Inr c \<Rightarrow> Inr c)"

definition str_entries :: "json \<Rightarrow> string dict" where
  "str_entries d = map (\<lambda>(k, v). (k, case as_str v of Some s \<Rightarrow> s | None \<Rightarrow> [])) d"

definition container_state :: "(string \<Rightarrow> datetime option) \<Rightarrow> string \<Rightarrow> docker_container \<Rightarrow> RuntimeContainerState" where
  "container_state fromiso container_id container =
    (let attrs = dk_attrs container;
         state = dict_or_empty (jget attrs ''State'');
         config = dict_or_empty (jget attrs ''Config'')
     in \<lparr>c_container_id = dk_id container, c_name = dk_name container,
         c_image = (case as_str (jget config ''Image'') of
            Some (c # cs) \<Rightarrow> c # cs
          | _ \<Rightarrow> (case dk_image_tags container of t # ts \<Rightarrow> t | [] \<Rightarrow> container_id)),
         c_status = (case as_str (jget state ''Status'') of Some (c # cs) \<Rightarrow> c # cs | _ \<Rightarrow> dk_status container),
         c_labels = str_entries (dict_or_empty (jget config ''Labels'')),
         c_started_at = docker_datetime fromiso (jget state ''StartedAt''),
         c_finished_at = docker_datetime fromiso (jget state ''FinishedAt''),
         c_exit_code = (case jget state ''ExitCode'' of VInt n \<Rightarrow> Some n | _ \<Rightarrow> None)\<rparr>)"

definition inspect_container :: "DockerRuntimeManager \<Rightarrow> string \<Rightarrow> world \<Rightarrow> exc + RuntimeContainerState" where
  "inspect_container dm container_id w =
    sbind (get_container dm container_id w) (\<lambda>c. Inr (container_state (dm_fromiso dm) container_id c))"

text \<open>A call that changes the daemon's state, with the error the manager wraps a failure in.\<close>

definition docker_call :: "(docker_daemon \<Rightarrow> string option \<times> docker_daemon) \<Rightarrow> string \<Rightarrow> world \<Rightarrow> exc option \<times> world" where
  "docker_call call what w =
    (let (failure, d) = call (daemon w)
     in (map_option (\<lambda>m. ContainerRuntimeError (what @ '': '' @ m)) failure, w\<lparr>daemon := d\<rparr>))"

definition start_container :: "DockerRuntimeManager \<Rightarrow> string \<Rightarrow> RuntimeContainerState act" where
  "start_container dm container_id w =
    (case get_container dm container_id w of
       Inl e \<Rightarrow> (Inl e, w)
     | Inr c \<Rightarrow>
         (case docker_call (api_start (dm_api dm) (dk_id c)) (''Failed to start container '' @ quote container_id) w of
            (Some e, w') \<Rightarrow> (Inl e, w')
          | (None, w') \<Rightarrow> (inspect_container dm container_id w', w')))"

definition stop_container :: "DockerRuntimeManager \<Rightarrow> string \<Rightarrow> RuntimeContainerState act" where
  "stop_container dm container_id w =
    (case get_container dm container_id w of
       Inl e \<Rightarrow> (Inl e, w)
     | Inr c \<Rightarrow>
         (case docker_call (api_stop (dm_api dm) (dk_id c)) (''Failed to stop container '' @ quote container_id) w of
            (Some e, w') \<Rightarrow> (Inl e, w')
          | (None, w') \<Rightarrow> (inspect_container dm container_id w', w')))"

definition remove_container :: "DockerRuntimeManager \<Rightarrow> string \<Rightarrow> bool \<Rightarrow> unit act" where
  "remove_container dm container_id force w =
    (case get_container dm container_id w of
       Inl e \<Rightarrow> (Inl e, w)
     | Inr c \<Rightarrow>
         (case docker_call (api_remove (dm_api dm) (dk_id c) force)
                 (''Failed to remove container '' @ quote container_id) w of
            (Some e, w') \<Rightarrow> (Inl e, w')
          | (None, w') \<Rightarrow> (Inr (), w')))"

definition create_execution_container ::
  "DockerRuntimeManager \<Rightarrow> mount_settings \<Rightarrow> host \<Rightarrow> RuntimeContainerSpec \<Rightarrow> RuntimeContainerState act" where
  "create_execution_container dm settings h spec w =
    (case build_container_kwargs (dm_config dm) settings h spec of
       Inl e \<Rightarrow> (Inl e, w)
     | Inr kwargs \<Rightarrow>
         (case api_create (dm_api dm) kwargs (daemon w) of
            (Inl m, d) \<Rightarrow> (Inl (ContainerRuntimeError (''Failed to create execution container for '' @
               quote (sp_execution_id spec) @ '': '' @ m)), w\<lparr>daemon := d\<rparr>)
          | (Inr c, d) \<Rightarrow>
              (Inr \<lparr>c_container_id = dk_id c, c_name = dk_name c,
                    c_image = (case dk_image_tags c of t # ts \<Rightarrow> t | [] \<Rightarrow> sp_image spec),
                    c_status = dk_status c, c_labels = kw_labels kwargs, c_started_at = None,
                    c_finished_at = None, c_exit_code = None\<rparr>, w\<lparr>daemon := d\<rparr>)))"

fun inspect_all :: "DockerRuntimeManager \<Rightarrow> string list \<Rightarrow> world \<Rightarrow> exc + RuntimeContainerState list" where
  "inspect_all dm [] w = Inr []"
| "inspect_all dm (i # is) w =
    sbind (inspect_container dm i w) (\<lambda>c. sbind (inspect_all dm is w) (\<lambda>cs. Inr (c # cs)))"

definition list_managed_containers :: "DockerRuntimeManager \<Rightarrow> world \<Rightarrow> exc + RuntimeContainerState list" where
  "list_managed_containers dm w =
    (case api_list (dm_api dm) (daemon w) of
       Inl m \<Rightarrow> Inl (ContainerRuntimeError (''Failed to list managed containers: '' @ m))
     | Inr cs \<Rightarrow> inspect_all dm (map dk_id cs) w)"

record RuntimeImageState =
  im_image_id :: string
  im_tags :: "string list"
  im_labels :: "string dict"
  im_created_at :: "datetime option"

definition list_managed_images :: "DockerRuntimeManager \<Rightarrow> world \<Rightarrow> exc + RuntimeImageState list" where
  "list_managed_images dm w =
    (case api_images (dm_api dm) (daemon w) of
       Inl m \<Rightarrow> Inl (ContainerRuntimeError (''Failed to list managed images: '' @ m))
     | Inr images \<Rightarrow> Inr (map (\<lambda>image.
         \<lparr>im_image_id = di_id image, im_tags = di_tags image,
          im_labels = str_entries (dict_or_empty (jget (dict_or_empty (jget (di_attrs image) ''Config'')) ''Labels'')),
          im_created_at = docker_datetime (dm_fromiso dm) (jget (di_attrs image) ''Created'')\<rparr>) images))"

definition remove_image :: "DockerRuntimeManager \<Rightarrow> string \<Rightarrow> unit act" where
  "remove_image dm image_ref w =
    (case docker_call (api_remove_image (dm_api dm) image_ref) (''Failed to remove image '' @ quote image_ref) w of
       (Some e, w') \<Rightarrow> (Inl e, w')
     | (None, w') \<Rightarrow> (Inr (), w'))"

section \<open>Lifecycle events\<close>

definition opt_entry :: "string \<Rightarrow> string option \<Rightarrow> json \<Rightarrow> json" where
  "opt_entry k v d = (case v of None \<Rightarrow> d | Some s \<Rightarrow> dset k (VStr s) d)"

definition runtime_revision_payload :: "RuntimeRevision \<Rightarrow> string option \<Rightarrow> json \<Rightarrow> json" where
  "runtime_revision_payload revision why extra =
    (let payload = [(''runtime_revision_id'', VStr (rv_id revision)), (''fingerprint'', VStr (rv_fingerprint revision)),
           (''source_path'', VStr (rv_source_path revision)),
           (''build_status'', VStr (revision_status_value (rv_build_status revision))),
           (''image_name'', opt_str (rv_image_name revision)), (''image_tag'', opt_str (rv_image_tag revision)),
           (''base_image'', opt_str (rv_base_image revision))];
         payload1 = opt_entry ''reason'' why payload;
         payload2 = (if truthy_str (rv_invalidation_reason revision) \<and> map_of payload1 ''reason'' = None
                     then opt_entry ''reason'' (rv_invalidation_reason revision) payload1 else payload1)
     in dmerge payload2 extra)"

definition container_payload ::
  "RuntimeContainerState \<Rightarrow> string option \<Rightarrow> string option \<Rightarrow> json \<Rightarrow> json" where
  "container_payload container runtime_revision_id why extra =
    (let payload = [(''container_id'', VStr (c_container_id container)), (''container_name'', VStr (c_name container)),
           (''image'', VStr (c_image container)), (''status'', VStr (c_status container)),
           (''labels'', VDict (map (\<lambda>(k, v). (k, VStr v)) (c_labels container))),
           (''exit_code'', opt_int (c_exit_code container))]
     in dmerge (opt_entry ''reason'' why (opt_entry ''runtime_revision_id'' runtime_revision_id payload)) extra)"

definition emit_runtime_revision_resolved where
  "emit_runtime_revision_resolved state revision w =
    emit_payload state RUNTIME_REVISION_RESOLVED (runtime_revision_payload revision None []) w"

definition emit_runtime_revision_invalidated where
  "emit_runtime_revision_invalidated state revision why w =
    emit_payload state RUNTIME_REVISION_INVALIDATED (runtime_revision_payload revision why []) w"

definition emit_container_created where
  "emit_container_created state container revision_id w =
    emit_payload state CONTAINER_CREATED (container_payload container (Some revision_id) None []) w"

definition emit_container_started where
  "emit_container_started state container revision_id w =
    emit_payload state CONTAINER_STARTED (container_payload container (Some revision_id) None []) w"

definition emit_container_replaced where
  "emit_container_replaced state container revision_id why extra w =
    emit_payload state CONTAINER_REPLACED (container_payload container revision_id why extra) w"

definition emit_container_stopped where
  "emit_container_stopped state container revision_id why w =
    emit_payload state CONTAINER_STOPPED (container_payload container revision_id why []) w"

definition emit_container_failed where
  "emit_container_failed state container revision_id why extra w =
    emit_payload state CONTAINER_FAILED (container_payload container revision_id why extra) w"

lemmas lifecycle_emits = emit_runtime_revision_resolved_def emit_runtime_revision_invalidated_def
  emit_container_created_def emit_container_started_def emit_container_replaced_def
  emit_container_stopped_def emit_container_failed_def

section \<open>What reaches a container under lockdown\<close>

lemma extra_mounts_ok:
  "extra_mounts True xs = Inr ms \<Longrightarrow> ms = xs \<and> (\<forall>m \<in> set xs. sensitive_mount_path_reason (m_source m) (m_target m) = None)"
proof (induction xs arbitrary: ms)
  case (Cons x xs)
  then show ?case by (auto elim!: sbind_InrE split: option.splits)
qed simp

lemma extra_mounts_refused:
  "\<exists>m \<in> set xs. sensitive_mount_path_reason (m_source m) (m_target m) \<noteq> None \<Longrightarrow> \<exists>e. extra_mounts True xs = Inl e"
proof (induction xs)
  case (Cons x xs)
  then show ?case by (cases "sensitive_mount_path_reason (m_source x) (m_target x)") auto
qed simp

lemma not_sensitive:
  assumes "sensitive_mount_path_reason source target = None"
    and "marker \<in> set SENSITIVE_MOUNT_PATH_MARKERS" and "marker \<noteq> ''.env''"
  shows "\<not> contains (lower (source @ '' '' @ target)) marker"
  using assms by (auto simp: sensitive_mount_path_reason_def Let_def find_None_iff)

text \<open>
  With the OneCLI lockdown of isolated workers in force, no repository workspace and no Codex
  home is mounted into a worker: the mounts are the integrations directory, the configured extra
  mounts and the gateway's CA bundle, which is read-only, and no extra mount's path contains a
  word such as \<open>secret\<close>, \<open>token\<close> or \<open>key\<close>; one that does makes the creation of the container fail.
\<close>

theorem mount_lockdown:
  assumes "onecli_isolated_mount_lockdown_enabled settings"
  shows "(\<forall>ms. default_mounts config settings h = Inr ms \<longrightarrow>
      ms = integrations_mount config h @ ms_extra_mounts settings @ ca_bundle_mount settings h \<and>
      (\<forall>m \<in> set (ca_bundle_mount settings h). m_read_only m) \<and>
      (\<forall>m \<in> set (ms_extra_mounts settings). \<forall>marker \<in> set SENSITIVE_MOUNT_PATH_MARKERS - {''.env''}.
         \<not> contains (lower (m_source m @ '' '' @ m_target m)) marker)) \<and>
    ((\<exists>m \<in> set (ms_extra_mounts settings). sensitive_mount_path_reason (m_source m) (m_target m) \<noteq> None) \<longrightarrow>
      (\<exists>e. default_mounts config settings h = Inl e))"
proof (intro conjI impI allI)
  have d: "default_mounts config settings h = sbind (extra_mounts True (ms_extra_mounts settings)) (\<lambda>extra.
      Inr (integrations_mount config h @ extra @ ca_bundle_mount settings h))"
    using assms by (simp add: default_mounts_def)
  show "\<exists>e. default_mounts config settings h = Inl e"
    if "\<exists>m \<in> set (ms_extra_mounts settings). sensitive_mount_path_reason (m_source m) (m_target m) \<noteq> None"
    using extra_mounts_refused [OF that] by (auto simp: d)
  fix ms assume "default_mounts config settings h = Inr ms"
  then obtain extra where e: "extra_mounts True (ms_extra_mounts settings) = Inr extra"
    and ms: "ms = integrations_mount config h @ extra @ ca_bundle_mount settings h"
    unfolding d by (auto elim!: sbind_InrE)
  show "ms = integrations_mount config h @ ms_extra_mounts settings @ ca_bundle_mount settings h"
    using extra_mounts_ok [OF e] ms by simp
  show "\<forall>m \<in> set (ca_bundle_mount settings h). m_read_only m"
    by (auto simp: ca_bundle_mount_def split: option.split list.split)
  show "\<forall>m \<in> set (ms_extra_mounts settings). \<forall>marker \<in> set SENSITIVE_MOUNT_PATH_MARKERS - {''.env''}.
      \<not> contains (lower (m_source m @ '' '' @ m_target m)) marker"
    using extra_mounts_ok [OF e] not_sensitive by blast
qed

definition sample_mount_settings :: mount_settings where
  "sample_mount_settings = \<lparr>ms_onecli_enabled = True, ms_onecli_force_for_isolated_workers = True,
     ms_onecli_gateway_ca_bundle_path = Some ''/ca.pem'', ms_onecli_gateway_ca_bundle_container_path = ''/etc/ca.pem'',
     ms_extra_mounts = [\<lparr>m_source = ''/srv/Secrets'', m_target = ''/x'', m_read_only = True\<rparr>]\<rparr>"

definition sample_host :: host where
  "sample_host = \<lparr>h_getenv = (\<lambda>_. None), h_expanduser = id, h_resolve = id, h_exists = (\<lambda>_. False),
     h_writable = (\<lambda>_. True), h_repo_integrations = ''/app/integrations''\<rparr>"

definition sample_config :: RuntimeContainerConfig where
  "sample_config = \<lparr>cc_runtime_base_image = ''agency/runtime:base'', cc_network_name = ''agency'',
     cc_workdir = ''/app'', cc_memory_limit_mb = 1024, cc_cpu_limit = 1, cc_auto_remove = False,
     cc_bind_integrations_read_only = True\<rparr>"

lemma sample_sensitive: "sensitive_mount_path_reason ''/srv/Secrets'' ''/x'' = Some ''secret''"
  by code_simp

theorem mount_lockdown_witness:
  "\<exists>e. default_mounts sample_config sample_mount_settings sample_host = Inl e"
proof -
  have "onecli_isolated_mount_lockdown_enabled sample_mount_settings"
    by (simp add: onecli_isolated_mount_lockdown_enabled_def sample_mount_settings_def)
  from mount_lockdown [OF this, of sample_config sample_host] show ?thesis
    by (simp add: sample_mount_settings_def sample_sensitive)
qed

end
