(* ===== verification/Revisions.thy ===== *)
theory Revisions
  imports Containers
begin

text \<open>
  \<open>app/runtime/revisions.py\<close>: the service that names the state of the integrations directory by a
  fingerprint and keeps one row per fingerprint, over the in-memory repository of
  \<open>app/db/repositories/catalog.py\<close>. No caller soft-deletes a revision, so the repository's deletion
  mark is left out. The hash over the files, the base image and the given metadata is the
  parameter \<open>sv_fingerprint\<close>.
\<close>

record revision_service =
  sv_fingerprint :: "json \<Rightarrow> exc + string"
  sv_source_path :: string
  sv_base_image :: "string option"

section \<open>The repository\<close>

definition get_by_fingerprint :: "string \<Rightarrow> world \<Rightarrow> RuntimeRevision option" where
  "get_by_fingerprint fingerprint w = find (\<lambda>r. rv_fingerprint r = fingerprint) (dvalues (revisions w))"

definition create_revision :: "RuntimeRevision \<Rightarrow> world \<Rightarrow> world" where
  "create_revision r w = w\<lparr>revisions := dset (rv_id r) r (revisions w)\<rparr>"

definition update_revision ::
  "string \<Rightarrow> (RuntimeRevision \<Rightarrow> RuntimeRevision) \<Rightarrow> world \<Rightarrow> RuntimeRevision option \<times> world" where
  "update_revision revision_id patch w =
    (case map_of (revisions w) revision_id of
       None \<Rightarrow> (None, w)
     | Some existing \<Rightarrow>
         let model = (patch existing)\<lparr>rv_id := revision_id\<rparr>
         in (Some model, w\<lparr>revisions := dset revision_id model (revisions w)\<rparr>))"

definition list_revisions :: "bool \<Rightarrow> world \<Rightarrow> RuntimeRevision list" where
  "list_revisions include_deleted w =
    sort_key (\<lambda>r. - rv_created_at r)
      (filter (\<lambda>r. include_deleted \<or> rv_build_status r \<noteq> REV_INVALIDATED) (dvalues (revisions w)))"

definition invalidate_revision :: "string \<Rightarrow> string option \<Rightarrow> world \<Rightarrow> RuntimeRevision option \<times> world" where
  "invalidate_revision revision_id why w =
    update_revision revision_id (\<lambda>r. r\<lparr>rv_build_status := REV_INVALIDATED, rv_invalidated_at := Some (clock w),
      rv_invalidation_reason := why\<rparr>) w"

section \<open>The service\<close>

definition resolve_current_revision :: "revision_service \<Rightarrow> json \<Rightarrow> bool \<Rightarrow> RuntimeRevision act" where
  "resolve_current_revision sv metadata mark_ready w =
    (case sv_fingerprint sv metadata of
       Inl e \<Rightarrow> (Inl e, w)
     | Inr fingerprint \<Rightarrow>
         (case get_by_fingerprint fingerprint w of
            Some existing \<Rightarrow>
              if rv_build_status existing = REV_INVALIDATED then
                (case update_revision (rv_id existing) (\<lambda>r. r\<lparr>
                        rv_build_status := (if mark_ready then REV_READY else REV_PENDING),
                        rv_ready_at := (if mark_ready then Some (clock w) else None),
                        rv_invalidated_at := None, rv_invalidation_reason := None,
                        rv_metadata := dmerge (rv_metadata existing) metadata\<rparr>) w of
                   (Some revived, w1) \<Rightarrow> (Inr revived, w1)
                 | (None, w1) \<Rightarrow> (Inr existing, w1))
              else (Inr existing, w)
          | None \<Rightarrow>
              let (new_id, w1) = uuid4 w;
                  r = \<lparr>rv_id = new_id, rv_fingerprint = fingerprint, rv_source_path = sv_source_path sv,
                       rv_build_status = (if mark_ready then REV_READY else REV_PENDING),
                       rv_image_name = None, rv_image_tag = None, rv_base_image = sv_base_image sv,
                       rv_build_log_ref = None, rv_created_at = clock w, rv_updated_at = clock w,
                       rv_ready_at = (if mark_ready then Some (clock w) else None),
                       rv_invalidated_at = None, rv_invalidation_reason = None, rv_metadata = metadata\<rparr>
              in (Inr r, create_revision r w1)))"

definition mark_revision_building :: "string \<Rightarrow> world \<Rightarrow> RuntimeRevision option \<times> world" where
  "mark_revision_building revision_id w = update_revision revision_id (\<lambda>r. r\<lparr>rv_build_status := REV_BUILDING\<rparr>) w"

definition some_or :: "'a option \<Rightarrow> 'a \<Rightarrow> 'a" where
  "some_or v d = (case v of Some x \<Rightarrow> x | None \<Rightarrow> d)"

definition mark_revision_ready ::
  "string \<Rightarrow> string option \<Rightarrow> string option \<Rightarrow> json option \<Rightarrow> world \<Rightarrow> RuntimeRevision option \<times> world" where
  "mark_revision_ready revision_id image_name image_tag metadata w =
    update_revision revision_id (\<lambda>r. r\<lparr>rv_build_status := REV_READY, rv_ready_at := Some (clock w),
      rv_image_name := (if image_name = None then rv_image_name r else image_name),
      rv_image_tag := (if image_tag = None then rv_image_tag r else image_tag),
      rv_metadata := some_or metadata (rv_metadata r)\<rparr>) w"

definition mark_revision_failed :: "string \<Rightarrow> string \<Rightarrow> json option \<Rightarrow> world \<Rightarrow> RuntimeRevision option \<times> world" where
  "mark_revision_failed revision_id why metadata w =
    update_revision revision_id (\<lambda>r. r\<lparr>rv_build_status := REV_FAILED, rv_invalidation_reason := Some why,
      rv_metadata := some_or metadata (rv_metadata r)\<rparr>) w"

fun invalidate_each :: "string \<Rightarrow> string \<Rightarrow> RuntimeRevision list \<Rightarrow> world \<Rightarrow> RuntimeRevision list \<times> world" where
  "invalidate_each active_id why [] w = ([], w)"
| "invalidate_each active_id why (r # rs) w =
    (if rv_id r = active_id \<or> rv_build_status r \<notin> {REV_READY, REV_PENDING, REV_BUILDING}
     then invalidate_each active_id why rs w
     else
       let (updated, w1) = invalidate_revision (rv_id r) (Some why) w;
           (invalidated, w2) = invalidate_each active_id why rs w1
       in ((case updated of None \<Rightarrow> invalidated | Some u \<Rightarrow> u # invalidated), w2))"

definition invalidate_superseded_revisions :: "string \<Rightarrow> string \<Rightarrow> world \<Rightarrow> RuntimeRevision list \<times> world" where
  "invalidate_superseded_revisions active_revision_id why w =
    invalidate_each active_revision_id why (list_revisions True w) w"

section \<open>Properties\<close>

definition revisions_ok :: "world \<Rightarrow> bool" where
  "revisions_ok w \<longleftrightarrow> distinct (map fst (revisions w)) \<and> (\<forall>i r. map_of (revisions w) i = Some r \<longrightarrow> rv_id r = i)"

lemma revisions_ok_get: "revisions_ok w \<Longrightarrow> map_of (revisions w) i = Some r \<Longrightarrow> rv_id r = i"
  by (simp add: revisions_ok_def)

lemma revisions_ok_row: "revisions_ok w \<Longrightarrow> r \<in> set (dvalues (revisions w)) \<Longrightarrow> map_of (revisions w) (rv_id r) = Some r"
  by (auto simp: revisions_ok_def dvalues_def)

lemma revisions_ok_distinct:
  assumes "revisions_ok w"
  shows "distinct (map rv_id (dvalues (revisions w)))"
proof -
  have "map rv_id (dvalues (revisions w)) = map fst (revisions w)"
    using assms by (auto simp: revisions_ok_def dvalues_def)
  then show ?thesis using assms by (simp add: revisions_ok_def)
qed

lemma revisions_ok_dset: "revisions_ok w \<Longrightarrow> rv_id r = i \<Longrightarrow> revisions_ok (w\<lparr>revisions := dset i r (revisions w)\<rparr>)"
  by (simp add: revisions_ok_def)

lemma update_revision_effect:
  assumes "revisions_ok w"
  shows "revisions_ok (snd (update_revision i f w))" "clock (snd (update_revision i f w)) = clock w"
    "db (snd (update_revision i f w)) = db w"
    "map_of (revisions (snd (update_revision i f w))) j =
       (if j = i then map_option (\<lambda>r. (f r)\<lparr>rv_id := i\<rparr>) (map_of (revisions w) i) else map_of (revisions w) j)"
  using assms by (auto simp: update_revision_def revisions_ok_dset Let_def split: option.split)

definition live_revision :: "RuntimeRevision \<Rightarrow> bool" where
  "live_revision r \<longleftrightarrow> rv_build_status r \<in> {REV_READY, REV_PENDING, REV_BUILDING}"

definition invalidated :: "string \<Rightarrow> datetime \<Rightarrow> RuntimeRevision \<Rightarrow> RuntimeRevision" where
  "invalidated why now r = r\<lparr>rv_build_status := REV_INVALIDATED, rv_invalidated_at := Some now, rv_invalidation_reason := Some why\<rparr>"

lemma invalidate_revision_effect:
  assumes "revisions_ok w" and "map_of (revisions w) i = Some r"
  shows "revisions_ok (snd (invalidate_revision i (Some why) w))"
    "clock (snd (invalidate_revision i (Some why) w)) = clock w" "db (snd (invalidate_revision i (Some why) w)) = db w"
    "map_of (revisions (snd (invalidate_revision i (Some why) w))) j =
       (if j = i then Some (invalidated why (clock w) r) else map_of (revisions w) j)"
  using update_revision_effect [OF assms(1)] assms(2) revisions_ok_get [OF assms]
  by (simp_all add: invalidate_revision_def invalidated_def)

lemma invalidate_each_effect:
  assumes "revisions_ok w" and "distinct (map rv_id rs)" and "\<forall>r \<in> set rs. map_of (revisions w) (rv_id r) = Some r"
  shows "revisions_ok (snd (invalidate_each a why rs w)) \<and> clock (snd (invalidate_each a why rs w)) = clock w \<and>
    db (snd (invalidate_each a why rs w)) = db w \<and>
    (\<forall>i. map_of (revisions (snd (invalidate_each a why rs w))) i =
      (if \<exists>r \<in> set rs. rv_id r = i \<and> i \<noteq> a \<and> live_revision r
       then map_option (invalidated why (clock w)) (map_of (revisions w) i) else map_of (revisions w) i))"
  using assms
proof (induction rs arbitrary: w)
  case (Cons r rs)
  show ?case
  proof (cases "rv_id r = a \<or> \<not> live_revision r")
    case True
    then show ?thesis using Cons by (auto simp: live_revision_def)
  next
    case False
    obtain u w1 where inv: "invalidate_revision (rv_id r) (Some why) w = (u, w1)"
      by (cases "invalidate_revision (rv_id r) (Some why) w")
    have row: "map_of (revisions w) (rv_id r) = Some r" using Cons.prems(3) by simp
    note eff = invalidate_revision_effect [OF Cons.prems(1) row, of why, unfolded inv snd_conv]
    have ne: "rv_id x \<noteq> rv_id r" if "x \<in> set rs" for x
      using Cons.prems(2) that by (metis distinct.simps(2) imageI list.set_map list.simps(9))
    have "\<forall>x \<in> set rs. map_of (revisions w1) (rv_id x) = Some x" using Cons.prems(3) eff(4) ne by simp
    note IH = Cons.IH [OF eff(1) _ this] 
    have "snd (invalidate_each a why (r # rs) w) = snd (invalidate_each a why rs w1)"
      using False inv by (simp add: live_revision_def case_prod_unfold Let_def)
    then show ?thesis using IH Cons.prems(2) eff False row ne by auto
  qed
qed simp

lemma list_revisions_all: "set (list_revisions True w) = set (dvalues (revisions w))"
  "distinct (map rv_id (list_revisions True w)) = distinct (map rv_id (dvalues (revisions w)))"
  by (simp_all add: list_revisions_def distinct_map)

lemma invalidate_superseded_effect:
  assumes "revisions_ok w"
  shows "revisions_ok (snd (invalidate_superseded_revisions a why w)) \<and>
    clock (snd (invalidate_superseded_revisions a why w)) = clock w \<and>
    db (snd (invalidate_superseded_revisions a why w)) = db w \<and>
    (\<forall>i. map_of (revisions (snd (invalidate_superseded_revisions a why w))) i =
      (case map_of (revisions w) i of None \<Rightarrow> None
       | Some r \<Rightarrow> Some (if i \<noteq> a \<and> live_revision r then invalidated why (clock w) r else r)))"
proof -
  note eff = invalidate_each_effect [OF assms, of "list_revisions True w" a why,
      unfolded list_revisions_all, OF revisions_ok_distinct [OF assms]]
  have rows: "\<forall>r \<in> set (dvalues (revisions w)). map_of (revisions w) (rv_id r) = Some r"
    using revisions_ok_row [OF assms] by blast
  have "(\<exists>r \<in> set (dvalues (revisions w)). rv_id r = i \<and> i \<noteq> a \<and> live_revision r) \<longleftrightarrow>
      i \<noteq> a \<and> (\<exists>r. map_of (revisions w) i = Some r \<and> live_revision r)" for i
  proof
    assume "\<exists>r \<in> set (dvalues (revisions w)). rv_id r = i \<and> i \<noteq> a \<and> live_revision r"
    then show "i \<noteq> a \<and> (\<exists>r. map_of (revisions w) i = Some r \<and> live_revision r)" using rows by blast
  next
    assume "i \<noteq> a \<and> (\<exists>r. map_of (revisions w) i = Some r \<and> live_revision r)"
    then obtain r where r: "i \<noteq> a" "map_of (revisions w) i = Some r" "live_revision r" by blast
    have "r \<in> set (dvalues (revisions w))" using map_of_SomeD [OF r(2)] by (force simp: dvalues_def)
    then show "\<exists>r \<in> set (dvalues (revisions w)). rv_id r = i \<and> i \<noteq> a \<and> live_revision r"
      using r revisions_ok_get [OF assms r(2)] by blast
  qed
  then show ?thesis using eff [OF rows]
    by (simp add: invalidate_superseded_revisions_def split: option.split)
qed

lemma found_fingerprint:
  "revisions_ok w \<Longrightarrow> get_by_fingerprint f w = Some r \<Longrightarrow> map_of (revisions w) (rv_id r) = Some r \<and> rv_fingerprint r = f"
  by (auto simp: get_by_fingerprint_def find_Some_iff intro!: revisions_ok_row)

lemma resolve_revision_effect:
  assumes "revisions_ok w" and "resolve_current_revision sv m True w = (Inr r, w')"
  shows "revisions_ok w'" "map_of (revisions w') (rv_id r) = Some r" "clock w' = clock w" "db w' = db w"
    "sv_fingerprint sv m = Inr (rv_fingerprint r)"
    "\<forall>i. i \<noteq> rv_id r \<longrightarrow> map_of (revisions w') i = map_of (revisions w) i"
    "rv_build_status r \<noteq> REV_INVALIDATED"
proof -
  obtain f where f: "sv_fingerprint sv m = Inr f" using assms(2)
    by (cases "sv_fingerprint sv m") (simp_all add: resolve_current_revision_def)
  have "revisions_ok w' \<and> map_of (revisions w') (rv_id r) = Some r \<and> clock w' = clock w \<and> db w' = db w \<and>
    f = rv_fingerprint r \<and> (\<forall>i. i \<noteq> rv_id r \<longrightarrow> map_of (revisions w') i = map_of (revisions w) i) \<and>
    rv_build_status r \<noteq> REV_INVALIDATED"
  proof (cases "get_by_fingerprint f w")
    case None
    have "revisions_ok (snd (uuid4 w))" using assms(1) by (simp add: revisions_ok_def uuid4_def)
    then have "revisions_ok (create_revision x (snd (uuid4 w)))" for x
      by (simp add: create_revision_def revisions_ok_dset)
    moreover have "w' = create_revision r (snd (uuid4 w))" "f = rv_fingerprint r" "rv_build_status r = REV_READY"
      using assms(2) f None by (auto simp: resolve_current_revision_def Let_def case_prod_unfold)
    ultimately show ?thesis by (simp add: create_revision_def uuid4_def)
  next
    case (Some e)
    note row = found_fingerprint [OF assms(1) Some]
    show ?thesis
    proof (cases "rv_build_status e = REV_INVALIDATED")
      case True
      then show ?thesis using assms(1,2) f Some row
        by (auto simp: resolve_current_revision_def update_revision_def Let_def intro!: revisions_ok_dset)
    next
      case False
      then show ?thesis using assms(1,2) f Some row by (auto simp: resolve_current_revision_def)
    qed
  qed
  then show "revisions_ok w'" "map_of (revisions w') (rv_id r) = Some r" "clock w' = clock w" "db w' = db w"
    "sv_fingerprint sv m = Inr (rv_fingerprint r)"
    "\<forall>i. i \<noteq> rv_id r \<longrightarrow> map_of (revisions w') i = map_of (revisions w) i"
    "rv_build_status r \<noteq> REV_INVALIDATED" using f by simp_all
qed

text \<open>
  After a start has resolved its revision and invalidated the superseded ones, that revision is
  the only one of the repository still in use: it is stored unchanged and not invalidated, and
  every other row is failed or invalidated.
\<close>

theorem one_live_revision:
  assumes "revisions_ok w" and "resolve_current_revision sv m True w = (Inr r, w1)"
    and "invalidate_superseded_revisions (rv_id r) why w1 = (rs, w2)"
  shows "map_of (revisions w2) (rv_id r) = Some r \<and> rv_build_status r \<noteq> REV_INVALIDATED \<and>
    (\<forall>i x. map_of (revisions w2) i = Some x \<and> i \<noteq> rv_id r \<longrightarrow> rv_build_status x \<in> {REV_FAILED, REV_INVALIDATED})"
proof -
  note r = resolve_revision_effect [OF assms(1,2)]
  note inv = invalidate_superseded_effect [OF r(1), of "rv_id r" why, unfolded assms(3) snd_conv]
  have "rv_build_status x \<in> {REV_FAILED, REV_INVALIDATED}"
    if "map_of (revisions w2) i = Some x" "i \<noteq> rv_id r" for i x
    using that inv by (cases "map_of (revisions w1) i"; cases "rv_build_status x")
      (auto simp: live_revision_def invalidated_def split: if_splits)
  moreover have "map_of (revisions w2) (rv_id r) = Some r" using inv r(2) by simp
  ultimately show ?thesis using r(7) by blast
qed

definition sample_service :: revision_service where
  "sample_service = \<lparr>sv_fingerprint = (\<lambda>m. Inr (str_or_empty (jget m ''execution_id''))),
     sv_source_path = ''integrations/'', sv_base_image = None\<rparr>"

theorem one_live_revision_witness:
  "\<exists>r w1 rs w2. resolve_current_revision sample_service [] True sample_world = (Inr r, w1) \<and>
     invalidate_superseded_revisions (rv_id r) ''superseded'' w1 = (rs, w2) \<and> map_of (revisions w2) (rv_id r) = Some r"
proof -
  have ok: "revisions_ok sample_world" by (simp add: revisions_ok_def sample_world_def)
  obtain r w1 where 1: "resolve_current_revision sample_service [] True sample_world = (Inr r, w1)"
    by (simp add: resolve_current_revision_def sample_service_def get_by_fingerprint_def sample_world_def dvalues_def
        Let_def case_prod_unfold)
  obtain rs w2 where 2: "invalidate_superseded_revisions (rv_id r) ''superseded'' w1 = (rs, w2)"
    by (cases "invalidate_superseded_revisions (rv_id r) ''superseded'' w1")
  from one_live_revision [OF ok 1 2] 1 2 show ?thesis by blast
qed

end
