(* ===== verification/Execution_Lifecycle.thy ===== *)
theory Execution_Lifecycle
  imports Execution_Activity Samples Py_Numbers
begin

text \<open>
  \<open>app/runtime/execution_lifecycle.py\<close>: the runtime policy of an execution (timeouts, with the
  source each value came from), the policy of persistent cycles and the lifecycle metadata copied
  onto an execution when it is created. Environment variables are the argument \<open>getenv\<close>;
  \<open>datetime.fromisoformat\<close> (with naive values read as UTC) is the argument \<open>fromiso\<close>.
\<close>

section \<open>The workflow, as far as the runtime reads it\<close>

datatype EdgeType = DEFAULT | SUCCESS | FAILURE | EDGE_APPROVAL | HANDOFF

record TaskDefinition =
  td_id :: string
  td_name :: string
  td_agent_id :: "string option"
  td_tool_ids :: "string list"
  td_depends_on_task_ids :: "string list"
  td_human_approval_required :: bool
  td_timeout_seconds :: "int option"
  td_max_retries :: "int option"
  td_model_profile_id :: "string option"
  td_max_tokens :: "int option"
  td_approval_policy :: "string option"
  td_metadata :: json

record AgentDefinition =
  ad_id :: string
  ad_name :: string
  ad_model_profile_id :: "string option"
  ad_tool_ids :: "string list"
  ad_handoff_agent_ids :: "string list"
  ad_metadata :: json

record WorkflowNodeDefinition =
  n_id :: string
  n_name :: string
  n_node_type :: string
  n_agent_id :: "string option"
  n_task_id :: "string option"
  n_tool_id :: "string option"

record WorkflowEdgeDefinition =
  ed_id :: string
  ed_source_node_id :: string
  ed_target_node_id :: string
  ed_edge_type :: EdgeType
  ed_condition :: "string option"

record WorkflowDefinition =
  wd_id :: string
  wd_name :: string
  wd_entrypoint :: string
  wd_nodes :: "WorkflowNodeDefinition list"
  wd_edges :: "WorkflowEdgeDefinition list"
  wd_max_runtime_seconds :: "int option"
  wd_max_retries :: "int option"
  wd_concurrency_limit :: "int option"
  wd_approval_mode :: "string option"
  wd_task_definitions :: "TaskDefinition list"
  wd_agent_definitions :: "AgentDefinition list"
  wd_metadata :: json

section \<open>Reading loosely typed values\<close>

definition positive_int :: "pyval \<Rightarrow> exc + int option" where
  "positive_int v =
    (case v of
       VBool _ \<Rightarrow> Inr None
     | _ \<Rightarrow> except_type_value
         (sbind (py_float v) (\<lambda>f. sbind (int_of_float f) (\<lambda>n. Inr (if 0 < n then Some n else None)))) None)"

definition positive_float :: "pyval \<Rightarrow> exc + pyfloat option" where
  "positive_float v =
    except_type_value (sbind (py_float v) (\<lambda>f. Inr (if fless (Fin 0) f then Some f else None))) None"

definition jitter_ratio :: "pyval \<Rightarrow> exc + pyfloat" where
  "jitter_ratio v =
    except_type_value
      (sbind (py_float v) (\<lambda>f. Inr (if fle (Fin 0) f \<and> fle f (Fin 1) then f else Fin 0))) (Fin 0)"

fun enabled :: "pyval \<Rightarrow> bool" where
  "enabled (VBool b) = b"
| "enabled (VStr s) = (lower (strip s) \<in> {''1'', ''true'', ''yes'', ''on''})"
| "enabled _ = False"

definition optional_positive_int :: "pyval \<Rightarrow> exc + int option" where
  "optional_positive_int v = (if v = VNone then Inr None else positive_int v)"

definition parse_datetime :: "(string \<Rightarrow> datetime option) \<Rightarrow> pyval \<Rightarrow> datetime option" where
  "parse_datetime fromiso v =
    (case as_str v of
       None \<Rightarrow> None
     | Some s \<Rightarrow> if strip s = [] then None else fromiso (replace_Z (strip s)))"

section \<open>Persistent cycles\<close>

record PersistentCyclePolicy =
  pc_enabled :: bool
  pc_interval_seconds :: pyfloat
  pc_jitter_ratio :: pyfloat
  pc_failure_backoff_multiplier :: pyfloat
  pc_max_interval_seconds :: pyfloat
  pc_max_consecutive_failures :: int
  pc_max_cycles :: "int option"
  pc_max_no_progress_cycles :: "int option"
  pc_deadline_at :: "datetime option"
  pc_history_limit :: int

definition default_cycle_policy :: PersistentCyclePolicy where
  "default_cycle_policy = \<lparr>pc_enabled = False, pc_interval_seconds = Fin 60, pc_jitter_ratio = Fin 0,
     pc_failure_backoff_multiplier = Fin 2, pc_max_interval_seconds = Fin 3600,
     pc_max_consecutive_failures = 5, pc_max_cycles = None, pc_max_no_progress_cycles = None,
     pc_deadline_at = None, pc_history_limit = 20\<rparr>"

definition opt_int_val :: "int option \<Rightarrow> pyval" where
  "opt_int_val n = (case n of None \<Rightarrow> VNone | Some i \<Rightarrow> VInt i)"

definition cycle_policy_dump :: "PersistentCyclePolicy \<Rightarrow> json" where
  "cycle_policy_dump p =
    [(''enabled'', VBool (pc_enabled p)),
     (''interval_seconds'', VFloat (pc_interval_seconds p)),
     (''jitter_ratio'', VFloat (pc_jitter_ratio p)),
     (''failure_backoff_multiplier'', VFloat (pc_failure_backoff_multiplier p)),
     (''max_interval_seconds'', VFloat (pc_max_interval_seconds p)),
     (''max_consecutive_failures'', VInt (pc_max_consecutive_failures p)),
     (''max_cycles'', opt_int_val (pc_max_cycles p)),
     (''max_no_progress_cycles'', opt_int_val (pc_max_no_progress_cycles p)),
     (''deadline_at'', iso_or_none (pc_deadline_at p)),
     (''history_limit'', VInt (pc_history_limit p))]"

definition persistent_cycle_values :: "json \<Rightarrow> json" where
  "persistent_cycle_values lifecycle = dict_or_empty (jget lifecycle ''persistent_cycle'')"

definition opt_else :: "'a option \<Rightarrow> 'a \<Rightarrow> 'a" where
  "opt_else o' d = (case o' of None \<Rightarrow> d | Some x \<Rightarrow> x)"

definition normalized_persistent_cycle_policy ::
  "(string \<Rightarrow> datetime option) \<Rightarrow> json \<Rightarrow> bool \<Rightarrow> exc + PersistentCyclePolicy" where
  "normalized_persistent_cycle_policy fromiso values is_enabled =
    sbind (positive_float (jget values ''interval_seconds'')) (\<lambda>iv.
    let interval = fmax (Fin 1) (opt_else iv (Fin 60)) in
    sbind (positive_float (jget values ''max_interval_seconds'')) (\<lambda>mi.
    let max_interval = opt_else mi (Fin 3600) in
    sbind (positive_float (jget values ''failure_backoff_multiplier'')) (\<lambda>bo.
    let backoff = fmax (Fin 1) (opt_else bo (Fin 2)) in
    sbind (positive_int (jget values ''history_limit'')) (\<lambda>hl.
    let history_limit = min 100 (opt_else hl 20) in
    sbind (jitter_ratio (jget values ''jitter_ratio'')) (\<lambda>jitter.
    sbind (positive_int (jget values ''max_consecutive_failures'')) (\<lambda>failures.
    sbind (optional_positive_int (jget values ''max_cycles'')) (\<lambda>cycles.
    sbind (optional_positive_int (jget values ''max_no_progress_cycles'')) (\<lambda>no_progress.
    Inr \<lparr>pc_enabled = is_enabled, pc_interval_seconds = interval, pc_jitter_ratio = jitter,
         pc_failure_backoff_multiplier = backoff,
         pc_max_interval_seconds = fmax interval max_interval,
         pc_max_consecutive_failures = opt_else failures 5, pc_max_cycles = cycles,
         pc_max_no_progress_cycles = no_progress,
         pc_deadline_at = parse_datetime fromiso (jget values ''deadline_at''),
         pc_history_limit = history_limit\<rparr>))))))))"

definition resolve_persistent_cycle_policy ::
  "(string \<Rightarrow> datetime option) \<Rightarrow> Execution \<Rightarrow> exc + PersistentCyclePolicy" where
  "resolve_persistent_cycle_policy fromiso execution =
    (case as_dict (jget (e_metadata execution) ''execution_lifecycle'') of
       None \<Rightarrow> Inr default_cycle_policy
     | Some lifecycle \<Rightarrow>
         let values = persistent_cycle_values lifecycle
         in normalized_persistent_cycle_policy fromiso values
              (enabled (jget values ''enabled'') \<and> jget lifecycle ''run_mode'' = VStr ''always_on''))"

section \<open>The runtime policy\<close>

definition metadata_policy :: "json \<Rightarrow> json" where
  "metadata_policy metadata =
    (case as_dict (jget metadata ''runtime_policy'') of
       Some p \<Rightarrow> p
     | None \<Rightarrow> (case as_dict (jget metadata ''timeout_policy'') of Some p \<Rightarrow> p | None \<Rightarrow> metadata))"

text \<open>The policy under construction and the source of each of its values.\<close>

type_synonym policy_state = "json \<times> string dict"

definition set_policy :: "string \<Rightarrow> string \<Rightarrow> pyval option \<Rightarrow> policy_state \<Rightarrow> policy_state" where
  "set_policy source key v st =
    (case v of None \<Rightarrow> st | Some x \<Rightarrow> (dset key x (fst st), dset key source (snd st)))"

definition apply_policy_values :: "json \<Rightarrow> string \<Rightarrow> policy_state \<Rightarrow> exc + policy_state" where
  "apply_policy_values values source st =
    (let g = jget values in
     sbind (positive_int (py_or (g ''worker_hard_timeout_seconds'')
        (py_or (g ''execution_timeout_seconds'')
          (py_or (g ''agent_run_timeout_seconds'') (g ''run_timeout_seconds''))))) (\<lambda>worker_timeout.
     sbind (positive_int (py_or (g ''run_timeout_seconds'') (g ''agent_run_timeout_seconds''))) (\<lambda>run_timeout.
     sbind (positive_int (py_or (g ''idle_timeout_seconds'') (g ''agent_activity_idle_timeout_seconds''))) (\<lambda>idle_timeout.
     sbind (positive_int (py_or (g ''codex_cli_timeout_seconds'') (g ''CODEX_CLI_TIMEOUT_SECONDS''))) (\<lambda>codex_timeout.
     sbind (positive_float (py_or (g ''llm_request_timeout_seconds'') (g ''LLM_REQUEST_TIMEOUT_SECONDS''))) (\<lambda>llm_timeout.
     sbind (positive_float (py_or (g ''heartbeat_interval_seconds'') (g ''worker_heartbeat_interval_seconds''))) (\<lambda>heartbeat_interval.
     Inr (set_policy source ''heartbeat_interval_seconds'' (map_option VFloat heartbeat_interval)
          (set_policy source ''llm_request_timeout_seconds'' (map_option VFloat llm_timeout)
          (set_policy source ''codex_cli_timeout_seconds'' (map_option VInt codex_timeout)
          (set_policy source ''idle_timeout_seconds'' (map_option VInt idle_timeout)
          (set_policy source ''run_timeout_seconds'' (map_option VInt run_timeout)
          (set_policy source ''worker_hard_timeout_seconds'' (map_option VInt worker_timeout) st)))))))))))))"

text \<open>\<open>value > current\<close> on the numbers a policy holds.\<close>

fun num_gt :: "pyval \<Rightarrow> pyval \<Rightarrow> bool" where
  "num_gt (VInt a) (VInt b) = (b < a)"
| "num_gt (VFloat a) (VFloat b) = fless b a"
| "num_gt (VInt a) (VFloat b) = fless b (Fin (rat_of_int a))"
| "num_gt (VFloat a) (VInt b) = fless (Fin (rat_of_int b)) a"
| "num_gt _ _ = False"

definition raise_policy :: "string \<Rightarrow> string dict \<Rightarrow> string \<times> pyval \<Rightarrow> policy_state \<Rightarrow> policy_state" where
  "raise_policy source candidate_sources kv st =
    (let (key, v) = kv; current = jget (fst st) key
     in if current = VNone \<or> num_gt v current
        then (dset key v (fst st), dset key (opt_else (map_of candidate_sources key) source) (snd st))
        else st)"

definition apply_max_policy_values :: "json \<Rightarrow> string \<Rightarrow> policy_state \<Rightarrow> exc + policy_state" where
  "apply_max_policy_values values source st =
    sbind (apply_policy_values values source ([], [])) (\<lambda>(candidate, candidate_sources).
      Inr (fold (raise_policy source candidate_sources) candidate st))"

fun apply_members :: "(string \<times> json) list \<Rightarrow> policy_state \<Rightarrow> exc + policy_state" where
  "apply_members [] st = Inr st"
| "apply_members ((source, metadata) # rest) st =
    sbind (apply_max_policy_values (metadata_policy metadata) source st) (apply_members rest)"

record RuntimeSettings =
  rs_agent_run_timeout_seconds :: int
  rs_agent_activity_idle_timeout_seconds :: int
  rs_codex_cli_timeout_seconds :: int
  rs_llm_request_timeout_seconds :: pyfloat

record ResolvedExecutionRuntimePolicy =
  rp_worker_hard_timeout_seconds :: "int option"
  rp_idle_timeout_seconds :: int
  rp_run_timeout_seconds :: int
  rp_codex_cli_timeout_seconds :: int
  rp_llm_request_timeout_seconds :: pyfloat
  rp_heartbeat_interval_seconds :: pyfloat
  rp_source_map :: "string dict"

definition settings_policy :: "RuntimeSettings \<Rightarrow> policy_state" where
  "settings_policy s =
    (let policy = [(''worker_hard_timeout_seconds'', VInt (rs_agent_run_timeout_seconds s)),
       (''idle_timeout_seconds'', VInt (rs_agent_activity_idle_timeout_seconds s)),
       (''run_timeout_seconds'', VInt (rs_agent_run_timeout_seconds s)),
       (''codex_cli_timeout_seconds'', VInt (rs_codex_cli_timeout_seconds s)),
       (''llm_request_timeout_seconds'', VFloat (rs_llm_request_timeout_seconds s)),
       (''heartbeat_interval_seconds'', VFloat (Fin 1))]
     in (policy, map (\<lambda>(k, _). (k, ''settings'')) policy))"

definition member_sources :: "WorkflowDefinition \<Rightarrow> (string \<times> json) list" where
  "member_sources workflow =
    map (\<lambda>t. (''task:'' @ td_id t @ ''.metadata.runtime_policy'', td_metadata t)) (wd_task_definitions workflow) @
    map (\<lambda>a. (''agent:'' @ ad_id a @ ''.metadata.runtime_policy'', ad_metadata a)) (wd_agent_definitions workflow)"

definition env_values :: "(string \<Rightarrow> string option) \<Rightarrow> json" where
  "env_values getenv =
    [(''worker_hard_timeout_seconds'', opt_str (getenv ''AGENCY_EXECUTION_TIMEOUT_SECONDS'')),
     (''codex_cli_timeout_seconds'', opt_str (getenv ''CODEX_CLI_TIMEOUT_SECONDS'')),
     (''llm_request_timeout_seconds'', opt_str (getenv ''LLM_REQUEST_TIMEOUT_SECONDS''))]"

text \<open>An optional source of values: absent, it changes nothing.\<close>

definition apply_opt :: "(string \<times> json) option \<Rightarrow> policy_state \<Rightarrow> exc + policy_state" where
  "apply_opt src st =
    (case src of None \<Rightarrow> Inr st | Some (source, metadata) \<Rightarrow> apply_policy_values (metadata_policy metadata) source st)"

definition run_mode_of :: "Execution option \<Rightarrow> pyval" where
  "run_mode_of execution =
    (case execution of None \<Rightarrow> VNone
     | Some e \<Rightarrow> jget (dict_or_empty (jget (e_metadata e) ''execution_lifecycle'')) ''run_mode'')"

text \<open>The last step: an always-on run without an explicit cap has no hard timeout.\<close>

definition lift_always_on :: "pyval \<Rightarrow> policy_state \<Rightarrow> policy_state" where
  "lift_always_on run_mode st =
    (if run_mode = VStr ''always_on'' \<and> map_of (snd st) ''worker_hard_timeout_seconds'' = Some ''settings''
     then (dset ''worker_hard_timeout_seconds'' VNone (fst st),
           dset ''worker_hard_timeout_seconds'' ''execution_lifecycle.always_on'' (snd st))
     else st)"

fun val_int :: "pyval \<Rightarrow> int" where "val_int (VInt i) = i" | "val_int _ = 0"
fun val_float :: "pyval \<Rightarrow> pyfloat" where "val_float (VFloat f) = f" | "val_float _ = NaN"

definition resolved_policy :: "policy_state \<Rightarrow> ResolvedExecutionRuntimePolicy" where
  "resolved_policy st =
    (let g = jget (fst st) in
     \<lparr>rp_worker_hard_timeout_seconds =
        (if g ''worker_hard_timeout_seconds'' = VNone then None
         else Some (val_int (g ''worker_hard_timeout_seconds''))),
      rp_idle_timeout_seconds = val_int (g ''idle_timeout_seconds''),
      rp_run_timeout_seconds = val_int (g ''run_timeout_seconds''),
      rp_codex_cli_timeout_seconds = val_int (g ''codex_cli_timeout_seconds''),
      rp_llm_request_timeout_seconds = val_float (g ''llm_request_timeout_seconds''),
      rp_heartbeat_interval_seconds = val_float (g ''heartbeat_interval_seconds''),
      rp_source_map = snd st\<rparr>)"

definition resolve_execution_runtime_policy ::
  "(string \<Rightarrow> string option) \<Rightarrow> RuntimeSettings \<Rightarrow> WorkflowDefinition option \<Rightarrow> Execution option \<Rightarrow>
   TaskDefinition option \<Rightarrow> AgentDefinition option \<Rightarrow> bool \<Rightarrow> exc + ResolvedExecutionRuntimePolicy" where
  "resolve_execution_runtime_policy getenv settings workflow execution task agent include_maxima =
    sbind (apply_opt (map_option (\<lambda>w. (''workflow.metadata.runtime_policy'', wd_metadata w)) workflow)
             (settings_policy settings)) (\<lambda>s1.
    sbind (case workflow of
             Some w \<Rightarrow> if include_maxima then apply_members (member_sources w) s1 else Inr s1
           | None \<Rightarrow> Inr s1) (\<lambda>s2.
    sbind (apply_opt (map_option (\<lambda>t. (''task:'' @ td_id t @ ''.metadata.runtime_policy'', td_metadata t)) task) s2) (\<lambda>s3.
    sbind (apply_opt (map_option (\<lambda>a. (''agent:'' @ ad_id a @ ''.metadata.runtime_policy'', ad_metadata a)) agent) s3) (\<lambda>s4.
    sbind (apply_opt (map_option (\<lambda>e. (''execution.trigger_payload'', e_trigger_payload e)) execution) s4) (\<lambda>s5.
    sbind (apply_opt (map_option (\<lambda>e. (''execution.input_payload'', e_input_payload e)) execution) s5) (\<lambda>s6.
    sbind (apply_policy_values (env_values getenv) ''environment'' s6) (\<lambda>s7.
    Inr (resolved_policy (lift_always_on (run_mode_of execution) s7)))))))))"

definition policy_dump :: "ResolvedExecutionRuntimePolicy \<Rightarrow> json" where
  "policy_dump p =
    [(''worker_hard_timeout_seconds'', opt_int_val (rp_worker_hard_timeout_seconds p)),
     (''idle_timeout_seconds'', VInt (rp_idle_timeout_seconds p)),
     (''run_timeout_seconds'', VInt (rp_run_timeout_seconds p)),
     (''codex_cli_timeout_seconds'', VInt (rp_codex_cli_timeout_seconds p)),
     (''llm_request_timeout_seconds'', VFloat (rp_llm_request_timeout_seconds p)),
     (''heartbeat_interval_seconds'', VFloat (rp_heartbeat_interval_seconds p)),
     (''source_map'', VDict (map (\<lambda>(k, s). (k, VStr s)) (rp_source_map p)))]"

section \<open>Run modes and lifecycle metadata\<close>

definition RUN_MODES :: "string set" where
  "RUN_MODES = {''one_time'', ''scheduled'', ''always_on''}"

definition SCHEDULE_TRIGGER_TYPES :: "string set" where
  "SCHEDULE_TRIGGER_TYPES = {''schedule'', ''scheduled'', ''cron'', ''interval''}"

text \<open>\<open>v in RUN_MODES\<close>: a list or a dictionary is not hashable.\<close>

fun in_run_modes :: "pyval \<Rightarrow> exc + bool" where
  "in_run_modes (VStr s) = Inr (s \<in> RUN_MODES)"
| "in_run_modes (VList _) = Inl (TypeError ''unhashable type'')"
| "in_run_modes (VDict _) = Inl (TypeError ''unhashable type'')"
| "in_run_modes _ = Inr False"

text \<open>
  \<open>str(v or '').lower()\<close>, used in comparisons with words only: what another value than a string
  prints as is none of these words.
\<close>

fun lower_word :: "pyval \<Rightarrow> string" where
  "lower_word (VStr s) = lower s"
| "lower_word _ = []"

definition infer_execution_run_mode :: "json \<Rightarrow> exc + string" where
  "infer_execution_run_mode trigger =
    sbind (in_run_modes (jget trigger ''run_mode'')) (\<lambda>known.
      Inr (case (known, jget trigger ''run_mode'') of
             (True, VStr s) \<Rightarrow> s
           | _ \<Rightarrow> if truthy (jget trigger ''schedule_id'') \<or>
                     lower_word (jget trigger ''type'') \<in> SCHEDULE_TRIGGER_TYPES \<or>
                     lower_word (jget trigger ''source'') = ''scheduler''
                  then ''scheduled'' else ''one_time''))"

definition build_execution_lifecycle_metadata ::
  "(string \<Rightarrow> datetime option) \<Rightarrow> json \<Rightarrow> json \<Rightarrow> exc + json" where
  "build_execution_lifecycle_metadata fromiso trigger workflow_metadata =
    (let workflow_lifecycle = dict_or_empty (jget workflow_metadata ''execution_lifecycle'');
         persistent_cycle = persistent_cycle_values workflow_lifecycle;
         cycle_enabled = enabled (jget persistent_cycle ''enabled'')
     in sbind (if truthy (jget workflow_lifecycle ''run_mode'') then Inr (jget workflow_lifecycle ''run_mode'')
               else sbind (infer_execution_run_mode trigger) (\<lambda>s. Inr (VStr s))) (\<lambda>mode0.
        let mode1 = (if cycle_enabled then VStr ''always_on'' else mode0) in
        sbind (in_run_modes mode1) (\<lambda>known.
        sbind (case (known, mode1) of (True, VStr s) \<Rightarrow> Inr s | _ \<Rightarrow> infer_execution_run_mode trigger) (\<lambda>run_mode.
        let requested = jget workflow_lifecycle ''terminate_container_on_completion'';
            terminate = (if requested = VNone then cycle_enabled \<or> run_mode \<noteq> ''always_on'' else truthy requested);
            lifecycle = [(''run_mode'', VStr run_mode),
                         (''triggered_by_schedule'', VBool (run_mode = ''scheduled'')),
                         (''terminate_container_on_completion'', VBool terminate)]
        in if cycle_enabled then
             sbind (normalized_persistent_cycle_policy fromiso persistent_cycle True) (\<lambda>p.
               Inr (dset ''persistent_cycle'' (VDict (cycle_policy_dump p)) lifecycle))
           else Inr lifecycle))))"

definition should_terminate_container_on_completion :: "Execution \<Rightarrow> bool" where
  "should_terminate_container_on_completion execution =
    (case as_dict (jget (e_metadata execution) ''execution_lifecycle'') of
       None \<Rightarrow> True
     | Some lifecycle \<Rightarrow>
         (case map_of lifecycle ''terminate_container_on_completion'' of None \<Rightarrow> True | Some v \<Rightarrow> truthy v))"

section \<open>The cycle policy\<close>

lemma positive_int_Some: "positive_int v = Inr (Some n) \<Longrightarrow> 0 < n"
  by (cases v) (auto simp: positive_int_def dest!: except_type_value_Inr elim!: sbind_InrE split: if_splits)

lemma positive_float_Some: "positive_float v = Inr (Some f) \<Longrightarrow> fless (Fin 0) f"
  by (auto simp: positive_float_def dest!: except_type_value_Inr elim!: sbind_InrE split: if_splits)

lemma fless_0_not_NaN: "fless (Fin 0) f \<Longrightarrow> f \<noteq> NaN"
  by (cases f) auto

lemma jitter_ratio_bounds: "jitter_ratio v = Inr f \<Longrightarrow> fle (Fin 0) f \<and> fle f (Fin 1)"
  by (auto simp: jitter_ratio_def dest!: except_type_value_Inr elim!: sbind_InrE split: if_splits)

lemma optional_positive_int_Some: "optional_positive_int v = Inr (Some n) \<Longrightarrow> 0 < n"
  by (auto simp: optional_positive_int_def dest: positive_int_Some split: if_splits)

text \<open>The bounds of a normalised policy.\<close>

definition cycle_policy_ok :: "PersistentCyclePolicy \<Rightarrow> bool" where
  "cycle_policy_ok p \<longleftrightarrow>
     fle (Fin 1) (pc_interval_seconds p) \<and> fle (pc_interval_seconds p) (pc_max_interval_seconds p) \<and>
     fle (Fin 1) (pc_failure_backoff_multiplier p) \<and>
     fle (Fin 0) (pc_jitter_ratio p) \<and> fle (pc_jitter_ratio p) (Fin 1) \<and>
     1 \<le> pc_history_limit p \<and> pc_history_limit p \<le> 100 \<and> 1 \<le> pc_max_consecutive_failures p \<and>
     (\<forall>n. pc_max_cycles p = Some n \<longrightarrow> 1 \<le> n) \<and> (\<forall>n. pc_max_no_progress_cycles p = Some n \<longrightarrow> 1 \<le> n)"

lemma fmax_1: "positive_float v = Inr o' \<Longrightarrow> d \<noteq> NaN \<Longrightarrow> fle (Fin 1) (fmax (Fin 1) (opt_else o' d))"
  by (cases o') (auto simp: opt_else_def fmax_ge fless_0_not_NaN dest!: positive_float_Some)

lemma normalized_policy_ok:
  assumes "normalized_persistent_cycle_policy fromiso values b = Inr p"
  shows "cycle_policy_ok p" and "pc_enabled p = b"
proof -
  from assms obtain iv mi bo hl ji fa cy np where
    f: "positive_float (jget values ''interval_seconds'') = Inr iv"
      "positive_float (jget values ''max_interval_seconds'') = Inr mi"
      "positive_float (jget values ''failure_backoff_multiplier'') = Inr bo"
      "positive_int (jget values ''history_limit'') = Inr hl"
      "jitter_ratio (jget values ''jitter_ratio'') = Inr ji"
      "positive_int (jget values ''max_consecutive_failures'') = Inr fa"
      "optional_positive_int (jget values ''max_cycles'') = Inr cy"
      "optional_positive_int (jget values ''max_no_progress_cycles'') = Inr np"
    and p: "p = \<lparr>pc_enabled = b, pc_interval_seconds = fmax (Fin 1) (opt_else iv (Fin 60)), pc_jitter_ratio = ji,
         pc_failure_backoff_multiplier = fmax (Fin 1) (opt_else bo (Fin 2)),
         pc_max_interval_seconds = fmax (fmax (Fin 1) (opt_else iv (Fin 60))) (opt_else mi (Fin 3600)),
         pc_max_consecutive_failures = opt_else fa 5, pc_max_cycles = cy,
         pc_max_no_progress_cycles = np,
         pc_deadline_at = parse_datetime fromiso (jget values ''deadline_at''),
         pc_history_limit = min 100 (opt_else hl 20)\<rparr>"
    unfolding normalized_persistent_cycle_policy_def Let_def by (auto elim!: sbind_InrE)
  have mi: "opt_else mi (Fin 3600) \<noteq> NaN"
    using f(2) by (cases mi) (auto simp: opt_else_def dest!: positive_float_Some)
  have "1 \<le> opt_else hl 20" "1 \<le> opt_else fa (5::int)"
    using f(4,6) by (auto simp: opt_else_def dest!: positive_int_Some split: option.split)
  then show "cycle_policy_ok p"
    using fmax_1 [OF f(1)] fmax_1 [OF f(3)] jitter_ratio_bounds [OF f(5)] mi
      fmax_ge [OF _ mi, of "fmax (Fin 1) (opt_else iv (Fin 60))"] f(7,8)
    by (auto simp: cycle_policy_ok_def p fmax_NaN dest!: optional_positive_int_Some)
  show "pc_enabled p = b" by (simp add: p)
qed

text \<open>Integers a double represents exactly.\<close>

definition exact_int :: "int \<Rightarrow> bool" where "exact_int n \<longleftrightarrow> \<bar>n\<bar> \<le> 2 ^ 53"

lemma positive_int_VInt:
  assumes "exact_int n" and "1 \<le> n"
  shows "positive_int (VInt n) = Inr (Some n)"
proof -
  have "rat_of_int \<bar>n\<bar> \<le> rat_of_int (2 ^ 53)"
    using assms(1) unfolding exact_int_def of_int_le_iff .
  moreover have "(2::rat) ^ 53 < 2 ^ 100" by (rule power_strict_increasing) simp_all
  ultimately have "\<bar>rat_of_int n\<bar> < float_bound" using float_bound_large by simp
  then show ?thesis using assms(2) by (simp add: positive_int_def)
qed

lemma fle_1_pos: "fle (Fin 1) f \<Longrightarrow> fless (Fin 0) f"
  by (cases f) auto

lemma positive_float_VFloat: "fle (Fin 1) f \<Longrightarrow> positive_float (VFloat f) = Inr (Some f)"
  by (simp add: positive_float_def fle_1_pos)

lemma opt_int_back:
  "(\<And>n. o' = Some n \<Longrightarrow> exact_int n \<and> 1 \<le> n) \<Longrightarrow> optional_positive_int (opt_int_val o') = Inr o'"
  by (cases o') (simp_all add: optional_positive_int_def opt_int_val_def positive_int_VInt)

definition cycle_policy_exact :: "PersistentCyclePolicy \<Rightarrow> bool" where
  "cycle_policy_exact p \<longleftrightarrow> exact_int (pc_max_consecutive_failures p) \<and>
     (\<forall>n. pc_max_cycles p = Some n \<longrightarrow> exact_int n) \<and> (\<forall>n. pc_max_no_progress_cycles p = Some n \<longrightarrow> exact_int n)"

lemma nat_str_no_space: "c \<in> set (nat_str n) \<Longrightarrow> \<not> is_space c"
proof (induction n rule: nat_str.induct)
  case (1 n)
  have d: "\<not> is_space (''0123456789'' ! k)" if "k < 10" for k
  proof -
    from that have "k \<in> {0, 1, 2, 3, 4, 5, 6, 7, 8, 9}" by auto
    then show ?thesis by (auto simp: is_space_def)
  qed
  from 1 show ?case by (subst (asm) nat_str.simps) (auto simp: d split: if_splits)
qed

lemma pad_no_space: "c \<in> set (pad k n) \<Longrightarrow> \<not> is_space c"
  by (auto simp: pad_def Let_def nat_str_no_space) (simp add: is_space_def)

lemma strip_no_space: "(\<And>c. c \<in> set s \<Longrightarrow> \<not> is_space c) \<Longrightarrow> strip s = s"
proof -
  assume a: "\<And>c. c \<in> set s \<Longrightarrow> \<not> is_space c"
  have dw: "dropWhile is_space t = t" if "set t \<subseteq> set s" for t
    using that a by (cases t) auto
  show "strip s = s" by (simp add: strip_def dw)
qed

lemma iso_chars_no_space:
  "\<not> is_space (CHR ''-'')" "\<not> is_space (CHR ''T'')" "\<not> is_space (CHR '':'')" "\<not> is_space (CHR ''.'')"
  "\<not> is_space (CHR ''+'')" "\<not> is_space (CHR ''0'')"
  by (simp_all add: is_space_def)

lemma strip_isoformat: "strip (isoformat t) = isoformat t"
proof (rule strip_no_space)
  have "\<forall>c \<in> set (pad k n). \<not> is_space c" for k n using pad_no_space by blast
  then have "\<forall>c \<in> set (isoformat t). \<not> is_space c"
    by (simp add: isoformat_def Let_def case_prod_unfold ball_Un iso_chars_no_space)
  then show "\<And>c. c \<in> set (isoformat t) \<Longrightarrow> \<not> is_space c" by blast
qed

lemma parse_isoformat:
  assumes "\<And>t. d = Some t \<Longrightarrow> fromiso (isoformat t) = Some t"
  shows "parse_datetime fromiso (iso_or_none d) = d"
  using assms by (cases d) (simp_all add: parse_datetime_def iso_or_none_def strip_isoformat replace_Z_id isoformat_no_Z isoformat_nonempty)

lemma cycle_policy_reread:
  assumes ok: "cycle_policy_ok p" "cycle_policy_exact p"
    and iso: "\<And>t. pc_deadline_at p = Some t \<Longrightarrow> fromiso (isoformat t) = Some t"
  shows "normalized_persistent_cycle_policy fromiso (cycle_policy_dump p) b = Inr (p\<lparr>pc_enabled := b\<rparr>)"
proof -
  have fields: "jget (cycle_policy_dump p) ''interval_seconds'' = VFloat (pc_interval_seconds p)"
    "jget (cycle_policy_dump p) ''jitter_ratio'' = VFloat (pc_jitter_ratio p)"
    "jget (cycle_policy_dump p) ''failure_backoff_multiplier'' = VFloat (pc_failure_backoff_multiplier p)"
    "jget (cycle_policy_dump p) ''max_interval_seconds'' = VFloat (pc_max_interval_seconds p)"
    "jget (cycle_policy_dump p) ''max_consecutive_failures'' = VInt (pc_max_consecutive_failures p)"
    "jget (cycle_policy_dump p) ''max_cycles'' = opt_int_val (pc_max_cycles p)"
    "jget (cycle_policy_dump p) ''max_no_progress_cycles'' = opt_int_val (pc_max_no_progress_cycles p)"
    "jget (cycle_policy_dump p) ''deadline_at'' = iso_or_none (pc_deadline_at p)"
    "jget (cycle_policy_dump p) ''history_limit'' = VInt (pc_history_limit p)"
    by (simp_all add: cycle_policy_dump_def jget_def)
  have mx: "fle (Fin 1) (pc_max_interval_seconds p)"
    using ok(1) fle_trans unfolding cycle_policy_ok_def by blast
  have hist: "exact_int (pc_history_limit p)"
    using ok(1) by (simp add: cycle_policy_ok_def exact_int_def)
  have jit: "jitter_ratio (VFloat (pc_jitter_ratio p)) = Inr (pc_jitter_ratio p)"
    using ok(1) by (simp add: jitter_ratio_def cycle_policy_ok_def)
  have opts: "optional_positive_int (opt_int_val (pc_max_cycles p)) = Inr (pc_max_cycles p)"
    "optional_positive_int (opt_int_val (pc_max_no_progress_cycles p)) = Inr (pc_max_no_progress_cycles p)"
    using ok by (simp_all add: opt_int_back cycle_policy_ok_def cycle_policy_exact_def)
  from ok mx hist show ?thesis
    unfolding normalized_persistent_cycle_policy_def fields
    by (simp add: positive_float_VFloat positive_int_VInt jit opts opt_else_def fmax_absorb
        parse_isoformat [OF iso] cycle_policy_ok_def cycle_policy_exact_def Let_def)
qed

text \<open>
  The policy an execution runs its cycles under is always within bounds: an interval of at
  least a second that does not exceed the maximal interval, a backoff that never shrinks the
  delay, a jitter ratio between 0 and 1, 1 to 100 history entries and positive limits; cycles are
  enabled for always-on executions only.
\<close>

theorem resolved_cycle_policy_bounded:
  assumes "resolve_persistent_cycle_policy fromiso execution = Inr p"
  shows "cycle_policy_ok p \<and> (pc_enabled p \<longrightarrow>
    (\<exists>lifecycle. jget (e_metadata execution) ''execution_lifecycle'' = VDict lifecycle \<and>
       jget lifecycle ''run_mode'' = VStr ''always_on''))"
proof (cases "as_dict (jget (e_metadata execution) ''execution_lifecycle'')")
  case None
  with assms show ?thesis
    by (auto simp: resolve_persistent_cycle_policy_def default_cycle_policy_def cycle_policy_ok_def)
next
  case (Some d)
  then have "jget (e_metadata execution) ''execution_lifecycle'' = VDict d"
    by (cases "jget (e_metadata execution) ''execution_lifecycle''") auto
  with Some assms normalized_policy_ok [of fromiso "persistent_cycle_values d" _ p] show ?thesis
    by (auto simp: resolve_persistent_cycle_policy_def Let_def)
qed

definition sample_fromiso :: "string \<Rightarrow> datetime option" where
  "sample_fromiso s = (if s = isoformat 0 then Some 0 else None)"

definition sample_cycle_values :: json where
  "sample_cycle_values = [(''enabled'', VBool True), (''interval_seconds'', VInt 90),
     (''jitter_ratio'', VFloat (Fin (1/2))), (''history_limit'', VInt 500), (''max_cycles'', VInt 3),
     (''deadline_at'', VStr (isoformat 0))]"

definition sample_cycle_policy :: PersistentCyclePolicy where
  "sample_cycle_policy = default_cycle_policy\<lparr>pc_enabled := True, pc_interval_seconds := Fin 90,
     pc_jitter_ratio := Fin (1/2), pc_history_limit := 100, pc_max_cycles := Some 3,
     pc_deadline_at := Some 0\<rparr>"

lemma mk_float_of_int: "exact_int n \<Longrightarrow> mk_float (rat_of_int n) = Fin (rat_of_int n)"
proof -
  assume "exact_int n"
  then have "rat_of_int \<bar>n\<bar> \<le> rat_of_int (2 ^ 53)" unfolding exact_int_def of_int_le_iff .
  moreover have "(2::rat) ^ 53 < 2 ^ 100" by (rule power_strict_increasing) simp_all
  ultimately have "\<bar>rat_of_int n\<bar> < float_bound" using float_bound_large by simp
  then show ?thesis by simp
qed

lemma sample_cycle_normalized:
  "normalized_persistent_cycle_policy sample_fromiso sample_cycle_values True = Inr sample_cycle_policy"
  using mk_float_of_int [of 90] mk_float_of_int [of 500] mk_float_of_int [of 3]
  by (simp add: normalized_persistent_cycle_policy_def sample_cycle_values_def jget_def positive_float_def
      positive_int_def jitter_ratio_def optional_positive_int_def opt_else_def fmax_def parse_datetime_def
      sample_cycle_policy_def default_cycle_policy_def exact_int_def trunc_def
      sample_fromiso_def strip_isoformat isoformat_nonempty replace_Z_id isoformat_no_Z)

definition always_on_execution :: "Execution \<Rightarrow> Execution" where
  "always_on_execution e = e\<lparr>e_metadata := [(''execution_lifecycle'', VDict
     [(''run_mode'', VStr ''always_on''), (''persistent_cycle'', VDict sample_cycle_values)])]\<rparr>"

lemma sample_cycle_resolved:
  "resolve_persistent_cycle_policy sample_fromiso (always_on_execution e) = Inr sample_cycle_policy"
proof -
  have "enabled (jget sample_cycle_values ''enabled'')" by (simp add: sample_cycle_values_def jget_def)
  then show ?thesis
    by (simp add: resolve_persistent_cycle_policy_def always_on_execution_def jget_def [of "[(_, _)]"]
        jget_def [of "[(_, _), (_, _)]"] persistent_cycle_values_def dict_or_empty_def sample_cycle_normalized)
qed

theorem resolved_cycle_policy_bounded_witness:
  "cycle_policy_ok sample_cycle_policy \<and> pc_history_limit sample_cycle_policy = 100"
  using resolved_cycle_policy_bounded [OF sample_cycle_resolved]
  by (simp add: sample_cycle_policy_def)

text \<open>
  The lifecycle metadata a workflow with an enabled persistent cycle gives its executions
  puts them in the always-on mode, reaps their containers unless the workflow says otherwise, and
  reads back as exactly the normalised policy: what was validated at creation is what every later
  cycle runs under.
\<close>

theorem cycle_policy_roundtrip:
  assumes "build_execution_lifecycle_metadata fromiso trigger workflow_metadata = Inr lifecycle"
    and "cycle = persistent_cycle_values (dict_or_empty (jget workflow_metadata ''execution_lifecycle''))"
    and "enabled (jget cycle ''enabled'')"
    and "normalized_persistent_cycle_policy fromiso cycle True = Inr p" and "cycle_policy_exact p"
    and "\<And>t. pc_deadline_at p = Some t \<Longrightarrow> fromiso (isoformat t) = Some t"
    and "jget (e_metadata execution) ''execution_lifecycle'' = VDict lifecycle"
  shows "resolve_persistent_cycle_policy fromiso execution = Inr p \<and>
    jget lifecycle ''run_mode'' = VStr ''always_on'' \<and>
    (jget (dict_or_empty (jget workflow_metadata ''execution_lifecycle''))
       ''terminate_container_on_completion'' = VNone \<longrightarrow> should_terminate_container_on_completion execution)"
proof -
  let ?wl = "dict_or_empty (jget workflow_metadata ''execution_lifecycle'')"
  from assms(1) assms(2) [symmetric] assms(3,4) obtain reap where
    l: "lifecycle = dset ''persistent_cycle'' (VDict (cycle_policy_dump p))
      [(''run_mode'', VStr ''always_on''), (''triggered_by_schedule'', VBool False),
       (''terminate_container_on_completion'', VBool reap)]"
    and t: "jget ?wl ''terminate_container_on_completion'' = VNone \<Longrightarrow> reap"
    unfolding build_execution_lifecycle_metadata_def Let_def
    by (auto simp: RUN_MODES_def elim!: sbind_InrE split: if_splits)
  have en: "jget (cycle_policy_dump p) ''enabled'' = VBool True"
    using normalized_policy_ok(2) [OF assms(4)] by (simp add: cycle_policy_dump_def jget_def)
  have pv: "persistent_cycle_values lifecycle = cycle_policy_dump p"
    by (simp add: l persistent_cycle_values_def dict_or_empty_def jget_def)
  have rm: "jget lifecycle ''run_mode'' = VStr ''always_on''" by (simp add: l jget_def)
  have "p\<lparr>pc_enabled := True\<rparr> = p" using normalized_policy_ok(2) [OF assms(4)] by simp
  then have "resolve_persistent_cycle_policy fromiso execution = Inr p"
    using cycle_policy_reread [OF normalized_policy_ok(1) [OF assms(4)] assms(5,6), of True]
    by (simp add: resolve_persistent_cycle_policy_def assms(7) pv en rm)
  moreover have "should_terminate_container_on_completion execution"
    if "jget ?wl ''terminate_container_on_completion'' = VNone"
    using t [OF that] by (simp add: should_terminate_container_on_completion_def assms(7) l)
  ultimately show ?thesis using rm by blast
qed

lemma dict_or_empty_VDict: "dict_or_empty (VDict d) = d"
  by (simp add: dict_or_empty_def)

definition sample_workflow_metadata :: json where
  "sample_workflow_metadata =
    [(''execution_lifecycle'', VDict [(''persistent_cycle'', VDict sample_cycle_values)])]"

definition sample_lifecycle :: json where
  "sample_lifecycle = [(''run_mode'', VStr ''always_on''), (''triggered_by_schedule'', VBool False),
     (''terminate_container_on_completion'', VBool True),
     (''persistent_cycle'', VDict (cycle_policy_dump sample_cycle_policy))]"

lemma sample_workflow_lifecycle:
  "dict_or_empty (jget sample_workflow_metadata ''execution_lifecycle'') =
     [(''persistent_cycle'', VDict sample_cycle_values)]"
  by (simp add: sample_workflow_metadata_def jget_def dict_or_empty_def)

lemma sample_cycle_enabled: "jget sample_cycle_values ''enabled'' = VBool True"
  by (simp add: sample_cycle_values_def jget_def)

lemma sample_lifecycle_built:
  "build_execution_lifecycle_metadata sample_fromiso [] sample_workflow_metadata = Inr sample_lifecycle"
  by (simp add: build_execution_lifecycle_metadata_def sample_workflow_lifecycle persistent_cycle_values_def
      jget_def [of "[(_, _)]"] jget_def [of "[]"] dict_or_empty_VDict Let_def sample_cycle_enabled sample_cycle_normalized
      infer_execution_run_mode_def SCHEDULE_TRIGGER_TYPES_def RUN_MODES_def sample_lifecycle_def)

theorem cycle_policy_roundtrip_witness:
  "resolve_persistent_cycle_policy sample_fromiso
     (sample_execution\<lparr>e_metadata := [(''execution_lifecycle'', VDict sample_lifecycle)]\<rparr>) =
   Inr sample_cycle_policy"
proof (rule cycle_policy_roundtrip [THEN conjunct1, OF sample_lifecycle_built refl])
  show "cycle_policy_exact sample_cycle_policy"
    by (simp add: cycle_policy_exact_def exact_int_def sample_cycle_policy_def default_cycle_policy_def)
  show "sample_fromiso (isoformat t) = Some t" if "pc_deadline_at sample_cycle_policy = Some t" for t
    using that by (simp add: sample_fromiso_def sample_cycle_policy_def)
qed (simp_all add: sample_workflow_lifecycle persistent_cycle_values_def jget_def [of "[(_, _)]"]
      dict_or_empty_VDict sample_cycle_enabled sample_cycle_normalized)

section \<open>The runtime policy stays positive\<close>

definition int_keys :: "string list" where
  "int_keys = [''worker_hard_timeout_seconds'', ''idle_timeout_seconds'', ''run_timeout_seconds'',
     ''codex_cli_timeout_seconds'']"

definition float_keys :: "string list" where
  "float_keys = [''llm_request_timeout_seconds'', ''heartbeat_interval_seconds'']"

definition entry_ok :: "string \<Rightarrow> pyval \<Rightarrow> bool" where
  "entry_ok k v \<longleftrightarrow> (k \<in> set int_keys \<longrightarrow> (\<exists>n. 0 < n \<and> v = VInt n)) \<and>
     (k \<in> set float_keys \<longrightarrow> (\<exists>f. fless (Fin 0) f \<and> v = VFloat f))"

text \<open>Every timeout of the policy is a positive number of its type.\<close>

definition policy_ok :: "json \<Rightarrow> bool" where
  "policy_ok p \<longleftrightarrow> (\<forall>k \<in> set int_keys \<union> set float_keys. entry_ok k (jget p k))"

definition entries_ok :: "json \<Rightarrow> bool" where
  "entries_ok p \<longleftrightarrow> (\<forall>(k, v) \<in> set p. entry_ok k v)"

lemma policy_ok_dset: "policy_ok p \<Longrightarrow> entry_ok k v \<Longrightarrow> policy_ok (dset k v p)"
  by (simp add: policy_ok_def)

lemma set_dset: "set (dset k v d) \<subseteq> insert (k, v) (set d)"
  by (induction d) auto

lemma entries_ok_dset: "entries_ok p \<Longrightarrow> entry_ok k v \<Longrightarrow> entries_ok (dset k v p)"
  using set_dset unfolding entries_ok_def by fastforce

lemma set_policy_ok:
  assumes "\<And>x. v = Some x \<Longrightarrow> entry_ok k x"
  shows "policy_ok (fst st) \<Longrightarrow> policy_ok (fst (set_policy src k v st))"
    and "entries_ok (fst st) \<Longrightarrow> entries_ok (fst (set_policy src k v st))"
  using assms by (auto simp: set_policy_def policy_ok_dset entries_ok_dset split: option.split)

lemma int_entry_ok: "positive_int x = Inr o' \<Longrightarrow> map_option VInt o' = Some v \<Longrightarrow> k \<notin> set float_keys \<Longrightarrow> entry_ok k v"
  by (auto simp: entry_ok_def dest: positive_int_Some)

lemma float_entry_ok: "positive_float x = Inr o' \<Longrightarrow> map_option VFloat o' = Some v \<Longrightarrow> k \<notin> set int_keys \<Longrightarrow> entry_ok k v"
  by (auto simp: entry_ok_def dest: positive_float_Some)

lemma apply_policy_ok:
  assumes "apply_policy_values values source st = Inr st'"
  shows "policy_ok (fst st) \<Longrightarrow> policy_ok (fst st')" and "entries_ok (fst st) \<Longrightarrow> entries_ok (fst st')"
  using assms unfolding apply_policy_values_def Let_def
  by (auto elim!: sbind_InrE intro!: set_policy_ok elim: int_entry_ok float_entry_ok
      simp: int_keys_def float_keys_def)

lemma raise_policy_fold_ok:
  assumes "entries_ok c" and "policy_ok (fst st)"
  shows "policy_ok (fst (fold (raise_policy source cs) c st))"
  using assms
proof (induction c arbitrary: st)
  case (Cons kv c)
  then have "policy_ok (fst (raise_policy source cs kv st))"
    by (auto simp: raise_policy_def entries_ok_def Let_def policy_ok_dset split: prod.split)
  with Cons show ?case by (simp add: entries_ok_def)
qed simp

lemma apply_max_ok:
  assumes "apply_max_policy_values values source st = Inr st'" and "policy_ok (fst st)"
  shows "policy_ok (fst st')"
proof -
  from assms(1) obtain c cs where c: "apply_policy_values values source ([], []) = Inr (c, cs)"
    and st': "st' = fold (raise_policy source cs) c st"
    by (auto simp: apply_max_policy_values_def elim!: sbind_InrE)
  have "entries_ok c" using apply_policy_ok(2) [OF c] by (simp add: entries_ok_def)
  then show ?thesis using assms(2) by (simp add: st' raise_policy_fold_ok)
qed

lemma apply_members_ok: "apply_members ms st = Inr st' \<Longrightarrow> policy_ok (fst st) \<Longrightarrow> policy_ok (fst st')"
  by (induction ms st rule: apply_members.induct) (auto elim!: sbind_InrE dest: apply_max_ok)

lemma apply_opt_ok: "apply_opt src st = Inr st' \<Longrightarrow> policy_ok (fst st) \<Longrightarrow> policy_ok (fst st')"
  by (auto simp: apply_opt_def dest: apply_policy_ok(1) split: option.splits)

definition settings_ok :: "RuntimeSettings \<Rightarrow> bool" where
  "settings_ok s \<longleftrightarrow> 0 < rs_agent_run_timeout_seconds s \<and> 0 < rs_agent_activity_idle_timeout_seconds s \<and>
     0 < rs_codex_cli_timeout_seconds s \<and> fless (Fin 0) (rs_llm_request_timeout_seconds s)"

lemma settings_policy_ok: "settings_ok s \<Longrightarrow> policy_ok (fst (settings_policy s))"
  by (simp add: settings_ok_def policy_ok_def entry_ok_def settings_policy_def int_keys_def float_keys_def jget_def)

lemma resolve_policyE:
  assumes "resolve_execution_runtime_policy getenv settings workflow execution task agent maxima = Inr p"
  obtains s6 s7 where "settings_ok settings \<Longrightarrow> policy_ok (fst s6)"
    and "apply_policy_values (env_values getenv) ''environment'' s6 = Inr s7"
    and "p = resolved_policy (lift_always_on (run_mode_of execution) s7)"
proof -
  from assms obtain s1 s2 s3 s4 s5 s6 s7 where
    s: "apply_opt (map_option (\<lambda>w. (''workflow.metadata.runtime_policy'', wd_metadata w)) workflow)
           (settings_policy settings) = Inr s1"
      "(case workflow of Some w \<Rightarrow> if maxima then apply_members (member_sources w) s1 else Inr s1
           | None \<Rightarrow> Inr s1) = Inr s2"
      "apply_opt (map_option (\<lambda>t. (''task:'' @ td_id t @ ''.metadata.runtime_policy'', td_metadata t)) task) s2 = Inr s3"
      "apply_opt (map_option (\<lambda>a. (''agent:'' @ ad_id a @ ''.metadata.runtime_policy'', ad_metadata a)) agent) s3 = Inr s4"
      "apply_opt (map_option (\<lambda>e. (''execution.trigger_payload'', e_trigger_payload e)) execution) s4 = Inr s5"
      "apply_opt (map_option (\<lambda>e. (''execution.input_payload'', e_input_payload e)) execution) s5 = Inr s6"
    and s7: "apply_policy_values (env_values getenv) ''environment'' s6 = Inr s7"
      "p = resolved_policy (lift_always_on (run_mode_of execution) s7)"
    unfolding resolve_execution_runtime_policy_def by (auto elim!: sbind_InrE)
  have "policy_ok (fst s6)" if "settings_ok settings"
  proof -
    have "policy_ok (fst s1)" using apply_opt_ok [OF s(1) settings_policy_ok [OF that]] .
    then have "policy_ok (fst s2)" using s(2) by (auto dest: apply_members_ok split: option.splits if_splits)
    then show ?thesis using s(3-6) by (blast dest: apply_opt_ok)
  qed
  then show ?thesis using s7 by (rule that)
qed

lemma policy_ok_int: "policy_ok p \<Longrightarrow> k \<in> set int_keys \<Longrightarrow> \<exists>n. 0 < n \<and> jget p k = VInt n"
  by (auto simp: policy_ok_def entry_ok_def)

lemma policy_ok_float: "policy_ok p \<Longrightarrow> k \<in> set float_keys \<Longrightarrow> \<exists>f. fless (Fin 0) f \<and> jget p k = VFloat f"
  by (auto simp: policy_ok_def entry_ok_def)

text \<open>
  Whatever the workflow, its tasks and agents, the trigger, the input and the environment
  contain, the runtime policy that comes out has only positive timeouts and intervals, provided
  the operator's settings are positive (which the settings validator checks); the hard timeout
  alone may be absent, and only for an always-on execution whose cap nobody set explicitly.
\<close>

theorem runtime_policy_positive:
  assumes "resolve_execution_runtime_policy getenv settings workflow execution task agent maxima = Inr p"
    and "settings_ok settings"
  shows "0 < rp_idle_timeout_seconds p \<and> 0 < rp_run_timeout_seconds p \<and>
    0 < rp_codex_cli_timeout_seconds p \<and> fless (Fin 0) (rp_llm_request_timeout_seconds p) \<and>
    fless (Fin 0) (rp_heartbeat_interval_seconds p) \<and>
    (case rp_worker_hard_timeout_seconds p of
       Some n \<Rightarrow> 0 < n
     | None \<Rightarrow> run_mode_of execution = VStr ''always_on'' \<and>
         map_of (rp_source_map p) ''worker_hard_timeout_seconds'' = Some ''execution_lifecycle.always_on'')"
proof (rule resolve_policyE [OF assms(1)])
  fix s6 s7
  assume "settings_ok settings \<Longrightarrow> policy_ok (fst s6)"
    and a: "apply_policy_values (env_values getenv) ''environment'' s6 = Inr s7"
    and p: "p = resolved_policy (lift_always_on (run_mode_of execution) s7)"
  then have ok: "policy_ok (fst s7)" using assms(2) apply_policy_ok(1) [OF a] by blast
  show ?thesis
    using policy_ok_int [OF ok, of "''worker_hard_timeout_seconds''"]
      policy_ok_int [OF ok, of "''idle_timeout_seconds''"] policy_ok_int [OF ok, of "''run_timeout_seconds''"]
      policy_ok_int [OF ok, of "''codex_cli_timeout_seconds''"]
      policy_ok_float [OF ok, of "''llm_request_timeout_seconds''"]
      policy_ok_float [OF ok, of "''heartbeat_interval_seconds''"]
    by (auto simp: p resolved_policy_def lift_always_on_def Let_def int_keys_def float_keys_def)
qed

definition sample_settings :: RuntimeSettings where
  "sample_settings = \<lparr>rs_agent_run_timeout_seconds = 7200, rs_agent_activity_idle_timeout_seconds = 600,
     rs_codex_cli_timeout_seconds = 1800, rs_llm_request_timeout_seconds = Fin 15\<rparr>"

definition sample_env :: "string \<Rightarrow> string option" where
  "sample_env name = (if name = ''AGENCY_EXECUTION_TIMEOUT_SECONDS'' then Some ''120.5'' else None)"

lemma positive_None [simp]: "positive_int VNone = Inr None" "positive_float VNone = Inr None"
  by (simp_all add: positive_int_def positive_float_def)

lemma apply_nothing [simp]: "apply_policy_values [] source st = Inr st"
  by (simp add: apply_policy_values_def jget_def py_or_def set_policy_def)

lemma apply_no_values: "(\<And>k. jget values k = VNone) \<Longrightarrow> apply_policy_values values source st = Inr st"
  by (simp add: apply_policy_values_def py_or_def set_policy_def)

lemma env_no_values: "apply_policy_values (env_values (\<lambda>_. None)) source st = Inr st"
  by (rule apply_no_values) (simp add: env_values_def jget_def)

lemma sample_policy_resolved:
  "resolve_execution_runtime_policy (\<lambda>_. None) sample_settings None (Some (always_on_execution sample_execution))
     None None False = Inr (resolved_policy (lift_always_on (VStr ''always_on'') (settings_policy sample_settings)))"
  by (simp add: resolve_execution_runtime_policy_def apply_opt_def env_no_values run_mode_of_def
      always_on_execution_def metadata_policy_def jget_def dict_or_empty_def)

theorem runtime_policy_positive_witness:
  "0 < rp_idle_timeout_seconds (resolved_policy (lift_always_on (VStr ''always_on'') (settings_policy sample_settings))) \<and>
   rp_worker_hard_timeout_seconds (resolved_policy (lift_always_on (VStr ''always_on'') (settings_policy sample_settings))) = None"
  using runtime_policy_positive [OF sample_policy_resolved]
  by (simp add: settings_ok_def sample_settings_def resolved_policy_def lift_always_on_def settings_policy_def
      jget_def Let_def)

lemma set_policy_other:
  "k \<noteq> k' \<Longrightarrow> jget (fst (set_policy src k v st)) k' = jget (fst st) k'"
  "k \<noteq> k' \<Longrightarrow> map_of (snd (set_policy src k v st)) k' = map_of (snd st) k'"
  by (auto simp: set_policy_def update_conv' split: option.split)

lemma set_policy_same:
  "jget (fst (set_policy src k (Some v) st)) k = v" "map_of (snd (set_policy src k (Some v) st)) k = Some src"
  by (simp_all add: set_policy_def)

text \<open>
  The operator's environment has the last word: a positive number in
  \<open>AGENCY_EXECUTION_TIMEOUT_SECONDS\<close> is the hard timeout of every execution, always-on or not,
  whatever workflow, task, agent, trigger or input ask for, and it is recorded as the source.
\<close>

theorem environment_timeout_wins:
  assumes "resolve_execution_runtime_policy getenv settings workflow execution task agent maxima = Inr p"
    and "getenv ''AGENCY_EXECUTION_TIMEOUT_SECONDS'' = Some s" and "s \<noteq> []"
    and "positive_int (VStr s) = Inr (Some n)"
  shows "rp_worker_hard_timeout_seconds p = Some n \<and>
    map_of (rp_source_map p) ''worker_hard_timeout_seconds'' = Some ''environment''"
proof (rule resolve_policyE [OF assms(1)])
  fix s6 s7
  assume a: "apply_policy_values (env_values getenv) ''environment'' s6 = Inr s7"
    and p: "p = resolved_policy (lift_always_on (run_mode_of execution) s7)"
  have "jget (env_values getenv) ''worker_hard_timeout_seconds'' = VStr s"
    using assms(2) by (simp add: env_values_def jget_def)
  with a assms(3,4) have "jget (fst s7) ''worker_hard_timeout_seconds'' = VInt n \<and>
      map_of (snd s7) ''worker_hard_timeout_seconds'' = Some ''environment''"
    unfolding apply_policy_values_def Let_def
    by (elim sbind_InrE) (auto simp: py_or_def set_policy_other set_policy_same)
  then show ?thesis by (simp add: p resolved_policy_def lift_always_on_def Let_def)
qed

lemma sample_env_timeout: "positive_int (VStr ''120.5'') = Inr (Some 120)"
proof -
  have "\<bar>241 / 2 :: rat\<bar> < float_bound"
    using float_bound_large by (rule less_le_trans [rotated]) simp
  moreover have "\<lfloor>241 / 2 :: rat\<rfloor> = 120" by (rule floor_unique) simp_all
  ultimately show ?thesis
    by (simp add: positive_int_def float_str_def strip_def is_space_def lower_def lower_char_def float_number_def
        digits_or_none_def digit_val_def trunc_def)
qed

lemma sample_env_resolved:
  "resolve_execution_runtime_policy sample_env sample_settings None None None None False =
     Inr (resolved_policy (lift_always_on VNone (dset ''worker_hard_timeout_seconds'' (VInt 120)
       (fst (settings_policy sample_settings)), dset ''worker_hard_timeout_seconds'' ''environment''
       (snd (settings_policy sample_settings)))))"
proof -
  have "apply_policy_values (env_values sample_env) ''environment'' st =
      Inr (set_policy ''environment'' ''worker_hard_timeout_seconds'' (Some (VInt 120)) st)" for st
    using sample_env_timeout
    by (simp add: apply_policy_values_def env_values_def sample_env_def jget_def py_or_def set_policy_def)
  then show ?thesis
    by (simp add: resolve_execution_runtime_policy_def apply_opt_def run_mode_of_def set_policy_def)
qed

theorem environment_timeout_wins_witness:
  "rp_worker_hard_timeout_seconds (resolved_policy (lift_always_on VNone (dset ''worker_hard_timeout_seconds''
     (VInt 120) (fst (settings_policy sample_settings)), dset ''worker_hard_timeout_seconds'' ''environment''
     (snd (settings_policy sample_settings))))) = Some 120"
  using environment_timeout_wins [OF sample_env_resolved _ _ sample_env_timeout]
  by (simp add: sample_env_def)

end
