(* ===== verification/Control_Plane.thy ===== *)
theory Control_Plane
  imports Containers Execution_Lifecycle
begin

text \<open>
  \<open>app/runtime/control_plane.py\<close>, first part: the commands on an execution (queue, pause, resume,
  cancel, approve, reject, heartbeat). Every command is one function of the world, with all its
  reads, writes and events in the order of the code.
\<close>

section \<open>The control plane\<close>

record plane =
  p_execution_isolation_enabled :: bool
  p_runtime_revision_shadow_mode :: bool
  p_cancel_outdated_executions :: bool
  p_worker_id :: string
  p_stale_after_seconds :: int
  p_fromiso :: "string \<Rightarrow> datetime option"
  p_manager :: "DockerRuntimeManager option"
  p_get_workflow :: "string \<Rightarrow> WorkflowDefinition option"
  p_has_operations :: bool

definition LIVE_CONTAINER_STATUSES :: "string list" where
  "LIVE_CONTAINER_STATUSES = [''created'', ''running'', ''restarting'', ''paused'']"

definition EXITED_CONTAINER_STATUSES :: "string list" where
  "EXITED_CONTAINER_STATUSES = [''exited'', ''dead'']"

definition execution_host_for :: "plane \<Rightarrow> Execution \<Rightarrow> string" where
  "execution_host_for p execution =
    (if p_execution_isolation_enabled p then EXECUTION_HOST_DOCKER
     else case as_str (jget (e_metadata execution) ''execution_host'') of
       None \<Rightarrow> EXECUTION_HOST_LOCAL
     | Some requested_host \<Rightarrow>
         let normalized_host = lower (strip requested_host)
         in if normalized_host \<in> {EXECUTION_HOST_LOCAL, EXECUTION_HOST_DOCKER} then normalized_host
            else EXECUTION_HOST_LOCAL)"

definition reject_unresolved_wait :: "string \<Rightarrow> world \<Rightarrow> exc option" where
  "reject_unresolved_wait execution_id w =
    (case list_execution_waits execution_id (Some PENDING) (db w) of
       [] \<Rightarrow> None
     | wait # _ \<Rightarrow> Some (ValueError (''Execution '' @ quote execution_id @ '' has unresolved '' @
         wait_kind_value (w_kind wait) @ '' wait '' @ quote (w_id wait) @
         ''. Resolve the wait before starting or resuming the execution.'')))"

text \<open>\<open>asyncio.create_task\<close> schedules the run; \<open>tasks\<close> holds the executions whose task is not done.\<close>

definition create_task :: "string \<Rightarrow> world \<Rightarrow> world" where
  "create_task execution_id w =
    (if execution_id \<in> set (tasks w) then w else w\<lparr>tasks := tasks w @ [execution_id]\<rparr>)"

definition queue_start :: "string \<Rightarrow> Execution act" where
  "queue_start execution_id w =
    (case get_execution execution_id (db w) of
       None \<Rightarrow> (Inl (execution_not_found execution_id), w)
     | Some execution \<Rightarrow>
         (case reject_terminal_execution_replay execution of
            Some e \<Rightarrow> (Inl e, w)
          | None \<Rightarrow>
              (case reject_unresolved_wait execution_id w of
                 Some e \<Rightarrow> (Inl e, w)
               | None \<Rightarrow>
                   let execution1 = execution\<lparr>e_status := QUEUED\<rparr>
                   in (Inr execution1, create_task execution_id (db_update_execution execution1 w)))))"

definition resume :: "string \<Rightarrow> Execution act" where
  "resume execution_id w =
    (case get_execution execution_id (db w) of
       None \<Rightarrow> (Inl (execution_not_found execution_id), w)
     | Some execution \<Rightarrow>
         (case reject_terminal_execution_replay execution of
            Some e \<Rightarrow> (Inl e, w)
          | None \<Rightarrow>
              (case reject_unresolved_wait execution_id w of
                 Some e \<Rightarrow> (Inl e, w)
               | None \<Rightarrow>
                   andthen (registry_resume execution_id w) (\<lambda>execution1 w1.
                     if e_status execution1 \<in> {RUNNING, QUEUED}
                     then andthen (queue_start execution_id w1) (\<lambda>_ w2. (Inr execution1, w2))
                     else (Inr execution1, w1)))))"

section \<open>Closing waits\<close>

text \<open>One round of the loop: the claimed waits so far and the store.\<close>

definition close_wait ::
  "datetime \<Rightarrow> string \<Rightarrow> ExecutionWait \<Rightarrow> ExecutionWait list \<times> store \<Rightarrow> ExecutionWait list \<times> store" where
  "close_wait now why wait acc =
    (let (closed, s) = acc;
         ((resolved, claimed), s') = resolve_execution_wait now (w_id wait) ExecutionWaitStatus.CANCELLED
           (take 255 (why @ '':'' @ w_id wait)) [(''reason'', VStr why)] (Some ''execution_control_plane'') s
     in (closed @ (case resolved of Some r \<Rightarrow> if claimed then [r] else [] | None \<Rightarrow> []), s'))"

definition close_pending_waits ::
  "Execution \<Rightarrow> string \<Rightarrow> ExecutionWaitKind list option \<Rightarrow> bool \<Rightarrow> world \<Rightarrow> Execution \<times> world" where
  "close_pending_waits execution why kinds set_paused w =
    (let pending = filter (\<lambda>wait. case kinds of None \<Rightarrow> True | Some ks \<Rightarrow> w_kind wait \<in> set ks)
           (list_execution_waits (e_id execution) (Some PENDING) (db w));
         (closed, s) = fold (close_wait (clock w) why) pending ([], db w);
         w1 = w\<lparr>db := s\<rparr>
     in if closed = [] then (execution, w1)
        else
          let metadata = (if \<exists>c \<in> set closed. waits_on execution (w_id c)
                          then dpop ''active_wait'' (e_metadata execution) else e_metadata execution);
              execution1 = execution\<lparr>e_metadata := dset ''last_resolved_wait''
                             (last_resolved_entry (last closed)) metadata\<rparr>;
              execution2 = (if set_paused then execution1\<lparr>e_status := PAUSED\<rparr> else execution1)
          in (execution2, db_update_execution execution2 w1))"

definition pause :: "string \<Rightarrow> Execution act" where
  "pause execution_id w =
    (case get_execution execution_id (db w) of
       None \<Rightarrow> (Inl (execution_not_found execution_id), w)
     | Some execution \<Rightarrow>
         registry_pause execution_id
           (if e_status execution = SLEEPING
            then snd (close_pending_waits execution ''operator_pause'' (Some [SLEEP]) True w) else w))"

section \<open>Cancellation\<close>

definition artifact_json :: "ExecutionArtifact \<Rightarrow> pyval" where
  "artifact_json artifact =
    VDict [(''artifact_id'', VStr (art_id artifact)), (''event_id'', opt_str (art_event_id artifact)),
           (''name'', VStr (art_name artifact)), (''artifact_type'', VStr (art_type artifact)),
           (''uri'', opt_str (art_uri artifact)), (''media_type'', opt_str (art_media_type artifact)),
           (''size_bytes'', opt_int (art_size_bytes artifact))]"

definition partial_result_preservation_snapshot :: "Execution \<Rightarrow> string \<Rightarrow> world \<Rightarrow> json option" where
  "partial_result_preservation_snapshot execution why w =
    (let arts = list_artifacts (e_id execution) (db w);
         node_outputs = (case e_output_payload execution of
             None \<Rightarrow> [] | Some d \<Rightarrow> dict_or_empty (jget d ''node_outputs''));
         has_output = (e_output_payload execution \<noteq> None)
     in if \<not> has_output \<and> arts = [] then None
        else Some
          [(''recorded_at'', VStr (isoformat (clock w))), (''reason'', VStr why),
           (''execution_id'', VStr (e_id execution)), (''workflow_id'', VStr (e_workflow_id execution)),
           (''goal_id'', opt_str (e_goal_id execution)),
           (''output_payload_present'', VBool has_output),
           (''output_payload_keys'', VList (case e_output_payload execution of
               None \<Rightarrow> [] | Some d \<Rightarrow> map VStr (sort (dkeys d)))),
           (''node_output_ids'', VList (map VStr (sort (dkeys node_outputs)))),
           (''artifact_count'', VInt (int (length arts))),
           (''artifacts'', VList (map artifact_json arts))])"

definition preserve :: "json option \<Rightarrow> Execution \<Rightarrow> Execution" where
  "preserve preservation execution =
    (case preservation of None \<Rightarrow> execution
     | Some snapshot \<Rightarrow> execution\<lparr>e_metadata :=
         dset ''partial_result_preservation'' (VDict snapshot) (e_metadata execution)\<rparr>)"

definition cancel :: "string \<Rightarrow> Execution act" where
  "cancel execution_id w =
    (case get_execution execution_id (db w) of
       None \<Rightarrow> (Inl (execution_not_found execution_id), w)
     | Some execution \<Rightarrow>
         if e_status execution \<in> TERMINAL_EXECUTION_STATUSES \<or> e_status execution = CANCELLING
         then (Inr execution, w)
         else
           let (execution1, w1) = close_pending_waits execution ''operator_cancel'' None False w;
               execution2 = (case get_execution execution_id (db w1) of Some x \<Rightarrow> x | None \<Rightarrow> execution1);
               preservation = partial_result_preservation_snapshot execution2 ''cancel_requested'' w1;
               execution3 = (preserve preservation execution2)\<lparr>e_status := CANCELLING\<rparr>;
               w2 = db_update_execution execution3 w1
           in andthen (registry_cancel execution_id w2) (\<lambda>cancelled w3.
                case preservation of
                  None \<Rightarrow> (Inr cancelled, w3)
                | Some _ \<Rightarrow>
                    let cancelled1 = preserve preservation cancelled
                    in (Inr cancelled1, db_update_execution cancelled1 w3)))"

section \<open>Approval decisions\<close>

text \<open>
  \<open>_wake_after_approval_decision\<close> awaits the task that suspended the execution and then its lock.
  What the rest of the program does meanwhile is the argument \<open>others\<close>, applied at both points.
\<close>

definition wake_after_approval_decision :: "(world \<Rightarrow> world) \<Rightarrow> string \<Rightarrow> unit act" where
  "wake_after_approval_decision others execution_id w =
    (case get_execution execution_id (db w) of
       None \<Rightarrow> (Inr (), w)
     | Some execution0 \<Rightarrow>
         (case as_dict (jget (e_metadata execution0) ''active_wait'') of
            None \<Rightarrow> (Inr (), w)
          | Some active0 \<Rightarrow>
              (case as_str (jget active0 ''wait_id'') of
                 None \<Rightarrow> (Inr (), w)
               | Some wait_id \<Rightarrow>
                   (case get_execution_wait wait_id (db w) of
                      None \<Rightarrow> (Inr (), w)
                    | Some wait \<Rightarrow>
                        if w_kind wait \<noteq> APPROVAL \<or> w_status wait = PENDING then (Inr (), w)
                        else
                          let w1 = (if execution_id \<in> set (tasks w) then others w else w) in
                          (case get_execution execution_id (db w1) of
                             None \<Rightarrow> (Inr (), w1)
                           | Some execution \<Rightarrow>
                               if \<not> waits_on execution wait_id then (Inr (), w1)
                               else case py_dict (jget (e_input_payload execution) ''wait_resolutions'') of
                                 Inl e \<Rightarrow> (Inl e, w1)
                               | Inr wait_resolutions \<Rightarrow>
                                   let w2 = others (emit_for (e_id execution) (e_workflow_id execution) EXECUTION_WOKEN
                                         (woken_payload wait True)
                                         (db_update_execution (woken_execution wait_id wait wait_resolutions execution) w1))
                                   in andthen (resume execution_id w2) (\<lambda>_ w3. (Inr (), w3)))))))"

definition decide ::
  "(string \<Rightarrow> string \<Rightarrow> string option \<Rightarrow> world \<Rightarrow> bool \<times> world) \<Rightarrow> (world \<Rightarrow> world) \<Rightarrow> string \<Rightarrow> string \<Rightarrow>
   string option \<Rightarrow> bool act" where
  "decide manager others execution_id tool_id why w =
    (let (decided, w1) = manager execution_id tool_id why w
     in if decided then andthen (wake_after_approval_decision others execution_id w1) (\<lambda>_ w2. (Inr True, w2))
        else (Inr False, w1))"

definition plane_approve :: "(world \<Rightarrow> world) \<Rightarrow> string \<Rightarrow> string \<Rightarrow> string option \<Rightarrow> bool act" where
  "plane_approve = decide approve"

definition plane_reject :: "(world \<Rightarrow> world) \<Rightarrow> string \<Rightarrow> string \<Rightarrow> string option \<Rightarrow> bool act" where
  "plane_reject = decide reject"

definition plane_heartbeat :: "plane \<Rightarrow> string \<Rightarrow> world \<Rightarrow> Execution option \<times> world" where
  "plane_heartbeat p execution_id w =
    (let (e, s) = heartbeat (clock w) execution_id (p_worker_id p) (db w) in (e, w\<lparr>db := s\<rparr>))"

section \<open>What the commands leave alone\<close>

lemma emit_state_id [simp]: "st_execution_id (fst (snd (emit_payload st ty payload w))) = st_execution_id st"
  by (simp add: emit_payload_def emit_def next_sequence_def Let_def case_prod_unfold)

lemma engine_emit_simps [simp]:
  "clock (engine_emit i st ty payload w) = clock w" "tasks (engine_emit i st ty payload w) = tasks w"
  "daemon (engine_emit i st ty payload w) = daemon w"
  "operations (engine_emit i st ty payload w) = operations w"
  "waits (db (engine_emit i st ty payload w)) = waits (db w)"
  "approval_requests (db (engine_emit i st ty payload w)) = approval_requests (db w)"
  "artifacts (db (engine_emit i st ty payload w)) = artifacts (db w)"
  by (simp_all add: engine_emit_def emit_payload_def Let_def case_prod_unfold)

lemma engine_emit_kept:
  assumes "keyed (db w)"
  shows "executions_kept (db w) (db (engine_emit i st ty payload w))"
  using emit_executions(2) [OF assms] by (simp add: engine_emit_def emit_payload_def Let_def case_prod_unfold)

lemma engine_emit_ok:
  assumes "world_ok w" and "st_execution_id st = i"
  shows "world_ok (engine_emit i st ty payload w)"
proof -
  have "keyed (db (engine_emit i st ty payload w))"
    using emit_executions(3) assms(1)
    by (simp add: world_ok_def engine_emit_def emit_payload_def Let_def case_prod_unfold)
  moreover have "states (engine_emit i st ty payload w) =
      dset i (fst (snd (emit_payload st ty payload w))) (states w)"
    by (simp add: engine_emit_def Let_def case_prod_unfold) (simp add: emit_payload_def)
  ultimately show ?thesis using assms by (auto simp: world_ok_def)
qed

lemma engine_emit_events:
  "st_execution_id st = i \<Longrightarrow> \<exists>ev. ev_event_type ev = ty \<and>
     list_events i (db (engine_emit i st ty payload w)) = list_events i (db w) @ [ev]"
  by (auto simp: engine_emit_def emit_payload_def Let_def case_prod_unfold emit_appends)

lemma new_state_simps [simp]:
  "db (snd (new_state i wid w)) = db w" "clock (snd (new_state i wid w)) = clock w"
  "tasks (snd (new_state i wid w)) = tasks w" "daemon (snd (new_state i wid w)) = daemon w"
  "states (snd (new_state i wid w)) = states w" "operations (snd (new_state i wid w)) = operations w"
  "st_execution_id (fst (new_state i wid w)) = i"
  by (simp_all add: new_state_def Let_def case_prod_unfold)

lemma hydrate_id [simp]: "st_execution_id (hydrate_state_position w st) = st_execution_id st"
  by (simp add: hydrate_state_position_def Let_def split: list.split)

text \<open>The first step of every engine command.\<close>

lemma require_frame [simp]:
  "db (snd (require_execution_and_state i w)) = db w" "clock (snd (require_execution_and_state i w)) = clock w"
  by (simp_all add: require_execution_and_state_def Let_def case_prod_unfold split: option.split)

lemma require_found:
  assumes "world_ok w" and "get_execution i (db w) = Some e"
  obtains st w1 where "require_execution_and_state i w = (Inr (e, st), w1)" and "db w1 = db w"
    and "clock w1 = clock w" and "tasks w1 = tasks w" and "daemon w1 = daemon w"
    and "world_ok w1" and "st_execution_id st = i"
proof -
  obtain fresh w0 where f: "new_state i (e_workflow_id e) w = (fresh, w0)" by fastforce
  define st where "st = hydrate_state_position w0 (case map_of (states w0) i of Some st \<Rightarrow> st | None \<Rightarrow> fresh)"
  have w0: "db w0 = db w" "clock w0 = clock w" "tasks w0 = tasks w" "daemon w0 = daemon w" "states w0 = states w"
    "st_execution_id fresh = i"
    using new_state_simps [of i "e_workflow_id e" w] by (simp_all add: f)
  have "require_execution_and_state i w = (Inr (e, st), w0\<lparr>states := dset i st (states w0)\<rparr>)"
    using assms(2) by (simp add: require_execution_and_state_def f st_def Let_def)
  moreover have "world_ok (w0\<lparr>states := dset i st (states w0)\<rparr>) \<and> st_execution_id st = i"
    using assms(1) w0 by (auto simp: world_ok_def st_def split: option.splits if_splits)
  ultimately show ?thesis using that w0 by simp
qed

lemma require_missing:
  "get_execution i (db w) = None \<Longrightarrow> require_execution_and_state i w = (Inl (execution_not_found i), w)"
  by (simp add: require_execution_and_state_def)

lemma world_ok_id: "world_ok w \<Longrightarrow> get_execution i (db w) = Some e \<Longrightarrow> e_id e = i"
  unfolding world_ok_def by (blast dest: keyedD)

lemma world_ok_update: "world_ok w \<Longrightarrow> world_ok (db_update_execution e w)"
  by (simp add: world_ok_def)

lemma world_ok_touches:
  "only_touches i w w' \<Longrightarrow> states w' = states w \<Longrightarrow> world_ok w \<Longrightarrow> world_ok w'"
  by (simp add: world_ok_def only_touches_def)

text \<open>
  The effect of writing the execution and then emitting on its state, which is what every engine
  command ends with.
\<close>

lemma update_and_emit:
  assumes ok: "world_ok w" and st: "st_execution_id st = i" and e: "e_id e = i"
    and w': "w' = engine_emit i st ty payload (db_update_execution e w)"
  shows "only_touches i w w'" "world_ok w'" "tasks w' = tasks w"
    "\<exists>e'. get_execution i (db w') = Some e' \<and> same_but_activity (e\<lparr>e_updated_at := clock w\<rparr>) e'"
    "\<exists>ev. ev_event_type ev = ty \<and> list_events i (db w') = list_events i (db w) @ [ev]"
proof -
  let ?u = "db_update_execution e w"
  have k: "keyed (db w)" using ok by (simp add: world_ok_def)
  have u: "only_touches i w ?u" by (rule only_touches_update [OF k e])
  have ku: "keyed (db ?u)" using k by simp
  show "only_touches i w w'" unfolding w'
    by (rule only_touches_trans [OF u only_touches_engine_emit [OF ku st]])
  show "world_ok w'" unfolding w' by (rule engine_emit_ok [OF world_ok_update [OF ok] st])
  show "tasks w' = tasks w" by (simp add: w')
  have "get_execution i (db ?u) = Some (e\<lparr>e_updated_at := clock w\<rparr>)" by (simp add: e)
  from executions_keptD [OF engine_emit_kept [OF ku] this, of i st ty payload]
  show "\<exists>e'. get_execution i (db w') = Some e' \<and> same_but_activity (e\<lparr>e_updated_at := clock w\<rparr>) e'"
    unfolding w' .
  show "\<exists>ev. ev_event_type ev = ty \<and> list_events i (db w') = list_events i (db w) @ [ev]"
    unfolding w' using engine_emit_events [OF st, of ty payload ?u] by simp
qed

lemma not_terminal_replay: "reject_terminal_execution_replay e = None \<longleftrightarrow> e_status e \<notin> TERMINAL_EXECUTION_STATUSES"
  by (simp add: reject_terminal_execution_replay_def)

lemma only_touches_eqs:
  "db w1 = db w \<Longrightarrow> clock w1 = clock w \<Longrightarrow> daemon w1 = daemon w \<Longrightarrow> only_touches i w1 w' \<Longrightarrow> only_touches i w w'"
  by (simp add: only_touches_def)

text \<open>The engine's resume of a native execution that is not terminal.\<close>

lemma registry_resume_effect:
  assumes ok: "world_ok w" and e: "get_execution i (db w) = Some e" and nat: "e_runtime_adapter_id e = ''native''"
    and nt: "e_status e \<notin> TERMINAL_EXECUTION_STATUSES"
  obtains w' e' where "registry_resume i w = (Inr (e\<lparr>e_status := QUEUED\<rparr>), w')"
    and "only_touches i w w'" and "world_ok w'" and "tasks w' = tasks w"
    and "get_execution i (db w') = Some e'" and "e_status e' = QUEUED"
    and "\<exists>ev. ev_event_type ev = EXECUTION_RESUMED \<and> list_events i (db w') = list_events i (db w) @ [ev]"
proof -
  obtain st w1 where r: "require_execution_and_state i w = (Inr (e, st), w1)" "db w1 = db w" "clock w1 = clock w"
    "tasks w1 = tasks w" "daemon w1 = daemon w" and ok1: "world_ok w1" and "st_execution_id st = i"
    by (rule require_found [OF ok e])
  then have st: "st_execution_id (st\<lparr>st_paused := False\<rparr>) = i" by simp
  have eid: "e_id (e\<lparr>e_status := QUEUED\<rparr>) = i" using world_ok_id [OF ok e] by simp
  define w' where "w' = engine_emit i (st\<lparr>st_paused := False\<rparr>) EXECUTION_RESUMED [(''execution_id'', VStr i)]
      (db_update_execution (e\<lparr>e_status := QUEUED\<rparr>) w1)"
  note eff = update_and_emit [OF ok1 st eid w'_def]
  have "registry_resume i w = (Inr (e\<lparr>e_status := QUEUED\<rparr>), w')"
    using nt by (simp add: registry_resume_def dispatch_def e nat resume_execution_def r(1)
        not_terminal_replay [THEN iffD2] w'_def Let_def)
  moreover obtain e' where "get_execution i (db w') = Some e'" "e_status e' = QUEUED"
    using eff(4) same_but_activityD(2) by force
  moreover have "only_touches i w w'" by (rule only_touches_eqs [OF r(2,3,5) eff(1)])
  ultimately show ?thesis using that eff(2,3,5) r(2,4) by simp
qed

lemma reject_unresolved_eq:
  "reject_unresolved_wait i w = None \<longleftrightarrow> list_execution_waits i (Some PENDING) (db w) = []"
  by (simp add: reject_unresolved_wait_def split: list.split)

lemma list_waits_eq: "waits s' = waits s \<Longrightarrow> list_execution_waits i st s' = list_execution_waits i st s"
  by (simp add: list_execution_waits_def)

lemma create_task_simps [simp]:
  "db (create_task i w) = db w" "clock (create_task i w) = clock w" "states (create_task i w) = states w"
  "daemon (create_task i w) = daemon w" "i \<in> set (tasks (create_task i w))"
  by (simp_all add: create_task_def)

lemma only_touches_task: "only_touches i w w' \<Longrightarrow> only_touches i w (create_task j w')"
  by (simp add: only_touches_def)

lemma queue_start_effect:
  assumes "world_ok w" and e: "get_execution i (db w) = Some e"
    and "e_status e \<notin> TERMINAL_EXECUTION_STATUSES" and "list_execution_waits i (Some PENDING) (db w) = []"
  shows "queue_start i w = (Inr (e\<lparr>e_status := QUEUED\<rparr>),
      create_task i (db_update_execution (e\<lparr>e_status := QUEUED\<rparr>) w))"
    and "only_touches i w (create_task i (db_update_execution (e\<lparr>e_status := QUEUED\<rparr>) w))"
    and "e_id e = i"
proof -
  show eid: "e_id e = i" by (rule world_ok_id [OF assms(1,2)])
  show "queue_start i w = (Inr (e\<lparr>e_status := QUEUED\<rparr>),
      create_task i (db_update_execution (e\<lparr>e_status := QUEUED\<rparr>) w))"
    using assms(3,4) by (simp add: queue_start_def e not_terminal_replay [THEN iffD2] reject_unresolved_eq [THEN iffD2] Let_def)
  show "only_touches i w (create_task i (db_update_execution (e\<lparr>e_status := QUEUED\<rparr>) w))"
    using assms(1) eid by (intro only_touches_task only_touches_update) (simp_all add: world_ok_def)
qed

text \<open>The control plane's resume.\<close>

definition resumed :: "string \<Rightarrow> world \<Rightarrow> world \<Rightarrow> bool" where
  "resumed i w w' \<longleftrightarrow> only_touches i w w' \<and> world_ok w' \<and> i \<in> set (tasks w') \<and>
     (\<exists>e'. get_execution i (db w') = Some e' \<and> e_status e' = QUEUED) \<and>
     (\<exists>ev. ev_event_type ev = EXECUTION_RESUMED \<and> list_events i (db w') = list_events i (db w) @ [ev])"

lemma resume_effect:
  assumes ok: "world_ok w" and e: "get_execution i (db w) = Some e" and nat: "e_runtime_adapter_id e = ''native''"
    and nt: "e_status e \<notin> TERMINAL_EXECUTION_STATUSES" and np: "list_execution_waits i (Some PENDING) (db w) = []"
  shows "\<exists>w'. resume i w = (Inr (e\<lparr>e_status := QUEUED\<rparr>), w') \<and> resumed i w w'"
proof -
  obtain w1 e1 where r: "registry_resume i w = (Inr (e\<lparr>e_status := QUEUED\<rparr>), w1)" "only_touches i w w1" "world_ok w1"
    "tasks w1 = tasks w" "get_execution i (db w1) = Some e1" "e_status e1 = QUEUED"
    "\<exists>ev. ev_event_type ev = EXECUTION_RESUMED \<and> list_events i (db w1) = list_events i (db w) @ [ev]"
    by (rule registry_resume_effect [OF ok e nat nt])
  have np1: "list_execution_waits i (Some PENDING) (db w1) = []"
    using np r(2) list_waits_eq unfolding only_touches_def by metis
  have nt1: "e_status e1 \<notin> TERMINAL_EXECUTION_STATUSES" using r(6) by (simp add: TERMINAL_EXECUTION_STATUSES_def)
  note q = queue_start_effect [OF r(3,5) nt1 np1]
  define w' where "w' = create_task i (db_update_execution (e1\<lparr>e_status := QUEUED\<rparr>) w1)"
  have "resume i w = (Inr (e\<lparr>e_status := QUEUED\<rparr>), w')"
    using nt np q(1) by (simp add: resume_def e r(1) not_terminal_replay [THEN iffD2] reject_unresolved_eq [THEN iffD2] w'_def)
  moreover have "resumed i w w'"
    unfolding resumed_def
  proof (intro conjI)
    show "only_touches i w w'" unfolding w'_def by (rule only_touches_trans [OF r(2) q(2)])
    show "world_ok w'" using world_ok_update [OF r(3)] by (simp add: w'_def world_ok_def)
  qed (use r(7) q(3) in \<open>simp_all add: w'_def\<close>)
  ultimately show ?thesis by blast
qed

text \<open>The unconditional half of the contract: no command of this chain touches ledger or clock.\<close>

lemma andthen_snd: "snd (andthen r f) = (case fst r of Inl _ \<Rightarrow> snd r | Inr x \<Rightarrow> snd (f x (snd r)))"
  by (cases r; cases "fst r") auto

lemma dispatch_snd: "snd (dispatch operation native i w) = w \<or> snd (dispatch operation native i w) = snd (native i w)"
  by (simp add: dispatch_def split: option.split)

lemma resume_execution_ledger:
  "waits (db (snd (resume_execution i w))) = waits (db w)" "clock (snd (resume_execution i w)) = clock w"
  by (simp_all add: resume_execution_def andthen_snd Let_def split: sum.split prod.split option.split)

lemma queue_start_ledger:
  "waits (db (snd (queue_start i w))) = waits (db w)" "clock (snd (queue_start i w)) = clock w"
  by (simp_all add: queue_start_def Let_def split: option.split)

lemma registry_resume_ledger:
  "waits (db (snd (registry_resume i w))) = waits (db w)" "clock (snd (registry_resume i w)) = clock w"
  using dispatch_snd [of "''resume_execution''" resume_execution i w] resume_execution_ledger [of i w]
  by (auto simp: registry_resume_def)

lemma resume_ledger:
  "waits (db (snd (resume i w))) = waits (db w)" "clock (snd (resume i w)) = clock w"
  using registry_resume_ledger [of i w] queue_start_ledger
  by (auto simp: resume_def andthen_snd split: option.split sum.split)

lemma resume_execution_frame:
  assumes "world_ok w"
  shows "only_touches i w (snd (resume_execution i w)) \<and> world_ok (snd (resume_execution i w))"
proof (cases "get_execution i (db w)")
  case None
  then show ?thesis using assms by (simp add: resume_execution_def require_missing only_touches_refl world_ok_def)
next
  case (Some e)
  obtain st w1 where r: "require_execution_and_state i w = (Inr (e, st), w1)" "db w1 = db w" "clock w1 = clock w"
    "tasks w1 = tasks w" "daemon w1 = daemon w" and ok1: "world_ok w1" and st: "st_execution_id st = i"
    by (rule require_found [OF assms Some])
  have "only_touches i w w1" using r ok1 by (simp add: only_touches_def world_ok_def)
  moreover have "only_touches i w w' \<and> world_ok w'" if "w' = engine_emit i (st\<lparr>st_paused := False\<rparr>) EXECUTION_RESUMED
      [(''execution_id'', VStr i)] (db_update_execution (e\<lparr>e_status := QUEUED\<rparr>) w1)" for w'
    using update_and_emit(1,2) [OF ok1 _ _ that] only_touches_eqs [OF r(2,3,5)] st world_ok_id [OF assms Some] by simp
  ultimately show ?thesis
    using ok1 by (simp add: resume_execution_def r(1) Let_def split: option.split)
qed

lemma dispatch_frame:
  assumes "world_ok w" and "only_touches i w (snd (native i w)) \<and> world_ok (snd (native i w))"
  shows "only_touches i w (snd (dispatch operation native i w)) \<and> world_ok (snd (dispatch operation native i w))"
  using dispatch_snd [of operation native i w] assms by (auto simp: only_touches_refl world_ok_def)

lemma queue_start_frame:
  assumes "world_ok w"
  shows "only_touches i w (snd (queue_start i w)) \<and> world_ok (snd (queue_start i w))"
proof (cases "get_execution i (db w)")
  case None
  then show ?thesis using assms by (simp add: queue_start_def only_touches_refl world_ok_def)
next
  case (Some e)
  have "only_touches i w (create_task i (db_update_execution (e\<lparr>e_status := QUEUED\<rparr>) w))"
    using assms world_ok_id [OF assms Some]
    by (intro only_touches_task only_touches_update) (simp_all add: world_ok_def)
  moreover have "world_ok (create_task i (db_update_execution (e\<lparr>e_status := QUEUED\<rparr>) w))"
    using world_ok_update [OF assms] by (simp add: world_ok_def)
  ultimately show ?thesis using assms Some
    by (simp add: queue_start_def only_touches_refl world_ok_def Let_def split: option.split)
qed

lemma resume_frame:
  assumes "world_ok w"
  shows "only_touches i w (snd (resume i w)) \<and> world_ok (snd (resume i w))"
proof -
  have r: "only_touches i w (snd (registry_resume i w)) \<and> world_ok (snd (registry_resume i w))"
    unfolding registry_resume_def by (rule dispatch_frame [OF assms]) (rule resume_execution_frame [OF assms])
  then have "only_touches i w (snd (queue_start i (snd (registry_resume i w)))) \<and>
      world_ok (snd (queue_start i (snd (registry_resume i w))))"
    using queue_start_frame [of "snd (registry_resume i w)" i] only_touches_trans by blast
  then show ?thesis using r assms
    by (simp add: resume_def andthen_snd only_touches_refl world_ok_def split: option.split sum.split)
qed

text \<open>The wait service's contract with the control plane holds.\<close>

interpretation plane_resume: resumer resume
proof
  fix i j and w :: world
  show "waits (db (snd (resume i w))) = waits (db w)" "clock (snd (resume i w)) = clock w"
    by (rule resume_ledger)+
  show "get_execution j (db (snd (resume i w))) = get_execution j (db w)" if "world_ok w" "j \<noteq> i"
    using resume_frame [OF that(1), of i] that(2) by (simp add: only_touches_def)
  show "world_ok (snd (resume i w))" if "world_ok w" using resume_frame [OF that, of i] by blast
qed

section \<open>Properties of the commands\<close>

text \<open>
  C13: A terminal execution is never started again and a suspended one never past its wait: if the
  execution has completed, failed or been cancelled, or has an unresolved wait, both starting and
  resuming it are refused with a \<open>ValueError\<close> and change nothing at all.
\<close>

theorem no_restart_past_end_or_wait:
  assumes "get_execution i (db w) = Some e"
    and "e_status e \<in> {COMPLETED, FAILED, ExecutionStatus.CANCELLED} \<or>
      list_execution_waits i (Some PENDING) (db w) \<noteq> []"
  shows "\<exists>m. queue_start i w = (Inl (ValueError m), w) \<and> resume i w = (Inl (ValueError m), w)"
proof (cases "e_status e \<in> TERMINAL_EXECUTION_STATUSES")
  case True
  then show ?thesis using assms(1) by (simp add: queue_start_def resume_def reject_terminal_execution_replay_def)
next
  case False
  with assms obtain x xs where "list_execution_waits i (Some PENDING) (db w) = x # xs"
    by (cases "list_execution_waits i (Some PENDING) (db w)") (auto simp: TERMINAL_EXECUTION_STATUSES_def)
  with False assms(1) show ?thesis
    by (simp add: queue_start_def resume_def reject_terminal_execution_replay_def reject_unresolved_wait_def)
qed

lemmas sample_new = create_wait_new [OF sample_create sample_world_ok(1-4)]

theorem no_restart_past_end_or_wait_witness:
  "\<exists>m. queue_start ''ex-1'' sample_suspended = (Inl (ValueError m), sample_suspended) \<and>
       resume ''ex-1'' sample_suspended = (Inl (ValueError m), sample_suspended)"
proof -
  obtain e where "get_execution ''ex-1'' (db sample_suspended) = Some e"
    using suspended_execution [OF sample_new(1)] by blast
  then show ?thesis
    using no_restart_past_end_or_wait [of "''ex-1''" sample_suspended e]
      suspended_pending_list [OF sample_new(1,4)] by auto
qed

text \<open>
  Resuming a native execution that is not finished and has no unresolved wait succeeds: the
  execution is queued, its run is scheduled, exactly one \<open>execution.resumed\<close> event is added to its
  stream, and no other execution, stream, wait or approval changes.
\<close>

theorem resume_queues_the_execution:
  assumes "world_ok w" and "get_execution i (db w) = Some e" and "e_runtime_adapter_id e = ''native''"
    and "e_status e \<notin> {COMPLETED, FAILED, ExecutionStatus.CANCELLED}"
    and "list_execution_waits i (Some PENDING) (db w) = []"
  shows "\<exists>w'. resume i w = (Inr (e\<lparr>e_status := QUEUED\<rparr>), w') \<and> resumed i w w'"
  using resume_effect [OF assms(1-3) _ assms(5)] assms(4) by (simp add: TERMINAL_EXECUTION_STATUSES_def)

lemma suspend_on_states: "states (suspend_on e kind saved w) = states w"
  by (simp add: suspend_on_def Let_def)

lemma sample_worlds_ok: "world_ok sample_world" "world_ok sample_suspended"
proof -
  have "states sample_world = []" by (simp add: sample_world_def)
  moreover obtain e s where ss: "sample_suspended =
      suspend_on e (q_kind sample_request) sample_created ((snd (uuid4 sample_world))\<lparr>db := s\<rparr>)"
    by (rule create_wait_TrueE [OF sample_create])
  have "states sample_suspended = states sample_world" unfolding ss suspend_on_states by simp
  ultimately have "states sample_suspended = []" by simp
  then show "world_ok sample_world" "world_ok sample_suspended"
    using sample_world_ok(2) sample_new(5) by (simp_all add: world_ok_def sample_world_def)
qed

theorem resume_queues_the_execution_witness:
  "\<exists>w'. resume ''ex-1'' sample_world = (Inr (sample_execution\<lparr>e_status := QUEUED\<rparr>), w') \<and>
     resumed ''ex-1'' sample_world w'"
  by (rule resume_queues_the_execution [OF sample_worlds_ok(1)])
    (simp_all add: get_execution_def sample_world_ok(5) [simplified])

lemma no_pending_after:
  assumes inv: "ledger_inv s" and v: "get_execution_wait j s = Some v" "w_status v = PENDING" "w_execution_id v = i"
    and st: "st \<noteq> PENDING" and s': "s' = s\<lparr>waits := dset j (resolved_wait now st k p b v) (waits s)\<rparr>"
  shows "ledger_inv s'" and "list_execution_waits i (Some PENDING) s' = []"
proof -
  show inv': "ledger_inv s'"
    unfolding s' using ledger_inv_resolved [OF inv _ v(2) st] v(1) by (simp add: get_execution_wait_def)
  have "w_status x \<noteq> PENDING" if x: "get_execution_wait y s' = Some x" "w_execution_id x = i" for x y
  proof (cases "y = j")
    case True
    with x(1) st show ?thesis by (auto simp: s' get_execution_wait_def)
  next
    case False
    then have "get_execution_wait y s = Some x" using x(1) by (simp add: s' get_execution_wait_def)
    with False mem.slot_unique [OF inv this v(1)] x(2) v(2,3) show ?thesis by (auto simp: same_slot_def)
  qed
  then show "list_execution_waits i (Some PENDING) s' = []"
    unfolding pending_list_Nil_iff [OF inv'] by blast
qed

text \<open>
  C6: The wait service and the control plane together: resolving the wait an execution is
  suspended on, with resume requested, claims the wait, hands its payload to the execution and
  restarts it: the outcome reports the claim and the resumption, the execution is queued with a
  run scheduled, its wait is settled, and no other execution changes.
\<close>

theorem resolved_wait_restarts_execution:
  assumes "world_ok w" and "ledger_inv (db w)" and "suspended_on i v (db w)" and "get_execution i (db w) = Some e"
    and "e_runtime_adapter_id e = ''native''" and "strip key \<noteq> []"
    and "py_dict (jget (e_input_payload e) ''wait_resolutions'') = Inr r"
  shows "\<exists>out w'. resolve_wait resume i (w_id v) key payload RESOLVED by_whom True w = (Inr out, w') \<and>
    out_claimed out \<and> out_resumed out \<and> i \<in> set (tasks w') \<and>
    (\<exists>e'. get_execution i (db w') = Some e' \<and> e_status e' = QUEUED) \<and>
    (\<exists>v'. get_execution_wait (w_id v) (db w') = Some v' \<and> w_status v' = RESOLVED \<and>
       w_resolution_payload v' = Some payload) \<and>
    (\<forall>j. j \<noteq> i \<longrightarrow> get_execution j (db w') = get_execution j (db w))"
proof -
  define v' where "v' = resolved_wait (clock w) RESOLVED (strip key) payload by_whom v"
  define w1 where "w1 = w\<lparr>db := (db w)\<lparr>waits := dset (w_id v) v' (waits (db w))\<rparr>\<rparr>"
  define w2 where "w2 = emit_for i (e_workflow_id e) EXECUTION_WOKEN (woken_payload v' True)
      (db_update_execution (woken_execution (w_id v') v' r e) w1)"
  have eid: "e_id e = i" by (rule world_ok_id [OF assms(1,4)])
  have v: "get_execution_wait (w_id v) (db w) = Some v" "w_status v = PENDING" "w_execution_id v = i"
    using assms(3) by (simp_all add: suspended_on_def)
  have "world_ok w1" using assms(1) by (simp add: world_ok_def w1_def keyed_def)
  then have ok2: "world_ok w2" by (simp add: w2_def world_ok_def emit_for_executions(3))
  have wt: "waits (db w2) = waits (db w1)" by (simp add: w2_def)
  have np: "list_execution_waits i (Some PENDING) (db w2) = []"
    using no_pending_after(2) [OF assms(2) v _ refl, of RESOLVED "clock w" "strip key" payload by_whom]
      list_waits_eq [OF wt] by (simp add: w1_def v'_def)
  have e2: "get_execution i (db w2) = Some ((woken_execution (w_id v') v' r e)\<lparr>e_updated_at := clock w1\<rparr>)"
    by (simp add: w2_def eid)
  from resume_effect [OF ok2 e2 _ _ np] assms(5) obtain e3 w' where
    r: "resume i w2 = (Inr e3, w')" "resumed i w2 w'"
    by (auto simp: TERMINAL_EXECUTION_STATUSES_def)
  have "resolve_wait resume i (w_id v) key payload RESOLVED by_whom True w =
      (Inr \<lparr>out_wait = v', out_claimed = True, out_resumed = True, out_execution = Some e3\<rparr>, w')"
    using resolve_wait_suspended [OF assms(3,4) _ assms(6), of RESOLVED True resume payload by_whom] assms(5,7) r(1)
    by (simp add: TERMINAL_EXECUTION_WAIT_STATUSES_def v'_def [symmetric] w1_def [symmetric] wake_execution_def
        w2_def [symmetric] eid)
  moreover have "get_execution_wait (w_id v) (db w') = Some v'"
    using r(2) wt by (simp add: resumed_def only_touches_def get_execution_wait_def w1_def)
  moreover have "get_execution j (db w') = get_execution j (db w)" if "j \<noteq> i" for j
    using r(2) that by (simp add: resumed_def only_touches_def w2_def eid) (simp add: w1_def get_execution_def)
  ultimately show ?thesis using r(2) by (auto simp: resumed_def v'_def resolved_wait_def)
qed

lemma sample_suspended_row:
  obtains e where "get_execution ''ex-1'' (db sample_suspended) = Some e"
    and "py_dict (jget (e_input_payload e) ''wait_resolutions'') = Inr []" and "e_runtime_adapter_id e = ''native''"
    and "e_container_id e = None" and "waits (db sample_suspended) = [(w_id sample_created, sample_created)]"
proof -
  from sample_create obtain e v s where e: "get_execution ''ex-1'' (db sample_world) = Some e"
    and c: "create_execution_wait v (db sample_world) = Inr (sample_created, s)"
    and w: "sample_suspended = suspend_on e (q_kind sample_request) sample_created ((snd (uuid4 sample_world))\<lparr>db := s\<rparr>)"
    by (rule create_wait_TrueE)
  have e': "e = sample_execution" using e by (simp add: get_execution_def)
  have s: "s = (db sample_world)\<lparr>waits := [(w_id sample_created, sample_created)]\<rparr>"
    using c by (auto simp: create_execution_wait_def empty_store_def split: option.splits if_splits)
  have k: "keyed s" using sample_world_ok(2) by (simp add: keyed_def s)
  let ?u = "(snd (uuid4 sample_world))\<lparr>db := s\<rparr>"
  have "get_execution ''ex-1'' (db sample_suspended) = Some (sample_execution\<lparr>
      e_status := WAIT_EXECUTION_STATUS (q_kind sample_request),
      e_metadata := dset ''active_wait'' (active_wait_entry sample_created) [], e_updated_at := 100\<rparr>)"
    unfolding w using suspend_on_effect(2) [where w = ?u and e = e and kind = "q_kind sample_request" and saved = sample_created] k
    by (simp add: e')
  moreover have "waits (db sample_suspended) = [(w_id sample_created, sample_created)]"
    unfolding w by (simp add: suspend_on_def Let_def s)
  ultimately show ?thesis using that by (simp add: py_dict_def)
qed

theorem resolved_wait_restarts_execution_witness:
  "\<exists>out w'. resolve_wait resume ''ex-1'' (w_id sample_created) ''answer'' [] RESOLVED None True sample_suspended =
     (Inr out, w') \<and> out_resumed out \<and> ''ex-1'' \<in> set (tasks w')"
proof (rule sample_suspended_row)
  fix e assume e: "get_execution ''ex-1'' (db sample_suspended) = Some e"
    "py_dict (jget (e_input_payload e) ''wait_resolutions'') = Inr []" "e_runtime_adapter_id e = ''native''"
  have "strip ''answer'' \<noteq> []" by (simp add: strip_def is_space_def)
  from resolved_wait_restarts_execution [OF sample_worlds_ok(2) sample_new(4,1) e(1,3) this e(2), of "[]" None]
  show ?thesis by blast
qed



section \<open>Cancelling\<close>

lemma pending_list_cases:
  assumes "ledger_inv s"
  obtains "list_execution_waits i (Some PENDING) s = []"
  | v where "list_execution_waits i (Some PENDING) s = [v]" and "get_execution_wait (w_id v) s = Some v"
    and "w_status v = PENDING" and "w_execution_id v = i"
proof (cases "list_execution_waits i (Some PENDING) s")
  case (Cons v vs)
  note v = pending_listD [OF assms Cons]
  have "distinct (map w_id (dvalues (waits s)))"
    using ledger_ids [OF assms] ledger_inv_distinct [OF assms] by simp
  then have d: "distinct (map w_id (v # vs))"
    unfolding Cons [symmetric] by (simp add: list_execution_waits_def Let_def distinct_sort_key distinct_map_filter)
  have same: "w_id x = w_id v" if "x \<in> set vs" for x
  proof -
    have x: "x \<in> set (dvalues (waits s))" "w_execution_id x = i" "w_status x = PENDING"
      using that in_pending_list [of x i s] Cons by simp_all
    have sl: "same_slot x v" using x v by (simp add: same_slot_def)
    have "get_execution_wait (w_id x) s = Some x" using in_ledger [OF assms] x(1) by blast
    then show ?thesis by (rule mem.slot_unique [OF assms _ v(1) sl])
  qed
  have "vs = []"
  proof (rule ccontr)
    assume "vs \<noteq> []"
    then have "hd vs \<in> set vs" by simp
    with d same [of "hd vs"] show False by (metis distinct.simps(2) image_eqI list.map(2) set_map)
  qed
  then show ?thesis using that(2) Cons v by simp
qed (rule that(1))

lemma registry_cancel_effect:
  assumes ok: "world_ok w" and e: "get_execution i (db w) = Some e" and nat: "e_runtime_adapter_id e = ''native''"
    and st: "e_status e \<notin> {RUNNING, COMPLETED, FAILED, ExecutionStatus.CANCELLED}"
  obtains w' c e' where "registry_cancel i w = (Inr c, w')" and "only_touches i w w'" and "world_ok w'"
    and "e_id c = i" and "e_status c = ExecutionStatus.CANCELLED"
    and "get_execution i (db w') = Some e'" and "e_status e' = ExecutionStatus.CANCELLED"
    and "jget (e_metadata c) ''cancellation'' = VDict [(''requested_at'', VStr (isoformat (clock w))), (''mode'', VStr ''immediate'')]"
    and "e_metadata e' = e_metadata c" and "e_completed_at c = Some (clock w)"
    and "\<exists>ev. ev_event_type ev = EXECUTION_CANCELLED \<and> list_events i (db w') = list_events i (db w) @ [ev]"
    and "e_container_id c = e_container_id e"
proof -
  obtain s0 w1 where r: "require_execution_and_state i w = (Inr (e, s0), w1)" "db w1 = db w" "clock w1 = clock w"
    "tasks w1 = tasks w" "daemon w1 = daemon w" and ok1: "world_ok w1" and s0: "st_execution_id s0 = i"
    by (rule require_found [OF ok e])
  define w2 where "w2 = w1\<lparr>states := dset i (s0\<lparr>st_cancelled := True\<rparr>) (states w1)\<rparr>"
  have ok2: "world_ok w2" using ok1 s0 by (auto simp: world_ok_def w2_def)
  have st2: "st_execution_id (s0\<lparr>st_cancelled := True\<rparr>) = i" using s0 by simp
  define c where "c = e\<lparr>e_metadata := dset ''cancellation''
      (VDict [(''requested_at'', VStr (isoformat (clock w1))), (''mode'', VStr ''immediate'')]) (e_metadata e),
      e_status := ExecutionStatus.CANCELLED, e_completed_at := Some (clock w1)\<rparr>"
  have cid: "e_id c = i" using world_ok_id [OF ok e] by (simp add: c_def)
  define w' where "w' = engine_emit i (s0\<lparr>st_cancelled := True\<rparr>) EXECUTION_CANCELLED
      [(''execution_id'', VStr i)] (db_update_execution c w2)"
  note eff = update_and_emit [OF ok2 st2 cid w'_def]
  have na: "EXECUTION_CANCELLED \<notin> set ACTIVITY_EVENT_TYPES" by (simp add: ACTIVITY_EVENT_TYPES_def)
  have ge: "get_execution i (db w') = Some (c\<lparr>e_updated_at := clock w2\<rparr>)"
    using emit_executions(1) [OF na] get_execution_eq cid
    by (simp add: w'_def engine_emit_def emit_payload_def Let_def case_prod_unfold get_execution_def
        db_update_execution_def update_execution_def repo_save_execution_def)
  have "registry_cancel i w = (Inr c, w')"
    using st by (simp add: registry_cancel_def dispatch_def e nat cancel_execution_def r(1) Let_def w'_def c_def w2_def)
  moreover have "only_touches i w w'"
    by (rule only_touches_eqs [OF _ _ _ eff(1)]) (simp_all add: w2_def r)
  moreover have "\<exists>ev. ev_event_type ev = EXECUTION_CANCELLED \<and> list_events i (db w') = list_events i (db w) @ [ev]"
    using eff(5) by (simp add: w2_def r)
  ultimately show ?thesis using that [of c w'] eff(2) ge cid by (simp add: c_def r(3))
qed

text \<open>Closing the waits of one execution: what it does to the ledger and to the execution.\<close>

definition closed_waits :: "string \<Rightarrow> store \<Rightarrow> store \<Rightarrow> bool" where
  "closed_waits i s s' \<longleftrightarrow> ledger_inv s' \<and> list_execution_waits i (Some PENDING) s' = [] \<and>
     (\<forall>j v. get_execution_wait j s = Some v \<longrightarrow> w_execution_id v \<noteq> i \<or> w_status v \<noteq> PENDING \<longrightarrow>
        get_execution_wait j s' = Some v)"

lemma closed_waits_eq: "closed_waits i s s1 \<Longrightarrow> waits s' = waits s1 \<Longrightarrow> closed_waits i s s'"
  unfolding closed_waits_def by (simp add: ledger_inv_def list_execution_waits_def get_execution_wait_def)

lemma close_pending_effect:
  assumes inv: "ledger_inv (db w)" and ok: "world_ok w" and e: "get_execution i (db w) = Some e"
    and c: "close_pending_waits e why None False w = (e1, w1)"
  shows "closed_waits i (db w) (db w1)" "world_ok w1" "clock w1 = clock w" "daemon w1 = daemon w"
    "events (db w1) = events (db w)" "artifacts (db w1) = artifacts (db w)"
    "approval_requests (db w1) = approval_requests (db w)"
    "\<exists>e2. get_execution i (db w1) = Some e2 \<and> e_runtime_adapter_id e2 = e_runtime_adapter_id e"
    "\<And>j. j \<noteq> i \<Longrightarrow> get_execution j (db w1) = get_execution j (db w)"
proof -
  have eid: "e_id e = i" by (rule world_ok_id [OF ok e])
  have "closed_waits i (db w) (db w1) \<and> world_ok w1 \<and> clock w1 = clock w \<and> daemon w1 = daemon w \<and>
    events (db w1) = events (db w) \<and> artifacts (db w1) = artifacts (db w) \<and>
    approval_requests (db w1) = approval_requests (db w) \<and>
    (\<exists>e2. get_execution i (db w1) = Some e2 \<and> e_runtime_adapter_id e2 = e_runtime_adapter_id e) \<and>
    (\<forall>j. j \<noteq> i \<longrightarrow> get_execution j (db w1) = get_execution j (db w))"
  proof (rule pending_list_cases [OF inv, of i])
    assume "list_execution_waits i (Some PENDING) (db w) = []"
    with c ok inv e show ?thesis by (simp add: close_pending_waits_def eid closed_waits_def)
  next
    fix v assume v: "list_execution_waits i (Some PENDING) (db w) = [v]"
      "get_execution_wait (w_id v) (db w) = Some v" "w_status v = PENDING" "w_execution_id v = i"
    define v' where "v' = resolved_wait (clock w) ExecutionWaitStatus.CANCELLED (take 255 (why @ '':'' @ w_id v))
        [(''reason'', VStr why)] (Some ''execution_control_plane'') v"
    define s where "s = (db w)\<lparr>waits := dset (w_id v) v' (waits (db w))\<rparr>"
    have f: "fold (close_wait (clock w) why) [v] ([], db w) = ([v'], s)"
      by (simp add: close_wait_def resolve_pending_store [OF v(2,3)] v'_def s_def)
    note after = no_pending_after [OF inv v(2-4), of ExecutionWaitStatus.CANCELLED s, OF _ s_def [unfolded v'_def]]
    have cw: "closed_waits i (db w) s"
      using after v by (auto simp: closed_waits_def s_def get_execution_wait_def)
    from c obtain m where w1: "e1 = e\<lparr>e_metadata := m\<rparr>" "w1 = db_update_execution e1 (w\<lparr>db := s\<rparr>)"
      by (auto simp: close_pending_waits_def eid v(1) f [simplified] Let_def)
    have "world_ok (w\<lparr>db := s\<rparr>)" using ok by (simp add: world_ok_def keyed_def s_def)
    then have "world_ok w1" unfolding w1(2) by (rule world_ok_update)
    moreover have "closed_waits i (db w) (db w1)" by (rule closed_waits_eq [OF cw]) (simp add: w1)
    ultimately show ?thesis by (simp add: w1 eid) (simp add: s_def get_execution_def)
  qed
  then show "closed_waits i (db w) (db w1)" "world_ok w1" "clock w1 = clock w" "daemon w1 = daemon w"
    "events (db w1) = events (db w)" "artifacts (db w1) = artifacts (db w)"
    "approval_requests (db w1) = approval_requests (db w)"
    "\<exists>e2. get_execution i (db w1) = Some e2 \<and> e_runtime_adapter_id e2 = e_runtime_adapter_id e"
    "\<And>j. j \<noteq> i \<Longrightarrow> get_execution j (db w1) = get_execution j (db w)" by blast+
qed

lemma preserve_simps [simp]:
  "preserve None e = e"
  "e_id (preserve s e) = e_id e" "e_status (preserve s e) = e_status e"
  "e_runtime_adapter_id (preserve s e) = e_runtime_adapter_id e" "e_completed_at (preserve s e) = e_completed_at e"
  "k \<noteq> ''partial_result_preservation'' \<Longrightarrow> jget (e_metadata (preserve s e)) k = jget (e_metadata e) k"
  by (simp_all add: preserve_def split: option.split)

text \<open>
  C9: Cancelling a native execution through the control plane is final and complete: the call
  returns it as cancelled, no wait of it stays pending (so no timer, event or answer can wake it
  any more), the waits of other executions and the other executions themselves are untouched,
  one \<open>execution.cancelled\<close> event is recorded, and cancelling again changes nothing. The recorded
  mode is \<open>immediate\<close> in every case: the cooperative cancellation of the engine is never reached,
  because the status is overwritten before the engine reads it.
\<close>

theorem cancel_is_final:
  assumes "ledger_inv (db w)" and "world_ok w" and "get_execution i (db w) = Some e"
    and "e_runtime_adapter_id e = ''native''"
    and "e_status e \<notin> {COMPLETED, FAILED, ExecutionStatus.CANCELLED, CANCELLING}"
  shows "\<exists>c w' e'. cancel i w = (Inr c, w') \<and> e_status c = ExecutionStatus.CANCELLED \<and>
    get_execution i (db w') = Some e' \<and> e_status e' = ExecutionStatus.CANCELLED \<and>
    closed_waits i (db w) (db w') \<and>
    (\<forall>j. j \<noteq> i \<longrightarrow> get_execution j (db w') = get_execution j (db w)) \<and>
    (\<exists>ev. ev_event_type ev = EXECUTION_CANCELLED \<and> list_events i (db w') = list_events i (db w) @ [ev]) \<and>
    jget (dict_or_empty (jget (e_metadata e') ''cancellation'')) ''mode'' = VStr ''immediate'' \<and>
    cancel i w' = (Inr e', w')"
proof -
  have eid: "e_id e = i" by (rule world_ok_id [OF assms(2,3)])
  obtain e1 w1 where c: "close_pending_waits e ''operator_cancel'' None False w = (e1, w1)" by fastforce
  note cl = close_pending_effect [OF assms(1-3) c]
  from cl(8) obtain e2 where e2: "get_execution i (db w1) = Some e2" "e_runtime_adapter_id e2 = ''native''"
    using assms(4) by auto
  define pr where "pr = partial_result_preservation_snapshot e2 ''cancel_requested'' w1"
  define e3 where "e3 = (preserve pr e2)\<lparr>e_status := CANCELLING\<rparr>"
  define w2 where "w2 = db_update_execution e3 w1"
  have e3: "e_id e3 = i" using world_ok_id [OF cl(2) e2(1)] by (simp add: e3_def)
  have ok2: "world_ok w2" unfolding w2_def by (rule world_ok_update [OF cl(2)])
  have g2: "get_execution i (db w2) = Some (e3\<lparr>e_updated_at := clock w1\<rparr>)" by (simp add: w2_def e3)
  obtain w3 x e4 where r: "registry_cancel i w2 = (Inr x, w3)" "only_touches i w2 w3" "world_ok w3" "e_id x = i"
    "e_status x = ExecutionStatus.CANCELLED" "get_execution i (db w3) = Some e4" "e_status e4 = ExecutionStatus.CANCELLED"
    "jget (e_metadata x) ''cancellation'' = VDict [(''requested_at'', VStr (isoformat (clock w2))), (''mode'', VStr ''immediate'')]"
    "e_metadata e4 = e_metadata x" "e_completed_at x = Some (clock w2)"
    "\<exists>ev. ev_event_type ev = EXECUTION_CANCELLED \<and> list_events i (db w3) = list_events i (db w2) @ [ev]"
    "e_container_id x = e_container_id (e3\<lparr>e_updated_at := clock w1\<rparr>)"
    by (rule registry_cancel_effect [OF ok2 g2]) (simp_all add: e3_def e2(2))
  define c' where "c' = preserve pr x"
  define w' where "w' = (if pr = None then w3 else db_update_execution c' w3)"
  define e' where "e' = (if pr = None then e4 else c'\<lparr>e_updated_at := clock w3\<rparr>)"
  have call: "cancel i w = (Inr c', w')"
    using assms(5) r(1)
    by (simp add: cancel_def assms(3) c e2(1) pr_def [symmetric] e3_def [symmetric] w2_def [symmetric]
        TERMINAL_EXECUTION_STATUSES_def c'_def w'_def Let_def split: option.split)
  have g': "get_execution i (db w') = Some e'" using r(4,6) by (simp add: w'_def e'_def c'_def)
  have st: "e_status e' = ExecutionStatus.CANCELLED" using r(5,7) by (simp add: e'_def c'_def)
  have md: "jget (e_metadata e') ''cancellation'' = jget (e_metadata x) ''cancellation''"
    using r(9) by (simp add: e'_def c'_def)
  have "waits (db w') = waits (db w1)" using r(2) by (simp add: w'_def only_touches_def w2_def)
  then have "closed_waits i (db w) (db w')" by (rule closed_waits_eq [OF cl(1)])
  moreover have "get_execution j (db w') = get_execution j (db w)" if "j \<noteq> i" for j
    using that r(2,4) cl(9) [OF that] by (simp add: w'_def c'_def only_touches_def w2_def e3)
  moreover have "list_events i (db w') = list_events i (db w3)" by (simp add: w'_def)
  moreover have "list_events i (db w2) = list_events i (db w)" by (simp add: w2_def list_events_def cl(5))
  moreover have "cancel i w' = (Inr e', w')"
    by (simp add: cancel_def g' st TERMINAL_EXECUTION_STATUSES_def)
  ultimately show ?thesis using call g' st r(5,11) md r(8)
    by (auto simp: c'_def dict_or_empty_def jget_def)
qed

theorem cancel_is_final_witness:
  "\<exists>c w'. cancel ''ex-1'' sample_suspended = (Inr c, w') \<and> e_status c = ExecutionStatus.CANCELLED \<and>
     list_execution_waits ''ex-1'' (Some PENDING) (db w') = []"
proof (rule sample_suspended_row)
  fix e assume e: "get_execution ''ex-1'' (db sample_suspended) = Some e" "e_runtime_adapter_id e = ''native''"
  have "e_status e \<notin> {COMPLETED, FAILED, ExecutionStatus.CANCELLED, CANCELLING}"
    using sample_new(1) e(1) by (simp add: suspended_on_def sample_created_def sample_request_def)
  from cancel_is_final [OF sample_new(4) sample_worlds_ok(2) e this] show ?thesis
    unfolding closed_waits_def by blast
qed

end
