(* ===== verification/Planner.thy ===== *)
theory Planner
  imports Execution_Lifecycle "HOL-Library.Multiset"
begin

text \<open>
  \<open>LinearWorkflowPlanner\<close> of \<open>app/runtime/native/planner.py\<close>: the order in which the engine visits the
  nodes of a workflow. The \<open>while queue\<close> loop is \<open>drain\<close>; it ends because every turn either drops a
  queue entry or marks one more node as seen.
\<close>

section \<open>The planner\<close>

definition node_by_id :: "WorkflowNodeDefinition list \<Rightarrow> string \<Rightarrow> WorkflowNodeDefinition option" where
  "node_by_id nodes i = map_of (map (\<lambda>n. (n_id n, n)) (rev nodes)) i"

definition outgoing :: "WorkflowEdgeDefinition list \<Rightarrow> string \<Rightarrow> string list" where
  "outgoing edges node = map ed_target_node_id (filter (\<lambda>e. ed_source_node_id e = node) edges)"

text \<open>\<open>indegree.get(k, 0)\<close>; the accesses without default are to keys that are present.\<close>

definition count_of :: "int dict \<Rightarrow> string \<Rightarrow> int" where
  "count_of d k = (case map_of d k of None \<Rightarrow> 0 | Some n \<Rightarrow> n)"

definition initial_indegree :: "WorkflowNodeDefinition list \<Rightarrow> WorkflowEdgeDefinition list \<Rightarrow> int dict" where
  "initial_indegree nodes edges =
    fold (\<lambda>e d. dset (ed_target_node_id e) (count_of d (ed_target_node_id e) + 1) d) edges
      (map (\<lambda>n. (n_id n, 0)) nodes)"

fun release :: "string list \<Rightarrow> string list \<Rightarrow> int dict \<Rightarrow> string list \<times> int dict" where
  "release [] queue indegree = (queue, indegree)"
| "release (target_id # targets) queue indegree =
    (let left = count_of indegree target_id - 1
     in release targets (if left \<le> 0 then queue @ [target_id] else queue) (dset target_id left indegree))"

function drain ::
  "WorkflowNodeDefinition list \<Rightarrow> WorkflowEdgeDefinition list \<Rightarrow> string list \<Rightarrow> int dict \<Rightarrow> string list \<Rightarrow>
   WorkflowNodeDefinition list" where
  "drain nodes edges [] indegree seen = []"
| "drain nodes edges (node_id # queue) indegree seen =
    (if node_id \<in> set seen then drain nodes edges queue indegree seen
     else case node_by_id nodes node_id of
       None \<Rightarrow> drain nodes edges queue indegree seen
     | Some node \<Rightarrow>
         node # drain nodes edges (fst (release (outgoing edges node_id) queue indegree))
                  (snd (release (outgoing edges node_id) queue indegree)) (node_id # seen))"
  by pat_completeness auto

lemma node_by_id_Some: "node_by_id nodes i = Some n \<Longrightarrow> n_id n = i \<and> n \<in> set nodes"
  by (auto simp: node_by_id_def dest: map_of_SomeD)

lemma node_by_id_None: "node_by_id nodes i = None \<longleftrightarrow> i \<notin> n_id ` set nodes"
  by (auto simp: node_by_id_def map_of_eq_None_iff image_image)

termination drain
proof (relation "inv_image (finite_psubset <*lex*> less_than)
    (\<lambda>(nodes, _, queue, _, seen). (n_id ` set nodes - set seen, length queue))")
  fix nodes :: "WorkflowNodeDefinition list" and edges i queue indegree seen n
  assume "i \<notin> set seen" "node_by_id nodes i = Some n"
  then have "i \<in> n_id ` set nodes - set seen" using node_by_id_Some by force
  then have "n_id ` set nodes - set (i # seen) \<subset> n_id ` set nodes - set seen" by auto
  then show "((nodes, edges, fst (release (outgoing edges i) queue indegree),
      snd (release (outgoing edges i) queue indegree), i # seen), nodes, edges, i # queue, indegree, seen)
    \<in> inv_image (finite_psubset <*lex*> less_than)
      (\<lambda>(nodes, _, queue, _, seen). (n_id ` set nodes - set seen, length queue))"
    by (simp add: finite_psubset_def)
qed (auto simp: wf_finite_psubset)

definition initial_queue :: "WorkflowDefinition \<Rightarrow> string list" where
  "initial_queue workflow =
    (if node_by_id (wd_nodes workflow) (wd_entrypoint workflow) \<noteq> None then [wd_entrypoint workflow] else []) @
    map n_id (filter (\<lambda>n. count_of (initial_indegree (wd_nodes workflow) (wd_edges workflow)) (n_id n) = 0 \<and>
        n_id n \<noteq> wd_entrypoint workflow) (wd_nodes workflow))"

definition order_nodes :: "WorkflowDefinition \<Rightarrow> WorkflowNodeDefinition list" where
  "order_nodes workflow =
    (if wd_nodes workflow = [] then []
     else let ordered = drain (wd_nodes workflow) (wd_edges workflow) (initial_queue workflow)
                (initial_indegree (wd_nodes workflow) (wd_edges workflow)) []
          in ordered @ filter (\<lambda>n. n_id n \<notin> n_id ` set ordered) (wd_nodes workflow))"

section \<open>Every node is planned once\<close>

lemma drain_nodes:
  "set (drain nodes edges queue d seen) \<subseteq> set nodes"
  "distinct (map n_id (drain nodes edges queue d seen))"
  "n_id ` set (drain nodes edges queue d seen) \<inter> set seen = {}"
proof -
  have "set (drain nodes edges queue d seen) \<subseteq> set nodes \<and>
    distinct (map n_id (drain nodes edges queue d seen)) \<and>
    n_id ` set (drain nodes edges queue d seen) \<inter> set seen = {}"
  proof (induction nodes edges queue d seen rule: drain.induct)
    case (2 nodes edges i queue d seen)
    show ?case
    proof (cases "i \<in> set seen \<or> node_by_id nodes i = None")
      case True
      then show ?thesis using 2(1,2) by (auto split: option.split)
    next
      case False
      then obtain n where n: "node_by_id nodes i = Some n" by auto
      then show ?thesis using False 2(3) [OF _ n] node_by_id_Some [OF n] by auto
    qed
  qed simp
  then show "set (drain nodes edges queue d seen) \<subseteq> set nodes"
    "distinct (map n_id (drain nodes edges queue d seen))"
    "n_id ` set (drain nodes edges queue d seen) \<inter> set seen = {}" by auto
qed

lemma drain_node_ids:
  assumes "distinct (map n_id nodes)" and "n \<in> set nodes" and "n_id n \<in> n_id ` set (drain nodes edges q d seen)"
  shows "n \<in> set (drain nodes edges q d seen)"
proof -
  obtain m where m: "m \<in> set (drain nodes edges q d seen)" "n_id m = n_id n" using assms(3) by auto
  then have "m \<in> set nodes" using drain_nodes(1) [of nodes edges q d seen] by blast
  then have "m = n" using assms(1,2) m(2) by (simp add: distinct_map inj_on_def)
  then show ?thesis using m(1) by simp
qed

lemma planned_once:
  assumes "distinct (map n_id (wd_nodes workflow))"
  shows "mset (order_nodes workflow) = mset (wd_nodes workflow) \<and> distinct (map n_id (order_nodes workflow))"
proof -
  obtain o' where o': "o' = drain (wd_nodes workflow) (wd_edges workflow) (initial_queue workflow)
    (initial_indegree (wd_nodes workflow) (wd_edges workflow)) []" by simp
  have nodes: "set o' \<subseteq> set (wd_nodes workflow)" "distinct (map n_id o')" by (simp_all add: o' drain_nodes)
  have plan: "order_nodes workflow = o' @ filter (\<lambda>n. n_id n \<notin> n_id ` set o') (wd_nodes workflow)"
    using nodes(1) by (auto simp: order_nodes_def o' [symmetric] Let_def)
  have known: "n \<in> set o'" if "n \<in> set (wd_nodes workflow)" "n_id n \<in> n_id ` set o'" for n
    using drain_node_ids [OF assms that(1)] that(2) unfolding o' by blast
  have "set (order_nodes workflow) = set (wd_nodes workflow)"
    using nodes(1) known unfolding plan by auto
  moreover have d: "distinct (map n_id (order_nodes workflow))"
  proof -
    have "n_id ` set o' \<inter> n_id ` {n \<in> set (wd_nodes workflow). n_id n \<notin> n_id ` set o'} = {}"
      by (auto simp: image_iff)
    then show ?thesis using nodes(2) assms by (simp add: plan distinct_map_filter)
  qed
  ultimately have "mset (order_nodes workflow) = mset (wd_nodes workflow)"
    using assms by (simp add: distinct_map set_eq_iff_mset_eq_distinct [symmetric])
  then show ?thesis using d by blast
qed

text \<open>
  The plan visits every node of the workflow exactly once, whatever its edges are: cycles,
  unreachable nodes, edges to or from missing nodes and a missing entrypoint lose or repeat nothing,
  and planning always ends.
\<close>

theorem plan_is_permutation:
  assumes "distinct (map n_id (wd_nodes workflow))"
  shows "mset (order_nodes workflow) = mset (wd_nodes workflow) \<and> distinct (map n_id (order_nodes workflow))"
  by (rule planned_once [OF assms])

section \<open>Sources before targets\<close>

text \<open>The number of edges into \<open>t\<close> whose source is not in \<open>S\<close>.\<close>

definition open_edges :: "WorkflowEdgeDefinition list \<Rightarrow> string set \<Rightarrow> string \<Rightarrow> nat" where
  "open_edges edges S t = length (filter (\<lambda>e. ed_target_node_id e = t \<and> ed_source_node_id e \<notin> S) edges)"

fun sources_first :: "WorkflowEdgeDefinition list \<Rightarrow> string set \<Rightarrow> string list \<Rightarrow> bool" where
  "sources_first edges S [] = True"
| "sources_first edges S (i # ns) \<longleftrightarrow> open_edges edges S i = 0 \<and> sources_first edges (insert i S) ns"

lemma count_of_dset [simp]: "count_of (dset k v d) k' = (if k = k' then v else count_of d k')"
  by (simp add: count_of_def)

lemma initial_count:
  "count_of (initial_indegree nodes edges) t = int (open_edges edges {} t)"
proof -
  have "count_of (fold (\<lambda>e d. dset (ed_target_node_id e) (count_of d (ed_target_node_id e) + 1) d) edges d) t =
    count_of d t + int (open_edges edges {} t)" for d
    by (induction edges arbitrary: d) (simp_all add: open_edges_def)
  moreover have "count_of (map (\<lambda>n. (n_id n, 0)) nodes) t = 0"
    by (induction nodes) (simp_all add: count_of_def)
  ultimately show ?thesis by (simp add: initial_indegree_def)
qed

lemma release_effect:
  assumes "\<And>t. int (count_list targets t) \<le> count_of d t"
  shows "count_of (snd (release targets q d)) t = count_of d t - int (count_list targets t)"
    and "set (fst (release targets q d)) =
      set q \<union> {t \<in> set targets. count_of d t - int (count_list targets t) = 0}"
proof -
  have "(\<forall>t. count_of (snd (release targets q d)) t = count_of d t - int (count_list targets t)) \<and>
    set (fst (release targets q d)) = set q \<union> {t \<in> set targets. count_of d t - int (count_list targets t) = 0}"
    using assms
  proof (induction targets q d rule: release.induct)
    case (2 a targets q d)
    define left where "left = count_of d a - 1"
    have "int (count_list targets t) \<le> count_of (dset a left d) t" for t
      using 2(2) [of t] by (auto simp: left_def split: if_splits)
    note IH = 2(1) [OF left_def this]
    have *: "left \<le> 0 \<longleftrightarrow> left = 0 \<and> a \<notin> set targets"
      using 2(2) [of a] count_list_0_iff [of targets a] by (cases "count_list targets a") (auto simp: left_def)
    let ?r = "release targets (if left \<le> 0 then q @ [a] else q) (dset a left d)"
    have r: "release (a # targets) q d = ?r" by (simp add: left_def Let_def)
    have counts: "count_of (snd ?r) t = count_of d t - int (count_list (a # targets) t)" for t
      using IH by (simp add: left_def)
    obtain f where f: "f = (\<lambda>t. count_of d t - int (count_list (a # targets) t))" by simp
    have "(if a = t then left else count_of d t) - int (count_list targets t) = f t" for t
      by (simp add: f left_def)
    with IH have set: "set (fst ?r) = set (if left \<le> 0 then q @ [a] else q) \<union> {t \<in> set targets. f t = 0}"
      by simp
    have "f a = left - int (count_list targets a)" by (simp add: f left_def)
    then have fa: "left \<le> 0 \<Longrightarrow> f a = 0" "f a = 0 \<Longrightarrow> left \<le> 0 \<or> a \<in> set targets"
      using * count_list_0_iff [of targets a] by auto
    have "set (fst ?r) = set q \<union> {t \<in> set (a # targets). f t = 0}"
    proof (cases "left \<le> 0")
      case True
      then show ?thesis using fa(1) set by auto
    next
      case False
      then show ?thesis using fa(2) set by auto
    qed
    then have "set (fst ?r) = set q \<union>
        {t \<in> set (a # targets). count_of d t - int (count_list (a # targets) t) = 0}" by (simp only: f)
    then show ?case unfolding r using counts by blast
  qed simp
  then show "count_of (snd (release targets q d)) t = count_of d t - int (count_list targets t)"
    "set (fst (release targets q d)) = set q \<union> {t \<in> set targets. count_of d t - int (count_list targets t) = 0}"
    by auto
qed

lemma open_edges_insert:
  "i \<notin> S \<Longrightarrow> open_edges edges S t = open_edges edges (insert i S) t + count_list (outgoing edges i) t"
  by (induction edges) (auto simp: open_edges_def outgoing_def)


text \<open>What holds at every turn of the loop: the counters are exact, and the queue has the ready nodes.\<close>

definition draining :: "WorkflowNodeDefinition list \<Rightarrow> WorkflowEdgeDefinition list \<Rightarrow> string list \<Rightarrow> int dict \<Rightarrow> string list \<Rightarrow> bool" where
  "draining nodes edges queue d seen \<longleftrightarrow>
    (\<forall>t. count_of d t = int (open_edges edges (set seen) t)) \<and>
    (\<forall>t \<in> set queue. open_edges edges (set seen) t = 0) \<and>
    (\<forall>t \<in> n_id ` set nodes. t \<notin> set seen \<and> open_edges edges (set seen) t = 0 \<longrightarrow> t \<in> set queue)"

lemma draining_drop: "draining nodes edges (i # queue) d seen \<Longrightarrow> i \<in> set seen \<or> i \<notin> n_id ` set nodes \<Longrightarrow>
    draining nodes edges queue d seen"
  by (auto simp: draining_def)

lemma draining_visit:
  assumes "draining nodes edges (i # queue) d seen" and "i \<notin> set seen"
  shows "draining nodes edges (fst (release (outgoing edges i) queue d)) (snd (release (outgoing edges i) queue d)) (i # seen)"
proof -
  have c: "count_of d t = int (open_edges edges (set (i # seen)) t) + int (count_list (outgoing edges i) t)" for t
    using assms open_edges_insert [OF assms(2), of edges t] by (simp add: draining_def)
  then have le: "int (count_list (outgoing edges i) t) \<le> count_of d t" for t by simp
  note r = release_effect [OF le, of queue]
  have zero: "open_edges edges (set (i # seen)) t = 0" if "open_edges edges (set seen) t = 0" for t
    using that open_edges_insert [OF assms(2), of edges t] by simp
  have "t \<in> set queue \<or> t \<in> set (outgoing edges i)"
    if "t \<in> n_id ` set nodes" "t \<notin> set (i # seen)" "open_edges edges (set (i # seen)) t = 0" for t
    using assms(1) that open_edges_insert [OF assms(2), of edges t] count_list_0_iff [of "outgoing edges i" t]
    by (cases "open_edges edges (set seen) t = 0") (auto simp: draining_def)
  moreover have "\<forall>t \<in> set queue. open_edges edges (set (i # seen)) t = 0"
    using assms(1) zero by (simp add: draining_def)
  ultimately show ?thesis using c unfolding draining_def r by auto
qed

lemma drain_sources_first:
  "draining nodes edges queue d seen \<Longrightarrow> sources_first edges (set seen) (map n_id (drain nodes edges queue d seen)) \<and>
   (\<forall>t \<in> n_id ` set nodes. t \<in> set seen \<or> t \<in> n_id ` set (drain nodes edges queue d seen) \<or>
      open_edges edges (set seen \<union> n_id ` set (drain nodes edges queue d seen)) t \<noteq> 0)"
proof (induction nodes edges queue d seen rule: drain.induct)
  case (1 nodes edges d seen)
  then show ?case by (auto simp: draining_def)
next
  case (2 nodes edges i queue d seen)
  show ?case
  proof (cases "i \<in> set seen \<or> node_by_id nodes i = None")
    case True
    then have "draining nodes edges queue d seen" using draining_drop [OF 2(4)] by (auto simp: node_by_id_None)
    then show ?thesis using True 2(1,2) by (cases "i \<in> set seen") (simp_all)
  next
    case False
    then obtain n where n: "node_by_id nodes i = Some n" by auto
    have "open_edges edges (set seen) i = 0" using 2(4) by (simp add: draining_def)
    moreover obtain D where D: "D = drain nodes edges (fst (release (outgoing edges i) queue d))
        (snd (release (outgoing edges i) queue d)) (i # seen)" by simp
    have i: "i \<notin> set seen" using False by simp
    from 2(3) [OF i n draining_visit [OF 2(4) i], folded D]
    have IH: "sources_first edges (insert i (set seen)) (map n_id D)"
      "\<forall>t \<in> n_id ` set nodes. t = i \<or> t \<in> set seen \<or> t \<in> n_id ` set D \<or>
        open_edges edges (insert i (set seen \<union> n_id ` set D)) t \<noteq> 0"
      by simp_all
    moreover have "drain nodes edges (i # queue) d seen = n # D" using i n by (simp add: D)
    ultimately show ?thesis using node_by_id_Some [OF n] by auto
  qed
qed

lemma initial_draining:
  assumes "open_edges (wd_edges w) {} (wd_entrypoint w) = 0"
  shows "draining (wd_nodes w) (wd_edges w) (initial_queue w) (initial_indegree (wd_nodes w) (wd_edges w)) []"
proof -
  have "t \<in> set (initial_queue w)" if "t \<in> n_id ` set (wd_nodes w)" "open_edges (wd_edges w) {} t = 0" for t
    using that by (cases "t = wd_entrypoint w") (auto simp: initial_queue_def node_by_id_None initial_count)
  moreover have "open_edges (wd_edges w) {} t = 0" if "t \<in> set (initial_queue w)" for t
    using that assms by (auto simp: initial_queue_def initial_count split: if_splits)
  ultimately show ?thesis by (simp add: draining_def initial_count)
qed

text \<open>The relation from source to target between the nodes of a workflow.\<close>

definition flow :: "WorkflowDefinition \<Rightarrow> (string \<times> string) set" where
  "flow w = (\<lambda>e. (ed_source_node_id e, ed_target_node_id e)) ` set (wd_edges w)"

lemma finite_flow: "finite (flow w)"
  by (simp add: flow_def)

lemma open_edge_source:
  "open_edges (wd_edges w) S t \<noteq> 0 \<Longrightarrow> \<exists>s. (s, t) \<in> flow w \<and> s \<notin> S"
  by (auto simp: open_edges_def flow_def filter_empty_conv)

lemma drain_all:
  assumes "acyclic (flow w)" and "\<forall>(s, t) \<in> flow w. s \<in> n_id ` set (wd_nodes w)"
    and "open_edges (wd_edges w) {} (wd_entrypoint w) = 0"
  shows "n_id ` set (drain (wd_nodes w) (wd_edges w) (initial_queue w) (initial_indegree (wd_nodes w) (wd_edges w)) []) =
    n_id ` set (wd_nodes w)"
proof -
  let ?D = "n_id ` set (drain (wd_nodes w) (wd_edges w) (initial_queue w) (initial_indegree (wd_nodes w) (wd_edges w)) [])"
  have rest: "\<forall>t \<in> n_id ` set (wd_nodes w). t \<in> ?D \<or> open_edges (wd_edges w) ?D t \<noteq> 0"
    using drain_sources_first [OF initial_draining [OF assms(3)]] by simp
  have "t \<in> n_id ` set (wd_nodes w) \<longrightarrow> t \<in> ?D" for t
  proof (induction t rule: wf_induct_rule [OF finite_acyclic_wf [OF finite_flow assms(1)]])
    case (1 t)
    show ?case
    proof
      assume t: "t \<in> n_id ` set (wd_nodes w)"
      show "t \<in> ?D"
      proof (rule ccontr)
        assume "t \<notin> ?D"
        then have "open_edges (wd_edges w) ?D t \<noteq> 0" using bspec [OF rest t] by blast
        then obtain s where "(s, t) \<in> flow w" "s \<notin> ?D" using open_edge_source by blast
        moreover have "s \<in> n_id ` set (wd_nodes w)" using assms(2) \<open>(s, t) \<in> flow w\<close> by blast
        ultimately show False using 1 by simp
      qed
    qed
  qed
  moreover have "?D \<subseteq> n_id ` set (wd_nodes w)" using drain_nodes(1) by (metis image_mono)
  ultimately show ?thesis by blast
qed

lemma sources_first_split:
  "sources_first edges S (xs @ i # ys) \<Longrightarrow> e \<in> set edges \<Longrightarrow> ed_target_node_id e = i \<Longrightarrow>
   ed_source_node_id e \<in> S \<union> set xs"
proof (induction xs arbitrary: S)
  case Nil
  then have "e \<notin> set (filter (\<lambda>e. ed_target_node_id e = i \<and> ed_source_node_id e \<notin> S) edges)"
    by (simp add: open_edges_def filter_empty_conv)
  then show ?case using Nil by auto
next
  case (Cons a xs)
  then show ?case by fastforce
qed



definition sample_node :: "string \<Rightarrow> WorkflowNodeDefinition" where
  "sample_node i = \<lparr>n_id = i, n_name = i, n_node_type = ''task'', n_agent_id = None, n_task_id = Some i,
     n_tool_id = None\<rparr>"

definition sample_edge :: "string \<Rightarrow> string \<Rightarrow> EdgeType \<Rightarrow> WorkflowEdgeDefinition" where
  "sample_edge a b t = \<lparr>ed_id = a @ b, ed_source_node_id = a, ed_target_node_id = b, ed_edge_type = t,
     ed_condition = None\<rparr>"

definition diamond_workflow :: WorkflowDefinition where
  "diamond_workflow = \<lparr>wd_id = ''wf-1'', wd_name = ''diamond'', wd_entrypoint = ''a'',
     wd_nodes = map sample_node [''d'', ''c'', ''b'', ''a''],
     wd_edges = [sample_edge ''a'' ''b'' SUCCESS, sample_edge ''a'' ''c'' FAILURE,
       sample_edge ''b'' ''d'' DEFAULT, sample_edge ''c'' ''d'' DEFAULT],
     wd_max_runtime_seconds = None, wd_max_retries = None, wd_concurrency_limit = None,
     wd_approval_mode = None, wd_task_definitions = [], wd_agent_definitions = [], wd_metadata = []\<rparr>"

lemma diamond_order: "order_nodes diamond_workflow = map sample_node [''a'', ''b'', ''c'', ''d'']"
  by (simp add: order_nodes_def diamond_workflow_def sample_node_def sample_edge_def initial_queue_def
      initial_indegree_def node_by_id_def outgoing_def count_of_def Let_def)

theorem plan_is_permutation_witness: "mset (order_nodes diamond_workflow) = mset (wd_nodes diamond_workflow)"
  using plan_is_permutation [of diamond_workflow] by (simp add: diamond_workflow_def sample_node_def)


end
