(* ===== verification/Py_Text.thy ===== *)
theory Py_Text
  imports Py_Numbers
begin

text \<open>
  Python text the node loop reads and writes: \<open>str(v)\<close>, \<open>json.dumps(v, sort_keys=True)\<close>, substrings,
  \<open>str.split\<close> and \<open>str.strip\<close> with arguments, and iteration over loosely typed values. The text of a
  finite float (\<open>float.__repr__\<close>) is the argument \<open>float_text\<close>.
\<close>

section \<open>Iteration\<close>

text \<open>The elements of a list, the keys of an object, the characters of a string.\<close>

fun py_iter :: "pyval \<Rightarrow> exc + pyval list" where
  "py_iter (VList xs) = Inr xs"
| "py_iter (VDict d) = Inr (map (\<lambda>(k, _). VStr k) d)"
| "py_iter (VStr s) = Inr (map (\<lambda>c. VStr [c]) s)"
| "py_iter _ = Inl (TypeError ''object is not iterable'')"

section \<open>Substrings\<close>

fun contains :: "string \<Rightarrow> string \<Rightarrow> bool" where
  "contains [] p = (p = [])"
| "contains (c # cs) p = (startswith (c # cs) p \<or> contains cs p)"

definition strip_chars :: "string \<Rightarrow> string \<Rightarrow> string" where
  "strip_chars cs s = rev (dropWhile (\<lambda>c. c \<in> set cs) (rev (dropWhile (\<lambda>c. c \<in> set cs) s)))"

text \<open>\<open>s.split(sep)\<close> for a separator that is not empty; \<open>acc\<close> is the piece being read, reversed.\<close>

function split_acc :: "string \<Rightarrow> string \<Rightarrow> string \<Rightarrow> string list" where
  "split_acc sep acc [] = [rev acc]"
| "split_acc sep acc (c # cs) =
    (if sep \<noteq> [] \<and> startswith (c # cs) sep then rev acc # split_acc sep [] (drop (length sep) (c # cs))
     else split_acc sep (c # acc) cs)"
  by pat_completeness auto
termination by (relation "measure (\<lambda>(_, _, s). length s)") auto

definition split_on :: "string \<Rightarrow> string \<Rightarrow> string list" where
  "split_on sep s = split_acc sep [] s"

fun join :: "string \<Rightarrow> string list \<Rightarrow> string" where
  "join sep [] = []"
| "join sep [s] = s"
| "join sep (s # t # ss) = s @ sep @ join sep (t # ss)"

section \<open>Text of values\<close>

definition hex_digit :: "nat \<Rightarrow> char" where
  "hex_digit n = ''0123456789abcdef'' ! (n mod 16)"

definition hex2 :: "char \<Rightarrow> string" where
  "hex2 c = (let n = of_char c :: nat in [hex_digit (n div 16), hex_digit n])"

text \<open>\<open>repr\<close> of a string of Latin-1 characters.\<close>

definition repr_char :: "char \<Rightarrow> char \<Rightarrow> string" where
  "repr_char q c =
    (let n = of_char c :: nat in
     if c = q \<or> n = 92 then [CHR 0x5C, c]
     else if n = 10 then [CHR 0x5C, CHR ''n''] else if n = 13 then [CHR 0x5C, CHR ''r'']
     else if n = 9 then [CHR 0x5C, CHR ''t'']
     else if n < 32 \<or> 127 \<le> n \<and> n \<le> 160 \<or> n = 173 then [CHR 0x5C, CHR ''x''] @ hex2 c
     else [c])"

definition repr_str :: "string \<Rightarrow> string" where
  "repr_str s =
    (let q = (if CHR 0x27 \<in> set s \<and> CHR 0x22 \<notin> set s then CHR 0x22 else CHR 0x27)
     in q # concat (map (repr_char q) s) @ [q])"

fun float_str_of :: "(rat \<Rightarrow> string) \<Rightarrow> pyfloat \<Rightarrow> string" where
  "float_str_of float_text (Fin r) = float_text r"
| "float_str_of float_text PInf = ''inf''"
| "float_str_of float_text NInf = ''-inf''"
| "float_str_of float_text NaN = ''nan''"

fun py_repr :: "(rat \<Rightarrow> string) \<Rightarrow> pyval \<Rightarrow> string" where
  "py_repr ft VNone = ''None''"
| "py_repr ft (VBool b) = (if b then ''True'' else ''False'')"
| "py_repr ft (VInt i) = int_str i"
| "py_repr ft (VFloat f) = float_str_of ft f"
| "py_repr ft (VStr s) = repr_str s"
| "py_repr ft (VList xs) = ''['' @ join '', '' (map (py_repr ft) xs) @ '']''"
| "py_repr ft (VDict d) =
    ''{'' @ join '', '' (map (\<lambda>x. repr_str (fst x) @ '': '' @ py_repr ft (snd x)) d) @ ''}''"

fun py_str :: "(rat \<Rightarrow> string) \<Rightarrow> pyval \<Rightarrow> string" where
  "py_str ft (VStr s) = s"
| "py_str ft v = py_repr ft v"

section \<open>JSON text\<close>

definition json_char :: "char \<Rightarrow> string" where
  "json_char c =
    (let n = of_char c :: nat in
     if n = 34 \<or> n = 92 then [CHR 0x5C, c]
     else if n = 10 then [CHR 0x5C, CHR ''n''] else if n = 13 then [CHR 0x5C, CHR ''r'']
     else if n = 9 then [CHR 0x5C, CHR ''t''] else if n = 8 then [CHR 0x5C, CHR ''b'']
     else if n = 12 then [CHR 0x5C, CHR ''f'']
     else if n < 32 \<or> 126 < n then [CHR 0x5C] @ ''u00'' @ hex2 c
     else [c])"

definition json_str :: "string \<Rightarrow> string" where
  "json_str s = [CHR 0x22] @ concat (map json_char s) @ [CHR 0x22]"

fun json_float :: "(rat \<Rightarrow> string) \<Rightarrow> pyfloat \<Rightarrow> string" where
  "json_float float_text (Fin r) = float_text r"
| "json_float float_text PInf = ''Infinity''"
| "json_float float_text NInf = ''-Infinity''"
| "json_float float_text NaN = ''NaN''"

text \<open>
  The separators are arguments: \<open>', '\<close> and \<open>': '\<close> by default, \<open>','\<close> and \<open>':'\<close> in the compact form.
  The items of an object are sorted by key.
\<close>

fun json_dumps :: "(rat \<Rightarrow> string) \<Rightarrow> string \<Rightarrow> string \<Rightarrow> pyval \<Rightarrow> string" where
  "json_dumps ft item_sep key_sep VNone = ''null''"
| "json_dumps ft item_sep key_sep (VBool b) = (if b then ''true'' else ''false'')"
| "json_dumps ft item_sep key_sep (VInt i) = int_str i"
| "json_dumps ft item_sep key_sep (VFloat f) = json_float ft f"
| "json_dumps ft item_sep key_sep (VStr s) = json_str s"
| "json_dumps ft item_sep key_sep (VList xs) =
    ''['' @ join item_sep (map (json_dumps ft item_sep key_sep) xs) @ '']''"
| "json_dumps ft item_sep key_sep (VDict d) =
    ''{'' @ join item_sep (map (\<lambda>x. json_str (fst x) @ key_sep @ snd x)
      (sort_key fst (map (\<lambda>x. (fst x, json_dumps ft item_sep key_sep (snd x))) d))) @ ''}''"

section \<open>Lemmas\<close>

lemma split_on_plain: "\<not> contains s sep \<Longrightarrow> split_on sep s = [s]"
proof -
  have "\<not> contains s sep \<Longrightarrow> split_acc sep acc s = [rev acc @ s]" for acc
    by (induction sep acc s rule: split_acc.induct) auto
  from this [of "[]"] show "\<not> contains s sep \<Longrightarrow> split_on sep s = [s]" by (simp add: split_on_def)
qed

end
