(* ===== verification/Repair.thy ===== *)
theory Repair
  imports Control_Plane Planner Py_Text
begin

text \<open>
  \<open>app/runtime/control_plane.py\<close>, second part: the repair of executions whose worker has stopped
  reporting. It covers the completed-checkpoint test with its graph search, the clean-up of the
  container, the expiry of abandoned approvals and the loop over the stored executions.
\<close>

section \<open>Completed checkpoints\<close>

fun node_id :: "pyval \<Rightarrow> string list" where
  "node_id (VStr (c # cs)) = [c # cs]"
| "node_id _ = []"

definition node_ids :: "json \<Rightarrow> string \<Rightarrow> exc + string list" where
  "node_ids checkpoint key =
    sbind (case map_of checkpoint key of None \<Rightarrow> Inr [] | Some v \<Rightarrow> py_iter v) (\<lambda>xs. Inr (concat (map node_id xs)))"

text \<open>The \<open>while pending\<close> loop: is a task node found among the nodes pending or beyond them?\<close>

function reaches_later_task ::
  "WorkflowEdgeDefinition list \<Rightarrow> string list \<Rightarrow> string list \<Rightarrow> string list \<Rightarrow> bool" where
  "reaches_later_task edges task_node_ids pending seen =
    (if pending = [] then False
     else let target_id = last pending; rest = butlast pending in
       if target_id \<in> set seen then reaches_later_task edges task_node_ids rest seen
       else if target_id \<in> set task_node_ids then True
       else reaches_later_task edges task_node_ids (rest @ outgoing edges target_id) (target_id # seen))"
  by pat_completeness auto

lemma outgoing_none: "t \<notin> ed_source_node_id ` set edges \<Longrightarrow> outgoing edges t = []"
  by (auto simp: outgoing_def filter_empty_conv)

termination reaches_later_task
proof (relation "inv_image (finite_psubset <*lex*> less_than)
    (\<lambda>(edges, _, pending, seen). (ed_source_node_id ` set edges - set seen, length pending))")
  fix edges :: "WorkflowEdgeDefinition list" and ts pending seen rest :: "string list" and t
  assume "pending \<noteq> []" "t = last pending" "rest = butlast pending" "t \<notin> set seen"
  then show "((edges, ts, rest @ outgoing edges t, t # seen), edges, ts, pending, seen)
      \<in> inv_image (finite_psubset <*lex*> less_than)
        (\<lambda>(edges, _, pending, seen). (ed_source_node_id ` set edges - set seen, length pending))"
  proof (cases "t \<in> ed_source_node_id ` set edges")
    case True
    then have "ed_source_node_id ` set edges - set (t # seen) \<subset> ed_source_node_id ` set edges - set seen"
      using \<open>t \<notin> set seen\<close> by auto
    then show ?thesis by (simp add: finite_psubset_def)
  next
    case False
    then have "ed_source_node_id ` set edges - set (t # seen) = ed_source_node_id ` set edges - set seen" by auto
    then show ?thesis using \<open>pending \<noteq> []\<close> \<open>rest = butlast pending\<close> False
      by (simp add: outgoing_none)
  qed
qed auto

declare reaches_later_task.simps [simp del]

definition task_nodes :: "WorkflowDefinition \<Rightarrow> string list" where
  "task_nodes workflow = map n_id (filter (\<lambda>n. n_node_type n = ''task'') (wd_nodes workflow))"

definition terminal_nodes :: "WorkflowDefinition \<Rightarrow> string list" where
  "terminal_nodes workflow =
    filter (\<lambda>n. \<not> reaches_later_task (wd_edges workflow) (task_nodes workflow) (outgoing (wd_edges workflow) n) [])
      (task_nodes workflow)"

definition has_completed_workflow_checkpoint :: "plane \<Rightarrow> Execution \<Rightarrow> exc + bool" where
  "has_completed_workflow_checkpoint p execution =
    (case e_output_payload execution of
       None \<Rightarrow> Inr False
     | Some output_payload \<Rightarrow>
         if map_of output_payload ''final_output'' = None then Inr False
         else case as_dict (jget output_payload ''checkpoint'') of
           None \<Rightarrow> Inr False
         | Some checkpoint \<Rightarrow>
             sbind (node_ids checkpoint ''completed_node_ids'') (\<lambda>completed.
               if completed = [] then Inr False
               else sbind (node_ids checkpoint ''terminal_node_ids'') (\<lambda>terminal.
                 if terminal \<noteq> [] then Inr (set terminal \<subseteq> set completed)
                 else case p_get_workflow p (e_workflow_id execution) of
                   None \<Rightarrow> Inr False
                 | Some workflow \<Rightarrow>
                     Inr (wd_nodes workflow \<noteq> [] \<and> terminal_nodes workflow \<noteq> [] \<and>
                          set (terminal_nodes workflow) \<subseteq> set completed))))"

section \<open>Repair of stale executions\<close>

definition STALE_REPAIR_STATUSES :: "ExecutionStatus set" where
  "STALE_REPAIR_STATUSES = {QUEUED, RUNNING, WAITING_FOR_INPUT, WAITING_FOR_APPROVAL, WAITING_FOR_EVENT,
     SLEEPING, PAUSED, CANCELLING}"

definition cleanup_failed :: "json \<Rightarrow> exc \<Rightarrow> json" where
  "cleanup_failed result e = dset ''error'' (VStr (exc_str e)) (dset ''action'' (VStr ''cleanup_failed'') result)"

definition or_time :: "datetime option \<Rightarrow> datetime option \<Rightarrow> datetime \<Rightarrow> datetime" where
  "or_time a b now = (case a of Some t \<Rightarrow> t | None \<Rightarrow> (case b of Some t \<Rightarrow> t | None \<Rightarrow> now))"

definition cleanup_stale_execution_container ::
  "plane \<Rightarrow> Execution \<Rightarrow> NativeExecutionState \<Rightarrow> string \<Rightarrow> world \<Rightarrow>
   json option \<times> Execution \<times> NativeExecutionState \<times> world" where
  "cleanup_stale_execution_container p execution state why w =
    (case (or_str (e_container_id execution) None, p_manager p) of
       (Some container_id, Some dm) \<Rightarrow>
         (let result = [(''container_id'', VStr container_id),
                (''previous_container_status'', opt_str (e_container_status execution)),
                (''action'', VStr ''none'')] in
          case inspect_container dm container_id w of
            Inl e \<Rightarrow> (Some (cleanup_failed result e), execution, state, w)
          | Inr container \<Rightarrow>
              (let result1 = dset ''inspected_status'' (VStr (c_status container)) result;
                   live = (c_status container \<in> set LIVE_CONTAINER_STATUSES) in
               case (if live then stop_container dm container_id w else (Inr container, w)) of
                 (Inl e, w1) \<Rightarrow> (Some (cleanup_failed result1 e), execution, state, w1)
               | (Inr container1, w1) \<Rightarrow>
                   (let result2 = dset ''action'' (VStr (if live then ''stopped_and_removed'' else ''removed'')) result1 in
                    case remove_container dm container_id
                           (c_status container1 \<in> set EXITED_CONTAINER_STATUSES) w1 of
                      (Inl e, w2) \<Rightarrow> (Some (cleanup_failed result2 e), execution, state, w2)
                    | (Inr _, w2) \<Rightarrow>
                        (let execution1 = execution\<lparr>e_container_status := Some ''removed'',
                               e_container_ended_at := Some (or_time (c_finished_at container1)
                                 (e_container_ended_at execution) (clock w2)),
                               e_container_exit_code := c_exit_code container1\<rparr>;
                             (_, state1, w3) = emit_container_stopped state container1
                               (e_runtime_revision_id execution) (Some why) w2;
                             result3 = dset ''exit_code'' (opt_int (c_exit_code container1))
                               (dset ''new_container_status'' (VStr ''removed'') result2)
                         in (Some result3, execution1, state1, w3)))))
     | _ \<Rightarrow> (None, execution, state, w))"

fun expire_requests :: "datetime \<Rightarrow> string \<Rightarrow> string \<Rightarrow> ApprovalRequest list \<Rightarrow> store \<Rightarrow> string list \<times> store" where
  "expire_requests now execution_id why [] s = ([], s)"
| "expire_requests now execution_id why (request # rest) s =
    (if ar_status request \<noteq> ''pending'' \<or> ar_tool_id request = [] then expire_requests now execution_id why rest s
     else
       let (expired, s1) = resolve_pending_approval_request now execution_id (ar_tool_id request) ''expired''
             [(''granted'', VBool False), (''reason'', VStr why),
              (''metadata'', VDict [(''mode'', VStr ''runtime_reconciler''), (''cause'', VStr ''worker_unresponsive'')])]
             (Some ''runtime_reconciler'') s;
           (ids, s2) = expire_requests now execution_id why rest s1
       in ((case expired of None \<Rightarrow> ids | Some r \<Rightarrow> ar_id r # ids), s2))"

definition expire_pending_execution_approvals :: "Execution \<Rightarrow> string \<Rightarrow> world \<Rightarrow> string list \<times> world" where
  "expire_pending_execution_approvals execution why w =
    (let (ids, s) = expire_requests (clock w) (e_id execution) why
           (list_approval_requests (e_id execution) (db w)) (db w)
     in (ids, w\<lparr>db := s\<rparr>))"

text \<open>The branch taken by previous status: the action, the execution it leaves and the event.\<close>

definition repair_choice ::
  "bool \<Rightarrow> datetime \<Rightarrow> Execution \<Rightarrow> string \<times> Execution \<times> ExecutionEventType" where
  "repair_choice completed_checkpoint now execution =
    (let done_at = Some (or_time (e_completed_at execution) None now) in
     if e_status execution = WAITING_FOR_APPROVAL then
       (''failed_abandoned_approval'',
        execution\<lparr>e_status := FAILED, e_completed_at := done_at, e_error := Some
          (''Approval wait was abandoned because the execution worker stopped heartbeating. '' @
           ''Resume from a safe checkpoint or start a replacement execution.'')\<rparr>, EXECUTION_FAILED)
     else if completed_checkpoint \<and> e_status execution \<noteq> CANCELLING then
       (''marked_completed'', execution\<lparr>e_status := COMPLETED, e_completed_at := done_at, e_error := None\<rparr>,
        EXECUTION_COMPLETED)
     else if e_status execution = CANCELLING then
       (''marked_cancelled'', execution\<lparr>e_status := ExecutionStatus.CANCELLED, e_completed_at := done_at,
          e_error := or_str (e_error execution) (Some ''Stale cancelling execution was marked cancelled'')\<rparr>,
        EXECUTION_CANCELLED)
     else (''requeued'', execution\<lparr>e_status := QUEUED\<rparr>, EXECUTION_REPAIRED))"

definition opt_item :: "string \<Rightarrow> pyval option \<Rightarrow> json" where
  "opt_item k v = (case v of None \<Rightarrow> [] | Some x \<Rightarrow> [(k, x)])"

definition ids_val :: "string list \<Rightarrow> pyval option" where
  "ids_val ids = (if ids = [] then None else Some (VList (map VStr ids)))"

definition repair_item :: "Execution \<Rightarrow> string \<Rightarrow> string \<Rightarrow> staleness \<Rightarrow> json" where
  "repair_item execution previous_status repair_action c =
    [(''execution_id'', VStr (e_id execution)), (''previous_status'', VStr previous_status),
     (''new_status'', VStr (execution_status_value (e_status execution))),
     (''repair_action'', VStr repair_action), (''reason'', opt_str (sc_reason c))]"

definition count_repair :: "plane \<Rightarrow> string \<Rightarrow> string \<Rightarrow> json \<Rightarrow> world \<Rightarrow> world" where
  "count_repair p repair_action previous_status item w =
    (if p_has_operations p
     then w\<lparr>operations := record_action ''stale_execution_repair'' item
            (increment (''stale_execution_repairs.status.'' @ previous_status) 1
            (increment (''stale_execution_repairs.'' @ repair_action) 1
            (increment ''stale_execution_repairs'' 1 (operations w))))\<rparr>
     else w)"

definition repair_execution :: "plane \<Rightarrow> staleness \<Rightarrow> Execution \<Rightarrow> json act" where
  "repair_execution p c execution w =
    (case has_completed_workflow_checkpoint p execution of
       Inl e \<Rightarrow> (Inl e, w)
     | Inr completed_checkpoint \<Rightarrow>
         let previous_status = execution_status_value (e_status execution);
             (repair_action, execution1, event_type) = repair_choice completed_checkpoint (clock w) execution;
             why = ''stale_execution_'' @ repair_action;
             preservation = (if repair_action \<noteq> ''marked_completed''
               then partial_result_preservation_snapshot execution1 why w else None);
             (state, w1) = event_state_for (e_id execution1) (e_workflow_id execution1) w;
             (container_repair, execution2, state1, w2) =
               (if repair_action \<in> {''requeued'', ''marked_completed'', ''failed_abandoned_approval''}
                then cleanup_stale_execution_container p execution1 state why w1
                else (None, execution1, state, w1));
             (expired, w3) = (if repair_action = ''failed_abandoned_approval''
               then expire_pending_execution_approvals execution2
                 (case or_str (e_error execution2) None of Some m \<Rightarrow> m | None \<Rightarrow> ''Approval worker stopped heartbeating.'') w2
               else ([], w2));
             metadata1 = (if repair_action = ''failed_abandoned_approval''
               then dpop ''pending_approval'' (e_metadata execution2) else e_metadata execution2);
             metadata2 = (case preservation of None \<Rightarrow> metadata1
               | Some s \<Rightarrow> dset ''partial_result_preservation'' (VDict s) metadata1);
             stale_repair = [(''repaired_at'', VStr (isoformat (clock w3))),
                 (''previous_status'', VStr previous_status), (''repair_action'', VStr repair_action),
                 (''stale_after_seconds'', VInt (p_stale_after_seconds p)),
                 (''age_seconds'', VInt (sc_age_seconds c))] @
               opt_item ''container_repair'' (map_option VDict container_repair) @
               opt_item ''expired_approval_request_ids'' (ids_val expired);
             execution3 = execution2\<lparr>e_worker_id := None, e_last_heartbeat_at := None,
               e_metadata := dset ''stale_repair'' (VDict stale_repair) metadata2, e_updated_at := clock w3\<rparr>;
             item = repair_item execution3 previous_status repair_action c;
             payload = [(''execution_id'', VStr (e_id execution3)), (''previous_status'', VStr previous_status),
                 (''new_status'', VStr (execution_status_value (e_status execution3))),
                 (''repair_action'', VStr repair_action), (''reason'', opt_str (sc_reason c)),
                 (''stale_classification'', VDict (classification_json c))] @
               (if repair_action = ''marked_completed''
                then [(''output'', case e_output_payload execution3 of None \<Rightarrow> VNone | Some d \<Rightarrow> VDict d)] else []) @
               opt_item ''partial_result_preservation'' (map_option VDict preservation) @
               opt_item ''container_repair'' (map_option VDict container_repair) @
               opt_item ''expired_approval_request_ids'' (ids_val expired);
             w4 = snd (snd (emit_payload state1 event_type payload (db_update_execution execution3 w3)))
         in (Inr item, count_repair p repair_action previous_status item w4))"

definition classify_stale_execution :: "plane \<Rightarrow> datetime \<Rightarrow> Execution \<Rightarrow> staleness" where
  "classify_stale_execution p now execution =
    classify_execution_staleness (p_fromiso p) now execution (p_stale_after_seconds p) None None"

definition to_repair :: "plane \<Rightarrow> string option \<Rightarrow> string option \<Rightarrow> datetime \<Rightarrow> Execution \<Rightarrow> bool" where
  "to_repair p workflow_id execution_id now execution =
    ((case execution_id of None \<Rightarrow> True | Some i \<Rightarrow> e_id execution = i) \<and>
     (case workflow_id of None \<Rightarrow> True | Some i \<Rightarrow> e_workflow_id execution = i) \<and>
     e_status execution \<in> STALE_REPAIR_STATUSES \<and> sc_is_stale (classify_stale_execution p now execution))"

fun repair_loop :: "plane \<Rightarrow> string option \<Rightarrow> string option \<Rightarrow> Execution list \<Rightarrow> json list act" where
  "repair_loop p workflow_id execution_id [] w = (Inr [], w)"
| "repair_loop p workflow_id execution_id (execution # rest) w =
    (if to_repair p workflow_id execution_id (clock w) execution
     then andthen (repair_execution p (classify_stale_execution p (clock w) execution) execution w) (\<lambda>item w1.
            andthen (repair_loop p workflow_id execution_id rest w1) (\<lambda>items w2. (Inr (item # items), w2)))
     else repair_loop p workflow_id execution_id rest w)"

definition repair_stale_executions :: "plane \<Rightarrow> string option \<Rightarrow> string option \<Rightarrow> json list act" where
  "repair_stale_executions p workflow_id execution_id w =
    repair_loop p workflow_id execution_id (list_active_executions (db w)) w"

definition recover_stale_executions :: "plane \<Rightarrow> string option \<Rightarrow> pyval list act" where
  "recover_stale_executions p workflow_id w =
    andthen (repair_stale_executions p workflow_id None w) (\<lambda>items w1.
      (Inr (map (\<lambda>item. jget item ''execution_id'') items), w1))"

section \<open>Terminal task nodes\<close>

definition edge_rel :: "WorkflowEdgeDefinition list \<Rightarrow> (string \<times> string) set" where
  "edge_rel edges = (\<lambda>e. (ed_source_node_id e, ed_target_node_id e)) ` set edges"

lemma outgoing_set: "x \<in> set (outgoing edges n) \<longleftrightarrow> (n, x) \<in> edge_rel edges"
  by (auto simp: outgoing_def edge_rel_def)

lemma pending_split: "pending \<noteq> [] \<Longrightarrow> set pending = insert (last pending) (set (butlast pending))"
  by (metis append_butlast_last_id list.simps(15) rotate1.simps(2) set_rotate1)

lemma reaches_sound:
  "reaches_later_task edges ts pending seen \<Longrightarrow> \<exists>x \<in> set pending. \<exists>t \<in> set ts. (x, t) \<in> (edge_rel edges)\<^sup>*"
proof (induction edges ts pending seen rule: reaches_later_task.induct)
  case (1 edges ts pending seen)
  let ?t = "last pending"
  have ne: "pending \<noteq> []" using "1.prems" by (subst (asm) reaches_later_task.simps) (auto split: if_splits)
  consider "?t \<in> set seen" | "?t \<notin> set seen" "?t \<in> set ts" | "?t \<notin> set seen" "?t \<notin> set ts" by blast
  then show ?case
  proof cases
    case 1
    then have "reaches_later_task edges ts (butlast pending) seen"
      using "1.prems" ne by (subst (asm) reaches_later_task.simps) simp
    from "1.IH"(1) [OF ne refl refl \<open>?t \<in> set seen\<close> this] show ?thesis using pending_split [OF ne] by auto
  next
    case 2
    then show ?thesis using pending_split [OF ne] by auto
  next
    case 3
    then have "reaches_later_task edges ts (butlast pending @ outgoing edges ?t) (?t # seen)"
      using "1.prems" ne by (subst (asm) reaches_later_task.simps) (simp add: Let_def)
    from "1.IH"(2) [OF ne refl refl 3 this] obtain x t where
      m: "x \<in> set (butlast pending @ outgoing edges ?t)" and t: "t \<in> set ts" "(x, t) \<in> (edge_rel edges)\<^sup>*"
      by blast
    from m have x: "x \<in> set (butlast pending) \<or> (?t, x) \<in> edge_rel edges" by (simp add: outgoing_set)
    from x show ?thesis
    proof
      assume "x \<in> set (butlast pending)"
      with t pending_split [OF ne] show ?thesis by auto
    next
      assume "(?t, x) \<in> edge_rel edges"
      with t(2) have "(?t, t) \<in> (edge_rel edges)\<^sup>*" by (simp add: converse_rtrancl_into_rtrancl)
      with t(1) pending_split [OF ne] show ?thesis by auto
    qed
  qed
qed

text \<open>When the loop ends without a task, the nodes seen are closed under edges and hold no task.\<close>

lemma reaches_complete:
  "\<not> reaches_later_task edges ts pending seen \<Longrightarrow> set seen \<inter> set ts = {} \<Longrightarrow>
   edge_rel edges `` set seen \<subseteq> set seen \<union> set pending \<Longrightarrow> x \<in> set seen \<union> set pending \<Longrightarrow> t \<in> set ts \<Longrightarrow>
   (x, t) \<notin> (edge_rel edges)\<^sup>*"
proof (induction edges ts pending seen rule: reaches_later_task.induct)
  case (1 edges ts pending seen)
  let ?t = "last pending"
  show ?case
  proof (cases "pending = []")
    case True
    have "y \<in> set seen" if "(x, y) \<in> (edge_rel edges)\<^sup>*" for y
      using that by (induction rule: rtrancl_induct) (use "1.prems"(3,4) True in auto)
    then show ?thesis using "1.prems"(2,5) by blast
  next
    case ne: False
    note split = pending_split [OF ne]
    have nt: "?t \<notin> set ts" if "?t \<notin> set seen"
      using "1.prems"(1) ne that by (subst (asm) reaches_later_task.simps) (auto simp: Let_def)
    show ?thesis
    proof (cases "?t \<in> set seen")
      case True
      then have "\<not> reaches_later_task edges ts (butlast pending) seen"
        using "1.prems"(1) ne by (subst (asm) reaches_later_task.simps) simp
      from "1.IH"(1) [OF ne refl refl True this "1.prems"(2) _ _ "1.prems"(5)] "1.prems"(3,4) True split
      show ?thesis by auto
    next
      case False
      then have "\<not> reaches_later_task edges ts (butlast pending @ outgoing edges ?t) (?t # seen)"
        using "1.prems"(1) ne nt by (subst (asm) reaches_later_task.simps) (simp add: Let_def)
      moreover have "edge_rel edges `` set (?t # seen) \<subseteq>
          set (?t # seen) \<union> set (butlast pending @ outgoing edges ?t)"
        using "1.prems"(3) split by (auto simp: outgoing_set)
      moreover have "set (?t # seen) \<inter> set ts = {}" using "1.prems"(2) nt [OF False] by auto
      moreover have "x \<in> set (?t # seen) \<union> set (butlast pending @ outgoing edges ?t)"
        using "1.prems"(4) split by auto
      ultimately show ?thesis using "1.IH"(2) [OF ne refl refl False nt [OF False] _ _ _ _ "1.prems"(5)] by blast
    qed
  qed
qed

text \<open>
  C12: The search for the terminal nodes of a workflow, whatever cycles its edges have, ends and is
  exact: the nodes it returns are the task nodes from which no path of one or more edges leads to
  a task node.
\<close>

theorem terminal_nodes_exact:
  "set (terminal_nodes workflow) =
    {n \<in> set (task_nodes workflow). \<not> (\<exists>t \<in> set (task_nodes workflow). (n, t) \<in> (edge_rel (wd_edges workflow))\<^sup>+)}"
proof -
  let ?E = "edge_rel (wd_edges workflow)" and ?ts = "task_nodes workflow"
  have "reaches_later_task (wd_edges workflow) ?ts (outgoing (wd_edges workflow) n) [] \<longleftrightarrow>
      (\<exists>t \<in> set ?ts. (n, t) \<in> ?E\<^sup>+)" for n
  proof
    assume "reaches_later_task (wd_edges workflow) ?ts (outgoing (wd_edges workflow) n) []"
    from reaches_sound [OF this] show "\<exists>t \<in> set ?ts. (n, t) \<in> ?E\<^sup>+"
      by (auto simp: outgoing_set) (blast intro: rtrancl_into_trancl2)
  next
    assume "\<exists>t \<in> set ?ts. (n, t) \<in> ?E\<^sup>+"
    then obtain t x where t: "t \<in> set ?ts" "(n, x) \<in> ?E" "(x, t) \<in> ?E\<^sup>*" by (auto dest: tranclD)
    then show "reaches_later_task (wd_edges workflow) ?ts (outgoing (wd_edges workflow) n) []"
      using reaches_complete [of "wd_edges workflow" ?ts "outgoing (wd_edges workflow) n" "[]" x t]
      by (auto simp: outgoing_set)
  qed
  then show ?thesis by (auto simp: terminal_nodes_def)
qed

section \<open>What repair does\<close>

text \<open>Docker calls change the daemon only.\<close>

lemma docker_call_frame [simp]: "snd (docker_call call m w) = w\<lparr>daemon := snd (call (daemon w))\<rparr>"
  by (simp add: docker_call_def split: prod.split)

lemma same_daemon: "\<exists>d. w = w\<lparr>daemon := d\<rparr>"
  by (rule exI [of _ "daemon w"]) simp

lemma stop_container_frame: "\<exists>d. snd (stop_container dm i w) = w\<lparr>daemon := d\<rparr>"
proof (cases "get_container dm i w")
  case (Inl e)
  then show ?thesis using same_daemon by (simp add: stop_container_def)
next
  case (Inr c)
  let ?r = "docker_call (api_stop (dm_api dm) (dk_id c)) (''Failed to stop container '' @ quote i) w"
  have "snd (stop_container dm i w) = snd ?r"
    using Inr by (simp add: stop_container_def del: docker_call_frame split: prod.split option.split)
  then show ?thesis by auto
qed

lemma remove_container_frame: "\<exists>d. snd (remove_container dm i f w) = w\<lparr>daemon := d\<rparr>"
proof (cases "get_container dm i w")
  case (Inl e)
  then show ?thesis using same_daemon by (simp add: remove_container_def)
next
  case (Inr c)
  let ?r = "docker_call (api_remove (dm_api dm) (dk_id c) f) (''Failed to remove container '' @ quote i) w"
  have "snd (remove_container dm i f w) = snd ?r"
    using Inr by (simp add: remove_container_def del: docker_call_frame split: prod.split option.split)
  then show ?thesis by auto
qed

text \<open>
  A step of the repair: the rows of executions and the ledger stay, the stream of one execution
  may grow, the daemon may change.
\<close>

definition quiet :: "string \<Rightarrow> world \<Rightarrow> world \<Rightarrow> bool" where
  "quiet i w w' \<longleftrightarrow> executions (db w') = executions (db w) \<and> waits (db w') = waits (db w) \<and>
     artifacts (db w') = artifacts (db w) \<and> clock w' = clock w \<and> states w' = states w \<and>
     (\<exists>evs. list_events i (db w') = list_events i (db w) @ evs) \<and>
     (\<forall>j. j \<noteq> i \<longrightarrow> list_events j (db w') = list_events j (db w))"

lemma quiet_refl [simp]: "quiet i w w"
  by (simp add: quiet_def)

lemma quiet_trans: "quiet i a b \<Longrightarrow> quiet i b c \<Longrightarrow> quiet i a c"
  by (auto simp: quiet_def)

lemma quiet_daemon: "quiet i w w0 \<Longrightarrow> quiet i w (w0\<lparr>daemon := d\<rparr>)"
  by (simp add: quiet_def)

lemma quiet_emit:
  assumes "ty \<notin> set ACTIVITY_EVENT_TYPES" and "st_execution_id st = i"
  shows "quiet i w (snd (snd (emit_payload st ty payload w)))"
  using assms emit_executions(1) [OF assms(1)] by (simp add: quiet_def emit_payload_def emit_appends)

lemma quiet_event_state: "quiet i w (snd (event_state_for i wid w))"
  by (simp add: quiet_def)

lemma not_activity:
  "CONTAINER_STOPPED \<notin> set ACTIVITY_EVENT_TYPES" "EXECUTION_FAILED \<notin> set ACTIVITY_EVENT_TYPES"
  "EXECUTION_COMPLETED \<notin> set ACTIVITY_EVENT_TYPES" "EXECUTION_CANCELLED \<notin> set ACTIVITY_EVENT_TYPES"
  "EXECUTION_REPAIRED \<notin> set ACTIVITY_EVENT_TYPES" "CONTAINER_FAILED \<notin> set ACTIVITY_EVENT_TYPES"
  "CONTAINER_REPLACED \<notin> set ACTIVITY_EVENT_TYPES" "CONTAINER_CREATED \<notin> set ACTIVITY_EVENT_TYPES"
  "CONTAINER_STARTED \<notin> set ACTIVITY_EVENT_TYPES" "RUNTIME_REVISION_RESOLVED \<notin> set ACTIVITY_EVENT_TYPES"
  "RUNTIME_REVISION_INVALIDATED \<notin> set ACTIVITY_EVENT_TYPES"
  "ONECLI_WORKER_ENFORCEMENT_RECORDED \<notin> set ACTIVITY_EVENT_TYPES"
  by (simp_all add: ACTIVITY_EVENT_TYPES_def)

text \<open>What the clean-up of a container keeps of the execution.\<close>

definition same_repair_fields :: "Execution \<Rightarrow> Execution \<Rightarrow> bool" where
  "same_repair_fields e e' \<longleftrightarrow> e_id e' = e_id e \<and> e_status e' = e_status e \<and> e_workflow_id e' = e_workflow_id e \<and>
     e_error e' = e_error e \<and> e_metadata e' = e_metadata e \<and> e_output_payload e' = e_output_payload e \<and>
     e_completed_at e' = e_completed_at e \<and> e_container_id e' = e_container_id e"

lemma same_repair_refl [simp]: "same_repair_fields e e"
  by (simp add: same_repair_fields_def)

lemma cleanup_frame:
  assumes "cleanup_stale_execution_container p e st why w = (r, e', st', w')" and "st_execution_id st = i"
  shows "quiet i w w' \<and> same_repair_fields e e' \<and> st_execution_id st' = i"
proof (cases "or_str (e_container_id e) None")
  case None
  then show ?thesis using assms by (simp add: cleanup_stale_execution_container_def)
next
  case cid: (Some cid)
  show ?thesis
  proof (cases "p_manager p")
    case None
    then show ?thesis using assms cid by (simp add: cleanup_stale_execution_container_def)
  next
    case dm: (Some dm)
    show ?thesis
    proof (cases "inspect_container dm cid w")
      case (Inl x)
      then show ?thesis using assms cid dm by (simp add: cleanup_stale_execution_container_def)
    next
      case c: (Inr c)
      define live where "live = (c_status c \<in> set LIVE_CONTAINER_STATUSES)"
      obtain r1 w1 where s1: "(if live then stop_container dm cid w else (Inr c, w)) = (r1, w1)"
        by (cases "if live then stop_container dm cid w else (Inr c, w)")
      have "\<exists>d. w1 = w\<lparr>daemon := d\<rparr>"
        using s1 stop_container_frame [of dm cid w] same_daemon [of w] by (cases live) auto
      then have q1: "quiet i w w1" using quiet_daemon [OF quiet_refl] by metis
      show ?thesis
      proof (cases r1)
        case (Inl x)
        then show ?thesis using assms cid dm c s1 q1
          by (simp add: cleanup_stale_execution_container_def live_def Let_def)
      next
        case c1: (Inr c1)
        define f where "f = (c_status c1 \<in> set EXITED_CONTAINER_STATUSES)"
        obtain r2 w2 where s2: "remove_container dm cid f w1 = (r2, w2)" by (cases "remove_container dm cid f w1")
        have "\<exists>d. w2 = w1\<lparr>daemon := d\<rparr>" using s2 remove_container_frame [of dm cid f w1] by simp
        then have q2: "quiet i w w2" using quiet_daemon [OF q1] by metis
        have s2': "remove_container dm cid (c_status c1 \<in> set EXITED_CONTAINER_STATUSES) w1 = (r2, w2)"
          using s2 by (simp add: f_def)
        show ?thesis
        proof (cases r2)
          case (Inl x)
          then show ?thesis using assms cid dm c s1 c1 s2' q2
            by (simp add: cleanup_stale_execution_container_def live_def Let_def)
        next
          case (Inr u)
          then have w': "w' = snd (snd (emit_container_stopped st c1 (e_runtime_revision_id e) (Some why) w2))"
            and st': "st' = fst (snd (emit_container_stopped st c1 (e_runtime_revision_id e) (Some why) w2))"
            and e': "same_repair_fields e e'"
            using assms cid dm c s1 c1 s2'
            by (auto simp: cleanup_stale_execution_container_def live_def Let_def same_repair_fields_def
                split: prod.splits)
          have "quiet i w2 w'" unfolding w' lifecycle_emits by (rule quiet_emit [OF not_activity(1) assms(2)])
          then show ?thesis using e' st' quiet_trans [OF q2] assms(2) by (simp add: lifecycle_emits)
        qed
      qed
    qed
  qed
qed

lemma expire_requests_frame:
  "executions (snd (expire_requests now i why rs s)) = executions s \<and>
   waits (snd (expire_requests now i why rs s)) = waits s \<and>
   artifacts (snd (expire_requests now i why rs s)) = artifacts s \<and>
   events (snd (expire_requests now i why rs s)) = events s"
proof (induction rs arbitrary: s)
  case (Cons r rs)
  have "executions (snd (resolve_pending_approval_request now i t st p b s)) = executions s \<and>
      waits (snd (resolve_pending_approval_request now i t st p b s)) = waits s \<and>
      artifacts (snd (resolve_pending_approval_request now i t st p b s)) = artifacts s \<and>
      events (snd (resolve_pending_approval_request now i t st p b s)) = events s" for t st p b
    by (simp add: resolve_pending_approval_request_def update_approval_request_def Let_def
        split: list.split option.split)
  then show ?case using Cons.IH by (simp add: Let_def case_prod_unfold)
qed simp

lemma expire_frame: "quiet i w (snd (expire_pending_execution_approvals e why w))"
  using expire_requests_frame [of "clock w" "e_id e" why "list_approval_requests (e_id e) (db w)" "db w"]
  by (simp add: quiet_def expire_pending_execution_approvals_def Let_def case_prod_unfold list_events_def)

text \<open>What each status becomes.\<close>

definition repair_result :: "bool \<Rightarrow> ExecutionStatus \<Rightarrow> ExecutionStatus \<times> ExecutionEventType" where
  "repair_result completed_checkpoint status =
    (if status = WAITING_FOR_APPROVAL then (FAILED, EXECUTION_FAILED)
     else if status = CANCELLING then (ExecutionStatus.CANCELLED, EXECUTION_CANCELLED)
     else if completed_checkpoint then (COMPLETED, EXECUTION_COMPLETED)
     else (QUEUED, EXECUTION_REPAIRED))"

lemma repair_choice_effect:
  assumes "repair_choice completed now e = (act, e', ty)"
  shows "(e_status e', ty) = repair_result completed (e_status e)" "e_id e' = e_id e"
    "e_workflow_id e' = e_workflow_id e" "ty \<notin> set ACTIVITY_EVENT_TYPES" "e_container_id e' = e_container_id e"
  using assms not_activity by (auto simp: repair_choice_def repair_result_def Let_def split: if_splits)

definition repaired :: "bool \<Rightarrow> Execution \<Rightarrow> world \<Rightarrow> world \<Rightarrow> bool" where
  "repaired completed e w w' \<longleftrightarrow>
     (\<exists>e' evs ev. executions (db w') = dset (e_id e) e' (executions (db w)) \<and>
        get_execution (e_id e) (db w') = Some e' \<and> e_id e' = e_id e \<and> e_container_id e' = e_container_id e \<and>
        (e_status e', ev_event_type ev) = repair_result completed (e_status e) \<and>
        e_worker_id e' = None \<and> e_last_heartbeat_at e' = None \<and>
        list_events (e_id e) (db w') = list_events (e_id e) (db w) @ evs @ [ev]) \<and>
     waits (db w') = waits (db w) \<and> artifacts (db w') = artifacts (db w) \<and> clock w' = clock w \<and>
     (\<forall>j. j \<noteq> e_id e \<longrightarrow> get_execution j (db w') = get_execution j (db w) \<and>
        list_events j (db w') = list_events j (db w))"

lemma repair_execution_effect:
  assumes "has_completed_workflow_checkpoint p e = Inr completed"
  shows "\<exists>item w'. repair_execution p c e w = (Inr item, w') \<and> repaired completed e w w'"
proof -
  let ?i = "e_id e"
  obtain act e1 ty where ch: "repair_choice completed (clock w) e = (act, e1, ty)"
    by (cases "repair_choice completed (clock w) e")
  note eff = repair_choice_effect [OF ch]
  obtain st w1 where ev: "event_state_for (e_id e1) (e_workflow_id e1) w = (st, w1)"
    by (cases "event_state_for (e_id e1) (e_workflow_id e1) w")
  have st: "st_execution_id st = ?i" using ev eff(2) event_state_for_simps
    by (metis fst_conv)
  have q1: "quiet ?i w w1" using quiet_event_state [of ?i w "e_workflow_id e1"] ev eff(2) by simp
  let ?why = "''stale_execution_'' @ act"
  obtain cr e2 st2 w2 where cl: "(if act \<in> {''requeued'', ''marked_completed'', ''failed_abandoned_approval''}
      then cleanup_stale_execution_container p e1 st ?why w1 else (None, e1, st, w1)) = (cr, e2, st2, w2)"
    by (cases "if act \<in> {''requeued'', ''marked_completed'', ''failed_abandoned_approval''}
      then cleanup_stale_execution_container p e1 st ?why w1 else (None, e1, st, w1)")
  have "quiet ?i w1 w2 \<and> same_repair_fields e1 e2 \<and> st_execution_id st2 = ?i"
    using cl cleanup_frame [OF _ st] st by (auto split: if_splits)
  then have q2: "quiet ?i w w2" and f: "same_repair_fields e1 e2" and st2: "st_execution_id st2 = ?i"
    using quiet_trans [OF q1] by auto
  let ?msg = "case or_str (e_error e2) None of Some m \<Rightarrow> m | None \<Rightarrow> ''Approval worker stopped heartbeating.''"
  obtain ids w3 where ex: "(if act = ''failed_abandoned_approval''
      then expire_pending_execution_approvals e2 ?msg w2 else ([], w2)) = (ids, w3)"
    by (cases "if act = ''failed_abandoned_approval'' then expire_pending_execution_approvals e2 ?msg w2 else ([], w2)")
  have "quiet ?i w2 w3" using ex expire_frame [of ?i w2 e2 ?msg] by (auto split: if_splits)
  then have q3: "quiet ?i w w3" using quiet_trans [OF q2] by blast
  obtain md payload item where call: "repair_execution p c e w = (Inr item,
      count_repair p act (execution_status_value (e_status e)) item
        (snd (snd (emit_payload st2 ty payload (db_update_execution
          (e2\<lparr>e_worker_id := None, e_last_heartbeat_at := None, e_metadata := md, e_updated_at := clock w3\<rparr>) w3)))))"
    unfolding repair_execution_def assms sum.case Let_def ch prod.case ev cl ex by blast
  let ?e3 = "e2\<lparr>e_worker_id := None, e_last_heartbeat_at := None, e_metadata := md, e_updated_at := clock w3\<rparr>"
  let ?w4 = "snd (snd (emit_payload st2 ty payload (db_update_execution ?e3 w3)))"
  have id3: "e_id ?e3 = ?i" using f eff(2) by (simp add: same_repair_fields_def)
  have q4: "quiet ?i (db_update_execution ?e3 w3) ?w4" by (rule quiet_emit [OF eff(4) st2])
  have last: "\<exists>x. ev_event_type x = ty \<and> list_events ?i (db ?w4) = list_events ?i (db w3) @ [x]"
    using st2 by (auto simp: emit_payload_def emit_appends)
  obtain evs where evs: "list_events ?i (db w3) = list_events ?i (db w) @ evs" using q3 by (auto simp: quiet_def)
  have row: "get_execution ?i (db ?w4) = Some (?e3\<lparr>e_updated_at := clock w3\<rparr>)"
    using q4 id3 by (simp add: quiet_def get_execution_eq [of "db ?w4" "db (db_update_execution ?e3 w3)"])
  have st3: "(e_status ?e3, ty) = repair_result completed (e_status e)"
    using eff(1) f by (simp add: same_repair_fields_def)
  have rows: "executions (db ?w4) = dset ?i (?e3\<lparr>e_updated_at := clock w3\<rparr>) (executions (db w))"
    using q3 q4 id3 by (simp add: quiet_def db_update_execution_def update_execution_def repo_save_execution_def Let_def)
  have cont: "e_container_id ?e3 = e_container_id e" using f eff(5) by (simp add: same_repair_fields_def)
  obtain x where x: "ev_event_type x = ty" "list_events ?i (db ?w4) = list_events ?i (db w) @ evs @ [x]"
    using last evs by auto
  have others: "get_execution j (db ?w4) = get_execution j (db w) \<and> list_events j (db ?w4) = list_events j (db w)"
    if "j \<noteq> ?i" for j
    using that q3 q4 id3 get_execution_eq [of "db ?w4" "db (db_update_execution ?e3 w3)"]
      get_execution_eq [of "db w3" "db w"] by (simp add: quiet_def)
  have rest: "waits (db ?w4) = waits (db w)" "artifacts (db ?w4) = artifacts (db w)" "clock ?w4 = clock w"
    using q3 q4 by (simp_all add: quiet_def)
  have "repaired completed e w ?w4"
    unfolding repaired_def using rest others
    by (intro conjI exI [of _ "?e3\<lparr>e_updated_at := clock w3\<rparr>"] exI [of _ evs] exI [of _ x])
      (use row x st3 rows cont id3 in simp_all)
  moreover have "db (count_repair p a b x u) = db u" "clock (count_repair p a b x u) = clock u" for a b x u
    by (simp_all add: count_repair_def)
  ultimately show ?thesis unfolding call repaired_def by simp
qed

text \<open>Executions the loop does not pick keep their row and their stream.\<close>

definition spared :: "string \<Rightarrow> world \<Rightarrow> world \<Rightarrow> bool" where
  "spared i w w' \<longleftrightarrow> get_execution i (db w') = get_execution i (db w) \<and>
     list_events i (db w') = list_events i (db w) \<and> waits (db w') = waits (db w) \<and> clock w' = clock w"

lemma repair_execution_failed:
  "has_completed_workflow_checkpoint p e = Inl x \<Longrightarrow> repair_execution p c e w = (Inl x, w)"
  by (simp add: repair_execution_def)

lemma repair_execution_spares:
  assumes "e_id e \<noteq> i"
  shows "spared i w (snd (repair_execution p c e w))"
proof (cases "has_completed_workflow_checkpoint p e")
  case (Inl x)
  then show ?thesis by (simp add: repair_execution_failed spared_def)
next
  case (Inr b)
  from repair_execution_effect [OF this] obtain item w' where
    "repair_execution p c e w = (Inr item, w')" "repaired b e w w'" by blast
  then show ?thesis using assms by (auto simp: repaired_def spared_def)
qed

lemma repair_loop_spares:
  assumes "\<forall>x \<in> set xs. e_id x = i \<longrightarrow> \<not> to_repair p wid eid (clock w) x"
  shows "spared i w (snd (repair_loop p wid eid xs w))"
  using assms
proof (induction xs arbitrary: w)
  case (Cons x xs)
  show ?case
  proof (cases "to_repair p wid eid (clock w) x")
    case False
    then show ?thesis using Cons by simp
  next
    case True
    then have "e_id x \<noteq> i" using Cons.prems by auto
    note one = repair_execution_spares [OF this, of w p "classify_stale_execution p (clock w) x"]
    obtain r w1 where r: "repair_execution p (classify_stale_execution p (clock w) x) x w = (r, w1)"
      by (cases "repair_execution p (classify_stale_execution p (clock w) x) x w")
    have "clock w1 = clock w" using one r by (simp add: spared_def)
    then have "spared i w1 (snd (repair_loop p wid eid xs w1))" using Cons by simp
    then show ?thesis using one r True by (auto simp: spared_def andthen_snd split: sum.split)
  qed
qed (simp add: spared_def)

lemma listed_execution:
  "keyed s \<Longrightarrow> distinct (map fst (executions s)) \<Longrightarrow> e \<in> set (list_active_executions s) \<Longrightarrow>
   get_execution (e_id e) s = Some e"
  by (auto simp: list_active_executions_def list_executions_def get_execution_def keyed_def dvalues_def)

text \<open>
  C10: Repair settles a stale execution by its status: one waiting for an approval fails, a
  cancelling one is cancelled, one whose checkpoint is complete is completed, and any other is
  queued again. In every case the worker and its heartbeat are released, the stream ends with
  the matching event, and no wait, artifact, other execution or other stream changes, whether or
  not its container could be inspected, stopped and removed.
\<close>

theorem repair_decides_by_status:
  assumes "has_completed_workflow_checkpoint p e = Inr completed"
  shows "\<exists>item w'. repair_execution p c e w = (Inr item, w') \<and> repaired completed e w w'"
  by (rule repair_execution_effect [OF assms])

definition sample_plane :: plane where
  "sample_plane = \<lparr>p_execution_isolation_enabled = False, p_runtime_revision_shadow_mode = False,
     p_cancel_outdated_executions = True, p_worker_id = ''worker-1'', p_stale_after_seconds = 30,
     p_fromiso = (\<lambda>_. None), p_manager = None, p_get_workflow = (\<lambda>_. None), p_has_operations = True\<rparr>"

theorem repair_decides_by_status_witness:
  "\<exists>item w'. repair_execution sample_plane (classify_stale_execution sample_plane 100 sample_execution)
       (sample_execution\<lparr>e_status := RUNNING\<rparr>) sample_world = (Inr item, w') \<and>
     repaired False (sample_execution\<lparr>e_status := RUNNING\<rparr>) sample_world w'"
  by (rule repair_decides_by_status) (simp add: has_completed_workflow_checkpoint_def)

text \<open>
  Repair leaves alone what is parked on purpose: an execution that waits for input, an event
  or a timer, or is paused, keeps its row and its events through a whole repair pass, however old
  its heartbeat is and whatever else the pass repairs; and a pass resolves no wait.
\<close>

theorem repair_spares_parked:
  assumes "keyed (db w)" and "distinct (map fst (executions (db w)))" and "get_execution i (db w) = Some e"
    and "e_status e \<in> {WAITING_FOR_INPUT, WAITING_FOR_EVENT, SLEEPING, PAUSED}"
  shows "spared i w (snd (repair_stale_executions p wid eid w))"
proof -
  have "\<not> to_repair p wid eid (clock w) x"
    if "x \<in> set (list_active_executions (db w))" "e_id x = i" for x
  proof -
    have "x = e" using listed_execution [OF assms(1,2) that(1)] that(2) assms(3) by simp
    then show ?thesis using assms(4) parked_not_stale(1) [of e]
      by (auto simp: to_repair_def classify_stale_execution_def)
  qed
  then show ?thesis unfolding repair_stale_executions_def by (intro repair_loop_spares) blast
qed

theorem repair_spares_parked_witness:
  "spared ''ex-1'' sample_world (snd (repair_stale_executions sample_plane None None sample_world))"
  by (rule repair_spares_parked [where e = sample_execution])
    (simp_all add: keyed_def get_execution_def empty_store_def)

text \<open>
  A durable approval wait does not protect its execution: suspending gives up the worker, so
  once the row's last activity is older than the limit a repair pass over that execution fails it,
  while the wait it was suspended on stays pending in the ledger.
\<close>

theorem stale_approval_wait_is_abandoned:
  assumes "keyed (db w)" and "list_active_executions (db w) = [e]" and "get_execution (e_id e) (db w) = Some e"
    and "suspended_on (e_id e) v (db w)" and "w_kind v = APPROVAL"
    and "sc_is_stale (classify_stale_execution p (clock w) e)"
    and "has_completed_workflow_checkpoint p e = Inr completed"
  shows "\<exists>items w' e'. repair_stale_executions p None None w = (Inr items, w') \<and>
    get_execution (e_id e) (db w') = Some e' \<and> e_status e' = FAILED \<and>
    get_execution_wait (w_id v) (db w') = Some v \<and> w_status v = PENDING"
proof -
  have st: "e_status e = WAITING_FOR_APPROVAL" and v: "get_execution_wait (w_id v) (db w) = Some v" "w_status v = PENDING"
    using assms(3-5) by (simp_all add: suspended_on_def)
  then have pick: "to_repair p None None (clock w) e"
    using assms(6) by (simp add: to_repair_def STALE_REPAIR_STATUSES_def)
  from repair_execution_effect [OF assms(7), of "classify_stale_execution p (clock w) e" w] obtain item w' where
    call: "repair_execution p (classify_stale_execution p (clock w) e) e w = (Inr item, w')"
    and eff: "repaired completed e w w'" by blast
  have "repair_stale_executions p None None w = (Inr [item], w')"
    unfolding repair_stale_executions_def using assms(2) pick call by simp
  then show ?thesis using eff v st get_wait_eq [of "db w'" "db w"] by (auto simp: repaired_def repair_result_def)
qed

definition abandoned_execution :: Execution where
  "abandoned_execution = sample_execution\<lparr>e_status := WAITING_FOR_APPROVAL,
     e_metadata := [(''active_wait'', VDict [(''wait_id'', VStr ''w-1'')])]\<rparr>"

definition abandoned_world :: world where
  "abandoned_world = sample_world\<lparr>clock := seconds 100, db := empty_store\<lparr>executions := [(''ex-1'', abandoned_execution)],
     waits := [(''w-1'', sample_wait\<lparr>w_kind := APPROVAL\<rparr>)]\<rparr>\<rparr>"

theorem stale_approval_wait_is_abandoned_witness:
  "\<exists>items w' e'. repair_stale_executions sample_plane None None abandoned_world = (Inr items, w') \<and>
    get_execution (e_id abandoned_execution) (db w') = Some e' \<and> e_status e' = FAILED \<and>
    get_execution_wait (w_id (sample_wait\<lparr>w_kind := APPROVAL\<rparr>)) (db w') = Some (sample_wait\<lparr>w_kind := APPROVAL\<rparr>) \<and>
    w_status (sample_wait\<lparr>w_kind := APPROVAL\<rparr>) = PENDING"
  by (rule stale_approval_wait_is_abandoned [where completed = False])
    (simp_all add: abandoned_world_def abandoned_execution_def get_execution_def get_execution_wait_def keyed_def
      list_active_executions_def dvalues_def suspended_on_def waits_on_def jget_def active_status_values_def
      has_completed_workflow_checkpoint_def classify_stale_execution_def classify_execution_staleness_def Let_def
      age_def seconds_def sample_plane_def STALE_EXECUTION_STATUSES_def execution_last_activity_at_def
      list_executions_def empty_store_def)

end
