(* ===== verification/Reconcile.thy ===== *)
theory Reconcile
  imports Repair
begin

text \<open>
  \<open>app/runtime/reconcile.py\<close> with \<open>app/runtime/worker_protocol.py\<close>: the reconciler, which compares
  the executions on record with the containers of the Docker daemon, settles executions whose
  container is missing or has exited, removes orphans and expired containers and prunes images. The
  timestamps of images are taken to carry a time zone, as Docker's do.
\<close>

section \<open>Worker exit codes\<close>

definition WORKER_EXIT_SUCCESS :: int where "WORKER_EXIT_SUCCESS = 0"
definition WORKER_EXIT_WORKFLOW_FAILED :: int where "WORKER_EXIT_WORKFLOW_FAILED = 10"
definition WORKER_EXIT_BOOTSTRAP_FAILED :: int where "WORKER_EXIT_BOOTSTRAP_FAILED = 20"
definition WORKER_EXIT_INFRA_FAILED :: int where "WORKER_EXIT_INFRA_FAILED = 30"
definition WORKER_EXIT_CANCELLED :: int where "WORKER_EXIT_CANCELLED = 40"
definition WORKER_EXIT_SUSPENDED :: int where "WORKER_EXIT_SUSPENDED = 50"

lemmas worker_exit_codes = WORKER_EXIT_SUCCESS_def WORKER_EXIT_WORKFLOW_FAILED_def
  WORKER_EXIT_BOOTSTRAP_FAILED_def WORKER_EXIT_INFRA_FAILED_def WORKER_EXIT_CANCELLED_def
  WORKER_EXIT_SUSPENDED_def

definition worker_exit_reason :: "int option \<Rightarrow> string" where
  "worker_exit_reason exit_code =
    (if exit_code = Some WORKER_EXIT_SUCCESS then ''worker_exit_success''
     else if exit_code = Some WORKER_EXIT_WORKFLOW_FAILED then ''worker_exit_workflow_failed''
     else if exit_code = Some WORKER_EXIT_BOOTSTRAP_FAILED then ''worker_exit_bootstrap_failed''
     else if exit_code = Some WORKER_EXIT_INFRA_FAILED then ''worker_exit_infra_failed''
     else if exit_code = Some WORKER_EXIT_CANCELLED then ''worker_exit_cancelled''
     else if exit_code = Some WORKER_EXIT_SUSPENDED then ''worker_exit_suspended''
     else ''worker_exit_unknown'')"

section \<open>The reconciler\<close>

record ReconciliationAction =
  ra_action :: string
  ra_execution_id :: "string option"
  ra_container_id :: "string option"
  ra_detail :: "string option"

record ReconciliationReport =
  rr_scanned_executions :: nat
  rr_scanned_containers :: nat
  rr_actions :: "ReconciliationAction list"

record reconciler =
  rc_manager :: DockerRuntimeManager
  rc_container_ttl_seconds :: int
  rc_image_retention_count :: int
  rc_has_operations :: bool

definition ACTIVE_EXECUTION_STATUSES :: "ExecutionStatus set" where
  "ACTIVE_EXECUTION_STATUSES = {QUEUED, RUNNING, WAITING_FOR_INPUT, WAITING_FOR_APPROVAL, WAITING_FOR_EVENT,
     SLEEPING, PAUSED, CANCELLING}"

definition first_time :: "datetime option \<Rightarrow> datetime option \<Rightarrow> datetime option" where
  "first_time a b = (case a of Some t \<Rightarrow> Some t | None \<Rightarrow> b)"

definition or_unknown :: "string option \<Rightarrow> string \<Rightarrow> string" where
  "or_unknown v fallback = (case or_str v None of Some s \<Rightarrow> s | None \<Rightarrow> fallback)"

definition mark_execution_failed_for_missing_container :: "Execution \<Rightarrow> world \<Rightarrow> world" where
  "mark_execution_failed_for_missing_container execution w =
    (let (state, w1) = event_state_for (e_id execution) (e_workflow_id execution) w;
         message = ''Managed container is missing'';
         execution1 = execution\<lparr>e_status := FAILED, e_error := Some message, e_completed_at := Some (clock w1),
           e_container_status := Some ''missing'', e_container_ended_at := Some (clock w1)\<rparr>;
         w2 = db_update_execution execution1 w1;
         synthetic = \<lparr>c_container_id = or_unknown (e_container_id execution1) ''unknown'',
           c_name = or_unknown (e_container_name execution1) ''unknown'',
           c_image = or_unknown (e_container_image execution1) ''unknown'', c_status = ''missing'', c_labels = [],
           c_started_at = e_container_started_at execution1, c_finished_at = e_container_ended_at execution1,
           c_exit_code = e_container_exit_code execution1\<rparr>;
         (_, state1, w3) = emit_container_failed state synthetic (e_runtime_revision_id execution1)
           (Some ''managed_container_missing'') [(''error'', VStr message)] w2
     in snd (snd (emit_payload state1 EXECUTION_FAILED [(''error'', VStr message)] w3)))"

text \<open>The execution as the call leaves it, with the world.\<close>

definition mark_execution_failed_for_exited_container ::
  "Execution \<Rightarrow> RuntimeContainerState \<Rightarrow> world \<Rightarrow> Execution \<times> world" where
  "mark_execution_failed_for_exited_container execution container w =
    (let (state, w1) = event_state_for (e_id execution) (e_workflow_id execution) w;
         ended = first_time (c_finished_at container) (e_completed_at execution);
         execution1 = execution\<lparr>e_container_status := Some (c_status container), e_container_ended_at := ended,
           e_container_exit_code := c_exit_code container\<rparr>;
         exit_reason = worker_exit_reason (c_exit_code container);
         completion_time = (case ended of Some t \<Rightarrow> t | None \<Rightarrow> clock w1);
         revision = e_runtime_revision_id execution1
     in if c_exit_code container = Some WORKER_EXIT_SUSPENDED then
          let w2 = db_update_execution execution1 w1;
              (_, _, w3) = emit_container_stopped state container revision (Some exit_reason) w2
          in (execution1, w3)
        else
          let execution2 = execution1\<lparr>e_completed_at := Some (case e_completed_at execution1 of
                Some t \<Rightarrow> t | None \<Rightarrow> completion_time)\<rparr>
          in if c_exit_code container = Some WORKER_EXIT_SUCCESS then
               let execution3 = execution2\<lparr>e_status := COMPLETED, e_error := None\<rparr>;
                   w2 = db_update_execution execution3 w1;
                   (_, state1, w3) = emit_container_stopped state container revision (Some exit_reason) w2
               in (execution3, snd (snd (emit_payload state1 EXECUTION_COMPLETED
                    [(''reconciled'', VBool True), (''reason'', VStr exit_reason)] w3)))
             else if c_exit_code container = Some WORKER_EXIT_CANCELLED then
               let execution3 = execution2\<lparr>e_status := ExecutionStatus.CANCELLED, e_error := None\<rparr>;
                   w2 = db_update_execution execution3 w1;
                   (_, state1, w3) = emit_container_stopped state container revision (Some exit_reason) w2
               in (execution3, snd (snd (emit_payload state1 EXECUTION_CANCELLED
                    [(''execution_id'', VStr (e_id execution3)), (''reconciled'', VBool True),
                     (''reason'', VStr exit_reason)] w3)))
             else
               let message =
                     (if c_exit_code container = Some WORKER_EXIT_WORKFLOW_FAILED
                      then ''Managed container reported workflow failure''
                      else if c_exit_code container = Some WORKER_EXIT_BOOTSTRAP_FAILED
                      then ''Managed container worker bootstrap failed''
                      else if c_exit_code container = Some WORKER_EXIT_INFRA_FAILED
                      then ''Managed container worker infrastructure failed''
                      else ''Managed container exited unexpectedly with status '' @ quote (c_status container));
                   execution3 = execution2\<lparr>e_status := FAILED, e_error := Some message\<rparr>;
                   w2 = db_update_execution execution3 w1;
                   (_, state1, w3) = emit_container_failed state container revision (Some exit_reason)
                     [(''error'', VStr message), (''exit_reason'', VStr exit_reason)] w2
               in (execution3, snd (snd (emit_payload state1 EXECUTION_FAILED
                    [(''error'', VStr message), (''reconciled'', VBool True), (''reason'', VStr exit_reason)] w3))))"

text \<open>Stopping a live container, then removing it; an error of Docker ends the call.\<close>

definition stop_and_remove :: "DockerRuntimeManager \<Rightarrow> RuntimeContainerState \<Rightarrow> RuntimeContainerState act" where
  "stop_and_remove dm container w =
    andthen (if c_status container \<in> set LIVE_CONTAINER_STATUSES
             then stop_container dm (c_container_id container) w else (Inr container, w)) (\<lambda>current w1.
    andthen (remove_container dm (c_container_id container)
               (c_status current \<in> set EXITED_CONTAINER_STATUSES) w1) (\<lambda>_ w2. (Inr current, w2)))"

definition removed_container :: "RuntimeContainerState \<Rightarrow> datetime \<Rightarrow> Execution \<Rightarrow> Execution" where
  "removed_container container now execution =
    execution\<lparr>e_container_status := Some ''removed'',
      e_container_ended_at := Some (or_time (c_finished_at container) (e_container_ended_at execution) now),
      e_container_exit_code := c_exit_code container\<rparr>"

definition reap_terminal_execution_container ::
  "DockerRuntimeManager \<Rightarrow> Execution \<Rightarrow> RuntimeContainerState \<Rightarrow> unit act" where
  "reap_terminal_execution_container dm execution container w =
    (let (state, w1) = event_state_for (e_id execution) (e_workflow_id execution) w
     in andthen (stop_and_remove dm container w1) (\<lambda>current w2.
          let w3 = db_update_execution (removed_container current (clock w2) execution) w2;
              (_, _, w4) = emit_container_stopped state current (e_runtime_revision_id execution)
                (Some ''terminal_execution_cleanup'') w3
          in (Inr (), w4)))"

definition maybe_remove_finished_execution_container ::
  "DockerRuntimeManager \<Rightarrow> Execution \<Rightarrow> RuntimeContainerState \<Rightarrow> bool act" where
  "maybe_remove_finished_execution_container dm execution container w =
    (if c_status container \<notin> set EXITED_CONTAINER_STATUSES then (Inr False, w)
     else if \<not> should_terminate_container_on_completion execution then (Inr False, w)
     else case remove_container dm (c_container_id container)
                 (c_status container \<in> set EXITED_CONTAINER_STATUSES) w of
            (Inl (ContainerRuntimeError _), w1) \<Rightarrow> (Inr False, w1)
          | (Inl e, w1) \<Rightarrow> (Inl e, w1)
          | (Inr _, w1) \<Rightarrow>
              let execution1 = removed_container container (clock w1) execution;
                  execution2 = (if e_status execution1 \<in> ACTIVE_EXECUTION_STATUSES
                    then execution1\<lparr>e_container_id := None, e_container_name := None\<rparr> else execution1)
              in (Inr True, db_update_execution execution2 w1))"

definition sync_execution_container_state :: "Execution \<Rightarrow> RuntimeContainerState \<Rightarrow> world \<Rightarrow> world" where
  "sync_execution_container_state execution container w =
    (let execution1 = execution\<lparr>e_container_status := Some (c_status container),
           e_container_started_at := first_time (c_started_at container) (e_container_started_at execution),
           e_container_ended_at := first_time (c_finished_at container) (e_container_ended_at execution),
           e_container_exit_code := (case c_exit_code container of
             Some n \<Rightarrow> Some n | None \<Rightarrow> e_container_exit_code execution)\<rparr>
     in if execution1 = execution then w else db_update_execution execution1 w)"

section \<open>One execution against its container\<close>

definition opt_int_str :: "int option \<Rightarrow> string" where
  "opt_int_str n = (case n of None \<Rightarrow> ''None'' | Some i \<Rightarrow> int_str i)"

definition act_on :: "string \<Rightarrow> Execution \<Rightarrow> RuntimeContainerState \<Rightarrow> string \<Rightarrow> ReconciliationAction" where
  "act_on what execution container detail =
    \<lparr>ra_action = what, ra_execution_id = Some (e_id execution), ra_container_id = Some (c_container_id container),
     ra_detail = Some detail\<rparr>"

definition settle_missing :: "Execution \<Rightarrow> ReconciliationAction list act" where
  "settle_missing execution w =
    (Inr [\<lparr>ra_action = ''execution_missing_container'', ra_execution_id = Some (e_id execution),
       ra_container_id = e_container_id execution, ra_detail = Some ''Active execution lost its managed container''\<rparr>],
     mark_execution_failed_for_missing_container execution w)"

definition settle_exited :: "DockerRuntimeManager \<Rightarrow> Execution \<Rightarrow> RuntimeContainerState \<Rightarrow> ReconciliationAction list act" where
  "settle_exited dm execution container w =
    (let (execution1, w1) = mark_execution_failed_for_exited_container execution container w;
         exited = act_on ''execution_container_exited'' execution1 container
           (''Container status='' @ c_status container @ '' exit_code='' @ opt_int_str (c_exit_code container))
     in andthen (maybe_remove_finished_execution_container dm execution1 container w1) (\<lambda>removed w2.
          (Inr (exited # (if removed then [act_on ''execution_container_removed'' execution1 container
             ''Execution container removed after terminal worker exit''] else [])), w2)))"

definition reconcile_with ::
  "DockerRuntimeManager \<Rightarrow> (string \<Rightarrow> RuntimeContainerState option) \<Rightarrow> Execution \<Rightarrow> ReconciliationAction list act" where
  "reconcile_with dm containers_by_id execution w =
    (case or_str (e_container_id execution) None of
       None \<Rightarrow> (Inr [], w)
     | Some container_id \<Rightarrow>
         (case containers_by_id container_id of
            None \<Rightarrow> if e_status execution \<in> ACTIVE_EXECUTION_STATUSES then settle_missing execution w else (Inr [], w)
          | Some container \<Rightarrow>
              if e_status execution \<in> ACTIVE_EXECUTION_STATUSES \<and>
                 c_status container \<in> set EXITED_CONTAINER_STATUSES then settle_exited dm execution container w
              else if e_status execution \<in> TERMINAL_EXECUTION_STATUSES \<and>
                 c_status container \<in> set LIVE_CONTAINER_STATUSES \<union> set EXITED_CONTAINER_STATUSES then
                if should_terminate_container_on_completion execution
                then andthen (reap_terminal_execution_container dm execution container w) (\<lambda>_ w1.
                       (Inr [act_on ''terminal_execution_container_reaped'' execution container
                          (''Container status='' @ c_status container)], w1))
                else (Inr [act_on ''terminal_execution_container_retained'' execution container
                        ''Execution lifecycle retained terminal container''],
                      sync_execution_container_state execution container w)
              else (Inr [], sync_execution_container_state execution container w)))"

section \<open>A whole pass\<close>

fun for_each :: "('a \<Rightarrow> ReconciliationAction list act) \<Rightarrow> 'a list \<Rightarrow> ReconciliationAction list act" where
  "for_each step [] w = (Inr [], w)"
| "for_each step (x # xs) w =
    andthen (step x w) (\<lambda>actions w1. andthen (for_each step xs w1) (\<lambda>more w2. (Inr (actions @ more), w2)))"

text \<open>\<open>containers_by_id\<close>: of two containers with one id the later one counts.\<close>

definition by_id :: "RuntimeContainerState list \<Rightarrow> string \<Rightarrow> RuntimeContainerState option" where
  "by_id containers = map_of (rev (map (\<lambda>c. (c_container_id c, c)) containers))"

definition label :: "RuntimeContainerState \<Rightarrow> string \<Rightarrow> string option" where
  "label container key = map_of (c_labels container) key"

definition reap_if_orphan ::
  "DockerRuntimeManager \<Rightarrow> string list \<Rightarrow> RuntimeContainerState \<Rightarrow> ReconciliationAction list act" where
  "reap_if_orphan dm known container w =
    (case or_str (label container ''agency.execution_id'') None of
       None \<Rightarrow> (Inr [], w)
     | Some execution_id \<Rightarrow>
         if execution_id \<in> set known then (Inr [], w)
         else andthen (stop_and_remove dm container w) (\<lambda>_ w1.
           (Inr [\<lparr>ra_action = ''orphan_container_reaped'', ra_execution_id = Some execution_id,
              ra_container_id = Some (c_container_id container),
              ra_detail = Some ''Managed container had no matching execution row''\<rparr>], w1)))"

definition cleanup_expired_container :: "reconciler \<Rightarrow> datetime \<Rightarrow> RuntimeContainerState \<Rightarrow> ReconciliationAction list act" where
  "cleanup_expired_container r now container w =
    (if c_status container \<notin> set EXITED_CONTAINER_STATUSES then (Inr [], w)
     else case c_finished_at container of
       None \<Rightarrow> (Inr [], w)
     | Some finished_at \<Rightarrow>
         if now - finished_at < rc_container_ttl_seconds r * 1000000 then (Inr [], w)
         else case remove_container (rc_manager r) (c_container_id container) True w of
           (Inl (ContainerRuntimeError _), w1) \<Rightarrow> (Inr [], w1)
         | (Inl e, w1) \<Rightarrow> (Inl e, w1)
         | (Inr _, w1) \<Rightarrow>
             (Inr [\<lparr>ra_action = ''expired_container_reaped'', ra_execution_id = label container ''agency.execution_id'',
                ra_container_id = Some (c_container_id container),
                ra_detail = Some (''Container older than TTL ('' @ int_str (rc_container_ttl_seconds r) @ ''s)'')\<rparr>], w1))"

definition cleanup_image :: "DockerRuntimeManager \<Rightarrow> string list \<Rightarrow> RuntimeImageState \<Rightarrow> ReconciliationAction list act" where
  "cleanup_image dm active_image_refs img w =
    (case find (\<lambda>ref. ref \<notin> set active_image_refs)
            (if im_tags img = [] then [im_image_id img] else im_tags img) of
       None \<Rightarrow> (Inr [], w)
     | Some removable_ref \<Rightarrow>
         (case remove_image dm removable_ref w of
            (Inl (ContainerRuntimeError _), w1) \<Rightarrow> (Inr [], w1)
          | (Inl e, w1) \<Rightarrow> (Inl e, w1)
          | (Inr _, w1) \<Rightarrow>
              (Inr [\<lparr>ra_action = ''stale_image_removed'', ra_execution_id = None, ra_container_id = None,
                 ra_detail = Some removable_ref\<rparr>], w1)))"

text \<open>
  \<open>sorted(..., key=created_at or datetime.min, reverse=True)\<close> is stable; it raises when some image
  has a creation time and another has none, because \<open>datetime.min\<close> has no time zone.
\<close>

definition created_key :: "RuntimeImageState \<Rightarrow> int" where
  "created_key img = (case im_created_at img of Some t \<Rightarrow> - t | None \<Rightarrow> 0)"

definition newest_first :: "RuntimeImageState list \<Rightarrow> exc + RuntimeImageState list" where
  "newest_first images =
    (if (\<exists>i \<in> set images. im_created_at i = None) \<and> (\<exists>i \<in> set images. im_created_at i \<noteq> None)
     then Inl (TypeError ''can't compare offset-naive and offset-aware datetimes'')
     else Inr (sort_key created_key images))"

definition slice_from :: "int \<Rightarrow> 'a list \<Rightarrow> 'a list" where
  "slice_from n xs = (if n < 0 then drop (length xs - nat (- n)) xs else drop (nat n) xs)"

definition cleanup_old_images :: "reconciler \<Rightarrow> ReconciliationAction list act" where
  "cleanup_old_images r w =
    (case sbind (list_managed_images (rc_manager r) w) newest_first of
       Inl e \<Rightarrow> (Inl e, w)
     | Inr images \<Rightarrow>
         if int (length images) \<le> rc_image_retention_count r then (Inr [], w)
         else case list_managed_containers (rc_manager r) w of
           Inl e \<Rightarrow> (Inl e, w)
         | Inr containers \<Rightarrow>
             for_each (cleanup_image (rc_manager r) (map c_image containers))
               (slice_from (rc_image_retention_count r) images) w)"

definition action_payload :: "ReconciliationAction \<Rightarrow> json" where
  "action_payload a =
    [(''execution_id'', opt_str (ra_execution_id a)), (''container_id'', opt_str (ra_container_id a)),
     (''detail'', opt_str (ra_detail a))]"

definition record_actions :: "ReconciliationAction list \<Rightarrow> operations \<Rightarrow> operations" where
  "record_actions actions ops = fold (\<lambda>a. record_action (ra_action a) (action_payload a)) actions ops"

definition reconcile_once :: "reconciler \<Rightarrow> ReconciliationReport act" where
  "reconcile_once r w =
    (let executions = list_executions (db w); dm = rc_manager r in
     case list_managed_containers dm w of
       Inl e \<Rightarrow> (Inl e, w)
     | Inr containers \<Rightarrow>
         andthen (for_each (reconcile_with dm (by_id containers)) executions w) (\<lambda>a1 w1.
         andthen (for_each (reap_if_orphan dm (map e_id executions)) containers w1) (\<lambda>a2 w2.
         andthen (for_each (cleanup_expired_container r (clock w2)) containers w2) (\<lambda>a3 w3.
         andthen (cleanup_old_images r w3) (\<lambda>a4 w4.
           let actions = a1 @ a2 @ a3 @ a4
           in (Inr \<lparr>rr_scanned_executions = length executions, rr_scanned_containers = length containers,
                 rr_actions = actions\<rparr>,
               if rc_has_operations r
               then w4\<lparr>operations := record_actions actions
                      (increment ''reconcile.actions'' (int (length actions))
                        (increment ''reconcile.runs'' 1 (operations w4)))\<rparr>
               else w4))))))"

definition known_or_inspected ::
  "reconciler \<Rightarrow> Execution \<Rightarrow> RuntimeContainerState option \<Rightarrow> world \<Rightarrow> exc + RuntimeContainerState option" where
  "known_or_inspected r execution known_container w =
    (case (or_str (e_container_id execution) None, known_container) of
       (Some container_id, None) \<Rightarrow>
         (case inspect_container (rc_manager r) container_id w of
            Inl (ContainerRuntimeError _) \<Rightarrow> Inr None
          | Inl e \<Rightarrow> Inl e
          | Inr c \<Rightarrow> Inr (Some c))
     | _ \<Rightarrow> Inr known_container)"

definition reconcile_single ::
  "DockerRuntimeManager \<Rightarrow> Execution \<Rightarrow> RuntimeContainerState option \<Rightarrow> ReconciliationAction list act" where
  "reconcile_single dm execution container_opt w =
    (case (or_str (e_container_id execution) None, container_opt) of
       (None, _) \<Rightarrow> (Inr [], w)
     | (Some _, None) \<Rightarrow>
         if e_status execution \<in> ACTIVE_EXECUTION_STATUSES then settle_missing execution w else (Inr [], w)
     | (Some _, Some container) \<Rightarrow>
         if e_status execution \<in> ACTIVE_EXECUTION_STATUSES \<and> c_status container \<in> set EXITED_CONTAINER_STATUSES
         then settle_exited dm execution container w
         else (Inr [act_on ''execution_container_synced'' execution container
                 (''Container status='' @ c_status container)],
               sync_execution_container_state execution container w))"

definition reconcile_execution :: "reconciler \<Rightarrow> string \<Rightarrow> RuntimeContainerState option \<Rightarrow> ReconciliationReport act" where
  "reconcile_execution r execution_id known_container w =
    (case get_execution execution_id (db w) of
       None \<Rightarrow> (Inr \<lparr>rr_scanned_executions = 0, rr_scanned_containers = 0, rr_actions = []\<rparr>, w)
     | Some execution \<Rightarrow>
         (case known_or_inspected r execution known_container w of
            Inl e \<Rightarrow> (Inl e, w)
          | Inr container_opt \<Rightarrow>
              andthen (reconcile_single (rc_manager r) execution container_opt w) (\<lambda>actions w1.
                (Inr \<lparr>rr_scanned_executions = 1, rr_scanned_containers = (if container_opt = None then 0 else 1),
                   rr_actions = actions\<rparr>,
                 if rc_has_operations r
                 then w1\<lparr>operations := record_actions actions (increment ''reconcile.single_runs'' 1 (operations w1))\<rparr>
                 else w1))))"

section \<open>What reconciliation leaves alone\<close>

definition only_row :: "string \<Rightarrow> world \<Rightarrow> world \<Rightarrow> bool" where
  "only_row i w w' \<longleftrightarrow> waits (db w') = waits (db w) \<and> artifacts (db w') = artifacts (db w) \<and> clock w' = clock w \<and>
     (\<forall>j. j \<noteq> i \<longrightarrow> get_execution j (db w') = get_execution j (db w) \<and>
        list_events j (db w') = list_events j (db w))"

lemma only_row_refl [simp]: "only_row i w w"
  by (simp add: only_row_def)

lemma only_row_trans: "only_row i a b \<Longrightarrow> only_row i b c \<Longrightarrow> only_row i a c"
  by (simp add: only_row_def)

lemma quiet_only_row: "quiet i w w' \<Longrightarrow> only_row i w w'"
  by (simp add: quiet_def only_row_def get_execution_def)

lemma update_events [simp]: "list_events i (db (db_update_execution e w)) = list_events i (db w)"
  "artifacts (db (db_update_execution e w)) = artifacts (db w)"
  by (simp_all add: db_update_execution_def update_execution_def repo_save_execution_def list_events_def Let_def)

lemma only_row_update: "e_id e = i \<Longrightarrow> only_row i w (db_update_execution e w)"
  by (simp add: only_row_def)

text \<open>An update of the row followed by one or two quiet events.\<close>

definition saved_with :: "Execution \<Rightarrow> ExecutionEventType \<Rightarrow> world \<Rightarrow> world \<Rightarrow> bool" where
  "saved_with e ty w w' \<longleftrightarrow> only_row (e_id e) w w' \<and>
     get_execution (e_id e) (db w') = Some (e\<lparr>e_updated_at := clock w\<rparr>) \<and>
     (\<exists>evs ev. ev_event_type ev = ty \<and>
        list_events (e_id e) (db w') = list_events (e_id e) (db w) @ evs @ [ev])"

lemma emit_one:
  assumes "st_execution_id st = i" and "ty \<notin> set ACTIVITY_EVENT_TYPES"
  shows "quiet i w (snd (snd (emit_payload st ty payload w)))"
    "\<exists>ev. ev_event_type ev = ty \<and> list_events i (db (snd (snd (emit_payload st ty payload w)))) = list_events i (db w) @ [ev]"
  subgoal by (rule quiet_emit [OF assms(2,1)])
  subgoal using assms(1) by (auto simp: emit_payload_def emit_appends)
  done

lemma saved_with_emit:
  assumes "st_execution_id st = e_id e" and "ty \<notin> set ACTIVITY_EVENT_TYPES" and "only_row (e_id e) w w1"
    and "get_execution (e_id e) (db w1) = Some (e\<lparr>e_updated_at := clock w\<rparr>)"
    and "list_events (e_id e) (db w1) = list_events (e_id e) (db w) @ evs"
  shows "saved_with e ty w (snd (snd (emit_payload st ty payload w1)))"
proof -
  define w2 where "w2 = snd (snd (emit_payload st ty payload w1))"
  note q = emit_one(1) [OF assms(1,2), of w1 payload, folded w2_def]
  have "only_row (e_id e) w w2" by (rule only_row_trans [OF assms(3) quiet_only_row [OF q]])
  moreover have "get_execution (e_id e) (db w2) = Some (e\<lparr>e_updated_at := clock w\<rparr>)"
    using q assms(4) by (simp add: quiet_def get_execution_def)
  moreover obtain ev where "ev_event_type ev = ty" "list_events (e_id e) (db w2) = list_events (e_id e) (db w) @ evs @ [ev]"
    using emit_one(2) [OF assms(1,2), of payload w1, folded w2_def] assms(5) by auto
  ultimately show ?thesis unfolding saved_with_def w2_def by blast
qed

lemma saved_with_first:
  assumes "st_execution_id st = e_id e" and "ty \<notin> set ACTIVITY_EVENT_TYPES" and "db w0 = db w" and "clock w0 = clock w"
  shows "saved_with e ty w (snd (snd (emit_payload st ty payload (db_update_execution e w0))))"
  by (rule saved_with_emit [OF assms(1,2), where evs = "[]"]) (simp_all add: only_row_def assms)

lemma saved_with_more:
  assumes "saved_with e ty0 w w1" and "st_execution_id st = e_id e" and "ty \<notin> set ACTIVITY_EVENT_TYPES"
  shows "saved_with e ty w (snd (snd (emit_payload st ty payload w1)))"
proof -
  from assms(1) obtain evs ev where r: "only_row (e_id e) w w1" "get_execution (e_id e) (db w1) = Some (e\<lparr>e_updated_at := clock w\<rparr>)"
    "list_events (e_id e) (db w1) = list_events (e_id e) (db w) @ (evs @ [ev])"
    unfolding saved_with_def by auto
  show ?thesis by (rule saved_with_emit [OF assms(2,3) r])
qed

lemma missing_effect:
  "saved_with (execution\<lparr>e_status := FAILED, e_error := Some ''Managed container is missing'',
       e_completed_at := Some (clock w), e_container_status := Some ''missing'', e_container_ended_at := Some (clock w)\<rparr>)
     EXECUTION_FAILED w (mark_execution_failed_for_missing_container execution w)"
proof -
  obtain st w1 where ev: "event_state_for (e_id execution) (e_workflow_id execution) w = (st, w1)"
    by (cases "event_state_for (e_id execution) (e_workflow_id execution) w")
  have st: "st_execution_id st = e_id execution" "db w1 = db w" "clock w1 = clock w"
    using ev event_state_for_simps by (metis fst_conv snd_conv)+
  show ?thesis
    unfolding mark_execution_failed_for_missing_container_def ev Let_def prod.case case_prod_unfold fst_conv snd_conv
      lifecycle_emits st(3)
    by (rule saved_with_more [OF saved_with_first]) (simp_all add: st not_activity)
qed

text \<open>What a container's exit code makes of its execution, and the last event it adds.\<close>

definition exit_outcome :: "int option \<Rightarrow> ExecutionStatus \<Rightarrow> ExecutionStatus \<times> ExecutionEventType" where
  "exit_outcome exit_code status =
    (if exit_code = Some 50 then (status, CONTAINER_STOPPED)
     else if exit_code = Some 0 then (COMPLETED, EXECUTION_COMPLETED)
     else if exit_code = Some 40 then (ExecutionStatus.CANCELLED, EXECUTION_CANCELLED)
     else (FAILED, EXECUTION_FAILED))"

lemma exited_effect:
  assumes "mark_execution_failed_for_exited_container execution container w = (e', w')"
  shows "saved_with e' (snd (exit_outcome (c_exit_code container) (e_status execution))) w w'"
    "e_status e' = fst (exit_outcome (c_exit_code container) (e_status execution))"
    "e_id e' = e_id execution" "e_container_id e' = e_container_id execution" "e_metadata e' = e_metadata execution"
    "e_container_exit_code e' = c_exit_code container"
    "c_exit_code container = Some 50 \<Longrightarrow> e_completed_at e' = e_completed_at execution \<and> e_error e' = e_error execution"
proof -
  obtain st w1 where ev: "event_state_for (e_id execution) (e_workflow_id execution) w = (st, w1)"
    by (cases "event_state_for (e_id execution) (e_workflow_id execution) w")
  have st: "st_execution_id st = e_id execution" "db w1 = db w" "clock w1 = clock w"
    using ev event_state_for_simps by (metis fst_conv snd_conv)+
  note call = assms [unfolded mark_execution_failed_for_exited_container_def ev Let_def prod.case case_prod_unfold
      fst_conv snd_conv lifecycle_emits worker_exit_codes, symmetric]
  consider (suspended) "c_exit_code container = Some 50" | (success) "c_exit_code container = Some 0"
    | (cancelled) "c_exit_code container = Some 40"
    | (other) "c_exit_code container \<noteq> Some 50" "c_exit_code container \<noteq> Some 0" "c_exit_code container \<noteq> Some 40"
    by blast
  then show "saved_with e' (snd (exit_outcome (c_exit_code container) (e_status execution))) w w'"
  proof cases
    case suspended
    then show ?thesis using call by (auto simp: exit_outcome_def st not_activity intro!: saved_with_first)
  next
    case success
    then show ?thesis using call
      by (auto simp: exit_outcome_def st not_activity intro!: saved_with_more [OF saved_with_first])
  next
    case cancelled
    then show ?thesis using call
      by (auto simp: exit_outcome_def st not_activity intro!: saved_with_more [OF saved_with_first])
  next
    case other
    then show ?thesis using call
      by (auto simp: exit_outcome_def st not_activity intro!: saved_with_more [OF saved_with_first])
  qed
  show "e_status e' = fst (exit_outcome (c_exit_code container) (e_status execution))"
    "e_id e' = e_id execution" "e_container_id e' = e_container_id execution" "e_metadata e' = e_metadata execution"
    "e_container_exit_code e' = c_exit_code container"
    "c_exit_code container = Some 50 \<Longrightarrow> e_completed_at e' = e_completed_at execution \<and> e_error e' = e_error execution"
    using call by (simp_all add: exit_outcome_def split: if_splits)
qed

lemma daemon_only_row: "\<exists>d. w' = w\<lparr>daemon := d\<rparr> \<Longrightarrow> only_row i w w'"
  by (auto simp: only_row_def)

lemma only_row_event_state: "only_row i w (snd (event_state_for j wid w))"
  by (simp add: only_row_def)

lemma stop_and_remove_frame: "db (snd (stop_and_remove dm c w)) = db w \<and> clock (snd (stop_and_remove dm c w)) = clock w"
proof -
  let ?first = "if c_status c \<in> set LIVE_CONTAINER_STATUSES then stop_container dm (c_container_id c) w else (Inr c, w)"
  obtain r w1 where f: "?first = (r, w1)" by (cases ?first)
  have 1: "db w1 = db w \<and> clock w1 = clock w"
    using f stop_container_frame [of dm "c_container_id c" w] by (auto split: if_splits)
  show ?thesis
  proof (cases r)
    case (Inl e)
    then show ?thesis using f 1 by (simp add: stop_and_remove_def)
  next
    case (Inr current)
    let ?rm = "remove_container dm (c_container_id c) (c_status current \<in> set EXITED_CONTAINER_STATUSES) w1"
    have "snd (stop_and_remove dm c w) = snd ?rm"
      unfolding stop_and_remove_def f Inr andthen.simps by (simp add: andthen_snd split: sum.split)
    then show ?thesis
      using 1 remove_container_frame [of dm "c_container_id c" "c_status current \<in> set EXITED_CONTAINER_STATUSES" w1]
      by auto
  qed
qed

lemma db_only_row: "db w' = db w \<Longrightarrow> clock w' = clock w \<Longrightarrow> only_row i w w'"
  by (simp add: only_row_def)

lemma saved_only_row: "saved_with e ty w w' \<Longrightarrow> e_id e = i \<Longrightarrow> only_row i w w'"
  by (simp add: saved_with_def)

lemma reap_terminal_frame: "only_row (e_id e) w (snd (reap_terminal_execution_container dm e c w))"
proof -
  let ?i = "e_id e"
  obtain st w1 where ev: "event_state_for (e_id e) (e_workflow_id e) w = (st, w1)"
    by (cases "event_state_for (e_id e) (e_workflow_id e) w")
  have st: "st_execution_id st = ?i" "db w1 = db w" "clock w1 = clock w"
    using ev event_state_for_simps by (metis fst_conv snd_conv)+
  obtain r w2 where sr: "stop_and_remove dm c w1 = (r, w2)" by (cases "stop_and_remove dm c w1")
  have 2: "only_row ?i w w2" using stop_and_remove_frame [of dm c w1] sr st by (simp add: db_only_row)
  show ?thesis
  proof (cases r)
    case (Inl x)
    then show ?thesis using 2 by (simp add: reap_terminal_execution_container_def ev sr)
  next
    case (Inr current)
    let ?e = "removed_container current (clock w2) e"
    have id: "e_id ?e = ?i" by (simp add: removed_container_def)
    have "only_row ?i (db_update_execution ?e w2) (snd (snd (emit_payload st CONTAINER_STOPPED payload (db_update_execution ?e w2))))"
      for payload by (rule quiet_only_row [OF quiet_emit [OF not_activity(1) st(1)]])
    then have "only_row ?i w (snd (snd (emit_payload st CONTAINER_STOPPED payload (db_update_execution ?e w2))))" for payload
      using only_row_trans [OF only_row_trans [OF 2 only_row_update [OF id]]] by blast
    then show ?thesis using Inr
      by (simp add: reap_terminal_execution_container_def ev sr lifecycle_emits Let_def case_prod_unfold)
  qed
qed

lemma remove_container_error: "remove_container dm i f w = (Inl e, w') \<Longrightarrow> \<exists>m. e = ContainerRuntimeError m"
  by (auto simp: remove_container_def get_container_def docker_call_def split: sum.splits prod.splits option.splits)

text \<open>The removal after the end of a worker: nothing, or the row with the container marked removed.\<close>

lemma maybe_remove_cases:
  assumes "maybe_remove_finished_execution_container dm e c w = (r, w')"
  obtains (kept) "r = Inr False" "db w' = db w" "clock w' = clock w"
  | (removed) e2 where "r = Inr True" "e_id e2 = e_id e" "e_status e2 = e_status e"
      "get_execution (e_id e) (db w') = Some e2" "only_row (e_id e) w w'"
      "list_events (e_id e) (db w') = list_events (e_id e) (db w)"
      "e_container_id e2 = (if e_status e \<in> ACTIVE_EXECUTION_STATUSES then None else e_container_id e)"
proof (cases "c_status c \<in> set EXITED_CONTAINER_STATUSES \<and> should_terminate_container_on_completion e")
  case False
  then show ?thesis using assms kept by (auto simp: maybe_remove_finished_execution_container_def split: if_splits)
next
  case True
  obtain q w1 where rm: "remove_container dm (c_container_id c) True w = (q, w1)"
    by (cases "remove_container dm (c_container_id c) True w")
  have f: "db w1 = db w" "clock w1 = clock w"
    using rm remove_container_frame [of dm "c_container_id c" True w] by auto
  show ?thesis
  proof (cases q)
    case (Inl x)
    then obtain m where "x = ContainerRuntimeError m" using remove_container_error rm by blast
    then have "r = Inr False" "w' = w1" using assms True Inl rm
      by (simp_all add: maybe_remove_finished_execution_container_def)
    then show ?thesis using kept f by simp
  next
    case (Inr u)
    let ?e1 = "removed_container c (clock w1) e"
    let ?e2 = "if e_status ?e1 \<in> ACTIVE_EXECUTION_STATUSES
        then ?e1\<lparr>e_container_id := None, e_container_name := None\<rparr> else ?e1"
    have e2: "e_id ?e2 = e_id e" "e_status ?e2 = e_status e"
      "e_container_id ?e2 = (if e_status e \<in> ACTIVE_EXECUTION_STATUSES then None else e_container_id e)"
      by (simp_all add: removed_container_def)
    have call: "r = Inr True" "w' = db_update_execution ?e2 w1" using assms True Inr rm
      by (simp_all add: maybe_remove_finished_execution_container_def Let_def)
    show ?thesis
      by (rule removed [of "?e2\<lparr>e_updated_at := clock w1\<rparr>"])
        (use call e2 f in \<open>simp_all add: only_row_def del: if_split\<close>)
  qed
qed

lemma maybe_remove_frame: "only_row (e_id e) w (snd (maybe_remove_finished_execution_container dm e c w))"
proof -
  obtain r w' where call: "maybe_remove_finished_execution_container dm e c w = (r, w')"
    by (cases "maybe_remove_finished_execution_container dm e c w")
  from call show ?thesis by (cases rule: maybe_remove_cases) (simp_all add: call db_only_row)
qed

lemma sync_frame: "only_row (e_id e) w (sync_execution_container_state e c w)"
  by (simp add: sync_execution_container_state_def Let_def only_row_update)

lemma settle_exited_frame: "only_row (e_id e) w (snd (settle_exited dm e c w))"
proof -
  obtain e1 w1 where m: "mark_execution_failed_for_exited_container e c w = (e1, w1)"
    by (cases "mark_execution_failed_for_exited_container e c w")
  note eff = exited_effect [OF m]
  have 1: "only_row (e_id e) w w1" using saved_only_row [OF eff(1) eff(3)] .
  have "only_row (e_id e) w1 (snd (maybe_remove_finished_execution_container dm e1 c w1))"
    using maybe_remove_frame [of e1] eff(3) by simp
  then have "only_row (e_id e) w (snd (maybe_remove_finished_execution_container dm e1 c w1))"
    using 1 only_row_trans by blast
  then show ?thesis
    by (simp add: settle_exited_def m Let_def andthen_snd split: sum.split)
qed

lemma settle_missing_frame: "only_row (e_id e) w (snd (settle_missing e w))"
  using saved_only_row [OF missing_effect [of w e], of "e_id e"] by (simp add: settle_missing_def)

lemma reconcile_with_frame: "only_row (e_id e) w (snd (reconcile_with dm byid e w))"
proof (cases "or_str (e_container_id e) None")
  case None
  then show ?thesis by (simp add: reconcile_with_def)
next
  case cid: (Some cid)
  show ?thesis
  proof (cases "byid cid")
    case None
    then show ?thesis using cid settle_missing_frame by (simp add: reconcile_with_def)
  next
    case (Some c)
    then show ?thesis using cid settle_exited_frame reap_terminal_frame sync_frame
      by (simp add: reconcile_with_def andthen_snd split: sum.split)
  qed
qed

lemma reconcile_local: "or_str (e_container_id e) None = None \<Longrightarrow> reconcile_with dm byid e w = (Inr [], w)"
  by (simp add: reconcile_with_def)

text \<open>A pass over a list of executions touches the rows and streams of those in the list.\<close>

lemma for_each_others:
  assumes "\<And>x w. x \<in> set xs \<Longrightarrow> e_id x = i \<Longrightarrow> snd (step x w) = w" and "\<And>x w. only_row (e_id x) w (snd (step x w))"
  shows "get_execution i (db (snd (for_each step xs w))) = get_execution i (db w) \<and>
    list_events i (db (snd (for_each step xs w))) = list_events i (db w) \<and>
    waits (db (snd (for_each step xs w))) = waits (db w) \<and> clock (snd (for_each step xs w)) = clock w"
  using assms(1)
proof (induction xs arbitrary: w)
  case (Cons x xs)
  have "only_row (e_id x) w (snd (step x w))" by (rule assms(2))
  then have 1: "get_execution i (db (snd (step x w))) = get_execution i (db w)"
    "list_events i (db (snd (step x w))) = list_events i (db w)"
    "waits (db (snd (step x w))) = waits (db w)" "clock (snd (step x w)) = clock w"
    using Cons.prems [of x w] by (cases "e_id x = i"; simp add: only_row_def)+
  show ?case using 1 Cons.IH [of "snd (step x w)"] Cons.prems by (simp add: andthen_snd split: sum.split)
qed simp

lemma for_each_db:
  assumes "\<And>x w. db (snd (step x w)) = db w \<and> clock (snd (step x w)) = clock w"
  shows "db (snd (for_each step xs w)) = db w \<and> clock (snd (for_each step xs w)) = clock w"
  using assms by (induction xs arbitrary: w) (simp_all add: andthen_snd split: sum.split)

lemma reap_if_orphan_db: "db (snd (reap_if_orphan dm known c w)) = db w \<and> clock (snd (reap_if_orphan dm known c w)) = clock w"
  using stop_and_remove_frame [of dm c w]
  by (simp add: reap_if_orphan_def andthen_snd split: option.split sum.split)

lemma cleanup_expired_db:
  "db (snd (cleanup_expired_container r now c w)) = db w \<and> clock (snd (cleanup_expired_container r now c w)) = clock w"
proof -
  obtain q w1 where rm: "remove_container (rc_manager r) (c_container_id c) True w = (q, w1)"
    by (cases "remove_container (rc_manager r) (c_container_id c) True w")
  have f: "db w1 = db w" "clock w1 = clock w"
    using rm remove_container_frame [of "rc_manager r" "c_container_id c" True w] by auto
  show ?thesis
  proof (cases q)
    case (Inl x)
    then obtain m where "x = ContainerRuntimeError m" using remove_container_error rm by blast
    then show ?thesis using Inl rm f by (simp add: cleanup_expired_container_def split: option.split)
  qed (simp add: cleanup_expired_container_def rm f split: option.split)
qed

lemma remove_image_db: "db (snd (remove_image dm ref w)) = db w" "clock (snd (remove_image dm ref w)) = clock w"
  by (auto simp: remove_image_def docker_call_def split: prod.splits option.splits)

lemma remove_image_error: "remove_image dm ref w = (Inl e, w') \<Longrightarrow> \<exists>m. e = ContainerRuntimeError m"
  by (auto simp: remove_image_def docker_call_def split: prod.splits option.splits)

lemma cleanup_image_db: "db (snd (cleanup_image dm refs img w)) = db w \<and> clock (snd (cleanup_image dm refs img w)) = clock w"
proof (cases "find (\<lambda>ref. ref \<notin> set refs) (if im_tags img = [] then [im_image_id img] else im_tags img)")
  case (Some ref)
  obtain q w1 where rm: "remove_image dm ref w = (q, w1)" by (cases "remove_image dm ref w")
  have f: "db w1 = db w" "clock w1 = clock w" using rm remove_image_db [of dm ref w] by simp_all
  show ?thesis
  proof (cases q)
    case (Inl x)
    then obtain m where "x = ContainerRuntimeError m" using remove_image_error rm by blast
    then show ?thesis using Some Inl rm f by (simp add: cleanup_image_def)
  qed (simp add: cleanup_image_def Some rm f)
qed (simp add: cleanup_image_def)

lemma cleanup_old_images_db: "db (snd (cleanup_old_images r w)) = db w \<and> clock (snd (cleanup_old_images r w)) = clock w"
  using for_each_db [of "cleanup_image dm refs" for dm refs] cleanup_image_db
  by (simp add: cleanup_old_images_def split: sum.split)

text \<open>The phases after the first leave the store alone.\<close>

lemma reconcile_once_store:
  assumes "list_managed_containers (rc_manager r) w = Inr cs"
  defines "first \<equiv> for_each (reconcile_with (rc_manager r) (by_id cs)) (list_executions (db w)) w"
  shows "db (snd (reconcile_once r w)) = db (snd first)" "clock (snd (reconcile_once r w)) = clock (snd first)"
    "fst (reconcile_once r w) = Inr rep \<Longrightarrow> \<exists>a. fst first = Inr a"
proof -
  obtain q1 w1 where 1: "first = (q1, w1)" by (cases first)
  let ?orphan = "reap_if_orphan (rc_manager r) (map e_id (list_executions (db w)))"
  have orphan: "db (snd (for_each ?orphan cs v)) = db v \<and> clock (snd (for_each ?orphan cs v)) = clock v" for v
    by (rule for_each_db) (rule reap_if_orphan_db)
  have expired: "db (snd (for_each (cleanup_expired_container r now) cs v)) = db v \<and>
      clock (snd (for_each (cleanup_expired_container r now) cs v)) = clock v" for now v
    by (rule for_each_db) (rule cleanup_expired_db)
  note call = reconcile_once_def [of r w, unfolded assms(1) Let_def sum.case first_def [symmetric] 1]
  show "db (snd (reconcile_once r w)) = db (snd first)" "clock (snd (reconcile_once r w)) = clock (snd first)"
    using orphan expired cleanup_old_images_db
    by (cases q1; simp add: call 1 andthen_snd split: sum.split)+
  show "\<exists>a. fst first = Inr a" if "fst (reconcile_once r w) = Inr rep"
    using that by (cases q1) (simp_all add: call 1)
qed

text \<open>In a pass that succeeds, each execution is settled by its own step, from its own row.\<close>

lemma for_each_hit:
  assumes "for_each step xs w = (Inr as, w')" and "x \<in> set xs" and "distinct (map e_id xs)"
    and "\<And>y w. only_row (e_id y) w (snd (step y w))"
  shows "\<exists>w1 a. fst (step x w1) = Inr a \<and> get_execution (e_id x) (db w1) = get_execution (e_id x) (db w) \<and>
    list_events (e_id x) (db w1) = list_events (e_id x) (db w) \<and> clock w1 = clock w \<and>
    get_execution (e_id x) (db w') = get_execution (e_id x) (db (snd (step x w1))) \<and>
    list_events (e_id x) (db w') = list_events (e_id x) (db (snd (step x w1)))"
  using assms(1-3)
proof (induction xs arbitrary: w as)
  case (Cons y ys)
  obtain a1 w1 where s1: "step y w = (Inr a1, w1)"
    using Cons.prems(1) by (cases "step y w"; cases "fst (step y w)") auto
  obtain as2 where s2: "for_each step ys w1 = (Inr as2, w')"
    using Cons.prems(1) s1 by (cases "for_each step ys w1"; cases "fst (for_each step ys w1)") auto
  have f: "only_row (e_id y) w w1" using assms(4) [of y w] s1 by simp
  show ?case
  proof (cases "x = y")
    case True
    have "e_id x \<notin> e_id ` set ys" using Cons.prems(3) True by simp
    then have "e_id z \<noteq> e_id x" if "z \<in> set ys" for z using that by (metis imageI)
    then have "get_execution (e_id x) (db w') = get_execution (e_id x) (db w1) \<and>
        list_events (e_id x) (db w') = list_events (e_id x) (db w1)"
      using for_each_others [of ys "e_id x" step w1] assms(4) s2 by auto
    then show ?thesis using s1 True by (intro exI [of _ w] exI [of _ a1]) simp
  next
    case False
    then have x: "x \<in> set ys" using Cons.prems(2) by simp
    have "e_id y \<notin> e_id ` set ys" using Cons.prems(3) by simp
    then have ne: "e_id x \<noteq> e_id y" using x by (metis imageI)
    from Cons.IH [OF s2 x] Cons.prems(3) show ?thesis using f ne by (simp add: only_row_def)
  qed
qed simp

lemma listed_row:
  "get_execution i s = Some e \<Longrightarrow> e \<in> set (list_executions s)"
  by (auto simp: get_execution_def list_executions_def dvalues_def dest: map_of_SomeD intro!: image_eqI)

lemma listed_ids:
  assumes "keyed s" and "distinct (map fst (executions s))"
  shows "map e_id (list_executions s) = map fst (executions s)"
  using assms by (auto simp: list_executions_def dvalues_def keyed_def intro!: map_cong)

lemma listed_same: "keyed s \<Longrightarrow> distinct (map fst (executions s)) \<Longrightarrow> x \<in> set (list_executions s) \<Longrightarrow>
    get_execution (e_id x) s = Some x"
  by (auto simp: list_executions_def get_execution_def keyed_def dvalues_def)

lemma by_id_none: "x \<notin> c_container_id ` set cs \<Longrightarrow> by_id cs x = None"
  by (auto simp: by_id_def map_of_eq_None_iff)

text \<open>The settling of an execution whose container the daemon does not list.\<close>

lemma reconcile_missing:
  assumes "keyed (db w)" and "distinct (map fst (executions (db w)))" and "get_execution i (db w) = Some e"
    and "or_str (e_container_id e) None = Some cid" and "e_status e \<in> ACTIVE_EXECUTION_STATUSES"
    and "list_managed_containers (rc_manager r) w = Inr cs" and "cid \<notin> c_container_id ` set cs"
    and "reconcile_once r w = (Inr rep, w')"
  shows "\<exists>e' evs ev. get_execution i (db w') = Some e' \<and> e_status e' = FAILED \<and>
    e_error e' = Some ''Managed container is missing'' \<and> ev_event_type ev = EXECUTION_FAILED \<and>
    list_events i (db w') = list_events i (db w) @ evs @ [ev]"
proof -
  let ?step = "reconcile_with (rc_manager r) (by_id cs)"
  have id: "e_id e = i" using assms(1,3) by (rule keyedD)
  have e: "e \<in> set (list_executions (db w))" using assms(3) by (rule listed_row)
  have d: "distinct (map e_id (list_executions (db w)))" using listed_ids [OF assms(1,2)] assms(2) by simp
  obtain a v where run: "for_each ?step (list_executions (db w)) w = (Inr a, v)"
    using reconcile_once_store(3) [OF assms(6)] assms(8) by (metis fst_conv prod.exhaust_sel)
  have v: "db w' = db v" using reconcile_once_store(1) [OF assms(6)] assms(8) run by simp
  from for_each_hit [OF run e d reconcile_with_frame] obtain w1 where
    w1: "list_events i (db w1) = list_events i (db w)" "get_execution i (db v) = get_execution i (db (snd (?step e w1)))"
      "list_events i (db v) = list_events i (db (snd (?step e w1)))" using id by auto
  have "?step e w1 = settle_missing e w1"
    using assms(4,5) by_id_none [OF assms(7)] by (simp add: reconcile_with_def)
  then have "snd (?step e w1) = mark_execution_failed_for_missing_container e w1" by (simp add: settle_missing_def)
  then show ?thesis using missing_effect [of w1 e] w1 v id by (auto simp: saved_with_def)
qed

section \<open>Properties\<close>


text \<open>
  A reconciliation pass never touches an execution that runs without a container: its row and
  its events stay whatever the daemon reports, however many other executions are settled, and even
  if the pass is cut off by a Docker error; and a pass resolves no wait.
\<close>

theorem reconcile_spares_local_runs:
  assumes "keyed (db w)" and "distinct (map fst (executions (db w)))" and "get_execution i (db w) = Some e"
    and "e_container_id e \<in> {None, Some []}"
  shows "spared i w (snd (reconcile_once r w))"
proof (cases "list_managed_containers (rc_manager r) w")
  case (Inl x)
  then show ?thesis by (simp add: reconcile_once_def spared_def)
next
  case (Inr cs)
  let ?step = "reconcile_with (rc_manager r) (by_id cs)"
  have "snd (?step x v) = v" if "x \<in> set (list_executions (db w))" "e_id x = i" for x v
  proof -
    have "x = e" using listed_same [OF assms(1,2) that(1)] that(2) assms(3) by simp
    then show ?thesis using assms(4) reconcile_local by (auto simp: or_str_def)
  qed
  from for_each_others [of "list_executions (db w)" i ?step w, OF this reconcile_with_frame]
  show ?thesis using reconcile_once_store(1,2) [OF Inr] by (simp add: spared_def)
qed

definition sample_api :: docker_api where
  "sample_api = \<lparr>api_get = (\<lambda>_ _. Inl ''no such container''), api_create = (\<lambda>_ d. (Inl ''no such image'', d)),
     api_start = (\<lambda>_ d. (None, d)), api_stop = (\<lambda>_ d. (None, d)), api_remove = (\<lambda>_ _ d. (None, d)),
     api_list = (\<lambda>_. Inr []), api_images = (\<lambda>_. Inr []), api_remove_image = (\<lambda>_ d. (None, d))\<rparr>"

definition sample_reconciler :: reconciler where
  "sample_reconciler = \<lparr>rc_manager = \<lparr>dm_config = sample_config, dm_api = sample_api, dm_fromiso = (\<lambda>_. None)\<rparr>,
     rc_container_ttl_seconds = 86400, rc_image_retention_count = 10, rc_has_operations = True\<rparr>"

lemma sample_listed: "list_managed_containers (rc_manager sample_reconciler) w = Inr []"
  by (simp add: list_managed_containers_def sample_reconciler_def sample_api_def)

lemma sample_pass: "\<exists>rep w'. reconcile_once sample_reconciler w = (Inr rep, w')"
proof -
  have run: "\<exists>a v. for_each (reconcile_with dm (\<lambda>_. None)) xs u = (Inr a, v)" for dm xs u
  proof (induction xs arbitrary: u)
    case (Cons x xs)
    have "\<exists>a v. reconcile_with dm (\<lambda>_. None) x u = (Inr a, v)"
      by (simp add: reconcile_with_def settle_missing_def split: option.split)
    then obtain a v where "reconcile_with dm (\<lambda>_. None) x u = (Inr a, v)" by blast
    then show ?case using Cons.IH [of v] by auto
  qed simp
  have none: "by_id [] = (\<lambda>_. None)" by (simp add: by_id_def)
  from run [of "rc_manager sample_reconciler" "list_executions (db w)" w] obtain a v where
    1: "for_each (reconcile_with (rc_manager sample_reconciler) (\<lambda>_. None)) (list_executions (db w)) w = (Inr a, v)" by blast
  have "cleanup_old_images sample_reconciler u = (Inr [], u)" for u
    by (simp add: cleanup_old_images_def list_managed_images_def sample_reconciler_def sample_api_def newest_first_def)
  then show ?thesis by (simp add: reconcile_once_def sample_listed none 1)
qed

lemma sample_rows: "keyed (db sample_world)" "distinct (map fst (executions (db sample_world)))"
  "get_execution ''ex-1'' (db sample_world) = Some sample_execution"
  by (simp_all add: keyed_def get_execution_def empty_store_def)

theorem reconcile_spares_local_runs_witness:
  "spared ''ex-1'' sample_world (snd (reconcile_once sample_reconciler sample_world))"
  by (rule reconcile_spares_local_runs [OF sample_rows]) simp

text \<open>
  A pass that succeeds settles every active execution whose container the daemon no longer
  lists: it is failed, with the reason recorded and an \<open>execution.failed\<close> event at the end of its
  stream.
\<close>

theorem missing_container_fails_execution:
  assumes "keyed (db w)" and "distinct (map fst (executions (db w)))" and "get_execution i (db w) = Some e"
    and "or_str (e_container_id e) None = Some cid" and "e_status e \<in> ACTIVE_EXECUTION_STATUSES"
    and "list_managed_containers (rc_manager r) w = Inr cs" and "cid \<notin> c_container_id ` set cs"
    and "reconcile_once r w = (Inr rep, w')"
  shows "\<exists>e' evs ev. get_execution i (db w') = Some e' \<and> e_status e' = FAILED \<and>
    e_error e' = Some ''Managed container is missing'' \<and> ev_event_type ev = EXECUTION_FAILED \<and>
    list_events i (db w') = list_events i (db w) @ evs @ [ev]"
  by (rule reconcile_missing [OF assms])

definition container_execution :: Execution where
  "container_execution = sample_execution\<lparr>e_status := RUNNING, e_container_id := Some ''c-1''\<rparr>"

definition container_world :: world where
  "container_world = sample_world\<lparr>db := empty_store\<lparr>executions := [(''ex-1'', container_execution)]\<rparr>\<rparr>"

lemma container_rows: "keyed (db container_world)" "distinct (map fst (executions (db container_world)))"
  "get_execution ''ex-1'' (db container_world) = Some container_execution"
  by (simp_all add: container_world_def container_execution_def keyed_def get_execution_def empty_store_def)

theorem missing_container_fails_execution_witness:
  "\<exists>rep w' e' evs ev. reconcile_once sample_reconciler container_world = (Inr rep, w') \<and>
    get_execution ''ex-1'' (db w') = Some e' \<and> e_status e' = FAILED \<and>
    e_error e' = Some ''Managed container is missing'' \<and> ev_event_type ev = EXECUTION_FAILED \<and>
    list_events ''ex-1'' (db w') = list_events ''ex-1'' (db container_world) @ evs @ [ev]"
proof -
  obtain rep w' where call: "reconcile_once sample_reconciler container_world = (Inr rep, w')" using sample_pass by blast
  from missing_container_fails_execution [OF container_rows _ _ sample_listed _ call, of "''c-1''"] call
  show ?thesis by (auto simp: container_execution_def or_str_def ACTIVE_EXECUTION_STATUSES_def)
qed

text \<open>
  Repair and reconciliation do not compose. Repair queues a stale containerised execution again
  and removes its container but leaves the container's id in the row, so the next reconciliation
  pass, finding no such container, fails the execution that was just queued.
\<close>

theorem repaired_container_run_is_failed:
  assumes "keyed (db w)" and "distinct (map fst (executions (db w)))"
    and "e_status e \<in> {QUEUED, RUNNING}" and "or_str (e_container_id e) None = Some cid"
    and "has_completed_workflow_checkpoint p e = Inr False"
    and "repair_execution p c e w = (Inr item, w1)"
    and "list_managed_containers (rc_manager r) w1 = Inr cs" and "cid \<notin> c_container_id ` set cs"
    and "reconcile_once r w1 = (Inr rep, w2)"
  shows "(\<exists>e1. get_execution (e_id e) (db w1) = Some e1 \<and> e_status e1 = QUEUED) \<and>
    (\<exists>e2. get_execution (e_id e) (db w2) = Some e2 \<and> e_status e2 = FAILED \<and>
      e_error e2 = Some ''Managed container is missing'')"
proof -
  from repair_execution_effect [OF assms(5), of c w] assms(6) have "repaired False e w w1" by auto
  from this [unfolded repaired_def, THEN conjunct1] obtain e1 ev where e1: "executions (db w1) = dset (e_id e) e1 (executions (db w))"
    "get_execution (e_id e) (db w1) = Some e1" "e_id e1 = e_id e" "e_container_id e1 = e_container_id e"
    "(e_status e1, ev_event_type (ev :: ExecutionEvent)) = repair_result False (e_status e)"
    by blast
  have st: "e_status e1 = QUEUED" using e1(5) assms(3) by (auto simp: repair_result_def)
  have "keyed (db w1)" using assms(1) e1(1,3) by (simp add: keyed_def)
  moreover have "distinct (map fst (executions (db w1)))" using e1(1) assms(2) by simp
  ultimately show ?thesis
    using reconcile_missing [of w1 "e_id e" e1 cid r cs rep w2] e1 st assms(4,7-9)
    by (auto simp: ACTIVE_EXECUTION_STATUSES_def)
qed

theorem repaired_container_run_is_failed_witness:
  "\<exists>item w1 rep w2. repair_execution sample_plane (classify_stale_execution sample_plane 100 container_execution)
       container_execution container_world = (Inr item, w1) \<and> reconcile_once sample_reconciler w1 = (Inr rep, w2) \<and>
     (\<exists>e1. get_execution ''ex-1'' (db w1) = Some e1 \<and> e_status e1 = QUEUED) \<and>
     (\<exists>e2. get_execution ''ex-1'' (db w2) = Some e2 \<and> e_status e2 = FAILED \<and>
       e_error e2 = Some ''Managed container is missing'')"
proof -
  have e: "e_id container_execution = ''ex-1''" "e_status container_execution \<in> {QUEUED, RUNNING}"
    "or_str (e_container_id container_execution) None = Some ''c-1''"
    "has_completed_workflow_checkpoint sample_plane container_execution = Inr False"
    by (simp_all add: container_execution_def or_str_def has_completed_workflow_checkpoint_def)
  from repair_execution_effect [OF e(4), of "classify_stale_execution sample_plane 100 container_execution" container_world]
  obtain item w1 where rep: "repair_execution sample_plane (classify_stale_execution sample_plane 100 container_execution)
      container_execution container_world = (Inr item, w1)" by (elim exE conjE)
  obtain r w2 where pass: "reconcile_once sample_reconciler w1 = (Inr r, w2)" using sample_pass by blast
  have "(\<exists>e1. get_execution ''ex-1'' (db w1) = Some e1 \<and> e_status e1 = QUEUED) \<and>
     (\<exists>e2. get_execution ''ex-1'' (db w2) = Some e2 \<and> e_status e2 = FAILED \<and>
       e_error e2 = Some ''Managed container is missing'')"
    by (rule repaired_container_run_is_failed [OF container_rows(1,2) e(2,3,4) rep sample_listed _ pass, unfolded e(1)]) simp
  with rep pass show ?thesis by blast
qed

end
