(* ===== verification/Isolation.thy ===== *)
theory Isolation
  imports Revisions Reconcile
begin

text \<open>
  \<open>app/runtime/control_plane.py\<close>, third part: the run of an execution, in the process or in a worker
  container, the environment and the network such a container gets, the replacement of executions
  that run under an outdated revision, and the creation of executions in \<open>app/runtime/registry.py\<close>.
  Parameters: the text of a float, and the keyed hash behind \<open>derive_execution_secret\<close>.
\<close>

section \<open>Settings and parameters\<close>

record worker_settings = mount_settings +
  ws_app_env :: string
  ws_gateway_url :: string
  ws_agent_token_secret_ref :: "string option"
  ws_worker_no_proxy :: string
  ws_worker_egress_mode :: string
  ws_worker_egress_network :: string
  ws_node_proxy_bootstrap_path :: string
  ws_container_database_url :: "string option"
  ws_execution_container_workdir :: string

record deployment =
  dp_plane :: plane
  dp_service :: "revision_service option"
  dp_settings :: worker_settings
  dp_runtime :: RuntimeSettings
  dp_host :: host
  dp_crewai_available :: bool
  dp_float_repr :: "pyfloat \<Rightarrow> string"
  dp_float_g :: "pyfloat \<Rightarrow> string"
  dp_hmac :: "string \<Rightarrow> string \<Rightarrow> string"

definition nonempty :: "string option \<Rightarrow> bool" where
  "nonempty v = (or_str v None \<noteq> None)"

definition env_or :: "host \<Rightarrow> string \<Rightarrow> string \<Rightarrow> string" where
  "env_or h name fallback = (case h_getenv h name of Some v \<Rightarrow> v | None \<Rightarrow> fallback)"

definition bool_text :: "bool \<Rightarrow> string" where
  "bool_text b = (if b then ''true'' else ''false'')"

section \<open>The OneCLI gateway\<close>

definition ONECLI_PROXY_ENV_NAMES :: "string list" where
  "ONECLI_PROXY_ENV_NAMES = [''HTTP_PROXY'', ''HTTPS_PROXY'', ''http_proxy'', ''https_proxy'']"

definition ONECLI_CA_ENV_NAMES :: "string list" where
  "ONECLI_CA_ENV_NAMES = [''REQUESTS_CA_BUNDLE'', ''SSL_CERT_FILE'', ''CURL_CA_BUNDLE'', ''GIT_SSL_CAINFO'',
     ''NODE_EXTRA_CA_CERTS'']"

definition DIRECT_EXTERNAL_CREDENTIAL_ENV_NAMES :: "string list" where
  "DIRECT_EXTERNAL_CREDENTIAL_ENV_NAMES = [''OPENAI_API_KEY'', ''ANTHROPIC_API_KEY'', ''GOOGLE_API_KEY'',
     ''AZURE_API_KEY'', ''AZURE_OPENAI_API_KEY'', ''LOCAL_OPENAI_API_KEY'']"

definition onecli_enforced :: "worker_settings \<Rightarrow> bool" where
  "onecli_enforced s = (ms_onecli_enabled s \<and> ms_onecli_force_for_isolated_workers s)"

definition gateway_env :: "worker_settings \<Rightarrow> string dict" where
  "gateway_env s =
    (let url = ws_gateway_url s
     in [(''HTTP_PROXY'', url), (''HTTPS_PROXY'', url), (''http_proxy'', url), (''https_proxy'', url),
         (''NO_PROXY'', ws_worker_no_proxy s), (''no_proxy'', ws_worker_no_proxy s),
         (''ONECLI_ENABLED'', ''true''), (''ONECLI_GATEWAY_URL'', url),
         (''ONECLI_FORCE_FOR_ISOLATED_WORKERS'', ''true''),
         (''ONECLI_AGENT_TOKEN_SECRET_REF_CONFIGURED'', bool_text (nonempty (ws_agent_token_secret_ref s)))])"

definition onecli_worker_environment :: "host \<Rightarrow> worker_settings \<Rightarrow> string dict" where
  "onecli_worker_environment h s =
    (if \<not> onecli_enforced s then []
     else
       let node_options = strip (env_or h ''NODE_OPTIONS'' []);
           bootstrap = strip (ws_node_proxy_bootstrap_path s);
           env1 = (if bootstrap = [] then gateway_env s
                   else dset ''ONECLI_NODE_PROXY_BOOTSTRAP_PATH'' bootstrap
                     (dset ''NODE_OPTIONS'' (strip (node_options @ '' --require '' @ bootstrap)) (gateway_env s)));
           ca_path = ms_onecli_gateway_ca_bundle_container_path s
       in if nonempty (ms_onecli_gateway_ca_bundle_path s) \<and> startswith (lower (ws_gateway_url s)) ''https://''
          then dmerge env1 (map (\<lambda>name. (name, ca_path)) ONECLI_CA_ENV_NAMES)
          else env1)"

definition ca_container_path :: "worker_settings \<Rightarrow> pyval" where
  "ca_container_path s = (if nonempty (ms_onecli_gateway_ca_bundle_path s)
     then VStr (ms_onecli_gateway_ca_bundle_container_path s) else VNone)"

definition onecli_runtime_metadata :: "worker_settings \<Rightarrow> json" where
  "onecli_runtime_metadata s =
    [(''enabled'', VBool (ms_onecli_enabled s)),
     (''force_for_isolated_workers'', VBool (ms_onecli_force_for_isolated_workers s)),
     (''gateway_url'', if ms_onecli_enabled s then VStr (ws_gateway_url s) else VNone),
     (''gateway_ca_bundle_configured'', VBool (nonempty (ms_onecli_gateway_ca_bundle_path s))),
     (''gateway_ca_bundle_container_path'', ca_container_path s),
     (''agent_token_secret_ref_configured'', VBool (nonempty (ws_agent_token_secret_ref s))),
     (''worker_egress_mode'', VStr (ws_worker_egress_mode s)),
     (''worker_egress_network'', if ws_worker_egress_mode s = ''docker_internal_network''
        then VStr (ws_worker_egress_network s) else VNone),
     (''node_proxy_bootstrap_configured'', VBool (strip (ws_node_proxy_bootstrap_path s) \<noteq> []))]"

definition onecli_worker_network_name :: "worker_settings \<Rightarrow> string option" where
  "onecli_worker_network_name s =
    (if onecli_enforced s \<and> ws_worker_egress_mode s = ''docker_internal_network''
     then Some (ws_worker_egress_network s) else None)"

definition env_set :: "string dict \<Rightarrow> string \<Rightarrow> bool" where
  "env_set env name = nonempty (map_of env name)"

definition names_val :: "string list \<Rightarrow> pyval" where
  "names_val names = VList (map VStr (sort names))"

definition onecli_worker_enforcement_diagnostics :: "worker_settings \<Rightarrow> string dict \<Rightarrow> string option \<Rightarrow> json" where
  "onecli_worker_enforcement_diagnostics s env network_name =
    (let proxy_env_required = onecli_enforced s;
         ca_bundle_required = (proxy_env_required \<and> nonempty (ms_onecli_gateway_ca_bundle_path s));
         forbidden = filter (env_set env) DIRECT_EXTERNAL_CREDENTIAL_ENV_NAMES;
         bootstrap = map_of env ''ONECLI_NODE_PROXY_BOOTSTRAP_PATH'';
         enforcement_mode = (if proxy_env_required then ws_worker_egress_mode s else ''not_enforced'')
     in [(''enabled'', VBool (ms_onecli_enabled s)),
         (''force_for_isolated_workers'', VBool (ms_onecli_force_for_isolated_workers s)),
         (''enforcement_mode'', VStr enforcement_mode),
         (''proxy_env_required'', VBool proxy_env_required),
         (''proxy_env_present'', names_val (filter (env_set env) ONECLI_PROXY_ENV_NAMES)),
         (''missing_proxy_env'', names_val (filter (\<lambda>n. proxy_env_required \<and> \<not> env_set env n) ONECLI_PROXY_ENV_NAMES)),
         (''no_proxy_configured'', VBool (env_set env ''NO_PROXY'' \<or> env_set env ''no_proxy'')),
         (''ca_bundle_required'', VBool ca_bundle_required),
         (''ca_bundle_configured'', VBool (nonempty (ms_onecli_gateway_ca_bundle_path s))),
         (''ca_bundle_container_path'', ca_container_path s),
         (''ca_env_present'', names_val (filter (env_set env) ONECLI_CA_ENV_NAMES)),
         (''missing_ca_env'', names_val (filter (\<lambda>n. ca_bundle_required \<and> \<not> env_set env n) ONECLI_CA_ENV_NAMES)),
         (''agent_token_secret_ref_configured'', VBool (nonempty (ws_agent_token_secret_ref s))),
         (''node_proxy_bootstrap_configured'', VBool (nonempty bootstrap)),
         (''node_proxy_bootstrap_path'', opt_str bootstrap),
         (''direct_external_credentials_blocked'', VBool (forbidden = [])),
         (''forbidden_env_present'', names_val forbidden),
         (''container_level_egress_controls'',
            VStr (if enforcement_mode = ''docker_internal_network'' \<and> nonempty network_name
                  then ''docker_internal_network'' else ''pending'')),
         (''worker_network'', opt_str network_name),
         (''direct_network_bypass_detection'', VStr (if proxy_env_required then ''configured'' else ''not_enforced''))])"

definition default_worker_codex_sandbox :: "host \<Rightarrow> string" where
  "default_worker_codex_sandbox h =
    (let configured = strip (env_or h ''CODEX_CLI_SANDBOX'' [])
     in if configured = [] then ''workspace-write'' else configured)"

text \<open>\<open>derive_execution_secret\<close> of \<open>app/browser_runtime/security.py\<close>, with the keyed hash as parameter.\<close>

definition derive_execution_secret :: "(string \<Rightarrow> string \<Rightarrow> string) \<Rightarrow> string \<Rightarrow> string \<Rightarrow> exc + string" where
  "derive_execution_secret hmac master_secret execution_id =
    (if length master_secret < 32
     then Inl (PermissionError ''Browser runtime master secret must contain at least 32 characters'')
     else Inr (hmac master_secret (''agency-browser-execution:'' @ execution_id)))"

definition worker_codex_cwd :: "host \<Rightarrow> worker_settings \<Rightarrow> string" where
  "worker_codex_cwd h s =
    (case nonempty_env h ''EXECUTION_CODEX_CLI_CWD'' of
       Some cwd \<Rightarrow> cwd
     | None \<Rightarrow>
         if h_getenv h ''AGENCY_BACKEND_RUN_MODE'' = Some ''host'' then ws_execution_container_workdir s
         else env_or h ''CODEX_CLI_CWD'' (ws_execution_container_workdir s))"

definition worker_base_env ::
  "deployment \<Rightarrow> Execution \<Rightarrow> RuntimeRevision \<Rightarrow> ResolvedExecutionRuntimePolicy \<Rightarrow> string dict" where
  "worker_base_env d execution revision policy =
    (let h = dp_host d; s = dp_settings d
     in [(''AGENCY_EXECUTION_ID'', e_id execution), (''AGENCY_WORKFLOW_ID'', e_workflow_id execution),
         (''AGENCY_RUNTIME_REVISION_ID'', rv_id revision),
         (''AGENCY_RUNTIME_ADAPTER_ID'', e_runtime_adapter_id execution),
         (''AGENCY_WORKER_ID'', ''container-worker-'' @ e_id execution),
         (''AGENCY_HEARTBEAT_INTERVAL_SECONDS'', dp_float_repr d (rp_heartbeat_interval_seconds policy)),
         (''APP_ENV'', ws_app_env s),
         (''CODEX_HOME'', case nonempty_env h ''EXECUTION_CODEX_HOME'' of Some v \<Rightarrow> v | None \<Rightarrow> ''/codex''),
         (''CODEX_CLI_CWD'', worker_codex_cwd h s), (''CODEX_CLI_SANDBOX'', default_worker_codex_sandbox h),
         (''CODEX_CLI_TIMEOUT_SECONDS'', int_str (rp_codex_cli_timeout_seconds policy)),
         (''LLM_REQUEST_TIMEOUT_SECONDS'', dp_float_g d (rp_llm_request_timeout_seconds policy))])"

definition with_opt :: "string \<Rightarrow> string option \<Rightarrow> string dict \<Rightarrow> string dict" where
  "with_opt k v env = (case v of None \<Rightarrow> env | Some x \<Rightarrow> dset k x env)"

definition with_browser_runtime :: "deployment \<Rightarrow> Execution \<Rightarrow> string dict \<Rightarrow> exc + string dict" where
  "with_browser_runtime d execution env =
    (case nonempty_env (dp_host d) ''BROWSER_RUNTIME_SIGNING_SECRET'' of
       None \<Rightarrow> Inr env
     | Some master \<Rightarrow>
         sbind (derive_execution_secret (dp_hmac d) master (e_id execution)) (\<lambda>secret.
         Inr (dset ''BROWSER_RUNTIME_EXECUTION_SECRET'' secret
           (dset ''BROWSER_RUNTIME_URL'' (env_or (dp_host d) ''BROWSER_RUNTIME_WORKER_URL'' ''http://browser-runtime:8010'')
             env))))"

definition container_env ::
  "deployment \<Rightarrow> Execution \<Rightarrow> RuntimeRevision \<Rightarrow> ResolvedExecutionRuntimePolicy \<Rightarrow> exc + string dict" where
  "container_env d execution revision policy =
    sbind (with_browser_runtime d execution
        (with_opt ''DATABASE_URL'' (or_str (ws_container_database_url (dp_settings d)) None)
          (dmerge (worker_base_env d execution revision policy)
            (onecli_worker_environment (dp_host d) (dp_settings d))))) (\<lambda>env.
    Inr (with_opt ''AGENCY_GOAL_ID'' (or_str (e_goal_id execution) None)
      (with_opt ''AGENCY_EXECUTION_TIMEOUT_SECONDS'' (map_option int_str (rp_worker_hard_timeout_seconds policy)) env)))"

section \<open>Replacing outdated executions\<close>

definition ACTIVE_REPLACEMENT_STATUSES :: "ExecutionStatus set" where
  "ACTIVE_REPLACEMENT_STATUSES = {QUEUED, RUNNING, WAITING_FOR_INPUT, WAITING_FOR_APPROVAL, WAITING_FOR_EVENT,
     SLEEPING, PAUSED, CANCELLING}"

definition preservation_item :: "json option \<Rightarrow> json" where
  "preservation_item preservation = opt_item ''partial_result_preservation'' (map_option VDict preservation)"

definition replacement_payload :: "string \<Rightarrow> string \<Rightarrow> string \<Rightarrow> json option \<Rightarrow> json" where
  "replacement_payload execution_id why replacement_id preservation =
    [(''execution_id'', VStr execution_id), (''reason'', VStr why),
     (''replacement_execution_id'', VStr replacement_id)] @ preservation_item preservation"

text \<open>The worker of the replaced execution is removed; a cancellation in progress is concluded.\<close>

definition remove_replaced_worker ::
  "plane \<Rightarrow> NativeExecutionState \<Rightarrow> Execution \<Rightarrow> string \<Rightarrow> string \<Rightarrow> string \<Rightarrow> json option \<Rightarrow> json \<Rightarrow> string \<Rightarrow> unit act" where
  "remove_replaced_worker p state execution replacement_id revision_id why preservation extra container_id w =
    (case p_manager p of
       None \<Rightarrow> (Inl (AttributeError ''NoneType has no attribute inspect_container''), w)
     | Some dm \<Rightarrow>
         andthen (inspect_container dm container_id w, w) (\<lambda>container0 w1.
         andthen (if c_status container0 \<in> set LIVE_CONTAINER_STATUSES
                  then stop_container dm container_id w1 else (Inr container0, w1)) (\<lambda>container w2.
         andthen (remove_container dm container_id (c_status container \<in> set EXITED_CONTAINER_STATUSES) w2) (\<lambda>_ w3.
           let finalized = (e_status execution = CANCELLING);
               execution1 = (if finalized
                 then execution\<lparr>e_status := ExecutionStatus.CANCELLED,
                        e_completed_at := Some (or_time (e_completed_at execution) None (clock w3))\<rparr>
                 else execution);
               execution2 = removed_container container (clock w3) execution1;
               w4 = db_update_execution execution2 w3;
               (state1, w5) = (if finalized
                 then snd (emit_payload state EXECUTION_CANCELLED
                   (replacement_payload (e_id execution2) why replacement_id preservation) w4)
                 else (state, w4));
               payload = dmerge ([(''replacement_execution_id'', VStr replacement_id),
                   (''replacement_runtime_revision_id'', VStr revision_id)] @ preservation_item preservation) extra
           in (Inr (), snd (snd (emit_container_replaced state1 container (e_runtime_revision_id execution2)
                 (Some why) payload w5)))))))"

definition replace_outdated_execution ::
  "plane \<Rightarrow> string \<Rightarrow> string \<Rightarrow> string \<Rightarrow> json option \<Rightarrow> json \<Rightarrow> Execution \<Rightarrow> unit act" where
  "replace_outdated_execution p replacement_id revision_id why preservation0 extra execution w =
    (let (state, w1) = event_state_for (e_id execution) (e_workflow_id execution) w;
         preservation = (case preservation0 of Some s \<Rightarrow> Some s
           | None \<Rightarrow> partial_result_preservation_snapshot execution why w1);
         execution1 = preserve preservation (execution\<lparr>e_restart_reason := Some why\<rparr>);
         (state2, execution2, w2) =
           (case registry_cancel (e_id execution1) w1 of
              (Inl _, w2) \<Rightarrow>
                let cancelled = preserve preservation (execution1\<lparr>e_status := ExecutionStatus.CANCELLED,
                      e_completed_at := Some (or_time (e_completed_at execution1) None (clock w2))\<rparr>);
                    (_, state1, w3) = emit_payload state EXECUTION_CANCELLED
                      (replacement_payload (e_id cancelled) why replacement_id preservation)
                      (db_update_execution cancelled w2)
                in (state1, cancelled, w3)
            | (Inr cancelled, w2) \<Rightarrow>
                (case preservation of
                   None \<Rightarrow> (state, cancelled, w2)
                 | Some _ \<Rightarrow> let kept = preserve preservation cancelled
                             in (state, kept, db_update_execution kept w2)));
         execution3 = execution2\<lparr>e_restart_reason := Some why\<rparr>
     in case or_str (e_container_id execution3) None of
          None \<Rightarrow> (Inr (), db_update_execution execution3 w2)
        | Some container_id \<Rightarrow>
            remove_replaced_worker p state2 execution3 replacement_id revision_id why preservation extra container_id w2)"

definition outdated_executions :: "Execution \<Rightarrow> string \<Rightarrow> world \<Rightarrow> Execution list" where
  "outdated_executions execution revision_id w =
    filter (\<lambda>c. e_id c \<noteq> e_id execution \<and> e_workflow_id c = e_workflow_id execution \<and>
        e_status c \<in> ACTIVE_REPLACEMENT_STATUSES \<and> nonempty (e_runtime_revision_id c) \<and>
        e_runtime_revision_id c \<noteq> Some revision_id)
      (list_active_executions (db w))"

fun replace_each :: "plane \<Rightarrow> string \<Rightarrow> string \<Rightarrow> Execution list \<Rightarrow> unit act" where
  "replace_each p replacement_id revision_id [] w = (Inr (), w)"
| "replace_each p replacement_id revision_id (c # cs) w =
    andthen (replace_outdated_execution p replacement_id revision_id ''runtime_revision_superseded'' None [] c w)
      (\<lambda>_ w1. replace_each p replacement_id revision_id cs w1)"

text \<open>The exception, if any, with the execution as it stands then.\<close>

definition handle_outdated_executions ::
  "plane \<Rightarrow> Execution \<Rightarrow> string \<Rightarrow> world \<Rightarrow> exc option \<times> Execution \<times> world" where
  "handle_outdated_executions p execution revision_id w =
    (if nonempty (e_replacement_of_execution_id execution) then (None, execution, w)
     else case outdated_executions execution revision_id w of
       [] \<Rightarrow> (None, execution, w)
     | target # others \<Rightarrow>
         let execution1 = execution\<lparr>e_replacement_of_execution_id := Some (e_id target),
               e_restart_reason := Some ''runtime_revision_superseded''\<rparr>;
             w1 = (if execution1 = execution then w else db_update_execution execution1 w)
         in if \<not> p_cancel_outdated_executions p then (None, execution1, w1)
            else case replace_each p (e_id execution1) revision_id (target # others) w1 of
                   (Inl e, w2) \<Rightarrow> (Some e, execution1, w2)
                 | (Inr _, w2) \<Rightarrow> (None, execution1, w2))"

section \<open>A worker container for an execution\<close>

definition revision_metadata :: "Execution \<Rightarrow> json \<Rightarrow> json" where
  "revision_metadata execution extra =
    [(''execution_id'', VStr (e_id execution)), (''workflow_id'', VStr (e_workflow_id execution)),
     (''requested_adapter'', VStr (e_runtime_adapter_id execution))] @ extra"

fun emit_invalidated :: "NativeExecutionState \<Rightarrow> RuntimeRevision list \<Rightarrow> world \<Rightarrow> NativeExecutionState \<times> world" where
  "emit_invalidated state [] w = (state, w)"
| "emit_invalidated state (r # rs) w =
    (let (_, state1, w1) = emit_runtime_revision_invalidated state r (rv_invalidation_reason r) w
     in emit_invalidated state1 rs w1)"

definition worker_image :: "DockerRuntimeManager \<Rightarrow> RuntimeRevision \<Rightarrow> string" where
  "worker_image dm revision =
    (case (or_str (rv_image_name revision) None, or_str (rv_image_tag revision) None) of
       (Some name, Some tag) \<Rightarrow> name @ '':'' @ tag
     | _ \<Rightarrow> cc_runtime_base_image (dm_config dm))"

definition worker_spec :: "deployment \<Rightarrow> DockerRuntimeManager \<Rightarrow> Execution \<Rightarrow> RuntimeRevision \<Rightarrow> string dict \<Rightarrow> RuntimeContainerSpec" where
  "worker_spec d dm execution revision env =
    \<lparr>sp_execution_id = e_id execution, sp_workflow_id = e_workflow_id execution,
     sp_runtime_revision_id = rv_id revision, sp_image = worker_image dm revision, sp_goal_id = e_goal_id execution,
     sp_command = [''python'', ''-m'', ''app.runtime.worker''], sp_env = env, sp_mounts = [],
     sp_labels = [(''agency.onecli.enabled'', bool_text (ms_onecli_enabled (dp_settings d))),
       (''agency.onecli.isolated_workers'', bool_text (ms_onecli_force_for_isolated_workers (dp_settings d))),
       (''agency.onecli.egress_mode'', ws_worker_egress_mode (dp_settings d))],
     sp_network_name = onecli_worker_network_name (dp_settings d), sp_name = None\<rparr>"

definition worker_context :: "Execution \<Rightarrow> RuntimeRevision \<Rightarrow> string dict \<Rightarrow> json" where
  "worker_context execution revision env =
    [(''execution_id'', VStr (e_id execution)), (''workflow_id'', VStr (e_workflow_id execution)),
     (''goal_id'', opt_str (e_goal_id execution)), (''runtime_revision_id'', VStr (rv_id revision)),
     (''runtime_adapter_id'', VStr (e_runtime_adapter_id execution)),
     (''worker_id'', opt_str (map_of env ''AGENCY_WORKER_ID''))]"

text \<open>
  The body of the \<open>try\<close> block: the exception that ends it, if any, with the execution, the run state
  and the world as they stand then.
\<close>

type_synonym prepared = "exc option \<times> Execution \<times> NativeExecutionState \<times> world"

definition launch_worker ::
  "deployment \<Rightarrow> DockerRuntimeManager \<Rightarrow> RuntimeRevision \<Rightarrow> RuntimeContainerSpec \<Rightarrow> Execution \<Rightarrow> NativeExecutionState \<Rightarrow>
   world \<Rightarrow> prepared" where
  "launch_worker d dm revision spec execution state w =
    (case create_execution_container dm (mount_settings.truncate (dp_settings d)) (dp_host d) spec w of
       (Inl e, w1) \<Rightarrow> (Some e, execution, state, w1)
     | (Inr created, w1) \<Rightarrow>
         let execution1 = execution\<lparr>e_container_id := Some (c_container_id created),
               e_container_name := Some (c_name created), e_container_image := Some (c_image created),
               e_container_status := Some (c_status created)\<rparr>;
             (_, state1, w2) = emit_container_created state created (rv_id revision) (db_update_execution execution1 w1)
         in case start_container dm (c_container_id created) w2 of
              (Inl e, w3) \<Rightarrow> (Some e, execution1, state1, w3)
            | (Inr started, w3) \<Rightarrow>
                let execution2 = execution1\<lparr>e_container_status := Some (c_status started),
                      e_container_started_at := Some (or_time (c_started_at started) None (clock w3)),
                      e_container_ended_at := c_finished_at started,
                      e_container_exit_code := c_exit_code started\<rparr>;
                    (_, state2, w4) = emit_container_started state1 started (rv_id revision)
                      (db_update_execution execution2 w3)
                in (None, execution2, state2, db_update_execution execution2 w4))"

definition prepare_worker ::
  "deployment \<Rightarrow> DockerRuntimeManager \<Rightarrow> RuntimeRevision \<Rightarrow> Execution \<Rightarrow> NativeExecutionState \<Rightarrow> world \<Rightarrow> prepared" where
  "prepare_worker d dm revision execution state w =
    (case resolve_execution_runtime_policy (h_getenv (dp_host d)) (dp_runtime d)
            (p_get_workflow (dp_plane d) (e_workflow_id execution)) (Some execution) None None True of
       Inl e \<Rightarrow> (Some e, execution, state, w)
     | Inr policy \<Rightarrow>
         let execution1 = execution\<lparr>e_metadata := dset ''runtime_policy'' (VDict (policy_dump policy)) (e_metadata execution)\<rparr>;
             w1 = db_update_execution execution1 w
         in case container_env d execution1 revision policy of
              Inl e \<Rightarrow> (Some e, execution1, state, w1)
            | Inr env \<Rightarrow>
                let diagnostics = onecli_worker_enforcement_diagnostics (dp_settings d) env
                      (onecli_worker_network_name (dp_settings d));
                    execution2 = execution1\<lparr>e_metadata := dset ''onecli_worker_enforcement'' (VDict diagnostics)
                      (dset ''worker_context'' (VDict (worker_context execution1 revision env)) (e_metadata execution1))\<rparr>;
                    (_, state1, w2) = emit_payload state ONECLI_WORKER_ENFORCEMENT_RECORDED diagnostics
                      (db_update_execution execution2 w1)
                in launch_worker d dm revision (worker_spec d dm execution2 revision env) execution2 state1 w2)"

definition prepare_body ::
  "deployment \<Rightarrow> revision_service \<Rightarrow> DockerRuntimeManager \<Rightarrow> Execution \<Rightarrow> NativeExecutionState \<Rightarrow> world \<Rightarrow> prepared" where
  "prepare_body d sv dm execution state w =
    (case resolve_current_revision sv (revision_metadata execution
            [(''onecli'', VDict (onecli_runtime_metadata (dp_settings d)))]) True w of
       (Inl e, w1) \<Rightarrow> (Some e, execution, state, w1)
     | (Inr revision, w1) \<Rightarrow>
         let execution1 = execution\<lparr>e_runtime_revision_id := Some (rv_id revision),
               e_runtime_fingerprint := Some (rv_fingerprint revision)\<rparr>;
             (_, state1, w2) = emit_runtime_revision_resolved state revision (db_update_execution execution1 w1);
             (superseded, w3) = invalidate_superseded_revisions (rv_id revision) (''superseded_by:'' @ rv_id revision) w2;
             (state2, w4) = emit_invalidated state1 superseded w3
         in case handle_outdated_executions (dp_plane d) execution1 (rv_id revision) w4 of
              (Some e, execution2, w5) \<Rightarrow> (Some e, execution2, state2, w5)
            | (None, execution2, w5) \<Rightarrow> prepare_worker d dm revision execution2 state2 w5)"

definition fail_preparation :: "string \<Rightarrow> Execution \<Rightarrow> NativeExecutionState \<Rightarrow> world \<Rightarrow> world" where
  "fail_preparation message execution state w =
    (let execution1 = execution\<lparr>e_status := FAILED, e_error := Some message, e_completed_at := Some (clock w)\<rparr>;
         failed_container = \<lparr>c_container_id = or_unknown (e_container_id execution1) ''unknown'',
           c_name = or_unknown (e_container_name execution1) ''unknown'',
           c_image = or_unknown (e_container_image execution1) ''unknown'',
           c_status = or_unknown (e_container_status execution1) ''failed'', c_labels = [],
           c_started_at = e_container_started_at execution1, c_finished_at = e_container_ended_at execution1,
           c_exit_code = e_container_exit_code execution1\<rparr>;
         (_, state1, w1) = emit_container_failed state failed_container (e_runtime_revision_id execution1)
           (Some message) [(''error'', VStr message)] (db_update_execution execution1 w)
     in snd (snd (emit_payload state1 EXECUTION_FAILED [(''error'', VStr message)] w1)))"

definition prepare_isolated_runtime :: "deployment \<Rightarrow> Execution \<Rightarrow> Execution option act" where
  "prepare_isolated_runtime d execution w =
    (case (dp_service d, p_manager (dp_plane d)) of
       (Some sv, Some dm) \<Rightarrow>
         if e_runtime_adapter_id execution \<noteq> ''native'' then
           (Inl (ContainerRuntimeError ''Only the native runtime adapter is supported for isolated execution hosting''), w)
         else
           let (state, w1) = event_state_for (e_id execution) (e_workflow_id execution) w
           in (case prepare_body d sv dm execution state w1 of
                 (None, execution1, _, w2) \<Rightarrow> (Inr (Some execution1), w2)
               | (Some (ContainerRuntimeError m), execution1, state1, w2) \<Rightarrow>
                   (Inr None, fail_preparation m execution1 state1 w2)
               | (Some e, _, _, w2) \<Rightarrow> (Inl e, w2))
     | _ \<Rightarrow> (Inl (RuntimeError ''Execution isolation requires runtime revision and container manager services''), w))"

definition prepare_shadow_runtime :: "deployment \<Rightarrow> Execution \<Rightarrow> Execution act" where
  "prepare_shadow_runtime d execution w =
    (case dp_service d of
       None \<Rightarrow> (Inl (RuntimeError ''Runtime revision shadow mode requires a runtime revision service''), w)
     | Some sv \<Rightarrow>
         let (state, w1) = event_state_for (e_id execution) (e_workflow_id execution) w
         in andthen (resolve_current_revision sv (revision_metadata execution [(''shadow_mode'', VBool True)]) True w1)
              (\<lambda>revision w2.
                let execution1 = execution\<lparr>e_runtime_revision_id := Some (rv_id revision),
                      e_runtime_fingerprint := Some (rv_fingerprint revision)\<rparr>;
                    (_, _, w3) = emit_runtime_revision_resolved state revision (db_update_execution execution1 w2)
                in (Inr execution1, w3)))"

section \<open>The run of an execution\<close>

text \<open>
  \<open>start\<close> is \<open>RuntimeAdapterRegistry.start_execution\<close>, the run in the process, together with the
  heartbeats sent while it lasts. The \<open>finally\<close> block releases the lock and drops the task whatever
  happened.
\<close>

definition start_local :: "deployment \<Rightarrow> (string \<Rightarrow> unit act) \<Rightarrow> string \<Rightarrow> Execution \<Rightarrow> unit act" where
  "start_local d start execution_id execution w =
    andthen (if p_runtime_revision_shadow_mode (dp_plane d) then prepare_shadow_runtime d execution w
             else (Inr execution, w)) (\<lambda>execution1 w1.
      let execution2 = execution1\<lparr>e_status := RUNNING, e_worker_id := Some (p_worker_id (dp_plane d)),
            e_last_heartbeat_at := Some (clock w1)\<rparr>
      in start execution_id (db_update_execution execution2 w1))"

definition run_locked :: "deployment \<Rightarrow> (string \<Rightarrow> unit act) \<Rightarrow> string \<Rightarrow> unit act" where
  "run_locked d start execution_id w =
    (case get_execution execution_id (db w) of
       None \<Rightarrow> (Inr (), w)
     | Some execution \<Rightarrow>
         if execution_host_for (dp_plane d) execution = EXECUTION_HOST_DOCKER
         then andthen (prepare_isolated_runtime d execution w) (\<lambda>_ w1. (Inr (), w1))
         else start_local d start execution_id execution w)"

definition run_execution :: "deployment \<Rightarrow> (string \<Rightarrow> unit act) \<Rightarrow> string \<Rightarrow> unit act" where
  "run_execution d start execution_id w =
    (let p = dp_plane d;
         (acquired, s) = acquire_lock (clock w) execution_id (p_worker_id p) (p_stale_after_seconds p) (db w);
         w1 = w\<lparr>db := s\<rparr>
     in if \<not> acquired then (Inr (), w1\<lparr>tasks := removeAll execution_id (tasks w1)\<rparr>)
        else
          let (result, w2) = run_locked d start execution_id w1
          in (result, w2\<lparr>db := snd (release_lock execution_id (p_worker_id p) (db w2)),
                         tasks := removeAll execution_id (tasks w2)\<rparr>))"

text \<open>\<open>_watch_container_until_exit\<close>, once the wait for the container has ended with \<open>result\<close>.\<close>

definition watch_container_until_exit ::
  "plane \<Rightarrow> reconciler \<Rightarrow> string \<Rightarrow> string \<Rightarrow> exc + RuntimeContainerState \<Rightarrow> world \<Rightarrow> world" where
  "watch_container_until_exit p r execution_id container_id result w =
    (let failed = (\<lambda>e w0. if p_has_operations p
           then w0\<lparr>operations := record_action ''container_watch_failed'' [(''execution_id'', VStr execution_id),
                  (''container_id'', VStr container_id), (''detail'', VStr (exc_str e))]
                  (increment ''container_watch.failed'' 1 (operations w0))\<rparr>
           else w0)
     in case result of
          Inl e \<Rightarrow> failed e w
        | Inr state \<Rightarrow>
            let w1 = (if p_has_operations p
                  then w\<lparr>operations := record_action ''container_watch_exit'' [(''execution_id'', VStr execution_id),
                         (''container_id'', VStr container_id), (''status'', VStr (c_status state)),
                         (''exit_code'', opt_int (c_exit_code state))]
                         (increment ''container_watch.completed'' 1 (operations w))\<rparr>
                  else w)
            in (case reconcile_execution r execution_id (Some state) w1 of
                  (Inl e, w2) \<Rightarrow> failed e w2
                | (Inr _, w2) \<Rightarrow> w2))"

section \<open>Creating executions\<close>

definition normalized_runtime_adapter_id :: "string option \<Rightarrow> string option" where
  "normalized_runtime_adapter_id v =
    (case v of None \<Rightarrow> None | Some s \<Rightarrow> if strip s = [] then None else Some (strip s))"

definition resolve_adapter_for_workflow :: "deployment \<Rightarrow> WorkflowDefinition \<Rightarrow> string option \<Rightarrow> exc + string" where
  "resolve_adapter_for_workflow d workflow requested =
    (let adapter_name = (case normalized_runtime_adapter_id requested of Some s \<Rightarrow> s | None \<Rightarrow> ''native'') in
     if adapter_name = ''native'' then Inr adapter_name
     else if adapter_name = ''crewai'' then
       if dp_crewai_available d \<and> wd_task_definitions workflow \<noteq> [] \<and> wd_agent_definitions workflow \<noteq> []
       then Inr adapter_name
       else Inl (WorkflowNotFoundError (''Workflow '' @ quote (wd_id workflow) @ '' is not supported by adapter '' @
              quote adapter_name))
     else Inl (KeyError (''Runtime adapter '' @ quote adapter_name @ '' is not registered'')))"

text \<open>Values the execution model takes as strings: pydantic refuses any other type.\<close>

definition str_field :: "pyval \<Rightarrow> exc + string" where
  "str_field v = (case as_str v of Some s \<Rightarrow> Inr s | None \<Rightarrow> Inl (ValidationError ''Input should be a valid string''))"

definition opt_str_field :: "pyval \<Rightarrow> exc + string option" where
  "opt_str_field v = (if v = VNone then Inr None else sbind (str_field v) (\<lambda>s. Inr (Some s)))"

definition new_execution ::
  "string \<Rightarrow> datetime \<Rightarrow> string \<Rightarrow> string \<Rightarrow> string option \<Rightarrow> string \<Rightarrow> json \<Rightarrow> json \<Rightarrow> string option \<Rightarrow> json \<Rightarrow> Execution" where
  "new_execution i now workflow_id adapter goal_id trigger_type trigger input_payload created_by metadata =
    \<lparr>e_id = i, e_workflow_id = workflow_id, e_goal_id = goal_id, e_workflow_version_id = None,
     e_runtime_adapter_id = adapter, e_runtime_revision_id = None, e_runtime_fingerprint = None,
     e_status = CREATED, e_trigger_type = trigger_type, e_trigger_payload = trigger,
     e_input_payload = input_payload, e_output_payload = None, e_error = None, e_created_at = now,
     e_started_at = None, e_completed_at = None, e_updated_at = now, e_created_by = created_by,
     e_worker_id = None, e_last_heartbeat_at = None, e_container_id = None, e_container_name = None,
     e_container_image = None, e_container_status = None, e_container_started_at = None,
     e_container_ended_at = None, e_container_exit_code = None, e_replacement_of_execution_id = None,
     e_restart_reason = None, e_metadata = metadata\<rparr>"

text \<open>The CrewAI adapter keeps its run states apart; the state of a new execution is fresh.\<close>

definition crewai_prepare_execution :: "Execution \<Rightarrow> world \<Rightarrow> Execution \<times> world" where
  "crewai_prepare_execution execution w =
    (let (state, w1) = new_state (e_id execution) (e_workflow_id execution) w;
         (_, s) = save_execution (clock w1) execution (db w1)
     in (execution, snd (snd (emit_payload state EXECUTION_CREATED
           [(''workflow_id'', VStr (e_workflow_id execution)),
            (''trigger'', case map_of (e_metadata execution) ''trigger'' of None \<Rightarrow> VDict [] | Some t \<Rightarrow> t)]
           (w1\<lparr>db := s\<rparr>)))))"

definition execution_metadata ::
  "WorkflowDefinition \<Rightarrow> json \<Rightarrow> string option \<Rightarrow> string option \<Rightarrow> json \<Rightarrow> json" where
  "execution_metadata workflow trigger goal_id requested lifecycle =
    [(''trigger'', VDict trigger), (''goal_id'', opt_str goal_id), (''requested_adapter'', opt_str requested),
     (''execution_host'', opt_str (resolve_execution_host trigger (wd_metadata workflow))),
     (''agent_ids'', VList (map (\<lambda>a. VStr (ad_id a)) (wd_agent_definitions workflow))),
     (''execution_lifecycle'', VDict lifecycle)]"

definition create_execution ::
  "deployment \<Rightarrow> string \<Rightarrow> json \<Rightarrow> json \<Rightarrow> string option \<Rightarrow> string option \<Rightarrow> Execution act" where
  "create_execution d workflow_id input_payload trigger runtime_adapter_id goal_id w =
    (case p_get_workflow (dp_plane d) workflow_id of
       None \<Rightarrow> (Inl (WorkflowNotFoundError (''Workflow '' @ quote workflow_id @ '' was not found'')), w)
     | Some workflow \<Rightarrow>
         let requested = normalized_runtime_adapter_id runtime_adapter_id;
             (i, w1) = uuid4 w
         in case sbind (resolve_adapter_for_workflow d workflow requested) (\<lambda>adapter.
                 sbind (build_execution_lifecycle_metadata (p_fromiso (dp_plane d)) trigger (wd_metadata workflow)) (\<lambda>lifecycle.
                 sbind (str_field (case map_of trigger ''type'' of None \<Rightarrow> VStr ''manual'' | Some v \<Rightarrow> v)) (\<lambda>trigger_type.
                 sbind (opt_str_field (py_or (jget trigger ''created_by'') (jget trigger ''run_by''))) (\<lambda>created_by.
                   let execution = new_execution i (clock w) workflow_id adapter goal_id trigger_type trigger
                         input_payload created_by (execution_metadata workflow trigger goal_id requested lifecycle)
                   in sbind (resolve_execution_runtime_policy (h_getenv (dp_host d)) (dp_runtime d) (Some workflow)
                               (Some execution) None None True) (\<lambda>policy.
                      Inr (execution\<lparr>e_metadata := dset ''runtime_policy'' (VDict (policy_dump policy))
                             (e_metadata execution)\<rparr>)))))) of
              Inl e \<Rightarrow> (Inl e, w)
            | Inr execution \<Rightarrow>
                let (prepared_execution, w2) = (if e_runtime_adapter_id execution = ''native''
                      then prepare_execution execution w1 else crewai_prepare_execution execution w1)
                in (Inr prepared_execution, w2))"

section \<open>A new revision of a workflow\<close>

definition revision_trigger :: "string \<Rightarrow> string \<Rightarrow> int option \<Rightarrow> int \<Rightarrow> json" where
  "revision_trigger source execution_id previous_revision replacement_revision =
    [(''type'', VStr ''workflow_revision_superseded''), (''source'', VStr source),
     (''created_by'', VStr ''workflow-update''), (''replaces_execution_id'', VStr execution_id),
     (''previous_workflow_revision'', opt_int previous_revision),
     (''replacement_workflow_revision'', VInt replacement_revision)]"

definition replace_for_workflow_revision ::
  "deployment \<Rightarrow> string \<Rightarrow> int option \<Rightarrow> int \<Rightarrow> Execution \<Rightarrow> string act" where
  "replace_for_workflow_revision d source previous_revision replacement_revision execution w =
    andthen (create_execution d (e_workflow_id execution) (e_input_payload execution)
        (revision_trigger source (e_id execution) previous_revision replacement_revision)
        (Some (e_runtime_adapter_id execution)) (e_goal_id execution) w) (\<lambda>created w1.
      let why = ''workflow_revision_superseded'';
          preservation = partial_result_preservation_snapshot execution why w1;
          replacement = created\<lparr>e_replacement_of_execution_id := Some (e_id execution),
            e_restart_reason := Some why, e_metadata := (case preservation of
              None \<Rightarrow> e_metadata created
            | Some s \<Rightarrow> dset ''source_partial_result_preservation'' (VDict s) (e_metadata created))\<rparr>;
          w2 = db_update_execution replacement w1;
          revision_id = (case or_str (e_runtime_revision_id execution) (or_str (e_runtime_revision_id replacement) None) of
            Some r \<Rightarrow> r | None \<Rightarrow> [])
      in andthen (queue_start (e_id replacement) w2) (\<lambda>_ w3.
         andthen (replace_outdated_execution (dp_plane d) (e_id replacement) revision_id why preservation
             [(''replacement_workflow_revision'', VInt replacement_revision),
              (''previous_workflow_revision'', opt_int previous_revision)] execution w3) (\<lambda>_ w4.
         (Inr (e_id replacement), w4))))"

fun replace_all :: "(Execution \<Rightarrow> string act) \<Rightarrow> Execution list \<Rightarrow> string list act" where
  "replace_all f [] w = (Inr [], w)"
| "replace_all f (x # xs) w =
    andthen (f x w) (\<lambda>i w1. andthen (replace_all f xs w1) (\<lambda>is w2. (Inr (i # is), w2)))"

definition replace_active_executions_for_workflow_revision ::
  "deployment \<Rightarrow> string \<Rightarrow> int option \<Rightarrow> int \<Rightarrow> string \<Rightarrow> string list act" where
  "replace_active_executions_for_workflow_revision d workflow_id previous_revision replacement_revision source w =
    replace_all (replace_for_workflow_revision d source previous_revision replacement_revision)
      (filter (\<lambda>execution. e_workflow_id execution = workflow_id \<and>
          e_status execution \<in> ACTIVE_REPLACEMENT_STATUSES \<and>
          e_restart_reason execution \<noteq> Some ''workflow_revision_superseded'')
        (list_active_executions (db w))) w"

section \<open>Local runs stranded by a restart\<close>

text \<open>\<open>_recover_stale_local_executions\<close> of \<open>app/api/main.py\<close>; a failed start is logged and skipped.\<close>

fun recover_each :: "plane \<Rightarrow> Execution list \<Rightarrow> unit act" where
  "recover_each p [] w = (Inr (), w)"
| "recover_each p (execution # rest) w =
    (if nonempty (e_container_id execution) \<or> jget (e_metadata execution) ''execution_host'' = VStr ''docker'' \<or>
        e_id execution \<in> set (tasks w)
     then recover_each p rest w
     else andthen (repair_stale_executions p None (Some (e_id execution)) w) (\<lambda>repaired w1.
       if \<exists>item \<in> set repaired. jget item ''repair_action'' = VStr ''requeued''
       then recover_each p rest (snd (queue_start (e_id execution) w1))
       else recover_each p rest w1))"

definition recover_stale_local_executions :: "plane \<Rightarrow> bool \<Rightarrow> unit act" where
  "recover_stale_local_executions p execution_isolation_enabled w =
    (if execution_isolation_enabled then (Inr (), w)
     else recover_each p (list_active_executions (db w)) w)"

end
