(* ===== verification/Isolation_Properties.thy ===== *)
theory Isolation_Properties
  imports Isolation
begin

text \<open>What the isolation of executions guarantees, and where it does not hold up.\<close>

section \<open>The worker's environment\<close>

lemma map_of_dmerge: "map_of (dmerge a b) k = (case map_of (rev b) k of Some v \<Rightarrow> Some v | None \<Rightarrow> map_of a k)"
  by (induction b arbitrary: a) (auto simp: dmerge_def map_add_def split: option.split)

lemma env_names:
  "k \<in> set ONECLI_PROXY_ENV_NAMES \<union> set DIRECT_EXTERNAL_CREDENTIAL_ENV_NAMES \<Longrightarrow> k \<notin> set ONECLI_CA_ENV_NAMES \<and>
   k \<noteq> ''NODE_OPTIONS'' \<and> k \<noteq> ''ONECLI_NODE_PROXY_BOOTSTRAP_PATH'' \<and> k \<noteq> ''DATABASE_URL'' \<and>
   k \<noteq> ''BROWSER_RUNTIME_URL'' \<and> k \<noteq> ''BROWSER_RUNTIME_EXECUTION_SECRET'' \<and>
   k \<noteq> ''AGENCY_EXECUTION_TIMEOUT_SECONDS'' \<and> k \<noteq> ''AGENCY_GOAL_ID''"
  by (auto simp: ONECLI_PROXY_ENV_NAMES_def DIRECT_EXTERNAL_CREDENTIAL_ENV_NAMES_def ONECLI_CA_ENV_NAMES_def)

lemma distinct_dmerge: "distinct (map fst a) \<Longrightarrow> distinct (map fst (dmerge a b))"
  by (induction b arbitrary: a) (auto simp: dmerge_def)

lemma map_of_rev: "distinct (map fst d) \<Longrightarrow> map_of (rev d) = map_of d"
proof (rule ext)
  fix x
  assume d: "distinct (map fst d)"
  then have r: "distinct (map fst (rev d))" by (simp add: rev_map [symmetric])
  show "map_of (rev d) x = map_of d x"
  proof (cases "map_of d x")
    case None
    then have "x \<notin> fst ` set (rev d)" by (simp add: map_of_eq_None_iff)
    then show ?thesis using None by (metis map_of_eq_None_iff)
  next
    case (Some v)
    then have "(x, v) \<in> set (rev d)" using map_of_SomeD by fastforce
    then show ?thesis using map_of_is_SomeI [OF r] Some by simp
  qed
qed

lemma onecli_env_distinct: "distinct (map fst (onecli_worker_environment h s))"
proof -
  have "distinct (map fst (gateway_env s))" by (simp add: gateway_env_def Let_def)
  then show ?thesis by (simp add: onecli_worker_environment_def Let_def distinct_dmerge)
qed

lemma ca_names_other:
  "k \<notin> set ONECLI_CA_ENV_NAMES \<Longrightarrow> map_of (rev (map (\<lambda>name. (name, v)) ONECLI_CA_ENV_NAMES)) k = None"
  by (auto simp: map_of_eq_None_iff)

lemma onecli_env_at:
  assumes "k \<in> set ONECLI_PROXY_ENV_NAMES \<union> set DIRECT_EXTERNAL_CREDENTIAL_ENV_NAMES"
  shows "map_of (onecli_worker_environment h s) k =
    (if onecli_enforced s \<and> k \<in> set ONECLI_PROXY_ENV_NAMES then Some (ws_gateway_url s) else None)"
proof -
  note k = env_names [OF assms]
  have base: "map_of (gateway_env s) k = (if k \<in> set ONECLI_PROXY_ENV_NAMES then Some (ws_gateway_url s) else None)"
    using assms by (auto simp: gateway_env_def ONECLI_PROXY_ENV_NAMES_def DIRECT_EXTERNAL_CREDENTIAL_ENV_NAMES_def Let_def)
  have "k \<noteq> ''NODE_OPTIONS''" "k \<noteq> ''ONECLI_NODE_PROXY_BOOTSTRAP_PATH''" and ca: "k \<notin> set ONECLI_CA_ENV_NAMES"
    using k by blast+
  then show ?thesis
    by (simp add: onecli_worker_environment_def Let_def map_of_dmerge ca_names_other base del: map_of_eq_None_iff)
qed

lemma with_opt_other: "k' \<noteq> k \<Longrightarrow> map_of (with_opt k v env) k' = map_of env k'"
  by (simp add: with_opt_def split: option.split)

lemma browser_env_other:
  "with_browser_runtime d e env = Inr env' \<Longrightarrow> k \<noteq> ''BROWSER_RUNTIME_URL'' \<Longrightarrow> k \<noteq> ''BROWSER_RUNTIME_EXECUTION_SECRET'' \<Longrightarrow>
   map_of env' k = map_of env k"
  by (auto simp: with_browser_runtime_def split: option.splits elim!: sbind_InrE)

lemma base_env_keys:
  "fst ` set (worker_base_env d e r policy) \<inter> (set ONECLI_PROXY_ENV_NAMES \<union> set DIRECT_EXTERNAL_CREDENTIAL_ENV_NAMES) = {}"
proof -
  let ?names = "[''AGENCY_EXECUTION_ID'', ''AGENCY_WORKFLOW_ID'', ''AGENCY_RUNTIME_REVISION_ID'',
      ''AGENCY_RUNTIME_ADAPTER_ID'', ''AGENCY_WORKER_ID'', ''AGENCY_HEARTBEAT_INTERVAL_SECONDS'', ''APP_ENV'',
      ''CODEX_HOME'', ''CODEX_CLI_CWD'', ''CODEX_CLI_SANDBOX'', ''CODEX_CLI_TIMEOUT_SECONDS'', ''LLM_REQUEST_TIMEOUT_SECONDS'']"
  have "map fst (worker_base_env d e r policy) = ?names" by (simp add: worker_base_env_def Let_def)
  then have "fst ` set (worker_base_env d e r policy) = set ?names" by (metis list.set_map)
  moreover have "set ?names \<inter> (set ONECLI_PROXY_ENV_NAMES \<union> set DIRECT_EXTERNAL_CREDENTIAL_ENV_NAMES) = {}"
    by (simp add: ONECLI_PROXY_ENV_NAMES_def DIRECT_EXTERNAL_CREDENTIAL_ENV_NAMES_def)
  ultimately show ?thesis by simp
qed

lemma container_env_at:
  assumes "container_env d e r policy = Inr env"
    and "k \<in> set ONECLI_PROXY_ENV_NAMES \<union> set DIRECT_EXTERNAL_CREDENTIAL_ENV_NAMES"
  shows "map_of env k =
    (if onecli_enforced (dp_settings d) \<and> k \<in> set ONECLI_PROXY_ENV_NAMES then Some (ws_gateway_url (dp_settings d)) else None)"
proof -
  note k = env_names [OF assms(2)]
  have base: "map_of (worker_base_env d e r policy) k = None"
  proof -
    have "k \<notin> fst ` set (worker_base_env d e r policy)" using base_env_keys [of d e r policy] assms(2) by blast
    then show ?thesis by (simp add: map_of_eq_None_iff)
  qed
  note oe = onecli_env_at [OF assms(2), of "dp_host d" "dp_settings d"]
  from assms(1) obtain env1 where env1: "with_browser_runtime d e
        (with_opt ''DATABASE_URL'' (or_str (ws_container_database_url (dp_settings d)) None)
          (dmerge (worker_base_env d e r policy) (onecli_worker_environment (dp_host d) (dp_settings d)))) = Inr env1"
    and env: "env = with_opt ''AGENCY_GOAL_ID'' (or_str (e_goal_id e) None)
      (with_opt ''AGENCY_EXECUTION_TIMEOUT_SECONDS'' (map_option int_str (rp_worker_hard_timeout_seconds policy)) env1)"
    unfolding container_env_def by (elim sbind_InrE) simp
  have "map_of env k = map_of env1 k" using k by (simp add: env with_opt_other)
  also have "\<dots> = map_of (dmerge (worker_base_env d e r policy) (onecli_worker_environment (dp_host d) (dp_settings d))) k"
    using browser_env_other [OF env1, of k] k by (simp add: with_opt_other)
  also have "\<dots> = map_of (onecli_worker_environment (dp_host d) (dp_settings d)) k"
    using base map_of_rev [OF onecli_env_distinct, of "dp_host d" "dp_settings d"]
    by (simp add: map_of_dmerge split: option.split)
  finally show ?thesis using oe by simp
qed


definition sample_worker_settings :: worker_settings where
  "sample_worker_settings = \<lparr>ms_onecli_enabled = True, ms_onecli_force_for_isolated_workers = True,
     ms_onecli_gateway_ca_bundle_path = None, ms_onecli_gateway_ca_bundle_container_path = ''/etc/ca.pem'',
     ms_extra_mounts = [], ws_app_env = ''production'', ws_gateway_url = ''http://onecli:10255'',
     ws_agent_token_secret_ref = None, ws_worker_no_proxy = ''localhost'',
     ws_worker_egress_mode = ''docker_internal_network'', ws_worker_egress_network = ''egress'',
     ws_node_proxy_bootstrap_path = [], ws_container_database_url = None,
     ws_execution_container_workdir = ''/app''\<rparr>"

definition sample_deployment :: deployment where
  "sample_deployment = \<lparr>dp_plane = sample_plane\<lparr>p_execution_isolation_enabled := True\<rparr>,
     dp_service = Some sample_service, dp_settings = sample_worker_settings, dp_runtime = sample_settings,
     dp_host = sample_host, dp_crewai_available = False, dp_float_repr = (\<lambda>_. ''1.0''), dp_float_g = (\<lambda>_. ''60''),
     dp_hmac = (\<lambda>_ s. s)\<rparr>"

definition sample_revision :: RuntimeRevision where
  "sample_revision = \<lparr>rv_id = ''r-1'', rv_fingerprint = ''f'', rv_source_path = ''integrations/'',
     rv_build_status = REV_READY, rv_image_name = None, rv_image_tag = None, rv_base_image = None,
     rv_build_log_ref = None, rv_created_at = 0, rv_updated_at = 0, rv_ready_at = None,
     rv_invalidated_at = None, rv_invalidation_reason = None, rv_metadata = []\<rparr>"

definition sample_policy :: ResolvedExecutionRuntimePolicy where
  "sample_policy = \<lparr>rp_worker_hard_timeout_seconds = Some 600, rp_idle_timeout_seconds = 60,
     rp_run_timeout_seconds = 600, rp_codex_cli_timeout_seconds = 300, rp_llm_request_timeout_seconds = Fin 60,
     rp_heartbeat_interval_seconds = Fin 1, rp_source_map = []\<rparr>"


section \<open>The boundary of a run\<close>

lemma release_lock_frees:
  "get_execution i (snd (release_lock i wk s)) = Some e \<Longrightarrow> e_worker_id e \<noteq> Some wk"
  by (auto simp: release_lock_def get_execution_def split: option.splits if_splits)

lemma refused_lock:
  "acquire_lock now i wk n s = (False, s') \<Longrightarrow> s' = s \<and> (\<forall>e. get_execution i s = Some e \<longrightarrow> e_worker_id e \<noteq> Some wk)"
  by (auto simp: acquire_lock_def get_execution_def split: option.splits if_splits)

lemma run_locked_isolated:
  "p_execution_isolation_enabled (dp_plane d) \<Longrightarrow> run_locked d start = run_locked d start'"
  by (rule ext)+ (simp add: run_locked_def execution_host_for_def split: option.split)

text \<open>
  C17: Isolation is a boundary and the lock is always given back. With isolation enabled the run of
  an execution never uses the in-process start, so nothing of the workflow runs in the control
  plane's process, whatever host the trigger or the workflow ask for. And however a run ends, by
  returning, by failing or by an exception, this worker holds no lock on the execution and its task
  is gone.
\<close>

theorem run_keeps_boundary_and_lock:
  "(p_execution_isolation_enabled (dp_plane d) \<longrightarrow> run_execution d start i w = run_execution d start' i w) \<and>
   i \<notin> set (tasks (snd (run_execution d start i w))) \<and>
   (\<forall>e. get_execution i (db (snd (run_execution d start i w))) = Some e \<longrightarrow>
      e_worker_id e \<noteq> Some (p_worker_id (dp_plane d)))"
proof -
  obtain acquired s where lock: "acquire_lock (clock w) i (p_worker_id (dp_plane d)) (p_stale_after_seconds (dp_plane d)) (db w) = (acquired, s)"
    by (cases "acquire_lock (clock w) i (p_worker_id (dp_plane d)) (p_stale_after_seconds (dp_plane d)) (db w)")
  have "run_execution d start i w = run_execution d start' i w" if "p_execution_isolation_enabled (dp_plane d)"
    unfolding run_execution_def run_locked_isolated [OF that, of start start'] ..
  moreover have "i \<notin> set (tasks (snd (run_execution d start i w)))"
    by (simp add: run_execution_def Let_def lock case_prod_unfold)
  moreover have "e_worker_id e \<noteq> Some (p_worker_id (dp_plane d))"
    if "get_execution i (db (snd (run_execution d start i w))) = Some e" for e
    using that refused_lock [of "clock w" i "p_worker_id (dp_plane d)" "p_stale_after_seconds (dp_plane d)" "db w" s]
      release_lock_frees lock
    by (cases acquired) (auto simp: run_execution_def Let_def case_prod_unfold)
  ultimately show ?thesis by blast
qed

theorem run_keeps_boundary_and_lock_witness:
  "run_execution sample_deployment (\<lambda>_ w. (Inr (), w)) ''ex-1'' sample_world =
   run_execution sample_deployment (\<lambda>_ w. (Inl (RuntimeError ''unused''), w)) ''ex-1'' sample_world"
  using run_keeps_boundary_and_lock [of sample_deployment "\<lambda>_ w. (Inr (), w)" "''ex-1''" sample_world
      "\<lambda>_ w. (Inl (RuntimeError ''unused''), w)"]
  by (simp add: sample_deployment_def)

section \<open>Runs of one workflow\<close>

lemma active_listed:
  "c \<in> set (list_active_executions s) \<Longrightarrow> e_status c \<in> ACTIVE_REPLACEMENT_STATUSES"
  by (cases "e_status c") (auto simp: list_active_executions_def active_status_values_def ACTIVE_REPLACEMENT_STATUSES_def)

text \<open>
  Two isolated runs of one workflow always supersede each other. The metadata the fingerprint
  is taken over contains the execution's own id, so with a hash that tells those apart every execution gets a revision of its own, and an active execution of the same workflow counts
  as outdated as soon as another one is started, although nothing of the runtime has changed.
\<close>

theorem concurrent_isolated_runs_are_outdated:
  assumes "revisions_ok w" and "map_of (revisions w) (uuid_supply w (uuid_count w)) = None"
    and "\<And>m m' f. sv_fingerprint sv m = Inr f \<Longrightarrow> sv_fingerprint sv m' = Inr f \<Longrightarrow>
      jget m ''execution_id'' = jget m' ''execution_id''"
    and "e_runtime_revision_id a = Some ra" and "ra \<noteq> []" and "map_of (revisions w) ra = Some ar"
    and "sv_fingerprint sv (revision_metadata a x) = Inr (rv_fingerprint ar)"
    and "e_id a \<noteq> e_id b" and "e_workflow_id a = e_workflow_id b" and "a \<in> set (list_active_executions (db w))"
    and "resolve_current_revision sv (revision_metadata b y) True w = (Inr r, w1)"
  shows "rv_id r \<noteq> ra \<and> a \<in> set (outdated_executions b (rv_id r) w1)"
proof -
  have ne: "jget (revision_metadata a x) ''execution_id'' \<noteq> jget (revision_metadata b y) ''execution_id''"
    using assms(8) by (simp add: revision_metadata_def)
  note eff = resolve_revision_effect [OF assms(1,11)]
  have fp: "rv_fingerprint r \<noteq> rv_fingerprint ar" using assms(3) [OF assms(7)] eff(5) ne by metis
  obtain f where f: "f = rv_fingerprint r" and m: "sv_fingerprint sv (revision_metadata b y) = Inr f" using eff(5) by simp
  have "rv_id r \<noteq> ra"
  proof (cases "get_by_fingerprint f w")
    case None
    with m have "rv_id r = uuid_supply w (uuid_count w)"
      using assms(11) by (auto simp: resolve_current_revision_def Let_def uuid4_def)
    then show ?thesis using assms(2,6) by auto
  next
    case (Some e)
    note row = found_fingerprint [OF assms(1) Some]
    have "rv_id r = rv_id e"
      using assms(11) Some m by (auto simp: resolve_current_revision_def update_revision_def Let_def split: if_splits option.splits)
    then show ?thesis using row fp f assms(6) by auto
  qed
  moreover have "a \<in> set (outdated_executions b (rv_id r) w1)"
    using calculation assms(4,5,8-10) eff(4) active_listed [OF assms(10)]
    by (cases ra) (auto simp: outdated_executions_def nonempty_def or_str_def)
  ultimately show ?thesis by blast
qed

definition separating_service :: revision_service where
  "separating_service = sample_service\<lparr>sv_fingerprint := (\<lambda>m. case as_str (jget m ''execution_id'') of
     Some s \<Rightarrow> Inr s | None \<Rightarrow> Inl (ValueError ''no execution''))\<rparr>"

definition first_run :: Execution where
  "first_run = sample_execution\<lparr>e_status := RUNNING, e_runtime_revision_id := Some ''r-1''\<rparr>"

definition two_runs_world :: world where
  "two_runs_world = sample_world\<lparr>db := empty_store\<lparr>executions := [(''ex-1'', first_run)]\<rparr>,
     revisions := [(''r-1'', sample_revision\<lparr>rv_fingerprint := ''ex-1''\<rparr>)]\<rparr>"

theorem concurrent_isolated_runs_are_outdated_witness:
  "\<exists>r w1. resolve_current_revision separating_service (revision_metadata (sample_execution\<lparr>e_id := ''ex-2''\<rparr>) []) True
       two_runs_world = (Inr r, w1) \<and>
     first_run \<in> set (outdated_executions (sample_execution\<lparr>e_id := ''ex-2''\<rparr>) (rv_id r) w1)"
proof -
  let ?b = "sample_execution\<lparr>e_id := ''ex-2''\<rparr>"
  have str: "as_str v = Some s \<Longrightarrow> v = VStr s" for v s by (cases v) simp_all
  have sep: "jget m ''execution_id'' = jget m' ''execution_id''"
    if "sv_fingerprint separating_service m = Inr f" "sv_fingerprint separating_service m' = Inr f" for m m' f
    using that by (auto simp: separating_service_def dest!: str split: option.splits)
  obtain r w1 where call: "resolve_current_revision separating_service (revision_metadata ?b []) True two_runs_world = (Inr r, w1)"
    by (simp add: resolve_current_revision_def separating_service_def revision_metadata_def get_by_fingerprint_def
        two_runs_world_def dvalues_def sample_revision_def Let_def case_prod_unfold)
  have "rv_id r \<noteq> ''r-1'' \<and> first_run \<in> set (outdated_executions ?b (rv_id r) w1)"
    by (rule concurrent_isolated_runs_are_outdated [OF _ _ sep _ _ _ _ _ _ _ call, where x = "[]" and a = first_run
          and ar = "sample_revision\<lparr>rv_fingerprint := ''ex-1''\<rparr>"])
      (simp_all add: two_runs_world_def first_run_def revisions_ok_def sample_revision_def separating_service_def
        revision_metadata_def list_active_executions_def active_status_values_def list_executions_def dvalues_def)
  with call show ?thesis by blast
qed

section \<open>Replaced executions\<close>

lemma preserve_fields [simp]: "e_container_id (preserve p e) = e_container_id e" "e_restart_reason (preserve p e) = e_restart_reason e"
  by (simp_all add: preserve_def split: option.split)

text \<open>
  Replacing an execution that is suspended on a wait cancels it, records why and touches no
  other execution, but leaves its wait pending in the ledger: unlike the operator's cancel, the
  replacement closes no wait.
\<close>

theorem replacement_leaves_wait_pending:
  assumes "world_ok w" and "get_execution i (db w) = Some e" and "suspended_on i v (db w)"
    and "e_runtime_adapter_id e = ''native''" and "e_container_id e = None"
  shows "\<exists>w' e'. replace_outdated_execution p replacement revision why None [] e w = (Inr (), w') \<and>
    get_execution i (db w') = Some e' \<and> e_status e' = ExecutionStatus.CANCELLED \<and> e_restart_reason e' = Some why \<and>
    get_execution_wait (w_id v) (db w') = Some v \<and> w_status v = PENDING \<and>
    (\<forall>j. j \<noteq> i \<longrightarrow> get_execution j (db w') = get_execution j (db w))"
proof -
  have id: "e_id e = i" by (rule world_ok_id [OF assms(1,2)])
  have st: "e_status e \<notin> {RUNNING, COMPLETED, FAILED, ExecutionStatus.CANCELLED}"
    and v: "get_execution_wait (w_id v) (db w) = Some v" "w_status v = PENDING"
    using assms(2,3) by (cases "w_kind v"; simp add: suspended_on_def)+
  obtain st0 w1 where ev: "event_state_for i (e_workflow_id e) w = (st0, w1)" by (cases "event_state_for i (e_workflow_id e) w")
  have w1: "db w1 = db w" "states w1 = states w" "clock w1 = clock w" using ev event_state_for_simps by (metis snd_conv)+
  have ok1: "world_ok w1" using assms(1) w1 by (simp add: world_ok_def)
  have g1: "get_execution i (db w1) = Some e" using assms(2) w1 by simp
  obtain w2 c e2 where r: "registry_cancel i w1 = (Inr c, w2)" "only_touches i w1 w2" "world_ok w2" "e_id c = i"
    "e_status c = ExecutionStatus.CANCELLED" "e_container_id c = e_container_id e"
    by (rule registry_cancel_effect [OF ok1 g1 assms(4) st]) auto
  define pr where "pr = partial_result_preservation_snapshot e why w1"
  define w3 where "w3 = (if pr = None then w2 else db_update_execution (preserve pr c) w2)"
  define e3 where "e3 = (preserve pr c)\<lparr>e_restart_reason := Some why\<rparr>"
  have e3: "e_id e3 = i" "e_status e3 = ExecutionStatus.CANCELLED" "e_container_id e3 = None"
    using r(4-6) assms(5) by (simp_all add: e3_def)
  have pc: "preserve pr c = c" if "pr = None" using that by (simp add: preserve_def)
  have call: "replace_outdated_execution p replacement revision why None [] e w = (Inr (), db_update_execution e3 w3)"
    using r(1) e3(3) pc
    by (cases pr) (simp_all add: replace_outdated_execution_def id ev pr_def [symmetric] w3_def e3_def Let_def)
  have w3: "waits (db w3) = waits (db w)" "\<forall>j. j \<noteq> i \<longrightarrow> get_execution j (db w3) = get_execution j (db w)"
    using r(2,4) w1 by (simp_all add: w3_def only_touches_def)
  have p: "get_execution_wait (w_id v) (db (db_update_execution e3 w3)) = Some v"
    using v(1) w3(1) by (simp add: get_execution_wait_def)
  have o: "\<forall>j. j \<noteq> i \<longrightarrow> get_execution j (db (db_update_execution e3 w3)) = get_execution j (db w)"
    using w3(2) e3(1) by simp
  have m: "get_execution i (db (db_update_execution e3 w3)) = Some (e3\<lparr>e_updated_at := clock w3\<rparr>)" using e3(1) by simp
  have "e_restart_reason e3 = Some why" by (simp add: e3_def)
  then have f: "e_status (e3\<lparr>e_updated_at := clock w3\<rparr>) = ExecutionStatus.CANCELLED"
    "e_restart_reason (e3\<lparr>e_updated_at := clock w3\<rparr>) = Some why" using e3(2) by simp_all
  show ?thesis by (rule exI [of _ "db_update_execution e3 w3"], rule exI [of _ "e3\<lparr>e_updated_at := clock w3\<rparr>"])
      (use call m f p v(2) o in blast)
qed

theorem replacement_leaves_wait_pending_witness:
  "\<exists>w' e'. replace_outdated_execution sample_plane ''ex-2'' ''r-2'' ''runtime_revision_superseded'' None []
       (the (get_execution ''ex-1'' (db sample_suspended))) sample_suspended = (Inr (), w') \<and>
     get_execution ''ex-1'' (db w') = Some e' \<and> e_status e' = ExecutionStatus.CANCELLED \<and>
     get_execution_wait (w_id sample_created) (db w') = Some sample_created \<and> w_status sample_created = PENDING"
proof (rule sample_suspended_row)
  fix e assume e: "get_execution ''ex-1'' (db sample_suspended) = Some e" "e_runtime_adapter_id e = ''native''"
    "e_container_id e = None"
  from replacement_leaves_wait_pending [OF sample_worlds_ok(2) e(1) sample_new(1) e(2,3), of sample_plane "''ex-2''"
      "''r-2''" "''runtime_revision_superseded''"] e(1)
  show ?thesis by auto
qed

end
