(* ===== verification/Routing.thy ===== *)
theory Routing
  imports Repair
begin

text \<open>
  How the node loop of \<open>app/runtime/native/engine.py\<close> decides what a finished node means: the outcome of
  an output, the proof that required tools were called, the signals an edge condition is matched
  against, and which nodes can be reached. \<open>json.loads\<close> and the text of a finite float are the
  fields of \<open>codec\<close>: the first gives \<open>None\<close> where Python raises \<open>JSONDecodeError\<close>.
\<close>

record codec =
  jc_loads :: "string \<Rightarrow> pyval option"
  jc_float :: "rat \<Rightarrow> string"

section \<open>Outcomes\<close>

definition FAILURE_OUTCOME_STATUSES :: "string list" where
  "FAILURE_OUTCOME_STATUSES =
    [''blocked'', ''cancelled'', ''canceled'', ''error'', ''failed'', ''failure'', ''incomplete'', ''stopped'']"

definition SUCCESS_OUTCOME_STATUSES :: "string list" where
  "SUCCESS_OUTCOME_STATUSES = [''complete'', ''completed'', ''ok'', ''sent'', ''success'', ''succeeded'']"

definition output_mapping :: "codec \<Rightarrow> pyval \<Rightarrow> json" where
  "output_mapping jc output =
    (case output of
       VDict d \<Rightarrow> d
     | VStr s \<Rightarrow>
         (let stripped = strip s in
          if startswith stripped ''{'' then
            (case jc_loads jc stripped of Some (VDict d) \<Rightarrow> d | _ \<Rightarrow> [])
          else [])
     | _ \<Rightarrow> [])"

text \<open>\<open>str(payload.get(key) or default).strip()\<close>.\<close>

definition text_of :: "codec \<Rightarrow> json \<Rightarrow> string \<Rightarrow> string \<Rightarrow> string" where
  "text_of jc payload key default_text = strip (py_str (jc_float jc) (py_or (jget payload key) (VStr default_text)))"

definition node_outcome :: "codec \<Rightarrow> pyval \<Rightarrow> string" where
  "node_outcome jc output =
    (let payload = output_mapping jc output; status = lower (text_of jc payload ''status'' [])
     in if status \<in> set FAILURE_OUTCOME_STATUSES then ''failure''
        else if jget payload ''completed_normally'' = VBool False \<or> jget payload ''ok'' = VBool False \<or>
                jget payload ''success'' = VBool False then ''failure''
        else if status \<in> set SUCCESS_OUTCOME_STATUSES then ''success''
        else ''success'')"

fun first_message :: "json \<Rightarrow> string list \<Rightarrow> string option" where
  "first_message payload [] = None"
| "first_message payload (k # ks) =
    (case as_str (jget payload k) of
       Some s \<Rightarrow> if strip s \<noteq> [] then Some (strip s) else first_message payload ks
     | None \<Rightarrow> first_message payload ks)"

definition node_failure_message :: "codec \<Rightarrow> pyval \<Rightarrow> string" where
  "node_failure_message jc output =
    (let payload = output_mapping jc output in
     case first_message payload [''error'', ''reason'', ''outcome'', ''notice'', ''next_action''] of
       Some m \<Rightarrow> m
     | None \<Rightarrow> ''Task returned non-success status '' @ quote (text_of jc payload ''status'' ''failed'') @ ''.'')"

section \<open>Required tools\<close>

text \<open>One recorded tool result, as the tool's name and what it returned.\<close>

definition tool_result :: "codec \<Rightarrow> pyval \<Rightarrow> exc + string \<times> pyval" where
  "tool_result jc item =
    (case as_dict item of
       None \<Rightarrow> Inl (AttributeError ''object has no attribute get'')
     | Some d \<Rightarrow> Inr (py_str (jc_float jc) (py_or (jget d ''tool_id'') (VStr [])), jget d ''result''))"

fun sequence_results :: "(exc + 'a) list \<Rightarrow> exc + 'a list" where
  "sequence_results [] = Inr []"
| "sequence_results (r # rs) = sbind r (\<lambda>x. sbind (sequence_results rs) (\<lambda>xs. Inr (x # xs)))"

definition results_for :: "string \<Rightarrow> (string \<times> pyval) list \<Rightarrow> pyval list" where
  "results_for tool_id results = map snd (filter (\<lambda>r. fst r = tool_id) results)"

definition status_allowed :: "codec \<Rightarrow> pyval list \<Rightarrow> pyval \<Rightarrow> bool" where
  "status_allowed jc allowed result =
    (case as_dict result of
       None \<Rightarrow> False
     | Some d \<Rightarrow> lower (text_of jc d ''status'' []) \<in> set (map (\<lambda>v. lower (strip (py_str (jc_float jc) v))) allowed))"

definition tool_unproven :: "codec \<Rightarrow> json \<Rightarrow> (string \<times> pyval) list \<Rightarrow> pyval \<Rightarrow> bool" where
  "tool_unproven jc success_statuses results tool_id =
    (let name = py_str (jc_float jc) tool_id in
     case as_list (jget success_statuses name) of
       None \<Rightarrow> False
     | Some allowed \<Rightarrow> allowed \<noteq> [] \<and> \<not> list_ex (status_allowed jc allowed) (results_for name results))"

definition required_tool_result_error :: "codec \<Rightarrow> TaskDefinition \<Rightarrow> NativeExecutionState \<Rightarrow> exc + string option" where
  "required_tool_result_error jc task state =
    (case as_list (jget (td_metadata task) ''required_tool_ids'') of
       None \<Rightarrow> Inr None
     | Some [] \<Rightarrow> Inr None
     | Some (r # rs) \<Rightarrow>
         let required_tool_ids = r # rs in
         sbind (py_iter (case map_of (st_task_tool_results state) (td_id task) of None \<Rightarrow> VList [] | Some v \<Rightarrow> v)) (\<lambda>items.
         sbind (sequence_results (map (tool_result jc) items)) (\<lambda>results.
           let missing = filter (\<lambda>t. results_for (py_str (jc_float jc) t) results = []) required_tool_ids
           in if missing \<noteq> [] then
                Inr (Some (''Task requires successful tool calls that were not recorded: '' @
                  join '', '' (map (py_str (jc_float jc)) missing) @ ''.''))
              else case as_dict (jget (td_metadata task) ''required_tool_success_statuses'') of
                None \<Rightarrow> Inr None
              | Some success_statuses \<Rightarrow>
                  Inr (map_option (\<lambda>t. ''Required tool '' @ quote (py_str (jc_float jc) t) @
                      '' did not return an allowed success status.'')
                    (find (tool_unproven jc success_statuses results) required_tool_ids)))))"

section \<open>Edge conditions\<close>

definition condition_markers :: "(string \<times> string list) list" where
  "condition_markers =
    [(''approval_rejected'', [''approval rejected'', ''approval_rejected'']),
     (''blocked'', [''blocked'']),
     (''discord_delivery_failed'', [''discord delivery failed'', ''discord_delivery_failed'',
        [CHR 0x22] @ ''status'' @ [CHR 0x22] @ '': '' @ [CHR 0x22] @ ''not_sent'' @ [CHR 0x22]]),
     (''error'', [''error'']),
     (''memory_write_failed'', [''memory write failed'', ''memory_write_failed'']),
     (''run_incomplete'', [''incomplete'', ''completed_normally'' @ [CHR 0x22] @ '': false'']),
     (''stopped'', [''stopped'', ''cancelled'', ''canceled'']),
     (''voice_failed'', [''voice generation failed'', ''voice_failed'']),
     (''voice_missing'', [''voice_missing'', ''missing voice'', ''voice file does not exist''])]"

definition condition_signals :: "codec \<Rightarrow> pyval \<Rightarrow> string \<Rightarrow> string list" where
  "condition_signals jc output outcome =
    (let payload = output_mapping jc output;
         serialized = lower (json_dumps (jc_float jc) '', '' '': '' (if payload \<noteq> [] then VDict payload else output));
         status = lower (text_of jc payload ''status'' [])
     in [outcome] @ (if status \<noteq> [] then [status] else []) @
        (if jget payload ''completed_normally'' = VBool False then [''run_incomplete'', ''incomplete''] else []) @
        map fst (filter (\<lambda>m. list_ex (contains serialized) (snd m)) condition_markers) @
        (if outcome = ''failure'' then [''failed'', ''run_incomplete''] else []))"

text \<open>
  The outcome of a source is compared with two words only; after these tests it is one of them.
\<close>

definition edge_condition_matches :: "codec \<Rightarrow> WorkflowEdgeDefinition \<Rightarrow> pyval \<Rightarrow> pyval \<Rightarrow> bool" where
  "edge_condition_matches jc edge source_output source_outcome =
    (if ed_edge_type edge = FAILURE \<and> source_outcome \<noteq> VStr ''failure'' then False
     else if ed_edge_type edge \<in> {DEFAULT, SUCCESS, HANDOFF, EDGE_APPROVAL} \<and> source_outcome \<noteq> VStr ''success'' then False
     else
       let condition = lower (strip (case ed_condition edge of None \<Rightarrow> [] | Some c \<Rightarrow> c))
       in if condition = [] then True
          else
            let alternatives = filter (\<lambda>a. a \<noteq> []) (map (strip_chars '' _'') (split_on ''_or_'' condition));
                signals = condition_signals jc source_output (if ed_edge_type edge = FAILURE then ''failure'' else ''success'')
            in list_ex (\<lambda>a. a \<in> set signals) alternatives)"

definition incoming_edges :: "WorkflowDefinition \<Rightarrow> string \<Rightarrow> WorkflowEdgeDefinition list" where
  "incoming_edges workflow i = filter (\<lambda>e. ed_target_node_id e = i) (wd_edges workflow)"

definition node_is_reachable :: "codec \<Rightarrow> WorkflowDefinition \<Rightarrow> WorkflowNodeDefinition \<Rightarrow> NativeExecutionState \<Rightarrow> bool" where
  "node_is_reachable jc workflow node state =
    (incoming_edges workflow (n_id node) = [] \<or>
     list_ex (\<lambda>edge. case map_of (st_node_outcomes state) (ed_source_node_id edge) of
         None \<Rightarrow> False
       | Some outcome \<Rightarrow> edge_condition_matches jc edge (jget (st_node_outputs state) (ed_source_node_id edge)) outcome)
       (incoming_edges workflow (n_id node)))"

section \<open>What the outcome of a node and the edges guarantee\<close>

lemma node_outcome_cases: "node_outcome jc v = ''failure'' \<or> node_outcome jc v = ''success''"
  by (simp add: node_outcome_def Let_def)

lemma sequence_results_Inr:
  "sequence_results rs = Inr xs \<Longrightarrow> rs = map Inr xs"
  by (induction rs arbitrary: xs) (auto elim!: sbind_InrE)

lemma edge_needs_outcome:
  "edge_condition_matches jc edge output outcome \<Longrightarrow>
   outcome = (if ed_edge_type edge = FAILURE then VStr ''failure'' else VStr ''success'')"
  by (cases "ed_edge_type edge") (auto simp: edge_condition_matches_def split: if_splits)

lemma unconditional_edge_matches:
  "strip (case ed_condition edge of None \<Rightarrow> [] | Some c \<Rightarrow> c) = [] \<Longrightarrow>
   edge_condition_matches jc edge output outcome \<longleftrightarrow>
     outcome = (if ed_edge_type edge = FAILURE then VStr ''failure'' else VStr ''success'')"
  by (cases "ed_edge_type edge") (auto simp: edge_condition_matches_def lower_def Let_def)

text \<open>
  A success claimed in a model's answer is no proof of a side effect: the check of required tools
  passes exactly when every required tool has a recorded call, and every one with a list of allowed
  statuses has a recorded result whose status is on it.
\<close>

theorem required_tools_are_proven:
  assumes "jget (td_metadata task) ''required_tool_ids'' = VList required"
    and "map_of (st_task_tool_results state) (td_id task) = Some (VList items)"
    and "map (tool_result jc) items = map Inr results"
    and "jget (td_metadata task) ''required_tool_success_statuses'' = VDict statuses"
  shows "required_tool_result_error jc task state = Inr None \<longleftrightarrow>
    (\<forall>t \<in> set required. \<exists>r. (py_str (jc_float jc) t, r) \<in> set results \<and>
      (\<forall>allowed. jget statuses (py_str (jc_float jc) t) = VList allowed \<and> allowed \<noteq> [] \<longrightarrow>
        (\<exists>d. (py_str (jc_float jc) t, VDict d) \<in> set results \<and>
           lower (text_of jc d ''status'' []) \<in> (\<lambda>v. lower (strip (py_str (jc_float jc) v))) ` set allowed)))"
proof (cases required)
  case Nil
  then show ?thesis using assms(1) by (simp add: required_tool_result_error_def)
next
  case (Cons r rs)
  let ?n = "py_str (jc_float jc)"
  have seq: "sequence_results (map (tool_result jc) items) = Inr results"
    unfolding assms(3) by (induction results) simp_all
  have rec: "results_for n results \<noteq> [] \<longleftrightarrow> (\<exists>r. (n, r) \<in> set results)" for n
    by (force simp: results_for_def filter_empty_conv)
  have allow: "list_ex (status_allowed jc allowed) (results_for n results) \<longleftrightarrow>
    (\<exists>d. (n, VDict d) \<in> set results \<and> lower (text_of jc d ''status'' []) \<in> (\<lambda>v. lower (strip (?n v))) ` set allowed)"
    for n allowed
  proof -
    have "status_allowed jc allowed x \<longleftrightarrow>
      (\<exists>d. x = VDict d \<and> lower (text_of jc d ''status'' []) \<in> (\<lambda>v. lower (strip (?n v))) ` set allowed)" for x
      by (cases x) (auto simp: status_allowed_def)
    then show ?thesis by (fastforce simp: results_for_def list_ex_iff)
  qed
  have unproven: "tool_unproven jc statuses results t \<longleftrightarrow>
    (\<exists>allowed. jget statuses (?n t) = VList allowed \<and> allowed \<noteq> [] \<and>
      \<not> list_ex (status_allowed jc allowed) (results_for (?n t) results))" for t
    by (cases "jget statuses (?n t)") (auto simp: tool_unproven_def Let_def)
  have "required_tool_result_error jc task state = Inr None \<longleftrightarrow>
    filter (\<lambda>t. results_for (?n t) results = []) required = [] \<and>
    find (tool_unproven jc statuses results) required = None"
    using assms(1,2,4) seq Cons by (simp add: required_tool_result_error_def Let_def)
  also have "\<dots> \<longleftrightarrow> (\<forall>t \<in> set required. results_for (?n t) results \<noteq> [] \<and> \<not> tool_unproven jc statuses results t)"
    by (auto simp: filter_empty_conv find_None_iff)
  finally show ?thesis unfolding unproven rec allow by (simp add: Bex_def) blast
qed

text \<open>
  A task that must call one tool and read a sent status: a recorded call that failed is not enough, whatever
  the model's answer says.
\<close>

theorem required_tools_are_proven_witness:
  "\<exists>task state items. jget (td_metadata task) ''required_tool_ids'' = VList [VStr ''mail''] \<and>
     map_of (st_task_tool_results state) (td_id task) = Some (VList items) \<and> length items = 1 \<and>
     required_tool_result_error \<lparr>jc_loads = (\<lambda>s. None), jc_float = (\<lambda>r. [])\<rparr> task state \<noteq> Inr None"
proof -
  define jc where "jc = \<lparr>jc_loads = (\<lambda>s. None), jc_float = (\<lambda>r. [])\<rparr>"
  define task where "task = \<lparr>td_id = ''t'', td_name = ''T'', td_agent_id = None, td_tool_ids = [''mail''],
     td_depends_on_task_ids = [], td_human_approval_required = False, td_timeout_seconds = None,
     td_max_retries = None, td_model_profile_id = None, td_max_tokens = None, td_approval_policy = None,
     td_metadata = [(''required_tool_ids'', VList [VStr ''mail'']),
       (''required_tool_success_statuses'', VDict [(''mail'', VList [VStr ''sent''])])]\<rparr>"
  define items where "items = [VDict [(''tool_id'', VStr ''mail''), (''result'', VDict [(''status'', VStr ''failed'')])]]"
  define state where "state = \<lparr>st_execution_id = ''ex-1'', st_workflow_id = [], st_trace_id = [], st_paused = False,
     st_cancelled = False, st_sequence = 0, st_node_outputs = [], st_node_outcomes = [], st_node_errors = [],
     st_task_tool_results = [(''t'', VList items)], st_current_node_id = None, st_current_agent_id = None,
     st_current_task_id = None, st_planned_node_ids = [], st_terminal_node_ids = [], st_last_event_id = None\<rparr>"
  have s: "strip ''failed'' = ''failed''" "strip ''sent'' = ''sent''" by code_simp+
  have "required_tool_result_error jc task state = Inr None \<longleftrightarrow> False"
    by (subst required_tools_are_proven [where required = "[VStr ''mail'']" and items = items
          and results = "[(''mail'', VDict [(''status'', VStr ''failed'')])]"
          and statuses = "[(''mail'', VList [VStr ''sent''])]"])
      (simp_all add: task_def state_def items_def tool_result_def jc_def text_of_def lower_def s
        py_or_def lower_char_def)
  moreover have "jget (td_metadata task) ''required_tool_ids'' = VList [VStr ''mail'']"
    "map_of (st_task_tool_results state) (td_id task) = Some (VList items)" "length items = 1"
    by (simp_all add: task_def state_def items_def)
  ultimately show ?thesis unfolding jc_def by blast
qed

end
