(* ===== verification/Task_Run.thy ===== *)
theory Task_Run
  imports Routing
begin

text \<open>
  The run of one task in the node loop of \<open>app/runtime/native/engine.py\<close>: its runtime overrides, the
  policy of the workflow, the approval asked before it, and \<open>_execute_task_with_runtime_overrides\<close>, the
  loop of attempts around the agent.

  The engine's state object is \<open>states w\<close> at the execution's id, changed in place. The \<open>Execution\<close>
  object the engine holds is a value threaded beside the world; the agent executor, which is given the
  object, returns it. \<open>engine_env\<close> collects what the loop calls outside of it:
  \<^item> \<open>en_agent\<close>: \<open>NativeAgentExecutor.execute_task\<close> under \<open>asyncio.wait_for\<close> with the given timeout; it may do
    anything to the world and raise anything (\<open>TimeoutError\<close> when the time is over);
  \<^item> \<open>en_get_profile\<close>, \<open>en_resolve_client\<close>: the model profiles and the model client built for one;
  \<^item> \<open>en_graph_before\<close>, \<open>en_graph_failure\<close>, \<open>en_completion\<close>: the retrievals of graph context and the completion
    handler, whose exceptions the engine swallows;
  \<^item> \<open>en_digest\<close>, \<open>en_delegate\<close>, \<open>en_await\<close>: the approval manager's digest and delegate, and the wait on a
    decision that is not durable;
  \<^item> \<open>en_metrics\<close>, \<open>en_sha256\<close>, \<open>en_jitter_unit\<close>: process metrics, the hex digest of a text, and the first
    eight bytes of a digest as a fraction of the largest such number.
\<close>

section \<open>The engine's environment\<close>

record ModelProfileDefinition =
  mp_id :: string
  mp_max_tokens :: "int option"

record agent_call =
  ac_workflow :: WorkflowDefinition
  ac_task :: TaskDefinition
  ac_agent :: AgentDefinition
  ac_profile :: ModelProfileDefinition
  ac_timeout :: "rat option"

type_synonym 'a run = "(exc + 'a) \<times> Execution \<times> world"

record engine_env =
  en_codec :: codec
  en_fromiso :: "string \<Rightarrow> datetime option"
  en_get_workflow :: "string \<Rightarrow> WorkflowDefinition option"
  en_get_profile :: "string \<Rightarrow> ModelProfileDefinition option"
  en_resolve_client :: "ModelProfileDefinition \<Rightarrow> exc option"
  en_agent :: "agent_call \<Rightarrow> Execution \<Rightarrow> world \<Rightarrow> pyval run"
  en_graph_before :: "WorkflowDefinition \<Rightarrow> TaskDefinition \<Rightarrow> AgentDefinition \<Rightarrow> Execution \<Rightarrow> world \<Rightarrow> world"
  en_graph_failure :: "WorkflowDefinition \<Rightarrow> Execution \<Rightarrow> string \<Rightarrow> string \<Rightarrow> world \<Rightarrow> world"
  en_completion :: "Execution \<Rightarrow> WorkflowDefinition \<Rightarrow> world \<Rightarrow> world"
  en_digest :: digest_fn
  en_delegate :: "delegate_fn option"
  en_await :: "string \<Rightarrow> string \<Rightarrow> ApprovalDecision act"
  en_metrics :: json
  en_sha256 :: "string \<Rightarrow> string"
  en_jitter_unit :: "string \<Rightarrow> rat"

fun rbind :: "'a run \<Rightarrow> ('a \<Rightarrow> Execution \<Rightarrow> world \<Rightarrow> 'b run) \<Rightarrow> 'b run" where
  "rbind (Inl e, x, w) f = (Inl e, x, w)"
| "rbind (Inr a, x, w) f = f a x w"

text \<open>An operation on the world that does not touch the \<open>Execution\<close> object.\<close>

definition on_world :: "'a act \<Rightarrow> Execution \<Rightarrow> world \<Rightarrow> 'a run" where
  "on_world f x w = (let (r, w') = f w in (r, x, w'))"

text \<open>\<open>self._states[execution_id]\<close>; the default is never used once the run has started.\<close>

definition run_state :: "string \<Rightarrow> world \<Rightarrow> NativeExecutionState" where
  "run_state i w =
    (case map_of (states w) i of
       Some st \<Rightarrow> st
     | None \<Rightarrow> \<lparr>st_execution_id = i, st_workflow_id = [], st_trace_id = [], st_paused = False, st_cancelled = False,
          st_sequence = 0, st_node_outputs = [], st_node_outcomes = [], st_node_errors = [],
          st_task_tool_results = [], st_current_node_id = None, st_current_agent_id = None,
          st_current_task_id = None, st_planned_node_ids = [], st_terminal_node_ids = [], st_last_event_id = None\<rparr>)"

definition change_state :: "string \<Rightarrow> (NativeExecutionState \<Rightarrow> NativeExecutionState) \<Rightarrow> world \<Rightarrow> world" where
  "change_state i f w = w\<lparr>states := dset i (f (run_state i w)) (states w)\<rparr>"

definition run_emit ::
  "string \<Rightarrow> ExecutionEventType \<Rightarrow> string option \<Rightarrow> json \<Rightarrow> json \<Rightarrow> json \<Rightarrow> string option \<Rightarrow> string option \<Rightarrow>
   world \<Rightarrow> ExecutionEvent \<times> world" where
  "run_emit i event_type actor payload metrics metadata agent_id task_id w =
    (let (saved, state', w') = emit (run_state i w) event_type actor payload metrics metadata agent_id task_id
           None None None w
     in (saved, w'\<lparr>states := dset i state' (states w')\<rparr>))"

text \<open>\<open>emit(state, event_type, payload=payload)\<close>, and the same for one agent's task.\<close>

definition run_note :: "string \<Rightarrow> ExecutionEventType \<Rightarrow> json \<Rightarrow> world \<Rightarrow> world" where
  "run_note i event_type payload w = snd (run_emit i event_type None payload [] [] None None w)"

definition task_note :: "string \<Rightarrow> ExecutionEventType \<Rightarrow> AgentDefinition \<Rightarrow> TaskDefinition \<Rightarrow> json \<Rightarrow> world \<Rightarrow> world" where
  "task_note i event_type agent task payload w =
    snd (run_emit i event_type (Some (ad_name agent)) payload [] [] (Some (ad_id agent)) (Some (td_id task)) w)"

section \<open>Numbers\<close>

text \<open>\<open>int(v)\<close>: text must be a decimal literal, a float is truncated.\<close>

definition int_literal :: "string \<Rightarrow> int option" where
  "int_literal s =
    (let (negative, t) = read_sign (strip s) in
     case digitpart t of
       Some (n, _, []) \<Rightarrow> Some (if negative then - int n else int n)
     | _ \<Rightarrow> None)"

fun py_int :: "pyval \<Rightarrow> exc + int" where
  "py_int (VInt i) = Inr i"
| "py_int (VBool b) = Inr (if b then 1 else 0)"
| "py_int (VFloat f) = int_of_float f"
| "py_int (VStr s) = (case int_literal s of
      Some i \<Rightarrow> Inr i
    | None \<Rightarrow> Inl (ValueError (''invalid literal for int() with base 10: '' @ repr_str s)))"
| "py_int _ = Inl (TypeError ''int() argument must be a string, a bytes-like object or a real number'')"

definition int_at_least :: "int \<Rightarrow> pyval \<Rightarrow> exc + int option" where
  "int_at_least lowest v =
    (case v of
       VBool _ \<Rightarrow> Inr None
     | _ \<Rightarrow> except_type_value (sbind (py_int v) (\<lambda>n. Inr (if lowest \<le> n then Some n else None))) None)"

abbreviation engine_positive_int :: "pyval \<Rightarrow> exc + int option" where
  "engine_positive_int \<equiv> int_at_least 1"

abbreviation non_negative_int :: "pyval \<Rightarrow> exc + int option" where
  "non_negative_int \<equiv> int_at_least 0"

section \<open>Overrides and policies\<close>

definition TASK_APPROVAL_POLICIES :: "string list" where
  "TASK_APPROVAL_POLICIES = [''none'', ''required'', ''on_failure'']"

definition WORKFLOW_APPROVAL_MODES :: "string list" where
  "WORKFLOW_APPROVAL_MODES = [''task_policy'', ''before_run'', ''all_tasks'']"

definition put_opt :: "string \<Rightarrow> pyval option \<Rightarrow> json \<Rightarrow> json" where
  "put_opt k v d = (case v of None \<Rightarrow> d | Some x \<Rightarrow> dset k x d)"

text \<open>A text value among the allowed ones.\<close>

definition choice :: "string list \<Rightarrow> pyval \<Rightarrow> pyval option" where
  "choice allowed v = (case as_str v of None \<Rightarrow> None | Some s \<Rightarrow> if s \<in> set allowed then Some v else None)"

definition task_runtime_overrides :: "TaskDefinition \<Rightarrow> exc + json" where
  "task_runtime_overrides task =
    (let raw = put_opt ''approval_policy'' (map_option VStr (td_approval_policy task))
          (put_opt ''max_tokens'' (map_option VInt (td_max_tokens task))
          (put_opt ''model_profile_id'' (map_option VStr (td_model_profile_id task))
          (put_opt ''max_retries'' (map_option VInt (td_max_retries task))
          (put_opt ''timeout_seconds'' (map_option VInt (td_timeout_seconds task))
            (dict_or_empty (jget (td_metadata task) ''task_runtime_overrides''))))))
     in sbind (engine_positive_int (jget raw ''timeout_seconds'')) (\<lambda>timeout_seconds.
        sbind (non_negative_int (jget raw ''max_retries'')) (\<lambda>max_retries.
        sbind (engine_positive_int (jget raw ''max_tokens'')) (\<lambda>max_tokens.
        Inr (put_opt ''approval_policy'' (choice TASK_APPROVAL_POLICIES (jget raw ''approval_policy''))
            (put_opt ''max_tokens'' (map_option VInt max_tokens)
            (put_opt ''model_profile_id'' (case as_str (jget raw ''model_profile_id'') of
                None \<Rightarrow> None | Some s \<Rightarrow> if strip s = [] then None else Some (VStr (strip s)))
            (put_opt ''max_retries'' (map_option VInt max_retries)
            (put_opt ''timeout_seconds'' (map_option VInt timeout_seconds) [])))))))))"

definition task_retry_metadata :: "json \<Rightarrow> json" where
  "task_retry_metadata metadata = dict_or_empty (jget metadata ''task_retry'')"

text \<open>\<open>workflow.limit or _positive_int(value)\<close>: the field of the definition is positive when present.\<close>

definition own_or_positive :: "int option \<Rightarrow> pyval \<Rightarrow> exc + int option" where
  "own_or_positive own v = (case own of Some n \<Rightarrow> if n \<noteq> 0 then Inr (Some n) else engine_positive_int v
     | None \<Rightarrow> engine_positive_int v)"

definition workflow_runtime_policy :: "WorkflowDefinition \<Rightarrow> exc + json" where
  "workflow_runtime_policy workflow =
    (let metadata_policy = dict_or_empty (jget (dict_or_empty (jget (wd_metadata workflow) ''runtime_governance''))
           ''execution_policy'')
     in sbind (own_or_positive (wd_max_runtime_seconds workflow) (jget metadata_policy ''max_runtime_seconds'')) (\<lambda>runtime.
        sbind (case wd_max_retries workflow of Some n \<Rightarrow> Inr (Some n)
               | None \<Rightarrow> non_negative_int (jget metadata_policy ''max_retries'')) (\<lambda>retries.
        sbind (own_or_positive (wd_concurrency_limit workflow) (jget metadata_policy ''concurrency_limit'')) (\<lambda>concurrency.
        let approval_mode = (case or_str (wd_approval_mode workflow) None of
              Some m \<Rightarrow> VStr m | None \<Rightarrow> jget metadata_policy ''approval_mode'')
        in Inr (put_opt ''approval_mode'' (choice WORKFLOW_APPROVAL_MODES approval_mode)
             (put_opt ''concurrency_limit'' (map_option VInt concurrency)
             (put_opt ''max_retries'' (map_option VInt retries)
             (put_opt ''max_runtime_seconds'' (map_option VInt runtime) []))))))))"

definition or_text :: "string \<Rightarrow> string \<Rightarrow> string" where
  "or_text a b = (if a = [] then b else a)"

section \<open>Approvals of tasks and workflows\<close>

definition nonempty_or_none :: "json \<Rightarrow> pyval" where
  "nonempty_or_none d = (if d = [] then VNone else VDict d)"

text \<open>
  The manager's answer: the decision, or the exception that suspends the run. A decision that is not
  durable is awaited, and the execution goes on as the manager leaves it then.
\<close>

definition approval_decision ::
  "engine_env \<Rightarrow> string \<Rightarrow> string \<Rightarrow> json \<Rightarrow> string \<Rightarrow> json \<Rightarrow> ApprovalDecision act" where
  "approval_decision en execution_id tool_id payload event_id approval_metadata w =
    andthen (request_approval (en_digest en) (en_delegate en) execution_id tool_id payload None (Some event_id)
        approval_metadata w) (\<lambda>answer w1.
      case answer of
        Decided decision \<Rightarrow> (Inr decision, w1)
      | AwaitFuture \<Rightarrow>
          andthen (en_await en execution_id tool_id w1) (\<lambda>decision w2.
            (Inr decision, resume_after_decision execution_id (approval_key execution_id tool_id) w2)))"

definition task_approval_tool_id :: "TaskDefinition \<Rightarrow> string" where
  "task_approval_tool_id task = ''task:'' @ td_id task"

definition request_task_approval ::
  "engine_env \<Rightarrow> WorkflowDefinition \<Rightarrow> TaskDefinition \<Rightarrow> AgentDefinition \<Rightarrow> string \<Rightarrow> string option \<Rightarrow> unit act" where
  "request_task_approval en workflow task agent i reason w =
    (let (approval_event, w1) = run_emit i APPROVAL_REQUESTED (Some (ad_name agent))
           [(''approval_type'', VStr ''task''), (''workflow_id'', VStr (wd_id workflow)), (''task_id'', VStr (td_id task)),
            (''task_name'', VStr (td_name task)),
            (''reason'', VStr (case or_str reason None of Some r \<Rightarrow> r
               | None \<Rightarrow> ''Task approval policy requires human approval before execution.''))]
           [] [] (Some (ad_id agent)) (Some (td_id task)) w
     in andthen (approval_decision en i (task_approval_tool_id task)
           [(''approval_type'', VStr ''task''), (''workflow_id'', VStr (wd_id workflow)), (''task_id'', VStr (td_id task)),
            (''task_name'', VStr (td_name task)), (''reason'', opt_str reason)]
           (ev_id approval_event)
           [(''approval_type'', VStr ''task''), (''approval_event_id'', VStr (ev_id approval_event)),
            (''workflow_id'', VStr (wd_id workflow)), (''agent_id'', VStr (ad_id agent)), (''task_id'', VStr (td_id task))] w1)
         (\<lambda>decision w2.
           if \<not> d_granted decision then
             (Inl (ApprovalRequiredError (case or_str (d_reason decision) None of Some r \<Rightarrow> r
                | None \<Rightarrow> ''Task '' @ quote (td_id task) @ '' approval was rejected.'')),
              task_note i APPROVAL_REJECTED agent task
                [(''approval_type'', VStr ''task''), (''task_id'', VStr (td_id task)), (''task_name'', VStr (td_name task)),
                 (''reason'', opt_str (d_reason decision)), (''decision_metadata'', VDict (d_metadata decision))] w2)
           else
             (Inr (), task_note i APPROVAL_GRANTED agent task
                [(''approval_type'', VStr ''task''), (''task_id'', VStr (td_id task)), (''task_name'', VStr (td_name task)),
                 (''decision_metadata'', VDict (d_metadata decision))] w2)))"

definition maybe_request_task_approval ::
  "engine_env \<Rightarrow> WorkflowDefinition \<Rightarrow> TaskDefinition \<Rightarrow> AgentDefinition \<Rightarrow> string \<Rightarrow> pyval \<Rightarrow> string option \<Rightarrow> unit act" where
  "maybe_request_task_approval en workflow task agent i approval_policy reason w =
    (if approval_policy \<noteq> VStr ''required'' then (Inr (), w)
     else request_task_approval en workflow task agent i reason w)"

definition maybe_request_workflow_approval ::
  "engine_env \<Rightarrow> WorkflowDefinition \<Rightarrow> string \<Rightarrow> string \<Rightarrow> unit act" where
  "maybe_request_workflow_approval en workflow i reason w =
    (let common = [(''approval_type'', VStr ''workflow''), (''workflow_id'', VStr (wd_id workflow)),
           (''workflow_name'', VStr (wd_name workflow))];
         (approval_event, w1) = run_emit i APPROVAL_REQUESTED None (common @ [(''reason'', VStr reason)]) [] [] None None w
     in andthen (approval_decision en i (''workflow:'' @ wd_id workflow) (common @ [(''reason'', VStr reason)])
           (ev_id approval_event)
           [(''approval_type'', VStr ''workflow''), (''approval_event_id'', VStr (ev_id approval_event)),
            (''workflow_id'', VStr (wd_id workflow))] w1)
         (\<lambda>decision w2.
           if \<not> d_granted decision then
             (Inl (ExecutionPausedError (case or_str (d_reason decision) None of Some r \<Rightarrow> r
                | None \<Rightarrow> ''Workflow '' @ quote (wd_id workflow) @ '' approval was rejected.'')),
              run_note i APPROVAL_REJECTED (common @ [(''reason'', opt_str (d_reason decision)),
                (''decision_metadata'', VDict (d_metadata decision))]) w2)
           else
             (Inr (), run_note i APPROVAL_GRANTED
                (common @ [(''decision_metadata'', VDict (d_metadata decision))]) w2)))"

section \<open>Attempts\<close>

definition step_payload ::
  "TaskDefinition \<Rightarrow> AgentDefinition \<Rightarrow> int \<Rightarrow> int \<Rightarrow> string \<Rightarrow> json \<Rightarrow> string \<Rightarrow> json \<Rightarrow> json" where
  "step_payload task agent attempt max_retries summary extra profile_id overrides =
    [(''task_id'', VStr (td_id task)), (''task_name'', VStr (td_name task)), (''agent_id'', VStr (ad_id agent)),
     (''agent_name'', VStr (ad_name agent)), (''attempt'', VInt attempt), (''max_retries'', VInt max_retries),
     (''step_kind'', VStr ''task_execution''), (''summary'', VStr summary)] @ extra @
    [(''model_profile_id'', VStr profile_id), (''runtime_overrides'', VDict overrides)]"

text \<open>The timeout of an attempt, and whether the workflow's limit is the one that applies.\<close>

definition effective_timeout :: "rat option \<Rightarrow> rat option \<Rightarrow> rat option \<times> bool" where
  "effective_timeout task_timeout workflow_timeout =
    (case (task_timeout, workflow_timeout) of
       (Some t, Some r) \<Rightarrow> (Some (min t r), r \<le> t)
     | (Some t, None) \<Rightarrow> (Some t, False)
     | (None, r) \<Rightarrow> (r, r \<noteq> None))"

definition task_timeout_of :: "json \<Rightarrow> rat option" where
  "task_timeout_of overrides =
    (case jget overrides ''timeout_seconds'' of VInt n \<Rightarrow> Some (rat_of_int n) | _ \<Rightarrow> None)"

definition attempt_once ::
  "engine_env \<Rightarrow> agent_call \<Rightarrow> json \<Rightarrow> int \<Rightarrow> int \<Rightarrow> Execution \<Rightarrow> world \<Rightarrow> pyval run" where
  "attempt_once en call overrides attempt max_retries execution w =
    (let i = e_id execution; task = ac_task call; agent = ac_agent call;
         label_text = quote (or_text (td_name task) (td_id task));
         started = task_note i AGENT_STEP_STARTED agent task (step_payload task agent attempt max_retries
           (ad_name agent @ '' is executing task '' @ label_text @ ''.'') [] (mp_id (ac_profile call)) overrides) w
     in rbind (en_agent en call execution started) (\<lambda>output x w1.
          (Inr output, x, task_note i AGENT_STEP_COMPLETED agent task (step_payload task agent attempt max_retries
             (ad_name agent @ '' completed task '' @ label_text @ ''.'')
             [(''output_preview'', VStr (take 500 (py_str (jc_float (en_codec en)) output)))]
             (mp_id (ac_profile call)) overrides) w1)))"

definition is_timeout :: "exc \<Rightarrow> bool" where
  "is_timeout e = (case e of TimeoutError _ \<Rightarrow> True | _ \<Rightarrow> False)"

text \<open>The message recorded for a failed attempt, and the exception raised when it is the last.\<close>

definition attempt_error :: "exc \<Rightarrow> bool \<Rightarrow> string \<times> exc" where
  "attempt_error e workflow_limit =
    (if is_timeout e \<and> exc_str e = [] then
       (let m = (if workflow_limit then ''Workflow max runtime exceeded.'' else ''Task execution timed out.'')
        in (m, TimeoutError m))
     else (exc_str e, e))"

function attempts ::
  "engine_env \<Rightarrow> agent_call \<Rightarrow> json \<Rightarrow> bool \<Rightarrow> int \<Rightarrow> int \<Rightarrow> bool \<Rightarrow> Execution \<Rightarrow> world \<Rightarrow> pyval run" where
  "attempts en call overrides workflow_limit max_retries attempt failure_approval_used execution w =
    (case attempt_once en call overrides attempt max_retries execution w of
       (Inr output, x, w1) \<Rightarrow> (Inr output, x, w1)
     | (Inl e, x, w1) \<Rightarrow>
         if is_paused_error e \<or> is_cancelled_error e then (Inl e, x, w1)
         else
           let i = e_id execution; task = ac_task call; agent = ac_agent call;
               workflow_timed_out = (is_timeout e \<and> workflow_limit);
               retry = (attempt < max_retries + 1 \<and> \<not> workflow_timed_out);
               ask = (\<not> retry \<and> \<not> workflow_timed_out \<and> jget overrides ''approval_policy'' = VStr ''on_failure'' \<and>
                      \<not> failure_approval_used);
               (answer, w2) = (if ask then maybe_request_task_approval en (ac_workflow call) task agent i
                   (VStr ''required'') (Some (''Task failed with '' @ exc_name e @ '': '' @ exc_str e)) w1
                 else (Inr (), w1))
           in case answer of
                Inl refused \<Rightarrow> (Inl refused, x, w2)
              | Inr _ \<Rightarrow>
                  let again = (retry \<or> ask);
                      w3 = task_note i AGENT_STEP_FAILED agent task
                        [(''task_id'', VStr (td_id task)), (''attempt'', VInt attempt), (''max_retries'', VInt max_retries),
                         (''will_retry'', VBool again), (''error'', VStr (fst (attempt_error e workflow_limit))),
                         (''error_type'', VStr (exc_name e)), (''runtime_overrides'', VDict overrides)] w2
                  in if again then attempts en call overrides workflow_limit max_retries (attempt + 1)
                                     (failure_approval_used \<or> ask) x w3
                     else (Inl (snd (attempt_error e workflow_limit)), x, w3))"
  by pat_completeness auto
termination
  by (relation "measure (\<lambda>(_, _, _, _, max_retries, attempt, used, _, _).
      nat (max_retries + 2 - attempt) + (if used then 0 else 1))") (auto split: if_splits)

declare attempts.simps [simp del]

definition execute_task_with_runtime_overrides ::
  "engine_env \<Rightarrow> WorkflowDefinition \<Rightarrow> TaskDefinition \<Rightarrow> AgentDefinition \<Rightarrow> ModelProfileDefinition \<Rightarrow> json \<Rightarrow>
   rat option \<Rightarrow> Execution \<Rightarrow> world \<Rightarrow> pyval run" where
  "execute_task_with_runtime_overrides en workflow task agent profile overrides workflow_timeout execution w =
    (let max_retries = (case jget overrides ''max_retries'' of VInt n \<Rightarrow> n | _ \<Rightarrow> 0);
         (timeout, workflow_limit) = effective_timeout (task_timeout_of overrides) workflow_timeout;
         call = \<lparr>ac_workflow = workflow, ac_task = task, ac_agent = agent, ac_profile = profile, ac_timeout = timeout\<rparr>
     in attempts en call overrides workflow_limit max_retries 1 False execution w)"


section \<open>How often an agent is called\<close>

text \<open>The steps of an execution that were started, and calls that start none.\<close>

definition steps_started :: "string \<Rightarrow> world \<Rightarrow> nat" where
  "steps_started i w = length (filter (\<lambda>ev. ev_event_type ev = AGENT_STEP_STARTED) (list_events i (db w)))"

definition states_own :: "world \<Rightarrow> bool" where
  "states_own w \<longleftrightarrow> (\<forall>i. st_execution_id (run_state i w) = i)"

text \<open>What the nodes of a run have produced.\<close>

definition progress :: "NativeExecutionState \<Rightarrow> json \<times> json \<times> json" where
  "progress st = (st_node_outputs st, st_node_outcomes st, st_node_errors st)"

definition no_start :: "world \<Rightarrow> world \<Rightarrow> bool" where
  "no_start w w' \<longleftrightarrow> (\<forall>i. steps_started i w' = steps_started i w) \<and> (states_own w \<longrightarrow> states_own w') \<and>
     (keyed (db w) \<longrightarrow> keyed (db w')) \<and> (\<forall>i. progress (run_state i w') = progress (run_state i w))"

text \<open>
  The agent executor, the delegate and the awaited decision record tool calls and messages, but the
  start of a step and the progress of the nodes are recorded by the engine only; the agent executor keeps
  the execution's identity.
\<close>

definition quiet_env :: "engine_env \<Rightarrow> bool" where
  "quiet_env en \<longleftrightarrow>
    (\<forall>call x w. no_start w (snd (snd (en_agent en call x w))) \<and> e_id (fst (snd (en_agent en call x w))) = e_id x) \<and>
    (\<forall>a b w. no_start w (snd (en_await en a b w))) \<and>
    (\<forall>f a b c d w. en_delegate en = Some f \<longrightarrow> no_start w (snd (f a b c d w)))"

lemma no_start_refl [simp]: "no_start w w"
  by (simp add: no_start_def)

lemma no_start_trans [trans]: "no_start a b \<Longrightarrow> no_start b c \<Longrightarrow> no_start a c"
  by (simp add: no_start_def)

lemma quiet_frame:
  "events (db w') = events (db w) \<Longrightarrow> states w' = states w \<Longrightarrow> (keyed (db w) \<Longrightarrow> keyed (db w')) \<Longrightarrow> no_start w w'"
  by (simp add: no_start_def steps_started_def list_events_def states_own_def run_state_def)

lemma quiet_same_rows:
  "events (db w') = events (db w) \<Longrightarrow> states w' = states w \<Longrightarrow> executions (db w') = executions (db w) \<Longrightarrow> no_start w w'"
  using keyed_eq by (intro quiet_frame)

lemma emitted_state_id [simp]:
  "st_execution_id (fst (snd (emit st ty ac p m md a t tc mr pe w))) = st_execution_id st"
  by (simp add: emit_def next_sequence_def Let_def case_prod_unfold)

lemma run_state_put [simp]:
  "run_state j (w\<lparr>states := dset i st (states w')\<rparr>) = (if j = i then st else run_state j w')"
  by (simp add: run_state_def)

lemma run_emit_states:
  assumes "states_own w"
  shows "states_own (snd (run_emit i ty ac p m md a t w))"
proof -
  have "run_state j (snd (snd (emit (run_state i w) ty ac p m md a t None None None w))) = run_state j w" for j
    by (simp add: run_state_def)
  then show ?thesis using assms by (simp add: states_own_def run_emit_def Let_def case_prod_unfold)
qed

lemma run_emit_steps:
  assumes "states_own w"
  shows "steps_started j (snd (run_emit i ty ac p m md a t w)) =
    steps_started j w + (if j = i \<and> ty = AGENT_STEP_STARTED then 1 else 0)"
proof -
  have id: "st_execution_id (run_state i w) = i" using assms by (simp add: states_own_def)
  show ?thesis
    by (simp add: run_emit_def Let_def case_prod_unfold steps_started_def emit_appends id)
qed

lemma run_emit_keyed: "keyed (db w) \<Longrightarrow> keyed (db (snd (run_emit i ty ac p m md a t w)))"
  by (simp add: run_emit_def Let_def case_prod_unfold emit_executions(3))

lemma emitted_progress:
  "st_node_outputs (fst (snd (emit st ty ac p m md a t tc mr pe w))) = st_node_outputs st"
  "st_node_outcomes (fst (snd (emit st ty ac p m md a t tc mr pe w))) = st_node_outcomes st"
  "st_node_errors (fst (snd (emit st ty ac p m md a t tc mr pe w))) = st_node_errors st"
  "st_cancelled (fst (snd (emit st ty ac p m md a t tc mr pe w))) = st_cancelled st"
  by (simp_all add: emit_def next_sequence_def Let_def case_prod_unfold)

lemma run_emit_state:
  "run_state j (snd (run_emit i ty ac p m md a t w)) =
    (if j = i then fst (snd (emit (run_state i w) ty ac p m md a t None None None w)) else run_state j w)"
  by (simp add: run_emit_def Let_def case_prod_unfold run_state_def)

lemma run_emit_progress [simp]:
  "st_node_outputs (run_state j (snd (run_emit i ty ac p m md a t w))) = st_node_outputs (run_state j w)"
  "st_node_outcomes (run_state j (snd (run_emit i ty ac p m md a t w))) = st_node_outcomes (run_state j w)"
  "st_node_errors (run_state j (snd (run_emit i ty ac p m md a t w))) = st_node_errors (run_state j w)"
  "st_cancelled (run_state j (snd (run_emit i ty ac p m md a t w))) = st_cancelled (run_state j w)"
  "progress (run_state j (snd (run_emit i ty ac p m md a t w))) = progress (run_state j w)"
  by (simp_all add: run_emit_state emitted_progress progress_def)

lemma no_start_emit: "states_own w \<Longrightarrow> ty \<noteq> AGENT_STEP_STARTED \<Longrightarrow> no_start w (snd (run_emit i ty ac p m md a t w))"
  by (simp add: no_start_def run_emit_states run_emit_steps run_emit_keyed)

lemma consume_quiet: "no_start w (snd (consume_resolved_decision i t dg w))"
  by (rule quiet_frame)
    (auto simp: consume_resolved_decision_def Let_def split: option.split)

lemma resolve_pending_events:
  "events (snd (resolve_pending_approval_request now i t st p b s)) = events s"
  "executions (snd (resolve_pending_approval_request now i t st p b s)) = executions s"
  by (auto simp: resolve_pending_approval_request_def update_approval_request_def Let_def
      split: list.split option.split)

lemma resolve_wait_events:
  "events (snd (resolve_execution_wait now wid st k p b s)) = events s"
  "executions (snd (resolve_execution_wait now wid st k p b s)) = executions s"
  by (auto simp: resolve_execution_wait_def Let_def split: option.split)

lemma resolve_durable_events [simp]:
  "events (db (resolve_durable_approval_wait i rid st p b w)) = events (db w)"
  "executions (db (resolve_durable_approval_wait i rid st p b w)) = executions (db w)"
  "states (resolve_durable_approval_wait i rid st p b w) = states w"
  by (simp_all add: resolve_durable_approval_wait_def resolve_wait_events split: option.split)

lemma resolve_quiet: "no_start w (snd (resolve_approval i t d b w))"
  by (rule quiet_same_rows)
    (simp_all add: resolve_approval_def Let_def case_prod_unfold resolve_pending_events split: option.split)

lemma finish_quiet: "no_start w (finish_inline_decision i w)"
  by (rule quiet_frame) (auto simp: finish_inline_decision_def split: option.split)

lemma drop_waiter_quiet: "no_start w (drop_waiter k w)"
  by (rule quiet_frame) (simp_all add: drop_waiter_def)

lemma durable_wait_quiet: "no_start w (snd (create_durable_approval_wait i t rid p w))"
  by (rule quiet_same_rows)
    (auto simp: create_durable_approval_wait_def create_execution_wait_def Let_def case_prod_unfold
      split: option.split sum.split)

lemma await_quiet: "no_start w (await_approval i rid wid t dg p md w)"
  by (rule quiet_frame) (auto simp: await_approval_def Let_def split: option.split)

lemma resume_decision_quiet: "no_start w (resume_after_decision i k w)"
  by (rule quiet_frame) (auto simp: resume_after_decision_def drop_waiter_def split: option.split)

lemma delegated_quiet:
  assumes "\<And>f. delegate = Some f \<Longrightarrow> no_start w (snd (f i t p m w))"
  shows "no_start w (snd (request_delegated_decision delegate i t p m w))"
  using assms by (auto simp: request_delegated_decision_def split: option.split prod.split sum.split)

lemma request_quiet:
  assumes env: "\<And>f w. delegate = Some f \<Longrightarrow> no_start w (snd (f i t
      (case redacted of Some p \<Rightarrow> p | None \<Rightarrow> payload) m w))"
  shows "no_start w0 (snd (request_approval digest delegate i t payload redacted ev m w0))"
proof -
  obtain r w where c: "consume_resolved_decision i t (digest payload) w0 = (r, w)" by fastforce
  then have q0: "no_start w0 w" using consume_quiet [of w0 i t "digest payload"] by simp
  show ?thesis
  proof (cases r)
    case (Some d)
    then show ?thesis using c q0 by (simp add: request_approval_def)
  next
    case None
    define p where "p = (case redacted of Some p \<Rightarrow> p | None \<Rightarrow> payload)"
    define w1 where "w1 = w\<lparr>pending_approvals := dset (approval_key i t) None (pending_approvals w)\<rparr>"
    obtain rid w2 where u: "uuid4 w1 = (rid, w2)" by fastforce
    define rp where "rp = [(''arguments'', VDict p), (''approval_metadata'', VDict m),
        (''invocation_digest'', VStr (digest payload))]"
    define w3 where "w3 = w2\<lparr>db := create_approval_request (clock w2) rid i ev t ''pending'' rp (db w2),
        request_ids := dset (approval_key i t) rid (request_ids w2)\<rparr>"
    have "w2 = snd (uuid4 w1)" using u by simp
    then have q3: "no_start w w3"
      by (intro quiet_same_rows) (simp_all add: w1_def w3_def create_approval_request_def)
    obtain cr w4 where cr: "create_durable_approval_wait i t rid rp w3 = (cr, w4)" by fastforce
    have q4: "no_start w3 w4" using durable_wait_quiet [of w3 i t rid rp] cr by simp
    show ?thesis
    proof (cases cr)
      case (Inl e)
      have "no_start w0 (drop_waiter (approval_key i t) w4)"
        by (rule no_start_trans [OF no_start_trans [OF q0 q3] no_start_trans [OF q4 drop_waiter_quiet]])
      then show ?thesis using c None u cr Inl
        by (simp add: request_approval_def Let_def p_def w1_def w3_def rp_def)
    next
      case (Inr wid)
      define w5 where "w5 = await_approval i rid wid t (digest payload) p m w4"
      have q5: "no_start w4 w5" unfolding w5_def by (rule await_quiet)
      obtain dl w6 where dl: "request_delegated_decision delegate i t p m w5 = (dl, w6)" by fastforce
      have q6: "no_start w5 w6" using delegated_quiet [of delegate w5 i t p m] env [of _ w5] dl by (auto simp: p_def)
      have q: "no_start w0 w6"
        by (rule no_start_trans [OF no_start_trans [OF q0 q3] no_start_trans [OF q4 no_start_trans [OF q5 q6]]])
      have q7: "no_start w6 (finish_inline_decision i (snd (resolve_approval i t d b w6)))" for d b
        by (rule no_start_trans [OF resolve_quiet finish_quiet])
      show ?thesis using c None u cr Inr dl no_start_trans [OF q q7] no_start_trans [OF q drop_waiter_quiet] q
        by (simp add: request_approval_def Let_def p_def w1_def w3_def rp_def w5_def split: option.split)
    qed
  qed
qed

lemma decision_quiet:
  assumes "quiet_env en"
  shows "no_start w (snd (approval_decision en i t payload ev m w))"
proof -
  have q: "no_start w (snd (request_approval (en_digest en) (en_delegate en) i t payload None (Some ev) m w))"
    by (rule request_quiet) (use assms in \<open>auto simp: quiet_env_def\<close>)
  have a: "no_start w' (snd (en_await en a b w'))" for a b w' using assms by (simp add: quiet_env_def)
  obtain r w1 where r: "request_approval (en_digest en) (en_delegate en) i t payload None (Some ev) m w = (r, w1)"
    by fastforce
  obtain d w2 where d: "en_await en i t w1 = (d, w2)" by fastforce
  have q1: "no_start w w1" "no_start w1 w2" using q a [of w1 i t] r d by simp_all
  have q2: "no_start w w2" "no_start w (resume_after_decision i k w2)" for k
    by (rule no_start_trans [OF q1], rule no_start_trans [OF no_start_trans [OF q1] resume_decision_quiet])
  show ?thesis using q1(1) q2
    by (cases r; cases d) (simp_all add: approval_decision_def r d split: approval_result.split)
qed

lemma states_own_kept: "no_start w w' \<Longrightarrow> states_own w \<Longrightarrow> states_own w'"
  by (simp add: no_start_def)

lemma steps_kept: "no_start w w' \<Longrightarrow> steps_started i w' = steps_started i w"
  by (simp add: no_start_def)

lemma no_start_task_note:
  "states_own w \<Longrightarrow> ty \<noteq> AGENT_STEP_STARTED \<Longrightarrow> no_start w (task_note i ty agent task payload w)"
  by (simp add: task_note_def no_start_emit)

lemma andthen_no_start:
  "no_start w (snd r) \<Longrightarrow> (\<And>a. no_start (snd r) (snd (f a (snd r)))) \<Longrightarrow> no_start w (snd (andthen r f))"
  by (cases r rule: prod.exhaust; cases "fst r") (auto intro: no_start_trans)

lemma task_approval_quiet:
  assumes "quiet_env en" and "states_own w"
  shows "no_start w (snd (maybe_request_task_approval en workflow task agent i policy reason w))"
proof -
  have "no_start w (snd (request_task_approval en workflow task agent i reason w))"
    unfolding request_task_approval_def Let_def case_prod_unfold
  proof (rule andthen_no_start)
    let ?w1 = "\<lambda>p. snd (run_emit i APPROVAL_REQUESTED (Some (ad_name agent)) p [] [] (Some (ad_id agent))
        (Some (td_id task)) w)"
    have q: "no_start w (?w1 p)" for p by (rule no_start_emit [OF assms(2)]) simp
    show n: "no_start w (snd (approval_decision en i (task_approval_tool_id task) a b c (?w1 p)))" for a b c p
      by (rule no_start_trans [OF q decision_quiet [OF assms(1)]])
    show "no_start (snd (approval_decision en i (task_approval_tool_id task) a b c (?w1 p)))
       (snd (if \<not> d_granted d then
          (Inl e, task_note i APPROVAL_REJECTED agent task x (snd (approval_decision en i (task_approval_tool_id task) a b c (?w1 p))))
        else (Inr (), task_note i APPROVAL_GRANTED agent task y (snd (approval_decision en i (task_approval_tool_id task) a b c (?w1 p))))))"
      for a b c p d e x y
      using no_start_task_note [OF states_own_kept [OF n assms(2)]] by simp
  qed
  then show ?thesis by (simp add: maybe_request_task_approval_def)
qed

lemma attempt_once_steps:
  assumes "quiet_env en" and "states_own w" and "attempt_once en call ov n m x w = (r, x', w')"
  shows "steps_started (e_id x) w' = Suc (steps_started (e_id x) w) \<and> states_own w' \<and> e_id x' = e_id x"
proof -
  define w0 where "w0 = task_note (e_id x) AGENT_STEP_STARTED (ac_agent call) (ac_task call)
    (step_payload (ac_task call) (ac_agent call) n m (ad_name (ac_agent call) @ '' is executing task '' @
      quote (or_text (td_name (ac_task call)) (td_id (ac_task call))) @ ''.'') [] (mp_id (ac_profile call)) ov) w"
  have s0: "steps_started (e_id x) w0 = Suc (steps_started (e_id x) w)" "states_own w0"
    by (simp_all add: w0_def task_note_def run_emit_steps run_emit_states assms(2))
  obtain r1 x1 w1 where a: "en_agent en call x w0 = (r1, x1, w1)" by (cases "en_agent en call x w0")
  have q: "no_start w0 w1" "e_id x1 = e_id x" using assms(1) a by (auto simp: quiet_env_def) (metis fst_conv snd_conv)+
  have s1: "steps_started (e_id x) w1 = Suc (steps_started (e_id x) w)" "states_own w1"
    using steps_kept [OF q(1)] states_own_kept [OF q(1)] s0 by simp_all
  show ?thesis
  proof (cases r1)
    case (Inl e)
    then show ?thesis using assms(3) a s1 q unfolding attempt_once_def Let_def w0_def [symmetric] by simp
  next
    case (Inr out)
    have c: "no_start w1 (task_note (e_id x) AGENT_STEP_COMPLETED (ac_agent call) (ac_task call) p w1)" for p
      by (rule no_start_task_note [OF s1(2)]) simp
    have "x' = x1 \<and> (\<exists>p. w' = task_note (e_id x) AGENT_STEP_COMPLETED (ac_agent call) (ac_task call) p w1)"
      using assms(3) a Inr unfolding attempt_once_def Let_def w0_def [symmetric] by auto
    then show ?thesis using s1 q(2) steps_kept [OF c] states_own_kept [OF c] by auto
  qed
qed

definition asks_on_failure :: "json \<Rightarrow> bool" where
  "asks_on_failure overrides \<longleftrightarrow> jget overrides ''approval_policy'' = VStr ''on_failure''"

text \<open>One turn of the loop, as the steps it starts and what it leaves for the next.\<close>

lemma attempts_cases:
  assumes "attempts en call ov wl m n used x w = (r, x', w')"
  obtains (returned) out where "attempt_once en call ov n m x w = (Inr out, x', w')" "r = Inr out"
  | (interrupted) e where "attempt_once en call ov n m x w = (Inl e, x', w')" "r = Inl e"
      "is_paused_error e \<or> is_cancelled_error e"
  | (refused) e w1 e' where "attempt_once en call ov n m x w = (Inl e, x', w1)"
      "maybe_request_task_approval en (ac_workflow call) (ac_task call) (ac_agent call) (e_id x) (VStr ''required'')
         (Some (''Task failed with '' @ exc_name e @ '': '' @ exc_str e)) w1 = (Inl e', w')"
      "r = Inl e'" "m + 1 \<le> n \<or> is_timeout e" "asks_on_failure ov"
  | (gave_up) e w1 p where "attempt_once en call ov n m x w = (Inl e, x', w1)"
      "w' = task_note (e_id x) AGENT_STEP_FAILED (ac_agent call) (ac_task call) p w1"
      "r = Inl (snd (attempt_error e wl))" "\<not> is_paused_error e" "\<not> is_cancelled_error e"
      "m + 1 \<le> n \<or> is_timeout e \<and> wl" "is_timeout e \<and> wl \<or> used \<or> \<not> asks_on_failure ov"
  | (retry) e w1 x1 p where "attempt_once en call ov n m x w = (Inl e, x1, w1)" "n < m + 1"
      "attempts en call ov wl m (n + 1) used x1
         (task_note (e_id x) AGENT_STEP_FAILED (ac_agent call) (ac_task call) p w1) = (r, x', w')"
  | (approved) e w1 x1 w2 p where "attempt_once en call ov n m x w = (Inl e, x1, w1)" "\<not> n < m + 1" "\<not> used"
      "asks_on_failure ov"
      "maybe_request_task_approval en (ac_workflow call) (ac_task call) (ac_agent call) (e_id x) (VStr ''required'')
         (Some (''Task failed with '' @ exc_name e @ '': '' @ exc_str e)) w1 = (Inr (), w2)"
      "attempts en call ov wl m (n + 1) True x1
         (task_note (e_id x) AGENT_STEP_FAILED (ac_agent call) (ac_task call) p w2) = (r, x', w')"
proof -
  obtain a x1 w1 where a: "attempt_once en call ov n m x w = (a, x1, w1)" by (cases "attempt_once en call ov n m x w")
  show thesis
  proof (cases a)
    case (Inr out)
    then show thesis using returned assms a by (simp add: attempts.simps)
  next
    case e: (Inl e)
    show thesis
    proof (cases "is_paused_error e \<or> is_cancelled_error e")
      case True
      then show thesis using interrupted assms a e by (simp add: attempts.simps)
    next
      case ord: False
      define timed where "timed \<longleftrightarrow> is_timeout e \<and> wl"
      define ask where "ask \<longleftrightarrow> \<not> (n < m + 1 \<and> \<not> timed) \<and> \<not> timed \<and> asks_on_failure ov \<and> \<not> used"
      obtain ans w2 where ans: "(if ask then maybe_request_task_approval en (ac_workflow call) (ac_task call)
          (ac_agent call) (e_id x) (VStr ''required'') (Some (''Task failed with '' @ exc_name e @ '': '' @ exc_str e)) w1
        else (Inr (), w1)) = (ans, w2)" by fastforce
      define P where "P = [(''task_id'', VStr (td_id (ac_task call))), (''attempt'', VInt n), (''max_retries'', VInt m),
          (''will_retry'', VBool (n < m + 1 \<and> \<not> timed \<or> ask)), (''error'', VStr (fst (attempt_error e wl))),
          (''error_type'', VStr (exc_name e)), (''runtime_overrides'', VDict ov)]"
      define w3 where "w3 = task_note (e_id x) AGENT_STEP_FAILED (ac_agent call) (ac_task call) P w2"
      have step: "(case ans of Inl refused \<Rightarrow> (Inl refused, x1, w2)
          | Inr _ \<Rightarrow> if n < m + 1 \<and> \<not> timed \<or> ask then attempts en call ov wl m (n + 1) (used \<or> ask) x1 w3
              else (Inl (snd (attempt_error e wl)), x1, w3)) = (r, x', w')"
      proof -
        have "attempts en call ov wl m n used x w = (case ans of Inl refused \<Rightarrow> (Inl refused, x1, w2)
          | Inr _ \<Rightarrow> if n < m + 1 \<and> \<not> timed \<or> ask then attempts en call ov wl m (n + 1) (used \<or> ask) x1 w3
              else (Inl (snd (attempt_error e wl)), x1, w3))"
          using ord
          by (subst attempts.simps) (simp only: a e prod.case sum.case if_False Let_def ans timed_def [symmetric]
            asks_on_failure_def [symmetric] ask_def [symmetric] P_def w3_def)
        then show ?thesis using assms by simp
      qed
      show thesis
      proof (cases ans)
        case (Inl e')
        then have "ask" using ans by (auto split: if_splits)
        then show thesis using refused [of e w1 e'] step ord ans a e Inl by (auto simp: ask_def timed_def)
      next
        case (Inr u)
        show thesis
        proof (cases ask)
          case True
          then show thesis using approved [of e x1 w1 w2] step ord ans a e Inr
            by (auto simp: ask_def timed_def w3_def)
        next
          case False
          then have w2: "w2 = w1" using ans by simp
          show thesis
          proof (cases "n < m + 1 \<and> \<not> timed")
            case True
            then show thesis using retry [of e x1 w1] step ord ans a e Inr w2 False by (auto simp: w3_def)
          next
            case no: False
            then show thesis using gave_up [of e w1] step ord ans a e Inr w2 False
              by (auto simp: ask_def timed_def w3_def)
          qed
        qed
      qed
    qed
  qed
qed

lemma failed_note_steps:
  assumes "states_own w"
  shows "steps_started i (task_note j AGENT_STEP_FAILED agent task p w) = steps_started i w"
    "states_own (task_note j AGENT_STEP_FAILED agent task p w)"
proof -
  have "no_start w (task_note j AGENT_STEP_FAILED agent task p w)" by (rule no_start_task_note [OF assms]) simp
  then show "steps_started i (task_note j AGENT_STEP_FAILED agent task p w) = steps_started i w"
    "states_own (task_note j AGENT_STEP_FAILED agent task p w)"
    by (rule steps_kept, rule states_own_kept) (rule assms)
qed

text \<open>The calls that are left when attempt \<open>n\<close> begins.\<close>

definition calls_left :: "json \<Rightarrow> int \<Rightarrow> int \<Rightarrow> bool \<Rightarrow> nat" where
  "calls_left overrides max_retries n used =
    Suc (nat (max_retries + 1 - n)) + (if asks_on_failure overrides \<and> \<not> used then 1 else 0)"

lemma attempts_steps:
  assumes env: "quiet_env en"
  shows "states_own w \<Longrightarrow> attempts en call ov wl m n used x w = (r, x', w') \<Longrightarrow>
    Suc (steps_started (e_id x) w) \<le> steps_started (e_id x) w' \<and>
    steps_started (e_id x) w' \<le> steps_started (e_id x) w + calls_left ov m n used \<and>
    (\<not> asks_on_failure ov \<longrightarrow> (\<forall>e. r = Inl e \<and> \<not> is_paused_error e \<and> \<not> is_cancelled_error e \<and> \<not> is_timeout e \<longrightarrow>
       n \<le> m + 1 \<longrightarrow> steps_started (e_id x) w' = steps_started (e_id x) w + calls_left ov m n used))"
proof (induction "calls_left ov m n used" arbitrary: n used x w r rule: less_induct)
  case less
  note once = attempt_once_steps [OF env less.prems(1)]
  show ?case
  proof (cases rule: attempts_cases [OF less.prems(2)])
    case (1 out)
    then show ?thesis using once [OF 1(1)] by (simp add: calls_left_def)
  next
    case (2 e)
    then show ?thesis using once [OF 2(1)] by (auto simp: calls_left_def)
  next
    case (3 e w1 e')
    have "steps_started (e_id x) w' = steps_started (e_id x) w1"
      using steps_kept [OF task_approval_quiet [OF env]] once [OF 3(1)] 3(2) by (metis snd_conv)
    then show ?thesis using once [OF 3(1)] 3(5) by (simp add: calls_left_def)
  next
    case (4 e w1 p)
    have "steps_started (e_id x) w' = Suc (steps_started (e_id x) w)"
      using once [OF 4(1)] failed_note_steps(1) by (simp add: 4(2))
    moreover have "is_timeout (snd (attempt_error e wl)) = is_timeout e"
      by (auto simp: attempt_error_def is_timeout_def Let_def)
    ultimately show ?thesis using 4 by (auto simp: calls_left_def)
  next
    case (5 e w1 x1 p)
    have "calls_left ov m (n + 1) used < calls_left ov m n used" using 5(2) by (simp add: calls_left_def)
    note IH = less.hyps [OF this failed_note_steps(2) 5(3)]
    have s: "states_own w1" "e_id x1 = e_id x" "steps_started (e_id x) w1 = Suc (steps_started (e_id x) w)"
      using once [OF 5(1)] by simp_all
    have "calls_left ov m n used = Suc (calls_left ov m (n + 1) used)" using 5(2) by (simp add: calls_left_def)
    then show ?thesis using IH [OF s(1)] s 5(2) failed_note_steps(1) [OF s(1)] by auto
  next
    case (6 e w1 x1 w2 p)
    have c: "calls_left ov m n used = Suc (calls_left ov m (n + 1) True)" using 6(2-4) by (simp add: calls_left_def)
    have s1: "states_own w1" "e_id x1 = e_id x" "steps_started (e_id x) w1 = Suc (steps_started (e_id x) w)"
      using once [OF 6(1)] by simp_all
    have q: "no_start w1 w2" using task_approval_quiet [OF env s1(1)] 6(5) by (metis snd_conv)
    have s: "states_own w2" "steps_started (e_id x) w2 = Suc (steps_started (e_id x) w)"
      using s1 states_own_kept [OF q] steps_kept [OF q] by simp_all
    from less.hyps [OF _ failed_note_steps(2) [OF s(1)] 6(6)] c
    show ?thesis using s s1 6(4) failed_note_steps(1) [OF s(1)] by auto
  qed
qed

text \<open>
  C19: The loop of attempts ends, and the agent is called at least once and at most \<open>max_retries + 1\<close>
  times, once more when a failure was approved for another try. Without that policy a task that raises
  anything but a suspension, a cancellation or a timeout has used every attempt it was given.
\<close>

theorem attempts_are_bounded:
  assumes "quiet_env en" and "states_own w" and "0 \<le> max_retries"
    and "jget overrides ''max_retries'' = VInt max_retries"
    and "execute_task_with_runtime_overrides en workflow task agent profile overrides timeout x w = (r, x', w')"
  shows "steps_started (e_id x) w < steps_started (e_id x) w' \<and>
    steps_started (e_id x) w' \<le> steps_started (e_id x) w + nat max_retries + 1 +
      (if jget overrides ''approval_policy'' = VStr ''on_failure'' then 1 else 0) \<and>
    (jget overrides ''approval_policy'' \<noteq> VStr ''on_failure'' \<longrightarrow>
      (\<forall>e. r = Inl e \<and> \<not> is_paused_error e \<and> \<not> is_cancelled_error e \<and> \<not> is_timeout e \<longrightarrow>
         steps_started (e_id x) w' = steps_started (e_id x) w + nat max_retries + 1))"
proof -
  obtain call wl where run: "attempts en call overrides wl max_retries 1 False x w = (r, x', w')"
    using assms(4,5) by (auto simp: execute_task_with_runtime_overrides_def case_prod_unfold Let_def)
  have "nat (max_retries + 1 - 1) = nat max_retries" by simp
  then show ?thesis using attempts_steps [OF assms(1,2) run] assms(3)
    by (auto simp: calls_left_def asks_on_failure_def)
qed

definition sample_codec :: codec where
  "sample_codec = \<lparr>jc_loads = (\<lambda>s. None), jc_float = (\<lambda>r. ''0.5'')\<rparr>"

definition sample_env :: "(agent_call \<Rightarrow> Execution \<Rightarrow> world \<Rightarrow> pyval run) \<Rightarrow> engine_env" where
  "sample_env agent =
    \<lparr>en_codec = sample_codec, en_fromiso = (\<lambda>s. None), en_get_workflow = (\<lambda>i. None),
     en_get_profile = (\<lambda>i. Some \<lparr>mp_id = i, mp_max_tokens = None\<rparr>), en_resolve_client = (\<lambda>p. None), en_agent = agent,
     en_graph_before = (\<lambda>wf t a x w. w), en_graph_failure = (\<lambda>wf x a b w. w), en_completion = (\<lambda>x wf w. w),
     en_digest = (\<lambda>p. ''digest''), en_delegate = None,
     en_await = (\<lambda>i t w. (Inl (RuntimeError ''not awaited''), w)), en_metrics = [],
     en_sha256 = (\<lambda>s. ''00''), en_jitter_unit = (\<lambda>s. 0)\<rparr>"

definition sample_task :: TaskDefinition where
  "sample_task = \<lparr>td_id = ''t'', td_name = ''Task'', td_agent_id = None, td_tool_ids = [],
     td_depends_on_task_ids = [], td_human_approval_required = False, td_timeout_seconds = None,
     td_max_retries = Some 2, td_model_profile_id = None, td_max_tokens = None, td_approval_policy = None,
     td_metadata = []\<rparr>"

definition sample_agent :: AgentDefinition where
  "sample_agent = \<lparr>ad_id = ''a'', ad_name = ''Agent'', ad_model_profile_id = Some ''p'', ad_tool_ids = [],
     ad_handoff_agent_ids = [], ad_metadata = []\<rparr>"

text \<open>A task with two retries whose agent always fails is called exactly three times.\<close>

theorem attempts_are_bounded_witness:
  "steps_started ''ex-1'' (snd (snd (execute_task_with_runtime_overrides
      (sample_env (\<lambda>call x w. (Inl (ValueError ''down''), x, w))) diamond_workflow sample_task sample_agent
      \<lparr>mp_id = ''p'', mp_max_tokens = None\<rparr> [(''max_retries'', VInt 2)] None sample_execution sample_world))) =
    steps_started ''ex-1'' sample_world + 3"
proof -
  let ?en = "sample_env (\<lambda>call x w. (Inl (ValueError ''down''), x, w))"
  have en: "quiet_env ?en" by (simp add: quiet_env_def sample_env_def)
  have own: "states_own sample_world" by (simp add: states_own_def run_state_def sample_world_def)
  obtain r x' w' where run: "execute_task_with_runtime_overrides ?en diamond_workflow sample_task sample_agent
      \<lparr>mp_id = ''p'', mp_max_tokens = None\<rparr> [(''max_retries'', VInt 2)] None sample_execution sample_world = (r, x', w')"
    by (rule prod_cases3)
  have r: "r = Inl (ValueError ''down'')"
    using run by (simp add: execute_task_with_runtime_overrides_def effective_timeout_def task_timeout_of_def
        sample_env_def attempts.simps attempt_once_def asks_on_failure_def is_timeout_def
        attempt_error_def Let_def)
  show ?thesis
    using attempts_are_bounded [OF en own, of 2, OF _ _ run] r run
    by (simp add: is_timeout_def sample_execution_def)
qed

end
