(* ===== verification/Checkpoints.thy ===== *)
theory Checkpoints
  imports Task_Run
begin

text \<open>
  What \<open>app/runtime/native/engine.py\<close> stores of a run in the execution's \<open>output_payload\<close> and reads back
  when the execution, or one that replaces it, is started again. The ids a checkpoint holds are text, as the
  engine writes them.
\<close>

section \<open>Writing\<close>

definition opt_list :: "string list \<Rightarrow> pyval" where
  "opt_list xs = VList (map VStr xs)"

definition final_output :: "json \<Rightarrow> pyval" where
  "final_output node_outputs = (if node_outputs = [] then VNone else snd (last node_outputs))"

definition execution_checkpoint_payload :: "NativeExecutionState \<Rightarrow> json option \<Rightarrow> json" where
  "execution_checkpoint_payload state prior_payload =
    (let checkpoint = [(''current_node_id'', opt_str (st_current_node_id state)),
           (''current_task_id'', opt_str (st_current_task_id state)),
           (''completed_node_ids'', opt_list (dkeys (st_node_outputs state))),
           (''node_outcomes'', VDict (st_node_outcomes state)),
           (''node_errors'', VDict (st_node_errors state)),
           (''task_tool_results'', VDict (st_task_tool_results state)),
           (''planned_node_ids'', opt_list (st_planned_node_ids state)),
           (''terminal_node_ids'', opt_list (st_terminal_node_ids state))];
         prior_checkpoint = (case prior_payload of None \<Rightarrow> VNone | Some p \<Rightarrow> jget p ''checkpoint'');
         continuation = as_dict (jget (dict_or_empty prior_checkpoint) ''approval_continuation'')
     in [(''node_outputs'', VDict (st_node_outputs state)),
         (''final_output'', final_output (st_node_outputs state)),
         (''checkpoint'', VDict (put_opt ''approval_continuation'' (map_option VDict continuation) checkpoint))])"

definition reset_state :: "NativeExecutionState \<Rightarrow> NativeExecutionState" where
  "reset_state state = state\<lparr>st_node_outputs := [], st_node_outcomes := [], st_node_errors := [],
     st_task_tool_results := [], st_current_node_id := None, st_current_task_id := None,
     st_planned_node_ids := [], st_terminal_node_ids := []\<rparr>"

definition empty_checkpoint :: json where
  "empty_checkpoint =
    [(''current_node_id'', VNone), (''current_task_id'', VNone), (''completed_node_ids'', VList []),
     (''node_outcomes'', VDict []), (''node_errors'', VDict []), (''task_tool_results'', VDict []),
     (''planned_node_ids'', VList []), (''terminal_node_ids'', VList [])]"

definition cleared :: "json \<Rightarrow> Execution \<Rightarrow> Execution" where
  "cleared cycle_output execution =
    execution\<lparr>e_output_payload := Some [(''node_outputs'', VDict []), (''final_output'', VNone),
       (''checkpoint'', VDict empty_checkpoint), (''last_cycle_output'', VDict cycle_output)]\<rparr>"

definition reset_cycle_checkpoint :: "json \<Rightarrow> Execution \<Rightarrow> world \<Rightarrow> Execution \<times> world" where
  "reset_cycle_checkpoint cycle_output execution w =
    (cleared cycle_output execution, change_state (e_id execution) reset_state w)"

text \<open>
  The task nodes of a plan behind which no task node follows, in the order of the plan. The search is the
  one of the control plane (\<open>reaches_later_task\<close>).
\<close>

definition terminal_executable_node_ids :: "WorkflowDefinition \<Rightarrow> WorkflowNodeDefinition list \<Rightarrow> string list" where
  "terminal_executable_node_ids workflow ordered_nodes =
    (let task_node_ids = map n_id (filter (\<lambda>n. n_node_type n = ''task'') ordered_nodes);
         terminal_node_ids = filter (\<lambda>i. \<not> reaches_later_task (wd_edges workflow) task_node_ids
           (outgoing (wd_edges workflow) i) []) task_node_ids
     in map n_id (filter (\<lambda>n. n_id n \<in> set terminal_node_ids) ordered_nodes))"

section \<open>Reading\<close>

definition node_outputs_from_checkpoint :: "json option \<Rightarrow> json" where
  "node_outputs_from_checkpoint payload =
    (case payload of None \<Rightarrow> [] | Some p \<Rightarrow> dict_or_empty (jget p ''node_outputs''))"

definition checkpoint_of :: "json option \<Rightarrow> pyval" where
  "checkpoint_of payload = (case payload of None \<Rightarrow> VDict [] | Some p \<Rightarrow> jget p ''checkpoint'')"

text \<open>\<open>[item for item in checkpoint.get(key, []) if isinstance(item, str)]\<close>.\<close>

definition text_items :: "json \<Rightarrow> string \<Rightarrow> exc + string list" where
  "text_items checkpoint key =
    sbind (case map_of checkpoint key of None \<Rightarrow> Inr [] | Some v \<Rightarrow> py_iter v) (\<lambda>xs. Inr (List.map_filter as_str xs))"

definition checkpoint_payload_summary :: "json option \<Rightarrow> exc + json option" where
  "checkpoint_payload_summary payload =
    (let node_outputs = node_outputs_from_checkpoint payload;
         checkpoint = dict_or_empty (checkpoint_of payload)
     in if node_outputs = [] then Inr None
        else sbind (py_dict (jget checkpoint ''node_outcomes'')) (\<lambda>node_outcomes.
             sbind (py_dict (jget checkpoint ''node_errors'')) (\<lambda>node_errors.
             sbind (text_items checkpoint ''planned_node_ids'') (\<lambda>planned.
             sbind (text_items checkpoint ''terminal_node_ids'') (\<lambda>terminal.
             Inr (Some [(''completed_node_ids'', opt_list (dkeys node_outputs)),
               (''node_outcomes'', VDict node_outcomes), (''node_errors'', VDict node_errors),
               (''current_node_id'', jget checkpoint ''current_node_id''),
               (''current_task_id'', jget checkpoint ''current_task_id''),
               (''planned_node_ids'', opt_list planned), (''terminal_node_ids'', opt_list terminal)]))))))"

text \<open>
  The body that is written twice in \<open>_hydrate_resume_checkpoint\<close>, for a payload that has a summary. The
  conversions of the outcomes and errors have succeeded in the summary; the last one can still raise.
\<close>

definition hydrate_from :: "json option \<Rightarrow> NativeExecutionState \<Rightarrow> exc option \<times> NativeExecutionState" where
  "hydrate_from payload state =
    (let state1 = state\<lparr>st_node_outputs := node_outputs_from_checkpoint payload\<rparr>
     in case as_dict (checkpoint_of payload) of
          None \<Rightarrow> (None, state1)
        | Some checkpoint \<Rightarrow>
            let outcomes = py_dict (jget checkpoint ''node_outcomes'');
                errors = py_dict (jget checkpoint ''node_errors'');
                state2 = state1\<lparr>st_current_node_id := as_str (jget checkpoint ''current_node_id''),
                  st_current_task_id := as_str (jget checkpoint ''current_task_id''),
                  st_node_outcomes := (case outcomes of Inr d \<Rightarrow> d | Inl _ \<Rightarrow> st_node_outcomes state),
                  st_node_errors := (case errors of Inr d \<Rightarrow> d | Inl _ \<Rightarrow> st_node_errors state)\<rparr>
            in case py_dict (jget checkpoint ''task_tool_results'') of
                 Inl e \<Rightarrow> (Some e, state2)
               | Inr results \<Rightarrow>
                   (None, state2\<lparr>st_task_tool_results := results,
                      st_planned_node_ids := (case text_items checkpoint ''planned_node_ids'' of Inr l \<Rightarrow> l | Inl _ \<Rightarrow> []),
                      st_terminal_node_ids := (case text_items checkpoint ''terminal_node_ids'' of Inr l \<Rightarrow> l | Inl _ \<Rightarrow> [])\<rparr>))"

definition resume_source :: "Execution \<Rightarrow> string option" where
  "resume_source execution =
    (case as_str (jget (e_metadata execution) ''resume_from_execution_id'') of
       Some (c # cs) \<Rightarrow> Some (c # cs)
     | _ \<Rightarrow> e_replacement_of_execution_id execution)"

definition hydrate_resume_checkpoint ::
  "Execution \<Rightarrow> store \<Rightarrow> NativeExecutionState \<Rightarrow> (exc + json option) \<times> NativeExecutionState" where
  "hydrate_resume_checkpoint execution s state =
    (if st_node_outputs state \<noteq> [] \<or> task_retry_metadata (e_metadata execution) \<noteq> [] then (Inr None, state)
     else case checkpoint_payload_summary (e_output_payload execution) of
       Inl e \<Rightarrow> (Inl e, state)
     | Inr (Some summary) \<Rightarrow>
         (case hydrate_from (e_output_payload execution) state of
            (Some e, state') \<Rightarrow> (Inl e, state')
          | (None, state') \<Rightarrow>
              (Inr (Some ([(''source'', VStr ''execution.output_payload''),
                 (''source_execution_id'', VStr (e_id execution))] @ summary)), state'))
     | Inr None \<Rightarrow>
         (case resume_source execution of
            None \<Rightarrow> (Inr None, state)
          | Some source_id \<Rightarrow>
              if source_id = [] then (Inr None, state)
              else case get_execution source_id s of
                None \<Rightarrow> (Inr None, state)
              | Some source_execution \<Rightarrow>
                  (case checkpoint_payload_summary (e_output_payload source_execution) of
                     Inl e \<Rightarrow> (Inl e, state)
                   | Inr None \<Rightarrow> (Inr None, state)
                   | Inr (Some summary) \<Rightarrow>
                       (case hydrate_from (e_output_payload source_execution) state of
                          (Some e, state') \<Rightarrow> (Inl e, state')
                        | (None, state') \<Rightarrow>
                            (Inr (Some ([(''source'', VStr (if Some source_id = e_replacement_of_execution_id execution
                                  then ''replacement_of_execution_id''
                                  else ''execution.metadata.resume_from_execution_id'')),
                               (''source_execution_id'', VStr (e_id source_execution))] @ summary)), state')))))"

section \<open>The round trip\<close>

lemma text_items_list: "jget d k = opt_list xs \<Longrightarrow> text_items d k = Inr xs"
proof -
  assume k: "jget d k = opt_list xs"
  have "List.map_filter as_str (map VStr xs) = xs" by (induction xs) (simp_all add: map_filter_simps)
  moreover from k have "map_of d k = Some (opt_list xs)"
    by (auto simp: jget_def opt_list_def split: option.splits)
  ultimately show ?thesis by (simp add: text_items_def opt_list_def)
qed

lemma py_dict_VDict [simp]: "py_dict (VDict d) = Inr d"
  by (cases d) (simp_all add: py_dict_def)

lemma as_str_opt_str [simp]: "as_str (opt_str s) = s"
  by (cases s) simp_all

text \<open>The fields of the run that a checkpoint carries.\<close>

definition same_progress :: "NativeExecutionState \<Rightarrow> NativeExecutionState \<Rightarrow> bool" where
  "same_progress a b \<longleftrightarrow> st_node_outputs a = st_node_outputs b \<and> st_node_outcomes a = st_node_outcomes b \<and>
     st_node_errors a = st_node_errors b \<and> st_task_tool_results a = st_task_tool_results b \<and>
     st_current_node_id a = st_current_node_id b \<and> st_current_task_id a = st_current_task_id b \<and>
     st_planned_node_ids a = st_planned_node_ids b \<and> st_terminal_node_ids a = st_terminal_node_ids b"

lemma jget_put_opt_other [simp]: "k \<noteq> k' \<Longrightarrow> jget (put_opt k v d) k' = jget d k'"
  by (simp add: put_opt_def split: option.split)

definition checkpoint_dict :: "NativeExecutionState \<Rightarrow> json" where
  "checkpoint_dict state =
    [(''current_node_id'', opt_str (st_current_node_id state)),
     (''current_task_id'', opt_str (st_current_task_id state)),
     (''completed_node_ids'', opt_list (dkeys (st_node_outputs state))),
     (''node_outcomes'', VDict (st_node_outcomes state)),
     (''node_errors'', VDict (st_node_errors state)),
     (''task_tool_results'', VDict (st_task_tool_results state)),
     (''planned_node_ids'', opt_list (st_planned_node_ids state)),
     (''terminal_node_ids'', opt_list (st_terminal_node_ids state))]"

lemma checkpoint_written:
  obtains c where "jget (execution_checkpoint_payload state prior) ''checkpoint'' =
      VDict (put_opt ''approval_continuation'' c (checkpoint_dict state))"
    "jget (execution_checkpoint_payload state prior) ''node_outputs'' = VDict (st_node_outputs state)"
  unfolding execution_checkpoint_payload_def Let_def checkpoint_dict_def [symmetric] by simp

lemma checkpoint_dict_fields:
  "jget (checkpoint_dict state) ''current_node_id'' = opt_str (st_current_node_id state)"
  "jget (checkpoint_dict state) ''current_task_id'' = opt_str (st_current_task_id state)"
  "jget (checkpoint_dict state) ''node_outcomes'' = VDict (st_node_outcomes state)"
  "jget (checkpoint_dict state) ''node_errors'' = VDict (st_node_errors state)"
  "jget (checkpoint_dict state) ''task_tool_results'' = VDict (st_task_tool_results state)"
  "jget (checkpoint_dict state) ''planned_node_ids'' = opt_list (st_planned_node_ids state)"
  "jget (checkpoint_dict state) ''terminal_node_ids'' = opt_list (st_terminal_node_ids state)"
  by (simp_all add: checkpoint_dict_def)

text \<open>
  C21: A run can be taken up where it stopped: the checkpoint written for a state, stored as the payload of
  an execution that is no retry, brings an empty state back to the outputs, outcomes, errors, tool results,
  position and plan it was written for, whatever continuation it carries along.
\<close>

theorem checkpoint_roundtrip:
  assumes "e_output_payload execution = Some (execution_checkpoint_payload state prior)"
    and "st_node_outputs state \<noteq> []" and "st_node_outputs fresh = []"
    and "task_retry_metadata (e_metadata execution) = []"
  shows "\<exists>summary state'. hydrate_resume_checkpoint execution s fresh = (Inr (Some summary), state') \<and>
    same_progress state' state \<and> st_execution_id state' = st_execution_id fresh"
proof -
  obtain c where c: "jget (execution_checkpoint_payload state prior) ''checkpoint'' =
      VDict (put_opt ''approval_continuation'' c (checkpoint_dict state))"
    "jget (execution_checkpoint_payload state prior) ''node_outputs'' = VDict (st_node_outputs state)"
    by (rule checkpoint_written)
  let ?p = "Some (execution_checkpoint_payload state prior)"
  let ?c = "put_opt ''approval_continuation'' c (checkpoint_dict state)"
  have items: "text_items ?c ''planned_node_ids'' = Inr (st_planned_node_ids state)"
    "text_items ?c ''terminal_node_ids'' = Inr (st_terminal_node_ids state)"
    by (rule text_items_list, simp add: checkpoint_dict_fields)+
  have sum: "\<exists>summary. checkpoint_payload_summary ?p = Inr (Some summary)"
    using assms(2) items
    by (simp add: checkpoint_payload_summary_def node_outputs_from_checkpoint_def checkpoint_of_def c
        dict_or_empty_def checkpoint_dict_fields Let_def)
  have hyd: "\<exists>st'. hydrate_from ?p fresh = (None, st') \<and> same_progress st' state \<and> st_execution_id st' = st_execution_id fresh"
    by (simp add: hydrate_from_def node_outputs_from_checkpoint_def checkpoint_of_def c dict_or_empty_def
        checkpoint_dict_fields items Let_def same_progress_def)
  from sum hyd assms show ?thesis by (auto simp: hydrate_resume_checkpoint_def)
qed

theorem checkpoint_roundtrip_witness:
  "\<exists>execution s fresh summary state'. st_node_outputs fresh = [] \<and>
     hydrate_resume_checkpoint execution s fresh = (Inr (Some summary), state') \<and>
     st_node_outputs state' = [(''n1'', VStr ''done'')] \<and> st_node_outcomes state' = [(''n1'', VStr ''success'')]"
proof -
  define fresh where "fresh = run_state ''ex-1'' sample_world"
  define state where "state = fresh\<lparr>st_node_outputs := [(''n1'', VStr ''done'')],
    st_node_outcomes := [(''n1'', VStr ''success'')]\<rparr>"
  define e where "e = sample_execution\<lparr>e_output_payload := Some (execution_checkpoint_payload state None)\<rparr>"
  have "st_node_outputs fresh = []" by (simp add: fresh_def run_state_def sample_world_def)
  from checkpoint_roundtrip [of e state None fresh "db sample_world", OF _ _ this]
  show ?thesis using \<open>st_node_outputs fresh = []\<close>
    by (auto simp: e_def state_def sample_execution_def task_retry_metadata_def dict_or_empty_def same_progress_def)
      metis
qed

section \<open>Checkpoints and repair\<close>

text \<open>
  The ids the engine writes into a checkpoint are those the control plane computes from the workflow when a
  checkpoint has none.
\<close>

lemma reaches_cong:
  "set ts = set ts' \<Longrightarrow> reaches_later_task edges ts pending seen = reaches_later_task edges ts' pending seen"
proof (induction edges ts pending seen rule: reaches_later_task.induct)
  case (1 edges ts pending seen)
  show ?case
    by (subst (1 2) reaches_later_task.simps) (use 1 in \<open>auto simp: Let_def\<close>)
qed

theorem terminal_ids_agree:
  assumes "distinct (map n_id (wd_nodes workflow))"
  shows "set (terminal_executable_node_ids workflow (order_nodes workflow)) = set (terminal_nodes workflow)"
proof -
  have nodes: "set (order_nodes workflow) = set (wd_nodes workflow)"
    using mset_eq_setD [OF conjunct1 [OF planned_once [OF assms]]] .
  then have tasks: "set (map n_id (filter (\<lambda>n. n_node_type n = ''task'') (order_nodes workflow))) = set (task_nodes workflow)"
    by (auto simp: task_nodes_def)
  show ?thesis
    unfolding terminal_executable_node_ids_def Let_def terminal_nodes_def reaches_cong [OF tasks]
    using nodes by (auto simp: task_nodes_def)
qed

lemma node_ids_list:
  assumes "jget d k = opt_list xs" and "[] \<notin> set xs"
  shows "node_ids d k = Inr xs"
proof -
  have "concat (map node_id (map VStr xs)) = xs"
  proof (use assms(2) in \<open>induction xs\<close>)
    case (Cons a xs)
    then show ?case by (cases a) simp_all
  qed simp
  moreover have "map_of d k = Some (opt_list xs)"
    using assms(1) by (auto simp: jget_def opt_list_def split: option.splits)
  ultimately show ?thesis by (simp add: node_ids_def opt_list_def)
qed

lemma checkpoint_recognised:
  assumes "e_output_payload e = Some (execution_checkpoint_payload state prior)"
    and "st_terminal_node_ids state \<noteq> []" and "[] \<notin> set (st_terminal_node_ids state)"
    and "[] \<notin> set (dkeys (st_node_outputs state))"
  shows "has_completed_workflow_checkpoint p e =
    Inr (st_node_outputs state \<noteq> [] \<and> set (st_terminal_node_ids state) \<subseteq> set (dkeys (st_node_outputs state)))"
proof -
  obtain c where c: "jget (execution_checkpoint_payload state prior) ''checkpoint'' =
      VDict (put_opt ''approval_continuation'' c (checkpoint_dict state))"
    by (rule checkpoint_written)
  let ?c = "put_opt ''approval_continuation'' c (checkpoint_dict state)"
  obtain f where final: "map_of (execution_checkpoint_payload state prior) ''final_output'' = Some f"
    by (simp add: execution_checkpoint_payload_def Let_def)
  have ids: "node_ids ?c ''completed_node_ids'' = Inr (dkeys (st_node_outputs state))"
    "node_ids ?c ''terminal_node_ids'' = Inr (st_terminal_node_ids state)"
    by (rule node_ids_list; use assms(3,4) in \<open>simp add: checkpoint_dict_def\<close>)+
  show ?thesis using assms(1,2) final ids
    by (simp add: has_completed_workflow_checkpoint_def c dkeys_def)
qed

text \<open>
  The checkpoint of a run whose last task node failed looks finished to repair: the failed node has an
  output, its error is not read, and a stale running execution is stored as completed, where the engine
  itself ends such a run as failed.
\<close>

theorem failed_run_repaired_as_completed:
  assumes "e_output_payload e = Some (execution_checkpoint_payload state prior)" and "e_status e = RUNNING"
    and "st_terminal_node_ids state \<noteq> []" and "[] \<notin> set (dkeys (st_node_outputs state))"
    and "set (st_terminal_node_ids state) \<subseteq> set (dkeys (st_node_outputs state))"
  shows "\<exists>item w' e'. repair_execution p c e w = (Inr item, w') \<and>
    get_execution (e_id e) (db w') = Some e' \<and> e_status e' = COMPLETED"
proof -
  have "[] \<notin> set (st_terminal_node_ids state)" "st_node_outputs state \<noteq> []"
    using assms(3-5) by (auto simp: dkeys_def)
  then have "has_completed_workflow_checkpoint p e = Inr True"
    using checkpoint_recognised [OF assms(1,3)] assms(4,5) by simp
  from repair_execution_effect [OF this] assms(2)
  show ?thesis by (fastforce simp: repaired_def repair_result_def)
qed

text \<open>A run with one task node that failed and whose worker died before the execution was settled.\<close>

theorem failed_run_repaired_as_completed_witness:
  "\<exists>state e item w' e'. st_node_errors state = [(''n1'', VStr ''boom'')] \<and>
     st_node_outcomes state = [(''n1'', VStr ''failure'')] \<and>
     e_output_payload e = Some (execution_checkpoint_payload state None) \<and> e_status e = RUNNING \<and>
     repair_execution sample_plane (classify_stale_execution sample_plane 100 sample_execution) e sample_world
       = (Inr item, w') \<and>
     get_execution (e_id e) (db w') = Some e' \<and> e_status e' = COMPLETED"
proof -
  define state where "state = (run_state ''ex-1'' sample_world)\<lparr>st_node_outputs := [(''n1'', VDict [(''status'', VStr ''failed'')])],
    st_node_outcomes := [(''n1'', VStr ''failure'')], st_node_errors := [(''n1'', VStr ''boom'')],
    st_terminal_node_ids := [''n1'']\<rparr>"
  define e where "e = sample_execution\<lparr>e_output_payload := Some (execution_checkpoint_payload state None), e_status := RUNNING\<rparr>"
  have "e_output_payload e = Some (execution_checkpoint_payload state None)" "e_status e = RUNNING"
    by (simp_all add: e_def)
  moreover have "st_terminal_node_ids state \<noteq> []" "[] \<notin> set (dkeys (st_node_outputs state))"
    "set (st_terminal_node_ids state) \<subseteq> set (dkeys (st_node_outputs state))"
    by (simp_all add: state_def dkeys_def)
  moreover have "st_node_errors state = [(''n1'', VStr ''boom'')]" "st_node_outcomes state = [(''n1'', VStr ''failure'')]"
    by (simp_all add: state_def)
  ultimately show ?thesis using failed_run_repaired_as_completed [of e state None] by metis
qed

end
