(* ===== verification/Cycles.thy ===== *)
theory Cycles
  imports Checkpoints
begin

text \<open>
  Persistent cycles of \<open>app/runtime/native/engine.py\<close>: an execution that always runs sleeps on a durable
  timer between two runs of its workflow. The record of the cycle is a part of the execution's metadata. A
  step that can raise leaves the \<open>Execution\<close> object and the world as they are at that point. Delays are exact.
\<close>

section \<open>The record of the cycle\<close>

definition cycle_of :: "Execution \<Rightarrow> json" where
  "cycle_of execution = dict_or_empty (jget (e_metadata execution) ''persistent_cycle'')"

definition put_cycle :: "json \<Rightarrow> Execution \<Rightarrow> Execution" where
  "put_cycle cycle execution =
    execution\<lparr>e_metadata := dset ''persistent_cycle'' (VDict cycle) (e_metadata execution)\<rparr>"

text \<open>\<open>_positive_int(cycle.get("cycle_number")) or 1\<close>.\<close>

definition cycle_number_of :: "json \<Rightarrow> exc + int" where
  "cycle_number_of cycle =
    sbind (engine_positive_int (jget cycle ''cycle_number'')) (\<lambda>n. Inr (opt_else n 1))"

definition mark_persistent_cycle_started ::
  "PersistentCyclePolicy \<Rightarrow> datetime \<Rightarrow> Execution \<Rightarrow> (exc + int option) \<times> Execution" where
  "mark_persistent_cycle_started policy now execution =
    (if \<not> pc_enabled policy then (Inr None, execution)
     else let cycle = cycle_of execution in
       case sbind (engine_positive_int (jget cycle ''next_cycle_number'')) (\<lambda>next_cycle.
              case next_cycle of Some n \<Rightarrow> Inr n | None \<Rightarrow> cycle_number_of cycle) of
         Inl e \<Rightarrow> (Inl e, put_cycle cycle execution)
       | Inr cycle_number \<Rightarrow>
           (Inr (Some cycle_number),
            put_cycle (dpop ''next_wake_at'' (dpop ''next_cycle_number''
              (dmerge cycle [(''enabled'', VBool True), (''cycle_number'', VInt cycle_number),
                 (''phase'', VStr ''running''), (''cycle_started_at'', VStr (isoformat now))]))) execution))"

definition append_cycle_history :: "PersistentCyclePolicy \<Rightarrow> json \<Rightarrow> json \<Rightarrow> json" where
  "append_cycle_history policy item cycle =
    (let history = (case as_list (jget cycle ''history'') of None \<Rightarrow> [] | Some l \<Rightarrow> l)
     in dset ''history'' (VList (last_n (nat (pc_history_limit policy)) (history @ [VDict item]))) cycle)"

definition cycle_progress_signature :: "engine_env \<Rightarrow> json \<Rightarrow> string" where
  "cycle_progress_signature en output_payload =
    en_sha256 en (json_dumps (jc_float (en_codec en)) '','' '':'' (VDict output_payload))"

definition jitter_multiplier :: "rat \<Rightarrow> pyfloat \<Rightarrow> pyfloat" where
  "jitter_multiplier unit ratio =
    (case ratio of Fin j \<Rightarrow> mk_float (1 + (unit * 2 - 1) * j) | f \<Rightarrow> fmult (Fin (unit * 2 - 1)) f)"

definition cycle_delay_with_jitter :: "engine_env \<Rightarrow> string \<Rightarrow> int \<Rightarrow> pyfloat \<Rightarrow> pyfloat \<Rightarrow> pyfloat" where
  "cycle_delay_with_jitter en execution_id cycle_number delay_seconds ratio =
    (if fle ratio (Fin 0) then delay_seconds
     else let unit = en_jitter_unit en (execution_id @ '':'' @ int_str cycle_number)
          in fmax (Fin (1 / 1000)) (fmult delay_seconds (jitter_multiplier unit ratio)))"

section \<open>Pausing and sleeping\<close>

definition pause_persistent_cycle_for_guard ::
  "json \<Rightarrow> string \<Rightarrow> json \<Rightarrow> Execution \<Rightarrow> world \<Rightarrow> unit run" where
  "pause_persistent_cycle_for_guard cycle_output reason detail execution w =
    (let cycle = cycle_of execution; x1 = put_cycle cycle execution in
     case cycle_number_of cycle of
       Inl e \<Rightarrow> (Inl e, x1, w)
     | Inr cycle_number \<Rightarrow>
         let x2 = put_cycle (dmerge cycle [(''phase'', VStr ''guarded''), (''guard_reason'', VStr reason),
                    (''next_cycle_number'', VInt (cycle_number + 1))]) x1;
             (x3, w1) = reset_cycle_checkpoint cycle_output x2 w;
             x4 = x3\<lparr>e_status := PAUSED, e_completed_at := None\<rparr>;
             w2 = run_note (e_id x4) EXECUTION_CYCLE_GUARD_TRIGGERED
                    ([(''cycle_number'', VInt cycle_number), (''reason'', VStr reason)] @ detail) (db_update_execution x4 w1)
         in (Inr (), x4, run_note (e_id x4) EXECUTION_PAUSED
               [(''execution_id'', VStr (e_id x4)), (''reason'', VStr reason), (''source'', VStr ''persistent_cycle'')] w2))"

definition cycle_wait ::
  "Execution \<Rightarrow> PersistentCyclePolicy \<Rightarrow> string \<Rightarrow> int \<Rightarrow> datetime \<Rightarrow> string \<Rightarrow> datetime \<Rightarrow> ExecutionWait" where
  "cycle_wait execution policy reason cycle_number wake_at wait_id now =
    \<lparr>w_id = wait_id, w_execution_id = e_id execution, w_kind = SLEEP, w_status = PENDING,
     w_idempotency_key = ''persistent-cycle:'' @ int_str (cycle_number + 1),
     w_correlation_key = None, w_checkpoint = (case e_output_payload execution of None \<Rightarrow> [] | Some p \<Rightarrow> p),
     w_request_payload = [(''reason'', VStr reason), (''completed_cycle_number'', VInt cycle_number),
       (''next_cycle_number'', VInt (cycle_number + 1))],
     w_policy = cycle_policy_dump policy, w_resolution_payload = None, w_resolution_key = None,
     w_wake_at = Some wake_at, w_deadline_at = None, w_resolved_at = None, w_resolved_by = None,
     w_created_at = now, w_updated_at = now,
     w_metadata = [(''source'', VStr ''persistent_cycle''), (''reason'', VStr reason)]\<rparr>"

text \<open>The wait the store has under the key, with the answer to a second pending wait.\<close>

definition stored_cycle_wait :: "ExecutionWait \<Rightarrow> store \<Rightarrow> exc + ExecutionWait \<times> store" where
  "stored_cycle_wait wait s =
    (case create_execution_wait wait s of
       Inr (saved, s') \<Rightarrow> Inr (saved, s')
     | Inl e \<Rightarrow>
         if \<not> is_value_error e then Inl e
         else case list_execution_waits (w_execution_id wait) (Some PENDING) s of
           pending # _ \<Rightarrow> if w_idempotency_key pending = w_idempotency_key wait then Inr (pending, s) else Inl e
         | [] \<Rightarrow> Inl e)"

definition sleep_on :: "datetime \<Rightarrow> int \<Rightarrow> ExecutionWait \<Rightarrow> Execution \<Rightarrow> world \<Rightarrow> unit run" where
  "sleep_on wake_at next_cycle_number wait execution w =
    (let x = execution\<lparr>e_status := SLEEPING, e_metadata := dset ''active_wait''
               (VDict [(''wait_id'', VStr (w_id wait)), (''kind'', VStr (wait_kind_value (w_kind wait))),
                  (''created_at'', VStr (isoformat (w_created_at wait))), (''wake_at'', VStr (isoformat wake_at)),
                  (''deadline_at'', VNone)]) (e_metadata execution)\<rparr>
     in (Inr (), x, run_note (e_id x) EXECUTION_WAITING
           [(''wait_id'', VStr (w_id wait)), (''kind'', VStr (wait_kind_value (w_kind wait))),
            (''status'', VStr (wait_status_value (w_status wait))), (''wake_at'', VStr (isoformat wake_at)),
            (''source'', VStr ''persistent_cycle''), (''next_cycle_number'', VInt next_cycle_number)]
           (db_update_execution x w)))"

text \<open>The execution as \<open>schedule_persistent_cycle\<close> stores it before it creates the wait.\<close>

definition parked_for_cycle ::
  "json \<Rightarrow> int \<Rightarrow> datetime \<Rightarrow> pyfloat \<Rightarrow> pyfloat \<Rightarrow> Execution \<Rightarrow> Execution" where
  "parked_for_cycle cycle_output n wake_at delay effective x =
    (cleared cycle_output
      (put_cycle (dmerge (cycle_of x) [(''phase'', VStr ''sleeping''),
         (''next_cycle_number'', VInt (n + 1)), (''next_wake_at'', VStr (isoformat wake_at)),
         (''last_base_delay_seconds'', VFloat delay), (''last_delay_seconds'', VFloat effective)])
        x))\<lparr>e_status := PAUSED, e_completed_at := None\<rparr>"

definition schedule_persistent_cycle ::
  "engine_env \<Rightarrow> PersistentCyclePolicy \<Rightarrow> json \<Rightarrow> pyfloat \<Rightarrow> string \<Rightarrow> Execution \<Rightarrow> world \<Rightarrow> unit run" where
  "schedule_persistent_cycle en policy cycle_output delay_seconds reason execution w =
    (let cycle = cycle_of execution; x1 = put_cycle cycle execution in
     case cycle_number_of cycle of
       Inl e \<Rightarrow> (Inl e, x1, w)
     | Inr cycle_number \<Rightarrow>
         let effective = cycle_delay_with_jitter en (e_id execution) (cycle_number + 1) delay_seconds
               (pc_jitter_ratio policy)
         in case add_seconds (clock w) effective of
              Inl e \<Rightarrow> (Inl e, x1, w)
            | Inr wake_at \<Rightarrow>
                let x4 = parked_for_cycle cycle_output cycle_number wake_at delay_seconds effective execution;
                    (wait_id, w2) = uuid4 (db_update_execution x4 (change_state (e_id execution) reset_state w))
                in case sbind (validate_lifecycle (cycle_wait x4 policy reason cycle_number wake_at wait_id (clock w2)))
                          (\<lambda>wait. stored_cycle_wait wait (db w2)) of
                     Inl e \<Rightarrow> (Inl e, x4, w2)
                   | Inr (saved, s) \<Rightarrow> sleep_on wake_at (cycle_number + 1) saved x4 (w2\<lparr>db := s\<rparr>))"

section \<open>The end of a cycle\<close>

text \<open>\<open>now + timedelta(seconds=delay) >= deadline\<close>, when there is a deadline.\<close>

definition past_deadline :: "PersistentCyclePolicy \<Rightarrow> datetime \<Rightarrow> pyfloat \<Rightarrow> exc + bool" where
  "past_deadline policy now delay_seconds =
    (case pc_deadline_at policy of
       None \<Rightarrow> Inr False
     | Some deadline \<Rightarrow> sbind (add_seconds now delay_seconds) (\<lambda>t. Inr (deadline \<le> t)))"

definition finished_cycle :: "engine_env \<Rightarrow> PersistentCyclePolicy \<Rightarrow> json \<Rightarrow> datetime \<Rightarrow> int \<Rightarrow> int \<Rightarrow> json \<Rightarrow> json" where
  "finished_cycle en policy cycle_output now cycle_number no_progress_cycles cycle =
    (let signature = cycle_progress_signature en cycle_output
     in append_cycle_history policy
          [(''cycle_number'', VInt cycle_number), (''status'', VStr ''completed''),
           (''completed_at'', VStr (isoformat now)), (''progress_signature'', VStr signature)]
          (dpop ''last_error''
            (dmerge cycle [(''cycle_number'', VInt cycle_number), (''consecutive_failures'', VInt 0),
               (''no_progress_cycles'', VInt no_progress_cycles), (''last_progress_signature'', VStr signature),
               (''last_cycle_completed_at'', VStr (isoformat now)), (''last_cycle_status'', VStr ''completed'')])))"

definition count_no_progress :: "json \<Rightarrow> string \<Rightarrow> exc + int" where
  "count_no_progress cycle signature =
    (if jget cycle ''last_progress_signature'' = VStr signature then
       sbind (non_negative_int (jget cycle ''no_progress_cycles'')) (\<lambda>n. Inr (opt_else n 0 + 1))
     else Inr 0)"

definition terminal_reason :: "PersistentCyclePolicy \<Rightarrow> datetime \<Rightarrow> int \<Rightarrow> exc + string option" where
  "terminal_reason policy now cycle_number =
    (if (case pc_max_cycles policy of None \<Rightarrow> False | Some m \<Rightarrow> m \<le> cycle_number) then Inr (Some ''max_cycles_reached'')
     else sbind (past_deadline policy now (pc_interval_seconds policy)) (\<lambda>late.
       Inr (if late then Some ''deadline_reached'' else None)))"

text \<open>What follows the event of a finished cycle: the end of the loop, the guard or the next timer.\<close>

definition continue_cycle ::
  "engine_env \<Rightarrow> PersistentCyclePolicy \<Rightarrow> json \<Rightarrow> string option \<Rightarrow> int \<Rightarrow> Execution \<Rightarrow> world \<Rightarrow> bool run" where
  "continue_cycle en policy cycle_output reason no_progress_cycles execution w =
    (case reason of
       Some r \<Rightarrow>
         (Inr False, put_cycle (dmerge (cycle_of execution) [(''phase'', VStr ''completed''), (''terminal_reason'', VStr r)])
            execution, w)
     | None \<Rightarrow>
         if (case pc_max_no_progress_cycles policy of None \<Rightarrow> False | Some m \<Rightarrow> m \<le> no_progress_cycles) then
           rbind (pause_persistent_cycle_for_guard cycle_output ''no_progress_limit_reached''
               [(''no_progress_cycles'', VInt no_progress_cycles)] execution w) (\<lambda>_ x w. (Inr True, x, w))
         else
           rbind (schedule_persistent_cycle en policy cycle_output (pc_interval_seconds policy)
               ''cycle_completed'' execution w) (\<lambda>_ x w. (Inr True, x, w)))"

definition handle_persistent_cycle_success ::
  "engine_env \<Rightarrow> PersistentCyclePolicy \<Rightarrow> json \<Rightarrow> Execution \<Rightarrow> world \<Rightarrow> bool run" where
  "handle_persistent_cycle_success en policy cycle_output execution w =
    (if \<not> pc_enabled policy then (Inr False, execution, w)
     else
       let now = clock w; cycle = cycle_of execution; x1 = put_cycle cycle execution;
           signature = cycle_progress_signature en cycle_output
       in case sbind (cycle_number_of cycle) (\<lambda>n. sbind (count_no_progress cycle signature) (\<lambda>k. Inr (n, k))) of
            Inl e \<Rightarrow> (Inl e, x1, w)
          | Inr (cycle_number, no_progress_cycles) \<Rightarrow>
              let cycle1 = finished_cycle en policy cycle_output now cycle_number no_progress_cycles cycle;
                  x2 = put_cycle cycle1 (x1\<lparr>e_error := None\<rparr>)
              in case terminal_reason policy now cycle_number of
                   Inl e \<Rightarrow> (Inl e, x2, w)
                 | Inr reason \<Rightarrow>
                     let w1 = run_note (e_id x2) EXECUTION_CYCLE_COMPLETED
                           [(''cycle_number'', VInt cycle_number), (''progress_signature'', VStr signature),
                            (''no_progress_cycles'', VInt no_progress_cycles), (''terminal_reason'', opt_str reason)] w
                     in continue_cycle en policy cycle_output reason no_progress_cycles x2 w1)"

text \<open>The delay after the given number of failures in a row.\<close>

definition failure_delay :: "PersistentCyclePolicy \<Rightarrow> int \<Rightarrow> exc + pyfloat" where
  "failure_delay policy consecutive_failures =
    sbind (fpow (pc_failure_backoff_multiplier policy) (nat (consecutive_failures - 1))) (\<lambda>factor.
      Inr (fmin (pc_max_interval_seconds policy) (fmult (pc_interval_seconds policy) factor)))"

definition failed_cycle :: "PersistentCyclePolicy \<Rightarrow> datetime \<Rightarrow> int \<Rightarrow> int \<Rightarrow> string \<Rightarrow> json \<Rightarrow> json" where
  "failed_cycle policy now cycle_number consecutive_failures error cycle =
    append_cycle_history policy
      [(''cycle_number'', VInt cycle_number), (''status'', VStr ''failed''),
       (''completed_at'', VStr (isoformat now)), (''error'', VStr error)]
      (dmerge cycle [(''cycle_number'', VInt cycle_number), (''consecutive_failures'', VInt consecutive_failures),
         (''last_cycle_completed_at'', VStr (isoformat now)), (''last_cycle_status'', VStr ''failed''),
         (''last_error'', VStr error)])"

definition handle_persistent_cycle_failure ::
  "engine_env \<Rightarrow> WorkflowDefinition \<Rightarrow> PersistentCyclePolicy \<Rightarrow> string \<Rightarrow> Execution \<Rightarrow> world \<Rightarrow> unit run" where
  "handle_persistent_cycle_failure en workflow policy error execution w =
    (let now = clock w; cycle = cycle_of execution; x1 = put_cycle cycle execution
     in case sbind (cycle_number_of cycle) (\<lambda>n.
            sbind (non_negative_int (jget cycle ''consecutive_failures'')) (\<lambda>k. Inr (n, opt_else k 0 + 1))) of
          Inl e \<Rightarrow> (Inl e, x1, w)
        | Inr (cycle_number, consecutive_failures) \<Rightarrow>
            let failed_output = execution_checkpoint_payload (run_state (e_id execution) w) None;
                x2 = put_cycle (failed_cycle policy now cycle_number consecutive_failures error cycle)
                  (x1\<lparr>e_error := Some error\<rparr>);
                (failure_event, w1) = run_emit (e_id x2) EXECUTION_CYCLE_FAILED None
                  [(''cycle_number'', VInt cycle_number), (''error'', VStr error),
                   (''consecutive_failures'', VInt consecutive_failures)] (en_metrics en) [] None None w;
                w2 = en_graph_failure en workflow x2 error (ev_id failure_event) w1;
                detail = [(''consecutive_failures'', VInt consecutive_failures)]
            in if pc_max_consecutive_failures policy \<le> consecutive_failures then
                 pause_persistent_cycle_for_guard failed_output ''max_consecutive_failures_reached'' detail x2 w2
               else case sbind (failure_delay policy consecutive_failures) (\<lambda>delay.
                   sbind (past_deadline policy now delay) (\<lambda>late. Inr (delay, late))) of
                 Inl e \<Rightarrow> (Inl e, x2, w2)
               | Inr (delay, late) \<Rightarrow>
                   if late then
                     pause_persistent_cycle_for_guard failed_output ''deadline_reached_after_failure'' detail x2 w2
                   else schedule_persistent_cycle en policy failed_output delay ''cycle_failed'' x2 w2)"

section \<open>Sleeping between cycles\<close>

lemma cycle_of_put [simp]: "cycle_of (put_cycle c x) = c"
  by (simp add: cycle_of_def put_cycle_def dict_or_empty_def)

lemma put_cycle_simps [simp]:
  "e_id (put_cycle c x) = e_id x" "e_status (put_cycle c x) = e_status x"
  "e_output_payload (put_cycle c x) = e_output_payload x" "e_error (put_cycle c x) = e_error x"
  by (simp_all add: put_cycle_def)

lemma jget_dmerge_other [simp]: "k \<notin> fst ` set d \<Longrightarrow> jget (dmerge c d) k = jget c k"
  by (induction d arbitrary: c rule: rev_induct) (auto simp: dmerge_def)

lemma jget_dmerge_last: "jget (dmerge c (d @ [(k, v)])) k' = (if k' = k then v else jget (dmerge c d) k')"
  by (simp add: dmerge_def)

lemma run_note_quiet:
  assumes "ty \<notin> set ACTIVITY_EVENT_TYPES"
  shows "executions (db (run_note i ty p w)) = executions (db w)"
    and "waits (db (run_note i ty p w)) = waits (db w)"
    and "clock (run_note i ty p w) = clock w"
    and "approval_requests (db (run_note i ty p w)) = approval_requests (db w)"
  using assms by (simp_all add: run_note_def run_emit_def Let_def case_prod_unfold emit_executions(1))

lemma cycle_wait_simps [simp]:
  "w_id (cycle_wait x p r n t wid now) = wid" "w_execution_id (cycle_wait x p r n t wid now) = e_id x"
  "w_status (cycle_wait x p r n t wid now) = PENDING" "w_kind (cycle_wait x p r n t wid now) = SLEEP"
  "w_idempotency_key (cycle_wait x p r n t wid now) = ''persistent-cycle:'' @ int_str (n + 1)"
  "w_wake_at (cycle_wait x p r n t wid now) = Some t"
  by (simp_all add: cycle_wait_def)

lemma parked_for_cycle_simps [simp]:
  "e_id (parked_for_cycle out n t d ef x) = e_id x"
  "jget (cycle_of (parked_for_cycle out n t d ef x)) ''next_cycle_number'' = VInt (n + 1)"
  "jget (cycle_of (parked_for_cycle out n t d ef x)) ''phase'' = VStr ''sleeping''"
proof -
  have c: "cycle_of (parked_for_cycle out n t d ef x) = dmerge (cycle_of x) [(''phase'', VStr ''sleeping''),
         (''next_cycle_number'', VInt (n + 1)), (''next_wake_at'', VStr (isoformat t)),
         (''last_base_delay_seconds'', VFloat d), (''last_delay_seconds'', VFloat ef)]"
    by (simp add: parked_for_cycle_def cleared_def cycle_of_def put_cycle_def dict_or_empty_def)
  show "jget (cycle_of (parked_for_cycle out n t d ef x)) ''next_cycle_number'' = VInt (n + 1)"
    "jget (cycle_of (parked_for_cycle out n t d ef x)) ''phase'' = VStr ''sleeping''"
    unfolding c by (simp_all add: dmerge_def)
qed (simp add: parked_for_cycle_def cleared_def)

lemma schedule_effect:
  assumes run: "schedule_persistent_cycle en policy out delay reason x w = (Inr (), x', w')"
    and inv: "ledger_inv (db w)" and keyed: "keyed (db w)" and fresh: "uuid_fresh w"
    and n: "cycle_number_of (cycle_of x) = Inr n"
    and unused: "key_unused (e_id x) (''persistent-cycle:'' @ int_str (n + 1)) (db w)"
    and none: "list_execution_waits (e_id x) (Some PENDING) (db w) = []"
  obtains wait wake_at where
    "add_seconds (clock w) (cycle_delay_with_jitter en (e_id x) (n + 1) delay (pc_jitter_ratio policy)) = Inr wake_at"
    "suspended_on (e_id x) wait (db w')" "w_kind wait = SLEEP" "w_wake_at wait = Some wake_at"
    "e_id x' = e_id x" "e_status x' = SLEEPING" "jget (cycle_of x') ''next_cycle_number'' = VInt (n + 1)"
    "e_output_payload x' = e_output_payload (cleared out x)" "ledger_inv (db w')"
proof -
  let ?ef = "cycle_delay_with_jitter en (e_id x) (n + 1) delay (pc_jitter_ratio policy)"
  obtain wake_at where t: "add_seconds (clock w) ?ef = Inr wake_at"
    using run by (auto simp: schedule_persistent_cycle_def n Let_def split: sum.splits)
  define x4 where "x4 = parked_for_cycle out n wake_at delay ?ef x"
  have x4: "e_id x4 = e_id x" "jget (cycle_of x4) ''next_cycle_number'' = VInt (n + 1)"
    "e_output_payload x4 = e_output_payload (cleared out x)" by (simp_all add: x4_def)
      (simp add: parked_for_cycle_def cleared_def)
  define w1 where "w1 = db_update_execution x4 (change_state (e_id x) reset_state w)"
  obtain wid w2 where u: "uuid4 w1 = (wid, w2)" by fastforce
  have w1: "waits (db w1) = waits (db w)" "keyed (db w1)" "clock w1 = clock w" "uuid_supply w1 = uuid_supply w"
    "uuid_count w1 = uuid_count w"
    using keyed by (simp_all add: w1_def change_state_def)
  have w2: "db w2 = db w1" "clock w2 = clock w" and wid: "wid = uuid_supply w (uuid_count w)"
    using u w1 by (auto simp: uuid4_def)
  let ?v = "cycle_wait x4 policy reason n wake_at wid (clock w)"
  have step: "(case sbind (validate_lifecycle ?v) (\<lambda>wait. stored_cycle_wait wait (db w2)) of
       Inl e \<Rightarrow> (Inl e, x4, w2)
     | Inr (saved, s) \<Rightarrow> sleep_on wake_at (n + 1) saved x4 (w2\<lparr>db := s\<rparr>)) = (Inr (), x', w')"
    using run w2(2) u
    by (simp add: schedule_persistent_cycle_def n t Let_def x4_def [symmetric] w1_def [symmetric])
  then obtain v saved s where v: "validate_lifecycle ?v = Inr v" "stored_cycle_wait v (db w2) = Inr (saved, s)"
    and sl: "sleep_on wake_at (n + 1) saved x4 (w2\<lparr>db := s\<rparr>) = (Inr (), x', w')"
    by (auto simp: sbind_def split: sum.splits)
  have v_eq: "v = ?v"
    using validate_lifecycle_guards [of ?v] v(1) validate_lifecycle_InrE [OF v(1)] by simp
  have ok: "op_ok (Create v)" using v(1) by (simp add: v_eq)
  have "find (\<lambda>item. w_execution_id item = w_execution_id v \<and> w_idempotency_key item = w_idempotency_key v)
      (dvalues (waits (db w2))) = None"
    using unused by (auto simp: find_None_iff key_unused_def list_all_iff v_eq x4 w2 w1)
  moreover have "\<not> (\<exists>item \<in> set (dvalues (waits (db w2))). w_execution_id item = w_execution_id v \<and> w_status item = PENDING)"
    using none in_pending_list [of _ "e_id x" "db w"] by (auto simp: v_eq x4 w2 w1)
  ultimately have c: "create_execution_wait v (db w2) = Inr (v, (db w2)\<lparr>waits := dset wid v (waits (db w2))\<rparr>)"
    by (simp add: create_execution_wait_def v_eq)
  then have s: "saved = v" "s = (db w2)\<lparr>waits := dset wid v (waits (db w2))\<rparr>"
    using v(2) by (auto simp: stored_cycle_wait_def)
  have inv2: "ledger_inv (db w2)" using inv w2 w1 by (simp add: ledger_inv_def)
  have invs: "ledger_inv s"
  proof -
    have "get_execution_wait (w_id v) (db w2) = None"
      using fresh w1(1) by (simp add: v_eq wid w2 uuid_fresh_def get_execution_wait_def)
    then show ?thesis using mem.step_invar [OF inv2 ok] c by (simp add: s v_eq)
  qed
  have ks: "keyed s" using w1(2) by (simp add: s w2 keyed_def)
  have na: "EXECUTION_WAITING \<notin> set ACTIVITY_EVENT_TYPES" by (simp add: ACTIVITY_EVENT_TYPES_def)
  have fin: "e_id x' = e_id x" "e_status x' = SLEEPING" "cycle_of x' = cycle_of x4"
    "e_output_payload x' = e_output_payload x4" "waits (db w') = waits s"
    "get_execution (e_id x) (db w') = Some (x'\<lparr>e_updated_at := clock w\<rparr>)" "waits_on x' (w_id v)"
    using sl run_note_quiet(1,2) [OF na] w2(2)
    by (auto simp: sleep_on_def Let_def x4 cycle_of_def s(1) get_execution_def waits_on_def
        db_update_execution_def update_execution_def repo_save_execution_def)
  show thesis
  proof (rule that [OF t, of v])
    show "suspended_on (e_id x) v (db w')"
      using fin by (simp add: suspended_on_def v_eq x4 s get_execution_wait_def waits_on_def)
    show "ledger_inv (db w')" using invs fin(5) by (simp add: ledger_inv_def)
  qed (use fin x4 in \<open>simp_all add: v_eq\<close>)
qed

section \<open>Delays\<close>

lemma mk_float_ge: "1 \<le> a \<Longrightarrow> fle (Fin b) (mk_float a) \<longleftrightarrow> b \<le> a \<or> float_bound \<le> a"
  using float_bound_large by (auto simp: mk_float_def not_less)

lemma fmult_ge: "fle (Fin 1) a \<Longrightarrow> fle (Fin 1) f \<Longrightarrow> fle a (fmult a f)"
proof (cases a; cases f)
  fix r t assume "fle (Fin 1) a" "fle (Fin 1) f" "a = Fin r" "f = Fin t"
  moreover then have "r * 1 \<le> r * t" by (intro mult_left_mono) auto
  moreover from calculation have "1 \<le> r * t" using mult_mono [of 1 r 1 t] by simp
  ultimately show ?thesis by (auto simp: mk_float_ge)
qed auto

lemma mk_float_mono: "1 \<le> a \<Longrightarrow> a \<le> b \<Longrightarrow> fle (mk_float a) (mk_float b)"
  using float_bound_large by (auto simp: mk_float_def not_less)

lemma mk_float_not_NaN [simp]: "mk_float a \<noteq> NaN"
  by (simp add: mk_float_def)

lemma fmult_mono:
  assumes "fle (Fin 1) a" and "fle (Fin 1) f" and "fle f g"
  shows "fle (fmult a f) (fmult a g)"
proof (cases a; cases f; cases g)
  fix r t u assume e: "a = Fin r" "f = Fin t" "g = Fin u"
  then have "r * t \<le> r * u" "r * 1 \<le> r * t" using assms by (auto intro!: mult_left_mono)
  moreover have "1 \<le> r * t" using assms e mult_mono [of 1 r 1 t] by simp
  ultimately show ?thesis using assms e by (auto intro!: mk_float_mono)
next
  fix r t assume e: "a = Fin r" "f = Fin t" "g = PInf"
  then show ?thesis using assms by (cases "mk_float (r * t)") auto
qed (use assms in auto)

lemma fpow_ge:
  assumes "fle (Fin 1) b" and "fpow b n = Inr f"
  shows "fle (Fin 1) f"
proof (cases b)
  case (Fin r)
  then have "1 \<le> r" using assms(1) by simp
  then have "1 \<le> r ^ n" by (rule one_le_power)
  then show ?thesis using assms(2) Fin by (auto simp: mk_float_def split: if_splits)
next
  case PInf
  then show ?thesis using assms(2) by (cases n) auto
qed (use assms in auto)

lemma fpow_mono:
  assumes "fle (Fin 1) b" and "fpow b n = Inr f" and "fpow b (Suc n) = Inr g"
  shows "fle f g"
proof (cases b)
  case (Fin r)
  then have "1 \<le> r" using assms(1) by simp
  then have "1 \<le> r ^ n" "r ^ n \<le> r ^ Suc n" by (simp_all add: one_le_power)
  then show ?thesis using assms(2,3) Fin by (auto simp: mk_float_def split: if_splits)
next
  case PInf
  then show ?thesis using assms(2,3) by (cases n) auto
qed (use assms in auto)

lemma fmin_mono: "fle a b \<Longrightarrow> m \<noteq> NaN \<Longrightarrow> fle (fmin m a) (fmin m b)"
  by (cases a; cases b; cases m) (auto simp: fmin_def)

lemma fmin_absorb: "fle a m \<Longrightarrow> fle a b \<Longrightarrow> fle a (fmin m b)"
  by (auto simp: fmin_def)

lemma fle_not_NaN: "fle a b \<Longrightarrow> a \<noteq> NaN \<and> b \<noteq> NaN"
  by (cases a; cases b) auto

text \<open>
  The delay after failures in a row lies between the interval and the largest interval of the policy
  and never shrinks from one failure to the next; the jitter moves a finite delay by at most its share and
  never to nothing.
\<close>

theorem cycle_delay_bounds:
  assumes "cycle_policy_ok p" and "failure_delay p k = Inr d" and "1 \<le> k"
    and "pc_jitter_ratio p = Fin j" and "\<And>s. 0 \<le> en_jitter_unit en s \<and> en_jitter_unit en s \<le> 1"
  shows "fle (pc_interval_seconds p) d \<and> fle d (pc_max_interval_seconds p) \<and>
    (\<forall>d'. failure_delay p (k + 1) = Inr d' \<longrightarrow> fle d d') \<and>
    (\<forall>r. d = Fin r \<longrightarrow> fle (Fin (1 / 1000)) (cycle_delay_with_jitter en i n d (pc_jitter_ratio p)) \<and>
       fle (cycle_delay_with_jitter en i n d (pc_jitter_ratio p)) (mk_float (r * (1 + j))))"
proof -
  let ?i = "pc_interval_seconds p" and ?m = "pc_max_interval_seconds p" and ?b = "pc_failure_backoff_multiplier p"
  have p: "fle (Fin 1) ?i" "fle ?i ?m" "fle (Fin 1) ?b" "0 \<le> j" "j \<le> 1"
    using assms(1,4) by (simp_all add: cycle_policy_ok_def)
  obtain f where f: "fpow ?b (nat (k - 1)) = Inr f" and d: "d = fmin ?m (fmult ?i f)"
    using assms(2) by (auto simp: failure_delay_def elim!: sbind_InrE)
  have f1: "fle (Fin 1) f" by (rule fpow_ge [OF p(3) f])
  have g: "fle ?i (fmult ?i f)" by (rule fmult_ge [OF p(1) f1])
  have lo: "fle ?i d" unfolding d by (rule fmin_absorb [OF p(2) g])
  have hi: "fle d ?m" using fmin_le fle_not_NaN [OF p(2)] fle_not_NaN [OF g] by (simp add: d)
  have mono: "fle d d'" if h: "failure_delay p (k + 1) = Inr d'" for d'
  proof -
    have n: "nat (k + 1 - 1) = Suc (nat (k - 1))" using assms(3) by simp
    obtain f' where f': "fpow ?b (Suc (nat (k - 1))) = Inr f'" and d': "d' = fmin ?m (fmult ?i f')"
      using h unfolding failure_delay_def n by (auto elim!: sbind_InrE)
    show ?thesis unfolding d d'
      using fmin_mono [OF fmult_mono [OF p(1) f1 fpow_mono [OF p(3) f f']]] fle_not_NaN [OF p(2)] by blast
  qed
  have jit: "fle (Fin (1 / 1000)) (cycle_delay_with_jitter en i n d (Fin j)) \<and>
      fle (cycle_delay_with_jitter en i n d (Fin j)) (mk_float (r * (1 + j)))" if r: "d = Fin r" for r
  proof -
    have r1: "1 \<le> r" using fle_trans [OF p(1) lo] by (simp add: r)
    define u where "u = en_jitter_unit en (i @ '':'' @ int_str n)"
    have u: "0 \<le> u" "u \<le> 1" using assms(5) by (simp_all add: u_def)
    have "\<bar>u * 2 - 1\<bar> \<le> 1" using u by (simp add: abs_le_iff)
    then have "\<bar>(u * 2 - 1) * j\<bar> \<le> j" using p(4) by (simp add: abs_mult mult_left_le_one_le)
    then have m: "0 \<le> 1 + (u * 2 - 1) * j" "1 + (u * 2 - 1) * j \<le> 1 + j" using p(5) by (simp_all add: abs_le_iff)
    have small: "mk_float (1 + (u * 2 - 1) * j) = Fin (1 + (u * 2 - 1) * j)"
      using m p(5) float_bound_large by (intro mk_float_Fin) (simp add: abs_le_iff)
    define x where "x = r * (1 + (u * 2 - 1) * j)"
    have x: "0 \<le> x" "x \<le> r * (1 + j)" unfolding x_def using m r1 by (auto intro: mult_left_mono)
    have one: "1 \<le> r * (1 + j)" using r1 p(4) mult_mono [of 1 r 1 "1 + j"] by simp
    have top: "fle (mk_float x) (mk_float (r * (1 + j)))" "fle (Fin (1 / 1000)) (mk_float (r * (1 + j)))"
      using x one float_bound_large by (auto simp: mk_float_def not_less)
    show ?thesis
    proof (cases "j = 0")
      case True
      then show ?thesis using r1 float_bound_large
        by (auto simp: cycle_delay_with_jitter_def r mk_float_def not_less)
    next
      case False
      have e: "cycle_delay_with_jitter en i n d (Fin j) = fmax (Fin (1 / 1000)) (mk_float x)"
        unfolding cycle_delay_with_jitter_def Let_def u_def [symmetric]
        using False p(4) by (simp add: r jitter_multiplier_def small x_def)
      show ?thesis unfolding e using top fmax_ge [of "Fin (1 / 1000)" "mk_float x"] by (auto simp: fmax_def)
    qed
  qed
  show ?thesis using lo hi mono jit assms(4) by auto
qed

lemma int_at_least_ge: "int_at_least l v = Inr (Some n) \<Longrightarrow> l \<le> n"
  by (cases v) (auto simp: int_at_least_def dest!: except_type_value_Inr elim!: sbind_InrE split: if_splits)

lemma cycle_number_pos: "cycle_number_of c = Inr n \<Longrightarrow> 1 \<le> n"
  using int_at_least_ge by (fastforce simp: cycle_number_of_def opt_else_def elim!: sbind_InrE split: option.splits)

definition sample_cycle_policy :: PersistentCyclePolicy where
  "sample_cycle_policy = default_cycle_policy\<lparr>pc_enabled := True, pc_jitter_ratio := Fin (1 / 2)\<rparr>"

lemma sample_cycle_policy_ok: "cycle_policy_ok sample_cycle_policy"
  by (simp add: cycle_policy_ok_def sample_cycle_policy_def default_cycle_policy_def)

text \<open>After the third failure the default policy waits 240 seconds, the jitter moves it by half at most.\<close>

theorem cycle_delay_bounds_witness:
  "failure_delay sample_cycle_policy 3 = Inr (Fin 240) \<and> fle (Fin 60) (Fin 240) \<and> fle (Fin 240) (Fin 3600)"
proof -
  have b: "mk_float r = Fin r" if "\<bar>r\<bar> \<le> 2 ^ 99" for r
    using that float_bound_large by (intro mk_float_Fin) (simp add: power_Suc [symmetric])
  have d: "failure_delay sample_cycle_policy 3 = Inr (Fin 240)"
    by (simp add: failure_delay_def sample_cycle_policy_def default_cycle_policy_def b fmin_def)
  from cycle_delay_bounds [OF sample_cycle_policy_ok d, of "1 / 2" "sample_env (\<lambda>c x w. (Inl (RuntimeError []), x, w))" "''ex-1''" 4]
  show ?thesis using d by (simp add: sample_cycle_policy_def default_cycle_policy_def sample_env_def)
qed

text \<open>
  A scheduled cycle leaves the execution asleep on one durable timer: the row sleeps on a pending sleep
  wait whose wake time is the jittered delay from now, the checkpoint of the finished cycle is cleared and
  kept as its last output, and the next start of the execution is the next cycle, whatever the time.
\<close>

theorem scheduled_cycle_sleeps:
  assumes "schedule_persistent_cycle en policy out delay reason x w = (Inr (), x', w')"
    and "ledger_inv (db w)" and "keyed (db w)" and "uuid_fresh w" and "pc_enabled policy"
    and "cycle_number_of (cycle_of x) = Inr n"
    and "key_unused (e_id x) (''persistent-cycle:'' @ int_str (n + 1)) (db w)"
    and "list_execution_waits (e_id x) (Some PENDING) (db w) = []"
  shows "\<exists>wait wake_at. suspended_on (e_id x) wait (db w') \<and> w_kind wait = SLEEP \<and> w_wake_at wait = Some wake_at \<and>
    add_seconds (clock w) (cycle_delay_with_jitter en (e_id x) (n + 1) delay (pc_jitter_ratio policy)) = Inr wake_at \<and>
    e_status x' = SLEEPING \<and> node_outputs_from_checkpoint (e_output_payload x') = [] \<and>
    fst (mark_persistent_cycle_started policy now x') = Inr (Some (n + 1))"
proof (rule schedule_effect [OF assms(1-4,6-8)])
  fix wait wake_at
  assume a: "suspended_on (e_id x) wait (db w')" "w_kind wait = SLEEP" "w_wake_at wait = Some wake_at"
    "add_seconds (clock w) (cycle_delay_with_jitter en (e_id x) (n + 1) delay (pc_jitter_ratio policy)) = Inr wake_at"
    "e_status x' = SLEEPING" and p: "e_output_payload x' = e_output_payload (cleared out x)"
    and c: "jget (cycle_of x') ''next_cycle_number'' = VInt (n + 1)"
  have "node_outputs_from_checkpoint (e_output_payload x') = []"
    by (simp add: p cleared_def node_outputs_from_checkpoint_def dict_or_empty_def)
  moreover have "fst (mark_persistent_cycle_started policy now x') = Inr (Some (n + 1))"
    using assms(5) cycle_number_pos [OF assms(6)] by (simp add: mark_persistent_cycle_started_def c int_at_least_def Let_def)
  ultimately show ?thesis using a by blast
qed

theorem scheduled_cycle_sleeps_witness:
  "\<exists>w x' w' wait. schedule_persistent_cycle (sample_env (\<lambda>c x w. (Inl (RuntimeError []), x, w))) sample_cycle_policy []
       (Fin 60) ''cycle_completed'' sample_execution w = (Inr (), x', w') \<and>
     suspended_on ''ex-1'' wait (db w') \<and> w_kind wait = SLEEP"
proof -
  let ?en = "sample_env (\<lambda>c x w. (Inl (RuntimeError []), x, w))"
  obtain r x' w' where run: "schedule_persistent_cycle ?en sample_cycle_policy [] (Fin 60) ''cycle_completed''
      sample_execution sample_world = (r, x', w')" by (rule prod_cases3)
  have n: "cycle_number_of (cycle_of sample_execution) = Inr 1"
    by (simp add: cycle_number_of_def cycle_of_def sample_execution_def dict_or_empty_def int_at_least_def opt_else_def)
  have none: "key_unused (e_id sample_execution) k (db sample_world)"
    "list_execution_waits (e_id sample_execution) (Some PENDING) (db sample_world) = []" "uuid_fresh sample_world" for k
    by (simp_all add: key_unused_def list_execution_waits_def uuid_fresh_def get_execution_wait_def sample_world_def
        empty_store_def)
  have ef: "cycle_delay_with_jitter ?en ''ex-1'' 2 (Fin 60) (Fin (1 / 2)) = Fin 30"
    using float_bound_large by (simp add: cycle_delay_with_jitter_def sample_env_def jitter_multiplier_def fmax_def)
  have t: "add_seconds 100 (Fin 30) = Inr 30000100"
    by (simp add: datetime_max_def round_even_def Let_def)
  have v: "validate_lifecycle (cycle_wait x p rs 1 30000100 wid now) = Inr (cycle_wait x p rs 1 30000100 wid now)" for x p rs wid now
    by (rule validate_lifecycle_InrI)
      (simp_all add: wait_guards_ok_def wait_fields_ok_def max_len_def cycle_wait_def int_str_def nat_str.simps
        strip_def is_space_def)
  have "r = Inr ()"
    using run n by (simp add: schedule_persistent_cycle_def Let_def sample_cycle_policy_def default_cycle_policy_def ef t v
        stored_cycle_wait_def create_execution_wait_def sleep_on_def case_prod_unfold change_state_def empty_store_def
        del: add_seconds.simps)
  from scheduled_cycle_sleeps [OF run [unfolded this] sample_world_ok(1,2) none(3) _ n none(1) none(2)]
  show ?thesis using run \<open>r = Inr ()\<close> by (fastforce simp: sample_cycle_policy_def sample_execution_def)
qed

section \<open>The guard\<close>

lemma run_emit_kept:
  assumes "keyed (db w)"
  shows "executions_kept (db w) (db (snd (run_emit i ty ac p m md a t w)))"
    and "keyed (db (snd (run_emit i ty ac p m md a t w)))"
    and "waits (db (snd (run_emit i ty ac p m md a t w))) = waits (db w)"
    and "clock (snd (run_emit i ty ac p m md a t w)) = clock w"
    and "approval_requests (db (snd (run_emit i ty ac p m md a t w))) = approval_requests (db w)"
  using emit_executions(2,3) [OF assms] by (simp_all add: run_emit_def Let_def case_prod_unfold)

lemmas run_note_kept = run_emit_kept [of _ _ _ None _ "[]" "[]" None None, folded run_note_def]

definition harmless_graph :: "engine_env \<Rightarrow> bool" where
  "harmless_graph en \<longleftrightarrow> (\<forall>wf x e ev w. keyed (db w) \<longrightarrow>
     keyed (db (en_graph_failure en wf x e ev w)) \<and> executions_kept (db w) (db (en_graph_failure en wf x e ev w)) \<and>
     waits (db (en_graph_failure en wf x e ev w)) = waits (db w) \<and>
     clock (en_graph_failure en wf x e ev w) = clock w)"

lemma pause_guard_effect:
  assumes "keyed (db w)" and "cycle_number_of (cycle_of x) = Inr n"
  obtains x' w' e where "pause_persistent_cycle_for_guard out reason detail x w = (Inr (), x', w')"
    "e_id x' = e_id x" "e_status x' = PAUSED" "cycle_of x' = dmerge (cycle_of x) [(''phase'', VStr ''guarded''),
      (''guard_reason'', VStr reason), (''next_cycle_number'', VInt (n + 1))]"
    "waits (db w') = waits (db w)" "get_execution (e_id x) (db w') = Some e" "e_status e = PAUSED" "keyed (db w')"
proof -
  define x4 where "x4 = (cleared out (put_cycle (dmerge (cycle_of x) [(''phase'', VStr ''guarded''),
      (''guard_reason'', VStr reason), (''next_cycle_number'', VInt (n + 1))]) (put_cycle (cycle_of x) x)))
      \<lparr>e_status := PAUSED, e_completed_at := None\<rparr>"
  define w1 where "w1 = db_update_execution x4 (change_state (e_id x) reset_state w)"
  define w2 where "w2 = run_note (e_id x) EXECUTION_CYCLE_GUARD_TRIGGERED
      ([(''cycle_number'', VInt n), (''reason'', VStr reason)] @ detail) w1"
  define w3 where "w3 = run_note (e_id x) EXECUTION_PAUSED
      [(''execution_id'', VStr (e_id x)), (''reason'', VStr reason), (''source'', VStr ''persistent_cycle'')] w2"
  have x4: "e_id x4 = e_id x" "e_status x4 = PAUSED" "cycle_of x4 = dmerge (cycle_of x) [(''phase'', VStr ''guarded''),
      (''guard_reason'', VStr reason), (''next_cycle_number'', VInt (n + 1))]"
    by (simp_all add: x4_def cleared_def cycle_of_def put_cycle_def dict_or_empty_def)
  have k1: "keyed (db w1)" "waits (db w1) = waits (db w)" "get_execution (e_id x) (db w1) = Some (x4\<lparr>e_updated_at := clock w\<rparr>)"
    using assms(1) by (simp_all add: w1_def change_state_def x4)
  have k2: "keyed (db w2)" "waits (db w2) = waits (db w)" "executions_kept (db w1) (db w2)"
    using run_note_kept [OF k1(1)] k1(2) by (simp_all add: w2_def)
  have k3: "keyed (db w3)" "waits (db w3) = waits (db w)" "executions_kept (db w2) (db w3)"
    using run_note_kept [OF k2(1)] k2(2) by (simp_all add: w3_def)
  obtain e where e: "get_execution (e_id x) (db w3) = Some e" "same_but_activity (x4\<lparr>e_updated_at := clock w\<rparr>) e"
    using executions_keptD [OF executions_kept_trans [OF k2(3) k3(3)] k1(3)] by blast
  have run: "pause_persistent_cycle_for_guard out reason detail x w = (Inr (), x4, w3)"
    using x4(1) by (simp add: pause_persistent_cycle_for_guard_def assms(2) Let_def reset_cycle_checkpoint_def
        x4_def w1_def w2_def w3_def)
  show thesis
    by (rule that [OF run x4 k3(2) e(1) _ k3(1)]) (use x4 same_but_activityD [OF e(2)] in simp)
qed

text \<open>
  A loop that keeps failing stops: the failure that reaches the limit of failures in a row pauses the
  execution behind a guard, without a timer that would start it again, and an operator's start goes on with
  the next cycle.
\<close>

theorem failures_are_guarded:
  assumes "cycle_number_of (cycle_of x) = Inr n"
    and "jget (cycle_of x) ''consecutive_failures'' = VInt k" and "0 \<le> k"
    and "pc_max_consecutive_failures policy \<le> k + 1" and "pc_enabled policy"
    and "keyed (db w)" and "harmless_graph en"
  shows "\<exists>x' w' e. handle_persistent_cycle_failure en workflow policy error x w = (Inr (), x', w') \<and>
    waits (db w') = waits (db w) \<and> get_execution (e_id x) (db w') = Some e \<and> e_status e = PAUSED \<and>
    jget (cycle_of x') ''phase'' = VStr ''guarded'' \<and> jget (cycle_of x') ''consecutive_failures'' = VInt (k + 1) \<and>
    fst (mark_persistent_cycle_started policy now x') = Inr (Some (n + 1))"
proof -
  define x2 where "x2 = put_cycle (failed_cycle policy (clock w) n (k + 1) error (cycle_of x))
      ((put_cycle (cycle_of x) x)\<lparr>e_error := Some error\<rparr>)"
  obtain ev w1 where em: "run_emit (e_id x2) EXECUTION_CYCLE_FAILED None [(''cycle_number'', VInt n), (''error'', VStr error),
      (''consecutive_failures'', VInt (k + 1))] (en_metrics en) [] None None w = (ev, w1)" by fastforce
  have w1: "keyed (db w1)" "waits (db w1) = waits (db w)" using run_emit_kept [OF assms(6)] em by (metis snd_conv)+
  define w2 where "w2 = en_graph_failure en workflow x2 error (ev_id ev) w1"
  have w2: "keyed (db w2)" "waits (db w2) = waits (db w)" using assms(7) w1 by (simp_all add: harmless_graph_def w2_def)
  have c2: "e_id x2 = e_id x" "jget (cycle_of x2) ''cycle_number'' = VInt n"
    "jget (cycle_of x2) ''consecutive_failures'' = VInt (k + 1)"
    by (simp_all add: x2_def failed_cycle_def append_cycle_history_def Let_def dmerge_def)
  have n2: "cycle_number_of (cycle_of x2) = Inr n"
    using c2(2) cycle_number_pos [OF assms(1)] by (simp add: cycle_number_of_def int_at_least_def opt_else_def)
  obtain x' w' e where p: "pause_persistent_cycle_for_guard (execution_checkpoint_payload (run_state (e_id x) w) None)
      ''max_consecutive_failures_reached'' [(''consecutive_failures'', VInt (k + 1))] x2 w2 = (Inr (), x', w')"
    "e_id x' = e_id x2" "e_status x' = PAUSED" "cycle_of x' = dmerge (cycle_of x2) [(''phase'', VStr ''guarded''),
      (''guard_reason'', VStr ''max_consecutive_failures_reached''), (''next_cycle_number'', VInt (n + 1))]"
    "waits (db w') = waits (db w2)" "get_execution (e_id x2) (db w') = Some e" "e_status e = PAUSED"
    by (rule pause_guard_effect [OF w2(1) n2])
  have k: "non_negative_int (jget (cycle_of x) ''consecutive_failures'') = Inr (Some k)"
    using assms(2,3) by (simp add: int_at_least_def)
  have "handle_persistent_cycle_failure en workflow policy error x w = (Inr (), x', w')"
    using p(1) [unfolded w2_def] em [unfolded c2(1)] assms(4)
    by (simp add: handle_persistent_cycle_failure_def assms(1) k Let_def opt_else_def x2_def [symmetric] c2(1))
  moreover have "fst (mark_persistent_cycle_started policy now x') = Inr (Some (n + 1))"
    using assms(5) cycle_number_pos [OF assms(1)] p(4)
    by (simp add: mark_persistent_cycle_started_def Let_def int_at_least_def dmerge_def)
  ultimately show ?thesis using p(4-7) c2 w2(2) by (simp add: dmerge_def)
qed

text \<open>The fifth failure in a row of a loop with the default policy.\<close>

theorem failures_are_guarded_witness:
  "\<exists>x x' w'. jget (cycle_of x) ''consecutive_failures'' = VInt 4 \<and>
     handle_persistent_cycle_failure (sample_env (\<lambda>c x w. (Inl (RuntimeError []), x, w))) diamond_workflow
       sample_cycle_policy ''boom'' x sample_world = (Inr (), x', w') \<and>
     waits (db w') = [] \<and> jget (cycle_of x') ''phase'' = VStr ''guarded''"
proof -
  let ?en = "sample_env (\<lambda>c x w. (Inl (RuntimeError []), x, w))"
  define x where "x = put_cycle [(''cycle_number'', VInt 7), (''consecutive_failures'', VInt 4)] sample_execution"
  have n: "cycle_number_of (cycle_of x) = Inr 7" "jget (cycle_of x) ''consecutive_failures'' = VInt 4"
    by (simp_all add: x_def cycle_number_of_def int_at_least_def opt_else_def)
  have p: "pc_max_consecutive_failures sample_cycle_policy \<le> 4 + 1" "pc_enabled sample_cycle_policy"
    by (simp_all add: sample_cycle_policy_def default_cycle_policy_def)
  have "harmless_graph ?en" by (simp add: harmless_graph_def sample_env_def)
  from failures_are_guarded [OF n _ p sample_world_ok(2) this]
  show ?thesis using n(2) by (fastforce simp: empty_store_def)
qed

end
