(* ===== verification/Node_Loop.thy ===== *)
theory Node_Loop
  imports Cycles
begin

text \<open>
  \<open>ExecutionEngine.start_execution\<close> of \<open>app/runtime/native/engine.py\<close>: the plan of a workflow, one step per
  node, the checkpoint after each and the three ways a run leaves the loop. The engine reads its execution
  once, at the start, and writes that object back at every checkpoint; a store hands out values, as the
  stores over a database do. The \<open>trace_id\<close> of an execution's metadata is text.
\<close>

section \<open>Looking up a node's task, agent and profile\<close>

definition missing :: "string \<Rightarrow> exc" where
  "missing message = WorkflowNotFoundError message"

definition resolve_task :: "WorkflowDefinition \<Rightarrow> string option \<Rightarrow> exc + TaskDefinition" where
  "resolve_task workflow task_id =
    (case or_str task_id None of
       None \<Rightarrow> Inl (missing ''Workflow node is missing a task reference'')
     | Some i \<Rightarrow> (case find (\<lambda>t. td_id t = i) (wd_task_definitions workflow) of
         Some task \<Rightarrow> Inr task
       | None \<Rightarrow> Inl (missing (''Task '' @ quote i @ '' was not found in workflow '' @ quote (wd_id workflow)))))"

definition resolve_agent :: "WorkflowDefinition \<Rightarrow> string option \<Rightarrow> exc + AgentDefinition" where
  "resolve_agent workflow agent_id =
    (case or_str agent_id None of
       None \<Rightarrow> Inl (missing ''Task is missing an agent reference'')
     | Some i \<Rightarrow> (case find (\<lambda>a. ad_id a = i) (wd_agent_definitions workflow) of
         Some agent \<Rightarrow> Inr agent
       | None \<Rightarrow> Inl (missing (''Agent '' @ quote i @ '' was not found in workflow '' @ quote (wd_id workflow)))))"

definition resolve_profile :: "engine_env \<Rightarrow> AgentDefinition \<Rightarrow> json \<Rightarrow> exc + ModelProfileDefinition" where
  "resolve_profile en agent task_overrides =
    (case or_str (as_str (jget task_overrides ''model_profile_id'')) (or_str (ad_model_profile_id agent) None) of
       None \<Rightarrow> Inl (missing (''Agent '' @ quote (ad_id agent) @ '' is missing model_profile_id''))
     | Some i \<Rightarrow> (case en_get_profile en i of
         None \<Rightarrow> Inl (missing (''Model profile '' @ quote i @ '' was not found''))
       | Some profile \<Rightarrow> Inr (case jget task_overrides ''max_tokens'' of
           VInt n \<Rightarrow> profile\<lparr>mp_max_tokens := Some n\<rparr> | _ \<Rightarrow> profile)))"

definition workflow_remaining_seconds :: "Execution \<Rightarrow> json \<Rightarrow> datetime \<Rightarrow> exc + rat option" where
  "workflow_remaining_seconds execution workflow_policy now =
    (case jget workflow_policy ''max_runtime_seconds'' of
       VInt limit \<Rightarrow>
         let started_at = (case e_started_at execution of Some t \<Rightarrow> t | None \<Rightarrow> e_created_at execution)
         in sbind (py_float (VInt limit)) (\<lambda>_.
              let remaining = rat_of_int limit - rat_of_int (now - started_at) / 1000000
              in if remaining \<le> 0
                 then Inl (TimeoutError (''Workflow max runtime of '' @ int_str limit @ '' seconds exceeded.''))
                 else Inr (Some remaining))
     | _ \<Rightarrow> Inr None)"

definition node_overrides :: "WorkflowNodeDefinition \<Rightarrow> TaskDefinition \<Rightarrow> json \<Rightarrow> exc + json" where
  "node_overrides node task workflow_policy =
    sbind (task_runtime_overrides task) (\<lambda>own.
      let o1 = (if td_human_approval_required task \<or> n_node_type node = ''approval''
                then dset ''approval_policy'' (VStr ''required'') own else own);
          o2 = (if map_of o1 ''max_retries'' = None \<and> map_of workflow_policy ''max_retries'' \<noteq> None
                then dset ''max_retries'' (jget workflow_policy ''max_retries'') o1 else o1)
      in Inr (if jget workflow_policy ''approval_mode'' = VStr ''all_tasks''
              then dset ''approval_policy'' (VStr ''required'') o2 else o2))"

section \<open>Handoffs\<close>

type_synonym task_context = "WorkflowNodeDefinition \<times> TaskDefinition \<times> AgentDefinition"

definition handoff_edge_between :: "WorkflowDefinition \<Rightarrow> string \<Rightarrow> string \<Rightarrow> WorkflowEdgeDefinition option" where
  "handoff_edge_between workflow source_node_id target_node_id =
    find (\<lambda>e. ed_source_node_id e = source_node_id \<and> ed_target_node_id e = target_node_id \<and> ed_edge_type e = HANDOFF)
      (wd_edges workflow)"

definition emit_handoff_event ::
  "WorkflowDefinition \<Rightarrow> WorkflowEdgeDefinition \<Rightarrow> task_context \<Rightarrow> task_context \<Rightarrow> string \<Rightarrow> string \<Rightarrow> world \<Rightarrow> world" where
  "emit_handoff_event workflow edge source target status i w =
    (let (source_node, source_task, source_agent) = source;
         (target_node, target_task, target_agent) = target;
         allowed = (ad_id target_agent = ad_id source_agent \<or> ad_id target_agent \<in> set (ad_handoff_agent_ids source_agent));
         outputs = st_node_outputs (run_state i w);
         payload = [(''handoff_id'', VStr (ed_id edge)), (''edge_id'', VStr (ed_id edge)),
           (''handoff_type'', VStr ''workflow_edge''), (''status'', VStr status), (''workflow_id'', VStr (wd_id workflow)),
           (''source_node_id'', VStr (n_id source_node)), (''target_node_id'', VStr (n_id target_node)),
           (''source_task_id'', VStr (td_id source_task)), (''target_task_id'', VStr (td_id target_task)),
           (''source_agent_id'', VStr (ad_id source_agent)), (''target_agent_id'', VStr (ad_id target_agent)),
           (''allowed'', VBool allowed),
           (''handoff_relationship'', VStr (if allowed then ''declared'' else ''edge_only'')),
           (''source_output_available'', VBool (map_of outputs (n_id source_node) \<noteq> None)),
           (''target_output_available'', VBool (map_of outputs (n_id target_node) \<noteq> None))]
     in snd (run_emit i (if status = ''completed'' then HANDOFF_COMPLETED else HANDOFF_REQUESTED)
          (Some (ad_name (if status = ''requested'' then source_agent else target_agent))) payload []
          [(''workflow_handoff'', VBool True), (''edge_id'', VStr (ed_id edge))]
          (Some (ad_id target_agent)) (Some (td_id target_task)) w))"

text \<open>The handoff event, when an edge joins the previous task to this one.\<close>

definition handoff ::
  "WorkflowDefinition \<Rightarrow> task_context option \<Rightarrow> task_context \<Rightarrow> string \<Rightarrow> string \<Rightarrow> world \<Rightarrow> world" where
  "handoff workflow previous target status i w =
    (case previous of
       None \<Rightarrow> w
     | Some source \<Rightarrow>
         (case handoff_edge_between workflow (n_id (fst source)) (n_id (fst target)) of
            None \<Rightarrow> w
          | Some edge \<Rightarrow> emit_handoff_event workflow edge source target status i w))"

section \<open>One node\<close>

definition cancelled_error :: "string \<Rightarrow> world \<Rightarrow> exc option" where
  "cancelled_error i w =
    (if st_cancelled (run_state i w) then Some (ExecutionCancelledError ''Execution was cancelled'') else None)"

text \<open>The approval, the model client and the attempts: the \<open>try\<close> block around a task.\<close>

definition try_task ::
  "engine_env \<Rightarrow> WorkflowDefinition \<Rightarrow> TaskDefinition \<Rightarrow> AgentDefinition \<Rightarrow> ModelProfileDefinition \<Rightarrow> json \<Rightarrow>
   rat option \<Rightarrow> Execution \<Rightarrow> world \<Rightarrow> pyval run" where
  "try_task en workflow task agent profile overrides timeout x w =
    rbind (on_world (maybe_request_task_approval en workflow task agent (e_id x) (jget overrides ''approval_policy'') None) x w)
      (\<lambda>_ x w. case en_resolve_client en profile of
         Some e \<Rightarrow> (Inl e, x, w)
       | None \<Rightarrow> execute_task_with_runtime_overrides en workflow task agent profile overrides timeout x w)"

definition failure_output :: "exc \<Rightarrow> pyval" where
  "failure_output e =
    VDict [(''status'', VStr ''failed''), (''error'', VStr (exc_str e)), (''error_type'', VStr (exc_name e)),
      (''approval_rejected'', VBool (case e of ApprovalRequiredError _ \<Rightarrow> True | _ \<Rightarrow> False))]"

definition put_error :: "string \<Rightarrow> string \<Rightarrow> NativeExecutionState \<Rightarrow> NativeExecutionState" where
  "put_error nid message st = st\<lparr>st_node_errors := dset nid (VStr message) (st_node_errors st)\<rparr>"

text \<open>An error goes on unless it is caught by a failure edge of the node.\<close>

definition route_failure :: "WorkflowDefinition \<Rightarrow> WorkflowNodeDefinition \<Rightarrow> pyval run \<Rightarrow> pyval run" where
  "route_failure workflow node result =
    (case result of
       (Inr output, x, w) \<Rightarrow> (Inr output, x, w)
     | (Inl e, x, w) \<Rightarrow>
         if is_paused_error e \<or> is_cancelled_error e \<or>
            \<not> list_ex (\<lambda>edge. ed_source_node_id edge = n_id node \<and> ed_edge_type edge = FAILURE) (wd_edges workflow)
         then (Inl e, x, w)
         else (Inr (failure_output e), x, change_state (e_id x) (put_error (n_id node) (exc_str e)) w))"

definition unproven_output :: "string \<Rightarrow> pyval" where
  "unproven_output message =
    VDict [(''status'', VStr ''failed''), (''error'', VStr message), (''error_type'', VStr ''RequiredToolResultError'')]"

definition proven_output :: "engine_env \<Rightarrow> TaskDefinition \<Rightarrow> NativeExecutionState \<Rightarrow> pyval \<Rightarrow> exc + string option" where
  "proven_output en task st output =
    (if node_outcome (en_codec en) output = ''success'' then required_tool_result_error (en_codec en) task st else Inr None)"

text \<open>The output and outcome of a node, with the error of a node that failed.\<close>

definition record_output :: "engine_env \<Rightarrow> string \<Rightarrow> pyval \<Rightarrow> NativeExecutionState \<Rightarrow> NativeExecutionState" where
  "record_output en nid output st =
    (let outcome = node_outcome (en_codec en) output;
         st1 = st\<lparr>st_node_outputs := dset nid output (st_node_outputs st),
                  st_node_outcomes := dset nid (VStr outcome) (st_node_outcomes st)\<rparr>
     in if outcome = ''failure''
        then st1\<lparr>st_node_errors := dsetdefault nid (VStr (node_failure_message (en_codec en) output)) (st_node_errors st1)\<rparr>
        else st1)"

definition settle_node ::
  "engine_env \<Rightarrow> WorkflowDefinition \<Rightarrow> task_context option \<Rightarrow> task_context \<Rightarrow> pyval \<Rightarrow> Execution \<Rightarrow> world \<Rightarrow> unit run" where
  "settle_node en workflow previous target output x w =
    (let i = e_id x; (node, task, agent) = target in
     case cancelled_error i w of
       Some e \<Rightarrow> (Inl e, x, w)
     | None \<Rightarrow>
         (case proven_output en task (run_state i w) output of
            Inl e \<Rightarrow> (Inl e, x, w)
          | Inr unproven \<Rightarrow>
              let (output1, w1) = (case unproven of None \<Rightarrow> (output, w)
                     | Some m \<Rightarrow> (unproven_output m, change_state i (put_error (n_id node) m) w));
                  w2 = change_state i (record_output en (n_id node) output1) w1;
                  x1 = x\<lparr>e_output_payload := Some (execution_checkpoint_payload (run_state i w2) None)\<rparr>
              in (Inr (), x1, handoff workflow previous target ''completed'' i (db_update_execution x1 w2))))"

definition run_node ::
  "engine_env \<Rightarrow> WorkflowDefinition \<Rightarrow> json \<Rightarrow> task_context option \<Rightarrow> task_context \<Rightarrow> Execution \<Rightarrow> world \<Rightarrow> unit run" where
  "run_node en workflow workflow_policy previous target x w =
    (let i = e_id x; (node, task, agent) = target;
         w1 = change_state i (\<lambda>st. st\<lparr>st_current_node_id := Some (n_id node), st_current_agent_id := Some (ad_id agent),
                st_current_task_id := Some (td_id task)\<rparr>) w
     in case sbind (node_overrides node task workflow_policy) (\<lambda>overrides.
              sbind (resolve_profile en agent overrides) (\<lambda>profile.
              sbind (workflow_remaining_seconds x workflow_policy (clock w1)) (\<lambda>timeout.
              Inr (overrides, profile, timeout)))) of
          Inl e \<Rightarrow> (Inl e, x, w1)
        | Inr (overrides, profile, timeout) \<Rightarrow>
            let w2 = en_graph_before en workflow task agent x (handoff workflow previous target ''requested'' i w1);
                w3 = task_note i TASK_STARTED agent task
                  [(''task_id'', VStr (td_id task)), (''task_name'', VStr (td_name task)), (''node_id'', VStr (n_id node)),
                   (''runtime_overrides'', VDict overrides)] w2
            in rbind (route_failure workflow node (try_task en workflow task agent profile overrides timeout x w3))
                 (settle_node en workflow previous target))"

section \<open>The loop over the plan\<close>

text \<open>The task whose retry was asked for, and whether it has been reached.\<close>

definition retry_task_id :: "Execution \<Rightarrow> string option" where
  "retry_task_id execution = or_str (as_str (jget (task_retry_metadata (e_metadata execution)) ''task_id'')) None"

type_synonym loop_state = "task_context option \<times> bool"

text \<open>The heartbeat before each node, when a worker runs the execution.\<close>

definition beaten :: "Execution \<Rightarrow> world \<Rightarrow> world" where
  "beaten x w = (case or_str (e_worker_id x) None of None \<Rightarrow> w
     | Some worker \<Rightarrow> w\<lparr>db := snd (heartbeat (clock w) (e_id x) worker (db w))\<rparr>)"

definition node_step ::
  "engine_env \<Rightarrow> WorkflowDefinition \<Rightarrow> json \<Rightarrow> string option \<Rightarrow> WorkflowNodeDefinition \<Rightarrow> loop_state \<Rightarrow> Execution \<Rightarrow> world \<Rightarrow>
   loop_state run" where
  "node_step en workflow workflow_policy retry_task node loop x w =
    (let i = e_id x; (previous, retry_started) = loop in
     case cancelled_error i w of
       Some e \<Rightarrow> (Inl e, x, w)
     | None \<Rightarrow>
         let w1 = beaten x w
         in if n_node_type node \<notin> {''task'', ''approval''} then (Inr loop, x, w1)
            else if \<not> node_is_reachable (en_codec en) workflow node (run_state i w1) then
              (Inr loop, x, run_note i ROUTING_DECISION_RECORDED
                 [(''node_id'', VStr (n_id node)), (''decision'', VStr ''skipped''),
                  (''reason'', VStr ''No incoming edge matched completed source outcomes.'')] w1)
            else case resolve_task workflow (n_task_id node) of
              Inl e \<Rightarrow> (Inl e, x, w1)
            | Inr task \<Rightarrow>
                if \<not> retry_started \<and> Some (td_id task) \<noteq> retry_task then (Inr loop, x, w1)
                else case resolve_agent workflow (or_str (n_agent_id node) (td_agent_id task)) of
                  Inl e \<Rightarrow> (Inl e, x, w1)
                | Inr agent \<Rightarrow>
                    if map_of (st_node_outputs (run_state i w1)) (n_id node) \<noteq> None then
                      (Inr (Some (node, task, agent), True), x, w1)
                    else rbind (run_node en workflow workflow_policy previous (node, task, agent) x w1)
                           (\<lambda>_ x w. (Inr (Some (node, task, agent), True), x, w)))"

fun run_nodes ::
  "engine_env \<Rightarrow> WorkflowDefinition \<Rightarrow> json \<Rightarrow> string option \<Rightarrow> WorkflowNodeDefinition list \<Rightarrow> loop_state \<Rightarrow> Execution \<Rightarrow>
   world \<Rightarrow> loop_state run" where
  "run_nodes en workflow workflow_policy retry_task [] loop x w = (Inr loop, x, w)"
| "run_nodes en workflow workflow_policy retry_task (node # nodes) loop x w =
    rbind (node_step en workflow workflow_policy retry_task node loop x w)
      (run_nodes en workflow workflow_policy retry_task nodes)"

section \<open>The end of a run\<close>

definition mark_failed :: "string \<Rightarrow> world \<Rightarrow> Execution \<Rightarrow> Execution" where
  "mark_failed error w x = x\<lparr>e_status := FAILED, e_error := Some error, e_completed_at := Some (clock w)\<rparr>"

definition store_failure ::
  "engine_env \<Rightarrow> WorkflowDefinition \<Rightarrow> json \<Rightarrow> string \<Rightarrow> Execution \<Rightarrow> world \<Rightarrow> unit run" where
  "store_failure en workflow payload error x w =
    (let (failure_event, w1) = run_emit (e_id x) EXECUTION_FAILED None payload (en_metrics en) [] None None
           (db_update_execution x w)
     in (Inr (), x, en_completion en x workflow (en_graph_failure en workflow x error (ev_id failure_event) w1)))"

definition complete_run :: "engine_env \<Rightarrow> WorkflowDefinition \<Rightarrow> Execution \<Rightarrow> world \<Rightarrow> unit run" where
  "complete_run en workflow x w =
    (let x1 = x\<lparr>e_status := COMPLETED, e_completed_at := Some (clock w)\<rparr>;
         started = (case e_started_at x1 of Some t \<Rightarrow> t | None \<Rightarrow> e_created_at x1);
         (_, w1) = run_emit (e_id x1) EXECUTION_COMPLETED None
           [(''output'', case e_output_payload x1 of None \<Rightarrow> VNone | Some p \<Rightarrow> VDict p)]
           (dmerge [(''execution_duration_ms'', VFloat (Fin (rat_of_int (clock w - started) / 1000)))] (en_metrics en))
           [] None None (db_update_execution x1 w)
     in (Inr (), x1, en_completion en x1 workflow w1))"

text \<open>
  After the loop: the output, the end of a cycle, and the status by the errors of the nodes.
\<close>

definition finish_run ::
  "engine_env \<Rightarrow> WorkflowDefinition \<Rightarrow> PersistentCyclePolicy \<Rightarrow> Execution \<Rightarrow> world \<Rightarrow> unit run" where
  "finish_run en workflow policy x w =
    (let outputs = st_node_outputs (run_state (e_id x) w);
         cycle_output = [(''node_outputs'', VDict outputs), (''final_output'', final_output outputs)]
     in rbind (handle_persistent_cycle_success en policy cycle_output (x\<lparr>e_output_payload := Some cycle_output\<rparr>) w)
       (\<lambda>handled x w.
         if handled then (Inr (), x, w)
         else case st_node_errors (run_state (e_id x) w) of
           [] \<Rightarrow> complete_run en workflow x w
         | (k, v) # rest \<Rightarrow>
             let error_message = (case as_str v of Some m \<Rightarrow> m | None \<Rightarrow> [])
             in if pc_enabled policy then
                  handle_persistent_cycle_failure en workflow policy error_message x w
                else
                  store_failure en workflow
                    [(''error'', VStr error_message), (''node_errors'', VDict ((k, v) # rest)),
                     (''output'', case e_output_payload x of None \<Rightarrow> VNone | Some p \<Rightarrow> VDict p)]
                    error_message (mark_failed error_message w x) w))"

definition prepare_plan ::
  "engine_env \<Rightarrow> WorkflowDefinition \<Rightarrow> Execution \<Rightarrow> world \<Rightarrow> world" where
  "prepare_plan en workflow x w =
    change_state (e_id x) (\<lambda>st.
      let outputs = (case as_dict (jget (task_retry_metadata (e_metadata x)) ''prior_node_outputs'') of
            Some d \<Rightarrow> d | None \<Rightarrow> st_node_outputs st)
      in st\<lparr>st_planned_node_ids := map n_id (order_nodes workflow),
            st_terminal_node_ids := terminal_executable_node_ids workflow (order_nodes workflow),
            st_node_outputs := outputs,
            st_node_outcomes := fold (\<lambda>(k, v). dsetdefault k (VStr (node_outcome (en_codec en) v))) outputs
              (st_node_outcomes st)\<rparr>) w"

text \<open>The \<open>try\<close> block of \<open>start_execution\<close>.\<close>

definition run_workflow ::
  "engine_env \<Rightarrow> WorkflowDefinition \<Rightarrow> json \<Rightarrow> PersistentCyclePolicy \<Rightarrow> Execution \<Rightarrow> world \<Rightarrow> unit run" where
  "run_workflow en workflow workflow_policy policy x w =
    (let w1 = prepare_plan en workflow x w; retry_task = retry_task_id x
     in rbind (on_world (if jget workflow_policy ''approval_mode'' = VStr ''before_run''
             then maybe_request_workflow_approval en workflow (e_id x)
                    ''Workflow approval mode requires approval before execution.''
             else (\<lambda>w. (Inr (), w))) x w1) (\<lambda>_ x w.
        rbind (run_nodes en workflow workflow_policy retry_task (order_nodes workflow) (None, retry_task = None) x w)
          (\<lambda>(_, retry_started) x w.
            if \<not> retry_started then
              (Inl (missing (''Retry task '' @ quote (case retry_task of Some t \<Rightarrow> t | None \<Rightarrow> []) @
                 '' was not found in workflow '' @ quote (wd_id workflow))), x, w)
            else finish_run en workflow policy x w)))"

section \<open>Leaving a run early\<close>

definition stop_paused :: "Execution \<Rightarrow> world \<Rightarrow> unit run" where
  "stop_paused x w =
    (let i = e_id x; current = get_execution i (db w);
         x1 = (case current of
             Some c \<Rightarrow> if e_status c \<in> DURABLE_WAIT_EXECUTION_STATUSES
               then x\<lparr>e_status := e_status c, e_metadata := e_metadata c, e_input_payload := e_input_payload c\<rparr>
               else x\<lparr>e_status := PAUSED\<rparr>
           | None \<Rightarrow> x\<lparr>e_status := PAUSED\<rparr>);
         prior = (case current of Some c \<Rightarrow> e_output_payload c | None \<Rightarrow> e_output_payload x);
         x2 = x1\<lparr>e_output_payload := Some (execution_checkpoint_payload (run_state i w) prior)\<rparr>;
         w1 = db_update_execution x2 w;
         wait_id = as_str (jget (dict_or_empty (jget (e_metadata x2) ''active_wait'')) ''wait_id'');
         w2 = (case wait_id of
             Some v \<Rightarrow> if e_status x2 = WAITING_FOR_APPROVAL
               then run_note i EXECUTION_WAITING [(''wait_id'', VStr v), (''kind'', VStr (wait_kind_value APPROVAL)),
                      (''status'', VStr (wait_status_value PENDING)), (''source'', VStr ''approval_manager'')] w1
               else w1
           | None \<Rightarrow> w1)
     in (Inr (), x2, run_note i EXECUTION_PAUSED [(''execution_id'', VStr i)] w2))"

definition stop_cancelled :: "Execution \<Rightarrow> world \<Rightarrow> unit run" where
  "stop_cancelled x w =
    (let i = e_id x;
         x1 = x\<lparr>e_status := ExecutionStatus.CANCELLED,
                e_output_payload := Some (execution_checkpoint_payload (run_state i w) None),
                e_completed_at := Some (clock w)\<rparr>
     in (Inr (), x1, run_note i EXECUTION_CANCELLED [(''execution_id'', VStr i)] (db_update_execution x1 w)))"

definition stop_failed ::
  "engine_env \<Rightarrow> WorkflowDefinition \<Rightarrow> PersistentCyclePolicy \<Rightarrow> exc \<Rightarrow> Execution \<Rightarrow> world \<Rightarrow> unit run" where
  "stop_failed en workflow policy e x w =
    (if pc_enabled policy then handle_persistent_cycle_failure en workflow policy (exc_str e) x w
     else store_failure en workflow [(''error'', VStr (exc_str e))] (exc_str e)
       ((mark_failed (exc_str e) w x)\<lparr>e_output_payload := Some (execution_checkpoint_payload (run_state (e_id x) w) None)\<rparr>) w)"

definition leave_run ::
  "engine_env \<Rightarrow> WorkflowDefinition \<Rightarrow> PersistentCyclePolicy \<Rightarrow> unit run \<Rightarrow> unit run" where
  "leave_run en workflow policy result =
    (case result of
       (Inr _, x, w) \<Rightarrow> (Inr (), x, w)
     | (Inl e, x, w) \<Rightarrow>
         if is_paused_error e then stop_paused x w
         else if is_cancelled_error e then stop_cancelled x w
         else stop_failed en workflow policy e x w)"

section \<open>Starting an execution\<close>

definition started_row :: "datetime \<Rightarrow> Execution \<Rightarrow> Execution" where
  "started_row now x =
    x\<lparr>e_status := RUNNING,
      e_started_at := (case e_started_at x of None \<Rightarrow> Some now | Some t \<Rightarrow> Some t),
      e_last_heartbeat_at := (if or_str (e_worker_id x) None \<noteq> None then Some now else e_last_heartbeat_at x)\<rparr>"

text \<open>The run state of the execution, created at the first start and set up for a new run.\<close>

definition begin_state :: "Execution \<Rightarrow> WorkflowDefinition \<Rightarrow> world \<Rightarrow> world" where
  "begin_state execution workflow w =
    (let i = e_id execution;
         (fresh, w1) = new_state i (wd_id workflow) w;
         state = (case map_of (states w1) i of Some st \<Rightarrow> st | None \<Rightarrow> fresh);
         trace = (case as_str (jget (e_metadata execution) ''trace_id'') of Some t \<Rightarrow> t | None \<Rightarrow> st_trace_id state);
         state1 = hydrate_state_position w1 (state\<lparr>st_trace_id := trace, st_paused := False, st_cancelled := False\<rparr>)
     in w1\<lparr>states := dset i state1 (states w1)\<rparr>)"

definition dict_or_none :: "json \<Rightarrow> pyval" where
  "dict_or_none d = (if d = [] then VNone else VDict d)"

text \<open>From the row stored as running to the run itself.\<close>

definition launch ::
  "engine_env \<Rightarrow> WorkflowDefinition \<Rightarrow> PersistentCyclePolicy \<Rightarrow> int option \<Rightarrow> Execution \<Rightarrow> world \<Rightarrow> unit run" where
  "launch en workflow policy cycle_number x w =
    (case workflow_runtime_policy workflow of
       Inl e \<Rightarrow> (Inl e, x, w)
     | Inr workflow_policy \<Rightarrow>
         let i = e_id x;
             (checkpoint, state) = hydrate_resume_checkpoint x (db w) (run_state i w);
             w1 = w\<lparr>states := dset i state (states w)\<rparr>
         in case checkpoint of
              Inl e \<Rightarrow> (Inl e, x, w1)
            | Inr resume_checkpoint \<Rightarrow>
                let w2 = run_note i EXECUTION_STARTED
                      [(''workflow_id'', VStr (e_workflow_id x)),
                       (''task_retry'', dict_or_none (task_retry_metadata (e_metadata x))),
                       (''runtime_policy'', dict_or_none workflow_policy),
                       (''resume_checkpoint'', case resume_checkpoint of None \<Rightarrow> VNone | Some d \<Rightarrow> VDict d)] w1;
                    w3 = (case cycle_number of None \<Rightarrow> w2 | Some n \<Rightarrow>
                      run_note i EXECUTION_CYCLE_STARTED
                        [(''cycle_number'', VInt n), (''policy'', VDict (cycle_policy_dump policy))] w2)
                in leave_run en workflow policy (run_workflow en workflow workflow_policy policy x w3))"

definition start_execution :: "engine_env \<Rightarrow> string \<Rightarrow> Execution act" where
  "start_execution en execution_id w =
    (case get_execution execution_id (db w) of
       None \<Rightarrow> (Inl (execution_not_found execution_id), w)
     | Some execution \<Rightarrow>
         (case reject_terminal_execution_replay execution of
            Some e \<Rightarrow> (Inl e, w)
          | None \<Rightarrow>
              (case en_get_workflow en (e_workflow_id execution) of
                 None \<Rightarrow> (Inl (missing (''Workflow '' @ quote (e_workflow_id execution) @ '' was not found'')), w)
               | Some workflow \<Rightarrow>
                   let w1 = begin_state execution workflow w
                   in case resolve_persistent_cycle_policy (en_fromiso en) execution of
                        Inl e \<Rightarrow> (Inl e, w1)
                      | Inr policy \<Rightarrow>
                          (case mark_persistent_cycle_started policy (clock w1) execution of
                             (Inl e, _) \<Rightarrow> (Inl e, w1)
                           | (Inr cycle_number, x) \<Rightarrow>
                               let x1 = started_row (clock w1) x;
                                   (result, x2, w2) = launch en workflow policy cycle_number x1 (db_update_execution x1 w1)
                               in (case result of Inl e \<Rightarrow> Inl e | Inr _ \<Rightarrow> Inr x2, w2)))))"

end
