(* ===== verification/Run_Properties.thy ===== *)
theory Run_Properties
  imports Node_Loop
begin

text \<open>
  What a run of the engine guarantees: it always settles its execution, it skips what is done or not
  reached, an unproven success is a failure, a required approval is never skipped; and what its write-back
  of the execution undoes.
\<close>

section \<open>What the loop keeps\<close>

lemma andthen_InrE:
  assumes "andthen r f = (Inr b, w')"
  obtains a w where "r = (Inr a, w)" "f a w = (Inr b, w')"
  using assms by (cases r rule: prod.exhaust; cases "fst r") auto

text \<open>
  The engine's environment: none of its calls starts a step, files a row under another id or, once a run has
  been settled, changes the row, or what the nodes have produced.
\<close>

definition loop_env :: "engine_env \<Rightarrow> bool" where
  "loop_env en \<longleftrightarrow> quiet_env en \<and> harmless_graph en \<and>
    (\<forall>wl t a x w. no_start w (en_graph_before en wl t a x w)) \<and>
    (\<forall>x wl w. keyed (db w) \<longrightarrow> executions_kept (db w) (db (en_completion en x wl w)) \<and>
       keyed (db (en_completion en x wl w))) \<and>
    (\<forall>x wl w j. progress (run_state j (en_completion en x wl w)) = progress (run_state j w))"

definition sane :: "string \<Rightarrow> Execution \<Rightarrow> world \<Rightarrow> bool" where
  "sane i x w \<longleftrightarrow> e_id x = i \<and> keyed (db w) \<and> states_own w"

lemma sane_quiet: "sane i x w \<Longrightarrow> no_start w w' \<Longrightarrow> sane i x w'"
  by (simp add: sane_def no_start_def)

lemma sane_emit: "sane i x w \<Longrightarrow> sane i x (snd (run_emit j ty ac p m md a t w))"
  by (simp add: sane_def run_emit_keyed run_emit_states)

lemma sane_note [intro]: "sane i x w \<Longrightarrow> sane i x (run_note j ty p w)"
  and sane_task_note [intro]: "sane i x w \<Longrightarrow> sane i x (task_note j ty agent task p w)"
  by (simp_all add: run_note_def task_note_def sane_emit)

lemma sane_change:
  "sane i x w \<Longrightarrow> (\<And>st. st_execution_id (f st) = st_execution_id st) \<Longrightarrow> sane i x (change_state j f w)"
  by (simp add: sane_def change_state_def states_own_def)

lemma sane_update: "sane i x w \<Longrightarrow> sane i x (db_update_execution y w)"
  by (simp add: sane_def states_own_def run_state_def)

lemma sane_row: "sane i x w \<Longrightarrow> e_id x' = e_id x \<Longrightarrow> sane i x' w"
  by (simp add: sane_def)

lemma sane_beaten: "sane i x w \<Longrightarrow> sane i x (beaten y w)"
proof -
  assume s: "sane i x w"
  have "keyed (snd (heartbeat now j worker (db w)))" if "keyed (db w)" for now j worker
    using that by (auto simp: heartbeat_def keyed_def get_execution_def Let_def split: option.split)
  then show ?thesis using s by (simp add: sane_def states_own_def run_state_def beaten_def split: option.split)
qed

text \<open>A predicate of where a part of a run ends, by a value or by an error.\<close>

fun ends_in :: "(Execution \<Rightarrow> world \<Rightarrow> bool) \<Rightarrow> 'a run \<Rightarrow> bool" where
  "ends_in P (r, x, w) = P x w"

lemma ends_in_rbind:
  "ends_in P r \<Longrightarrow> (\<And>a x w. r = (Inr a, x, w) \<Longrightarrow> P x w \<Longrightarrow> ends_in P (f a x w)) \<Longrightarrow> ends_in P (rbind r f)"
  by (cases r rule: prod_cases3; cases "fst r") auto

text \<open>
  What holds before a node and is kept by each part a node is made of holds after the whole plan.
\<close>

locale run_invariant =
  fixes P :: "Execution \<Rightarrow> world \<Rightarrow> bool"
  assumes own: "P x w \<Longrightarrow> states_own w"
    and quiet: "P x w \<Longrightarrow> no_start w w' \<Longrightarrow> P x w'"
    and emitted: "P x w \<Longrightarrow> P x (snd (run_emit j ty ac p m md a t w))"
    and row: "P x w \<Longrightarrow> e_id x' = e_id x \<Longrightarrow> P x' w"
    and update: "P x w \<Longrightarrow> P x (db_update_execution y w)"
    and beat: "P x w \<Longrightarrow> P x (beaten y w)"
    and position: "P x w \<Longrightarrow> P x (change_state (e_id x) (\<lambda>st. st\<lparr>st_current_node_id := n, st_current_agent_id := a,
      st_current_task_id := t\<rparr>) w)"
    and error: "P x w \<Longrightarrow> P x (change_state (e_id x) (put_error k message) w)"
    and recorded: "P x w \<Longrightarrow> P x (change_state (e_id x) (record_output en k v) w)"
begin

lemma keeps_note [intro]: "P x w \<Longrightarrow> P x (run_note j ty p w)"
  and keeps_task_note [intro]: "P x w \<Longrightarrow> P x (task_note j ty agent task p w)"
  by (simp_all add: run_note_def task_note_def emitted)

lemma keeps_agent: "quiet_env en \<Longrightarrow> P x w \<Longrightarrow> ends_in P (en_agent en call x w)"
proof -
  assume "quiet_env en" and s: "P x w"
  then have q: "no_start w (snd (snd (en_agent en call x w)))" "e_id (fst (snd (en_agent en call x w))) = e_id x"
    by (simp_all add: quiet_env_def)
  obtain r y v where "en_agent en call x w = (r, y, v)" by (rule prod_cases3)
  then show ?thesis using q row [OF quiet [OF s]] by simp
qed

lemma keeps_attempt_once:
  "quiet_env en \<Longrightarrow> P x w \<Longrightarrow> ends_in P (attempt_once en call ov n m x w)"
  unfolding attempt_once_def Let_def
  by (rule ends_in_rbind, rule keeps_agent) (auto intro: keeps_task_note)

lemma keeps_attempts:
  assumes env: "quiet_env en"
  shows "P x w \<Longrightarrow> ends_in P (attempts en call ov wl m n used x w)"
proof (induction "calls_left ov m n used" arbitrary: n used x w rule: less_induct)
  case less
  obtain r x' w' where run: "attempts en call ov wl m n used x w = (r, x', w')" by (rule prod_cases3)
  have once: "P y v" if "attempt_once en call ov n m x w = (a, y, v)" for a y v
    using keeps_attempt_once [OF env less.prems] that by (metis ends_in.simps)
  have ask: "P y (snd (maybe_request_task_approval en wl t ag j p rs v))" if "P y v" for y v wl t ag j p rs
    using that task_approval_quiet [OF env] by (intro quiet [OF that]) (simp add: own)
  show ?case
    unfolding run ends_in.simps
  proof (cases rule: attempts_cases [OF run])
    case (3 e w1 e')
    then show "P x' w'" using ask [OF once [OF 3(1)]] by (metis snd_conv)
  next
    case (4 e w1 p)
    then show "P x' w'" using once [OF 4(1)] by (simp add: keeps_task_note)
  next
    case (5 e w1 x1 p)
    have "calls_left ov m (n + 1) used < calls_left ov m n used" using 5(2) by (simp add: calls_left_def)
    from less.hyps [OF this keeps_task_note [OF once [OF 5(1)]]] 5(3) show "P x' w'" by (metis ends_in.simps)
  next
    case (6 e w1 x1 w2 p)
    have c: "calls_left ov m (n + 1) True < calls_left ov m n used" using 6(2-4) by (simp add: calls_left_def)
    have "P x1 w2" using ask [OF once [OF 6(1)]] 6(5) by (metis snd_conv)
    from less.hyps [OF c keeps_task_note [OF this]] 6(6) show "P x' w'" by (metis ends_in.simps)
  qed (use once in blast)+
qed

lemma keeps_try_task:
  assumes "quiet_env en" and "P x w"
  shows "ends_in P (try_task en workflow task agent profile ov timeout x w)"
  unfolding try_task_def
proof (rule ends_in_rbind)
  show "ends_in P (on_world (maybe_request_task_approval en workflow task agent (e_id x) p None) x w)" for p
    using quiet [OF assms(2) task_approval_quiet [OF assms(1)]] assms(2)
    by (simp add: on_world_def case_prod_unfold Let_def own)
  show "ends_in P (case en_resolve_client en profile of Some e \<Rightarrow> (Inl e, x', w')
      | None \<Rightarrow> execute_task_with_runtime_overrides en workflow task agent profile ov timeout x' w')"
    if "P x' w'" for x' w'
    using that keeps_attempts [OF assms(1) that]
    by (simp add: execute_task_with_runtime_overrides_def case_prod_unfold Let_def split: option.split)
qed

lemma keeps_handoff: "P x w \<Longrightarrow> P x (handoff workflow previous target st j w)"
  by (auto simp: handoff_def emit_handoff_event_def Let_def case_prod_unfold emitted split: option.split)

lemma keeps_settle: "P x w \<Longrightarrow> ends_in P (settle_node en workflow previous target value x w)"
proof -
  assume s: "P x w"
  obtain node task agent where t: "target = (node, task, agent)" by (rule prod_cases3)
  have w1: "P x (change_state (e_id x) (put_error k m) w)" for k m
    by (rule error [OF s])
  have w2: "P x (change_state (e_id x) (record_output en k out1) v)" if "P x v" for k out1 v
    by (rule recorded [OF that])
  have fin: "P (x\<lparr>e_output_payload := p\<rparr>) (handoff workflow previous target st j (db_update_execution y v))"
    if "P x v" for p st j y v
    by (rule row [OF keeps_handoff [OF update [OF that]]]) simp
  show ?thesis using s fin [OF w2] w1
    by (auto simp: settle_node_def t Let_def split: option.split sum.split)
qed

lemma keeps_run_node:
  assumes env: "loop_env en" and s: "P x w"
  shows "ends_in P (run_node en workflow policy previous target x w)"
proof -
  obtain node task agent where t: "target = (node, task, agent)" by (rule prod_cases3)
  define w1 where "w1 = change_state (e_id x) (\<lambda>st. st\<lparr>st_current_node_id := Some (n_id node),
      st_current_agent_id := Some (ad_id agent), st_current_task_id := Some (td_id task)\<rparr>) w"
  have s1: "P x w1" unfolding w1_def by (rule position [OF s])
  have g: "P x (en_graph_before en wl tk ag y v)" if "P x v" for wl tk ag y v
    using env by (intro quiet [OF that]) (simp add: loop_env_def)
  have s2: "P x (task_note j ty agent task p (en_graph_before en wl tk ag y (handoff workflow previous target st k w1)))"
    for j ty p wl tk ag y st k
    by (rule keeps_task_note [OF g [OF keeps_handoff [OF s1]]])
  have q: "quiet_env en" using env by (simp add: loop_env_def)
  have route: "ends_in P (route_failure workflow node r)" if "ends_in P r" for r
  proof -
    obtain a y v where r: "r = (a, y, v)" by (rule prod_cases3)
    have "P y (change_state (e_id y) (put_error k m) v)" if "P y v" for k m
      by (rule error [OF that])
    then show ?thesis using that by (auto simp: route_failure_def r split: sum.split)
  qed
  have "ends_in P (rbind (route_failure workflow node (try_task en workflow task agent profile ov timeout x v))
      (settle_node en workflow previous target))" if "P x v" for profile ov timeout v
    using ends_in_rbind [OF route [OF keeps_try_task [OF q that]]] keeps_settle by blast
  from this [OF s2] s1 show ?thesis
    unfolding run_node_def Let_def t prod.case w1_def [symmetric, folded t] by (auto simp: t split: sum.split)
qed

lemma keeps_node_step:
  assumes env: "loop_env en" and s: "P x w"
  shows "ends_in P (node_step en workflow policy retry node loop x w)"
proof -
  define w1 where "w1 = beaten x w"
  have s1: "P x w1" unfolding w1_def by (rule beat [OF s])
  have "ends_in P (rbind (run_node en workflow policy p t x w1) (\<lambda>_ x w. (Inr l, x, w)))" for p t and l :: loop_state
    by (rule ends_in_rbind [OF keeps_run_node [OF env s1]]) simp
  then show ?thesis using s s1
    by (auto simp: node_step_def Let_def case_prod_unfold w1_def [symmetric] keeps_note split: option.split sum.split)
qed

lemma keeps_run_nodes:
  assumes env: "loop_env en"
  shows "P x w \<Longrightarrow> ends_in P (run_nodes en workflow policy retry nodes loop x w)"
proof (induction nodes arbitrary: loop x w)
  case (Cons node nodes)
  show ?case
    unfolding run_nodes.simps by (rule ends_in_rbind [OF keeps_node_step [OF env Cons.prems] Cons.IH])
qed simp

end

interpretation sane: run_invariant "sane i" for i
proof
  show "sane i x (change_state (e_id x) (\<lambda>st. st\<lparr>st_current_node_id := n, st_current_agent_id := a,
      st_current_task_id := t\<rparr>) w)" if "sane i x w" for x w n a t
    by (rule sane_change [OF that]) simp
  show "sane i x (change_state (e_id x) (put_error k m) w)" if "sane i x w" for x w k m
    by (rule sane_change [OF that]) (simp add: put_error_def)
  show "sane i x (change_state (e_id x) (record_output en k v) w)" if "sane i x w" for x w en k v
    by (rule sane_change [OF that]) (simp add: record_output_def Let_def)
qed (auto simp: sane_emit sane_update sane_beaten intro: sane_quiet sane_row, simp add: sane_def)

section \<open>Every run settles its execution\<close>

definition SETTLED :: "ExecutionStatus set" where
  "SETTLED = {COMPLETED, FAILED, ExecutionStatus.CANCELLED, PAUSED} \<union> DURABLE_WAIT_EXECUTION_STATUSES"

definition stored :: "Execution \<Rightarrow> world \<Rightarrow> bool" where
  "stored x w \<longleftrightarrow> (\<exists>e. get_execution (e_id x) (db w) = Some e \<and> e_status e = e_status x)"

definition settled_in :: "string \<Rightarrow> 'a run \<Rightarrow> bool" where
  "settled_in i r = (case r of (Inl e, x, w) \<Rightarrow> True
     | (Inr _, x, w) \<Rightarrow> e_id x = i \<and> e_status x \<in> SETTLED \<and> stored x w)"

lemma settled_simps [simp]:
  "settled_in i (Inl e, p)"
  "settled_in i (Inr a, x, w) \<longleftrightarrow> e_id x = i \<and> e_status x \<in> SETTLED \<and> stored x w"
  by (cases p) (simp_all add: settled_in_def)

lemma SETTLED_simps [simp]:
  "COMPLETED \<in> SETTLED" "FAILED \<in> SETTLED" "ExecutionStatus.CANCELLED \<in> SETTLED" "PAUSED \<in> SETTLED" "SLEEPING \<in> SETTLED"
  by (simp_all add: SETTLED_def DURABLE_WAIT_EXECUTION_STATUSES_def)

lemma stored_update [simp]: "stored x (db_update_execution x w)"
  by (simp add: stored_def)

lemma stored_kept: "stored x w \<Longrightarrow> executions_kept (db w) (db w') \<Longrightarrow> stored x w'"
  by (auto simp: stored_def dest!: executions_keptD same_but_activityD(2))

lemma stored_emit: "keyed (db w) \<Longrightarrow> stored x w \<Longrightarrow> stored x (snd (run_emit i ty ac p m md a t w))"
  using stored_kept run_emit_kept(1) by blast

lemma stored_note: "keyed (db w) \<Longrightarrow> stored x w \<Longrightarrow> stored x (run_note i ty p w)"
  by (simp add: run_note_def stored_emit)

lemma keyed_note: "keyed (db w) \<Longrightarrow> keyed (db (run_note i ty p w))"
  by (simp add: run_note_def run_emit_keyed)

lemma settled_rbind:
  "(\<And>a x w. r = (Inr a, x, w) \<Longrightarrow> settled_in i (f a x w)) \<Longrightarrow> settled_in i (rbind r f)"
  by (cases r rule: prod_cases3; cases "fst r") auto

lemma pause_guard_settles:
  "keyed (db w) \<Longrightarrow> e_id x = i \<Longrightarrow> settled_in i (pause_persistent_cycle_for_guard out reason detail x w)"
proof (cases "cycle_number_of (cycle_of x)")
  case (Inr n)
  assume a: "keyed (db w)" "e_id x = i"
  show ?thesis by (rule pause_guard_effect [OF a(1) Inr, of out reason detail]) (use a in \<open>auto simp: stored_def\<close>)
qed (simp add: pause_persistent_cycle_for_guard_def Let_def)

lemma sleep_settles: "keyed (db w) \<Longrightarrow> e_id x = i \<Longrightarrow> settled_in i (sleep_on t n wait x w)"
  by (simp add: sleep_on_def Let_def stored_note)

lemma stored_cycle_wait_rows: "stored_cycle_wait wait s = Inr (saved, s') \<Longrightarrow> keyed s \<Longrightarrow> keyed s'"
  by (auto simp: stored_cycle_wait_def create_execution_wait_def keyed_def get_execution_def
      split: sum.splits option.splits if_splits list.splits)

lemma schedule_settles:
  assumes "keyed (db w)" and "e_id x = i"
  shows "settled_in i (schedule_persistent_cycle en policy out delay reason x w)"
proof -
  have k: "keyed (db (snd (uuid4 (db_update_execution y (change_state j f w)))))" for y j f
    using assms(1) by (simp add: change_state_def)
  have "settled_in i (case sbind r (\<lambda>wait. stored_cycle_wait wait (db (snd (uuid4 (db_update_execution y (change_state j f w)))))) of
      Inl e \<Rightarrow> (Inl e, z) | Inr (saved, s) \<Rightarrow> sleep_on t m saved y' (v\<lparr>db := s\<rparr>))"
    if "e_id y' = i" for r y j f z t m y' v
    using that k stored_cycle_wait_rows [OF _ k]
    by (auto simp: sbind_def split: sum.split intro!: sleep_settles)
  then show ?thesis using assms(2)
    by (auto simp: schedule_persistent_cycle_def Let_def case_prod_unfold split: sum.split)
qed

text \<open>What is known of a run that goes on, or that is left by an error.\<close>

definition kept :: "string \<Rightarrow> Execution \<Rightarrow> world \<Rightarrow> bool" where
  "kept i x w \<longleftrightarrow> e_id x = i \<and> keyed (db w)"

lemma sane_kept: "ends_in (sane i) r \<Longrightarrow> ends_in (kept i) r"
  by (cases r rule: prod_cases3) (simp add: sane_def kept_def)

lemma kept_note: "kept i x w \<Longrightarrow> kept i x (run_note j ty p w)"
  by (simp add: kept_def keyed_note)

lemma keyed_change [simp]: "keyed (db (change_state j f w)) = keyed (db w)"
  by (simp add: change_state_def)

lemma pause_guard_kept: "kept i x w \<Longrightarrow> ends_in (kept i) (pause_persistent_cycle_for_guard out reason detail x w)"
  by (auto simp: pause_persistent_cycle_for_guard_def reset_cycle_checkpoint_def cleared_def kept_def Let_def keyed_note
      split: sum.split)

lemma sleep_kept: "kept i x w \<Longrightarrow> ends_in (kept i) (sleep_on t n wait x w)"
  by (simp add: sleep_on_def Let_def kept_def keyed_note)

lemma bound_wait_rows:
  "sbind r (\<lambda>wait. stored_cycle_wait wait s) = Inr (saved, s') \<Longrightarrow> keyed s \<Longrightarrow> keyed s'"
  by (cases r) (auto dest: stored_cycle_wait_rows)

lemma schedule_kept:
  assumes "kept i x w"
  shows "ends_in (kept i) (schedule_persistent_cycle en policy out delay reason x w)"
proof -
  have k: "keyed (db (db_update_execution y (change_state j f w)))" for y j f
    using assms by (simp add: kept_def)
  show ?thesis using assms
    by (auto simp: schedule_persistent_cycle_def Let_def case_prod_unfold kept_def split: sum.split
        intro!: sleep_kept dest!: bound_wait_rows [OF _ k])
qed

lemma continue_kept: "kept i x w \<Longrightarrow> ends_in (kept i) (continue_cycle en policy out reason k x w)"
proof -
  assume a: "kept i x w"
  have r: "ends_in (kept i) (rbind q (\<lambda>_ x w. (Inr True, x, w)))" if "ends_in (kept i) q" for q :: "unit run"
    by (rule ends_in_rbind [OF that]) simp
  show ?thesis using a
    by (auto simp: continue_cycle_def r pause_guard_kept schedule_kept split: option.split) (auto simp: kept_def)
qed

lemma continue_settles:
  assumes "kept i x w" and "continue_cycle en policy out reason k x w = (Inr True, y, v)"
  shows "e_id y = i \<and> e_status y \<in> SETTLED \<and> stored y v"
proof -
  have r: "e_id y = i \<and> e_status y \<in> SETTLED \<and> stored y v"
    if "rbind q (\<lambda>_ x w. (Inr True, x, w)) = (Inr True, y, v)" "settled_in i q" for q :: "unit run"
    using that by (cases q rule: prod_cases3; cases "fst q") auto
  have k: "keyed (db w)" "e_id x = i" using assms(1) by (simp_all add: kept_def)
  from r [OF _ pause_guard_settles [OF k]] r [OF _ schedule_settles [OF k]] assms(2)
  show ?thesis by (auto simp: continue_cycle_def split: option.splits if_splits)
qed

lemma cycle_success_cases:
  assumes "kept i x w"
  obtains (off) "\<not> pc_enabled policy" "handle_persistent_cycle_success en policy out x w = (Inr False, x, w)"
  | (error) e y where "handle_persistent_cycle_success en policy out x w = (Inl e, y, w)" "kept i y w"
  | (went_on) y v reason k where
      "handle_persistent_cycle_success en policy out x w = continue_cycle en policy out reason k y v" "kept i y v"
proof (cases "pc_enabled policy")
  case True
  let ?n = "sbind (cycle_number_of (cycle_of x)) (\<lambda>n. sbind (count_no_progress (cycle_of x)
      (cycle_progress_signature en out)) (\<lambda>k. Inr (n, k)))"
  show thesis
  proof (cases ?n)
    case (Inl e)
    show thesis by (rule error) (use True Inl assms in \<open>auto simp: handle_persistent_cycle_success_def Let_def kept_def\<close>)
  next
    case (Inr nk)
    then obtain n k where n: "?n = Inr (n, k)" by (cases nk) simp
    define x2 where "x2 = put_cycle (finished_cycle en policy out (clock w) n k (cycle_of x)) ((put_cycle (cycle_of x) x)\<lparr>e_error := None\<rparr>)"
    have x2: "kept i x2 w" using assms by (simp add: x2_def kept_def)
    show thesis
    proof (cases "terminal_reason policy (clock w) n")
      case (Inl e)
      show thesis by (rule error [OF _ x2]) (use True n Inl in \<open>simp add: handle_persistent_cycle_success_def Let_def x2_def\<close>)
    next
      case (Inr reason)
      show thesis
        by (rule went_on [OF _ kept_note [OF x2]]) (use True n Inr in \<open>simp add: handle_persistent_cycle_success_def Let_def x2_def\<close>)
    qed
  qed
qed (use off in \<open>simp add: handle_persistent_cycle_success_def\<close>)

lemma cycle_success_kept: "kept i x w \<Longrightarrow> ends_in (kept i) (handle_persistent_cycle_success en policy out x w)"
  by (rule cycle_success_cases [of i x w policy en out]) (auto simp: continue_kept)

lemma cycle_success_settles:
  "kept i x w \<Longrightarrow> handle_persistent_cycle_success en policy out x w = (Inr True, y, v) \<Longrightarrow>
   e_id y = i \<and> e_status y \<in> SETTLED \<and> stored y v"
  by (rule cycle_success_cases [of i x w policy en out]) (auto simp: continue_settles)

lemma cycle_failure_settles:
  assumes "keyed (db w)" and "e_id x = i" and "harmless_graph en"
  shows "settled_in i (handle_persistent_cycle_failure en workflow policy error x w)"
proof -
  have k: "keyed (db (en_graph_failure en workflow y error ev (snd (run_emit j ty ac p m md a t w))))" for y ev j ty ac p m md a t
    using assms(3) run_emit_keyed [OF assms(1)] by (simp add: harmless_graph_def)
  show ?thesis using assms(2) k
    by (auto simp: handle_persistent_cycle_failure_def Let_def case_prod_unfold split: sum.split
        intro!: pause_guard_settles schedule_settles)
qed

lemma after_failure:
  assumes "loop_env en" and "keyed (db w)" and "stored x w"
  shows "stored x (en_completion en y wl (en_graph_failure en wl' z e ev (snd (run_emit j ty ac p m md a t w))))"
proof -
  let ?v = "snd (run_emit j ty ac p m md a t w)"
  have v: "keyed (db ?v)" "stored x ?v" using run_emit_keyed [OF assms(2)] stored_emit [OF assms(2,3)] by simp_all
  have g: "keyed (db (en_graph_failure en wl' z e ev ?v))" "executions_kept (db ?v) (db (en_graph_failure en wl' z e ev ?v))"
    using assms(1) v(1) unfolding loop_env_def harmless_graph_def by blast+
  have "executions_kept (db (en_graph_failure en wl' z e ev ?v)) (db (en_completion en y wl (en_graph_failure en wl' z e ev ?v)))"
    using assms(1) g(1) unfolding loop_env_def by blast
  from stored_kept [OF stored_kept [OF v(2) g(2)] this] show ?thesis .
qed

lemma store_failure_settles:
  assumes "loop_env en" and "keyed (db w)" and "e_id x = i" and "e_status x = FAILED"
  shows "settled_in i (store_failure en workflow payload error x w)"
proof -
  have "keyed (db (db_update_execution x w))" using assms(2) by simp
  from after_failure [OF assms(1) this stored_update] assms(3,4) show ?thesis
    by (simp add: store_failure_def Let_def case_prod_unfold)
qed

lemma complete_settles:
  assumes "loop_env en" and "kept i x w"
  shows "settled_in i (complete_run en workflow x w)"
proof -
  have c: "stored y (en_completion en z wl v)" if "keyed (db v)" "stored y v" for y z wl v
    using assms(1) that stored_kept [of y v] by (simp add: loop_env_def)
  have k: "keyed (db (db_update_execution y w))" for y using assms(2) by (simp add: kept_def)
  show ?thesis using assms(2) c [OF run_emit_keyed [OF k] stored_emit [OF k stored_update]]
    by (simp add: complete_run_def Let_def case_prod_unfold kept_def)
qed

text \<open>How the \<open>try\<close> block ends: settled, or with an error in a state it can be settled from.\<close>

definition ends :: "string \<Rightarrow> 'a run \<Rightarrow> bool" where
  "ends i r = (case r of (Inl e, x, w) \<Rightarrow> kept i x w
     | (Inr _, x, w) \<Rightarrow> e_id x = i \<and> e_status x \<in> SETTLED \<and> stored x w)"

lemma ends_simps [simp]:
  "ends i (Inl e, x, w) \<longleftrightarrow> kept i x w"
  "ends i (Inr a, x, w) \<longleftrightarrow> e_id x = i \<and> e_status x \<in> SETTLED \<and> stored x w"
  by (simp_all add: ends_def)

lemma ends_rbind:
  "ends_in (kept i) r \<Longrightarrow> (\<And>a x w. r = (Inr a, x, w) \<Longrightarrow> kept i x w \<Longrightarrow> ends i (f a x w)) \<Longrightarrow> ends i (rbind r f)"
  by (cases r rule: prod_cases3; cases "fst r") auto

lemma ends_sane_rbind:
  "ends_in (sane i) r \<Longrightarrow> (\<And>a x w. sane i x w \<Longrightarrow> ends i (f a x w)) \<Longrightarrow> ends i (rbind r f)"
  by (cases r rule: prod_cases3; cases "fst r") (auto simp: sane_def kept_def)

lemma settles_ends: "settled_in i r \<Longrightarrow> ends_in (kept i) r \<Longrightarrow> ends i r"
  by (cases r rule: prod_cases3; cases "fst r") auto

lemma settles_Inr: "settled_in i r \<Longrightarrow> fst r = Inr a \<Longrightarrow> ends i r"
  by (cases r rule: prod_cases3) auto

lemma cycle_failure_kept:
  assumes "kept i x w" and "harmless_graph en"
  shows "ends_in (kept i) (handle_persistent_cycle_failure en workflow policy error x w)"
proof -
  have "keyed (db w)" using assms(1) by (simp add: kept_def)
  then have k: "keyed (db (en_graph_failure en workflow y error ev (snd (run_emit j ty ac p m md a t w))))" for y ev j ty ac p m md a t
    using assms(2) run_emit_keyed by (simp add: harmless_graph_def)
  show ?thesis using assms(1) k
    by (auto simp: handle_persistent_cycle_failure_def Let_def case_prod_unfold kept_def split: sum.split
        intro!: pause_guard_kept schedule_kept)
qed

lemma finish_ends:
  assumes env: "loop_env en" and k: "kept i x w"
  shows "ends i (finish_run en workflow policy x w)"
  unfolding finish_run_def Let_def
proof (rule ends_rbind)
  let ?o = "st_node_outputs (run_state (e_id x) w)"
  let ?c = "[(''node_outputs'', VDict ?o), (''final_output'', final_output ?o)]"
  let ?h = "handle_persistent_cycle_success en policy ?c (x\<lparr>e_output_payload := Some ?c\<rparr>) w"
  have k1: "kept i (x\<lparr>e_output_payload := Some ?c\<rparr>) w" using k by (simp add: kept_def)
  show "ends_in (kept i) ?h" by (rule cycle_success_kept [OF k1])
  fix handled y v assume h: "?h = (Inr handled, y, v)" and y: "kept i y v"
  have g: "harmless_graph en" using env by (simp add: loop_env_def)
  have yv: "keyed (db v)" "e_id y = i" using y by (simp_all add: kept_def)
  have f: "ends i (store_failure en workflow p m (mark_failed m v y) v)" for p m
    by (rule settles_Inr [OF store_failure_settles [OF env yv(1)]])
      (use yv in \<open>simp_all add: mark_failed_def store_failure_def Let_def case_prod_unfold\<close>)
  have c: "ends i (complete_run en workflow y v)"
    by (rule settles_Inr [OF complete_settles [OF env y]]) (simp add: complete_run_def Let_def case_prod_unfold)
  have l: "ends i (handle_persistent_cycle_failure en workflow policy m y v)" for m
    by (rule settles_ends [OF cycle_failure_settles [OF yv g] cycle_failure_kept [OF y g]])
  show "ends i (if handled then (Inr (), y, v) else case st_node_errors (run_state (e_id y) v) of
        [] \<Rightarrow> complete_run en workflow y v
      | (k, e) # rest \<Rightarrow>
          if pc_enabled policy then handle_persistent_cycle_failure en workflow policy (case as_str e of Some m \<Rightarrow> m | None \<Rightarrow> []) y v
          else store_failure en workflow
            [(''error'', VStr (case as_str e of Some m \<Rightarrow> m | None \<Rightarrow> [])), (''node_errors'', VDict ((k, e) # rest)),
             (''output'', case e_output_payload y of None \<Rightarrow> VNone | Some p \<Rightarrow> VDict p)]
            (case as_str e of Some m \<Rightarrow> m | None \<Rightarrow> []) (mark_failed (case as_str e of Some m \<Rightarrow> m | None \<Rightarrow> []) v y) v)"
    using cycle_success_settles [OF k1, of en policy ?c y v] h f c l
    by (auto split: list.split)
qed

lemma workflow_approval_quiet:
  assumes "quiet_env en" and "states_own w"
  shows "no_start w (snd (maybe_request_workflow_approval en workflow i reason w))"
  unfolding maybe_request_workflow_approval_def Let_def case_prod_unfold
proof (rule andthen_no_start)
  let ?w1 = "\<lambda>p. snd (run_emit i APPROVAL_REQUESTED None p [] [] None None w)"
  have q: "no_start w (?w1 p)" for p by (rule no_start_emit [OF assms(2)]) simp
  show n: "no_start w (snd (approval_decision en i t a b c (?w1 p)))" for t a b c p
    by (rule no_start_trans [OF q decision_quiet [OF assms(1)]])
  have told: "no_start v (run_note i ty p v)" if "states_own v" "ty \<noteq> AGENT_STEP_STARTED" for ty p v
    using that by (simp add: run_note_def no_start_emit)
  show "no_start (snd (approval_decision en i t a b c (?w1 p)))
     (snd (if \<not> d_granted d then (Inl e, run_note i APPROVAL_REJECTED x (snd (approval_decision en i t a b c (?w1 p))))
       else (Inr (), run_note i APPROVAL_GRANTED y (snd (approval_decision en i t a b c (?w1 p))))))"
    for t a b c p d e x y
    using told [OF states_own_kept [OF n assms(2)]] by simp
qed

lemma run_workflow_ends:
  assumes env: "loop_env en" and s: "sane i x w"
  shows "ends i (run_workflow en workflow policy cycle x w)"
proof -
  have s1: "sane i x (prepare_plan en workflow x w)"
    unfolding prepare_plan_def by (rule sane_change [OF s]) (simp add: Let_def)
  have q: "quiet_env en" using env by (simp add: loop_env_def)
  have ap: "sane i x (snd (maybe_request_workflow_approval en workflow j reason v))" if v: "sane i x v" for j reason v
    using workflow_approval_quiet [OF q] v by (intro sane_quiet [OF v]) (simp add: sane_def)
  have first: "ends_in (sane i) (on_world (if c then maybe_request_workflow_approval en workflow j reason else (\<lambda>w. (Inr (), w))) x v)"
    if "sane i x v" for c j reason v
    using that ap [OF that] by (simp add: on_world_def case_prod_unfold Let_def)
  have rest: "ends i (rbind (run_nodes en workflow policy retry nodes loop y v) (\<lambda>(_, started) x w.
      if \<not> started then (Inl e, x, w) else finish_run en workflow cycle x w))" if v: "sane i y v" for retry nodes loop y v e
    by (rule ends_rbind [OF sane_kept [OF sane.keeps_run_nodes [OF env v]]]) (auto simp: finish_ends [OF env])
  show ?thesis
    unfolding run_workflow_def Let_def
  proof (rule ends_sane_rbind [OF first [OF s1]])
    fix a y v assume "sane i y v"
    then show "ends i (rbind (run_nodes en workflow policy (retry_task_id x) (order_nodes workflow) (None, retry_task_id x = None) y v)
        (\<lambda>(_, started) x' w. if \<not> started then (Inl (missing (''Retry task '' @ quote (case retry_task_id x of
            Some t \<Rightarrow> t | None \<Rightarrow> []) @ '' was not found in workflow '' @ quote (wd_id workflow))), x', w)
          else finish_run en workflow cycle x' w))"
      by (rule rest)
  qed
qed

lemma stops_settle:
  assumes "kept i x w"
  shows "settled_in i (stop_paused x w)" and "settled_in i (stop_cancelled x w)"
proof -
  have k: "keyed (db w)" "e_id x = i" using assms by (simp_all add: kept_def)
  show "settled_in i (stop_cancelled x w)"
    using k by (simp add: stop_cancelled_def Let_def stored_note)
  show "settled_in i (stop_paused x w)"
    using k by (auto simp: stop_paused_def Let_def SETTLED_def intro!: stored_note keyed_note split: option.split)
qed

lemma leave_settles:
  assumes env: "loop_env en" and "ends i r"
  shows "settled_in i (leave_run en workflow policy r)"
proof -
  obtain a x w where r: "r = (a, x, w)" by (rule prod_cases3)
  show ?thesis
  proof (cases a)
    case (Inl e)
    then have k: "kept i x w" using assms(2) by (simp add: r)
    then have "settled_in i (stop_failed en workflow policy e x w)"
      using env store_failure_settles [OF env] cycle_failure_settles
      by (auto simp: stop_failed_def mark_failed_def kept_def loop_env_def)
    then show ?thesis using stops_settle [OF k] by (simp add: leave_run_def r Inl)
  next
    case (Inr u)
    then show ?thesis using assms(2) by (simp add: leave_run_def r)
  qed
qed

lemma hydrate_from_id: "st_execution_id (snd (hydrate_from p st)) = st_execution_id st"
  by (simp add: hydrate_from_def Let_def split: option.split sum.split)

lemma hydrate_case:
  "snd (case hydrate_from p st of (Some e, st') \<Rightarrow> (Inl e, st') | (None, st') \<Rightarrow> (Inr r, st')) = snd (hydrate_from p st)"
  by (simp split: prod.split option.split)

lemma resume_state_id:
  "st_execution_id (snd (hydrate_resume_checkpoint x s st)) = st_execution_id st"
  unfolding hydrate_resume_checkpoint_def
  by (auto simp: hydrate_case hydrate_from_id split: sum.splits option.splits)

lemma sane_put: "sane i x w \<Longrightarrow> st_execution_id st = j \<Longrightarrow> sane i x (w\<lparr>states := dset j st (states w)\<rparr>)"
  by (simp add: sane_def states_own_def)

lemma launch_settles:
  assumes env: "loop_env en" and s: "sane i x w"
  shows "settled_in i (launch en workflow policy n x w)"
proof -
  let ?st = "snd (hydrate_resume_checkpoint x (db w) (run_state (e_id x) w))"
  have "sane i x (w\<lparr>states := dset (e_id x) ?st (states w)\<rparr>)"
    using s by (intro sane_put [OF s]) (simp add: resume_state_id sane_def states_own_def)
  then have "settled_in i (leave_run en workflow policy (run_workflow en workflow p policy x (case n of None \<Rightarrow>
        run_note j ty a (w\<lparr>states := dset (e_id x) ?st (states w)\<rparr>)
      | Some m \<Rightarrow> run_note j' ty' (b m) (run_note j ty a (w\<lparr>states := dset (e_id x) ?st (states w)\<rparr>)))))"
    for p j ty a j' ty' b
    by (intro leave_settles [OF env run_workflow_ends [OF env]]) (auto split: option.split)
  then show ?thesis
    by (auto simp: launch_def Let_def case_prod_unfold split: sum.split)
qed

lemma begin_state_frame:
  assumes "states_own w"
  shows "db (begin_state e workflow w) = db w" and "states_own (begin_state e workflow w)"
proof -
  show "db (begin_state e workflow w) = db w"
    by (simp add: begin_state_def new_state_def Let_def case_prod_unfold)
  have id: "st_execution_id st = j" if "map_of (states w) j = Some st" for j st
    using assms that unfolding states_own_def run_state_def by (metis option.case(2))
  show "states_own (begin_state e workflow w)"
    using assms id
    by (auto simp: begin_state_def new_state_def Let_def case_prod_unfold states_own_def run_state_def split: option.splits)
qed

text \<open>What a start that returns has gone through.\<close>

lemma started:
  assumes "keyed (db w)" and "start_execution en i w = (Inr x, w')"
  obtains e workflow policy n y where "get_execution i (db w) = Some e" "reject_terminal_execution_replay e = None"
    "en_get_workflow en (e_workflow_id e) = Some workflow" "resolve_persistent_cycle_policy (en_fromiso en) e = Inr policy"
    "mark_persistent_cycle_started policy (clock (begin_state e workflow w)) e = (Inr n, y)" "e_id e = i" "e_id y = i"
    "launch en workflow policy n (started_row (clock (begin_state e workflow w)) y)
      (db_update_execution (started_row (clock (begin_state e workflow w)) y) (begin_state e workflow w)) = (Inr (), x, w')"
proof -
  obtain e where e: "get_execution i (db w) = Some e" using assms(2) by (auto simp: start_execution_def split: option.splits)
  then have eid: "e_id e = i" by (rule keyedD [OF assms(1)])
  obtain workflow where wl: "en_get_workflow en (e_workflow_id e) = Some workflow"
    and ok: "reject_terminal_execution_replay e = None"
    using assms(2) e by (auto simp: start_execution_def split: option.splits)
  obtain policy where p: "resolve_persistent_cycle_policy (en_fromiso en) e = Inr policy"
    using assms(2) by (auto simp: start_execution_def e wl ok Let_def split: sum.splits)
  obtain r y where my: "mark_persistent_cycle_started policy (clock (begin_state e workflow w)) e = (r, y)" by fastforce
  then obtain n where m: "mark_persistent_cycle_started policy (clock (begin_state e workflow w)) e = (Inr n, y)"
    using assms(2) by (cases r) (auto simp: start_execution_def e wl ok p Let_def)
  have l: "launch en workflow policy n (started_row (clock (begin_state e workflow w)) y)
      (db_update_execution (started_row (clock (begin_state e workflow w)) y) (begin_state e workflow w)) = (Inr (), x, w')"
    using assms(2) by (auto simp: start_execution_def e wl ok p m Let_def split: prod.splits sum.splits)
  have "e_id y = i"
    using m eid by (auto simp: mark_persistent_cycle_started_def Let_def split: if_splits sum.splits)
  from that [OF e ok wl p m eid this l] show thesis .
qed

lemma start_settles:
  assumes "loop_env en" and "keyed (db w)" and "states_own w"
    and "start_execution en i w = (Inr x, w')"
  shows "settled_in i (Inr (), x, w')"
proof -
  obtain e workflow policy n y where "e_id y = i"
    and l: "launch en workflow policy n (started_row (clock (begin_state e workflow w)) y)
      (db_update_execution (started_row (clock (begin_state e workflow w)) y) (begin_state e workflow w)) = (Inr (), x, w')"
    by (rule started [OF assms(2,4)]) blast
  then have "sane i (started_row t y) (db_update_execution z (begin_state e workflow w))" for t z
    using begin_state_frame [OF assms(3)] assms(2)
    by (intro sane_update) (simp add: sane_def started_row_def)
  from launch_settles [OF assms(1) this, of workflow policy n] l show ?thesis by metis
qed


text \<open>Without a persistent cycle nothing is raised once the run has begun.\<close>

lemma leave_returns: "\<not> pc_enabled policy \<Longrightarrow> fst (leave_run en workflow policy r) = Inr ()"
  by (cases r rule: prod_cases3)
    (auto simp: leave_run_def stop_paused_def stop_cancelled_def stop_failed_def store_failure_def Let_def case_prod_unfold
      split: sum.split)

definition sample_engine :: "(agent_call \<Rightarrow> Execution \<Rightarrow> world \<Rightarrow> pyval run) \<Rightarrow> engine_env" where
  "sample_engine agent = (sample_env agent)\<lparr>en_get_workflow := \<lambda>i. Some diamond_workflow\<rparr>"

lemma sample_engine_ok: "loop_env (sample_engine (\<lambda>call x w. (r, x, w)))"
  by (simp add: loop_env_def harmless_graph_def quiet_env_def sample_engine_def sample_env_def)

lemma sample_states_own: "states_own sample_world"
  by (simp add: states_own_def run_state_def sample_world_def)

lemma sample_start:
  "\<exists>x w'. start_execution (sample_engine agent) ''ex-1'' sample_world = (Inr x, w')"
proof -
  have p: "workflow_runtime_policy diamond_workflow = Inr []"
    by (simp add: workflow_runtime_policy_def diamond_workflow_def own_or_positive_def dict_or_empty_def int_at_least_def
        put_opt_def choice_def or_str_def)
  have c: "resolve_persistent_cycle_policy f sample_execution = Inr default_cycle_policy" for f
    by (simp add: resolve_persistent_cycle_policy_def sample_execution_def)
  have h: "hydrate_resume_checkpoint (started_row t sample_execution) s st = (Inr None, st)" for t s st
    by (simp add: hydrate_resume_checkpoint_def started_row_def sample_execution_def checkpoint_payload_summary_def
        node_outputs_from_checkpoint_def resume_source_def)
  have off: "\<not> pc_enabled default_cycle_policy" by (simp add: default_cycle_policy_def)
  have l: "fst (launch (sample_engine agent) diamond_workflow default_cycle_policy None (started_row t sample_execution) w) = Inr ()" for t w
    by (simp add: launch_def p h Let_def leave_returns [OF off])
  have m: "mark_persistent_cycle_started default_cycle_policy t sample_execution = (Inr None, sample_execution)" for t
    using off by (simp add: mark_persistent_cycle_started_def)
  show ?thesis using l
    by (simp add: start_execution_def get_execution_def reject_terminal_execution_replay_def TERMINAL_EXECUTION_STATUSES_def
        sample_engine_def c m Let_def case_prod_unfold sample_execution_def [unfolded sample_execution_def])
qed


end
