(* ===== verification/Worker.thy ===== *)
theory Worker
  imports Reconcile Run_Properties
begin

text \<open>
  The process that runs one execution inside a container, \<open>app/runtime/worker.py\<close>: it takes the execution's
  lock, runs the execution, turns the end of the run into an exit code for the reconciler and gives the lock
  back. What other processes do while the worker sleeps or the run is under way is part of the arguments: a
  list of changes of the world, one per sleep, and the outcome of the run with the world it leaves. Closing
  browser sessions is an HTTP call and is left out.
\<close>

section \<open>The environment of a worker\<close>

definition worker_id_for_execution :: "string \<Rightarrow> string" where
  "worker_id_for_execution execution_id = ''container-worker-'' @ execution_id"

record worker_environment =
  we_execution_id :: string
  we_workflow_id :: string
  we_goal_id :: "string option"
  we_runtime_revision_id :: string
  we_runtime_adapter_id :: string
  we_worker_id :: string
  we_heartbeat_interval_seconds :: pyfloat
  we_execution_timeout_seconds :: "pyfloat option"

definition required :: "(string \<Rightarrow> string option) \<Rightarrow> string \<Rightarrow> exc + string" where
  "required source name =
    (case or_str (source name) None of
       None \<Rightarrow> Inl (RuntimeError (name @ '' is required''))
     | Some v \<Rightarrow> Inr v)"

definition load_worker_environment :: "(string \<Rightarrow> string option) \<Rightarrow> exc + worker_environment" where
  "load_worker_environment source =
    sbind (required source ''AGENCY_EXECUTION_ID'') (\<lambda>execution_id.
    sbind (required source ''AGENCY_WORKFLOW_ID'') (\<lambda>workflow_id.
    sbind (required source ''AGENCY_RUNTIME_REVISION_ID'') (\<lambda>runtime_revision_id.
    sbind (required source ''AGENCY_RUNTIME_ADAPTER_ID'') (\<lambda>runtime_adapter_id.
    sbind (case source ''AGENCY_HEARTBEAT_INTERVAL_SECONDS'' of
             None \<Rightarrow> Inr (Fin 1) | Some s \<Rightarrow> py_float (VStr s)) (\<lambda>interval.
    sbind (case or_str (source ''AGENCY_EXECUTION_TIMEOUT_SECONDS'') None of
             None \<Rightarrow> Inr None | Some s \<Rightarrow> sbind (py_float (VStr s)) (\<lambda>f. Inr (Some f))) (\<lambda>timeout.
    Inr \<lparr>we_execution_id = execution_id, we_workflow_id = workflow_id,
         we_goal_id = or_str (source ''AGENCY_GOAL_ID'') None, we_runtime_revision_id = runtime_revision_id,
         we_runtime_adapter_id = runtime_adapter_id,
         we_worker_id = (case or_str (source ''AGENCY_WORKER_ID'') None of
             Some i \<Rightarrow> i | None \<Rightarrow> worker_id_for_execution execution_id),
         we_heartbeat_interval_seconds = interval, we_execution_timeout_seconds = timeout\<rparr>))))))"

section \<open>Exit codes and failures\<close>

definition exit_code_for_execution :: "Execution \<Rightarrow> int" where
  "exit_code_for_execution execution =
    (if e_status execution = COMPLETED then WORKER_EXIT_SUCCESS
     else if e_status execution = ExecutionStatus.CANCELLED then WORKER_EXIT_CANCELLED
     else if e_status execution = FAILED then WORKER_EXIT_WORKFLOW_FAILED
     else if e_status execution \<in> {WAITING_FOR_INPUT, WAITING_FOR_APPROVAL, WAITING_FOR_EVENT, SLEEPING, PAUSED}
       then WORKER_EXIT_SUSPENDED
     else WORKER_EXIT_INFRA_FAILED)"

text \<open>\<open>metadata.setdefault("runtime_diagnostics", {})[key] = value\<close>: what is there must be a dictionary.\<close>

definition put_diagnostic :: "string \<Rightarrow> json \<Rightarrow> Execution \<Rightarrow> exc + Execution" where
  "put_diagnostic key entry execution =
    (case (case map_of (e_metadata execution) ''runtime_diagnostics'' of None \<Rightarrow> VDict [] | Some v \<Rightarrow> v) of
       VDict d \<Rightarrow> Inr (execution\<lparr>e_metadata :=
           dset ''runtime_diagnostics'' (VDict (dset key (VDict entry) d)) (e_metadata execution)\<rparr>)
     | _ \<Rightarrow> Inl (TypeError ''object does not support item assignment''))"

definition mark_worker_failure :: "Execution \<Rightarrow> string \<Rightarrow> unit act" where
  "mark_worker_failure execution error w =
    (let entry = [(''error'', VStr error), (''worker_id'', opt_str (e_worker_id execution)),
           (''runtime_revision_id'', opt_str (e_runtime_revision_id execution))]
     in case put_diagnostic ''worker_failure'' entry
               (execution\<lparr>e_status := FAILED, e_error := Some error, e_completed_at := Some (clock w)\<rparr>) of
          Inl e \<Rightarrow> (Inl e, w)
        | Inr failed \<Rightarrow>
            (Inr (), emit_for (e_id failed) (e_workflow_id failed) EXECUTION_FAILED
               [(''error'', VStr error), (''diagnostics'', VDict entry)] (db_update_execution failed w)))"

text \<open>The failure of whatever row the store has under the id, and the exit code that goes with it.\<close>

definition fail_with :: "string \<Rightarrow> (Execution \<Rightarrow> exc + Execution) \<Rightarrow> string \<Rightarrow> int \<Rightarrow> int act" where
  "fail_with execution_id noted error code w =
    (case get_execution execution_id (db w) of
       None \<Rightarrow> (Inr code, w)
     | Some execution \<Rightarrow>
         (case noted execution of
            Inl e \<Rightarrow> (Inl e, w)
          | Inr execution1 \<Rightarrow> andthen (mark_worker_failure execution1 error w) (\<lambda>_ w1. (Inr code, w1))))"

section \<open>Waiting for the lock\<close>

text \<open>Each element is what happens in the world during one sleep; at its end the deadline has passed.\<close>

fun take_lock :: "string \<Rightarrow> string \<Rightarrow> (world \<Rightarrow> world) list \<Rightarrow> world \<Rightarrow> bool \<times> world" where
  "take_lock execution_id worker_id [] w = (False, w)"
| "take_lock execution_id worker_id (meanwhile # sleeps) w =
    (let (acquired, s) = acquire_lock (clock w) execution_id worker_id 1 (db w)
     in if acquired then (True, w\<lparr>db := s\<rparr>)
        else take_lock execution_id worker_id sleeps (meanwhile (w\<lparr>db := s\<rparr>)))"

section \<open>The time a run may take\<close>

text \<open>
  \<open>_run_with_active_execution_timeout\<close>: a poll is the time since the last one, whether the run has ended and
  whether the execution waits for an approval now. The answer: the run ended, or it was cancelled for the
  time it has used; none while it goes on. A poll interval that ended while the execution was known to wait
  is not charged.
\<close>

datatype timeout_verdict = Finished | Expired | Going_on

fun active_timeout :: "rat \<Rightarrow> bool \<Rightarrow> (rat \<times> bool \<times> bool) list \<Rightarrow> timeout_verdict" where
  "active_timeout remaining_seconds waiting [] = Going_on"
| "active_timeout remaining_seconds waiting ((elapsed, ended, waits_now) # polls) =
    (let remaining = (if waiting then remaining_seconds else remaining_seconds - elapsed)
     in if ended then Finished
        else if remaining \<le> 0 \<and> \<not> waits_now then Expired
        else active_timeout remaining waits_now polls)"

section \<open>The worker\<close>

datatype run_outcome = Returned Execution | Raised exc

record worker_call =
  wc_execution_id :: string
  wc_workflow_id :: string
  wc_goal_id :: "string option"
  wc_runtime_revision_id :: string
  wc_runtime_adapter_id :: string
  wc_worker_id :: string
  wc_timeout_text :: string
  wc_traceback :: "exc \<Rightarrow> string list"

definition with_worker_context :: "worker_call \<Rightarrow> Execution \<Rightarrow> exc + Execution" where
  "with_worker_context c execution =
    sbind (py_dict (jget (e_metadata execution) ''worker_context'')) (\<lambda>own.
      Inr (execution\<lparr>e_runtime_revision_id := Some (wc_runtime_revision_id c),
        e_metadata := dset ''worker_context'' (VDict (dmerge own
          [(''execution_id'', VStr (wc_execution_id c)), (''workflow_id'', VStr (wc_workflow_id c)),
           (''goal_id'', opt_str (or_str (wc_goal_id c) (e_goal_id execution))),
           (''runtime_revision_id'', VStr (wc_runtime_revision_id c)),
           (''runtime_adapter_id'', VStr (wc_runtime_adapter_id c)), (''worker_id'', VStr (wc_worker_id c))]))
          (e_metadata execution)\<rparr>))"

text \<open>The \<open>try\<close> block: the run of the execution, with what it was told about its worker.\<close>

definition worker_body :: "worker_call \<Rightarrow> (string \<Rightarrow> world \<Rightarrow> run_outcome \<times> world) \<Rightarrow> world \<Rightarrow> run_outcome \<times> world" where
  "worker_body c run w =
    (case get_execution (wc_execution_id c) (db w) of
       None \<Rightarrow> (Raised (execution_not_found (wc_execution_id c)), w)
     | Some execution \<Rightarrow>
         (case with_worker_context c execution of
            Inl e \<Rightarrow> (Raised e, w)
          | Inr execution1 \<Rightarrow> run (wc_execution_id c) (db_update_execution execution1 w)))"

definition noted_exception :: "worker_call \<Rightarrow> exc \<Rightarrow> Execution \<Rightarrow> exc + Execution" where
  "noted_exception c e = put_diagnostic ''worker_exception''
     [(''error_type'', VStr (exc_name e)), (''message'', VStr (exc_str e)),
      (''traceback'', VList (map VStr (last_n 20 (wc_traceback c e))))]"

text \<open>The handlers of the \<open>try\<close> block. \<open>asyncio.TimeoutError\<close> is the built-in \<open>TimeoutError\<close>.\<close>

definition worker_exit :: "worker_call \<Rightarrow> run_outcome \<Rightarrow> int act" where
  "worker_exit c outcome w =
    (case outcome of
       Returned execution \<Rightarrow> (Inr (exit_code_for_execution execution), w)
     | Raised (TimeoutError _) \<Rightarrow>
         fail_with (wc_execution_id c) Inr
           (''Execution worker timed out after '' @ wc_timeout_text c @ '' seconds'') WORKER_EXIT_INFRA_FAILED w
     | Raised (ExecutionNotFoundError _) \<Rightarrow> (Inr WORKER_EXIT_BOOTSTRAP_FAILED, w)
     | Raised e \<Rightarrow>
         fail_with (wc_execution_id c) (noted_exception c e)
           (''Execution worker failed before completion: '' @ exc_name e @ '': '' @ exc_str e)
           WORKER_EXIT_INFRA_FAILED w)"

definition run_execution_worker ::
  "worker_call \<Rightarrow> (string \<Rightarrow> world \<Rightarrow> run_outcome \<times> world) \<Rightarrow> (world \<Rightarrow> world) list \<Rightarrow> int act" where
  "run_execution_worker c run sleeps w =
    (if wc_runtime_adapter_id c \<noteq> ''native'' then
       fail_with (wc_execution_id c) Inr
         (''Isolated worker does not support runtime adapter '' @ quote (wc_runtime_adapter_id c))
         WORKER_EXIT_BOOTSTRAP_FAILED w
     else
       let (acquired, w1) = take_lock (wc_execution_id c) (wc_worker_id c) sleeps w
       in if \<not> acquired then
            fail_with (wc_execution_id c) Inr ''Timed out acquiring execution lock inside worker''
              WORKER_EXIT_BOOTSTRAP_FAILED w1
          else
            let w2 = w1\<lparr>db := snd (heartbeat (clock w1) (wc_execution_id c) (wc_worker_id c) (db w1))\<rparr>;
                (outcome, w3) = worker_body c run w2;
                (code, w4) = worker_exit c outcome w3
            in (code, w4\<lparr>db := snd (release_lock (wc_execution_id c) (wc_worker_id c) (db w4))\<rparr>))"

text \<open>The run of the native engine, as the registry starts it.\<close>

definition engine_run :: "engine_env \<Rightarrow> string \<Rightarrow> world \<Rightarrow> run_outcome \<times> world" where
  "engine_run en execution_id w =
    (case start_execution en execution_id w of
       (Inr x, w') \<Rightarrow> (Returned x, w')
     | (Inl e, w') \<Rightarrow> (Raised e, w'))"

end
