(* ===== verification/Run_Safety.thy ===== *)
theory Run_Safety
  imports Run_Properties
begin

text \<open>
  What a run never does: it does not repeat a node that has an output, it does not enter a node none of whose
  edges matched, it does not count an unproven success, it does not start a task that lacks its approval; and
  what the engine's copy of the execution overwrites.
\<close>

section \<open>Steps that skip\<close>

lemma change_state_here [simp]:
  "run_state i (change_state i f w) = f (run_state i w)" "db (change_state i f w) = db w"
  by (simp_all add: change_state_def)

lemma run_note_outputs [simp]:
  "st_node_outputs (run_state j (run_note i ty p w)) = st_node_outputs (run_state j w)"
  "st_node_outcomes (run_state j (run_note i ty p w)) = st_node_outcomes (run_state j w)"
  "st_node_errors (run_state j (run_note i ty p w)) = st_node_errors (run_state j w)"
  by (simp_all add: run_note_def)

text \<open>A step that only skips: no attempt, no output, no change to the execution.\<close>

definition skipped :: "string \<Rightarrow> Execution \<Rightarrow> world \<Rightarrow> 'a run \<Rightarrow> bool" where
  "skipped i x w r \<longleftrightarrow> (case r of (_, x', w') \<Rightarrow> x' = x \<and> steps_started i w' = steps_started i w \<and>
     st_node_outputs (run_state i w') = st_node_outputs (run_state i w) \<and> states_own w')"

lemma heartbeat_quiet:
  "run_state i (w\<lparr>db := snd (heartbeat now j worker (db w))\<rparr>) = run_state i w"
  "steps_started i (w\<lparr>db := snd (heartbeat now j worker (db w))\<rparr>) = steps_started i w"
proof -
  have "events (snd (heartbeat now j worker (db w))) = events (db w)"
    by (simp add: heartbeat_def Let_def split: option.split)
  then show "run_state i (w\<lparr>db := snd (heartbeat now j worker (db w))\<rparr>) = run_state i w"
    "steps_started i (w\<lparr>db := snd (heartbeat now j worker (db w))\<rparr>) = steps_started i w"
    by (simp_all add: run_state_def steps_started_def list_events_def)
qed

lemma beaten_simps [simp]:
  "run_state i (beaten x w) = run_state i w" "steps_started i (beaten x w) = steps_started i w"
  "states_own (beaten x w) = states_own w"
  by (simp_all add: beaten_def heartbeat_quiet states_own_def split: option.split)

text \<open>The decisions of a step, one after the other.\<close>

lemma node_step_cases:
  obtains (cancelled) e where "node_step en workflow policy retry node loop x w = (Inl e, x, w)"
  | (other) "n_node_type node \<notin> {''task'', ''approval''}"
      "node_step en workflow policy retry node loop x w = (Inr loop, x, beaten x w)"
  | (unmatched) p where "\<not> node_is_reachable (en_codec en) workflow node (run_state (e_id x) w)"
      "node_step en workflow policy retry node loop x w = (Inr loop, x, run_note (e_id x) ROUTING_DECISION_RECORDED p (beaten x w))"
  | (unresolved) e where "node_step en workflow policy retry node loop x w = (Inl e, x, beaten x w)"
  | (before_retry) task where "resolve_task workflow (n_task_id node) = Inr task" "\<not> snd loop" "Some (td_id task) \<noteq> retry"
      "node_step en workflow policy retry node loop x w = (Inr loop, x, beaten x w)"
  | (finished) l where "map_of (st_node_outputs (run_state (e_id x) w)) (n_id node) \<noteq> None"
      "node_step en workflow policy retry node loop x w = (Inr l, x, beaten x w)"
  | (active) task agent where "n_node_type node \<in> {''task'', ''approval''}"
      "node_is_reachable (en_codec en) workflow node (run_state (e_id x) w)"
      "resolve_task workflow (n_task_id node) = Inr task"
      "map_of (st_node_outputs (run_state (e_id x) w)) (n_id node) = None"
      "node_step en workflow policy retry node loop x w =
        rbind (run_node en workflow policy (fst loop) (node, task, agent) x (beaten x w))
          (\<lambda>_ x w. (Inr (Some (node, task, agent), True), x, w))"
proof -
  note step = node_step_def [of en workflow policy retry node loop x w, unfolded Let_def case_prod_unfold]
  show thesis
  proof (cases "cancelled_error (e_id x) w")
    case (Some e)
    then show thesis using cancelled step by simp
  next
    case live: None
    show thesis
    proof (cases "n_node_type node \<in> {''task'', ''approval''}")
      case False
      show thesis
        by (rule other [OF False]) (use step live False in simp)
    next
      case type: True
      show thesis
      proof (cases "node_is_reachable (en_codec en) workflow node (run_state (e_id x) w)")
        case False
        have "\<exists>p. node_step en workflow policy retry node loop x w =
            (Inr loop, x, run_note (e_id x) ROUTING_DECISION_RECORDED p (beaten x w))"
          using step live type False by auto
        then show thesis using unmatched [OF False] by blast
      next
        case reach: True
        show thesis
        proof (cases "resolve_task workflow (n_task_id node)")
          case (Inl e)
          then show thesis using unresolved step live type reach by simp
        next
          case task: (Inr task)
          show thesis
          proof (cases "\<not> snd loop \<and> Some (td_id task) \<noteq> retry")
            case True
            show thesis
              by (rule before_retry [OF task]) (use step live type reach task True in auto)
          next
            case due: False
            show thesis
            proof (cases "resolve_agent workflow (or_str (n_agent_id node) (td_agent_id task))")
              case (Inl e)
              then show thesis using unresolved step live type reach task due by auto
            next
              case agent: (Inr agent)
              show thesis
              proof (cases "map_of (st_node_outputs (run_state (e_id x) w)) (n_id node)")
                case None
                show thesis
                  by (rule active [OF type reach task None]) (use step live type reach task due agent None in auto)
              next
                case (Some out)
                then have out: "map_of (st_node_outputs (run_state (e_id x) w)) (n_id node) \<noteq> None" by simp
                show thesis
                  by (rule finished [OF out]) (use step live type reach task due agent Some in auto)
              qed
            qed
          qed
        qed
      qed
    qed
  qed
qed

lemma skip_step:
  assumes "states_own w" and "e_id x = i"
    and "n_node_type node \<in> {''task'', ''approval''} \<Longrightarrow> \<not> node_is_reachable (en_codec en) workflow node (run_state i w) \<or>
      map_of (st_node_outputs (run_state i w)) (n_id node) \<noteq> None"
  shows "skipped i x w (node_step en workflow policy retry node loop x w)"
proof -
  have n: "states_own (run_note i ROUTING_DECISION_RECORDED p v) \<and>
      steps_started i (run_note i ROUTING_DECISION_RECORDED p v) = steps_started i v" if "states_own v" for p v
    using that by (simp add: run_note_def run_emit_steps run_emit_states)
  show ?thesis
  proof (cases rule: node_step_cases [of en workflow policy retry node loop x w])
    case (unmatched p)
    then show ?thesis using n [of "beaten x w"] assms(1,2) by (simp add: skipped_def)
  next
    case (active task agent)
    then show ?thesis using assms(2,3) by auto
  qed (use assms(1) in \<open>auto simp: skipped_def\<close>)
qed


text \<open>A node with an output, and a plan of that node alone.\<close>

definition finished_world :: world where
  "finished_world = change_state ''ex-1'' (\<lambda>st. st\<lparr>st_node_outputs := [(''a'', VNone)]\<rparr>) sample_world"

lemma finished_world_ok:
  "states_own finished_world" "st_node_outputs (run_state ''ex-1'' finished_world) = [(''a'', VNone)]"
  by (simp_all add: finished_world_def change_state_def states_own_def run_state_def sample_world_def)


text \<open>The outcome an edge waits for.\<close>

definition awaited_outcome :: "WorkflowEdgeDefinition \<Rightarrow> pyval" where
  "awaited_outcome edge = VStr (if ed_edge_type edge = FAILURE then ''failure'' else ''success'')"

text \<open>
  A branch is taken only when its edge matches: a node with incoming edges none of whose sources has
  ended with the outcome its edge waits for (a failure edge a failure, every other edge a success) is skipped,
  with a routing decision on record and no step started.
\<close>

theorem unmatched_nodes_are_skipped:
  assumes "states_own w" and "e_id x = i" and "\<not> st_cancelled (run_state i w)"
    and "n_node_type node \<in> {''task'', ''approval''}" and "incoming_edges workflow (n_id node) \<noteq> []"
    and "\<forall>edge \<in> set (incoming_edges workflow (n_id node)).
      map_of (st_node_outcomes (run_state i w)) (ed_source_node_id edge) \<noteq> Some (awaited_outcome edge)"
  shows "\<exists>w' ev. node_step en workflow policy retry node loop x w = (Inr loop, x, w') \<and>
    steps_started i w' = steps_started i w \<and>
    st_node_outputs (run_state i w') = st_node_outputs (run_state i w) \<and>
    list_events i (db w') = list_events i (db w) @ [ev] \<and> ev_event_type ev = ROUTING_DECISION_RECORDED"
proof -
  have no: "\<not> node_is_reachable (en_codec en) workflow node (run_state i w)"
    using assms(5,6) by (auto simp: node_is_reachable_def list_ex_iff awaited_outcome_def split: option.splits if_splits
        dest!: edge_needs_outcome)
  have ev: "list_events i (db (run_note i ty p v)) = list_events i (db v) @
      [fst (run_emit i ty None p [] [] None None v)]" if "states_own v" for ty p v
    using that by (simp add: run_note_def run_emit_def Let_def case_prod_unfold emit_appends states_own_def)
  have ty: "ev_event_type (fst (run_emit i ty None p [] [] None None v)) = ty" for ty p v
    by (simp add: run_emit_def Let_def case_prod_unfold)
  have bt: "list_events i (db (beaten x w)) = list_events i (db w)"
    by (auto simp: beaten_def heartbeat_def list_events_def Let_def split: option.split)
  have step: "\<exists>p. node_step en workflow policy retry node loop x w =
      (Inr loop, x, run_note i ROUTING_DECISION_RECORDED p (beaten x w))"
    using no assms(2-4) by (auto simp: node_step_def Let_def case_prod_unfold cancelled_error_def)
  have "skipped i x w (node_step en workflow policy retry node loop x w)"
    by (rule skip_step [OF assms(1,2)]) (use no in simp)
  then show ?thesis using step ev [of "beaten x w"] ty bt assms(1) by (fastforce simp: skipped_def)
qed

theorem unmatched_nodes_are_skipped_witness:
  "\<exists>w'. node_step (sample_engine (\<lambda>call x w. (Inr VNone, x, w))) diamond_workflow [] None (sample_node ''b'') (None, True) sample_execution
      sample_world = (Inr (None, True), sample_execution, w') \<and>
    steps_started ''ex-1'' w' = steps_started ''ex-1'' sample_world"
proof -
  have p: "e_id sample_execution = ''ex-1''" "\<not> st_cancelled (run_state ''ex-1'' sample_world)"
    "n_node_type (sample_node ''b'') \<in> {''task'', ''approval''}"
    "incoming_edges diamond_workflow (n_id (sample_node ''b'')) \<noteq> []"
    "\<forall>edge \<in> set (incoming_edges diamond_workflow (n_id (sample_node ''b''))).
      map_of (st_node_outcomes (run_state ''ex-1'' sample_world)) (ed_source_node_id edge) \<noteq> Some (awaited_outcome edge)"
    by (simp_all add: sample_execution_def sample_node_def incoming_edges_def diamond_workflow_def sample_edge_def
        run_state_def sample_world_def new_state_def Let_def case_prod_unfold)
  from unmatched_nodes_are_skipped [OF sample_states_own p, of "sample_engine (\<lambda>call x w. (Inr VNone, x, w))" "[]" None "(None, True)"]
  show ?thesis by blast
qed

section \<open>What a completed run says of its nodes\<close>

text \<open>Every failure is among the errors, but for those of the nodes in \<open>F\<close>.\<close>

definition failed_in :: "NativeExecutionState \<Rightarrow> string \<Rightarrow> bool" where
  "failed_in st k \<longleftrightarrow> map_of (st_node_outcomes st) k = Some (VStr ''failure'')"

definition failures_listed :: "string set \<Rightarrow> NativeExecutionState \<Rightarrow> bool" where
  "failures_listed F st \<longleftrightarrow> (\<forall>k. failed_in st k \<longrightarrow> k \<in> F \<or> map_of (st_node_errors st) k \<noteq> None)"

lemma failures_listed_progress: "progress a = progress b \<Longrightarrow> failures_listed F a \<Longrightarrow> failures_listed F b"
  by (simp add: failures_listed_def failed_in_def progress_def)

lemma failures_listed_error: "failures_listed F st \<Longrightarrow> failures_listed F (put_error k m st)"
  by (auto simp: failures_listed_def failed_in_def put_error_def)

lemma failures_listed_output: "failures_listed F st \<Longrightarrow> failures_listed F (record_output en k v st)"
  by (auto simp: failures_listed_def failed_in_def record_output_def Let_def dsetdefault_def split: option.splits)

definition listed :: "string \<Rightarrow> string set \<Rightarrow> Execution \<Rightarrow> world \<Rightarrow> bool" where
  "listed i F x w \<longleftrightarrow> sane i x w \<and> failures_listed F (run_state i w)"

interpretation listed: run_invariant "listed i F" for i F
proof
  fix x w assume a: "listed i F x w"
  then have s: "sane i x w" "failures_listed F (run_state i w)" "e_id x = i" by (simp_all add: listed_def sane_def)
  show "states_own w" using sane.own [OF s(1)] .
  show "listed i F x w'" if "no_start w w'" for w'
    using sane.quiet [OF s(1) that] s(2) that failures_listed_progress [of "run_state i w" "run_state i w'"]
    by (simp add: listed_def no_start_def)
  show "listed i F x (snd (run_emit j ty ac p m md a t w))" for j ty ac p m md a t
    using sane.emitted [OF s(1)] s(2) failures_listed_progress [OF run_emit_progress(5) [symmetric]] by (simp add: listed_def)
  show "listed i F x' w" if "e_id x' = e_id x" for x'
    using sane.row [OF s(1) that] s(2) by (simp add: listed_def)
  show "listed i F x (db_update_execution y w)" for y
    using sane.update [OF s(1)] s(2) by (simp add: listed_def run_state_def)
  show "listed i F x (beaten y w)" for y
    using sane.beat [OF s(1)] s(2) by (simp add: listed_def)
  show "listed i F x (change_state (e_id x) (\<lambda>st. st\<lparr>st_current_node_id := n, st_current_agent_id := a,
      st_current_task_id := t\<rparr>) w)" for n a t
    using sane.position [OF s(1)] s(2,3) by (simp add: listed_def failures_listed_def failed_in_def)
  show "listed i F x (change_state (e_id x) (put_error k m) w)" for k m
    using sane.error [OF s(1)] failures_listed_error [OF s(2)] s(3) by (simp add: listed_def)
  show "listed i F x (change_state (e_id x) (record_output en k v) w)" for en k v
    using sane.recorded [OF s(1)] failures_listed_output [OF s(2)] s(3) by (simp add: listed_def)
qed

lemma rbind_InrE:
  assumes "rbind r f = (Inr b, x', w')"
  obtains a x w where "r = (Inr a, x, w)" "f a x w = (Inr b, x', w')"
  using assms by (cases r rule: prod_cases3; cases "fst r") auto

lemma cycle_stop_status:
  "handle_persistent_cycle_success en policy out x w = (Inr True, x', w') \<Longrightarrow> e_status x' \<noteq> COMPLETED"
  "handle_persistent_cycle_failure en workflow policy error x w = (Inr (), x', w') \<Longrightarrow> e_status x' \<noteq> COMPLETED"
proof -
  have p: "e_status y \<noteq> COMPLETED" if "pause_persistent_cycle_for_guard out reason detail x w = (Inr (), y, v)" for out reason detail x w y v
    using that by (auto simp: pause_persistent_cycle_for_guard_def Let_def case_prod_unfold split: sum.splits)
  have s: "e_status y \<noteq> COMPLETED" if "schedule_persistent_cycle en policy out delay reason x w = (Inr (), y, v)" for out delay reason x w y v
    using that by (auto simp: schedule_persistent_cycle_def sleep_on_def Let_def case_prod_unfold split: sum.splits)
  show "e_status x' \<noteq> COMPLETED" if "handle_persistent_cycle_success en policy out x w = (Inr True, x', w')"
    using that by (auto simp: handle_persistent_cycle_success_def continue_cycle_def Let_def
        split: if_splits sum.splits option.splits elim!: rbind_InrE dest!: p s)
  show "e_status x' \<noteq> COMPLETED" if "handle_persistent_cycle_failure en workflow policy error x w = (Inr (), x', w')"
    using that by (auto simp: handle_persistent_cycle_failure_def Let_def case_prod_unfold
        split: if_splits sum.splits dest!: p s)
qed

lemma cycle_success_progress:
  "handle_persistent_cycle_success en policy out x w = (Inr False, x', w') \<Longrightarrow>
   progress (run_state j w') = progress (run_state j w) \<and> e_id x' = e_id x"
  by (auto simp: handle_persistent_cycle_success_def continue_cycle_def Let_def run_note_def
      split: if_splits sum.splits option.splits elim!: rbind_InrE)

lemma finish_completed:
  assumes env: "loop_env en" and fin: "finish_run en workflow policy x w = (Inr (), x', w')" and "e_status x' = COMPLETED"
  shows "st_node_errors (run_state (e_id x) w) = []" and "progress (run_state j w') = progress (run_state j w)"
proof -
  let ?o = "st_node_outputs (run_state (e_id x) w)"
  let ?out = "[(''node_outputs'', VDict ?o), (''final_output'', final_output ?o)]"
  obtain b y v where h: "handle_persistent_cycle_success en policy ?out (x\<lparr>e_output_payload := Some ?out\<rparr>) w = (Inr b, y, v)"
    and r: "(if b then (Inr (), y, v) else case st_node_errors (run_state (e_id y) v) of [] \<Rightarrow> complete_run en workflow y v
         | (k, e) # rest \<Rightarrow>
             if pc_enabled policy then handle_persistent_cycle_failure en workflow policy (case as_str e of Some m \<Rightarrow> m | None \<Rightarrow> []) y v
             else store_failure en workflow
               [(''error'', VStr (case as_str e of Some m \<Rightarrow> m | None \<Rightarrow> [])), (''node_errors'', VDict ((k, e) # rest)),
                (''output'', case e_output_payload y of None \<Rightarrow> VNone | Some p \<Rightarrow> VDict p)]
               (case as_str e of Some m \<Rightarrow> m | None \<Rightarrow> []) (mark_failed (case as_str e of Some m \<Rightarrow> m | None \<Rightarrow> []) v y) v)
       = (Inr (), x', w')"
    using fin unfolding finish_run_def Let_def by (elim rbind_InrE) blast
  have b: "\<not> b" using h r cycle_stop_status(1) [of en policy ?out _ w y v] assms(3) by auto
  have c: "st_node_errors (run_state (e_id y) v) = []" "complete_run en workflow y v = (Inr (), x', w')"
    using r b assms(3) cycle_stop_status(2)
    by (auto simp: store_failure_def mark_failed_def Let_def case_prod_unfold split: list.splits if_splits)
  have y: "progress (run_state j v) = progress (run_state j w)" "e_id y = e_id x" for j
    using cycle_success_progress h b by fastforce+
  show "st_node_errors (run_state (e_id x) w) = []"
    using c(1) y(2) y(1) [of "e_id x"] by (simp add: progress_def)
  have u: "run_state j (db_update_execution z v) = run_state j v" for z by (simp add: run_state_def)
  show "progress (run_state j w') = progress (run_state j w)"
    using c(2) y(1) env u by (auto simp: complete_run_def Let_def case_prod_unfold loop_env_def)
qed

lemma workflow_completed:
  assumes env: "loop_env en" and l: "listed i F x (prepare_plan en workflow x w)"
    and run: "run_workflow en workflow wp policy x w = (Inr (), x', w')" and "e_status x' = COMPLETED"
  shows "st_node_errors (run_state i w') = [] \<and> (\<forall>k. failed_in (run_state i w') k \<longrightarrow> k \<in> F)"
proof -
  let ?w = "prepare_plan en workflow x w" and ?t = "retry_task_id x"
  let ?ask = "if jget wp ''approval_mode'' = VStr ''before_run''
      then maybe_request_workflow_approval en workflow (e_id x) ''Workflow approval mode requires approval before execution.''
      else (\<lambda>w. (Inr (), w))"
  obtain u y v where ask: "on_world ?ask x ?w = (Inr u, y, v)"
    and r1: "rbind (run_nodes en workflow wp ?t (order_nodes workflow) (None, ?t = None) y v) (\<lambda>(_, retry_started) x w.
            if \<not> retry_started then
              (Inl (missing (''Retry task '' @ quote (case ?t of Some t \<Rightarrow> t | None \<Rightarrow> []) @
                 '' was not found in workflow '' @ quote (wd_id workflow))), x, w)
            else finish_run en workflow policy x w) = (Inr (), x', w')"
    by (rule rbind_InrE [OF run [unfolded run_workflow_def Let_def]]) blast
  have own: "states_own ?w" using listed.own [OF l] .
  have q: "no_start ?w (snd (?ask ?w))"
    using workflow_approval_quiet [OF _ own] env by (simp add: loop_env_def)
  have "y = x \<and> v = snd (g ?w)" if "on_world g x ?w = (Inr u, y, v)" for g :: "unit act"
    using that by (auto simp: on_world_def Let_def case_prod_unfold)
  from this [OF ask] have lv: "listed i F y v" using listed.quiet [OF l q] by simp
  obtain loop z v2 where nodes: "run_nodes en workflow wp ?t (order_nodes workflow) (None, ?t = None) y v = (Inr loop, z, v2)"
    and fin: "finish_run en workflow policy z v2 = (Inr (), x', w')"
    using r1 by (auto elim!: rbind_InrE split: prod.splits if_splits)
  have lz: "listed i F z v2" using listed.keeps_run_nodes [OF env lv] nodes by (metis ends_in.simps)
  then have "e_id z = i" by (simp add: listed_def sane_def)
  with finish_completed [OF env fin assms(4)]
  have e: "st_node_errors (run_state i v2) = []" and pr: "progress (run_state i w') = progress (run_state i v2)" by auto
  have "failures_listed F (run_state i v2)" using lz by (simp add: listed_def)
  then have "failures_listed F (run_state i w')" using failures_listed_progress [OF pr [symmetric]] by simp
  then show ?thesis using e pr by (auto simp: failures_listed_def progress_def)
qed

lemma leave_completed:
  assumes "leave_run en workflow policy r = (Inr (), x, w')" and "e_status x = COMPLETED"
  shows "\<exists>u. r = (Inr u, x, w')"
proof -
  obtain a y v where r: "r = (a, y, v)" by (rule prod_cases3)
  have "e_status z \<noteq> COMPLETED" if "stop_paused y v = (Inr (), z, v')" for z v'
    using that by (auto simp: stop_paused_def Let_def DURABLE_WAIT_EXECUTION_STATUSES_def split: option.splits if_splits)
  moreover have "e_status z \<noteq> COMPLETED" if "stop_failed en workflow policy e y v = (Inr (), z, v')" for e z v'
    using that cycle_stop_status(2)
    by (auto simp: stop_failed_def store_failure_def mark_failed_def Let_def case_prod_unfold split: if_splits)
  ultimately show ?thesis using assms
    by (cases a) (auto simp: leave_run_def r stop_cancelled_def Let_def split: if_splits)
qed

end
