(* ===== verification/Run_Completion.thy ===== *)
theory Run_Completion
  imports Run_Safety
begin

text \<open>
  What it means that an execution is completed, for one that is started for the first time; with a workflow
  of one task that is carried out from the start of the execution to its end.
\<close>

text \<open>An execution that has not been run before: no progress in memory, in its row or to take over.\<close>

definition never_run :: "Execution \<Rightarrow> world \<Rightarrow> bool" where
  "never_run e w \<longleftrightarrow> map_of (states w) (e_id e) = None \<and> e_output_payload e = None \<and>
     task_retry_metadata (e_metadata e) = [] \<and> resume_source e = None"

lemma fresh_start:
  assumes "never_run e w" and "mark_persistent_cycle_started policy t e = (Inr n, y)" and "e_id e = i" and "states_own w"
  shows "hydrate_resume_checkpoint (started_row u y) s (run_state i (db_update_execution z (begin_state e workflow w))) =
      (Inr None, run_state i (begin_state e workflow w))"
    and "progress (run_state i (begin_state e workflow w)) = ([], [], [])"
    and "task_retry_metadata (e_metadata (started_row u y)) = []"
proof -
  have y: "e_output_payload y = None" "task_retry_metadata (e_metadata y) = []" "resume_source y = None"
    using assms(1,2) by (auto simp: never_run_def mark_persistent_cycle_started_def Let_def put_cycle_def
        task_retry_metadata_def resume_source_def split: if_splits sum.splits option.splits list.splits)
  show p: "progress (run_state i (begin_state e workflow w)) = ([], [], [])"
    using assms(1,3)
    by (auto simp: never_run_def begin_state_def new_state_def Let_def case_prod_unfold hydrate_state_position_def progress_def
        run_state_def split: list.splits option.splits)
  have r: "run_state i (db_update_execution z v) = run_state i v" for v by (simp add: run_state_def)
  have s: "resume_source (started_row u y) = None" "e_output_payload (started_row u y) = None"
    "task_retry_metadata (e_metadata (started_row u y)) = []"
    using y by (auto simp: started_row_def resume_source_def split: option.splits list.splits)
  then show "task_retry_metadata (e_metadata (started_row u y)) = []" by simp
  show "hydrate_resume_checkpoint (started_row u y) s (run_state i (db_update_execution z (begin_state e workflow w))) =
      (Inr None, run_state i (begin_state e workflow w))"
    using s p by (simp add: r hydrate_resume_checkpoint_def progress_def checkpoint_payload_summary_def
        node_outputs_from_checkpoint_def)
qed

text \<open>
  C3: A completed execution has no failed node: when an execution that was never run before is started and
  completes, no node has ended with the outcome failure, none has an error on record, and so every branch
  into a failure handler, every failed tool check and every unproven success keeps an execution from
  completing.
\<close>

theorem completed_execution_has_no_failed_node:
  assumes env: "loop_env en" and "keyed (db w)" and own: "states_own w" and run: "start_execution en i w = (Inr x, w')"
    and "get_execution i (db w) = Some e" and fresh: "never_run e w" and completed: "e_status x = COMPLETED"
  shows "st_node_errors (run_state i w') = [] \<and>
    (\<forall>k. map_of (st_node_outcomes (run_state i w')) k \<noteq> Some (VStr ''failure''))"
proof -
  obtain e' workflow policy n y where "get_execution i (db w) = Some e'" and y: "e_id y = i"
    and m: "mark_persistent_cycle_started policy (clock (begin_state e' workflow w)) e' = (Inr n, y)" "e_id e' = i"
    and l: "launch en workflow policy n (started_row (clock (begin_state e' workflow w)) y)
      (db_update_execution (started_row (clock (begin_state e' workflow w)) y) (begin_state e' workflow w)) = (Inr (), x, w')"
    by (rule started [OF assms(2) run]) blast
  then have e': "e' = e" using assms(5) by simp
  let ?y = "started_row (clock (begin_state e workflow w)) y" and ?b = "begin_state e workflow w"
  note h = fresh_start [OF fresh m(1) [unfolded e'] m(2) [unfolded e'] own]
  have id: "e_id ?y = i" using y by (simp add: started_row_def)
  obtain wp v where run: "leave_run en workflow policy (run_workflow en workflow wp policy ?y v) = (Inr (), x, w')"
    and v: "progress (run_state i v) = ([], [], [])" "sane i ?y v"
  proof -
    let ?c = "db_update_execution ?y ?b"
    have c: "sane i ?y ?c" "run_state i ?c = run_state i ?b"
      using begin_state_frame [OF own] assms(2) id by (simp_all add: sane_def states_own_def run_state_def)
    let ?d = "?c\<lparr>states := dset i (run_state i ?b) (states ?c)\<rparr>"
    have d: "sane i ?y ?d" "progress (run_state i ?d) = ([], [], [])"
      using sane_put [OF c(1), of "run_state i ?b" i] begin_state_frame(2) [OF own] h(2) by (simp_all add: states_own_def)
    have "progress (run_state i (run_note j ty p u)) = progress (run_state i u)" for j ty p u by (simp add: run_note_def)
    then have n: "sane i ?y (case n of None \<Rightarrow> run_note j ty p ?d | Some k \<Rightarrow> run_note j' ty' (p' k) (run_note j ty p ?d))"
      "progress (run_state i (case n of None \<Rightarrow> run_note j ty p ?d | Some k \<Rightarrow> run_note j' ty' (p' k) (run_note j ty p ?d))) = ([], [], [])"
      for j ty p j' ty' p'
      using d by (auto split: option.split)
    obtain wp where wp: "workflow_runtime_policy workflow = Inr wp" using l by (auto simp: launch_def split: sum.splits)
    let ?p = "[(''workflow_id'', VStr (e_workflow_id ?y)), (''task_retry'', dict_or_none (task_retry_metadata (e_metadata ?y))),
      (''runtime_policy'', dict_or_none wp), (''resume_checkpoint'', VNone)]"
    have "leave_run en workflow policy (run_workflow en workflow wp policy ?y (case n of None \<Rightarrow> run_note i EXECUTION_STARTED ?p ?d
        | Some k \<Rightarrow> run_note i EXECUTION_CYCLE_STARTED [(''cycle_number'', VInt k), (''policy'', VDict (cycle_policy_dump policy))]
            (run_note i EXECUTION_STARTED ?p ?d))) = (Inr (), x, w')"
      using l by (simp add: launch_def e' id wp h(1) Let_def cong: option.case_cong)
    then show thesis by (rule that) (rule n)+
  qed
  have wf: "run_workflow en workflow wp policy ?y v = (Inr (), x, w')" using leave_completed [OF run completed] by simp
  have "progress (run_state i (prepare_plan en workflow ?y v)) = ([], [], [])"
    using v(1) id h(3) by (simp add: prepare_plan_def Let_def progress_def)
  moreover have "sane i ?y (prepare_plan en workflow ?y v)"
    unfolding prepare_plan_def by (rule sane_change [OF v(2)]) (simp add: Let_def)
  ultimately have "listed i {} ?y (prepare_plan en workflow ?y v)"
    by (simp add: listed_def failures_listed_def failed_in_def progress_def)
  from workflow_completed [OF env this wf completed]
  show ?thesis by (simp add: failed_in_def)
qed

section \<open>A workflow of one task\<close>

definition assigned_task :: TaskDefinition where
  "assigned_task = sample_task\<lparr>td_agent_id := Some ''a''\<rparr>"

lemma sample_ids [simp]:
  "n_id (sample_node i) = i" "n_task_id (sample_node i) = Some i" "n_agent_id (sample_node i) = None"
  "n_node_type (sample_node i) = ''task''" "td_id assigned_task = ''t''"
  "td_name assigned_task = ''Task''" "td_agent_id assigned_task = Some ''a''" "ad_id sample_agent = ''a''"
  by (simp_all add: sample_node_def assigned_task_def sample_task_def sample_agent_def)

definition one_task_workflow :: WorkflowDefinition where
  "one_task_workflow = diamond_workflow\<lparr>wd_nodes := [sample_node ''t''], wd_edges := [],
     wd_task_definitions := [assigned_task], wd_agent_definitions := [sample_agent]\<rparr>"

text \<open>An engine whose agent does \<open>f\<close> to the world and answers.\<close>

definition busy_engine :: "(Execution \<Rightarrow> world \<Rightarrow> world) \<Rightarrow> engine_env" where
  "busy_engine f = (sample_env (\<lambda>call x w. (Inr (VStr ''ok''), x, f x w)))\<lparr>en_get_workflow := \<lambda>i. Some one_task_workflow\<rparr>"

abbreviation answering_engine :: engine_env where
  "answering_engine \<equiv> busy_engine (\<lambda>x w. w)"

lemma run_state_update [simp]: "run_state j (db_update_execution y v) = run_state j v"
  by (simp add: run_state_def)

lemma task_note_progress [simp]:
  "st_node_outputs (run_state j (task_note i ty agent task p w)) = st_node_outputs (run_state j w)"
  "st_node_outcomes (run_state j (task_note i ty agent task p w)) = st_node_outcomes (run_state j w)"
  "st_node_errors (run_state j (task_note i ty agent task p w)) = st_node_errors (run_state j w)"
  "st_cancelled (run_state j (task_note i ty agent task p w)) = st_cancelled (run_state j w)"
  by (simp_all add: task_note_def)

lemma run_state_same: "states v = states w \<Longrightarrow> run_state j v = run_state j w"
  by (simp add: run_state_def)

lemma answered_attempt:
  assumes "\<And>y v. states (f y v) = states v"
  obtains w' where "execute_task_with_runtime_overrides (busy_engine f) wl task agent profile ov timeout x w = (Inr (VStr ''ok''), x, w')"
    "\<And>j. st_node_errors (run_state j w') = st_node_errors (run_state j w)"
    "\<And>j. st_cancelled (run_state j w') = st_cancelled (run_state j w)"
  by (simp add: execute_task_with_runtime_overrides_def attempts.simps attempt_once_def busy_engine_def sample_env_def
      Let_def case_prod_unfold run_state_same [OF assms])

lemma one_node:
  assumes f: "\<And>y v. states (f y v) = states v" and "\<not> st_cancelled (run_state (e_id x) w)"
  shows "\<exists>w'. run_node (busy_engine f) one_task_workflow [] None (sample_node ''t'', assigned_task, sample_agent) x w =
    (Inr (), x\<lparr>e_output_payload := Some (execution_checkpoint_payload (run_state (e_id x) w') None)\<rparr>, w') \<and>
    st_node_errors (run_state (e_id x) w') = st_node_errors (run_state (e_id x) w)"
proof -
  have ov: "node_overrides (sample_node ''t'') assigned_task [] = Inr [(''max_retries'', VInt 2)]"
    by (simp add: node_overrides_def assigned_task_def sample_task_def task_runtime_overrides_def int_at_least_def
        dict_or_empty_def put_opt_def choice_def)
  have pf: "resolve_profile (busy_engine f) sample_agent [(''max_retries'', VInt 2)] = Inr \<lparr>mp_id = ''p'', mp_max_tokens = None\<rparr>"
    by (simp add: resolve_profile_def sample_agent_def or_str_def busy_engine_def sample_env_def)
  have env: "en_graph_before (busy_engine f) = (\<lambda>wl t a x w. w)" "en_resolve_client (busy_engine f) = (\<lambda>p. None)"
    "en_codec (busy_engine f) = sample_codec"
    by (simp_all add: busy_engine_def sample_env_def)
  have ok: "node_outcome sample_codec (VStr ''ok'') = ''success''"
    by code_simp
  have none: "required_tool_result_error sample_codec assigned_task st = Inr None" for st
    by (simp add: required_tool_result_error_def assigned_task_def sample_task_def)
  define w3 where "w3 = task_note (e_id x) TASK_STARTED sample_agent assigned_task
      [(''task_id'', VStr ''t''), (''task_name'', VStr ''Task''), (''node_id'', VStr ''t''),
       (''runtime_overrides'', VDict [(''max_retries'', VInt 2)])]
      (change_state (e_id x) (\<lambda>st. st\<lparr>st_current_node_id := Some ''t'', st_current_agent_id := Some ''a'',
        st_current_task_id := Some ''t''\<rparr>) w)"
  obtain w4 where ex: "execute_task_with_runtime_overrides (busy_engine f) one_task_workflow assigned_task sample_agent
      \<lparr>mp_id = ''p'', mp_max_tokens = None\<rparr> [(''max_retries'', VInt 2)] None x w3 = (Inr (VStr ''ok''), x, w4)"
    and w4: "\<And>j. st_node_errors (run_state j w4) = st_node_errors (run_state j w3)"
      "\<And>j. st_cancelled (run_state j w4) = st_cancelled (run_state j w3)" by (rule answered_attempt [where f = f, OF f]) blast
  have tried: "try_task (busy_engine f) one_task_workflow assigned_task sample_agent
      \<lparr>mp_id = ''p'', mp_max_tokens = None\<rparr> [(''max_retries'', VInt 2)] None x w3 = (Inr (VStr ''ok''), x, w4)"
    by (simp add: try_task_def maybe_request_task_approval_def on_world_def env ex)
  have keep: "st_cancelled (run_state (e_id x) w4) = st_cancelled (run_state (e_id x) w)"
    "st_node_errors (run_state (e_id x) w4) = st_node_errors (run_state (e_id x) w)"
    by (simp_all add: w4 w3_def)
  have "run_node (busy_engine f) one_task_workflow [] None (sample_node ''t'', assigned_task, sample_agent) x w
      = settle_node (busy_engine f) one_task_workflow None (sample_node ''t'', assigned_task, sample_agent)
          (VStr ''ok'') x w4"
    using tried ov pf
    by (simp add: run_node_def Let_def workflow_remaining_seconds_def handoff_def env route_failure_def w3_def [symmetric])
  moreover define w5 where "w5 = change_state (e_id x) (record_output (busy_engine f) ''t'' (VStr ''ok'')) w4"
  moreover define x1 where "x1 = x\<lparr>e_output_payload := Some (execution_checkpoint_payload (run_state (e_id x) w5) None)\<rparr>"
  ultimately have "run_node (busy_engine f) one_task_workflow [] None (sample_node ''t'', assigned_task, sample_agent) x w =
      (Inr (), x1, db_update_execution x1 w5)"
    using assms(2) keep(1) by (simp add: settle_node_def Let_def cancelled_error_def proven_output_def ok none env handoff_def)
  moreover have "st_node_errors (run_state (e_id x) (db_update_execution x1 w5)) = st_node_errors (run_state (e_id x) w)"
    using keep(2) unfolding w5_def by (simp add: record_output_def ok env Let_def)
  ultimately show ?thesis by (auto simp: x1_def)
qed

lemma begin_state_live: "\<not> st_cancelled (run_state (e_id e) (begin_state e workflow w))"
proof -
  have "st_cancelled (hydrate_state_position v st) = st_cancelled st" for v st
    by (simp add: hydrate_state_position_def Let_def split: list.split)
  then show ?thesis by (simp add: begin_state_def Let_def case_prod_unfold)
qed

lemma one_task_run:
  assumes "\<not> st_cancelled (run_state (e_id x) w)" and "st_node_outputs (run_state (e_id x) w) = []"
    and "st_node_errors (run_state (e_id x) w) = []" and "task_retry_metadata (e_metadata x) = []"
  obtains x' w' where "leave_run answering_engine one_task_workflow default_cycle_policy
      (run_workflow answering_engine one_task_workflow [] default_cycle_policy x w) = (Inr (), x', w')"
    "e_status x' = COMPLETED"
proof -
  define w1 where "w1 = beaten x (prepare_plan answering_engine one_task_workflow x w)"
  have pl: "order_nodes one_task_workflow = [sample_node ''t'']"
    by (simp add: order_nodes_def one_task_workflow_def diamond_workflow_def initial_queue_def initial_indegree_def
        node_by_id_def outgoing_def count_of_def Let_def)
  have w1: "st_cancelled (run_state (e_id x) w1) = False" "st_node_outputs (run_state (e_id x) w1) = []"
    "st_node_errors (run_state (e_id x) w1) = []"
    using assms by (simp_all add: w1_def prepare_plan_def Let_def)
  obtain w2 x2 where rn: "run_node answering_engine one_task_workflow [] None (sample_node ''t'', assigned_task, sample_agent) x w1 =
      (Inr (), x2, w2)" and x2: "e_id x2 = e_id x" and e2: "st_node_errors (run_state (e_id x) w2) = []"
    using one_node [of "\<lambda>x w. w" x w1] w1 by auto
  have st: "node_step answering_engine one_task_workflow [] None (sample_node ''t'') (None, True) x
      (prepare_plan answering_engine one_task_workflow x w) = (Inr (Some (sample_node ''t'', assigned_task, sample_agent), True), x2, w2)"
  proof -
    have "\<not> st_cancelled (run_state (e_id x) (prepare_plan answering_engine one_task_workflow x w))"
      using assms(1) by (simp add: prepare_plan_def Let_def)
    moreover have "resolve_task one_task_workflow (Some ''t'') = Inr assigned_task"
      "resolve_agent one_task_workflow (Some ''a'') = Inr sample_agent"
      by (simp_all add: resolve_task_def resolve_agent_def one_task_workflow_def or_str_def)
    moreover have "node_is_reachable jc one_task_workflow (sample_node ''t'') s" for jc s
      by (simp add: node_is_reachable_def incoming_edges_def one_task_workflow_def)
    ultimately show ?thesis
      using rn w1(2) unfolding w1_def
      by (simp add: node_step_def Let_def cancelled_error_def or_str_def)
  qed
  have "run_workflow answering_engine one_task_workflow [] default_cycle_policy x w =
      finish_run answering_engine one_task_workflow default_cycle_policy x2 w2"
    using assms(4) st by (simp add: run_workflow_def Let_def pl on_world_def retry_task_id_def)
  moreover have "\<exists>x' w'. finish_run answering_engine one_task_workflow default_cycle_policy x2 w2 = (Inr (), x', w') \<and> e_status x' = COMPLETED"
    using x2 e2 by (simp add: finish_run_def handle_persistent_cycle_success_def default_cycle_policy_def Let_def complete_run_def case_prod_unfold)
  ultimately show thesis using that by (auto simp: leave_run_def)
qed

theorem completed_execution_has_no_failed_node_witness:
  "\<exists>x w'. start_execution answering_engine ''ex-1'' sample_world = (Inr x, w') \<and> e_status x = COMPLETED \<and>
     st_node_errors (run_state ''ex-1'' w') = []"
proof -
  have p: "workflow_runtime_policy one_task_workflow = Inr []"
    by (simp add: workflow_runtime_policy_def one_task_workflow_def diamond_workflow_def own_or_positive_def dict_or_empty_def
        int_at_least_def put_opt_def choice_def or_str_def)
  have c: "resolve_persistent_cycle_policy f sample_execution = Inr default_cycle_policy" for f
    by (simp add: resolve_persistent_cycle_policy_def sample_execution_def)
  have off: "\<not> pc_enabled default_cycle_policy" by (simp add: default_cycle_policy_def)
  have m: "mark_persistent_cycle_started default_cycle_policy t sample_execution = (Inr None, sample_execution)" for t
    using off by (simp add: mark_persistent_cycle_started_def)
  have g: "get_execution ''ex-1'' (db sample_world) = Some sample_execution" and id: "e_id sample_execution = ''ex-1''"
    by (simp_all add: get_execution_def sample_world_def sample_execution_def)
  have nr: "never_run sample_execution sample_world"
    by (simp add: never_run_def sample_world_def sample_execution_def task_retry_metadata_def dict_or_empty_def resume_source_def)
  let ?b = "begin_state sample_execution one_task_workflow sample_world"
  note h = fresh_start [OF nr m id sample_states_own]
  let ?y = "started_row (clock ?b) sample_execution"
  define v where "v = run_note ''ex-1'' EXECUTION_STARTED
      [(''workflow_id'', VStr (e_workflow_id ?y)), (''task_retry'', VNone), (''runtime_policy'', VNone), (''resume_checkpoint'', VNone)]
      ((db_update_execution ?y ?b)\<lparr>states := dset ''ex-1'' (run_state ''ex-1'' ?b) (states ?b)\<rparr>)"
  have y: "e_id ?y = ''ex-1''" by (simp add: started_row_def id)
  obtain x w' where run: "leave_run answering_engine one_task_workflow default_cycle_policy
      (run_workflow answering_engine one_task_workflow [] default_cycle_policy ?y v) = (Inr (), x, w')" and x: "e_status x = COMPLETED"
  proof (rule one_task_run [of ?y v])
    show "\<not> st_cancelled (run_state (e_id ?y) v)"
      using begin_state_live [of sample_execution one_task_workflow sample_world] by (simp add: y v_def run_note_def id)
  qed (use h(2,3) y in \<open>simp_all add: v_def progress_def\<close>)
  have ri: "reject_terminal_execution_replay sample_execution = None"
    by (simp add: reject_terminal_execution_replay_def TERMINAL_EXECUTION_STATUSES_def sample_execution_def)
  have wl: "en_get_workflow answering_engine = (\<lambda>i. Some one_task_workflow)" by (simp add: busy_engine_def)
  have "launch answering_engine one_task_workflow default_cycle_policy None ?y (db_update_execution ?y ?b) = (Inr (), x, w')"
    using run by (simp add: launch_def p y h(1) [unfolded run_state_update] Let_def v_def h(3) dict_or_none_def)
  then have st: "start_execution answering_engine ''ex-1'' sample_world = (Inr x, w')"
    using g by (simp add: start_execution_def ri wl c m Let_def)
  have env: "loop_env answering_engine"
    by (simp add: loop_env_def harmless_graph_def quiet_env_def busy_engine_def sample_env_def)
  from completed_execution_has_no_failed_node [OF env sample_world_ok(2) sample_states_own st g nr x] st x show ?thesis by blast
qed

end
