(* ===== verification/Worker_Properties.thy ===== *)
theory Worker_Properties
  imports Worker Run_Completion Isolation_Properties
begin

text \<open>
  What the exit code of a worker says of the execution it ran, that it gives the lock back, that time spent
  waiting for an approval is free, and what a worker does to an execution that has ended before it starts.
\<close>

section \<open>Marking a failure\<close>

lemma put_diagnostic_same:
  "put_diagnostic key entry x = Inr x' \<Longrightarrow> e_id x' = e_id x \<and> e_status x' = e_status x \<and> e_workflow_id x' = e_workflow_id x"
  by (auto simp: put_diagnostic_def split: option.splits pyval.splits)

lemma mark_worker_failure_effect:
  assumes "mark_worker_failure x error w = (Inr (), w')"
  shows "\<exists>e. get_execution (e_id x) (db w') = Some e \<and> e_status e = FAILED"
proof -
  let ?entry = "[(''error'', VStr error), (''worker_id'', opt_str (e_worker_id x)),
      (''runtime_revision_id'', opt_str (e_runtime_revision_id x))]"
  obtain failed where f: "put_diagnostic ''worker_failure'' ?entry
      (x\<lparr>e_status := FAILED, e_error := Some error, e_completed_at := Some (clock w)\<rparr>) = Inr failed"
    and w': "w' = emit_for (e_id failed) (e_workflow_id failed) EXECUTION_FAILED
        [(''error'', VStr error), (''diagnostics'', VDict ?entry)] (db_update_execution failed w)"
    using assms by (auto simp: mark_worker_failure_def Let_def split: sum.splits)
  have "e_id failed = e_id x" "e_status failed = FAILED" using put_diagnostic_same [OF f] by simp_all
  then show ?thesis by (simp add: w' ACTIVITY_EVENT_TYPES_def)
qed

lemma fail_with_effect:
  assumes "keyed (db w)" and "\<And>x x'. noted x = Inr x' \<Longrightarrow> e_id x' = e_id x"
    and "fail_with i noted error code w = (Inr c, w')"
  shows "c = code" and "get_execution i (db w) \<noteq> None \<Longrightarrow> \<exists>e. get_execution i (db w') = Some e \<and> e_status e = FAILED"
    and "get_execution i (db w) = None \<Longrightarrow> w' = w"
proof -
  show "c = code"
    using assms(3) by (auto simp: fail_with_def split: option.splits sum.splits elim!: andthen_InrE)
  show "get_execution i (db w) = None \<Longrightarrow> w' = w"
    using assms(3) by (simp add: fail_with_def)
  assume "get_execution i (db w) \<noteq> None"
  then obtain x x' where "get_execution i (db w) = Some x" "noted x = Inr x'" "mark_worker_failure x' error w = (Inr (), w')"
    using assms(3) by (auto simp: fail_with_def split: sum.splits elim!: andthen_InrE)
  then show "\<exists>e. get_execution i (db w') = Some e \<and> e_status e = FAILED"
    using mark_worker_failure_effect assms(2) keyedD [OF assms(1)] by fastforce
qed

section \<open>The exit code and the row\<close>

definition reported :: "int \<Rightarrow> ExecutionStatus set" where
  "reported code =
    (if code = WORKER_EXIT_SUCCESS then {COMPLETED}
     else if code = WORKER_EXIT_CANCELLED then {ExecutionStatus.CANCELLED}
     else if code = WORKER_EXIT_SUSPENDED then {PAUSED} \<union> DURABLE_WAIT_EXECUTION_STATUSES
     else {FAILED})"

lemma exit_code_reported: "e_status x \<in> SETTLED \<Longrightarrow> e_status x \<in> reported (exit_code_for_execution x)"
  by (auto simp: SETTLED_def DURABLE_WAIT_EXECUTION_STATUSES_def exit_code_for_execution_def reported_def worker_exit_codes)

lemma exit_code_range: "e_status x \<in> SETTLED \<Longrightarrow> exit_code_for_execution x \<noteq> WORKER_EXIT_BOOTSTRAP_FAILED"
  by (auto simp: SETTLED_def DURABLE_WAIT_EXECUTION_STATUSES_def exit_code_for_execution_def worker_exit_codes)

lemma release_lock_row:
  "get_execution i (snd (release_lock i wk s)) = Some e \<Longrightarrow> \<exists>e0. get_execution i s = Some e0 \<and> e_status e = e_status e0"
  "get_execution i s = Some e0 \<Longrightarrow> \<exists>e. get_execution i (snd (release_lock i wk s)) = Some e \<and> e_status e = e_status e0"
  by (auto simp: release_lock_def get_execution_def split: option.splits if_splits)

lemma heartbeat_keyed: "keyed s \<Longrightarrow> keyed (snd (heartbeat now j wk s))"
  by (auto simp: heartbeat_def keyed_def get_execution_def Let_def split: option.split)

lemma with_worker_context_id: "with_worker_context c x = Inr x' \<Longrightarrow> e_id x' = e_id x"
  by (auto simp: with_worker_context_def elim!: sbind_InrE)

lemma noted_exception_id: "noted_exception c e x = Inr x' \<Longrightarrow> e_id x' = e_id x"
  using put_diagnostic_same by (auto simp: noted_exception_def)

lemma leave_raises:
  assumes env: "loop_env en" and r: "ends i r" and l: "leave_run en workflow policy r = (Inl e, x, w')"
  shows "keyed (db w')"
proof -
  obtain a y v where y: "r = (a, y, v)" by (rule prod_cases3)
  obtain e0 where a: "a = Inl e0" using l by (cases a) (auto simp: leave_run_def y)
  have h: "handle_persistent_cycle_failure en workflow policy (exc_str e0) y v = (Inl e, x, w')"
    using l by (auto simp: leave_run_def y a stop_failed_def stop_paused_def stop_cancelled_def store_failure_def
        Let_def case_prod_unfold split: if_splits)
  have "kept i y v" "harmless_graph en" using r env by (simp_all add: y a loop_env_def)
  from cycle_failure_kept [OF this, of workflow policy "exc_str e0"] show ?thesis by (simp add: h kept_def)
qed

lemma launch_raises:
  assumes env: "loop_env en" and s: "sane i x w" and l: "launch en workflow policy n x w = (Inl e, y, w')"
  shows "keyed (db w')"
proof -
  let ?st = "snd (hydrate_resume_checkpoint x (db w) (run_state (e_id x) w))"
  let ?w = "w\<lparr>states := dset (e_id x) ?st (states w)\<rparr>"
  have s1: "sane i x ?w"
    using s by (intro sane_put [OF s]) (simp add: resume_state_id sane_def states_own_def)
  have "keyed (db w')" if "leave_run en workflow policy (run_workflow en workflow p policy x (case n of None \<Rightarrow>
        run_note j ty a ?w | Some m \<Rightarrow> run_note j' ty' (b m) (run_note j ty a ?w))) = (Inl e, y, w')"
    for p j ty a j' ty' b
    by (rule leave_raises [OF env run_workflow_ends [OF env] that]) (use s1 in \<open>auto split: option.split\<close>)
  then show ?thesis using l s
    by (auto simp: launch_def Let_def case_prod_unfold sane_def split: sum.splits)
qed

lemma start_raises:
  assumes env: "loop_env en" and k: "keyed (db w)" and own: "states_own w" and r: "start_execution en i w = (Inl e, w')"
  shows "keyed (db w')"
proof -
  have b: "keyed (db (begin_state x workflow w))" "states_own (begin_state x workflow w)" for x workflow
    using begin_state_frame [OF own] k by simp_all
  have s: "sane (e_id y) (started_row t y) (db_update_execution z (begin_state x workflow w))" for y t z x workflow
    using b by (intro sane_update) (simp add: sane_def started_row_def)
  have l: "keyed (db (snd (snd (launch en workflow policy n (started_row t y) (db_update_execution z (begin_state x workflow w))))))"
    if "fst (launch en workflow policy n (started_row t y) (db_update_execution z (begin_state x workflow w))) = Inl e"
    for workflow policy n t y z x
    by (rule launch_raises [OF env s, of workflow policy n t y z x workflow e]) (use that in \<open>simp add: prod_eq_iff\<close>)
  show ?thesis using r k b l
    by (auto simp: start_execution_def Let_def case_prod_unfold split: option.splits sum.splits)
qed

lemma body_outcome:
  assumes env: "loop_env en" and "keyed (db w)" and "states_own w" and body: "worker_body c (engine_run en) w = (outcome, w')"
  shows "outcome = Raised e \<Longrightarrow> keyed (db w')"
    and "outcome = Returned x \<Longrightarrow> settled_in (wc_execution_id c) (Inr (), x, w')"
proof -
  have "keyed (db (db_update_execution y w))" "states_own (db_update_execution y w)" for y
    using assms by (simp_all add: states_own_def run_state_def)
  from start_settles [OF env this] start_raises [OF env this] body assms(2)
  show "outcome = Raised e \<Longrightarrow> keyed (db w')" "outcome = Returned x \<Longrightarrow> settled_in (wc_execution_id c) (Inr (), x, w')"
    by (auto simp: worker_body_def engine_run_def split: option.splits sum.splits prod.splits)
qed

definition unknown_workflow :: engine_env where
  "unknown_workflow = sample_env (\<lambda>call x w. (Inl (RuntimeError ''not called''), x, w))"

definition sample_call :: worker_call where
  "sample_call = \<lparr>wc_execution_id = ''ex-1'', wc_workflow_id = ''wf-1'', wc_goal_id = None, wc_runtime_revision_id = ''rev-1'',
     wc_runtime_adapter_id = ''native'', wc_worker_id = ''container-worker-ex-1'', wc_timeout_text = ''None'',
     wc_traceback = (\<lambda>e. [''Traceback''])\<rparr>"

lemma worker_start:
  assumes "wc_runtime_adapter_id c = ''native''" and "take_lock (wc_execution_id c) (wc_worker_id c) sleeps w = (True, w1)"
  obtains outcome v code u where
    "worker_body c run (w1\<lparr>db := snd (heartbeat (clock w1) (wc_execution_id c) (wc_worker_id c) (db w1))\<rparr>) = (outcome, v)"
    "worker_exit c outcome v = (code, u)"
    "run_execution_worker c run sleeps w = (code, u\<lparr>db := snd (release_lock (wc_execution_id c) (wc_worker_id c) (db u))\<rparr>)"
proof -
  let ?b = "worker_body c run (w1\<lparr>db := snd (heartbeat (clock w1) (wc_execution_id c) (wc_worker_id c) (db w1))\<rparr>)"
  let ?e = "worker_exit c (fst ?b) (snd ?b)"
  show thesis
    by (rule that [of "fst ?b" "snd ?b" "fst ?e" "snd ?e"])
      (use assms in \<open>simp_all add: run_execution_worker_def Let_def case_prod_unfold\<close>)
qed

lemma worker_exit_reports:
  assumes "\<And>e. outcome = Raised e \<Longrightarrow> keyed (db v)"
    and "\<And>x. outcome = Returned x \<Longrightarrow> settled_in (wc_execution_id c) (Inr (), x, v)"
    and "worker_exit c outcome v = (Inr code, u)" and "code \<noteq> WORKER_EXIT_BOOTSTRAP_FAILED"
    and row: "get_execution (wc_execution_id c) (db u) = Some e"
  shows "e_status e \<in> reported code"
proof (cases outcome)
  case (Returned x)
  then show ?thesis using assms(2) [OF Returned] assms(3) row exit_code_reported [of x] by (auto simp: worker_exit_def stored_def)
next
  case (Raised ex)
  let ?i = "wc_execution_id c"
  have f: "e_status e \<in> reported code"
    if "fail_with ?i noted m WORKER_EXIT_INFRA_FAILED v = (Inr code, u)" "\<And>x x'. noted x = Inr x' \<Longrightarrow> e_id x' = e_id x" for noted m
  proof -
    note eff = fail_with_effect [OF assms(1) [OF Raised] that(2,1)]
    have "get_execution ?i (db v) \<noteq> None" using eff(3) row by auto
    then have "e_status e = FAILED" using eff(2) row by auto
    then show ?thesis using eff(1) by (simp add: reported_def worker_exit_codes)
  qed
  have inr: "\<And>x x' :: Execution. Inr x = (Inr x' :: exc + Execution) \<Longrightarrow> e_id x' = e_id x" by simp
  show ?thesis
    using assms(3,4) f [OF _ inr] f [OF _ noted_exception_id] by (auto simp: worker_exit_def Raised split: exc.splits)
qed

text \<open>
  C23: The exit code of a worker tells the truth about the row, and the lock is given back: when a worker
  that took the lock exits, then, unless it says that it could not start, the status the execution is stored
  with is the one the code stands for, success for completed, cancelled, suspended for paused and every
  durable wait, and failed for all others; and whatever the code, this worker no longer holds the lock.
\<close>

theorem worker_exit_code_tells_status:
  assumes env: "loop_env en" and native: "wc_runtime_adapter_id c = ''native''"
    and lock: "take_lock (wc_execution_id c) (wc_worker_id c) sleeps w = (True, w1)"
    and w1: "keyed (db w1)" "states_own w1"
    and run: "run_execution_worker c (engine_run en) sleeps w = (Inr code, w')"
    and row: "get_execution (wc_execution_id c) (db w') = Some e"
  shows "e_worker_id e \<noteq> Some (wc_worker_id c) \<and>
    (code \<noteq> WORKER_EXIT_BOOTSTRAP_FAILED \<longrightarrow> e_status e \<in> reported code)"
proof -
  let ?i = "wc_execution_id c" and ?k = "wc_worker_id c"
  obtain outcome v r u where
    body: "worker_body c (engine_run en) (w1\<lparr>db := snd (heartbeat (clock w1) ?i ?k (db w1))\<rparr>) = (outcome, v)"
    and ex: "worker_exit c outcome v = (r, u)"
    and out: "run_execution_worker c (engine_run en) sleeps w = (r, u\<lparr>db := snd (release_lock ?i ?k (db u))\<rparr>)"
    by (rule worker_start [OF native lock])
  have u: "r = Inr code" "w' = u\<lparr>db := snd (release_lock ?i ?k (db u))\<rparr>" using out run by simp_all
  have w2: "keyed (db (w1\<lparr>db := snd (heartbeat (clock w1) ?i ?k (db w1))\<rparr>))"
    "states_own (w1\<lparr>db := snd (heartbeat (clock w1) ?i ?k (db w1))\<rparr>)"
    using heartbeat_keyed [OF w1(1)] w1(2) by (simp_all add: states_own_def run_state_def)
  have free: "e_worker_id e \<noteq> Some ?k" using row by (intro release_lock_frees [of ?i ?k "db u"]) (simp add: u)
  obtain e0 where e0: "get_execution ?i (db u) = Some e0" "e_status e = e_status e0"
    using row release_lock_row(1) [of ?i ?k "db u" e] by (auto simp: u)
  show ?thesis
    using free worker_exit_reports [OF body_outcome [OF env w2 body] ex [unfolded u(1)] _ e0(1)] e0(2) by auto
qed

section \<open>A start that is refused\<close>

text \<open>Rows whose entries for the worker can be written: dictionaries, or nothing there yet.\<close>

definition tidy :: "Execution \<Rightarrow> bool" where
  "tidy x \<longleftrightarrow> (\<exists>d. jget (e_metadata x) ''worker_context'' \<in> {VNone, VDict d}) \<and>
     (\<exists>d. map_of (e_metadata x) ''runtime_diagnostics'' \<in> {None, Some (VDict d)})"

lemma tidy_context:
  assumes "tidy x"
  shows "\<exists>x1. with_worker_context c x = Inr x1 \<and> e_id x1 = e_id x \<and> e_status x1 = e_status x \<and>
    e_workflow_id x1 = e_workflow_id x \<and> tidy x1"
proof -
  obtain d where "py_dict (jget (e_metadata x) ''worker_context'') = Inr d"
    using assms by (fastforce simp: tidy_def py_dict_def)
  then show ?thesis using assms by (simp add: with_worker_context_def tidy_def map_of_dset)
qed

lemma tidy_diagnostic:
  assumes "tidy x"
  shows "\<exists>x1. put_diagnostic key entry x = Inr x1 \<and> tidy x1"
proof -
  obtain d where "map_of (e_metadata x) ''runtime_diagnostics'' = None \<or> map_of (e_metadata x) ''runtime_diagnostics'' = Some (VDict d)"
    using assms by (auto simp: tidy_def)
  then show ?thesis
    by (elim disjE) (use assms in \<open>simp_all add: put_diagnostic_def tidy_def map_of_dset\<close>)
qed

lemma heartbeat_row:
  "get_execution i s = Some e \<Longrightarrow> \<exists>e1. get_execution i (snd (heartbeat now i wk s)) = Some e1 \<and> e_id e1 = e_id e \<and>
     e_status e1 = e_status e \<and> e_workflow_id e1 = e_workflow_id e \<and> e_metadata e1 = e_metadata e"
  by (simp add: heartbeat_def get_execution_def Let_def)

lemma refused_start_fails:
  assumes native: "wc_runtime_adapter_id c = ''native''" and i: "wc_execution_id c = i"
    and lock: "take_lock i (wc_worker_id c) sleeps w = (True, w1)"
    and k: "keyed (db w1)" and row: "get_execution i (db w1) = Some e" "tidy e"
    and refused: "\<And>x v. get_execution i (db v) = Some x \<Longrightarrow> e_status x = e_status e \<Longrightarrow> e_workflow_id x = e_workflow_id e \<Longrightarrow>
      e_id x = i \<Longrightarrow> run i v = (Raised (err x), v) \<and> worker_exit c (Raised (err x)) = fail_with i (noted_exception c (err x))
        (''Execution worker failed before completion: '' @ exc_name (err x) @ '': '' @ exc_str (err x)) WORKER_EXIT_INFRA_FAILED"
  shows "\<exists>w' x. run_execution_worker c run sleeps w = (Inr WORKER_EXIT_INFRA_FAILED, w') \<and>
    get_execution i (db w') = Some x \<and> e_status x = FAILED"
proof -
  define w2 where "w2 = w1\<lparr>db := snd (heartbeat (clock w1) i (wc_worker_id c) (db w1))\<rparr>"
  obtain e1 where e1: "get_execution i (db w2) = Some e1" "e_status e1 = e_status e" "e_workflow_id e1 = e_workflow_id e"
    "e_id e1 = i" "tidy e1"
    using heartbeat_row [OF row(1), of "clock w1" "wc_worker_id c"] row(2) keyedD [OF k row(1)] by (auto simp: tidy_def w2_def)
  obtain x where x: "with_worker_context c e1 = Inr x" "e_id x = i" "e_status x = e_status e1"
    "e_workflow_id x = e_workflow_id e1" "tidy x"
    using tidy_context [OF e1(5)] e1(4) by blast
  let ?x = "x\<lparr>e_updated_at := clock w2\<rparr>" and ?v = "db_update_execution x w2"
  have v: "get_execution i (db ?v) = Some ?x" using x(2) by simp
  have r: "run i ?v = (Raised (err ?x), ?v)" "worker_exit c (Raised (err ?x)) = fail_with i (noted_exception c (err ?x))
      (''Execution worker failed before completion: '' @ exc_name (err ?x) @ '': '' @ exc_str (err ?x)) WORKER_EXIT_INFRA_FAILED"
    using refused [OF v] x e1 by simp_all
  have body: "worker_body c run w2 = (Raised (err ?x), ?v)"
    by (simp add: worker_body_def i e1(1) x(1) r(1))
  have "tidy ?x" using x(5) by (simp add: tidy_def)
  then obtain y where y: "noted_exception c (err ?x) ?x = Inr y" "tidy y"
    unfolding noted_exception_def using tidy_diagnostic by blast
  have "\<exists>u. mark_worker_failure y m ?v = (Inr (), u)" for m
  proof -
    have "tidy (y\<lparr>e_status := FAILED, e_error := Some m, e_completed_at := Some (clock ?v)\<rparr>)"
      using y(2) by (simp add: tidy_def)
    from tidy_diagnostic [OF this, of "''worker_failure''" "[(''error'', VStr m), (''worker_id'', opt_str (e_worker_id y)),
        (''runtime_revision_id'', opt_str (e_runtime_revision_id y))]"]
    show ?thesis by (auto simp: mark_worker_failure_def Let_def)
  qed
  then have "\<exists>u. fail_with i (noted_exception c (err ?x)) m WORKER_EXIT_INFRA_FAILED ?v = (Inr WORKER_EXIT_INFRA_FAILED, u)" for m
    using v y(1) by (simp add: fail_with_def) (metis andthen.simps(2))
  then obtain u where u: "worker_exit c (Raised (err ?x)) ?v = (Inr WORKER_EXIT_INFRA_FAILED, u)"
    unfolding r(2) by blast
  have "keyed (db ?v)" using heartbeat_keyed [OF k] by (simp add: w2_def)
  then have "\<exists>x'. get_execution i (db u) = Some x' \<and> e_status x' = FAILED"
    by (rule fail_with_effect(2) [OF _ _ u [unfolded r(2)]]) (use v in \<open>auto dest: noted_exception_id\<close>)
  then obtain x' where x': "get_execution i (db u) = Some x'" "e_status x' = FAILED" by blast
  have "run_execution_worker c run sleeps w =
      (Inr WORKER_EXIT_INFRA_FAILED, u\<lparr>db := snd (release_lock i (wc_worker_id c) (db u))\<rparr>)"
    using native lock by (simp add: run_execution_worker_def i w2_def [symmetric] body u)
  then show ?thesis using release_lock_row(2) [OF x'(1), of "wc_worker_id c"] x'(2) by auto
qed

lemma unknown_workflow_ok: "loop_env unknown_workflow"
  by (simp add: loop_env_def harmless_graph_def quiet_env_def unknown_workflow_def sample_env_def)

definition sample_locked :: world where
  "sample_locked = snd (take_lock ''ex-1'' ''container-worker-ex-1'' [id] sample_world)"

lemma sample_locked_row:
  "get_execution ''ex-1'' (db sample_locked) = Some (sample_execution\<lparr>e_worker_id := Some ''container-worker-ex-1'', e_last_heartbeat_at := Some 100\<rparr>)"
  "tidy (sample_execution\<lparr>e_worker_id := Some ''container-worker-ex-1'', e_last_heartbeat_at := Some 100\<rparr>)"
  by (simp_all add: sample_locked_def acquire_lock_def sample_world_def Let_def get_execution_def tidy_def sample_execution_def
      jget_def)

lemma unknown_start:
  "get_execution i (db v) = Some x \<Longrightarrow> e_status x = PAUSED \<Longrightarrow> engine_run unknown_workflow i v =
     (Raised (missing (''Workflow '' @ quote (e_workflow_id x) @ '' was not found'')), v)"
  by (simp add: engine_run_def start_execution_def reject_terminal_execution_replay_def TERMINAL_EXECUTION_STATUSES_def
      unknown_workflow_def sample_env_def)

theorem worker_exit_code_tells_status_witness:
  "\<exists>w'. run_execution_worker sample_call (engine_run unknown_workflow) [id] sample_world = (Inr 30, w') \<and>
     (\<exists>e. get_execution ''ex-1'' (db w') = Some e \<and> e_status e = FAILED \<and> e_worker_id e \<noteq> Some ''container-worker-ex-1'')"
proof -
  have lock: "take_lock ''ex-1'' ''container-worker-ex-1'' [id] sample_world = (True, sample_locked)"
    by (simp add: sample_locked_def acquire_lock_def sample_world_def sample_execution_def Let_def)
  have ok: "keyed (db sample_locked)" "states_own sample_locked"
    by (simp_all add: sample_locked_def acquire_lock_def sample_world_def sample_execution_def Let_def keyed_def
        get_execution_def states_own_def run_state_def)
  obtain w' e where run: "run_execution_worker sample_call (engine_run unknown_workflow) [id] sample_world = (Inr 30, w')"
    and e: "get_execution ''ex-1'' (db w') = Some e"
  proof -
    have "\<exists>w' x. run_execution_worker sample_call (engine_run unknown_workflow) [id] sample_world = (Inr WORKER_EXIT_INFRA_FAILED, w') \<and>
      get_execution ''ex-1'' (db w') = Some x \<and> e_status x = FAILED"
      by (rule refused_start_fails [OF _ _ _ ok(1) sample_locked_row(1,2), where err = "\<lambda>x. missing (''Workflow '' @ quote (e_workflow_id x) @ '' was not found'')"])
        (use lock in \<open>simp_all add: sample_call_def unknown_start worker_exit_def missing_def fun_eq_iff\<close>)
    then show ?thesis using that by (auto simp: worker_exit_codes)
  qed
  show ?thesis
    using worker_exit_code_tells_status [OF unknown_workflow_ok _ _ ok, of sample_call "[id]" sample_world 30 w' e] lock run e
    by (auto simp: sample_call_def reported_def worker_exit_codes)
qed

text \<open>
  C24: A worker that comes too late turns a finished execution into a failed one. Terminal rows are meant to
  be immutable, so the engine refuses to start one; the worker takes the refusal for a failure of the run
  and overwrites the row: an execution that has completed, or that was cancelled before its container was
  up, is stored as failed, and the exit code blames the infrastructure.
\<close>

theorem late_worker_fails_finished_execution:
  assumes native: "wc_runtime_adapter_id c = ''native''"
    and lock: "take_lock (wc_execution_id c) (wc_worker_id c) sleeps w = (True, w1)"
    and k: "keyed (db w1)" and row: "get_execution (wc_execution_id c) (db w1) = Some e" "tidy e"
    and finished: "e_status e \<in> TERMINAL_EXECUTION_STATUSES"
  shows "\<exists>w' x. run_execution_worker c (engine_run en) sleeps w = (Inr WORKER_EXIT_INFRA_FAILED, w') \<and>
    get_execution (wc_execution_id c) (db w') = Some x \<and> e_status x = FAILED"
  by (rule refused_start_fails [OF native refl lock k row,
        where err = "\<lambda>x. ValueError (''Execution '' @ quote (e_id x) @
            '' is terminal and must be retried through a replacement execution.'')"])
    (use finished in \<open>simp add: engine_run_def start_execution_def reject_terminal_execution_replay_def fun_eq_iff worker_exit_def\<close>)

theorem late_worker_fails_finished_execution_witness:
  "\<exists>w' x. run_execution_worker sample_call (engine_run answering_engine) [id]
     (db_update_execution (sample_execution\<lparr>e_status := COMPLETED\<rparr>) sample_world) = (Inr WORKER_EXIT_INFRA_FAILED, w') \<and>
     get_execution ''ex-1'' (db w') = Some x \<and> e_status x = FAILED"
proof -
  let ?w = "db_update_execution (sample_execution\<lparr>e_status := COMPLETED\<rparr>) sample_world"
  define e where "e = sample_execution\<lparr>e_status := COMPLETED, e_updated_at := 100,
    e_worker_id := Some ''container-worker-ex-1'', e_last_heartbeat_at := Some 100\<rparr>"
  define w1 where "w1 = snd (take_lock ''ex-1'' ''container-worker-ex-1'' [id] ?w)"
  have row: "get_execution ''ex-1'' (db ?w) = Some (sample_execution\<lparr>e_status := COMPLETED, e_updated_at := 100\<rparr>)"
    by (simp add: sample_execution_def sample_world_def)
  have w1: "take_lock ''ex-1'' ''container-worker-ex-1'' [id] ?w = (True, ?w\<lparr>db := (db ?w)\<lparr>executions :=
      dset ''ex-1'' e (executions (db ?w))\<rparr>\<rparr>)"
    using row by (simp add: acquire_lock_def get_execution_def Let_def e_def sample_execution_def sample_world_def)
  then have "keyed (db w1)" "get_execution ''ex-1'' (db w1) = Some e"
    using sample_world_ok(2) db_update_keyed [of sample_world "sample_execution\<lparr>e_status := COMPLETED\<rparr>"]
    by (auto simp: w1_def keyed_def get_execution_def map_of_dset e_def sample_execution_def split: if_splits)
  then show ?thesis
    using late_worker_fails_finished_execution [of sample_call "[id]" ?w w1 e answering_engine] w1
    by (simp add: sample_call_def w1_def e_def tidy_def sample_execution_def TERMINAL_EXECUTION_STATUSES_def jget_def)
qed

section \<open>The time a run may take\<close>

definition active_seconds :: "bool \<Rightarrow> (rat \<times> bool \<times> bool) list \<Rightarrow> rat" where
  "active_seconds waiting polls =
    (\<Sum>(known_to_wait, elapsed) \<leftarrow> zip (waiting # map (\<lambda>(_, _, waits_now). waits_now) polls) (map fst polls).
       if known_to_wait then 0 else elapsed)"

lemma active_seconds_simps [simp]:
  "active_seconds waiting [] = 0"
  "active_seconds waiting ((elapsed, ended, waits_now) # polls) =
     (if waiting then 0 else elapsed) + active_seconds waits_now polls"
  by (simp_all add: active_seconds_def)

lemma active_seconds_nonneg:
  "(\<And>p. p \<in> set polls \<Longrightarrow> 0 \<le> fst p) \<Longrightarrow> 0 \<le> active_seconds waiting polls"
  by (induction polls arbitrary: waiting) fastforce+

text \<open>
  Waiting for a person is free, computing is not. A run is cut off only after the seconds it spent outside
  of approval waits have used up its budget, so a run that waits for an approval at every poll is never cut
  off however long it takes; and a run that goes on either is waiting now or has used less than its budget.
\<close>

theorem only_active_time_is_charged:
  assumes "\<And>p. p \<in> set polls \<Longrightarrow> 0 \<le> fst p"
  shows "(active_timeout budget waiting polls = Expired \<longrightarrow> budget \<le> active_seconds waiting polls) \<and>
    (active_timeout budget waiting polls = Going_on \<longrightarrow> polls \<noteq> [] \<longrightarrow>
       snd (snd (last polls)) \<or> active_seconds waiting polls < budget)"
  using assms
proof (induction budget waiting polls rule: active_timeout.induct)
  case (2 budget waiting elapsed ended waits_now polls)
  have "0 \<le> active_seconds waits_now polls"
    using 2(2) by (intro active_seconds_nonneg) auto
  moreover have "\<And>p. p \<in> set polls \<Longrightarrow> 0 \<le> fst p" using 2(2) by auto
  ultimately show ?case using 2(1) [OF refl]
    by (cases polls) (auto simp: Let_def not_le split: if_splits)
qed simp

theorem only_active_time_is_charged_witness:
  "active_timeout 10 False [(4, False, True), (900, False, True), (900, False, False), (7, False, False)] = Expired \<and>
   10 \<le> active_seconds False [(4, False, True), (900, False, True), (900, False, False), (7, False, False)]"
  using only_active_time_is_charged [of "[(4, False, True), (900, False, True), (900, False, False), (7, False, False)]" 10 False]
  by (simp add: Let_def)

end
