(* ===== verification/Failing_Loop.thy ===== *)
theory Failing_Loop
  imports Run_Safety
begin

text \<open>
  How the end of a run and the bookkeeping of a persistent cycle interact when nodes have failed: the cycle
  is settled as completed before the errors are looked at.
\<close>

lemma schedule_shape:
  assumes "schedule_persistent_cycle en policy out delay reason x w = (Inr (), x', w')"
    and "cycle_number_of (cycle_of x) = Inr n"
  shows "e_status x' = SLEEPING" and "jget (cycle_of x') ''next_cycle_number'' = VInt (n + 1)"
    and "jget (cycle_of x') ''consecutive_failures'' = jget (cycle_of x) ''consecutive_failures''"
proof -
  obtain t ef y where x': "x' = (parked_for_cycle out n t delay ef x)\<lparr>e_status := SLEEPING,
      e_metadata := dset ''active_wait'' y (e_metadata (parked_for_cycle out n t delay ef x))\<rparr>"
    using assms by (auto simp: schedule_persistent_cycle_def sleep_on_def Let_def case_prod_unfold split: sum.splits)
  then show "e_status x' = SLEEPING" by simp
  have c: "cycle_of x' = dmerge (cycle_of x) [(''phase'', VStr ''sleeping''), (''next_cycle_number'', VInt (n + 1)),
      (''next_wake_at'', VStr (isoformat t)), (''last_base_delay_seconds'', VFloat delay), (''last_delay_seconds'', VFloat ef)]"
    by (simp add: x' parked_for_cycle_def cleared_def cycle_of_def put_cycle_def dict_or_empty_def)
  then show "jget (cycle_of x') ''next_cycle_number'' = VInt (n + 1)"
    and "jget (cycle_of x') ''consecutive_failures'' = jget (cycle_of x) ''consecutive_failures''"
    by (simp_all add: dmerge_def)
qed

text \<open>\<open>asleep n k x\<close>: the execution sleeps, its next cycle is \<open>n + 1\<close>, after \<open>k\<close> failures in a row.\<close>

definition asleep :: "int \<Rightarrow> int \<Rightarrow> Execution \<Rightarrow> bool" where
  "asleep n k x \<longleftrightarrow> e_status x = SLEEPING \<and> jget (cycle_of x) ''next_cycle_number'' = VInt (n + 1) \<and>
     jget (cycle_of x) ''consecutive_failures'' = VInt k"

definition last_cycle :: "PersistentCyclePolicy \<Rightarrow> int \<Rightarrow> bool" where
  "last_cycle policy n \<longleftrightarrow> (case pc_max_cycles policy of None \<Rightarrow> False | Some m \<Rightarrow> m \<le> n)"

lemma cycle_number_stored: "1 \<le> n \<Longrightarrow> jget c ''cycle_number'' = VInt n \<Longrightarrow> cycle_number_of c = Inr n"
  by (simp add: cycle_number_of_def int_at_least_def opt_else_def)

lemma success_resets_failures:
  assumes run: "handle_persistent_cycle_success en policy out x w = (Inr b, x', w')"
    and "pc_enabled policy" "pc_deadline_at policy = None" "pc_max_no_progress_cycles policy = None"
    and n: "cycle_number_of (cycle_of x) = Inr n"
  shows "b = (\<not> last_cycle policy n)" and "b \<Longrightarrow> asleep n 0 x'"
    and "\<not> b \<Longrightarrow> cycle_number_of (cycle_of x') = Inr n \<and> jget (cycle_of x') ''consecutive_failures'' = VInt 0 \<and>
      st_node_errors (run_state i w') = st_node_errors (run_state i w) \<and> e_id x' = e_id x"
proof -
  obtain k where k: "count_no_progress (cycle_of x) (cycle_progress_signature en out) = Inr k"
    using run assms(2) n by (auto simp: handle_persistent_cycle_success_def Let_def split: sum.splits elim!: sbind_InrE)
  define x2 where "x2 = put_cycle (finished_cycle en policy out (clock w) n k (cycle_of x)) ((put_cycle (cycle_of x) x)\<lparr>e_error := None\<rparr>)"
  have c2: "jget (cycle_of x2) ''cycle_number'' = VInt n" "jget (cycle_of x2) ''consecutive_failures'' = VInt 0" "e_id x2 = e_id x"
    by (simp_all add: x2_def finished_cycle_def append_cycle_history_def Let_def dmerge_def)
  note n2 = cycle_number_stored [OF cycle_number_pos [OF n] c2(1)]
  have t: "terminal_reason policy (clock w) n = Inr (if last_cycle policy n then Some ''max_cycles_reached'' else None)"
    using assms(3) by (simp add: terminal_reason_def last_cycle_def past_deadline_def)
  obtain p where p: "continue_cycle en policy out (if last_cycle policy n then Some ''max_cycles_reached'' else None) k x2
      (run_note (e_id x2) EXECUTION_CYCLE_COMPLETED p w) = (Inr b, x', w')"
    using run assms(2) n k t by (simp add: handle_persistent_cycle_success_def Let_def x2_def [symmetric] c2)
  show "b = (\<not> last_cycle policy n)" "b \<Longrightarrow> asleep n 0 x'"
    "\<not> b \<Longrightarrow> cycle_number_of (cycle_of x') = Inr n \<and> jget (cycle_of x') ''consecutive_failures'' = VInt 0 \<and>
      st_node_errors (run_state i w') = st_node_errors (run_state i w) \<and> e_id x' = e_id x"
    using p c2 n2 schedule_shape [of en policy out "pc_interval_seconds policy" "''cycle_completed''" x2 _ x' w' n] assms(4)
    by (auto simp: continue_cycle_def asleep_def last_cycle_def dmerge_def cycle_number_of_def
        split: if_splits option.splits elim!: rbind_InrE)
qed

lemma failure_goes_on:
  assumes run: "handle_persistent_cycle_failure en workflow policy error x w = (Inr (), x', w')"
    and "pc_deadline_at policy = None" and n: "cycle_number_of (cycle_of x) = Inr n"
    and k: "jget (cycle_of x) ''consecutive_failures'' = VInt k" "0 \<le> k" "k + 1 < pc_max_consecutive_failures policy"
  shows "asleep n (k + 1) x'"
proof -
  define x2 where "x2 = put_cycle (failed_cycle policy (clock w) n (k + 1) error (cycle_of x))
      ((put_cycle (cycle_of x) x)\<lparr>e_error := Some error\<rparr>)"
  have c2: "jget (cycle_of x2) ''cycle_number'' = VInt n" "jget (cycle_of x2) ''consecutive_failures'' = VInt (k + 1)"
    by (simp_all add: x2_def failed_cycle_def append_cycle_history_def Let_def dmerge_def)
  have "non_negative_int (jget (cycle_of x) ''consecutive_failures'') = Inr (Some k)"
    using k by (simp add: int_at_least_def)
  then obtain out delay w2 where "schedule_persistent_cycle en policy out delay ''cycle_failed'' x2 w2 = (Inr (), x', w')"
    using run n k(3) assms(2)
    by (auto simp: handle_persistent_cycle_failure_def Let_def case_prod_unfold opt_else_def x2_def [symmetric] past_deadline_def
        split: sum.splits elim!: sbind_InrE)
  from schedule_shape [OF this cycle_number_stored [OF cycle_number_pos [OF n] c2(1)]] c2(2) show ?thesis
    by (simp add: asleep_def)
qed


text \<open>A loop of one cycle whose node failed.\<close>

definition one_cycle_policy :: PersistentCyclePolicy where
  "one_cycle_policy = default_cycle_policy\<lparr>pc_enabled := True, pc_max_cycles := Some 1\<rparr>"

definition failed_world :: world where
  "failed_world = change_state ''ex-1'' (put_error ''a'' ''boom'') sample_world"

lemma first_cycle_schedules:
  assumes "cycle_number_of (cycle_of x) = Inr 1" and "waits (db w) = []" and "clock w = 100" and "e_id x = ''ex-1''"
  shows "fst (schedule_persistent_cycle (sample_engine agent) one_cycle_policy out (Fin 60) ''cycle_failed'' x w) = Inr ()"
proof -
  have ef: "cycle_delay_with_jitter (sample_engine agent) ''ex-1'' 2 (Fin 60) (Fin 0) = Fin 60"
    by (simp add: cycle_delay_with_jitter_def)
  have t: "add_seconds 100 (Fin 60) = Inr 60000100"
    by (simp add: datetime_max_def round_even_def Let_def)
  have v: "validate_lifecycle (cycle_wait y p ''cycle_failed'' 1 60000100 wid now) =
      Inr (cycle_wait y p ''cycle_failed'' 1 60000100 wid now)" if "e_id y = ''ex-1''" for y p wid now
    by (rule validate_lifecycle_InrI)
      (simp_all add: wait_guards_ok_def wait_fields_ok_def max_len_def cycle_wait_def int_str_def nat_str.simps
        strip_def is_space_def that)
  have u: "waits (db (snd (uuid4 (db_update_execution y (change_state j f w))))) = []" for y j f
    using assms(2) by (simp add: change_state_def)
  have c: "stored_cycle_wait (cycle_wait y p rs 1 t wid now) s =
      Inr (cycle_wait y p rs 1 t wid now, s\<lparr>waits := dset wid (cycle_wait y p rs 1 t wid now) []\<rparr>)"
    if "waits s = []" for y p rs t wid now s
    using that by (simp add: stored_cycle_wait_def create_execution_wait_def cycle_wait_def)
  show ?thesis
    using assms by (simp add: c schedule_persistent_cycle_def one_cycle_policy_def default_cycle_policy_def ef t v u
        case_prod_unfold Let_def sleep_on_def del: add_seconds.simps split: prod.split)
qed


end
