(* ===== verification/Tools.thy ===== *)
theory Tools
  imports Task_Run
begin

text \<open>
  Tool definitions (\<open>app/domain/tools.py\<close>): their security settings and the validators that repair or refuse
  them; the names a model may call a tool by (\<open>app/tools/names.py\<close>); the labels that warn an operator of what
  a tool can do (\<open>app/tools/risk.py\<close>); the canonical keys of connector providers
  (\<open>app/integrations/connectors.py\<close>). Fields that no modelled code reads are left out.
\<close>

section \<open>Letters\<close>

definition is_upper :: "char \<Rightarrow> bool" where
  "is_upper c = (65 \<le> (of_char c :: nat) \<and> (of_char c :: nat) \<le> 90)"

definition is_lower :: "char \<Rightarrow> bool" where
  "is_lower c = (97 \<le> (of_char c :: nat) \<and> (of_char c :: nat) \<le> 122)"

definition is_digit :: "char \<Rightarrow> bool" where
  "is_digit c = (48 \<le> (of_char c :: nat) \<and> (of_char c :: nat) \<le> 57)"

definition upper_char :: "char \<Rightarrow> char" where
  "upper_char c = (if is_lower c then char_of ((of_char c :: nat) - 32) else c)"

text \<open>\<open>str.upper\<close> on ASCII text, and \<open>f"{s[:1].upper()}{s[1:]}"\<close>.\<close>

definition upper :: "string \<Rightarrow> string" where
  "upper s = map upper_char s"

definition capital :: "string \<Rightarrow> string" where
  "capital s = upper (take 1 s) @ drop 1 s"

section \<open>Words of a name\<close>

text \<open>\<open>re.sub(r"([a-z0-9])([A-Z])", r"\1 \2", s)\<close> and \<open>re.sub(r"([A-Z]+)([A-Z][a-z])", r"\1 \2", s)\<close>.\<close>

fun break_camel :: "string \<Rightarrow> string" where
  "break_camel (a # b # s) =
    (if (is_lower a \<or> is_digit a) \<and> is_upper b then a # CHR '' '' # break_camel (b # s) else a # break_camel (b # s))"
| "break_camel s = s"

fun break_acronym :: "string \<Rightarrow> string" where
  "break_acronym (a # b # c # s) =
    (if is_upper a \<and> is_upper b \<and> is_lower c then a # CHR '' '' # break_acronym (b # c # s)
     else a # break_acronym (b # c # s))"
| "break_acronym s = s"

text \<open>\<open>[part for part in re.split(r"[^A-Za-z0-9]+", s) if part]\<close>; \<open>acc\<close> is the word being read, reversed.\<close>

fun alnum_words :: "string \<Rightarrow> string \<Rightarrow> string list" where
  "alnum_words acc [] = (if acc = [] then [] else [rev acc])"
| "alnum_words acc (c # s) =
    (if is_upper c \<or> is_lower c \<or> is_digit c then alnum_words (c # acc) s
     else if acc = [] then alnum_words [] s else rev acc # alnum_words [] s)"

definition split_name_words :: "string \<Rightarrow> string list" where
  "split_name_words name = alnum_words [] (break_acronym (break_camel (strip name)))"

definition ACRONYM_WORDS :: "string list" where
  "ACRONYM_WORDS = [''a2a'', ''api'', ''cli'', ''csv'', ''docx'', ''html'', ''http'', ''json'', ''llm'', ''mcp'', ''pdf'',
     ''sql'', ''txt'', ''ui'', ''url'', ''xml'', ''yaml'']"

definition LOWERCASE_DISPLAY_WORDS :: "string list" where
  "LOWERCASE_DISPLAY_WORDS = [''a'', ''an'', ''and'', ''as'', ''by'', ''for'', ''from'', ''in'', ''of'', ''on'', ''or'',
     ''the'', ''to'', ''with'']"

definition format_display_word :: "string \<Rightarrow> string" where
  "format_display_word word = (if lower word \<in> set ACRONYM_WORDS then upper word else capital word)"

text \<open>\<open>str.isupper\<close> on a word: a letter, and no small letter.\<close>

definition word_isupper :: "string \<Rightarrow> bool" where
  "word_isupper s = (list_ex is_upper s \<and> \<not> list_ex is_lower s)"

definition name_start :: "char \<Rightarrow> bool" where
  "name_start c = (is_upper c \<or> is_lower c \<or> c = CHR ''_'')"

definition TOOL_CALL_NAME_PATTERN :: "string \<Rightarrow> bool" where
  "TOOL_CALL_NAME_PATTERN s =
    (case s of
       [] \<Rightarrow> False
     | c # cs \<Rightarrow> name_start c \<and> list_all (\<lambda>d. name_start d \<or> is_digit d \<or> d = CHR ''-'') cs \<and> length cs \<le> 63)"

definition make_tool_call_name :: "string \<Rightarrow> string" where
  "make_tool_call_name tool_name =
    (let raw = strip tool_name in
     if TOOL_CALL_NAME_PATTERN raw then raw
     else
       let joined = concat (map (\<lambda>part. if word_isupper part then part else format_display_word part) (split_name_words raw));
           candidate = (if joined = [] then ''Tool'' else joined)
       in take 64 (if name_start (hd candidate) then candidate else ''Tool'' @ candidate))"

fun display_rest :: "string list \<Rightarrow> string list" where
  "display_rest [] = []"
| "display_rest (part # parts) =
    (if lower part \<in> set LOWERCASE_DISPLAY_WORDS then lower part
     else if word_isupper part then part else format_display_word part) # display_rest parts"

definition make_tool_display_name :: "string \<Rightarrow> string" where
  "make_tool_display_name name =
    (case split_name_words name of
       [] \<Rightarrow> ''Tool''
     | part # parts \<Rightarrow> join '' '' ((if word_isupper part then part else format_display_word part) # display_rest parts))"

text \<open>The display name the validator gives a tool without one.\<close>

fun default_rest :: "string list \<Rightarrow> string list" where
  "default_rest [] = []"
| "default_rest (part # parts) =
    (if lower part \<in> set ACRONYM_WORDS then upper part
     else if lower part \<in> set LOWERCASE_DISPLAY_WORDS then lower part
     else capital part) # default_rest parts"

definition default_tool_display_name :: "string \<Rightarrow> string" where
  "default_tool_display_name value =
    (case split_name_words value of
       [] \<Rightarrow> ''Tool''
     | part # parts \<Rightarrow> join '' '' (format_display_word part # default_rest parts))"

section \<open>Tool definitions\<close>

datatype ToolType = PYTHON_FUNCTION | HTTP_REQUEST | SQL_QUERY | SHELL_COMMAND | MCP_TOOL | A2A_REMOTE_AGENT
  | WORKFLOW_TOOL | HUMAN_APPROVAL

fun tool_type_value :: "ToolType \<Rightarrow> string" where
  "tool_type_value PYTHON_FUNCTION = ''python_function''"
| "tool_type_value HTTP_REQUEST = ''http_request''"
| "tool_type_value SQL_QUERY = ''sql_query''"
| "tool_type_value SHELL_COMMAND = ''shell_command''"
| "tool_type_value MCP_TOOL = ''mcp_tool''"
| "tool_type_value A2A_REMOTE_AGENT = ''a2a_remote_agent''"
| "tool_type_value WORKFLOW_TOOL = ''workflow_tool''"
| "tool_type_value HUMAN_APPROVAL = ''human_approval''"

text \<open>A connector binding is kept as the object \<open>model_dump\<close> makes of it.\<close>

record SecuritySettings =
  ts_requires_approval :: bool
  ts_sandbox_required :: bool
  ts_allow_shell :: bool
  ts_allow_browser :: bool
  ts_allow_filesystem :: bool
  ts_allow_network :: bool
  ts_allowlisted_mcp_servers :: "string list"
  ts_read_only :: bool
  ts_dangerous :: bool
  ts_approval_on_rejection :: string
  ts_credential_references :: "json list"
  ts_connector_bindings :: "json list"
  ts_redaction_enabled :: bool
  ts_redaction_rules :: "string list"

record ToolImplementationReference =
  ti_implementation_type :: string
  ti_entrypoint :: "string option"
  ti_callable_name :: "string option"
  ti_config :: json

record ToolDefinition =
  tl_id :: string
  tl_name :: string
  tl_display_name :: "string option"
  tl_tool_type :: ToolType
  tl_input_schema :: json
  tl_implementation :: ToolImplementationReference
  tl_security :: SecuritySettings
  tl_tags :: "string list"
  tl_hint_metadata :: json

definition has_privileged_capabilities :: "SecuritySettings \<Rightarrow> bool" where
  "has_privileged_capabilities s \<longleftrightarrow> ts_allow_shell s \<or> ts_allow_browser s \<or> ts_allow_filesystem s \<or> ts_allow_network s"

definition require_sandbox_for_privileged_capabilities :: "SecuritySettings \<Rightarrow> SecuritySettings" where
  "require_sandbox_for_privileged_capabilities s =
    (if has_privileged_capabilities s \<and> \<not> ts_sandbox_required s then s\<lparr>ts_sandbox_required := True\<rparr> else s)"

definition implementation_map :: "(string \<times> ToolType) list" where
  "implementation_map = [(''python'', PYTHON_FUNCTION), (''python_function'', PYTHON_FUNCTION), (''http'', HTTP_REQUEST),
     (''http_request'', HTTP_REQUEST), (''shell'', SHELL_COMMAND), (''shell_command'', SHELL_COMMAND), (''mcp'', MCP_TOOL),
     (''mcp_tool'', MCP_TOOL), (''a2a'', A2A_REMOTE_AGENT), (''a2a_remote_agent'', A2A_REMOTE_AGENT),
     (''workflow_tool'', WORKFLOW_TOOL), (''human_approval'', HUMAN_APPROVAL), (''sql_query'', SQL_QUERY)]"

text \<open>The model validators in the order pydantic runs them: the settings first, then the tool.\<close>

definition ensure_tool_is_safe_and_typed :: "ToolDefinition \<Rightarrow> exc + ToolDefinition" where
  "ensure_tool_is_safe_and_typed tool =
    (let tool1 = (if or_str (tl_display_name tool) None = None
           then tool\<lparr>tl_display_name := Some (default_tool_display_name (tl_name tool))\<rparr> else tool)
     in if tl_input_schema tool1 = [] then Inl (ValidationError ''ToolDefinition.input_schema is required for all tools'')
        else
          let tool2 = (case map_of implementation_map (ti_implementation_type (tl_implementation tool1)) of
                 None \<Rightarrow> tool1
               | Some inferred_type \<Rightarrow> tool1\<lparr>tl_tool_type := inferred_type\<rparr>);
              security = tl_security tool2
          in if tl_tool_type tool2 = SHELL_COMMAND \<and> \<not> ts_allow_shell security then
               Inl (ValidationError ''Shell command tools are disabled by default and require allow_shell=True'')
             else if tl_tool_type tool2 = SHELL_COMMAND \<and> \<not> ts_requires_approval security then
               Inl (ValidationError ''Shell command tools require requires_approval=True'')
             else if tl_tool_type tool2 = SHELL_COMMAND \<and> \<not> ts_sandbox_required security then
               Inl (ValidationError ''Shell command tools require sandbox_required=True'')
             else Inr tool2)"

definition validated_tool :: "ToolDefinition \<Rightarrow> exc + ToolDefinition" where
  "validated_tool tool =
    ensure_tool_is_safe_and_typed (tool\<lparr>tl_security := require_sandbox_for_privileged_capabilities (tl_security tool)\<rparr>)"

section \<open>Which names call a tool\<close>

definition tool_display_name :: "ToolDefinition \<Rightarrow> string" where
  "tool_display_name tool =
    (case tl_display_name tool of
       Some d \<Rightarrow> if strip d \<noteq> [] then strip d else make_tool_display_name (tl_name tool)
     | None \<Rightarrow> make_tool_display_name (tl_name tool))"

definition tool_call_name :: "ToolDefinition \<Rightarrow> string" where
  "tool_call_name tool =
    (case as_str (jget (tl_hint_metadata tool) ''tool_call_name'') of
       Some configured \<Rightarrow> if TOOL_CALL_NAME_PATTERN (strip configured) then strip configured else make_tool_call_name (tl_name tool)
     | None \<Rightarrow> make_tool_call_name (tl_name tool))"

definition call_names :: "ToolDefinition \<Rightarrow> string list" where
  "call_names tool = [tl_id tool, tl_name tool, tool_display_name tool, make_tool_call_name (tool_display_name tool),
     tool_call_name tool, (case ti_callable_name (tl_implementation tool) of Some n \<Rightarrow> n | None \<Rightarrow> []),
     (case ti_entrypoint (tl_implementation tool) of Some n \<Rightarrow> n | None \<Rightarrow> [])]"

definition tool_matches_call_name :: "ToolDefinition \<Rightarrow> string option \<Rightarrow> bool" where
  "tool_matches_call_name tool name =
    (case or_str name None of None \<Rightarrow> False | Some n \<Rightarrow> strip n \<in> set (call_names tool))"

end
