(* ===== verification/Tool_Risk.thy ===== *)
theory Tool_Risk
  imports Tools
begin

text \<open>
  The labels that warn an operator of what a tool can do, for the definition of a tool and for a run of a
  contract (\<open>app/tools/risk.py\<close>), and the canonical keys of connector providers
  (\<open>app/integrations/connectors.py\<close>, of whose definitions only the keys and aliases are read here).
\<close>

section \<open>Tables\<close>

definition RISK_LABEL_ORDER :: "string list" where
  "RISK_LABEL_ORDER = [
     ''shell'', ''filesystem'', ''browser'', ''network'', ''mcp'', ''credentials'', ''graph'', ''memory'',
     ''read_only'', ''context_pack'', ''requires_approval'', ''sandbox_required'', ''dangerous'', ''mutation'',
     ''local_privileged_execution'']"

definition CONTRACT_BASE_RISK_LABELS :: "(string \<times> string list) list" where
  "CONTRACT_BASE_RISK_LABELS = [
     (''sandbox-edit'', [''filesystem'', ''requires_approval'', ''sandbox_required'', ''mutation'', ''local_privileged_execution'']),
     (''agency.command.run'', [''shell'', ''filesystem'', ''requires_approval'', ''sandbox_required'', ''dangerous'', ''local_privileged_execution'']),
     (''agency.file.write-text'', [''filesystem'', ''mutation'', ''local_privileged_execution'']),
     (''agency.document.markdown-to-word'', [''filesystem'', ''mutation'', ''local_privileged_execution'']),
     (''agency.excel.write-text'', [''filesystem'', ''mutation'', ''local_privileged_execution'']),
     (''agency.excel.write-json'', [''filesystem'', ''mutation'', ''local_privileged_execution'']),
     (''agency.excel.write-image'', [''filesystem'', ''mutation'', ''local_privileged_execution'']),
     (''agency.media.publish'', [''filesystem'', ''network'', ''requires_approval'', ''mutation'', ''local_privileged_execution'']),
     (''agency.media.send'', [''filesystem'', ''network'', ''credentials'', ''requires_approval'', ''mutation'']),
     (''agency.voice.generate'', [''filesystem'', ''requires_approval'', ''mutation'', ''local_privileged_execution'']),
     (''agency.http.request'', [''network'', ''credentials'', ''mutation'']),
     (''agency.workflow.run'', [''requires_approval'', ''mutation'']),
     (''agency.workflow.propose-create'', [''requires_approval'', ''mutation'']),
     (''agency.workflow.propose-update'', [''requires_approval'', ''mutation'']),
     (''agency.tool.propose-create'', [''requires_approval'', ''mutation'']),
     (''agency.tool.propose-update'', [''requires_approval'', ''mutation'']),
     (''agency.agent.propose-update'', [''requires_approval'', ''mutation'']),
     (''agency.memory.remember'', [''mutation'']),
     (''agency.memory.update'', [''mutation'']),
     (''agency.memory.delete'', [''mutation'']),
     (''agency.memory.exclusions.add'', [''mutation'']),
     (''agency.memory.exclusions.delete'', [''mutation'']),
     (''agency.workflow.memory-links.add'', [''mutation'']),
     (''agency.workflow.memory-links.delete'', [''mutation'']),
     (''agency.graph.context'', [''graph'', ''read_only'']),
     (''agency.graph.search'', [''graph'', ''read_only'']),
     (''agency.graph.expand'', [''graph'', ''read_only'']),
     (''agency.graph.neighbors'', [''graph'', ''read_only'']),
     (''agency.graph.path'', [''graph'', ''read_only'']),
     (''agency.graph.summarize-subgraph'', [''graph'', ''read_only'']),
     (''agency.graph.working-set.create'', [''graph'', ''mutation'']),
     (''agency.graph.working-set.add'', [''graph'', ''mutation'']),
     (''agency.graph.working-set.remove'', [''graph'', ''mutation'']),
     (''agency.graph.working-set.summarize'', [''graph'', ''read_only'']),
     (''agency.graph.working-set.clear'', [''graph'', ''mutation'']),
     (''agency.graph.working-set.persist-context-pack'', [''graph'', ''memory'', ''context_pack'', ''mutation''])]"

definition BROWSER_MUTATION_TOOLS :: "string list" where
  "BROWSER_MUTATION_TOOLS = [''agency.browser.click'', ''agency.browser.select-option'', ''agency.browser.type-text'']"

definition COMPUTER_USE_MUTATION_TOOLS :: "string list" where
  "COMPUTER_USE_MUTATION_TOOLS = [''click'', ''double-click'', ''drag'', ''key'', ''press-key'', ''select-option'', ''type'', ''type-text'']"

section \<open>Labels\<close>

text \<open>A Python set of labels is a list whose order and repetitions do not matter.\<close>

definition ordered_risk_labels :: "string list \<Rightarrow> string list" where
  "ordered_risk_labels labels =
    filter (\<lambda>l. l \<in> set labels) RISK_LABEL_ORDER @ sort (remdups (filter (\<lambda>l. l \<notin> set RISK_LABEL_ORDER) labels))"

definition definition_can_mutate :: "ToolDefinition \<Rightarrow> bool" where
  "definition_can_mutate tool =
    (let s = tl_security tool in
     if ts_read_only s then False
     else if ts_allow_shell s \<or> ts_allow_filesystem s then True
     else if tl_tool_type tool \<in> {SHELL_COMMAND, HTTP_REQUEST, WORKFLOW_TOOL, HUMAN_APPROVAL} then True
     else case map_of CONTRACT_BASE_RISK_LABELS (tl_id tool) of
            None \<Rightarrow> False
          | Some labels \<Rightarrow> ''mutation'' \<in> set labels)"

definition definition_labels :: "(rat \<Rightarrow> string) \<Rightarrow> ToolDefinition \<Rightarrow> string list" where
  "definition_labels ft tool =
    (let s = tl_security tool; tag_set = map lower (tl_tags tool); config = ti_config (tl_implementation tool);
         add = (\<lambda>c l. if c then [l] else []);
         computer_use = (jget config ''tool_family'' = VStr ''computer_use'');
         canonical_name = lower (py_str ft (py_or (jget config ''canonical_tool_name'') (VStr (tl_name tool))))
     in add (''graph'' \<in> set tag_set \<or> ''agency_graph'' \<in> set tag_set) ''graph'' @
        add (''memory'' \<in> set tag_set) ''memory'' @
        add (''context_pack'' \<in> set tag_set) ''context_pack'' @
        add (ts_read_only s \<or> ''read_only'' \<in> set tag_set) ''read_only'' @
        add (ts_allow_shell s) ''shell'' @
        add (ts_allow_filesystem s) ''filesystem'' @
        add (ts_allow_browser s) ''browser'' @
        add (ts_allow_network s \<or> tl_tool_type tool \<in> {HTTP_REQUEST, A2A_REMOTE_AGENT}) ''network'' @
        add (tl_tool_type tool = MCP_TOOL \<or> ts_allowlisted_mcp_servers s \<noteq> []) ''mcp'' @
        add (ts_credential_references s \<noteq> []) ''credentials'' @
        add (ts_requires_approval s) ''requires_approval'' @
        add (ts_sandbox_required s) ''sandbox_required'' @
        add (ts_dangerous s) ''dangerous'' @
        add computer_use ''browser'' @
        add (computer_use \<and> canonical_name \<in> set COMPUTER_USE_MUTATION_TOOLS) ''mutation'' @
        add (definition_can_mutate tool) ''mutation'')"

definition risk_labels_for_tool_definition :: "(rat \<Rightarrow> string) \<Rightarrow> ToolDefinition \<Rightarrow> string list" where
  "risk_labels_for_tool_definition ft tool =
    (let labels = definition_labels ft tool
     in ordered_risk_labels
          (labels @ (if set labels \<inter> {''shell'', ''filesystem'', ''browser''} \<noteq> {} then [''local_privileged_execution''] else [])))"

text \<open>A missing entry of the payload reads as \<open>None\<close>; \<open>payload.get("dry_run", True)\<close> has its own default.\<close>

definition wet_run :: "json option \<Rightarrow> bool" where
  "wet_run payload =
    (\<not> truthy (case map_of (case payload of None \<Rightarrow> [] | Some p \<Rightarrow> p) ''dry_run'' of None \<Rightarrow> VBool True | Some v \<Rightarrow> v))"

definition contract_labels :: "(rat \<Rightarrow> string) \<Rightarrow> string \<Rightarrow> json option \<Rightarrow> string list" where
  "contract_labels ft tool_name payload =
    (let p = (case payload of None \<Rightarrow> [] | Some p \<Rightarrow> p);
         add = (\<lambda>c ls. if c then ls else []);
         base = (case map_of CONTRACT_BASE_RISK_LABELS tool_name of None \<Rightarrow> [] | Some ls \<Rightarrow> ls);
         labels1 = base @
           add (startswith tool_name ''agency.browser.'') [''browser'', ''local_privileged_execution''] @
           add (tool_name = ''agency.browser.open'') [''network''] @
           add (tool_name \<in> set BROWSER_MUTATION_TOOLS) [''mutation''] @
           add (startswith tool_name ''agency.excel.'') [''filesystem'', ''mutation'', ''local_privileged_execution''] @
           add (startswith tool_name ''agency.memory.'' \<and>
             tool_name \<notin> {''agency.memory.list'', ''agency.memory.catalog'', ''agency.memory.exclusions.list''}) [''mutation''];
         http_method = upper (py_str ft (py_or (jget p ''method'') (VStr ''GET'')));
         credential_mode = lower (py_str ft (py_or (jget p ''credential_mode'') (VStr ''none'')));
         labels2 = (if tool_name = ''agency.http.request'' then
             (if payload \<noteq> None then [''network''] else labels1) @ [''network''] @
             add (http_method \<in> {''POST'', ''PUT'', ''PATCH'', ''DELETE''}) [''mutation''] @
             add (credential_mode = ''onecli'') [''credentials'']
           else labels1)
     in labels2 @
        add (tool_name = ''agency.media.send'') ([''network'', ''mutation''] @
          add (truthy (jget p ''credential_id'')) [''credentials''] @
          add (truthy (jget p ''file_path'')) [''filesystem'', ''local_privileged_execution''] @
          add (wet_run payload) [''requires_approval'']) @
        add (tool_name = ''agency.media.publish'') ([''filesystem'', ''network'', ''mutation'', ''local_privileged_execution''] @
          add (wet_run payload) [''requires_approval'']) @
        add (tool_name = ''agency.voice.generate'') ([''filesystem'', ''mutation'', ''local_privileged_execution''] @
          add (wet_run payload) [''requires_approval'']))"

definition risk_labels_for_contract_run :: "(rat \<Rightarrow> string) \<Rightarrow> string \<Rightarrow> json option \<Rightarrow> string list" where
  "risk_labels_for_contract_run ft tool_name payload = ordered_risk_labels (contract_labels ft tool_name payload)"

section \<open>Connector providers\<close>

definition connector_definitions :: "(string \<times> string list) list" where
  "connector_definitions = [
     (''telegram-bot'', [''telegram'']), (''whatsapp-cloud-api'', [''whatsapp'', ''meta-whatsapp'']),
     (''discord-bot'', [''discord'']), (''slack-app'', [''slack'']), (''microsoft-teams'', [''teams'']),
     (''twilio-sms'', [''twilio'']), (''gmail'', [''google-mail'']),
     (''outlook-email'', [''outlook'', ''microsoft-outlook'']), (''notion'', []), (''linear'', []),
     (''jira'', [''atlassian-jira'']), (''confluence'', [''atlassian-confluence'']), (''airtable'', []),
     (''google-workspace'', [''google-drive'', ''google-calendar'', ''google-docs'', ''google-sheets'']),
     (''microsoft-365'', [''office365'', ''sharepoint'', ''onedrive'']), (''github'', []), (''gitlab'', []),
     (''sentry'', []), (''pagerduty'', []), (''figma'', []), (''canva'', []),
     (''youtube'', [''google-youtube'']), (''adobe-creative-cloud'', [''adobe'', ''creative-cloud'']),
     (''perplexity'', []), (''tavily'', []), (''wikipedia'', []), (''s3'', [''aws-s3'']),
     (''google-drive'', [''google-workspace-drive'']), (''dropbox'', []),
     (''onedrive'', [''microsoft-onedrive'']), (''sharepoint'', [''microsoft-sharepoint''])]"

definition connector_alias_lookup :: "string dict" where
  "connector_alias_lookup =
    fold (\<lambda>(key, aliases) lookup. fold (\<lambda>alias d. dset alias key d) aliases (dset key key lookup)) connector_definitions []"

definition normalize_connector_provider_key :: "string option \<Rightarrow> string option" where
  "normalize_connector_provider_key provider =
    (case provider of
       None \<Rightarrow> None
     | Some p \<Rightarrow>
         let normalized = lower (strip p)
         in if normalized = [] then None
            else Some (case map_of connector_alias_lookup normalized of None \<Rightarrow> normalized | Some key \<Rightarrow> key))"

section \<open>What the labels say\<close>

lemma ordered_labels [simp]: "set (ordered_risk_labels labels) = set labels"
  by (auto simp: ordered_risk_labels_def)

lemma labels_known: "set (definition_labels ft tool) \<subseteq> set RISK_LABEL_ORDER"
  by (auto simp: definition_labels_def Let_def RISK_LABEL_ORDER_def)

lemma privileged_label:
  "''local_privileged_execution'' \<in> set (risk_labels_for_tool_definition ft tool) \<longleftrightarrow>
     set (definition_labels ft tool) \<inter> {''shell'', ''filesystem'', ''browser''} \<noteq> {}"
proof -
  have "''local_privileged_execution'' \<notin> set (definition_labels ft tool)"
    by (auto simp: definition_labels_def Let_def)
  then show ?thesis by (simp add: risk_labels_for_tool_definition_def Let_def)
qed

end
