(* ===== verification/Tool_Executor.thy ===== *)
theory Tool_Executor
  imports Tool_Risk
begin

text \<open>
  The executor of tool calls, \<open>app/runtime/native/tool_executor.py\<close>, with the dispatch of
  \<open>app/tools/registry.py\<close> and the approval tool of \<open>app/tools/executors/human_approval.py\<close>: which definition a
  call means, the binding its credentials come from, the approval it needs, what is written of its arguments
  and result, and the call itself. Parameters, in \<open>tool_env\<close>: the definitions built into the agency, the
  JSON schema validator, the executors of the other tool types and the time a call takes. The store of the
  model has no table of tool invocations, so the calls to it are skipped as the code does with
  \<open>hasattr\<close>.
\<close>

section \<open>The environment\<close>

record tool_context =
  tc_execution_id :: string
  tc_workflow_id :: string
  tc_task_id :: "string option"
  tc_agent_id :: "string option"
  tc_tool_call_id :: string
  tc_connector_binding :: "json option"

record tool_env =
  tx_builtins :: "ToolDefinition list"
  tx_validate :: "json \<Rightarrow> json \<Rightarrow> exc option"
  tx_executor :: "ToolType \<Rightarrow> ToolDefinition \<Rightarrow> json \<Rightarrow> tool_context \<Rightarrow> json act"
  tx_elapsed_ms :: "world \<Rightarrow> world \<Rightarrow> rat"

definition tool_error :: "string \<Rightarrow> exc" where
  "tool_error message = OtherError ''ToolExecutionError'' message"

section \<open>Which definition a call means\<close>

text \<open>The catalog tools of each workflow, as the executor has them.\<close>

definition register_catalog_tools ::
  "string \<Rightarrow> string list \<Rightarrow> ToolDefinition list \<Rightarrow> ToolDefinition dict dict \<Rightarrow> ToolDefinition dict dict" where
  "register_catalog_tools workflow_id requested_tool_ids tools catalog =
    (let workflow_tools = (case map_of catalog workflow_id of None \<Rightarrow> [] | Some d \<Rightarrow> d)
     in dset workflow_id
          (dmerge (fold dpop requested_tool_ids workflow_tools)
             (map (\<lambda>tool. (tl_id tool, tool)) (filter (\<lambda>tool. tl_id tool \<in> set requested_tool_ids) tools))) catalog)"

definition catalog_tools :: "ToolDefinition dict dict \<Rightarrow> string \<Rightarrow> ToolDefinition list" where
  "catalog_tools catalog workflow_id = dvalues (case map_of catalog workflow_id of None \<Rightarrow> [] | Some d \<Rightarrow> d)"

definition available_tools ::
  "tool_env \<Rightarrow> ToolDefinition dict dict \<Rightarrow> string \<Rightarrow> ToolDefinition list \<Rightarrow> ToolDefinition list" where
  "available_tools tx catalog workflow_id tool_definitions =
    (let builtin_ids = map tl_id (tx_builtins tx);
         workflow_tools = filter (\<lambda>tool. tl_id tool \<notin> set builtin_ids) tool_definitions;
         workflow_tool_ids = map tl_id workflow_tools
     in workflow_tools @ tx_builtins tx @
        filter (\<lambda>tool. tl_id tool \<notin> set builtin_ids \<and> tl_id tool \<notin> set workflow_tool_ids) (catalog_tools catalog workflow_id))"

fun first_match :: "string \<Rightarrow> string option \<Rightarrow> string set \<Rightarrow> ToolDefinition list \<Rightarrow> ToolDefinition option" where
  "first_match tool_id tool_name seen [] = None"
| "first_match tool_id tool_name seen (tool # tools) =
    (if tl_id tool \<in> seen then first_match tool_id tool_name seen tools
     else if tl_id tool = tool_id \<or> tool_matches_call_name tool tool_name then Some tool
     else first_match tool_id tool_name (insert (tl_id tool) seen) tools)"

definition resolve_tool ::
  "tool_env \<Rightarrow> ToolDefinition dict dict \<Rightarrow> string \<Rightarrow> ToolDefinition list \<Rightarrow> string \<Rightarrow> string option \<Rightarrow> exc + ToolDefinition" where
  "resolve_tool tx catalog workflow_id tool_definitions tool_id tool_name =
    (case first_match tool_id tool_name {} (available_tools tx catalog workflow_id tool_definitions) of
       Some tool \<Rightarrow> Inr tool
     | None \<Rightarrow> Inl (tool_error (''Tool '' @ quote (if tool_id \<noteq> [] then tool_id
         else case tool_name of Some n \<Rightarrow> n | None \<Rightarrow> ''None'') @ '' not found'')))"

section \<open>What may be written of a value\<close>

definition matches_rule :: "string list \<Rightarrow> string \<Rightarrow> bool" where
  "matches_rule rules key \<longleftrightarrow> (\<exists>rule \<in> set rules. contains key rule)"

fun redacted :: "string list \<Rightarrow> string option \<Rightarrow> pyval \<Rightarrow> pyval" where
  "redacted rules key (VDict d) =
    VDict (map (\<lambda>(k, v). (k, if matches_rule rules (lower k) then VStr ''[REDACTED]'' else redacted rules (Some (lower k)) v)) d)"
| "redacted rules key (VList xs) = VList (map (redacted rules key) xs)"
| "redacted rules key v =
    (case or_str key None of
       None \<Rightarrow> v
     | Some k \<Rightarrow> if matches_rule rules k then VStr ''[REDACTED]'' else v)"

definition redact_for :: "ToolDefinition \<Rightarrow> json \<Rightarrow> json" where
  "redact_for tool d =
    (if \<not> ts_redaction_enabled (tl_security tool) then d
     else dict_or_empty (redacted (map lower (ts_redaction_rules (tl_security tool))) None (VDict d)))"

section \<open>The binding credentials come from\<close>

definition text_at :: "(rat \<Rightarrow> string) \<Rightarrow> json \<Rightarrow> string \<Rightarrow> string" where
  "text_at ft d k = py_str ft (py_or (jget d k) (VStr []))"

definition connector_binding_payload :: "(rat \<Rightarrow> string) \<Rightarrow> json \<Rightarrow> json" where
  "connector_binding_payload ft binding =
    (let legacy_ref = strip (text_at ft binding ''ref'');
         payload1 = dpop ''ref'' binding;
         payload = (if legacy_ref \<noteq> [] \<and> strip (text_at ft payload1 ''credential_id'') = []
           then dset ''credential_id'' (VStr legacy_ref) payload1 else payload1);
         purpose = strip (text_at ft payload ''purpose'');
         provider = (case normalize_connector_provider_key (Some (text_at ft payload ''provider'')) of
             Some p \<Rightarrow> Some p
           | None \<Rightarrow>
               if purpose \<noteq> [] then
                 normalize_connector_provider_key
                   (Some (takeWhile (\<lambda>c. c \<noteq> CHR ''-'') (takeWhile (\<lambda>c. c \<noteq> CHR ''_'') purpose)))
               else None)
     in case provider of None \<Rightarrow> payload | Some p \<Rightarrow> dset ''provider'' (VStr p) payload)"

definition workflow_connector_bindings :: "(rat \<Rightarrow> string) \<Rightarrow> WorkflowDefinition \<Rightarrow> json list" where
  "workflow_connector_bindings ft workflow =
    (case as_list (jget (wd_metadata workflow) ''connector_bindings'') of
       None \<Rightarrow> []
     | Some bindings \<Rightarrow> map (connector_binding_payload ft) (List.map_filter as_dict bindings))"

definition tool_connector_bindings :: "(rat \<Rightarrow> string) \<Rightarrow> ToolDefinition \<Rightarrow> json list" where
  "tool_connector_bindings ft tool = map (connector_binding_payload ft) (ts_connector_bindings (tl_security tool))"

definition nonblank :: "pyval \<Rightarrow> string option" where
  "nonblank v = (case as_str v of Some s \<Rightarrow> if strip s \<noteq> [] then Some (strip s) else None | None \<Rightarrow> None)"

definition provider_keys :: "string list" where
  "provider_keys = [''provider'', ''provider_key'', ''connector'', ''connector_provider'']"

definition connector_provider_hint :: "ToolDefinition \<Rightarrow> json \<Rightarrow> string option" where
  "connector_provider_hint tool arguments =
    (let values = map nonblank (jget arguments ''provider'' # map (jget (ti_config (tl_implementation tool))) provider_keys)
     in case filter (\<lambda>v. v \<noteq> None) values of [] \<Rightarrow> None | v # _ \<Rightarrow> normalize_connector_provider_key v)"

definition is_connector_like_tool :: "ToolDefinition \<Rightarrow> json \<Rightarrow> bool" where
  "is_connector_like_tool tool arguments \<longleftrightarrow>
    set (map (\<lambda>tag. lower (strip tag)) (tl_tags tool)) \<inter> {''connector'', ''integration''} \<noteq> {} \<or>
    map_of arguments ''credential_id'' \<noteq> None \<or> map_of arguments ''connector_credential_id'' \<noteq> None \<or>
    tl_id tool = ''agency.media.send'' \<and> map_of arguments ''provider'' \<noteq> None \<or>
    list_ex (\<lambda>k. map_of (ti_config (tl_implementation tool)) k \<noteq> None) provider_keys"

definition bindings_in_scope :: "(rat \<Rightarrow> string) \<Rightarrow> WorkflowDefinition \<Rightarrow> ToolDefinition \<Rightarrow> json \<Rightarrow> json list" where
  "bindings_in_scope ft workflow tool arguments =
    (let bindings = tool_connector_bindings ft tool @ workflow_connector_bindings ft workflow
     in case connector_provider_hint tool arguments of
          None \<Rightarrow> bindings
        | Some provider_hint \<Rightarrow>
            filter (\<lambda>binding. lower (strip (text_at ft binding ''provider'')) = lower provider_hint) bindings)"

definition resolve_connector_binding ::
  "(rat \<Rightarrow> string) \<Rightarrow> WorkflowDefinition \<Rightarrow> ToolDefinition \<Rightarrow> json \<Rightarrow> exc + json option" where
  "resolve_connector_binding ft workflow tool arguments =
    (let bindings = bindings_in_scope ft workflow tool arguments
     in case nonblank (py_or (jget arguments ''credential_id'') (jget arguments ''connector_credential_id'')) of
          Some explicit_credential_id \<Rightarrow>
            (case filter (\<lambda>binding. strip (text_at ft binding ''credential_id'') = explicit_credential_id) bindings of
               [] \<Rightarrow> Inl (tool_error (''Tool '' @ quote (tl_id tool) @ '' requested credential_id '' @ quote explicit_credential_id @
                      '' but it is not in the tool or workflow connector bindings.''))
             | match # _ \<Rightarrow> Inr (Some match))
        | None \<Rightarrow>
            (case bindings of
               [binding] \<Rightarrow> Inr (Some binding)
             | [] \<Rightarrow>
                 if is_connector_like_tool tool arguments then
                   Inl (tool_error (''Tool '' @ quote (tl_id tool) @ '' is connector-backed but has no connector binding.''))
                 else Inr None
             | _ \<Rightarrow> Inl (tool_error (''Tool '' @ quote (tl_id tool) @
                      '' has multiple connector bindings; pass credential_id or narrow provider scope.''))))"

section \<open>Arguments\<close>

definition shorthand_array :: "pyval \<Rightarrow> bool" where
  "shorthand_array property_schema =
    (case property_schema of
       VDict p \<Rightarrow>
         (jget p ''type'' = VStr ''array'' \<or>
            (case jget p ''type'' of VList ts \<Rightarrow> VStr ''array'' \<in> set ts | _ \<Rightarrow> False)) \<and>
         (case jget p ''items'' of VDict items \<Rightarrow> jget items ''type'' = VStr ''string'' | _ \<Rightarrow> False)
     | _ \<Rightarrow> False)"

definition normalize_tool_arguments :: "ToolDefinition \<Rightarrow> json \<Rightarrow> json" where
  "normalize_tool_arguments tool arguments =
    (case jget (tl_input_schema tool) ''properties'' of
       VDict properties \<Rightarrow>
         fold (\<lambda>(name, property_schema) normalized.
             case jget arguments name of
               VStr s \<Rightarrow> if shorthand_array property_schema then dset name (VList [VStr s]) normalized else normalized
             | _ \<Rightarrow> normalized) properties arguments
     | _ \<Rightarrow> arguments)"

definition check_security :: "ToolDefinition \<Rightarrow> exc option" where
  "check_security tool =
    (if has_privileged_capabilities (tl_security tool) \<and> \<not> ts_sandbox_required (tl_security tool)
     then Some (tool_error (''Tool '' @ quote (tl_id tool) @
       '' enables privileged capabilities but is missing sandbox_required=True''))
     else None)"

section \<open>Events of a call\<close>

definition tool_emit :: "string \<Rightarrow> ExecutionEventType \<Rightarrow> json \<Rightarrow> json \<Rightarrow> string option \<Rightarrow> world \<Rightarrow> ExecutionEvent \<times> world" where
  "tool_emit i event_type payload metrics tool_call_id w =
    (let st = run_state i w;
         (saved, state', w') = emit st event_type None payload metrics [] (st_current_agent_id st) (st_current_task_id st)
           tool_call_id None None w
     in (saved, w'\<lparr>states := dset i state' (states w')\<rparr>))"

definition tool_note :: "string \<Rightarrow> ExecutionEventType \<Rightarrow> json \<Rightarrow> json \<Rightarrow> string option \<Rightarrow> world \<Rightarrow> world" where
  "tool_note i event_type payload metrics tool_call_id w = snd (tool_emit i event_type payload metrics tool_call_id w)"

text \<open>The fields every event of a call starts with, and the ones it ends with.\<close>

definition call_fields :: "ToolDefinition \<Rightarrow> json \<Rightarrow> json \<Rightarrow> json" where
  "call_fields tool own extra = dmerge ([(''tool_id'', VStr (tl_id tool)), (''tool_name'', VStr (tl_name tool))] @ own) extra"

definition binding_payload :: "ToolDefinition \<Rightarrow> json option \<Rightarrow> json" where
  "binding_payload tool binding =
    (case binding of
       None \<Rightarrow> []
     | Some b \<Rightarrow> if b = [] then [] else [(''connector_binding'', VDict (redact_for tool b))])"

definition risk_payload :: "(rat \<Rightarrow> string) \<Rightarrow> ToolDefinition \<Rightarrow> json" where
  "risk_payload ft tool =
    (let risk_labels = risk_labels_for_tool_definition ft tool
     in [(''risk_labels'', VList (map VStr risk_labels)),
         (''local_privileged_execution'', VBool (''local_privileged_execution'' \<in> set risk_labels))])"

section \<open>The approval of a call\<close>

definition tool_approval :: "engine_env \<Rightarrow> string \<Rightarrow> string \<Rightarrow> json \<Rightarrow> json \<Rightarrow> string \<Rightarrow> json \<Rightarrow> ApprovalDecision act" where
  "tool_approval en execution_id tool_id arguments redacted_arguments event_id approval_metadata w =
    andthen (request_approval (en_digest en) (en_delegate en) execution_id tool_id arguments (Some redacted_arguments)
        (Some event_id) approval_metadata w) (\<lambda>answer w1.
      case answer of
        Decided decision \<Rightarrow> (Inr decision, w1)
      | AwaitFuture \<Rightarrow>
          andthen (en_await en execution_id tool_id w1) (\<lambda>decision w2.
            (Inr decision, resume_after_decision execution_id (approval_key execution_id tool_id) w2)))"

definition skipped_result :: "ApprovalDecision \<Rightarrow> json" where
  "skipped_result decision =
    [(''skipped'', VBool True),
     (''reason'', VStr (case or_str (d_reason decision) None of Some r \<Rightarrow> r | None \<Rightarrow> ''Approval rejected''))]"

text \<open>\<open>Some\<close> result ends the call, \<open>None\<close> lets it go on.\<close>

definition after_decision :: "string \<Rightarrow> ToolDefinition \<Rightarrow> json \<Rightarrow> json \<Rightarrow> string \<Rightarrow> ApprovalDecision \<Rightarrow> json option act" where
  "after_decision i tool binding risk call_id decision w =
    (let verdict = [(''reason'', opt_str (d_reason decision)), (''decision_metadata'', VDict (d_metadata decision))]
     in if d_granted decision then
          (Inr None, tool_note i APPROVAL_GRANTED (call_fields tool verdict binding) [] None w)
        else
          let w1 = tool_note i APPROVAL_REJECTED (call_fields tool verdict []) [] None w
          in if ts_approval_on_rejection (tl_security tool) = ''skip'' then
               (Inr (Some (skipped_result decision)),
                tool_note i TOOL_CALL_COMPLETED
                  (call_fields tool [(''output'', VDict (skipped_result decision)), (''skipped'', VBool True)] (dmerge binding risk))
                  [(''tool_success'', VBool True), (''latency_ms'', VFloat (Fin 0))] (Some call_id) w1)
             else
               let message = ''Approval rejected'' @ (case or_str (d_reason decision) None of
                     Some r \<Rightarrow> '': '' @ r | None \<Rightarrow> '' for tool '' @ quote (tl_id tool))
               in (Inl (ApprovalRequiredError message),
                   tool_note i TOOL_CALL_FAILED (call_fields tool [(''error'', VStr message)] (dmerge binding risk))
                     [(''tool_success'', VBool False), (''latency_ms'', VFloat (Fin 0))] (Some call_id) w1))"

definition ask_approval ::
  "engine_env \<Rightarrow> string \<Rightarrow> ToolDefinition \<Rightarrow> json \<Rightarrow> json \<Rightarrow> json \<Rightarrow> string \<Rightarrow> json option act" where
  "ask_approval en i tool arguments binding risk call_id w =
    (let redacted_arguments = redact_for tool arguments; tool_type = VStr (tool_type_value (tl_tool_type tool));
         approval_metadata = dmerge (dmerge
           [(''tool_id'', VStr (tl_id tool)), (''tool_name'', VStr (tl_name tool)), (''tool_type'', tool_type),
            (''agent_id'', opt_str (st_current_agent_id (run_state i w))),
            (''task_id'', opt_str (st_current_task_id (run_state i w)))] binding) risk;
         (approval_event, w1) = tool_emit i APPROVAL_REQUESTED
           (call_fields tool [(''arguments'', VDict redacted_arguments), (''tool_type'', tool_type)] (dmerge binding risk)) [] None w
     in andthen (tool_approval en i (tl_id tool) arguments redacted_arguments (ev_id approval_event)
            (dset ''approval_event_id'' (VStr (ev_id approval_event)) approval_metadata) w1)
          (after_decision i tool binding risk call_id))"

section \<open>The call\<close>

text \<open>The executor of approval tools asks the manager itself.\<close>

definition human_approval_execute :: "engine_env \<Rightarrow> ToolDefinition \<Rightarrow> json \<Rightarrow> tool_context \<Rightarrow> json act" where
  "human_approval_execute en tool arguments context w =
    andthen (request_approval (en_digest en) (en_delegate en) (tc_execution_id context) (tl_id tool) arguments None None [] w)
      (\<lambda>answer w1. andthen
        (case answer of
           Decided decision \<Rightarrow> (Inr decision, w1)
         | AwaitFuture \<Rightarrow>
             andthen (en_await en (tc_execution_id context) (tl_id tool) w1) (\<lambda>decision w2.
               (Inr decision, resume_after_decision (tc_execution_id context) (approval_key (tc_execution_id context) (tl_id tool)) w2)))
        (\<lambda>decision w3. (Inr [(''approved'', VBool (d_granted decision)), (''reason'', opt_str (d_reason decision)),
           (''metadata'', VDict (d_metadata decision))], w3)))"

definition registry_execute :: "engine_env \<Rightarrow> tool_env \<Rightarrow> ToolDefinition \<Rightarrow> json \<Rightarrow> tool_context \<Rightarrow> json act" where
  "registry_execute en tx tool arguments context w =
    (let arguments1 = normalize_tool_arguments tool arguments
     in case tx_validate tx (tl_input_schema tool) arguments1 of
          Some e \<Rightarrow> (Inl e, w)
        | None \<Rightarrow>
            if tl_tool_type tool = HUMAN_APPROVAL then human_approval_execute en tool arguments1 context w
            else tx_executor tx (tl_tool_type tool) tool arguments1 context w)"

text \<open>What a result says of an artifact; the artifact's fields must be strings.\<close>

definition text_field :: "json \<Rightarrow> string \<Rightarrow> string option \<Rightarrow> exc + string option" where
  "text_field d k missing_value =
    (case map_of d k of
       None \<Rightarrow> Inr missing_value
     | Some (VStr s) \<Rightarrow> Inr (Some s)
     | Some _ \<Rightarrow> Inl (ValidationError ''Input should be a valid string''))"

definition result_artifact :: "string \<Rightarrow> ToolDefinition \<Rightarrow> json \<Rightarrow> unit act" where
  "result_artifact i tool result w =
    (if \<not> truthy (jget result ''artifact_uri'') then (Inr (), w)
     else
       let text = (\<lambda>f. case f of Some s \<Rightarrow> s | None \<Rightarrow> []);
           artifact_fields = sbind (text_field result ''artifact_name'' (Some (tl_name tool))) (\<lambda>name.
             sbind (text_field result ''artifact_type'' (Some ''generic'')) (\<lambda>artifact_type.
             sbind (text_field result ''artifact_uri'' None) (\<lambda>uri.
             sbind (if jget result ''artifact_media_type'' = VNone then Inr None else text_field result ''artifact_media_type'' None)
               (\<lambda>media_type. Inr (text name, text artifact_type, text uri, media_type)))))
       in case artifact_fields of
            Inl e \<Rightarrow> (Inl e, w)
          | Inr (name, artifact_type, uri, media_type) \<Rightarrow>
              let (artifact, state', w1) = record_artifact (run_state i w) name artifact_type uri media_type None
                    [(''tool_id'', VStr (tl_id tool))] w
              in (Inr (), w1\<lparr>states := dset i state' (states w1)\<rparr>))"

definition call_tool ::
  "engine_env \<Rightarrow> tool_env \<Rightarrow> string \<Rightarrow> ToolDefinition \<Rightarrow> json \<Rightarrow> json option \<Rightarrow> json \<Rightarrow> string \<Rightarrow> json act" where
  "call_tool en tx i tool arguments connector_binding extra call_id w =
    (let st = run_state i w; redacted_arguments = redact_for tool arguments;
         audit = [(''tool_type'', VStr (tool_type_value (tl_tool_type tool))), (''audit'', VBool True)];
         w1 = tool_note i TOOL_CALL_STARTED
           (call_fields tool ((''arguments'', VDict redacted_arguments) # audit) extra) [] (Some call_id) w;
         (invocation_id, w2) = uuid4 w1;
         metrics = (\<lambda>success v. [(''latency_ms'', VFloat (Fin (tx_elapsed_ms tx w v))), (''tool_success'', VBool success)]);
         (outcome, w3) = andthen (registry_execute en tx tool arguments
             \<lparr>tc_execution_id = i, tc_workflow_id = st_workflow_id st, tc_task_id = st_current_task_id st,
              tc_agent_id = st_current_agent_id st, tc_tool_call_id = call_id, tc_connector_binding = connector_binding\<rparr> w2)
           (\<lambda>result v.
             let v1 = tool_note i TOOL_CALL_COMPLETED
                   (call_fields tool ((''output'', VDict (redact_for tool result)) # audit) extra)
                   (metrics True v) (Some call_id) v
             in andthen (result_artifact i tool result v1) (\<lambda>_ v2. (Inr result, v2)))
     in case outcome of
          Inr result \<Rightarrow> (Inr result, w3)
        | Inl e \<Rightarrow>
            if exc_name e = ''CancelledError'' then (Inl e, w3)
            else
              (Inl (if exc_name e = ''ToolExecutionError'' then e else tool_error (exc_str e)),
               tool_note i TOOL_CALL_FAILED (call_fields tool ((''error'', VStr (exc_str e)) # audit) extra)
                 (metrics False w3) (Some call_id) w3))"

definition execute_tool ::
  "engine_env \<Rightarrow> tool_env \<Rightarrow> ToolDefinition dict dict \<Rightarrow> ToolDefinition list \<Rightarrow> WorkflowDefinition \<Rightarrow> string \<Rightarrow>
   string \<Rightarrow> string option \<Rightarrow> json \<Rightarrow> json act" where
  "execute_tool en tx catalog tool_definitions workflow i tool_id tool_name arguments0 w =
    (case resolve_tool tx catalog (wd_id workflow) tool_definitions tool_id tool_name of
       Inl e \<Rightarrow> (Inl e, w)
     | Inr tool \<Rightarrow>
         let ft = jc_float (en_codec en); arguments = normalize_tool_arguments tool arguments0;
             schema = (if tl_input_schema tool = [] then [(''type'', VStr ''object'')] else tl_input_schema tool)
         in case tx_validate tx schema arguments of
              Some e \<Rightarrow> (Inl e, w)
            | None \<Rightarrow>
                (case resolve_connector_binding ft workflow tool arguments of
                   Inl e \<Rightarrow> (Inl e, w)
                 | Inr connector_binding \<Rightarrow>
                     (case check_security tool of
                        Some e \<Rightarrow> (Inl e, w)
                      | None \<Rightarrow>
                          let binding = binding_payload tool connector_binding; risk = risk_payload ft tool
                          in andthen
                               (if ts_requires_approval (tl_security tool)
                                then ask_approval en i tool arguments binding risk tool_id w
                                else (Inr None, w))
                               (\<lambda>ended w1.
                                 case ended of
                                   Some result \<Rightarrow> (Inr result, w1)
                                 | None \<Rightarrow> call_tool en tx i tool arguments connector_binding (dmerge binding risk) tool_id w1))))"

end
