(* ===== verification/Tool_Safety.thy ===== *)
theory Tool_Safety
  imports Tool_Executor
begin

text \<open>
  What the executor of tool calls guarantees: validated definitions pass its security check, an unapproved
  call runs nothing, credentials come from a binding in scope, redacted fields stay hidden; and where a
  call can mean another tool than the built-in one, or a suspended call ends as a failed one.
\<close>

section \<open>Validated definitions\<close>

lemma sandbox_required:
  "has_privileged_capabilities (require_sandbox_for_privileged_capabilities s) \<longrightarrow>
     ts_sandbox_required (require_sandbox_for_privileged_capabilities s)"
  "require_sandbox_for_privileged_capabilities (require_sandbox_for_privileged_capabilities s) =
     require_sandbox_for_privileged_capabilities s"
  by (auto simp: require_sandbox_for_privileged_capabilities_def has_privileged_capabilities_def)

lemma alnum_words_nonempty: "w \<in> set (alnum_words acc s) \<Longrightarrow> w \<noteq> []"
  by (induction acc s rule: alnum_words.induct) (auto split: if_splits)

lemma join_nonempty: "s \<noteq> [] \<Longrightarrow> join sep (s # ss) \<noteq> []"
  by (cases ss) auto

lemma default_name_nonempty: "default_tool_display_name v \<noteq> []"
proof (cases "split_name_words v")
  case (Cons part parts)
  then have "part \<in> set (split_name_words v)" by simp
  then have "part \<noteq> []" unfolding split_name_words_def by (rule alnum_words_nonempty)
  then have "format_display_word part \<noteq> []" by (simp add: format_display_word_def upper_def capital_def)
  then show ?thesis by (simp add: default_tool_display_name_def Cons join_nonempty)
qed (simp add: default_tool_display_name_def)

lemma named: "s \<noteq> [] \<Longrightarrow> or_str (Some s) None = Some s"
  by (cases s) (simp_all add: or_str_def)

lemma validated_cases:
  assumes "validated_tool tool = Inr t"
  shows "tl_input_schema t \<noteq> []" and "or_str (tl_display_name t) None \<noteq> None"
    and "tl_security t = require_sandbox_for_privileged_capabilities (tl_security tool)"
    and "tl_tool_type t = SHELL_COMMAND \<longrightarrow> ts_allow_shell (tl_security t) \<and> ts_requires_approval (tl_security t) \<and>
      ts_sandbox_required (tl_security t)"
    and "\<forall>ty. map_of implementation_map (ti_implementation_type (tl_implementation t)) = Some ty \<longrightarrow> tl_tool_type t = ty"
  using assms named [OF default_name_nonempty]
  by (auto simp: validated_tool_def ensure_tool_is_safe_and_typed_def Let_def split: if_splits option.splits)

lemma validated_again:
  assumes "tl_input_schema t \<noteq> []" and "or_str (tl_display_name t) None \<noteq> None"
    and "require_sandbox_for_privileged_capabilities (tl_security t) = tl_security t"
    and "tl_tool_type t = SHELL_COMMAND \<longrightarrow> ts_allow_shell (tl_security t) \<and> ts_requires_approval (tl_security t) \<and>
      ts_sandbox_required (tl_security t)"
    and "\<forall>ty. map_of implementation_map (ti_implementation_type (tl_implementation t)) = Some ty \<longrightarrow> tl_tool_type t = ty"
  shows "validated_tool t = Inr t"
proof -
  have t: "t\<lparr>tl_security := tl_security t\<rparr> = t" "t\<lparr>tl_tool_type := tl_tool_type t\<rparr> = t" by simp_all
  have "(case map_of implementation_map (ti_implementation_type (tl_implementation t)) of
      None \<Rightarrow> t | Some ty \<Rightarrow> t\<lparr>tl_tool_type := ty\<rparr>) = t"
    using assms(5) t(2) by (auto split: option.split)
  then show ?thesis using assms(1,2,4)
    by (auto simp: validated_tool_def ensure_tool_is_safe_and_typed_def assms(3) t(1) Let_def)
qed

text \<open>
  C26: A validated tool definition is well formed for execution: it passes the executor's security check,
  whatever privileges it asks for; it has an input schema and a name to show; a shell tool is allowed one,
  runs in a sandbox and asks for approval; and validating it again changes nothing.
\<close>

theorem validated_tool_is_safe:
  assumes "validated_tool tool = Inr t"
  shows "check_security t = None \<and> tl_input_schema t \<noteq> [] \<and> or_str (tl_display_name t) None \<noteq> None \<and>
    (tl_tool_type t = SHELL_COMMAND \<longrightarrow> ts_allow_shell (tl_security t) \<and> ts_requires_approval (tl_security t) \<and>
      ts_sandbox_required (tl_security t)) \<and>
    validated_tool t = Inr t"
proof -
  note v = validated_cases [OF assms]
  have "check_security t = None" using sandbox_required(1) by (simp add: check_security_def v(3))
  moreover have "validated_tool t = Inr t"
    by (rule validated_again [OF v(1,2) _ v(4,5)]) (simp add: v(3) sandbox_required(2))
  ultimately show ?thesis using v(1,2,4) by blast
qed

definition plain_security :: SecuritySettings where
  "plain_security = \<lparr>ts_requires_approval = False, ts_sandbox_required = False, ts_allow_shell = False,
     ts_allow_browser = False, ts_allow_filesystem = False, ts_allow_network = False, ts_allowlisted_mcp_servers = [],
     ts_read_only = False, ts_dangerous = False, ts_approval_on_rejection = ''fail'', ts_credential_references = [],
     ts_connector_bindings = [], ts_redaction_enabled = False, ts_redaction_rules = []\<rparr>"

definition plain_tool :: ToolDefinition where
  "plain_tool = \<lparr>tl_id = ''t1'', tl_name = ''RunCommand'', tl_display_name = None, tl_tool_type = PYTHON_FUNCTION,
     tl_input_schema = [(''type'', VStr ''object'')],
     tl_implementation = \<lparr>ti_implementation_type = ''python'', ti_entrypoint = None, ti_callable_name = None, ti_config = []\<rparr>,
     tl_security = plain_security, tl_tags = [], tl_hint_metadata = []\<rparr>"

definition shell_tool :: ToolDefinition where
  "shell_tool = plain_tool\<lparr>tl_id := ''agency.command.run'', tl_implementation := (tl_implementation plain_tool)\<lparr>ti_implementation_type := ''shell''\<rparr>,
     tl_security := plain_security\<lparr>ts_allow_shell := True, ts_requires_approval := True\<rparr>\<rparr>"

theorem validated_tool_is_safe_witness:
  "\<exists>t. validated_tool shell_tool = Inr t \<and> ts_sandbox_required (tl_security t) \<and> check_security t = None"
proof -
  obtain t where t: "validated_tool shell_tool = Inr t"
    by (simp add: validated_tool_def ensure_tool_is_safe_and_typed_def shell_tool_def plain_tool_def plain_security_def
        require_sandbox_for_privileged_capabilities_def has_privileged_capabilities_def implementation_map_def Let_def)
  have "tl_tool_type t = SHELL_COMMAND"
    using t by (auto simp: validated_tool_def ensure_tool_is_safe_and_typed_def shell_tool_def plain_tool_def
        plain_security_def require_sandbox_for_privileged_capabilities_def has_privileged_capabilities_def
        implementation_map_def Let_def)
  then show ?thesis using validated_tool_is_safe [OF t] t by blast
qed

section \<open>Which tool is called\<close>

lemma first_match_found:
  assumes "first_match i n seen tools = Some t"
  shows "t \<in> set tools" and "tl_id t = i \<or> tool_matches_call_name t n"
  using assms by (induction tools arbitrary: seen) (auto split: if_splits)

lemma catalog_tools_in: "t \<in> set (available_tools tx catalog wid tools) \<Longrightarrow>
    t \<in> set (tx_builtins tx) \<or> tl_id t \<notin> tl_id ` set (tx_builtins tx) \<and> t \<in> set tools \<union> set (catalog_tools catalog wid)"
  by (auto simp: available_tools_def Let_def)

lemma resolved_tool:
  assumes "resolve_tool tx catalog wid tools i n = Inr t"
  shows "t \<in> set (available_tools tx catalog wid tools)" and "tl_id t = i \<or> tool_matches_call_name t n"
  using assms first_match_found by (auto simp: resolve_tool_def split: option.splits)

text \<open>
  Persisted copies do not replace built-in tools: whatever definitions a workflow and the catalog bring,
  a call that resolves to the id of a built-in tool gets the agency's own definition; and a call never
  resolves to a tool that neither its id nor one of its names asks for.
\<close>

theorem builtin_ids_are_not_shadowed:
  assumes "resolve_tool tx catalog wid tools i n = Inr t"
  shows "(tl_id t \<in> tl_id ` set (tx_builtins tx) \<longrightarrow> t \<in> set (tx_builtins tx)) \<and>
    (tl_id t = i \<or> tool_matches_call_name t n) \<and>
    (t \<notin> set (tx_builtins tx) \<longrightarrow> t \<in> set tools \<union> set (catalog_tools catalog wid))"
  using resolved_tool [OF assms] catalog_tools_in by blast

definition sample_tools :: tool_env where
  "sample_tools = \<lparr>tx_builtins = [shell_tool], tx_validate = (\<lambda>s a. None),
     tx_executor = (\<lambda>ty t a c w. (Inr [(''ran'', VStr (tl_id t))], w)), tx_elapsed_ms = (\<lambda>w v. 0)\<rparr>"

theorem builtin_ids_are_not_shadowed_witness:
  "resolve_tool sample_tools [] ''wf'' [shell_tool\<lparr>tl_security := plain_security\<rparr>] ''agency.command.run'' None = Inr shell_tool \<and>
   shell_tool \<in> set (tx_builtins sample_tools)"
proof -
  have r: "resolve_tool sample_tools [] ''wf'' [shell_tool\<lparr>tl_security := plain_security\<rparr>] ''agency.command.run'' None = Inr shell_tool"
    by (simp add: resolve_tool_def available_tools_def sample_tools_def catalog_tools_def dvalues_def shell_tool_def Let_def)
  then show ?thesis using builtin_ids_are_not_shadowed [OF r] by (auto simp: sample_tools_def)
qed

text \<open>
  A call by name can be taken over. Tools are matched in one pass over the list, by id or by name, and
  the workflow's own definitions come first; so a definition with a new id that shows a name of a built-in
  tool gets the calls meant for it, even those that give the id of the built-in tool, and with them the
  approval and the sandbox of the built-in definition are gone.
\<close>

theorem builtin_names_are_taken_over:
  assumes "tl_id t \<notin> tl_id ` set (tx_builtins tx)" and "tool_matches_call_name t (Some n)"
  shows "resolve_tool tx catalog wid (t # tools) i (Some n) = Inr t"
  using assms by (simp add: resolve_tool_def available_tools_def Let_def)

theorem builtin_names_are_taken_over_witness:
  "resolve_tool sample_tools [] ''wf'' [plain_tool] ''agency.command.run'' (Some ''RunCommand'') = Inr plain_tool \<and>
   resolve_tool sample_tools [] ''wf'' [] ''agency.command.run'' (Some ''RunCommand'') = Inr shell_tool \<and>
   ts_requires_approval (tl_security shell_tool) \<and> \<not> ts_requires_approval (tl_security plain_tool)"
  using builtin_names_are_taken_over [of plain_tool sample_tools "''RunCommand''" "[]" "''wf''" "[]" "''agency.command.run''"]
  by (simp add: sample_tools_def shell_tool_def plain_tool_def plain_security_def tool_matches_call_name_def or_str_def
      call_names_def strip_def is_space_def resolve_tool_def available_tools_def catalog_tools_def dvalues_def Let_def)

section \<open>Redaction\<close>

fun hides :: "string list \<Rightarrow> pyval \<Rightarrow> bool" where
  "hides rules (VDict d) =
    list_all (\<lambda>(k, v). if matches_rule rules (lower k) then v = VStr ''[REDACTED]'' else hides rules v) d"
| "hides rules (VList xs) = list_all (hides rules) xs"
| "hides rules v = True"

lemma redacted_hides: "hides rules (redacted rules key v)"
proof (induction rules key v rule: redacted.induct)
  case (1 rules key d)
  then show ?case by (fastforce simp: list_all_iff)
next
  case (2 rules key xs)
  then show ?case by (simp add: list_all_iff)
qed (simp_all split: option.split)

lemma redacted_again: "redacted rules key (redacted rules key v) = redacted rules key v"
  by (induction rules key v rule: redacted.induct) (auto split: option.split)

lemma redacted_dict: "\<exists>d'. redacted rules key (VDict d) = VDict d' \<and> dkeys d' = dkeys d"
  by (simp add: dkeys_def case_prod_unfold comp_def)

text \<open>
  C27: What a redacting tool writes is clean: in the arguments and results its events, its approval request
  and its audit records carry, at every depth, a value under a key that contains one of the tool's rules, in
  whatever case, is the placeholder; the keys stay; and redacting twice is redacting once.
\<close>

theorem redaction_hides_rule_keys:
  assumes "ts_redaction_enabled (tl_security tool)"
  shows "hides (map lower (ts_redaction_rules (tl_security tool))) (VDict (redact_for tool d)) \<and>
    dkeys (redact_for tool d) = dkeys d \<and> redact_for tool (redact_for tool d) = redact_for tool d"
proof -
  let ?rules = "map lower (ts_redaction_rules (tl_security tool))"
  obtain d' where d': "redacted ?rules None (VDict d) = VDict d'" "dkeys d' = dkeys d"
    using redacted_dict by blast
  have r: "redact_for tool d = d'" using assms d'(1) by (simp add: redact_for_def dict_or_empty_def del: redacted.simps)
  have "redact_for tool d' = d'"
    using assms redacted_again [of ?rules None "VDict d"] by (simp add: redact_for_def dict_or_empty_def d'(1) del: redacted.simps)
  then show ?thesis using redacted_hides [of ?rules None "VDict d"] by (simp add: r d' del: redacted.simps hides.simps)
qed

definition redacting_tool :: ToolDefinition where
  "redacting_tool = plain_tool\<lparr>tl_security := plain_security\<lparr>ts_redaction_enabled := True, ts_redaction_rules := [''Token'']\<rparr>\<rparr>"

lemma matches_token: "matches_rule [''token''] ''access_token''" "\<not> matches_rule [''token''] ''headers''" "\<not> matches_rule [''token''] ''user''"
  by (simp_all add: matches_rule_def startswith_def)

theorem redaction_hides_rule_keys_witness:
  "redact_for redacting_tool [(''headers'', VDict [(''access_token'', VInt 7), (''user'', VStr ''ada'')])] =
     [(''headers'', VDict [(''access_token'', VStr ''[REDACTED]''), (''user'', VStr ''ada'')])]"
proof -
  have "ts_redaction_enabled (tl_security redacting_tool)" by (simp add: redacting_tool_def plain_tool_def)
  note h = redaction_hides_rule_keys [OF this, of "[(''headers'', VDict [(''access_token'', VInt 7), (''user'', VStr ''ada'')])]"]
  have l: "map lower (ts_redaction_rules (tl_security redacting_tool)) = [''token'']"
    "lower ''access_token'' = ''access_token''" "lower ''headers'' = ''headers''" "lower ''user'' = ''user''"
    by code_simp+
  show ?thesis using h
    by (simp add: redact_for_def redacting_tool_def plain_tool_def plain_security_def l [unfolded redacting_tool_def plain_tool_def plain_security_def, simplified]
        matches_token dict_or_empty_def or_str_def)
qed

section \<open>Bindings\<close>

text \<open>
  C28: Credentials never come from outside: the binding of a call is one the tool or the workflow declares,
  and of the provider the call is scoped to; a call that names a credential gets that one or fails, and a
  call that names none gets a binding only when a single one is in scope.
\<close>

theorem binding_is_declared:
  assumes "resolve_connector_binding ft workflow tool arguments = Inr (Some b)"
  shows "b \<in> set (tool_connector_bindings ft tool) \<union> set (workflow_connector_bindings ft workflow) \<and>
    (\<forall>p. connector_provider_hint tool arguments = Some p \<longrightarrow> lower (strip (text_at ft b ''provider'')) = lower p) \<and>
    (case nonblank (py_or (jget arguments ''credential_id'') (jget arguments ''connector_credential_id'')) of
       Some c \<Rightarrow> strip (text_at ft b ''credential_id'') = c
     | None \<Rightarrow> bindings_in_scope ft workflow tool arguments = [b])"
proof -
  let ?bs = "bindings_in_scope ft workflow tool arguments"
  let ?c = "nonblank (py_or (jget arguments ''credential_id'') (jget arguments ''connector_credential_id''))"
  have b: "b \<in> set ?bs" "case ?c of Some c \<Rightarrow> strip (text_at ft b ''credential_id'') = c | None \<Rightarrow> ?bs = [b]"
  proof (atomize (full), cases ?c)
    case None
    then show "b \<in> set ?bs \<and> (case ?c of Some c \<Rightarrow> strip (text_at ft b ''credential_id'') = c | None \<Rightarrow> ?bs = [b])"
      using assms by (auto simp: resolve_connector_binding_def Let_def split: list.splits if_splits)
  next
    case (Some c)
    then obtain xs where "filter (\<lambda>b. strip (text_at ft b ''credential_id'') = c) ?bs = b # xs"
      using assms by (auto simp: resolve_connector_binding_def Let_def split: list.splits)
    then have "b \<in> set (filter (\<lambda>b. strip (text_at ft b ''credential_id'') = c) ?bs)" by (metis list.set_intros(1))
    then show "b \<in> set ?bs \<and> (case ?c of Some c \<Rightarrow> strip (text_at ft b ''credential_id'') = c | None \<Rightarrow> ?bs = [b])"
      by (simp add: Some)
  qed
  then show ?thesis by (auto simp: bindings_in_scope_def Let_def split: option.splits)
qed

theorem binding_is_declared_witness:
  "\<exists>b. resolve_connector_binding (\<lambda>r. []) diamond_workflow (plain_tool\<lparr>tl_security := plain_security\<lparr>ts_connector_bindings :=
       [[(''provider'', VStr ''slack''), (''credential_id'', VStr ''c1'')], [(''provider'', VStr ''slack''), (''credential_id'', VStr ''c2'')]]\<rparr>\<rparr>)
       [(''credential_id'', VStr ''c2'')] = Inr (Some b) \<and> strip (text_at (\<lambda>r. []) b ''credential_id'') = ''c2''"
proof -
  let ?t = "plain_tool\<lparr>tl_security := plain_security\<lparr>ts_connector_bindings :=
       [[(''provider'', VStr ''slack''), (''credential_id'', VStr ''c1'')], [(''provider'', VStr ''slack''), (''credential_id'', VStr ''c2'')]]\<rparr>\<rparr>"
  have b: "resolve_connector_binding (\<lambda>r. []) diamond_workflow ?t [(''credential_id'', VStr ''c2'')] =
      Inr (Some [(''provider'', VStr ''slack-app''), (''credential_id'', VStr ''c2'')])"
    by code_simp
  have "nonblank (py_or (jget [(''credential_id'', VStr ''c2'')] ''credential_id'') (jget [(''credential_id'', VStr ''c2'')] ''connector_credential_id'')) = Some ''c2''"
    by code_simp
  then show ?thesis using binding_is_declared [OF b] b by auto
qed

section \<open>The gate\<close>

text \<open>
  No decision grants the tool's calls: none in the store, none the delegate would make, none that is
  awaited.
\<close>

definition ungranted :: "engine_env \<Rightarrow> string \<Rightarrow> string \<Rightarrow> world \<Rightarrow> bool" where
  "ungranted en i tool_id w \<longleftrightarrow> keyed (db w) \<and>
    (\<forall>dg d. fst (consume_resolved_decision i tool_id dg w) = Some d \<longrightarrow> \<not> d_granted d) \<and>
    (\<forall>f p m v d v'. en_delegate en = Some f \<longrightarrow> f i tool_id p m v = (Inr (Some d), v') \<longrightarrow> \<not> d_granted d) \<and>
    (\<forall>v d v'. en_await en i tool_id v = (Inr d, v') \<longrightarrow> \<not> d_granted d)"

lemma consumed_same:
  assumes "executions_kept (db w) (db w')" and "approval_requests (db w') = approval_requests (db w)"
  shows "fst (consume_resolved_decision i t dg w') = fst (consume_resolved_decision i t dg w)"
proof (cases "get_execution i (db w)")
  case None
  then show ?thesis using executions_kept_None [OF assms(1), of i] by (simp add: consume_resolved_decision_def)
next
  case (Some e)
  obtain e' where e': "get_execution i (db w') = Some e'" "same_but_activity e e'"
    using executions_keptD [OF assms(1) Some] by blast
  have "jget (e_metadata e') ''pending_approval'' = jget (e_metadata e) ''pending_approval''"
    using same_but_activityD(11) [OF e'(2)] by simp
  moreover have "get_approval_request r (db w') = get_approval_request r (db w)" for r
    by (simp add: get_approval_request_def assms(2))
  ultimately show ?thesis by (simp add: consume_resolved_decision_def Some e'(1) Let_def split: option.split)
qed

lemma tool_emit_frame:
  "keyed (db w) \<Longrightarrow> executions_kept (db w) (db (snd (tool_emit i ty p m c w)))"
  "keyed (db w) \<Longrightarrow> keyed (db (snd (tool_emit i ty p m c w)))"
  "approval_requests (db (snd (tool_emit i ty p m c w))) = approval_requests (db w)"
  by (simp_all add: tool_emit_def Let_def case_prod_unfold emit_executions(2,3))

lemma ungranted_emit: "ungranted en i t w \<Longrightarrow> ungranted en i t (snd (tool_emit i ty p m c w))"
  using consumed_same [OF tool_emit_frame(1,3)] tool_emit_frame(2) by (simp add: ungranted_def)

lemma ungranted_request:
  assumes "ungranted en i t w" and "request_approval (en_digest en) (en_delegate en) i t p red ev md w = (Inr (Decided d), w')"
  shows "\<not> d_granted d"
proof -
  have delegated: "\<not> d_granted d'" if "fst (request_delegated_decision (en_delegate en) i t q m u) = Some d'" for q m u d'
    using that assms(1) unfolding ungranted_def
    by (auto simp: request_delegated_decision_def split: option.splits sum.splits prod.splits) blast
  have stored: "\<not> d_granted d'" if "consume_resolved_decision i t (en_digest en p) w = (Some d', v)" for d' v
    using that assms(1) unfolding ungranted_def by (metis fst_conv)
  obtain q v where c: "consume_resolved_decision i t (en_digest en p) w = (q, v)" by fastforce
  show ?thesis
  proof (cases q)
    case None
    from assms(2) show ?thesis
      unfolding request_approval_def c None prod.case option.case Let_def case_prod_unfold
      by (simp split: sum.splits option.splits if_splits prod.splits) (use delegated in \<open>auto simp: prod_eq_iff\<close>)
  qed (use assms(2) stored c in \<open>auto simp: request_approval_def\<close>)
qed

lemma ungranted_approval:
  assumes "ungranted en i t w" and "tool_approval en i t args red ev md w = (Inr d, w')"
  shows "\<not> d_granted d"
proof -
  have awaited: "\<not> d_granted d'" if "en_await en i t v = (Inr d', v')" for v d' v'
    using that assms(1) unfolding ungranted_def by blast
  obtain a v where r: "request_approval (en_digest en) (en_delegate en) i t args (Some red) (Some ev) md w = (Inr a, v)"
    using assms(2) by (cases "request_approval (en_digest en) (en_delegate en) i t args (Some red) (Some ev) md w" rule: prod.exhaust)
      (auto simp: tool_approval_def elim!: andthen.elims)
  show ?thesis
  proof (cases a)
    case (Decided d')
    then show ?thesis using assms(2) r ungranted_request [OF assms(1)] by (auto simp: tool_approval_def)
  next
    case AwaitFuture
    then have "andthen (en_await en i t v) (\<lambda>decision w2.
        (Inr decision, resume_after_decision i (approval_key i t) w2)) = (Inr d, w')"
      using assms(2) by (simp add: tool_approval_def r)
    then show ?thesis using awaited by (auto elim!: andthen.elims)
  qed
qed

lemma ungranted_ask:
  assumes "ungranted en i (tl_id tool) w" and "ask_approval en i tool args binding risk call_id w = (q, w')"
  shows "q \<noteq> Inr None" and "q = Inr (Some result) \<Longrightarrow> jget result ''skipped'' = VBool True"
proof -
  have no: "\<not> d_granted d" if "tool_approval en i (tl_id tool) args red ev md (snd (tool_emit i APPROVAL_REQUESTED p [] None w)) = (Inr d, v)"
    for red ev md p d v
    by (rule ungranted_approval [OF ungranted_emit [OF assms(1)] that])
  show "q \<noteq> Inr None" "q = Inr (Some result) \<Longrightarrow> jget result ''skipped'' = VBool True"
    using assms(2) no
    by (auto simp: ask_approval_def Let_def case_prod_unfold after_decision_def skipped_result_def jget_def
        elim!: andthen.elims split: if_splits)
qed

text \<open>
  C25: An unapproved call runs nothing. When the tool a call resolves to requires approval and no decision
  on it grants it, neither a stored one nor the delegate's nor an awaited one, then the outcome and the
  world are the same whatever the executors would have done; and the call returns only to say that it was
  skipped.
\<close>

theorem unapproved_tool_never_runs:
  assumes "resolve_tool tx catalog (wd_id workflow) tools tool_id tool_name = Inr tool"
    and "ts_requires_approval (tl_security tool)" and "ungranted en i (tl_id tool) w"
  shows "execute_tool en (tx\<lparr>tx_executor := f\<rparr>) catalog tools workflow i tool_id tool_name arguments w =
      execute_tool en tx catalog tools workflow i tool_id tool_name arguments w \<and>
    (\<forall>result. fst (execute_tool en tx catalog tools workflow i tool_id tool_name arguments w) = Inr result \<longrightarrow>
      jget result ''skipped'' = VBool True)"
proof -
  have r: "resolve_tool (tx\<lparr>tx_executor := f\<rparr>) catalog (wd_id workflow) tools tool_id tool_name = Inr tool"
    using assms(1) by (simp add: resolve_tool_def available_tools_def)
  let ?next = "\<lambda>g ended v. case ended of Some result \<Rightarrow> (Inr result, v) | None \<Rightarrow> g v"
  have gate: "andthen (ask_approval en i tool args b rk c w) (?next g) = andthen (ask_approval en i tool args b rk c w) (?next g') \<and>
      (\<forall>result. fst (andthen (ask_approval en i tool args b rk c w) (?next g)) = Inr result \<longrightarrow> jget result ''skipped'' = VBool True)"
    for args b rk c and g g' :: "json act"
  proof -
    obtain q v where q: "ask_approval en i tool args b rk c w = (q, v)" by fastforce
    show ?thesis using ungranted_ask [OF assms(3) q] by (cases q) (auto simp: q split: option.split)
  qed
  note same = gate [THEN conjunct1] and skipped = gate [THEN conjunct2, rule_format]
  show ?thesis using assms(2)
    by (auto simp: execute_tool_def r assms(1) Let_def split: option.split sum.split intro: same skipped)
qed

definition shell_workflow :: WorkflowDefinition where
  "shell_workflow = diamond_workflow"

theorem unapproved_tool_never_runs_witness:
  "execute_tool (sample_env (\<lambda>call x w. (Inr VNone, x, w))) (sample_tools\<lparr>tx_executor := \<lambda>ty t a c w. (Inl (RuntimeError ''ran''), w)\<rparr>)
     [] [] shell_workflow ''ex-1'' ''call-1'' (Some ''RunCommand'') [] running_world =
   execute_tool (sample_env (\<lambda>call x w. (Inr VNone, x, w))) sample_tools [] [] shell_workflow ''ex-1'' ''call-1'' (Some ''RunCommand'') [] running_world"
proof -
  have r: "resolve_tool sample_tools [] (wd_id shell_workflow) [] ''call-1'' (Some ''RunCommand'') = Inr shell_tool"
    by (simp add: sample_tools_def shell_tool_def plain_tool_def plain_security_def tool_matches_call_name_def or_str_def
      call_names_def strip_def is_space_def resolve_tool_def available_tools_def catalog_tools_def dvalues_def Let_def)
  have "ts_requires_approval (tl_security shell_tool)" by (simp add: shell_tool_def plain_security_def)
  moreover have "ungranted (sample_env (\<lambda>call x w. (Inr VNone, x, w))) ''ex-1'' (tl_id shell_tool) running_world"
    using running_world_ok(2,4)
    by (simp add: ungranted_def sample_env_def consume_resolved_decision_def sample_execution_def jget_def)
  ultimately show ?thesis using unapproved_tool_never_runs [OF r] by blast
qed

section \<open>Suspension inside a call\<close>

lemma tool_error_is_final [simp]: "\<not> is_paused_error (tool_error m)" "\<not> is_cancelled_error (tool_error m)"
  by (simp_all add: tool_error_def)

lemma tool_exception_name: "exc_name e = ''ToolExecutionError'' \<or> exc_name e = ''CancelledError'' \<Longrightarrow>
    \<not> is_paused_error e \<and> \<not> is_cancelled_error e"
  by (cases e) auto

text \<open>
  Once a call has started it cannot suspend: whatever its executor raises, also the error that says an
  approval is waited for durably, leaves the call as a tool failure, which the engine takes for the failure
  of the node; so a tool whose whole purpose is to ask a person fails its task as soon as it asks.
\<close>

theorem started_call_never_suspends:
  assumes "call_tool en tx i tool arguments binding extra call_id w = (Inl e, w')"
  shows "\<not> is_paused_error e \<and> \<not> is_cancelled_error e"
  using assms tool_exception_name
  by (auto simp: call_tool_def Let_def case_prod_unfold split: sum.splits if_splits)

text \<open>A tool that asks a person, in a world where the request becomes durable.\<close>

definition asking_tool :: ToolDefinition where
  "asking_tool = plain_tool\<lparr>tl_id := ''ask'', tl_tool_type := HUMAN_APPROVAL\<rparr>"

lemma clean_request_suspends:
  assumes "keyed (db v)" and "get_execution i (db v) = Some e" and "waits (db v) = []" "approval_requests (db v) = []"
    and "uuid_supply v (uuid_count v) \<noteq> []" "uuid_supply v (uuid_count v + 1) \<noteq> []" and "length t \<le> 246"
  shows "\<exists>m w'. request_approval dg None i t p red ev md v = (Inl (ExecutionApprovalSuspendedError m), w')"
proof -
  have "consume_resolved_decision i t (dg p) v = (None, v)"
    by (simp add: consume_resolved_decision_def assms(2,4) get_approval_request_def persisted_decision_def split: option.split)
  moreover have "ledger_inv (db v)" by (simp add: ledger_inv_def assms(3))
  moreover have "approvals_keyed (db v)" by (simp add: approvals_keyed_def assms(4))
  moreover have "can_request i t v"
    using assms(5-7) by (simp add: can_request_def assms(3,4) get_execution_wait_def key_unused_def list_execution_waits_def
        tool_requests_def dvalues_def Let_def)
  ultimately show ?thesis using request_approval_opens [of i t dg p v e red ev md] assms(1,2) by blast
qed

lemma suspended_call:
  assumes "\<And>ctx p. tc_execution_id ctx = i \<Longrightarrow> \<exists>m w'. registry_execute en tx tool args ctx
      (snd (uuid4 (tool_note i TOOL_CALL_STARTED p [] (Some call_id) w))) = (Inl (ExecutionApprovalSuspendedError m), w')"
  shows "\<exists>m w'. call_tool en tx i tool args b extra call_id w = (Inl (tool_error m), w')"
proof -
  let ?ctx = "\<lparr>tc_execution_id = i, tc_workflow_id = st_workflow_id (run_state i w), tc_task_id = st_current_task_id (run_state i w),
     tc_agent_id = st_current_agent_id (run_state i w), tc_tool_call_id = call_id, tc_connector_binding = b\<rparr>"
  let ?p = "call_fields tool ((''arguments'', VDict (redact_for tool args)) #
     [(''tool_type'', VStr (tool_type_value (tl_tool_type tool))), (''audit'', VBool True)]) extra"
  obtain m w' where "registry_execute en tx tool args ?ctx
      (snd (uuid4 (tool_note i TOOL_CALL_STARTED ?p [] (Some call_id) w))) = (Inl (ExecutionApprovalSuspendedError m), w')"
    using assms [of ?ctx ?p] by auto
  then show ?thesis by (intro exI [of _ m]) (simp add: call_tool_def Let_def case_prod_unfold)
qed

theorem started_call_never_suspends_witness:
  "\<exists>m w'. call_tool (sample_env (\<lambda>call x w. (Inr VNone, x, w))) sample_tools ''ex-1'' asking_tool [] None [] ''call-1'' running_world =
     (Inl (tool_error m), w') \<and> \<not> is_paused_error (tool_error m) \<and> is_paused_error (ExecutionApprovalSuspendedError m)"
proof -
  let ?en = "sample_env (\<lambda>call x w. (Inr VNone, x, w))" and ?c = "call_tool (sample_env (\<lambda>call x w. (Inr VNone, x, w))) sample_tools ''ex-1'' asking_tool [] None [] ''call-1'' running_world"
  define v where "v p = snd (uuid4 (tool_note ''ex-1'' TOOL_CALL_STARTED p [] (Some ''call-1'') running_world))" for p
  have k: "executions_kept (db running_world) (db (v p))" "keyed (db (v p))" "waits (db (v p)) = []" "approval_requests (db (v p)) = []"
    "uuid_supply (v p) n = ''u'' @ nat_str n" for p n
    using running_world_ok(2) tool_emit_frame [where w = running_world]
    by (simp_all add: v_def tool_note_def uuid4_def) (simp_all add: tool_emit_def Let_def case_prod_unfold running_world_def sample_world_def empty_store_def)
  obtain e where e: "\<And>p. \<exists>e. get_execution ''ex-1'' (db (v p)) = Some e"
    using executions_keptD [OF k(1) running_world_ok(4)] by blast
  have "\<exists>m w'. request_approval dg None ''ex-1'' ''ask'' q None None [] (v p) = (Inl (ExecutionApprovalSuspendedError m), w')" for dg p q
  proof -
    obtain e where "get_execution ''ex-1'' (db (v p)) = Some e" using e by blast
    then show ?thesis using k by (intro clean_request_suspends) simp_all
  qed
  then have r: "\<exists>m w'. registry_execute ?en sample_tools asking_tool [] ctx (v p) = (Inl (ExecutionApprovalSuspendedError m), w')"
    if "tc_execution_id ctx = ''ex-1''" for ctx p
    using that by (simp add: registry_execute_def sample_tools_def asking_tool_def human_approval_execute_def sample_env_def
        normalize_tool_arguments_def plain_tool_def jget_def Let_def) (metis andthen.simps(1))
  have "\<exists>m w'. ?c = (Inl (tool_error m), w')"
    by (rule suspended_call) (use r in \<open>simp add: v_def\<close>)
  then obtain m w' where c: "?c = (Inl (tool_error m), w')" by blast
  from started_call_never_suspends [OF c] c show ?thesis by auto
qed

end
