(* ===== verification/Retries.thy ===== *)
theory Retries
  imports Isolation Node_Loop
begin

text \<open>
  Running a failed execution again, \<open>retry_task\<close> and \<open>resume_from_checkpoint\<close> of
  \<open>app/services/executions.py\<close>: a new execution takes the place of the old one, starts at one task and
  takes over what the nodes before it have produced. Linking the new execution to its goal
  (\<open>GoalService.link_execution\<close>) is a parameter.
\<close>

section \<open>What there is to take over\<close>

text \<open>\<open>runtime_registry.get_execution_state\<close> for a native execution: its row, and the run state this process has.\<close>

definition execution_state :: "string \<Rightarrow> world \<Rightarrow> exc + NativeExecutionState option" where
  "execution_state execution_id w =
    (case get_execution execution_id (db w) of
       None \<Rightarrow> Inl (execution_not_found execution_id)
     | Some _ \<Rightarrow> Inr (map_of (states w) execution_id))"

definition source_node_outputs :: "Execution \<Rightarrow> NativeExecutionState option \<Rightarrow> json" where
  "source_node_outputs execution state =
    (case state of
       Some st \<Rightarrow> st_node_outputs st
     | None \<Rightarrow> (case e_output_payload execution of None \<Rightarrow> [] | Some p \<Rightarrow> dict_or_empty (jget p ''node_outputs'')))"

definition without_node :: "string \<Rightarrow> json \<Rightarrow> json" where
  "without_node excluded outputs = filter (\<lambda>(k, _). k \<noteq> excluded) outputs"

section \<open>The replacement\<close>

record service_env =
  se_deployment :: deployment
  se_link_execution :: "string \<Rightarrow> string \<Rightarrow> unit act"

text \<open>Both commands create, mark, link and queue the new execution in the same way.\<close>

definition replacement_for ::
  "service_env \<Rightarrow> Execution \<Rightarrow> json \<Rightarrow> string \<Rightarrow> json \<Rightarrow> Execution act" where
  "replacement_for se source trigger restart_reason extra_metadata w =
    andthen (create_execution (se_deployment se) (e_workflow_id source) (e_input_payload source) trigger (Some ''native'')
        (e_goal_id source) w) (\<lambda>created w1.
      let replacement = created\<lparr>e_replacement_of_execution_id := Some (e_id source), e_restart_reason := Some restart_reason,
            e_metadata := dmerge (e_metadata created) extra_metadata\<rparr>
      in andthen
           (case or_str (e_goal_id replacement) None of
              None \<Rightarrow> (Inr (), db_update_execution replacement w1)
            | Some goal \<Rightarrow> se_link_execution se goal (e_id replacement) (db_update_execution replacement w1))
           (\<lambda>_ w2. queue_start (e_id replacement) w2))"

definition retry_metadata :: "string \<Rightarrow> string \<Rightarrow> string \<Rightarrow> string option \<Rightarrow> json \<Rightarrow> json" where
  "retry_metadata source_id task_id retry_node reason prior =
    [(''source_execution_id'', VStr source_id), (''task_id'', VStr task_id), (''node_id'', VStr retry_node),
     (''reason'', opt_str reason), (''prior_node_outputs'', VDict prior)]"

definition created_by_of :: "string option \<Rightarrow> Execution \<Rightarrow> pyval" where
  "created_by_of actor source = opt_str (or_str actor (e_created_by source))"

section \<open>Retrying a task\<close>

definition failed_evidence :: "string \<Rightarrow> string \<Rightarrow> NativeExecutionState option \<Rightarrow> world \<Rightarrow> bool" where
  "failed_evidence execution_id task_id state w \<longleftrightarrow>
    list_ex (\<lambda>event. ev_task_id event = Some task_id \<and> ev_event_type event = AGENT_STEP_FAILED) (list_events execution_id (db w)) \<or>
    (case state of None \<Rightarrow> False | Some st \<Rightarrow> st_current_task_id st = Some task_id)"

definition retry_task :: "service_env \<Rightarrow> string \<Rightarrow> string \<Rightarrow> string option \<Rightarrow> string option \<Rightarrow> (string \<times> Execution) act" where
  "retry_task se execution_id task_id reason actor w =
    (case get_execution execution_id (db w) of
       None \<Rightarrow> (Inl (execution_not_found execution_id), w)
     | Some source \<Rightarrow>
         if e_runtime_adapter_id source \<noteq> ''native'' then
           (Inl (ValueError ''Task retry is currently supported only for native runtime executions.''), w)
         else if e_status source \<noteq> FAILED then
           (Inl (ValueError ''Task retry requires a failed source execution.''), w)
         else case p_get_workflow (dp_plane (se_deployment se)) (e_workflow_id source) of
           None \<Rightarrow> (Inl (missing (''Workflow '' @ quote (e_workflow_id source) @ '' was not found'')), w)
         | Some workflow \<Rightarrow>
             (case find (\<lambda>t. td_id t = task_id) (wd_task_definitions workflow) of
                None \<Rightarrow> (Inl (missing (''Task '' @ quote task_id @ '' was not found in workflow '' @ quote (wd_id workflow))), w)
              | Some task \<Rightarrow>
                  (case find (\<lambda>n. n_node_type n = ''task'' \<and> (n_task_id n = Some task_id \<or> n_id n = task_id)) (wd_nodes workflow) of
                     None \<Rightarrow> (Inl (missing (''Task '' @ quote task_id @ '' does not have a workflow graph node.'')), w)
                   | Some node \<Rightarrow>
                       (case execution_state execution_id w of
                          Inl e \<Rightarrow> (Inl e, w)
                        | Inr state \<Rightarrow>
                            if \<not> failed_evidence execution_id task_id state w then
                              (Inl (ValueError (''Task '' @ quote task_id @
                                 '' does not have failed runtime evidence on execution '' @ quote execution_id @ ''.'')), w)
                            else
                              let prior = without_node (n_id node) (source_node_outputs source state);
                                  trigger = dmerge (e_trigger_payload source)
                                    [(''type'', VStr ''task_retry''), (''source_execution_id'', VStr execution_id),
                                     (''task_id'', VStr task_id), (''node_id'', VStr (n_id node)), (''reason'', opt_str reason),
                                     (''created_by'', created_by_of actor source)];
                                  name = (if td_name task = [] then td_id task else td_name task);
                                  why = (case or_str reason None of Some r \<Rightarrow> r | None \<Rightarrow> ''Retry task '' @ quote name)
                              in andthen (replacement_for se source trigger why
                                     [(''task_retry'', VDict (retry_metadata execution_id task_id (n_id node) reason prior))] w)
                                   (\<lambda>queued w1. (Inr (n_id node, queued), w1))))))"

section \<open>Resuming from a checkpoint\<close>

definition completed_indices :: "WorkflowNodeDefinition list \<Rightarrow> string list \<Rightarrow> nat list" where
  "completed_indices nodes completed = filter (\<lambda>k. n_id (nodes ! k) \<in> set completed) [0..<length nodes]"

definition task_nodes :: "WorkflowDefinition \<Rightarrow> WorkflowNodeDefinition list" where
  "task_nodes workflow = filter (\<lambda>n. n_node_type n = ''task'') (order_nodes workflow)"

definition resume_from_checkpoint ::
  "service_env \<Rightarrow> string \<Rightarrow> string option \<Rightarrow> string option \<Rightarrow> (string \<times> Execution) act" where
  "resume_from_checkpoint se execution_id reason actor w =
    (case get_execution execution_id (db w) of
       None \<Rightarrow> (Inl (execution_not_found execution_id), w)
     | Some source \<Rightarrow>
         if e_runtime_adapter_id source \<noteq> ''native'' then
           (Inl (ValueError ''Checkpoint resume is currently supported only for native runtime executions.''), w)
         else if e_status source \<notin> {FAILED, PAUSED, ExecutionStatus.CANCELLED} then
           (Inl (ValueError ''Checkpoint resume requires a failed, paused, or cancelled source execution.''), w)
         else case p_get_workflow (dp_plane (se_deployment se)) (e_workflow_id source) of
           None \<Rightarrow> (Inl (missing (''Workflow '' @ quote (e_workflow_id source) @ '' was not found'')), w)
         | Some workflow \<Rightarrow>
             (case execution_state execution_id w of
                Inl e \<Rightarrow> (Inl e, w)
              | Inr state \<Rightarrow>
                  let outputs = source_node_outputs source state; nodes = task_nodes workflow;
                      completed = dkeys outputs; indices = completed_indices nodes completed;
                      resume_node = find (\<lambda>n. n_id n \<notin> set completed) (drop (last indices + 1) nodes)
                  in if outputs = [] then
                       (Inl (ValueError (''Execution '' @ quote execution_id @ '' has no completed node outputs to resume from.'')), w)
                     else if indices = [] then
                       (Inl (ValueError (''Execution '' @ quote execution_id @
                          '' has no workflow checkpoint that matches current graph nodes.'')), w)
                     else case Option.bind resume_node (\<lambda>n. map_option (Pair n) (or_str (n_task_id n) None)) of
                       None \<Rightarrow> (Inl (ValueError (''Execution '' @ quote execution_id @
                          '' has no remaining task after the latest checkpoint.'')), w)
                     | Some (node, task_id) \<Rightarrow>
                         (case find (\<lambda>t. td_id t = task_id) (wd_task_definitions workflow) of
                            None \<Rightarrow> (Inl (missing (''Task '' @ quote task_id @ '' was not found in workflow '' @ quote (wd_id workflow))), w)
                          | Some task \<Rightarrow>
                              let trigger = dmerge (e_trigger_payload source)
                                    [(''type'', VStr ''checkpoint_resume''), (''source_execution_id'', VStr execution_id),
                                     (''resume_node_id'', VStr (n_id node)), (''task_id'', VStr (td_id task)),
                                     (''reason'', opt_str reason), (''created_by'', created_by_of actor source)];
                                  name = (if td_name task = [] then td_id task else td_name task);
                                  why = (case or_str reason None of Some r \<Rightarrow> r
                                    | None \<Rightarrow> ''Resume from checkpoint before task '' @ quote name);
                                  checkpoint = [(''source_execution_id'', VStr execution_id),
                                    (''last_completed_node_id'', VStr (n_id (nodes ! last indices))),
                                    (''resume_node_id'', VStr (n_id node)), (''task_id'', VStr (td_id task)),
                                    (''reason'', opt_str reason), (''prior_node_outputs'', VDict outputs)]
                              in andthen (replacement_for se source trigger why
                                     [(''checkpoint_resume'', VDict checkpoint),
                                      (''task_retry'', VDict (retry_metadata execution_id (td_id task) (n_id node) reason outputs))] w)
                                   (\<lambda>queued w1. (Inr (n_id node, queued), w1)))))"

end
