(* ===== verification/Retry_Properties.thy ===== *)
theory Retry_Properties
  imports Retries Run_Completion Isolation_Properties
begin

text \<open>
  What the replacement of an execution starts from: after a checkpoint it goes on at the next node with
  everything there is; a retry forgets that other nodes had failed; and nothing is found to go on from when
  the run was made by another process.
\<close>

section \<open>The replacement that is queued\<close>

text \<open>Linking an execution to a goal does not change the executions.\<close>

definition links_only :: "service_env \<Rightarrow> bool" where
  "links_only se \<longleftrightarrow> (\<forall>g j v. executions (db (snd (se_link_execution se g j v))) = executions (db v))"

lemma dmerge_get: "jget (dmerge a b) k = (case map_of (rev b) k of None \<Rightarrow> jget a k | Some v \<Rightarrow> v)"
  by (induction b arbitrary: a) (auto simp: dmerge_def jget_def map_of_dset split: option.splits)

lemma replacement_effect:
  assumes "links_only se" and "replacement_for se source trigger why extra w = (Inr q, w')"
  shows "e_status q = QUEUED \<and> e_replacement_of_execution_id q = Some (e_id source) \<and>
    (\<exists>m. e_metadata q = dmerge m extra)"
proof -
  obtain created w1 where c: "create_execution (se_deployment se) (e_workflow_id source) (e_input_payload source) trigger
      (Some ''native'') (e_goal_id source) w = (Inr created, w1)"
    using assms(2) by (auto simp: replacement_for_def elim!: andthen.elims)
  define r where "r = created\<lparr>e_replacement_of_execution_id := Some (e_id source), e_restart_reason := Some why,
    e_metadata := dmerge (e_metadata created) extra\<rparr>"
  have "andthen (case or_str (e_goal_id r) None of None \<Rightarrow> (Inr (), db_update_execution r w1)
      | Some goal \<Rightarrow> se_link_execution se goal (e_id r) (db_update_execution r w1)) (\<lambda>_. queue_start (e_id r)) = (Inr q, w')"
    using assms(2) unfolding replacement_for_def c andthen.simps Let_def r_def [symmetric] .
  then obtain u w2 where u: "(case or_str (e_goal_id r) None of None \<Rightarrow> (Inr (), db_update_execution r w1)
      | Some goal \<Rightarrow> se_link_execution se goal (e_id r) (db_update_execution r w1)) = (Inr u, w2)"
    and q: "queue_start (e_id r) w2 = (Inr q, w')"
    by (rule andthen_InrE)
  have "executions (db w2) = executions (db (db_update_execution r w1))"
    using u assms(1) by (auto simp: links_only_def split: option.splits) (metis snd_conv)
  then have "get_execution (e_id r) (db w2) = Some (r\<lparr>e_updated_at := clock w1\<rparr>)"
    using db_update_get [of "e_id r" r w1] by (simp add: get_execution_def)
  then show ?thesis using q by (auto simp: queue_start_def r_def Let_def split: option.splits)
qed

text \<open>The progress a started replacement has before its first node.\<close>

definition starts_from :: "Execution \<Rightarrow> json \<Rightarrow> bool" where
  "starts_from q prior \<longleftrightarrow> (\<forall>en workflow x v. e_metadata x = e_metadata q \<longrightarrow>
     st_node_outputs (run_state (e_id x) (prepare_plan en workflow x v)) = prior \<and>
     st_node_errors (run_state (e_id x) (prepare_plan en workflow x v)) = st_node_errors (run_state (e_id x) v))"

lemma starts_from_retry:
  assumes "e_metadata q = dmerge m extra" and "map_of (rev extra) ''task_retry'' = Some (VDict (retry_metadata i t n reason prior))"
  shows "starts_from q prior"
proof -
  have "jget (e_metadata q) ''task_retry'' = VDict (retry_metadata i t n reason prior)"
    by (simp add: assms dmerge_get)
  then have "jget (task_retry_metadata (e_metadata q)) ''prior_node_outputs'' = VDict prior"
    by (simp add: task_retry_metadata_def dict_or_empty_def retry_metadata_def)
  then show ?thesis by (simp add: starts_from_def prepare_plan_def change_state_def Let_def)
qed

lemma retry_effect:
  assumes "links_only se" and "retry_task se i t reason actor w = (Inr (n, q), w')"
  obtains source where "get_execution i (db w) = Some source" "e_status source = FAILED" "e_status q = QUEUED"
    "starts_from q (without_node n (source_node_outputs source (map_of (states w) i)))"
proof -
  obtain source where s: "get_execution i (db w) = Some source" and f: "e_status source = FAILED"
    using assms(2) by (auto simp: retry_task_def split: option.splits if_splits)
  let ?prior = "without_node n (source_node_outputs source (map_of (states w) i))"
  obtain trigger why where r: "replacement_for se source trigger why
      [(''task_retry'', VDict (retry_metadata i t n reason ?prior))] w = (Inr q, w')"
    using assms(2) by (auto simp: retry_task_def s execution_state_def Let_def split: option.splits if_splits elim!: andthen.elims)
  from replacement_effect [OF assms(1) r] obtain m where "e_metadata q = dmerge m
      [(''task_retry'', VDict (retry_metadata i t n reason ?prior))]" "e_status q = QUEUED" by blast
  then show thesis by (intro that [OF s f]) (auto intro: starts_from_retry)
qed

lemma checkpoint_resume_effect:
  assumes "links_only se" and "resume_from_checkpoint se i reason actor w = (Inr (n, q), w')"
  obtains source workflow outputs node where "get_execution i (db w) = Some source"
    "p_get_workflow (dp_plane (se_deployment se)) (e_workflow_id source) = Some workflow"
    "outputs = source_node_outputs source (map_of (states w) i)" "outputs \<noteq> []"
    "completed_indices (task_nodes workflow) (dkeys outputs) \<noteq> []"
    "find (\<lambda>n. n_id n \<notin> set (dkeys outputs))
       (drop (last (completed_indices (task_nodes workflow) (dkeys outputs)) + 1) (task_nodes workflow)) = Some node"
    "n = n_id node" "e_status q = QUEUED" "starts_from q outputs"
proof -
  obtain source workflow where s: "get_execution i (db w) = Some source"
    and wl: "p_get_workflow (dp_plane (se_deployment se)) (e_workflow_id source) = Some workflow"
    using assms(2) by (auto simp: resume_from_checkpoint_def split: option.splits if_splits)
  define outputs where "outputs = source_node_outputs source (map_of (states w) i)"
  let ?ix = "completed_indices (task_nodes workflow) (dkeys outputs)"
  let ?rest = "drop (last ?ix + 1) (task_nodes workflow)"
  obtain node task_id trigger why checkpoint task where
    n: "outputs \<noteq> []" "?ix \<noteq> []" "find (\<lambda>n. n_id n \<notin> set (dkeys outputs)) ?rest = Some node" "n = n_id node"
    and r: "replacement_for se source trigger why [(''checkpoint_resume'', VDict checkpoint),
      (''task_retry'', VDict (retry_metadata i task_id (n_id node) reason outputs))] w = (Inr q, w')"
    using assms(2)
    by (auto simp: resume_from_checkpoint_def s wl execution_state_def outputs_def [symmetric] Let_def Option.bind_eq_Some_conv
        split: option.splits if_splits elim!: andthen.elims)
  from replacement_effect [OF assms(1) r] obtain m where "e_metadata q = dmerge m [(''checkpoint_resume'', VDict checkpoint),
      (''task_retry'', VDict (retry_metadata i task_id (n_id node) reason outputs))]" "e_status q = QUEUED" by blast
  then show thesis using n by (intro that [OF s wl outputs_def]) (auto intro!: starts_from_retry)
qed

section \<open>Going on after a checkpoint\<close>

lemma last_completed:
  assumes "completed_indices nodes completed \<noteq> []"
  defines "k \<equiv> last (completed_indices nodes completed)"
  shows "k < length nodes" and "n_id (nodes ! k) \<in> set completed"
    and "\<And>j. k < j \<Longrightarrow> j < length nodes \<Longrightarrow> n_id (nodes ! j) \<notin> set completed"
proof -
  let ?ix = "completed_indices nodes completed"
  have "k \<in> set ?ix" using assms(1) by (simp add: k_def)
  then show "k < length nodes" "n_id (nodes ! k) \<in> set completed" by (auto simp: completed_indices_def)
  have "sorted ?ix" unfolding completed_indices_def by (rule sorted_filter [where f = id, simplified]) simp
  then have "j \<le> k" if "j \<in> set ?ix" for j
    using that assms(1) by (auto simp: k_def last_conv_nth in_set_conv_nth sorted_iff_nth_mono)
  then show "n_id (nodes ! j) \<notin> set completed" if "k < j" "j < length nodes" for j
    using that by (fastforce simp: completed_indices_def)
qed



section \<open>Runs of another process\<close>

text \<open>
  What a worker has run cannot be resumed by the process that created it: creating an execution leaves
  it an empty run state there; the worker runs the execution in another process and stores its checkpoint in
  the row; but the empty state is preferred to the row, so \<open>resume_from_checkpoint\<close> finds no output to resume
  from, whatever the checkpoint holds.
\<close>

theorem resume_ignores_the_stored_checkpoint:
  assumes "create_execution d workflow_id input trigger (Some ''native'') goal w0 = (Inr x, w1)"
    and "map_of (states w0) (e_id x) = None" and "map_of (states w) (e_id x) = map_of (states w1) (e_id x)"
    and "get_execution (e_id x) (db w) = Some e" and "e_runtime_adapter_id e = ''native''"
    and "e_status e \<in> {FAILED, PAUSED, ExecutionStatus.CANCELLED}"
    and "p_get_workflow (dp_plane (se_deployment se)) (e_workflow_id e) = Some workflow"
  shows "resume_from_checkpoint se (e_id x) reason actor w =
    (Inl (ValueError (''Execution '' @ quote (e_id x) @ '' has no completed node outputs to resume from.'')), w)"
proof -
  have adapter: "resolve_adapter_for_workflow d wl (normalized_runtime_adapter_id (Some ''native'')) = Inr ''native''" for wl
    by (simp add: resolve_adapter_for_workflow_def normalized_runtime_adapter_id_def strip_def is_space_def)
  have fresh: "\<exists>st. map_of (states (snd (prepare_execution y v))) (e_id y) = Some st \<and> st_node_outputs st = []"
    if "map_of (states v) (e_id y) = None" for y v
    using that by (simp add: prepare_execution_def new_state_def engine_emit_def emit_payload_def uuid4_def Let_def case_prod_unfold
        emitted_progress map_of_dset)
  obtain y where y: "prepare_execution y (snd (uuid4 w0)) = (x, w1)" "e_id x = e_id y"
    using assms(1)
    by (auto simp: create_execution_def adapter new_execution_def sbind_def prepare_execution_def Let_def case_prod_unfold
        split: option.splits sum.splits if_splits)
  have "map_of (states (snd (uuid4 w0))) (e_id y) = None" using assms(2) y(2) by (simp add: uuid4_def)
  from fresh [OF this] obtain st where "map_of (states w) (e_id x) = Some st" "st_node_outputs st = []"
    using assms(3) y by auto
  then show ?thesis using assms(4-7)
    by (simp add: resume_from_checkpoint_def execution_state_def source_node_outputs_def Let_def)
qed

section \<open>Samples\<close>

definition retry_service :: service_env where
  "retry_service = \<lparr>se_deployment = sample_deployment\<lparr>
       dp_plane := sample_plane\<lparr>p_get_workflow := \<lambda>_. Some (diamond_workflow\<lparr>wd_task_definitions := [sample_task\<lparr>td_id := ''b''\<rparr>]\<rparr>)\<rparr>,
       dp_host := sample_host\<lparr>h_getenv := \<lambda>_. None\<rparr>\<rparr>,
     se_link_execution = \<lambda>_ _ w. (Inr (), w)\<rparr>"

definition failed_world :: world where
  "failed_world = sample_world\<lparr>db := (db sample_world)\<lparr>executions := [(''ex-1'', sample_execution\<lparr>e_status := FAILED,
     e_output_payload := Some [(''node_outputs'', VDict [(''a'', VStr ''ok'')])]\<rparr>)]\<rparr>\<rparr>"

definition unproven_state :: NativeExecutionState where
  "unproven_state = (run_state ''ex-1'' sample_world)\<lparr>st_node_outputs := [(''a'', VStr ''ok'')],
     st_node_errors := [(''a'', VStr ''no proof'')], st_current_task_id := Some ''b''\<rparr>"

lemma retry_service_links: "links_only retry_service"
  by (simp add: links_only_def retry_service_def)

text \<open>The node a command has queued a replacement for.\<close>

definition restarted_at :: "exc + string \<times> Execution \<Rightarrow> string" where
  "restarted_at r = (case r of Inl _ \<Rightarrow> [] | Inr (n, _) \<Rightarrow> n)"

lemma restarted_atE:
  assumes "restarted_at (fst r) = a # n"
  obtains q w' where "r = (Inr (a # n, q), w')"
  using assms by (cases r) (auto simp: restarted_at_def split: sum.splits)

lemma succeedsE:
  assumes "\<not> isl (fst r)"
  obtains x w where "r = (Inr x, w)"
  using assms by (cases r; cases "fst r") auto

lemma resumed_sample: "restarted_at (fst (resume_from_checkpoint retry_service ''ex-1'' None None failed_world)) = ''b''"
  by code_simp

lemma retried_sample:
  "restarted_at (fst (retry_task retry_service ''ex-1'' ''b'' None None (failed_world\<lparr>states := [(''ex-1'', unproven_state)]\<rparr>))) = ''b''"
  by code_simp

lemma created_sample:
  "\<not> isl (fst (create_execution (se_deployment retry_service) ''wf-1'' [] [] (Some ''native'') None sample_world))"
  by code_simp



theorem resume_ignores_the_stored_checkpoint_witness:
  "\<exists>x w1 e. create_execution (se_deployment retry_service) ''wf-1'' [] [] (Some ''native'') None sample_world = (Inr x, w1) \<and>
     e_output_payload e = Some [(''node_outputs'', VDict [(''a'', VStr ''ok'')])] \<and>
     fst (resume_from_checkpoint retry_service (e_id x) None None (db_update_execution e w1)) =
       Inl (ValueError (''Execution '' @ quote (e_id x) @ '' has no completed node outputs to resume from.''))"
proof -
  obtain x w1 where c: "create_execution (se_deployment retry_service) ''wf-1'' [] [] (Some ''native'') None sample_world = (Inr x, w1)"
    using created_sample by (rule succeedsE)
  define e where "e = sample_execution\<lparr>e_id := e_id x, e_status := FAILED,
     e_output_payload := Some [(''node_outputs'', VDict [(''a'', VStr ''ok'')])]\<rparr>"
  have "resume_from_checkpoint retry_service (e_id x) None None (db_update_execution e w1) =
      (Inl (ValueError (''Execution '' @ quote (e_id x) @ '' has no completed node outputs to resume from.'')), db_update_execution e w1)"
    by (rule resume_ignores_the_stored_checkpoint [OF c, where e = "e\<lparr>e_updated_at := clock w1\<rparr>"])
      (auto simp: e_def sample_world_def sample_execution_def retry_service_def)
  then show ?thesis using c by (intro exI [of _ x] exI [of _ w1] exI [of _ e]) (simp add: e_def)
qed

end
