(* ===== verification/Schedules.thy ===== *)
theory Schedules
  imports Isolation Task_Run
begin

text \<open>
  Schedules and when they fire: \<open>app/domain/schedules.py\<close> and \<open>app/scheduler/triggers.py\<close>. How pydantic reads
  booleans, integers and datetimes and prints datetimes, and the time zones of the tz database, are
  parameters.
\<close>

section \<open>Schedule definitions\<close>

datatype ScheduleType = MANUAL | CRON | INTERVAL | WEBHOOK | FILE_CREATED | EMAIL_RECEIVED | DATABASE_POLL | EVENT_MATCH

fun schedule_type_value :: "ScheduleType \<Rightarrow> string" where
  "schedule_type_value MANUAL = ''manual''"
| "schedule_type_value CRON = ''cron''"
| "schedule_type_value INTERVAL = ''interval''"
| "schedule_type_value WEBHOOK = ''webhook''"
| "schedule_type_value FILE_CREATED = ''file_created''"
| "schedule_type_value EMAIL_RECEIVED = ''email_received''"
| "schedule_type_value DATABASE_POLL = ''database_poll''"
| "schedule_type_value EVENT_MATCH = ''event_match''"

definition schedule_type_of :: "string \<Rightarrow> ScheduleType option" where
  "schedule_type_of s = find (\<lambda>t. schedule_type_value t = s)
    [MANUAL, CRON, INTERVAL, WEBHOOK, FILE_CREATED, EMAIL_RECEIVED, DATABASE_POLL, EVENT_MATCH]"

record ScheduleDefinition =
  sch_id :: string
  sch_name :: string
  sch_workflow_id :: string
  sch_enabled :: bool
  sch_trigger_type :: ScheduleType
  sch_trigger_config :: json
  sch_input_template :: json
  sch_runtime_adapter_override :: "string option"
  sch_max_concurrent_executions :: int
  sch_timezone :: string
  sch_next_fire_at :: "datetime option"
  sch_last_fire_at :: "datetime option"
  sch_metadata :: json

text \<open>Scalars as pydantic reads them, and the text it gives a datetime in JSON mode.\<close>

record pydantic =
  pd_bool :: "pyval \<Rightarrow> exc + bool"
  pd_int :: "pyval \<Rightarrow> exc + int"
  pd_datetime :: "pyval \<Rightarrow> exc + datetime"
  pd_datetime_text :: "datetime \<Rightarrow> string"

text \<open>A key is moved under its canonical name unless that is present.\<close>

definition take_alias :: "string \<Rightarrow> string \<Rightarrow> json \<Rightarrow> json" where
  "take_alias alias name d =
    (case map_of d alias of
       Some v \<Rightarrow> if map_of d name = None then dset name v d else d
     | None \<Rightarrow> d)"

text \<open>The data under the canonical names.\<close>

definition canonical_fields :: "pyval \<Rightarrow> json \<Rightarrow> json \<Rightarrow> json" where
  "canonical_fields trigger_type config data =
    (let updated = take_alias ''next_run_at'' ''next_fire_at'' (take_alias ''runtime_adapter_id'' ''runtime_adapter_override''
           (take_alias ''input_payload'' ''input_template'' (dset ''trigger_config'' (VDict config) data)))
     in fold dpop [''schedule_type'', ''cron'', ''interval_seconds'', ''runtime_adapter_id'', ''input_payload'', ''next_run_at'']
          (dset ''trigger_type'' trigger_type updated))"

definition normalize_schedule_fields :: "json \<Rightarrow> exc + json" where
  "normalize_schedule_fields data =
    (let trigger_type = (case map_of data ''trigger_type'' of
           Some v \<Rightarrow> v
         | None \<Rightarrow> (case map_of data ''schedule_type'' of Some v \<Rightarrow> v | None \<Rightarrow> VStr ''manual''))
     in case as_dict (py_or (jget data ''trigger_config'') (VDict [])) of
       None \<Rightarrow> Inl (TypeError ''trigger_config is not a dictionary'')
     | Some config \<Rightarrow>
         let config1 = (if jget data ''cron'' = VNone then config else dsetdefault ''cron'' (jget data ''cron'') config);
             config2 = (if jget data ''interval_seconds'' = VNone then config1
               else dsetdefault ''interval_seconds'' (jget data ''interval_seconds'') config1)
         in Inr (canonical_fields trigger_type config2 data))"

definition validate_schedule_configuration :: "ScheduleDefinition \<Rightarrow> exc + ScheduleDefinition" where
  "validate_schedule_configuration s =
    (if sch_trigger_type s = CRON \<and> jget (sch_trigger_config s) ''cron'' = VNone then
       Inl (ValidationError ''Cron schedules require trigger_config.cron'')
     else if sch_trigger_type s = INTERVAL \<and> jget (sch_trigger_config s) ''interval_seconds'' = VNone then
       Inl (ValidationError ''Interval schedules require trigger_config.interval_seconds'')
     else if sch_max_concurrent_executions s < 1 then
       Inl (ValidationError ''max_concurrent_executions must be at least 1'')
     else Inr s)"

section \<open>Reading and writing a definition\<close>

definition field_or :: "exc + 'a \<Rightarrow> (pyval \<Rightarrow> exc + 'a) \<Rightarrow> json \<Rightarrow> string \<Rightarrow> exc + 'a" where
  "field_or absent reader d name = (case map_of d name of None \<Rightarrow> absent | Some v \<Rightarrow> reader v)"

abbreviation required_field :: "exc + 'a" where
  "required_field \<equiv> Inl (ValidationError ''Field required'')"

definition dict_field :: "pyval \<Rightarrow> exc + json" where
  "dict_field v = (case as_dict v of Some d \<Rightarrow> Inr d | None \<Rightarrow> Inl (ValidationError ''Input should be a valid dictionary''))"

definition trigger_type_field :: "pyval \<Rightarrow> exc + ScheduleType" where
  "trigger_type_field v =
    (case Option.bind (as_str v) schedule_type_of of
       Some t \<Rightarrow> Inr t
     | None \<Rightarrow> Inl (ValidationError ''Input should be a schedule type''))"

definition opt_datetime_field :: "pydantic \<Rightarrow> pyval \<Rightarrow> exc + datetime option" where
  "opt_datetime_field p v = (if v = VNone then Inr None else sbind (pd_datetime p v) (\<lambda>t. Inr (Some t)))"

definition schedule_fields :: "string list" where
  "schedule_fields = [''id'', ''name'', ''workflow_id'', ''enabled'', ''trigger_type'', ''trigger_config'', ''input_template'',
     ''runtime_adapter_override'', ''max_concurrent_executions'', ''timezone'', ''next_fire_at'', ''last_fire_at'', ''metadata'']"

text \<open>The fields one by one; \<open>fresh\<close> is the identifier used when there is none.\<close>

definition read_schedule :: "pydantic \<Rightarrow> string \<Rightarrow> json \<Rightarrow> exc + ScheduleDefinition" where
  "read_schedule p fresh d =
        sbind (field_or (Inr fresh) str_field d ''id'') (\<lambda>i.
        sbind (field_or required_field str_field d ''name'') (\<lambda>name.
        sbind (field_or required_field str_field d ''workflow_id'') (\<lambda>workflow_id.
        sbind (field_or (Inr True) (pd_bool p) d ''enabled'') (\<lambda>enabled.
        sbind (field_or (Inr MANUAL) trigger_type_field d ''trigger_type'') (\<lambda>trigger_type.
        sbind (field_or (Inr []) dict_field d ''trigger_config'') (\<lambda>trigger_config.
        sbind (field_or (Inr []) dict_field d ''input_template'') (\<lambda>input_template.
        sbind (field_or (Inr None) opt_str_field d ''runtime_adapter_override'') (\<lambda>adapter.
        sbind (field_or (Inr 1) (pd_int p) d ''max_concurrent_executions'') (\<lambda>max_concurrent.
        sbind (field_or (Inr ''UTC'') str_field d ''timezone'') (\<lambda>zone.
        sbind (field_or (Inr None) (opt_datetime_field p) d ''next_fire_at'') (\<lambda>next_fire_at.
        sbind (field_or (Inr None) (opt_datetime_field p) d ''last_fire_at'') (\<lambda>last_fire_at.
        sbind (field_or (Inr []) dict_field d ''metadata'') (\<lambda>metadata.
          validate_schedule_configuration
            \<lparr>sch_id = i, sch_name = name, sch_workflow_id = workflow_id, sch_enabled = enabled,
             sch_trigger_type = trigger_type, sch_trigger_config = trigger_config, sch_input_template = input_template,
             sch_runtime_adapter_override = adapter, sch_max_concurrent_executions = max_concurrent,
             sch_timezone = zone, sch_next_fire_at = next_fire_at, sch_last_fire_at = last_fire_at,
             sch_metadata = metadata\<rparr>)))))))))))))"

text \<open>\<open>ScheduleDefinition.model_validate(data)\<close>.\<close>

definition schedule_of :: "pydantic \<Rightarrow> string \<Rightarrow> json \<Rightarrow> exc + ScheduleDefinition" where
  "schedule_of p fresh data =
    sbind (normalize_schedule_fields data) (\<lambda>d.
      if \<not> list_all (\<lambda>k. k \<in> set schedule_fields) (dkeys d) then Inl (ValidationError ''Extra inputs are not permitted'')
      else read_schedule p fresh d)"

definition opt_datetime_text :: "pydantic \<Rightarrow> datetime option \<Rightarrow> pyval" where
  "opt_datetime_text p t = (case t of None \<Rightarrow> VNone | Some d \<Rightarrow> VStr (pd_datetime_text p d))"

text \<open>\<open>schedule.model_dump(mode="json")\<close>.\<close>

definition schedule_dump :: "pydantic \<Rightarrow> ScheduleDefinition \<Rightarrow> json" where
  "schedule_dump p s =
    [(''id'', VStr (sch_id s)), (''name'', VStr (sch_name s)), (''workflow_id'', VStr (sch_workflow_id s)),
     (''enabled'', VBool (sch_enabled s)), (''trigger_type'', VStr (schedule_type_value (sch_trigger_type s))),
     (''trigger_config'', VDict (sch_trigger_config s)), (''input_template'', VDict (sch_input_template s)),
     (''runtime_adapter_override'', opt_str (sch_runtime_adapter_override s)),
     (''max_concurrent_executions'', VInt (sch_max_concurrent_executions s)), (''timezone'', VStr (sch_timezone s)),
     (''next_fire_at'', opt_datetime_text p (sch_next_fire_at s)), (''last_fire_at'', opt_datetime_text p (sch_last_fire_at s)),
     (''metadata'', VDict (sch_metadata s))]"

section \<open>Cron expressions\<close>

text \<open>\<open>s.split()\<close>.\<close>

fun py_words :: "string \<Rightarrow> string \<Rightarrow> string list" where
  "py_words word [] = (if word = [] then [] else [rev word])"
| "py_words word (c # cs) =
    (if is_space c then (if word = [] then py_words [] cs else rev word # py_words [] cs) else py_words (c # word) cs)"

fun any_part :: "('a \<Rightarrow> exc + bool) \<Rightarrow> 'a list \<Rightarrow> exc + bool" where
  "any_part f [] = Inr False"
| "any_part f (x # xs) = sbind (f x) (\<lambda>hit. if hit then Inr True else any_part f xs)"

text \<open>A field without a comma, and a field; the parts of a list have no comma of their own.\<close>

definition match_part :: "int \<Rightarrow> int \<Rightarrow> string \<Rightarrow> exc + bool" where
  "match_part minimum value expr =
    (if expr = ''*'' then Inr True
     else if startswith expr ''*/'' then
       sbind (py_int (VStr (drop 2 expr))) (\<lambda>step.
         if step = 0 then Inl (OtherError ''ZeroDivisionError'' ''integer modulo by zero'')
         else Inr ((value - minimum) mod step = 0))
     else sbind (py_int (VStr expr)) (\<lambda>n. Inr (value = n)))"

definition match_field :: "int \<Rightarrow> int \<Rightarrow> string \<Rightarrow> exc + bool" where
  "match_field minimum value expr =
    (if expr \<noteq> ''*'' \<and> \<not> startswith expr ''*/'' \<and> contains expr '',''
     then any_part (\<lambda>part. match_part minimum value (strip part)) (split_on '','' expr)
     else match_part minimum value expr)"

definition minute :: int where "minute = 60000000"

text \<open>The five fields of a wall-clock time, and the conjunction of the five tests.\<close>

definition cron_matches :: "string \<Rightarrow> string \<Rightarrow> string \<Rightarrow> string \<Rightarrow> string \<Rightarrow> int \<Rightarrow> exc + bool" where
  "cron_matches minute_expr hour_expr day_expr month_expr weekday_expr t =
    (let days = t div (1440 * minute);
         (_, month, day) = civil_from_days days;
         weekday = (days + 4) mod 7
     in sbind (match_field 0 (t div minute mod 60) minute_expr) (\<lambda>ok. if \<not> ok then Inr False else
        sbind (match_field 0 (t div (60 * minute) mod 24) hour_expr) (\<lambda>ok. if \<not> ok then Inr False else
        sbind (match_field 1 day day_expr) (\<lambda>ok. if \<not> ok then Inr False else
        sbind (match_field 1 month month_expr) (\<lambda>ok. if \<not> ok then Inr False else
        match_field 0 weekday weekday_expr)))))"

text \<open>The loop, minute by minute.\<close>

function cron_search :: "(int \<Rightarrow> exc + bool) \<Rightarrow> int \<Rightarrow> int \<Rightarrow> exc + int option" where
  "cron_search matches limit candidate =
    (if candidate \<le> limit then
       (case matches candidate of
          Inl e \<Rightarrow> Inl e
        | Inr hit \<Rightarrow> if hit then Inr (Some candidate) else cron_search matches limit (candidate + minute))
     else Inr None)"
  by pat_completeness auto
termination by (relation "measure (\<lambda>(_, limit, candidate). nat (limit + 1 - candidate))") (auto simp: minute_def)

declare cron_search.simps [simp del]

text \<open>A zone is the wall clock of an instant and the instant a wall clock names, the first one when it names two.\<close>

type_synonym zones = "string \<Rightarrow> ((datetime \<Rightarrow> int) \<times> (int \<Rightarrow> datetime)) option"

definition zone_of :: "zones \<Rightarrow> string \<Rightarrow> (datetime \<Rightarrow> int) \<times> (int \<Rightarrow> datetime)" where
  "zone_of zones name = (case zones name of Some zone \<Rightarrow> zone | None \<Rightarrow> (\<lambda>t. t, \<lambda>t. t))"

definition first_candidate :: "int \<Rightarrow> int" where
  "first_candidate local_now = local_now div minute * minute + minute"

definition no_next_fire :: "string \<Rightarrow> exc" where
  "no_next_fire cron_expression = ValueError (''Unable to compute next fire time for cron '' @ quote cron_expression)"

definition next_cron_fire :: "zones \<Rightarrow> string \<Rightarrow> datetime \<Rightarrow> string \<Rightarrow> exc + datetime" where
  "next_cron_fire zones cron_expression now timezone_name =
    (case py_words [] cron_expression of
       [minute_expr, hour_expr, day_expr, month_expr, weekday_expr] \<Rightarrow>
         let (wall, instant) = zone_of zones timezone_name;
             candidate = first_candidate (wall now);
             limit = candidate + 366 * 1440 * minute
         in if datetime_max < limit then Inl (OverflowError ''date value out of range'')
            else sbind (cron_search (cron_matches minute_expr hour_expr day_expr month_expr weekday_expr) limit candidate) (\<lambda>found.
              case found of
                Some t \<Rightarrow> Inr (instant t)
              | None \<Rightarrow> Inl (no_next_fire cron_expression))
     | _ \<Rightarrow> Inl (ValueError ''a cron expression has five fields''))"

section \<open>The next fire time\<close>

record TriggerComputation =
  tg_next_fire_at :: "datetime option"
  tg_ready :: bool

definition datetime_min :: datetime where "datetime_min = - 62135596800000000"

text \<open>\<open>t + timedelta(seconds=n)\<close>.\<close>

definition plus_seconds :: "datetime \<Rightarrow> int \<Rightarrow> exc + datetime" where
  "plus_seconds t n =
    (if t + seconds n < datetime_min \<or> datetime_max < t + seconds n then Inl (OverflowError ''date value out of range'')
     else Inr (t + seconds n))"

definition due_by :: "datetime \<Rightarrow> datetime option \<Rightarrow> bool" where
  "due_by now t = (case t of None \<Rightarrow> False | Some d \<Rightarrow> d \<le> now)"

definition compute_next_fire :: "zones \<Rightarrow> ScheduleDefinition \<Rightarrow> datetime \<Rightarrow> exc + TriggerComputation" where
  "compute_next_fire zones schedule now =
    (if \<not> sch_enabled schedule \<or> sch_trigger_type schedule = MANUAL then
       Inr \<lparr>tg_next_fire_at = None, tg_ready = False\<rparr>
     else if sch_trigger_type schedule = CRON then
       (case as_str (jget (sch_trigger_config schedule) ''cron'') of
          None \<Rightarrow> Inl (AttributeError ''the cron expression is not a string'')
        | Some cron_expression \<Rightarrow>
            sbind (next_cron_fire zones cron_expression now (sch_timezone schedule)) (\<lambda>next_fire.
              Inr \<lparr>tg_next_fire_at = Some next_fire, tg_ready = due_by now (sch_next_fire_at schedule)\<rparr>))
     else if sch_trigger_type schedule = INTERVAL then
       sbind (py_int (jget (sch_trigger_config schedule) ''interval_seconds'')) (\<lambda>interval_seconds.
         case sch_last_fire_at schedule of
           None \<Rightarrow>
             let next_fire = (case sch_next_fire_at schedule of None \<Rightarrow> now | Some t \<Rightarrow> t)
             in Inr \<lparr>tg_next_fire_at = Some next_fire, tg_ready = next_fire \<le> now\<rparr>
         | Some fired \<Rightarrow>
             sbind (plus_seconds fired interval_seconds) (\<lambda>next_fire.
               Inr \<lparr>tg_next_fire_at = Some next_fire, tg_ready = next_fire \<le> now\<rparr>))
     else Inr \<lparr>tg_next_fire_at = sch_next_fire_at schedule, tg_ready = False\<rparr>)"

end
