(* ===== verification/Fire_Claims.thy ===== *)
theory Fire_Claims
  imports Events
begin

text \<open>
  The claims on the fire times of schedules: \<open>InMemoryScheduleRepository\<close> and the claim operations of
  \<open>SQLScheduleRepository\<close>, the contract both keep, and what it gives to schedulers that compete for the same
  fire times.
\<close>

section \<open>The two repositories\<close>

record ScheduleFireClaim =
  fc_id :: string
  fc_schedule_id :: string
  fc_scheduled_fire_at :: datetime
  fc_claimed_by :: string
  fc_lease_expires_at :: datetime
  fc_status :: string
  fc_execution_id :: "string option"
  fc_updated_at :: datetime

definition new_claim :: "datetime \<Rightarrow> string \<Rightarrow> string \<Rightarrow> datetime \<Rightarrow> string \<Rightarrow> int \<Rightarrow> ScheduleFireClaim" where
  "new_claim now i schedule_id fire_at claimed_by lease_seconds =
    \<lparr>fc_id = i, fc_schedule_id = schedule_id, fc_scheduled_fire_at = fire_at, fc_claimed_by = claimed_by,
     fc_lease_expires_at = now + seconds lease_seconds, fc_status = ''claimed'', fc_execution_id = None,
     fc_updated_at = now\<rparr>"

subsection \<open>In memory\<close>

text \<open>The dictionary of claims; the ISO text in its keys stands for the instant.\<close>

type_synonym claim_dict = "((string \<times> datetime) \<times> ScheduleFireClaim) list"

definition memory_acquire ::
  "datetime \<Rightarrow> string \<Rightarrow> string \<Rightarrow> datetime \<Rightarrow> string \<Rightarrow> int \<Rightarrow> claim_dict \<Rightarrow> bool \<times> claim_dict" where
  "memory_acquire now i schedule_id fire_at claimed_by lease_seconds claims =
    (let taken = (case map_of claims (schedule_id, fire_at) of
           None \<Rightarrow> False
         | Some existing \<Rightarrow> fc_status existing = ''fired'' \<or>
             (fc_status existing = ''claimed'' \<and> now < fc_lease_expires_at existing))
     in if taken then (False, claims)
        else (True, AList.update (schedule_id, fire_at) (new_claim now i schedule_id fire_at claimed_by lease_seconds) claims))"

definition memory_fired :: "datetime \<Rightarrow> string \<Rightarrow> datetime \<Rightarrow> string \<Rightarrow> string \<Rightarrow> claim_dict \<Rightarrow> claim_dict" where
  "memory_fired now schedule_id fire_at execution_id claimed_by claims =
    (case map_of claims (schedule_id, fire_at) of
       None \<Rightarrow> claims
     | Some claim \<Rightarrow>
         if fc_claimed_by claim \<noteq> claimed_by then claims
         else AList.update (schedule_id, fire_at) (claim\<lparr>fc_status := ''fired'', fc_execution_id := Some execution_id,
                fc_lease_expires_at := now, fc_updated_at := now\<rparr>) claims)"

definition memory_failed :: "datetime \<Rightarrow> string \<Rightarrow> datetime \<Rightarrow> string \<Rightarrow> claim_dict \<Rightarrow> claim_dict" where
  "memory_failed now schedule_id fire_at claimed_by claims =
    (case map_of claims (schedule_id, fire_at) of
       None \<Rightarrow> claims
     | Some claim \<Rightarrow>
         if fc_claimed_by claim \<noteq> claimed_by then claims
         else AList.update (schedule_id, fire_at)
                (claim\<lparr>fc_status := ''failed'', fc_lease_expires_at := now, fc_updated_at := now\<rparr>) claims)"

definition memory_claim :: "claim_dict \<Rightarrow> string \<Rightarrow> datetime \<Rightarrow> ScheduleFireClaim option" where
  "memory_claim claims schedule_id fire_at = map_of claims (schedule_id, fire_at)"

subsection \<open>In SQL\<close>

text \<open>A row of \<open>schedule_fire_claims\<close>; its identifier and the pair of schedule and fire time are unique.\<close>

definition is_slot :: "string \<Rightarrow> datetime \<Rightarrow> ScheduleFireClaim \<Rightarrow> bool" where
  "is_slot schedule_id fire_at r \<longleftrightarrow> fc_schedule_id r = schedule_id \<and> fc_scheduled_fire_at r = fire_at"

definition claimable :: "datetime \<Rightarrow> string \<Rightarrow> datetime \<Rightarrow> ScheduleFireClaim \<Rightarrow> bool" where
  "claimable now schedule_id fire_at r \<longleftrightarrow>
    is_slot schedule_id fire_at r \<and> fc_status r \<in> {''claimed'', ''failed''} \<and> fc_lease_expires_at r \<le> now"

definition sql_acquire ::
  "datetime \<Rightarrow> string \<Rightarrow> string \<Rightarrow> datetime \<Rightarrow> string \<Rightarrow> int \<Rightarrow> ScheduleFireClaim list \<Rightarrow> bool \<times> ScheduleFireClaim list" where
  "sql_acquire now i schedule_id fire_at claimed_by lease_seconds rows =
    (if \<not> list_ex (\<lambda>r. fc_id r = i \<or> is_slot schedule_id fire_at r) rows
     then (True, rows @ [new_claim now i schedule_id fire_at claimed_by lease_seconds])
     else (length (filter (claimable now schedule_id fire_at) rows) = 1,
       map (\<lambda>r. if claimable now schedule_id fire_at r
         then r\<lparr>fc_claimed_by := claimed_by, fc_lease_expires_at := now + seconds lease_seconds,
           fc_status := ''claimed'', fc_execution_id := None, fc_updated_at := now\<rparr> else r) rows))"

definition own_claim :: "string \<Rightarrow> datetime \<Rightarrow> string \<Rightarrow> ScheduleFireClaim \<Rightarrow> bool" where
  "own_claim schedule_id fire_at claimed_by r \<longleftrightarrow>
    is_slot schedule_id fire_at r \<and> fc_claimed_by r = claimed_by \<and> fc_status r = ''claimed''"

definition sql_fired ::
  "datetime \<Rightarrow> string \<Rightarrow> datetime \<Rightarrow> string \<Rightarrow> string \<Rightarrow> ScheduleFireClaim list \<Rightarrow> ScheduleFireClaim list" where
  "sql_fired now schedule_id fire_at execution_id claimed_by rows =
    map (\<lambda>r. if own_claim schedule_id fire_at claimed_by r
      then r\<lparr>fc_status := ''fired'', fc_execution_id := Some execution_id, fc_lease_expires_at := now, fc_updated_at := now\<rparr>
      else r) rows"

definition sql_failed :: "datetime \<Rightarrow> string \<Rightarrow> datetime \<Rightarrow> string \<Rightarrow> ScheduleFireClaim list \<Rightarrow> ScheduleFireClaim list" where
  "sql_failed now schedule_id fire_at claimed_by rows =
    map (\<lambda>r. if own_claim schedule_id fire_at claimed_by r
      then r\<lparr>fc_status := ''failed'', fc_lease_expires_at := now, fc_updated_at := now\<rparr> else r) rows"

definition sql_claim :: "ScheduleFireClaim list \<Rightarrow> string \<Rightarrow> datetime \<Rightarrow> ScheduleFireClaim option" where
  "sql_claim rows schedule_id fire_at = find (is_slot schedule_id fire_at) rows"

section \<open>Schedulers that compete for fire times\<close>

text \<open>
  The schedulers of several processes, by their names, on one repository: \<open>cs_held\<close> holds the fire times a
  scheduler has claimed and is about to fire, each until when its lease runs. A scheduler works on one fire
  time of a schedule at a time; its claim ends as fired or as failed, however late.
\<close>

record 's claim_system =
  cs_now :: datetime
  cs_store :: 's
  cs_held :: "(string \<times> string \<times> datetime \<times> datetime) list"

inductive claim_step ::
  "(datetime \<Rightarrow> string \<Rightarrow> string \<Rightarrow> datetime \<Rightarrow> string \<Rightarrow> int \<Rightarrow> 's \<Rightarrow> bool \<times> 's) \<Rightarrow>
   (datetime \<Rightarrow> string \<Rightarrow> datetime \<Rightarrow> string \<Rightarrow> string \<Rightarrow> 's \<Rightarrow> 's) \<Rightarrow>
   (datetime \<Rightarrow> string \<Rightarrow> datetime \<Rightarrow> string \<Rightarrow> 's \<Rightarrow> 's) \<Rightarrow> 's claim_system \<Rightarrow> 's claim_system \<Rightarrow> bool"
  for acquire fired failed where
  tick: "cs_now s \<le> t \<Longrightarrow> claim_step acquire fired failed s (s\<lparr>cs_now := t\<rparr>)"
| take: "acquire (cs_now s) i sid slot name lease (cs_store s) = (True, st) \<Longrightarrow> (\<forall>l. (name, sid, slot, l) \<notin> set (cs_held s)) \<Longrightarrow>
    claim_step acquire fired failed s
      (s\<lparr>cs_store := st, cs_held := (name, sid, slot, cs_now s + seconds lease) # cs_held s\<rparr>)"
| refused: "acquire (cs_now s) i sid slot name lease (cs_store s) = (False, st) \<Longrightarrow>
    claim_step acquire fired failed s (s\<lparr>cs_store := st\<rparr>)"
| fire: "(name, sid, slot, l) \<in> set (cs_held s) \<Longrightarrow>
    claim_step acquire fired failed s
      (s\<lparr>cs_store := fired (cs_now s) sid slot x name (cs_store s), cs_held := removeAll (name, sid, slot, l) (cs_held s)\<rparr>)"
| fail: "(name, sid, slot, l) \<in> set (cs_held s) \<Longrightarrow>
    claim_step acquire fired failed s
      (s\<lparr>cs_store := failed (cs_now s) sid slot name (cs_store s), cs_held := removeAll (name, sid, slot, l) (cs_held s)\<rparr>)"

text \<open>What a scheduler that holds a fire time finds in the repository: its own open claim, unless its lease has run out.\<close>

definition stands :: "string \<Rightarrow> datetime \<Rightarrow> datetime \<Rightarrow> ScheduleFireClaim \<Rightarrow> bool" where
  "stands name l now c \<longleftrightarrow>
    (if fc_claimed_by c = name then fc_status c = ''claimed'' \<and> fc_lease_expires_at c = l else l \<le> now)"

locale fire_claims =
  fixes acquire :: "datetime \<Rightarrow> string \<Rightarrow> string \<Rightarrow> datetime \<Rightarrow> string \<Rightarrow> int \<Rightarrow> 's \<Rightarrow> bool \<times> 's"
    and fired :: "datetime \<Rightarrow> string \<Rightarrow> datetime \<Rightarrow> string \<Rightarrow> string \<Rightarrow> 's \<Rightarrow> 's"
    and failed :: "datetime \<Rightarrow> string \<Rightarrow> datetime \<Rightarrow> string \<Rightarrow> 's \<Rightarrow> 's"
    and claim_of :: "'s \<Rightarrow> string \<Rightarrow> datetime \<Rightarrow> ScheduleFireClaim option"
    and okay :: "'s \<Rightarrow> bool"
  assumes keeps_okay: "okay s \<Longrightarrow> okay (snd (acquire now i sid slot name lease s)) \<and> okay (fired now sid slot x name s) \<and>
      okay (failed now sid slot name s)"
    and frame: "okay s \<Longrightarrow> (sid', slot') \<noteq> (sid, slot) \<Longrightarrow> claim_of (snd (acquire now i sid slot name lease s)) sid' slot' = claim_of s sid' slot' \<and>
      claim_of (fired now sid slot x name s) sid' slot' = claim_of s sid' slot' \<and>
      claim_of (failed now sid slot name s) sid' slot' = claim_of s sid' slot'"
    and acquire_takes: "okay s \<Longrightarrow> acquire now i sid slot name lease s = (True, s') \<Longrightarrow>
      (\<exists>c. claim_of s' sid slot = Some c \<and> fc_claimed_by c = name \<and> fc_status c = ''claimed'' \<and>
         fc_lease_expires_at c = now + seconds lease) \<and>
      (\<forall>c. claim_of s sid slot = Some c \<longrightarrow> fc_status c \<noteq> ''fired'' \<and> (fc_status c = ''claimed'' \<longrightarrow> fc_lease_expires_at c \<le> now))"
    and acquire_refused: "okay s \<Longrightarrow> acquire now i sid slot name lease s = (False, s') \<Longrightarrow> claim_of s' = claim_of s"
    and settles: "okay s \<Longrightarrow> claim_of s sid slot = Some c \<Longrightarrow> fc_claimed_by c = name \<Longrightarrow> fc_status c = ''claimed'' \<Longrightarrow>
      (\<exists>d. claim_of (fired now sid slot x name s) sid slot = Some d \<and> fc_claimed_by d = name \<and> fc_status d = ''fired'' \<and>
         fc_execution_id d = Some x) \<and>
      (\<exists>d. claim_of (failed now sid slot name s) sid slot = Some d \<and> fc_claimed_by d = name \<and> fc_status d = ''failed'')"
    and foreign: "okay s \<Longrightarrow> claim_of s sid slot = Some c \<Longrightarrow> fc_claimed_by c \<noteq> name \<Longrightarrow>
      claim_of (fired now sid slot x name s) sid slot = Some c \<and> claim_of (failed now sid slot name s) sid slot = Some c"
begin

abbreviation step :: "'s claim_system \<Rightarrow> 's claim_system \<Rightarrow> bool" where
  "step \<equiv> claim_step acquire fired failed"

definition held_ok :: "'s claim_system \<Rightarrow> bool" where
  "held_ok s \<longleftrightarrow> okay (cs_store s) \<and>
    (\<forall>name sid slot l. (name, sid, slot, l) \<in> set (cs_held s) \<longrightarrow>
       (\<exists>c. claim_of (cs_store s) sid slot = Some c \<and>
          stands name l (cs_now s) c))"

lemma held_okD:
  assumes "held_ok s" and "(name, sid, slot, l) \<in> set (cs_held s)"
  obtains c where "claim_of (cs_store s) sid slot = Some c"
    "stands name l (cs_now s) c"
  using assms unfolding held_ok_def by blast

lemma held_ok_settle:
  assumes h: "held_ok s" and m: "(name, sid, slot, l) \<in> set (cs_held s)" and "okay st"
    and fr: "\<And>sid' slot'. (sid', slot') \<noteq> (sid, slot) \<Longrightarrow> claim_of st sid' slot' = claim_of (cs_store s) sid' slot'"
    and other: "\<And>c. claim_of (cs_store s) sid slot = Some c \<Longrightarrow> fc_claimed_by c \<noteq> name \<Longrightarrow> claim_of st sid slot = Some c"
    and own: "\<And>c. claim_of (cs_store s) sid slot = Some c \<Longrightarrow> fc_claimed_by c = name \<Longrightarrow> fc_status c = ''claimed'' \<Longrightarrow>
      \<exists>d. claim_of st sid slot = Some d \<and> fc_claimed_by d = name"
  shows "held_ok (s\<lparr>cs_store := st, cs_held := removeAll (name, sid, slot, l) (cs_held s)\<rparr>)"
proof -
  obtain c where c: "claim_of (cs_store s) sid slot = Some c"
    "stands name l (cs_now s) c"
    by (rule held_okD [OF h m])
  have "\<exists>c. claim_of st sid' slot' = Some c \<and>
      stands n k (cs_now s) c"
    if e: "(n, sid', slot', k) \<in> set (cs_held s)" "(n, sid', slot', k) \<noteq> (name, sid, slot, l)" for n sid' slot' k
  proof (cases "(sid', slot') = (sid, slot)")
    case False
    show ?thesis by (rule held_okD [OF h e(1)]) (simp add: fr [OF False])
  next
    case True
    obtain c' where "claim_of (cs_store s) sid' slot' = Some c'"
      "stands n k (cs_now s) c'"
      by (rule held_okD [OF h e(1)])
    with True c(1) have k: "stands n k (cs_now s) c"
      by simp
    show ?thesis
    proof (cases "fc_claimed_by c = name")
      case by_name: True
      with own c obtain d where d: "claim_of st sid slot = Some d" "fc_claimed_by d = name" by (auto simp: stands_def)
      have "n \<noteq> name" using True e(2) k c(2) by_name by (auto simp: stands_def split: if_splits)
      then show ?thesis using True d k by_name by (auto simp: stands_def)
    next
      case False
      then show ?thesis using other c(1) k True by auto
    qed
  qed
  then show ?thesis using \<open>okay st\<close> by (auto simp: held_ok_def)
qed

lemma held_ok_step:
  assumes "step s s'" and "held_ok s"
  shows "held_ok s'"
proof -
  have o: "okay (cs_store s)" using assms(2) by (simp add: held_ok_def)
  from assms(1) show ?thesis
  proof (cases rule: claim_step.cases)
    case (tick t)
    have "\<exists>c. claim_of (cs_store s) sid slot = Some c \<and>
        stands n l t c"
      if "(n, sid, slot, l) \<in> set (cs_held s)" for n sid slot l
      by (rule held_okD [OF assms(2) that]) (use tick(2) in \<open>auto simp: stands_def split: if_splits\<close>)
    then show ?thesis using tick o by (simp add: held_ok_def)
  next
    case (take i sid slot name lease st)
    obtain c where c: "claim_of st sid slot = Some c" "fc_claimed_by c = name" "fc_status c = ''claimed''"
      "fc_lease_expires_at c = cs_now s + seconds lease"
      and prev: "\<And>c. claim_of (cs_store s) sid slot = Some c \<Longrightarrow> fc_status c = ''claimed'' \<Longrightarrow> fc_lease_expires_at c \<le> cs_now s"
      using acquire_takes [OF o take(2)] by blast
    have "\<exists>c. claim_of st sid' slot' = Some c \<and>
        stands n l (cs_now s) c"
      if h: "(n, sid', slot', l) \<in> set (cs_held s)" for n sid' slot' l
    proof (cases "(sid', slot') = (sid, slot)")
      case True
      then have "n \<noteq> name" using take(3) h by auto
      moreover have "l \<le> cs_now s"
        by (rule held_okD [OF assms(2) h]) (use True prev in \<open>auto simp: stands_def split: if_splits\<close>)
      ultimately show ?thesis using True c by (auto simp: stands_def)
    next
      case False
      then have "claim_of st sid' slot' = claim_of (cs_store s) sid' slot'"
        using frame [OF o False, where now = "cs_now s" and i = i and name = name and lease = lease] take(2) by simp
      then show ?thesis by (metis held_okD [OF assms(2) h])
    qed
    moreover have "okay st" using keeps_okay [OF o] take(2) by (metis snd_conv)
    moreover have "stands name (cs_now s + seconds lease) (cs_now s) c" using c by (simp add: stands_def)
    ultimately show ?thesis using take(1) c(1) by (auto simp: held_ok_def)
  next
    case (refused i sid slot name lease st)
    have "okay st" using keeps_okay [OF o] refused(2) by (metis snd_conv)
    then show ?thesis using assms(2) refused(1) acquire_refused [OF o refused(2)] by (simp add: held_ok_def)
  next
    case (fire name sid slot l x)
    let ?st = "fired (cs_now s) sid slot x name (cs_store s)"
    show ?thesis unfolding fire(1)
    proof (rule held_ok_settle [OF assms(2) fire(2)])
      show "okay ?st" using keeps_okay [OF o] by blast
      show "claim_of ?st sid' slot' = claim_of (cs_store s) sid' slot'" if "(sid', slot') \<noteq> (sid, slot)" for sid' slot'
        using frame [OF o that] by blast
      show "claim_of ?st sid slot = Some c" if "claim_of (cs_store s) sid slot = Some c" "fc_claimed_by c \<noteq> name" for c
        using foreign [OF o that] by blast
      show "\<exists>d. claim_of ?st sid slot = Some d \<and> fc_claimed_by d = name"
        if "claim_of (cs_store s) sid slot = Some c" "fc_claimed_by c = name" "fc_status c = ''claimed''" for c
        using settles [OF o that] by blast
    qed
  next
    case (fail name sid slot l)
    let ?st = "failed (cs_now s) sid slot name (cs_store s)"
    show ?thesis unfolding fail(1)
    proof (rule held_ok_settle [OF assms(2) fail(2)])
      show "okay ?st" using keeps_okay [OF o] by blast
      show "claim_of ?st sid' slot' = claim_of (cs_store s) sid' slot'" if "(sid', slot') \<noteq> (sid, slot)" for sid' slot'
        using frame [OF o that] by blast
      show "claim_of ?st sid slot = Some c" if "claim_of (cs_store s) sid slot = Some c" "fc_claimed_by c \<noteq> name" for c
        using foreign [OF o that] by blast
      show "\<exists>d. claim_of ?st sid slot = Some d \<and> fc_claimed_by d = name"
        if "claim_of (cs_store s) sid slot = Some c" "fc_claimed_by c = name" "fc_status c = ''claimed''" for c
        using settles [OF o that] by blast
    qed
  qed
qed

lemma held_ok_run: "step\<^sup>*\<^sup>* s s' \<Longrightarrow> held_ok s \<Longrightarrow> held_ok s'"
  by (induction rule: rtranclp_induct) (auto intro: held_ok_step)

lemma one_live_holder:
  assumes "held_ok s" and "(a, sid, slot, l) \<in> set (cs_held s)" and "(b, sid, slot, m) \<in> set (cs_held s)"
    and "cs_now s < l" and "cs_now s < m"
  shows "a = b"
  by (rule held_okD [OF assms(1,2)], rule held_okD [OF assms(1,3)]) (use assms(4,5) in \<open>auto simp: stands_def split: if_splits\<close>)

lemma fired_step:
  assumes "step s s'" and "held_ok s" and f: "claim_of (cs_store s) sid slot = Some c" "fc_status c = ''fired''"
  shows "claim_of (cs_store s') sid slot = Some c"
proof -
  have o: "okay (cs_store s)" using assms(2) by (simp add: held_ok_def)
  from assms(1) show ?thesis
  proof (cases rule: claim_step.cases)
    case (tick t)
    then show ?thesis using f by simp
  next
    case (take i sid' slot' name lease st)
    have "(sid', slot') \<noteq> (sid, slot)" using acquire_takes [OF o take(2)] f by auto
    then show ?thesis using frame [OF o, of sid slot sid' slot' "cs_now s" i name lease] take f by auto
  next
    case (refused i sid' slot' name lease st)
    then show ?thesis using f acquire_refused [OF o refused(2)] by simp
  next
    case (fire name sid' slot' l x)
    have "fc_claimed_by c \<noteq> name \<or> (sid', slot') \<noteq> (sid, slot)"
      by (rule held_okD [OF assms(2) fire(2)]) (use f in \<open>auto simp: stands_def\<close>)
    then show ?thesis using fire(1) f(1) foreign [OF o f(1)] frame [OF o, of sid slot sid' slot']
      by (cases "(sid', slot') = (sid, slot)") auto
  next
    case (fail name sid' slot' l)
    have "fc_claimed_by c \<noteq> name \<or> (sid', slot') \<noteq> (sid, slot)"
      by (rule held_okD [OF assms(2) fail(2)]) (use f in \<open>auto simp: stands_def\<close>)
    then show ?thesis using fail(1) f(1) foreign [OF o f(1)] frame [OF o, of sid slot sid' slot']
      by (cases "(sid', slot') = (sid, slot)") auto
  qed
qed

lemma fired_run:
  assumes "step\<^sup>*\<^sup>* s s'" and "held_ok s" and "claim_of (cs_store s) sid slot = Some c" and "fc_status c = ''fired''"
  shows "claim_of (cs_store s') sid slot = Some c \<and> held_ok s'"
  using assms by (induction rule: rtranclp_induct) (auto intro: fired_step held_ok_step)

lemma fired_not_taken:
  assumes "held_ok s" and "claim_of (cs_store s) sid slot = Some c" and "fc_status c = ''fired''"
  shows "\<not> fst (acquire now i sid slot name lease (cs_store s))"
  using acquire_takes [of "cs_store s" now i sid slot name lease] assms
  by (cases "acquire now i sid slot name lease (cs_store s)") (auto simp: held_ok_def)

end

section \<open>The repositories keep the contract\<close>

definition distinct_slots :: "ScheduleFireClaim list \<Rightarrow> bool" where
  "distinct_slots rows \<longleftrightarrow> distinct (map (\<lambda>r. (fc_schedule_id r, fc_scheduled_fire_at r)) rows)"

definition memory_okay :: "claim_dict \<Rightarrow> bool" where
  "memory_okay claims \<longleftrightarrow> True"

interpretation memory_claims: fire_claims memory_acquire memory_fired memory_failed memory_claim memory_okay
  by unfold_locales
    (auto simp: memory_acquire_def memory_fired_def memory_failed_def memory_claim_def memory_okay_def new_claim_def Let_def
      update_conv' split: option.splits if_splits)

definition slots_distinct :: "ScheduleFireClaim list \<Rightarrow> bool" where
  "slots_distinct rows \<longleftrightarrow> distinct (map (\<lambda>r. (fc_schedule_id r, fc_scheduled_fire_at r)) rows)"

lemma sql_claim_map:
  assumes "\<And>r. fc_schedule_id (f r) = fc_schedule_id r" and "\<And>r. fc_scheduled_fire_at (f r) = fc_scheduled_fire_at r"
  shows "sql_claim (map f rows) sid slot = map_option f (sql_claim rows sid slot)"
    and "slots_distinct (map f rows) = slots_distinct rows"
  using assms by (induction rows) (auto simp: sql_claim_def slots_distinct_def is_slot_def comp_def)

lemma sql_claim_append:
  "sql_claim (rows @ [r]) sid slot = (case sql_claim rows sid slot of Some c \<Rightarrow> Some c
     | None \<Rightarrow> if is_slot sid slot r then Some r else None)"
  by (induction rows) (auto simp: sql_claim_def)

lemma sql_claim_Some: "sql_claim rows sid slot = Some c \<Longrightarrow> c \<in> set rows \<and> is_slot sid slot c"
  by (auto simp: sql_claim_def find_Some_iff)

lemma sql_claim_None: "sql_claim rows sid slot = None \<longleftrightarrow> (\<forall>r\<in>set rows. \<not> is_slot sid slot r)"
  by (auto simp: sql_claim_def find_None_iff)

lemma slots_unique: "slots_distinct rows \<Longrightarrow> r \<in> set rows \<Longrightarrow> is_slot sid slot r \<Longrightarrow> sql_claim rows sid slot = Some r"
proof (induction rows)
  case (Cons a rows)
  then show ?case by (cases "is_slot sid slot a") (auto simp: sql_claim_def slots_distinct_def is_slot_def)
qed simp

lemma hits_one:
  assumes "slots_distinct rows" and "\<And>r. P r \<Longrightarrow> is_slot sid slot r"
  shows "length (filter P rows) = 1 \<longleftrightarrow> (\<exists>c. sql_claim rows sid slot = Some c \<and> P c)"
  using assms
proof (induction rows)
  case (Cons a rows)
  show ?case
  proof (cases "is_slot sid slot a")
    case True
    have "\<not> is_slot sid slot r" if "r \<in> set rows" for r
      using Cons.prems(1) that True unfolding slots_distinct_def is_slot_def by (auto simp: image_iff)
    then have "filter P rows = []" using Cons.prems(2) by (auto simp: filter_empty_conv)
    then show ?thesis using True by (simp add: sql_claim_def)
  next
    case False
    then show ?thesis using Cons by (auto simp: sql_claim_def slots_distinct_def)
  qed
qed (simp add: sql_claim_def)

lemma sql_settled:
  "sql_claim (sql_fired now sid slot x name rows) a b = map_option (\<lambda>r. if own_claim sid slot name r
      then r\<lparr>fc_status := ''fired'', fc_execution_id := Some x, fc_lease_expires_at := now, fc_updated_at := now\<rparr>
      else r) (sql_claim rows a b)"
  "sql_claim (sql_failed now sid slot name rows) a b = map_option (\<lambda>r. if own_claim sid slot name r
      then r\<lparr>fc_status := ''failed'', fc_lease_expires_at := now, fc_updated_at := now\<rparr> else r) (sql_claim rows a b)"
  "slots_distinct (sql_fired now sid slot x name rows) = slots_distinct rows"
  "slots_distinct (sql_failed now sid slot name rows) = slots_distinct rows"
  unfolding sql_fired_def sql_failed_def by (rule sql_claim_map; simp)+

lemma sql_acquire_insert:
  assumes "\<not> list_ex (\<lambda>r. fc_id r = i \<or> is_slot sid slot r) rows"
  shows "sql_acquire now i sid slot name lease rows = (True, rows @ [new_claim now i sid slot name lease])"
    and "slots_distinct rows \<Longrightarrow> slots_distinct (rows @ [new_claim now i sid slot name lease])"
    and "sql_claim rows sid slot = None"
  using assms by (auto simp: sql_acquire_def slots_distinct_def list_ex_iff is_slot_def new_claim_def sql_claim_None image_iff)

lemma sql_acquire_update:
  assumes "list_ex (\<lambda>r. fc_id r = i \<or> is_slot sid slot r) rows" and "slots_distinct rows"
    and "s' = snd (sql_acquire now i sid slot name lease rows)"
  shows "fst (sql_acquire now i sid slot name lease rows) \<longleftrightarrow>
      (\<exists>c. sql_claim rows sid slot = Some c \<and> claimable now sid slot c)"
    and "sql_claim s' a b = map_option (\<lambda>r. if claimable now sid slot r
         then r\<lparr>fc_claimed_by := name, fc_lease_expires_at := now + seconds lease,
           fc_status := ''claimed'', fc_execution_id := None, fc_updated_at := now\<rparr> else r) (sql_claim rows a b)"
    and "slots_distinct s'"
proof -
  have u: "sql_acquire now i sid slot name lease rows = (length (filter (claimable now sid slot) rows) = 1,
       map (\<lambda>r. if claimable now sid slot r
         then r\<lparr>fc_claimed_by := name, fc_lease_expires_at := now + seconds lease,
           fc_status := ''claimed'', fc_execution_id := None, fc_updated_at := now\<rparr> else r) rows)"
    using assms(1) by (simp add: sql_acquire_def)
  show "fst (sql_acquire now i sid slot name lease rows) \<longleftrightarrow>
      (\<exists>c. sql_claim rows sid slot = Some c \<and> claimable now sid slot c)"
    unfolding u fst_conv by (rule hits_one [OF assms(2)]) (simp add: claimable_def)
  show "sql_claim s' a b = map_option (\<lambda>r. if claimable now sid slot r
         then r\<lparr>fc_claimed_by := name, fc_lease_expires_at := now + seconds lease,
           fc_status := ''claimed'', fc_execution_id := None, fc_updated_at := now\<rparr> else r) (sql_claim rows a b)"
    unfolding assms(3) u snd_conv by (rule sql_claim_map; simp)
  have "slots_distinct s' = slots_distinct rows"
    unfolding assms(3) u snd_conv by (rule sql_claim_map; simp)
  then show "slots_distinct s'" using assms(2) by simp
qed

interpretation sql_claims: fire_claims sql_acquire sql_fired sql_failed sql_claim slots_distinct
proof (unfold_locales, goal_cases)
  case (1 s now i sid slot name lease x)
  then show ?case
    using sql_acquire_insert(1,2) [of i sid slot s now name lease] sql_acquire_update(3) [where i = i and sid = sid and slot = slot and rows = s and now = now and name = name and lease = lease, OF _ _ refl]
    by (cases "list_ex (\<lambda>r. fc_id r = i \<or> is_slot sid slot r) s") (simp_all add: sql_settled)
next
  case (2 s sid' slot' sid slot now i name lease x)
  have other: "\<not> is_slot sid slot c" if "sql_claim s sid' slot' = Some c" for c
    using sql_claim_Some [OF that] 2(2) by (auto simp: is_slot_def)
  have "sql_claim (snd (sql_acquire now i sid slot name lease s)) sid' slot' = sql_claim s sid' slot'"
  proof (cases "list_ex (\<lambda>r. fc_id r = i \<or> is_slot sid slot r) s")
    case True
    show ?thesis
      unfolding sql_acquire_update(2) [OF True 2(1) refl]
      by (cases "sql_claim s sid' slot'") (simp_all add: claimable_def other)
  next
    case False
    have "\<not> is_slot sid' slot' (new_claim now i sid slot name lease)" using 2(2) by (auto simp: new_claim_def is_slot_def)
    then show ?thesis
      unfolding sql_acquire_insert(1) [OF False] by (simp add: sql_claim_append split: option.split)
  qed
  moreover have "\<not> own_claim sid slot name c" if "sql_claim s sid' slot' = Some c" for c
    using other [OF that] by (simp add: own_claim_def)
  ultimately show ?case by (cases "sql_claim s sid' slot'") (simp_all add: sql_settled)
next
  case (3 s now i sid slot name lease s')
  then show ?case
    using sql_acquire_insert(1) [of i sid slot s now name lease] sql_acquire_insert(3) [of i sid slot s] sql_acquire_update(1,2) [where i = i and sid = sid and slot = slot and rows = s and now = now and name = name and lease = lease, OF _ _ refl]
    by (cases "list_ex (\<lambda>r. fc_id r = i \<or> is_slot sid slot r) s")
      (auto simp: sql_claim_append new_claim_def is_slot_def claimable_def)
next
  case (4 s now i sid slot name lease s')
  show ?case
  proof (intro ext)
    fix a b
    have l: "list_ex (\<lambda>r. fc_id r = i \<or> is_slot sid slot r) s" using 4 sql_acquire_insert(1) by (metis prod.inject)
    have "\<not> claimable now sid slot c" if "sql_claim s a b = Some c" for c
      using that 4 sql_acquire_update(1) [where now = now and name = name and lease = lease, OF l 4(1) refl] sql_claim_Some [OF that]
      by (auto simp: claimable_def is_slot_def)
    then show "sql_claim s' a b = sql_claim s a b"
      using sql_acquire_update(2) [where now = now and name = name and lease = lease and a = a and b = b, OF l 4(1) refl] 4(2) by (cases "sql_claim s a b") simp_all
  qed
next
  case (5 s sid slot c name now x)
  then show ?case by (auto simp: sql_settled own_claim_def dest: sql_claim_Some)
next
  case (6 s sid slot c name now x)
  then show ?case by (simp add: sql_settled own_claim_def)
qed

end
