(* ===== verification/Scheduler.thy ===== *)
theory Scheduler
  imports Schedules Fire_Claims Control_Plane
begin

text \<open>
  \<open>app/scheduler/scheduler.py\<close>, \<open>WorkflowScheduler\<close>: schedules start executions when they are due, on demand or when
  an event matches. The schedules and the claims on their fire times are rows of \<open>SQLScheduleRepository\<close>; the
  runtime registry and the control plane are the modelled ones; \<open>app/services/schedules.py\<close>, which the API calls.
\<close>

section \<open>State\<close>

datatype GoalStatus = GOAL_CREATED | GOAL_PLANNING | GOAL_ACTIVE | GOAL_WAITING_FOR_INPUT | GOAL_WAITING_FOR_APPROVAL
  | GOAL_PAUSED | GOAL_COMPLETED | GOAL_FAILED | GOAL_CANCELLED | GOAL_ABANDONED

record GoalDefinition =
  gd_id :: string
  gd_objective :: string
  gd_status :: GoalStatus
  gd_priority :: string
  gd_owner_actor :: "string option"
  gd_parent_goal_id :: "string option"
  gd_success_criteria :: "json list"
  gd_constraints :: json
  gd_execution_ids :: "string list"
  gd_evidence :: "json list"
  gd_evaluation :: "json option"
  gd_deadline_at :: "datetime option"
  gd_completed_at :: "datetime option"
  gd_created_at :: datetime
  gd_updated_at :: datetime
  gd_metadata :: json

record scheduling =
  sg_world :: world
  sg_schedules :: "ScheduleDefinition list"
  sg_claims :: "ScheduleFireClaim list"
  sg_goals :: "GoalDefinition dict"

type_synonym 'a sact = "scheduling \<Rightarrow> (exc + 'a) \<times> scheduling"

fun sthen :: "(exc + 'a) \<times> scheduling \<Rightarrow> ('a \<Rightarrow> 'b sact) \<Rightarrow> (exc + 'b) \<times> scheduling" where
  "sthen (Inl e, g) f = (Inl e, g)"
| "sthen (Inr x, g) f = f x g"

definition in_world :: "'a act \<Rightarrow> 'a sact" where
  "in_world f g = (let (r, w) = f (sg_world g) in (r, g\<lparr>sg_world := w\<rparr>))"

text \<open>
  The constructor's arguments. A repository without claim support is one without the claim methods; no goal
  repository, starter or waker is \<open>None\<close>.
\<close>

record scheduler_env =
  sv_deployment :: deployment
  sv_pydantic :: pydantic
  sv_zones :: zones
  sv_float_text :: "rat \<Rightarrow> string"
  sv_scheduler_id :: string
  sv_claim_lease_seconds :: int
  sv_claims_supported :: bool
  sv_goal_repo :: bool
  sv_execution_starter :: "(string \<Rightarrow> Execution act) option"
  sv_goal_supervisor_waker :: "(string \<Rightarrow> unit act) option"

section \<open>The rows\<close>

definition get_schedule :: "string \<Rightarrow> scheduling \<Rightarrow> ScheduleDefinition option" where
  "get_schedule i g = find (\<lambda>s. sch_id s = i) (sg_schedules g)"

definition list_schedules :: "scheduling \<Rightarrow> ScheduleDefinition list" where
  "list_schedules g = sort_key sch_id (sg_schedules g)"

definition save_schedule :: "ScheduleDefinition \<Rightarrow> scheduling \<Rightarrow> scheduling" where
  "save_schedule item g = g\<lparr>sg_schedules :=
     (if get_schedule (sch_id item) g = None then sg_schedules g @ [item]
      else map (\<lambda>s. if sch_id s = sch_id item then item else s) (sg_schedules g))\<rparr>"

definition create_schedule_row :: "ScheduleDefinition \<Rightarrow> ScheduleDefinition sact" where
  "create_schedule_row item g =
    (if get_schedule (sch_id item) g \<noteq> None then (Inl (IntegrityError ''schedules.id''), g)
     else (Inr item, save_schedule item g))"

definition update_schedule :: "pydantic \<Rightarrow> string \<Rightarrow> json \<Rightarrow> ScheduleDefinition option sact" where
  "update_schedule p i patch g =
    (case get_schedule i g of
       None \<Rightarrow> (Inr None, g)
     | Some current \<Rightarrow>
         (case schedule_of p [] (dmerge (schedule_dump p current) patch) of
            Inl e \<Rightarrow> (Inl e, g)
          | Inr merged \<Rightarrow> (Inr (Some merged), save_schedule merged g)))"

text \<open>The claims of a schedule are deleted with it.\<close>

definition delete_schedule :: "string \<Rightarrow> scheduling \<Rightarrow> bool \<times> scheduling" where
  "delete_schedule i g =
    (if get_schedule i g = None then (False, g)
     else (True, g\<lparr>sg_schedules := filter (\<lambda>s. sch_id s \<noteq> i) (sg_schedules g),
             sg_claims := filter (\<lambda>c. fc_schedule_id c \<noteq> i) (sg_claims g)\<rparr>))"

definition record_operation :: "string \<Rightarrow> json \<Rightarrow> scheduling \<Rightarrow> scheduling" where
  "record_operation action payload g =
    (let ops = increment action 1 (operations (sg_world g));
         ops1 = (case as_str (jget payload ''error_type'') of
            Some t \<Rightarrow> if t = [] then ops else increment (action @ ''.'' @ t) 1 ops
          | None \<Rightarrow> ops)
     in g\<lparr>sg_world := (sg_world g)\<lparr>operations := record_action action payload ops1\<rparr>\<rparr>)"

section \<open>Commands on schedules\<close>

definition opt_isoformat :: "datetime option \<Rightarrow> pyval" where
  "opt_isoformat t = (case t of None \<Rightarrow> VNone | Some d \<Rightarrow> VStr (isoformat d))"

definition create_schedule :: "scheduler_env \<Rightarrow> ScheduleDefinition \<Rightarrow> ScheduleDefinition sact" where
  "create_schedule env schedule g =
    (let p = sv_pydantic env in
     case sbind (compute_next_fire (sv_zones env) schedule (clock (sg_world g))) (\<lambda>computation.
            schedule_of p [] (dmerge (schedule_dump p schedule)
              [(''next_fire_at'', opt_isoformat (tg_next_fire_at computation))])) of
       Inl e \<Rightarrow> (Inl e, g)
     | Inr s \<Rightarrow> create_schedule_row s g)"

definition service_create_schedule :: "scheduler_env \<Rightarrow> json \<Rightarrow> ScheduleDefinition sact" where
  "service_create_schedule env payload g =
    (let (i, w) = uuid4 (sg_world g) in
     case schedule_of (sv_pydantic env) i payload of
       Inl e \<Rightarrow> (Inl e, g)
     | Inr schedule \<Rightarrow> create_schedule env schedule (g\<lparr>sg_world := w\<rparr>))"

definition rescheduling_keys :: "string list" where
  "rescheduling_keys = [''enabled'', ''trigger_type'', ''schedule_type'', ''trigger_config'', ''cron'', ''interval_seconds'', ''timezone'']"

definition patch_schedule :: "scheduler_env \<Rightarrow> string \<Rightarrow> json \<Rightarrow> ScheduleDefinition option sact" where
  "patch_schedule env i patch g =
    (let p = sv_pydantic env in
     case get_schedule i g of
       None \<Rightarrow> (Inr None, g)
     | Some current \<Rightarrow>
         if map_of patch ''next_fire_at'' \<noteq> None then update_schedule p i patch g
         else (case sbind (schedule_of p [] (dmerge (schedule_dump p current) patch)) (\<lambda>candidate.
                 if \<not> sch_enabled candidate then Inr (dset ''next_fire_at'' VNone patch)
                 else if list_ex (\<lambda>k. map_of patch k \<noteq> None) rescheduling_keys then
                   sbind (compute_next_fire (sv_zones env) candidate (clock (sg_world g))) (\<lambda>computation.
                     Inr (dset ''next_fire_at'' (opt_isoformat (tg_next_fire_at computation)) patch))
                 else Inr patch) of
             Inl e \<Rightarrow> (Inl e, g)
           | Inr patch1 \<Rightarrow> update_schedule p i patch1 g))"

text \<open>\<open>ScheduleService.patch_schedule\<close>: what the API calls.\<close>

definition service_patch_schedule :: "scheduler_env \<Rightarrow> string \<Rightarrow> json \<Rightarrow> ScheduleDefinition option sact" where
  "service_patch_schedule env i patch g =
    (case get_schedule i g of
       None \<Rightarrow> (Inr None, g)
     | Some current \<Rightarrow> patch_schedule env i (dmerge (schedule_dump (sv_pydantic env) current) patch) g)"

definition enable_schedule :: "scheduler_env \<Rightarrow> string \<Rightarrow> ScheduleDefinition option sact" where
  "enable_schedule env i g =
    (let p = sv_pydantic env in
     case get_schedule i g of
       None \<Rightarrow> (Inr None, g)
     | Some schedule \<Rightarrow>
         (case sbind (schedule_of p [] (dmerge (schedule_dump p schedule) [(''enabled'', VBool True)])) (\<lambda>s.
                 compute_next_fire (sv_zones env) s (clock (sg_world g))) of
            Inl e \<Rightarrow> (Inl e, g)
          | Inr computation \<Rightarrow>
              update_schedule p i [(''enabled'', VBool True), (''next_fire_at'', opt_isoformat (tg_next_fire_at computation))] g))"

definition disable_schedule :: "scheduler_env \<Rightarrow> string \<Rightarrow> ScheduleDefinition option sact" where
  "disable_schedule env i g = update_schedule (sv_pydantic env) i [(''enabled'', VBool False), (''next_fire_at'', VNone)] g"

section \<open>Claims on fire times\<close>

definition acquire_fire_claim :: "scheduler_env \<Rightarrow> string \<Rightarrow> datetime \<Rightarrow> scheduling \<Rightarrow> bool \<times> scheduling" where
  "acquire_fire_claim env schedule_id fire_at g =
    (if \<not> sv_claims_supported env then
       (True, record_operation ''scheduler.fire_claim_support_missing''
          [(''schedule_id'', VStr schedule_id), (''scheduled_fire_at'', VStr (isoformat fire_at))] g)
     else
       let (i, w) = uuid4 (sg_world g);
           (taken, rows) = sql_acquire (clock w) i schedule_id fire_at (sv_scheduler_id env) (sv_claim_lease_seconds env) (sg_claims g)
       in (taken, g\<lparr>sg_world := w, sg_claims := rows\<rparr>))"

definition mark_fire_claim_fired :: "scheduler_env \<Rightarrow> string \<Rightarrow> datetime \<Rightarrow> string \<Rightarrow> scheduling \<Rightarrow> scheduling" where
  "mark_fire_claim_fired env schedule_id fire_at execution_id g =
    (if \<not> sv_claims_supported env then g
     else g\<lparr>sg_claims := sql_fired (clock (sg_world g)) schedule_id fire_at execution_id (sv_scheduler_id env) (sg_claims g)\<rparr>)"

definition mark_fire_claim_failed :: "scheduler_env \<Rightarrow> string \<Rightarrow> datetime \<Rightarrow> scheduling \<Rightarrow> scheduling" where
  "mark_fire_claim_failed env schedule_id fire_at g =
    (if \<not> sv_claims_supported env then g
     else g\<lparr>sg_claims := sql_failed (clock (sg_world g)) schedule_id fire_at (sv_scheduler_id env) (sg_claims g)\<rparr>)"

section \<open>The goal of a schedule\<close>

definition text_of :: "scheduler_env \<Rightarrow> pyval \<Rightarrow> string" where
  "text_of env v = py_str (sv_float_text env) v"

fun all_dicts :: "pyval list \<Rightarrow> exc + json list" where
  "all_dicts [] = Inr []"
| "all_dicts (v # vs) = sbind (dict_field v) (\<lambda>d. sbind (all_dicts vs) (\<lambda>ds. Inr (d # ds)))"

definition new_goal :: "scheduler_env \<Rightarrow> ScheduleDefinition \<Rightarrow> json \<Rightarrow> datetime option \<Rightarrow> datetime \<Rightarrow> string \<Rightarrow> exc + GoalDefinition" where
  "new_goal env schedule config fire_at now i =
    (let objective = strip (text_of env (py_or (jget config ''objective'') (VStr (sch_name schedule))));
         criteria = (case as_list (jget config ''success_criteria'') of
             Some (c # cs) \<Rightarrow> c # cs
           | _ \<Rightarrow> [VDict [(''kind'', VStr ''scheduled_workflow_execution''),
                (''description'', VStr (''Scheduled workflow '' @ quote (sch_workflow_id schedule) @ '' produces completion evidence.''))]]);
         created_by = VDict [(''schedule_id'', VStr (sch_id schedule)), (''workflow_id'', VStr (sch_workflow_id schedule)),
            (''scheduled_fire_at'', opt_isoformat fire_at), (''triggered_at'', VStr (isoformat now))]
     in sbind (all_dicts criteria) (\<lambda>success_criteria.
        sbind (opt_str_field (jget config ''owner_actor'')) (\<lambda>owner_actor.
        sbind (opt_str_field (jget config ''parent_goal_id'')) (\<lambda>parent_goal_id.
        sbind (opt_datetime_field (sv_pydantic env) (jget config ''deadline_at'')) (\<lambda>deadline_at.
          if strip objective = [] then Inl (ValidationError ''Goal objective is required'')
          else Inr \<lparr>gd_id = i, gd_objective = objective, gd_status = GOAL_ACTIVE,
            gd_priority = text_of env (py_or (jget config ''priority'') (VStr ''normal'')), gd_owner_actor = owner_actor,
            gd_parent_goal_id = parent_goal_id, gd_success_criteria = success_criteria,
            gd_constraints = dict_or_empty (jget config ''constraints''), gd_execution_ids = [], gd_evidence = [],
            gd_evaluation = None, gd_deadline_at = deadline_at, gd_completed_at = None, gd_created_at = now,
            gd_updated_at = now,
            gd_metadata = dmerge [(''created_by_schedule'', created_by)] (dict_or_empty (jget config ''metadata''))\<rparr>)))))"

definition resolve_schedule_goal :: "scheduler_env \<Rightarrow> ScheduleDefinition \<Rightarrow> datetime option \<Rightarrow> datetime \<Rightarrow> GoalDefinition option sact" where
  "resolve_schedule_goal env schedule fire_at now g =
    (case as_dict (jget (sch_metadata schedule) ''goal'') of
       None \<Rightarrow> (Inr None, g)
     | Some config \<Rightarrow>
         let mode = lower (strip (text_of env (py_or (jget config ''mode'') (VStr [])))) in
         if mode \<notin> {''create'', ''continue''} then (Inr None, g)
         else if \<not> sv_goal_repo env then
           (Inl (RuntimeError ''Schedule goal metadata requires a configured goal repository''), g)
         else if mode = ''continue'' then
           (let goal_id = strip (text_of env (py_or (py_or (jget config ''goal_id'') (jget (sch_metadata schedule) ''last_goal_id'')) (VStr [])))
            in if goal_id = [] then
                 (Inl (ValueError (''Schedule '' @ quote (sch_id schedule) @ '' is configured to continue a goal but no goal_id is set'')), g)
               else case map_of (sg_goals g) goal_id of
                 None \<Rightarrow> (Inl (ValueError (''Goal '' @ quote goal_id @ '' configured for schedule '' @ quote (sch_id schedule) @ '' was not found'')), g)
               | Some goal \<Rightarrow> (Inr (Some goal), g))
         else
           (let (i, w) = uuid4 (sg_world g) in
            case new_goal env schedule config fire_at now i of
              Inl e \<Rightarrow> (Inl e, g\<lparr>sg_world := w\<rparr>)
            | Inr goal \<Rightarrow> (Inr (Some goal), g\<lparr>sg_world := w\<rparr>)))"

definition link_execution_to_goal :: "GoalDefinition \<Rightarrow> string \<Rightarrow> scheduling \<Rightarrow> scheduling" where
  "link_execution_to_goal goal execution_id g =
    (if execution_id \<in> set (gd_execution_ids goal) then g
     else g\<lparr>sg_goals := dset (gd_id goal) (goal\<lparr>gd_execution_ids := gd_execution_ids goal @ [execution_id],
            gd_updated_at := clock (sg_world g)\<rparr>) (sg_goals g)\<rparr>)"

section \<open>Firing a schedule\<close>

text \<open>The active executions a schedule has started.\<close>

fun of_schedule :: "string \<Rightarrow> Execution list \<Rightarrow> exc + Execution list" where
  "of_schedule schedule_id [] = Inr []"
| "of_schedule schedule_id (x # xs) =
    (case (case map_of (e_metadata x) ''trigger'' of None \<Rightarrow> Some [] | Some v \<Rightarrow> as_dict v) of
       None \<Rightarrow> Inl (AttributeError ''the trigger of an execution has no attribute get'')
     | Some trigger \<Rightarrow>
         sbind (of_schedule schedule_id xs) (\<lambda>ys.
           Inr (if jget trigger ''schedule_id'' = VStr schedule_id \<or> jget (e_metadata x) ''schedule_id'' = VStr schedule_id
             then x # ys else ys)))"

definition assert_concurrency :: "ScheduleDefinition \<Rightarrow> unit sact" where
  "assert_concurrency schedule g =
    (case of_schedule (sch_id schedule) (list_active_executions (db (sg_world g))) of
       Inl e \<Rightarrow> (Inl e, g)
     | Inr matching \<Rightarrow>
         if sch_max_concurrent_executions schedule \<le> int (length matching) then
           (Inl (OtherError ''ScheduleConcurrencyError'' (''Schedule '' @ quote (sch_id schedule) @
              '' has reached max_concurrent_executions='' @ int_str (sch_max_concurrent_executions schedule))), g)
         else (Inr (), g))"

definition schedule_trigger :: "ScheduleDefinition \<Rightarrow> string \<Rightarrow> datetime option \<Rightarrow> json option \<Rightarrow> string option \<Rightarrow> json" where
  "schedule_trigger schedule source fire_at event goal_id =
    [(''type'', VStr ''schedule''), (''created_by'', VStr ''scheduler''), (''source'', VStr source),
     (''schedule_id'', VStr (sch_id schedule)),
     (''schedule_trigger_type'', VStr (schedule_type_value (sch_trigger_type schedule)))] @
    (case as_dict (jget (sch_metadata schedule) ''physical_action'') of
       None \<Rightarrow> []
     | Some action \<Rightarrow> [(''physical_action'', VDict [(''device_id'', jget action ''device_id''),
          (''command_type'', jget action ''command_type''), (''status_tracking'', VBool True)])]) @
    (case fire_at of None \<Rightarrow> [] | Some t \<Rightarrow> [(''scheduled_fire_at'', VStr (isoformat t))]) @
    (case event of None \<Rightarrow> [] | Some d \<Rightarrow> [(''event'', VDict d)]) @
    (case or_str goal_id None of None \<Rightarrow> [] | Some i \<Rightarrow> [(''goal_id'', VStr i)])"

text \<open>The body of the \<open>try\<close>.\<close>

definition fire_schedule :: "scheduler_env \<Rightarrow> ScheduleDefinition \<Rightarrow> json \<Rightarrow> json \<Rightarrow> GoalDefinition option \<Rightarrow> Execution sact" where
  "fire_schedule env schedule trigger input_payload goal g =
    sthen (assert_concurrency schedule g) (\<lambda>_ g1.
    sthen (in_world (create_execution (sv_deployment env) (sch_workflow_id schedule) input_payload trigger
        (sch_runtime_adapter_override schedule) (map_option gd_id goal)) g1) (\<lambda>execution g2.
      let g3 = (case goal of None \<Rightarrow> g2 | Some gl \<Rightarrow> link_execution_to_goal gl (e_id execution) g2)
      in case sv_execution_starter env of
           None \<Rightarrow> (Inr execution, g3)
         | Some start \<Rightarrow> sthen (in_world (start (e_id execution)) g3) (\<lambda>_ g4. (Inr execution, g4))))"

definition schedule_metadata_after_fire :: "ScheduleDefinition \<Rightarrow> string \<Rightarrow> string option \<Rightarrow> json" where
  "schedule_metadata_after_fire schedule execution_id goal_id =
    (let metadata = dset ''last_execution_id'' (VStr execution_id) (sch_metadata schedule)
     in case or_str goal_id None of None \<Rightarrow> metadata | Some i \<Rightarrow> dset ''last_goal_id'' (VStr i) metadata)"

definition maybe_wake_goal_supervisor :: "scheduler_env \<Rightarrow> ScheduleDefinition \<Rightarrow> string option \<Rightarrow> string \<Rightarrow> unit sact" where
  "maybe_wake_goal_supervisor env schedule goal_id source g =
    (case (or_str goal_id None, sv_goal_supervisor_waker env) of
       (Some i, Some wake) \<Rightarrow>
         let supervisor = dict_or_empty (jget (sch_metadata schedule) ''goal_supervisor'')
         in if jget supervisor ''wake_on_event'' \<noteq> VBool True \<and> jget supervisor ''wake_on_fire'' \<noteq> VBool True then (Inr (), g)
            else sthen (in_world (wake i) g) (\<lambda>_ g1.
              (Inr (), record_operation ''scheduler.goal_supervisor_woken''
                 [(''schedule_id'', VStr (sch_id schedule)), (''goal_id'', VStr i), (''source'', VStr source)] g1))
     | _ \<Rightarrow> (Inr (), g))"

record ScheduledJobResult =
  jr_schedule :: ScheduleDefinition
  jr_execution_id :: string
  jr_triggered_at :: datetime
  jr_metadata :: json

text \<open>The \<open>except\<close> clauses, and what follows the \<open>try\<close>.\<close>

definition launch_failed :: "scheduler_env \<Rightarrow> ScheduleDefinition \<Rightarrow> string \<Rightarrow> datetime option \<Rightarrow> exc \<Rightarrow> 'a sact" where
  "launch_failed env schedule source fire_at e g =
    (let g1 = (case fire_at of None \<Rightarrow> g | Some t \<Rightarrow> mark_fire_claim_failed env (sch_id schedule) t g)
     in case e of
          WorkflowNotFoundError _ \<Rightarrow>
            sthen (disable_schedule env (sch_id schedule) g1) (\<lambda>_ g2.
              (Inl e, record_operation ''scheduler.schedule_disabled_missing_workflow''
                 [(''schedule_id'', VStr (sch_id schedule)), (''workflow_id'', VStr (sch_workflow_id schedule)),
                  (''source'', VStr source)] g2))
        | _ \<Rightarrow> (Inl e, g1))"

definition launched ::
  "scheduler_env \<Rightarrow> ScheduleDefinition \<Rightarrow> string \<Rightarrow> datetime \<Rightarrow> datetime option \<Rightarrow> string option \<Rightarrow> Execution \<Rightarrow> ScheduledJobResult sact" where
  "launched env schedule source now fire_at goal_id execution g =
    (let p = sv_pydantic env;
         g1 = (case fire_at of None \<Rightarrow> g | Some t \<Rightarrow> mark_fire_claim_fired env (sch_id schedule) t (e_id execution) g);
         patch = [(''last_fire_at'', VStr (isoformat now)),
            (''metadata'', VDict (schedule_metadata_after_fire schedule (e_id execution) goal_id))]
     in case sbind (schedule_of p [] (dmerge (schedule_dump p schedule) patch)) (\<lambda>fired.
            compute_next_fire (sv_zones env) fired now) of
          Inl e \<Rightarrow> (Inl e, g1)
        | Inr computation \<Rightarrow>
            sthen (update_schedule p (sch_id schedule) (patch @ [(''next_fire_at'', opt_isoformat (tg_next_fire_at computation))]) g1) (\<lambda>_ g2.
            sthen (maybe_wake_goal_supervisor env schedule goal_id source g2) (\<lambda>_ g3.
              (Inr \<lparr>jr_schedule = (case get_schedule (sch_id schedule) g3 of Some s \<Rightarrow> s | None \<Rightarrow> schedule),
                jr_execution_id = e_id execution, jr_triggered_at = now,
                jr_metadata = [(''source'', VStr source), (''goal_id'', opt_str goal_id)]\<rparr>, g3))))"

definition trigger_now :: "scheduler_env \<Rightarrow> string \<Rightarrow> string \<Rightarrow> datetime option \<Rightarrow> json option \<Rightarrow> ScheduledJobResult sact" where
  "trigger_now env schedule_id source fire_at event g =
    (case get_schedule schedule_id g of
       None \<Rightarrow> (Inl (ValueError (''Schedule '' @ quote schedule_id @ '' not found'')), g)
     | Some schedule \<Rightarrow>
         let now = clock (sg_world g) in
         sthen (resolve_schedule_goal env schedule fire_at now g) (\<lambda>goal g1.
           let goal_id = map_option gd_id goal;
               trigger = schedule_trigger schedule source fire_at event goal_id;
               input_payload = (case or_str goal_id None of
                   None \<Rightarrow> sch_input_template schedule
                 | Some i \<Rightarrow> dsetdefault ''goal_id'' (VStr i) (sch_input_template schedule))
           in case fire_schedule env schedule trigger input_payload goal g1 of
                (Inl e, g2) \<Rightarrow> launch_failed env schedule source fire_at e g2
              | (Inr execution, g2) \<Rightarrow> launched env schedule source now fire_at goal_id execution g2))"

section \<open>Due schedules\<close>

definition failure_payload :: "ScheduleDefinition \<Rightarrow> json \<Rightarrow> exc \<Rightarrow> json" where
  "failure_payload schedule extra e =
    [(''schedule_id'', VStr (sch_id schedule))] @
    (case e of WorkflowNotFoundError _ \<Rightarrow> [(''workflow_id'', VStr (sch_workflow_id schedule))] | _ \<Rightarrow> []) @ extra @
    [(''error_type'', VStr (exc_name e)), (''error'', VStr (exc_str e))]"

definition failed_action :: "string \<Rightarrow> exc \<Rightarrow> string" where
  "failed_action kind e =
    ''scheduler.'' @ kind @ (case e of WorkflowNotFoundError _ \<Rightarrow> ''_fire_missing_workflow'' | _ \<Rightarrow> ''_fire_failed'')"

fun run_due :: "scheduler_env \<Rightarrow> datetime \<Rightarrow> ScheduleDefinition list \<Rightarrow> ScheduledJobResult list sact" where
  "run_due env now [] g = (Inr [], g)"
| "run_due env now (schedule # rest) g =
    (case compute_next_fire (sv_zones env) schedule now of
       Inl e \<Rightarrow> (Inl e, g)
     | Inr computation \<Rightarrow>
         if \<not> tg_ready computation then run_due env now rest g
         else
           let fire_at = (case sch_next_fire_at schedule of Some t \<Rightarrow> t | None \<Rightarrow> now);
               (taken, g1) = acquire_fire_claim env (sch_id schedule) fire_at g
           in if \<not> taken then run_due env now rest g1
              else case trigger_now env (sch_id schedule) ''scheduler'' (Some fire_at) None g1 of
                (Inl e, g2) \<Rightarrow> run_due env now rest (record_operation (failed_action ''due'' e)
                    (failure_payload schedule [(''scheduled_fire_at'', VStr (isoformat fire_at))] e) g2)
              | (Inr result, g2) \<Rightarrow>
                  sthen (run_due env now rest g2) (\<lambda>results g3. (Inr (result # results), g3)))"

definition run_due_schedules :: "scheduler_env \<Rightarrow> ScheduledJobResult list sact" where
  "run_due_schedules env g = run_due env (clock (sg_world g)) (list_schedules g) g"

section \<open>Events\<close>

text \<open>Equality of values: numbers are compared by value, objects without regard to order.\<close>

fun number_value :: "pyval \<Rightarrow> pyfloat option" where
  "number_value (VBool b) = Some (Fin (if b then 1 else 0))"
| "number_value (VInt i) = Some (Fin (of_int i))"
| "number_value (VFloat f) = (if f = NaN then None else Some f)"
| "number_value _ = None"

fun py_eq :: "pyval \<Rightarrow> pyval \<Rightarrow> bool" where
  "py_eq VNone v = (v = VNone)"
| "py_eq (VStr s) v = (v = VStr s)"
| "py_eq (VList xs) v = (case v of VList ys \<Rightarrow> list_all2 py_eq xs ys | _ \<Rightarrow> False)"
| "py_eq (VDict d) v = (case v of
     VDict d' \<Rightarrow> length d = length d' \<and>
       list_all (\<lambda>x. case map_of d' (fst x) of None \<Rightarrow> False | Some u \<Rightarrow> py_eq (snd x) u) d
   | _ \<Rightarrow> False)"
| "py_eq u v = (number_value u \<noteq> None \<and> number_value u = number_value v)"

definition value_at_path :: "json \<Rightarrow> string \<Rightarrow> pyval" where
  "value_at_path payload path =
    fold (\<lambda>part current. case as_dict current of None \<Rightarrow> VNone | Some d \<Rightarrow> jget d part) (split_on ''.'' path) (VDict payload)"

definition normalized_event_types :: "scheduler_env \<Rightarrow> pyval \<Rightarrow> string list" where
  "normalized_event_types env v =
    (case v of
       VStr s \<Rightarrow> if strip s = [] then [] else [strip s]
     | VList xs \<Rightarrow> filter (\<lambda>t. t \<noteq> []) (map (\<lambda>x. strip (text_of env x)) xs)
     | _ \<Rightarrow> [])"

definition schedule_matches_event :: "scheduler_env \<Rightarrow> ScheduleDefinition \<Rightarrow> string \<Rightarrow> json \<Rightarrow> bool" where
  "schedule_matches_event env schedule event_type payload =
    (let config = sch_trigger_config schedule;
         configured = (if jget config ''event_types'' = VNone then jget config ''event_type'' else jget config ''event_types'');
         allowed = normalized_event_types env configured
     in \<not> (allowed \<noteq> [] \<and> event_type \<notin> set allowed) \<and>
        (case as_dict (jget config ''payload_matches'') of
           None \<Rightarrow> True
         | Some wanted \<Rightarrow> list_all (\<lambda>(key, expected). py_eq (value_at_path payload key) expected) wanted))"

fun dispatch_to :: "scheduler_env \<Rightarrow> string \<Rightarrow> json \<Rightarrow> json \<Rightarrow> string \<Rightarrow> ScheduleDefinition list \<Rightarrow> scheduling \<Rightarrow> ScheduledJobResult list \<times> scheduling" where
  "dispatch_to env event_type payload event source [] g = ([], g)"
| "dispatch_to env event_type payload event source (schedule # rest) g =
    (if \<not> sch_enabled schedule \<or> sch_trigger_type schedule \<noteq> EVENT_MATCH \<or> \<not> schedule_matches_event env schedule event_type payload
     then dispatch_to env event_type payload event source rest g
     else case trigger_now env (sch_id schedule) source None (Some event) g of
       (Inl e, g1) \<Rightarrow> dispatch_to env event_type payload event source rest
          (record_operation (failed_action ''event'' e) (failure_payload schedule [(''event_type'', VStr event_type)] e) g1)
     | (Inr result, g1) \<Rightarrow>
         let (results, g2) = dispatch_to env event_type payload event source rest g1 in (result # results, g2))"

definition dispatch_event :: "scheduler_env \<Rightarrow> string \<Rightarrow> json \<Rightarrow> string \<Rightarrow> ScheduledJobResult list sact" where
  "dispatch_event env event_type payload source g =
    (let normalized = strip event_type in
     if normalized = [] then (Inl (ValueError ''event_type is required''), g)
     else
       let event = [(''event_type'', VStr normalized), (''payload'', VDict payload),
              (''received_at'', VStr (isoformat (clock (sg_world g))))];
           (results, g1) = dispatch_to env normalized payload event source (list_schedules g) g
       in (Inr results, record_operation ''scheduler.event_dispatched''
            [(''event_type'', VStr normalized), (''matched_schedule_count'', VInt (int (length results)))] g1))"

definition service_dispatch_event :: "scheduler_env \<Rightarrow> json \<Rightarrow> ScheduledJobResult list sact" where
  "service_dispatch_event env payload g =
    dispatch_event env (strip (text_of env (py_or (py_or (jget payload ''event_type'') (jget payload ''type'')) (VStr []))))
      (dict_or_empty (jget payload ''payload'')) (text_of env (py_or (jget payload ''source'') (VStr ''event''))) g"

end
