(* ===== verification/Scheduler_Properties.thy ===== *)
theory Scheduler_Properties
  imports Scheduler Isolation_Properties
begin

text \<open>
  What schedules guarantee: a cron schedule fires at the first minute that matches, a fire time is claimed by
  one scheduler at a time and never after it has fired, and no more executions of a schedule are active than it
  allows; and where they fail: a schedule that is patched keeps its fire time, one whose fire time was not
  advanced never fires again, and one whose fire time cannot be computed keeps all later ones from firing.
\<close>

lemma sbind_Inr_iff: "sbind r f = Inr y \<longleftrightarrow> (\<exists>x. r = Inr x \<and> f x = Inr y)"
  by (cases r) (simp_all add: sbind_def)

section \<open>Cron\<close>

lemma minute_pos: "0 < minute"
  by (simp add: minute_def)

lemma minute_steps:
  "minute dvd q - (c + minute) \<longleftrightarrow> minute dvd q - c"
  "minute dvd q - c \<Longrightarrow> c \<le> q \<Longrightarrow> q = c \<or> c + minute \<le> q"
  "c \<le> c + minute"
proof -
  have "q - c = (q - (c + minute)) + minute" by simp
  then show "minute dvd q - (c + minute) \<longleftrightarrow> minute dvd q - c" by (metis dvd_add_triv_right_iff)
  show "minute dvd q - c \<Longrightarrow> c \<le> q \<Longrightarrow> q = c \<or> c + minute \<le> q" using zdvd_imp_le [of minute "q - c"] by force
qed (simp add: minute_def)

lemma cron_search_next:
  assumes "c \<le> limit" and "matches c = Inr False"
  shows "cron_search matches limit c = cron_search matches limit (c + minute)"
  using assms by (subst cron_search.simps) simp

lemma cron_search_found:
  "cron_search matches limit c = Inr (Some r) \<Longrightarrow>
   c \<le> r \<and> r \<le> limit \<and> minute dvd r - c \<and> matches r = Inr True \<and>
   (\<forall>q. c \<le> q \<longrightarrow> q < r \<longrightarrow> minute dvd q - c \<longrightarrow> matches q = Inr False)"
proof (induction matches limit c rule: cron_search.induct)
  case (1 matches limit c)
  show ?case
  proof (cases "c \<le> limit \<and> matches c = Inr False")
    case True
    then have "cron_search matches limit (c + minute) = Inr (Some r)" using "1.prems" cron_search_next by auto
    then have ih: "c + minute \<le> r" "r \<le> limit" "minute dvd r - c" "matches r = Inr True"
      "\<And>q. c + minute \<le> q \<Longrightarrow> q < r \<Longrightarrow> minute dvd q - c \<Longrightarrow> matches q = Inr False"
      using "1.IH" [of False] True by (auto simp: minute_steps(1))
    moreover have "matches q = Inr False" if "c \<le> q" "q < r" "minute dvd q - c" for q
      using minute_steps(2) [OF that(3,1)] ih(5) [of q] that True by auto
    ultimately show ?thesis using minute_steps(3) [of c] by auto
  next
    case False
    then show ?thesis using "1.prems" by (subst (asm) cron_search.simps) (auto split: sum.splits if_splits)
  qed
qed

lemma cron_search_total: "(\<And>q. \<not> isl (matches q)) \<Longrightarrow> \<not> isl (cron_search matches limit c)"
proof (induction matches limit c rule: cron_search.induct)
  case (1 matches limit c)
  then have "\<not> isl (matches c)" by blast
  then obtain b where "matches c = Inr b" by (cases "matches c") auto
  then show ?case using 1 by (subst cron_search.simps) auto
qed

lemma cron_search_missed:
  "cron_search matches limit c = Inr None \<longleftrightarrow>
   (\<forall>q. c \<le> q \<longrightarrow> q \<le> limit \<longrightarrow> minute dvd q - c \<longrightarrow> matches q = Inr False)"
proof (induction matches limit c rule: cron_search.induct)
  case (1 matches limit c)
  show ?case
  proof (cases "c \<le> limit \<and> matches c = Inr False")
    case True
    have "cron_search matches limit (c + minute) = Inr None \<longleftrightarrow>
        (\<forall>q. c + minute \<le> q \<longrightarrow> q \<le> limit \<longrightarrow> minute dvd q - c \<longrightarrow> matches q = Inr False)"
      using "1.IH" [of False] True by (simp add: minute_steps(1))
    moreover have "(\<forall>q. c + minute \<le> q \<longrightarrow> q \<le> limit \<longrightarrow> minute dvd q - c \<longrightarrow> matches q = Inr False) \<longleftrightarrow>
        (\<forall>q. c \<le> q \<longrightarrow> q \<le> limit \<longrightarrow> minute dvd q - c \<longrightarrow> matches q = Inr False)"
      using True minute_steps(2) [of _ c] minute_pos by fastforce
    ultimately show ?thesis using True cron_search_next by simp
  next
    case False
    then show ?thesis by (subst cron_search.simps) (auto split: sum.splits if_splits)
  qed
qed

lemma candidate_steps:
  "minute dvd first_candidate t" "t < first_candidate t" "first_candidate t \<le> t + minute"
  "minute dvd q \<Longrightarrow> t < q \<Longrightarrow> first_candidate t \<le> q"
proof -
  show d: "minute dvd first_candidate t" by (simp add: first_candidate_def)
  have f: "first_candidate t = t - t mod minute + minute" by (simp add: first_candidate_def minus_mod_eq_div_mult)
  show "t < first_candidate t" using pos_mod_bound [OF minute_pos, of t] by (simp add: f)
  show u: "first_candidate t \<le> t + minute" using pos_mod_sign [OF minute_pos, of t] by (simp add: f)
  assume q: "minute dvd q" "t < q"
  show "first_candidate t \<le> q"
  proof (rule ccontr)
    assume "\<not> first_candidate t \<le> q"
    then have "minute \<le> first_candidate t - q" using q d by (intro zdvd_imp_le) auto
    then show False using u q by simp
  qed
qed


section \<open>Definitions that are read back\<close>

lemma map_of_take_alias [simp]:
  "k \<noteq> name \<Longrightarrow> map_of (take_alias alias name d) k = map_of d k"
  "map_of d name \<noteq> None \<Longrightarrow> map_of (take_alias alias name d) name = map_of d name"
  by (auto simp: take_alias_def map_of_dset split: option.splits)

lemma map_of_fold_dpop: "map_of (fold dpop ks d) k = (if k \<in> set ks then None else map_of d k)"
  by (induction ks arbitrary: d) auto

lemma canonical_keeps:
  assumes "k \<notin> {''schedule_type'', ''cron'', ''interval_seconds'', ''runtime_adapter_id'', ''input_payload'', ''next_run_at'',
      ''trigger_type'', ''trigger_config'', ''runtime_adapter_override'', ''input_template''}"
    and "k = ''next_fire_at'' \<longrightarrow> map_of data k \<noteq> None"
  shows "map_of (canonical_fields t c data) k = map_of data k"
proof -
  have "map_of (take_alias ''next_run_at'' ''next_fire_at'' d) k = map_of d k" if "map_of d k = map_of data k" for d
    using that assms(2) by (cases "k = ''next_fire_at''") auto
  then show ?thesis using assms(1) by (simp add: canonical_fields_def map_of_fold_dpop map_of_dset Let_def del: fold.simps fold_simps)
qed

lemma normalized_keeps:
  assumes "normalize_schedule_fields data = Inr d"
  shows "map_of d ''id'' = map_of data ''id''"
    and "map_of data ''next_fire_at'' \<noteq> None \<Longrightarrow> map_of d ''next_fire_at'' = map_of data ''next_fire_at''"
proof -
  obtain t c where "d = canonical_fields t c data"
    using assms unfolding normalize_schedule_fields_def Let_def
    by (cases "as_dict (py_or (jget data ''trigger_config'') (VDict []))") auto
  then show "map_of d ''id'' = map_of data ''id''"
    and "map_of data ''next_fire_at'' \<noteq> None \<Longrightarrow> map_of d ''next_fire_at'' = map_of data ''next_fire_at''"
    by (simp_all add: canonical_keeps)
qed

lemma validated_same: "validate_schedule_configuration s = Inr s' \<Longrightarrow> s' = s"
  by (simp add: validate_schedule_configuration_def split: if_splits)

lemma read_schedule_keeps:
  "read_schedule p fresh d = Inr s \<Longrightarrow> field_or (Inr fresh) str_field d ''id'' = Inr (sch_id s) \<and>
     field_or (Inr None) (opt_datetime_field p) d ''next_fire_at'' = Inr (sch_next_fire_at s)"
  unfolding read_schedule_def
  by (elim sbind_InrE) (drule validated_same, simp)

lemma schedule_of_keeps:
  assumes "schedule_of p fresh data = Inr s"
  shows "map_of data ''id'' = Some (VStr i) \<Longrightarrow> sch_id s = i"
    and "map_of data ''next_fire_at'' = Some v \<Longrightarrow> opt_datetime_field p v = Inr (sch_next_fire_at s)"
proof -
  obtain d where n: "normalize_schedule_fields data = Inr d" and r: "read_schedule p fresh d = Inr s"
    using assms by (auto simp: schedule_of_def sbind_Inr_iff split: if_splits)
  note k = normalized_keeps [OF n] and f = read_schedule_keeps [OF r]
  show "map_of data ''id'' = Some (VStr i) \<Longrightarrow> sch_id s = i" using f k(1) by (simp add: field_or_def str_field_def)
  show "map_of data ''next_fire_at'' = Some v \<Longrightarrow> opt_datetime_field p v = Inr (sch_next_fire_at s)"
    using f k(2) by (simp add: field_or_def)
qed

lemma dump_normal: "normalize_schedule_fields (schedule_dump p s) = Inr (schedule_dump p s)"
proof -
  have g: "map_of (schedule_dump p s) ''trigger_type'' = Some (VStr (schedule_type_value (sch_trigger_type s)))"
    "jget (schedule_dump p s) ''trigger_config'' = VDict (sch_trigger_config s)"
    "jget (schedule_dump p s) ''cron'' = VNone" "jget (schedule_dump p s) ''interval_seconds'' = VNone"
    by (simp_all add: schedule_dump_def jget_def)
  have c: "as_dict (py_or (VDict (sch_trigger_config s)) (VDict [])) = Some (sch_trigger_config s)"
    by (cases "sch_trigger_config s") (simp_all add: py_or_def)
  have "canonical_fields (VStr (schedule_type_value (sch_trigger_type s))) (sch_trigger_config s) (schedule_dump p s) = schedule_dump p s"
    by (simp add: canonical_fields_def take_alias_def schedule_dump_def Let_def)
  then show ?thesis by (simp add: normalize_schedule_fields_def g c Let_def)
qed

lemma trigger_type_back: "trigger_type_field (VStr (schedule_type_value t)) = Inr t"
  by (cases t) (simp_all add: trigger_type_field_def schedule_type_of_def)

definition reads_back :: "pydantic \<Rightarrow> ScheduleDefinition \<Rightarrow> bool" where
  "reads_back p s \<longleftrightarrow> (\<forall>b. pd_bool p (VBool b) = Inr b) \<and> (\<forall>n. pd_int p (VInt n) = Inr n) \<and>
    opt_datetime_field p (opt_datetime_text p (sch_next_fire_at s)) = Inr (sch_next_fire_at s) \<and>
    opt_datetime_field p (opt_datetime_text p (sch_last_fire_at s)) = Inr (sch_last_fire_at s)"

lemma schedule_roundtrip:
  assumes "reads_back p s" and "validate_schedule_configuration s = Inr s"
  shows "schedule_of p fresh (schedule_dump p s) = Inr s"
proof -
  have f: "field_or a r (schedule_dump p s) ''id'' = r (VStr (sch_id s))"
   "field_or a r (schedule_dump p s) ''name'' = r (VStr (sch_name s))"
   "field_or a r (schedule_dump p s) ''workflow_id'' = r (VStr (sch_workflow_id s))" for a and r :: "pyval \<Rightarrow> exc + string"
    by (simp_all add: field_or_def schedule_dump_def)
  have "opt_str_field (opt_str a) = Inr a" for a by (cases a) (simp_all add: opt_str_field_def str_field_def)
  then have "read_schedule p fresh (schedule_dump p s) = validate_schedule_configuration s"
    using assms(1) by (cases s) (simp add: read_schedule_def f field_or_def schedule_dump_def str_field_def dict_field_def trigger_type_back reads_back_def)
  moreover have "list_all (\<lambda>k. k \<in> set schedule_fields) (dkeys (schedule_dump p s))"
    by (simp add: schedule_dump_def schedule_fields_def dkeys_def)
  ultimately show ?thesis using assms(2) by (simp add: schedule_of_def dump_normal)
qed

section \<open>What firing a schedule leaves alone\<close>

text \<open>The row of a schedule and the claims on its fire times are as they were.\<close>

definition keeps :: "string \<Rightarrow> scheduling \<Rightarrow> scheduling \<Rightarrow> bool" where
  "keeps i g g' \<longleftrightarrow> get_schedule i g' = get_schedule i g \<and> (\<forall>t. sql_claim (sg_claims g') i t = sql_claim (sg_claims g) i t) \<and>
    (slots_distinct (sg_claims g) \<longrightarrow> slots_distinct (sg_claims g')) \<and>
    (distinct (map sch_id (sg_schedules g)) \<longrightarrow> distinct (map sch_id (sg_schedules g')))"

lemma keeps_refl [simp]: "keeps i g g"
  by (simp add: keeps_def)

lemma keeps_trans: "keeps i g g' \<Longrightarrow> keeps i g' g'' \<Longrightarrow> keeps i g g''"
  by (simp add: keeps_def)

lemma keeps_same: "sg_schedules g' = sg_schedules g \<Longrightarrow> sg_claims g' = sg_claims g \<Longrightarrow> keeps i g g'"
  by (simp add: keeps_def get_schedule_def)

lemma keeps_sthen:
  assumes "keeps i g (snd r)" and "\<And>x g'. r = (Inr x, g') \<Longrightarrow> keeps i g' (snd (f x g'))"
  shows "keeps i g (snd (sthen r f))"
proof (cases r)
  case (Pair a b)
  then show ?thesis using assms by (cases a) (auto intro: keeps_trans)
qed

lemma keeps_in_world [simp]: "keeps i g (snd (in_world f g))"
  by (auto simp: in_world_def case_prod_unfold Let_def intro: keeps_same)

lemma keeps_record [simp]: "keeps i g (record_operation a p g)"
  by (auto simp: record_operation_def Let_def intro: keeps_same)

lemma get_schedule_id: "get_schedule i g = Some s \<Longrightarrow> sch_id s = i"
  by (auto simp: get_schedule_def find_Some_iff)

lemma keeps_save:
  assumes "sch_id item \<noteq> i"
  shows "keeps i g (save_schedule item g)"
proof -
  have "find (\<lambda>s. sch_id s = i) (map (\<lambda>s. if sch_id s = sch_id item then item else s) ss) = find (\<lambda>s. sch_id s = i) ss" for ss
    using assms by (induction ss) auto
  moreover have "find (\<lambda>s. sch_id s = i) (ss @ [item]) = find (\<lambda>s. sch_id s = i) ss" for ss
    using assms by (induction ss) auto
  moreover have "map sch_id (map (\<lambda>s. if sch_id s = sch_id item then item else s) ss) = map sch_id ss" for ss
    by (induction ss) auto
  ultimately show ?thesis
    by (auto simp: keeps_def save_schedule_def get_schedule_def find_None_iff simp del: map_map)
qed

lemma keeps_update:
  assumes "j \<noteq> i" and "map_of (rev patch) ''id'' = None"
  shows "keeps i g (snd (update_schedule p j patch g))"
proof (cases "get_schedule j g")
  case (Some current)
  have "map_of (dmerge (schedule_dump p current) patch) ''id'' = Some (VStr j)"
    using get_schedule_id [OF Some] assms(2) by (simp add: map_of_dmerge schedule_dump_def)
  then have "sch_id merged = j" if "schedule_of p [] (dmerge (schedule_dump p current) patch) = Inr merged" for merged
    using schedule_of_keeps(1) [OF that] by blast
  then show ?thesis using Some assms(1) by (auto simp: update_schedule_def split: sum.splits intro: keeps_save)
qed (simp add: update_schedule_def)

lemma keeps_claims:
  assumes "j \<noteq> i"
  shows "slots_distinct (sg_claims g) \<Longrightarrow> keeps i g (snd (acquire_fire_claim env j t g))"
    and "slots_distinct (sg_claims g) \<Longrightarrow> keeps i g (mark_fire_claim_fired env j t x g)"
    and "slots_distinct (sg_claims g) \<Longrightarrow> keeps i g (mark_fire_claim_failed env j t g)"
  using sql_claims.frame [of "sg_claims g" i _ j t] sql_claims.keeps_okay [of "sg_claims g" _ _ j t] assms
  by (auto simp: keeps_def acquire_fire_claim_def mark_fire_claim_fired_def mark_fire_claim_failed_def get_schedule_def
      record_operation_def Let_def case_prod_unfold)

lemma keeps_launch [simp]:
  "keeps i g (snd (resolve_schedule_goal env s fire_at now g))"
  "keeps i g (snd (fire_schedule env s trigger input goal g))"
  "keeps i g (snd (maybe_wake_goal_supervisor env s goal_id source g))"
proof -
  show "keeps i g (snd (resolve_schedule_goal env s fire_at now g))"
    by (auto simp: resolve_schedule_goal_def Let_def uuid4_def split: option.splits sum.splits intro: keeps_same)
  have link: "keeps i g (case goal of None \<Rightarrow> g | Some gl \<Rightarrow> link_execution_to_goal gl x g)" for x g
    by (cases goal) (auto simp: link_execution_to_goal_def intro: keeps_same)
  have conc: "keeps i g (snd (assert_concurrency s g))"
    by (simp add: assert_concurrency_def split: sum.split)
  show "keeps i g (snd (fire_schedule env s trigger input goal g))"
    unfolding fire_schedule_def Let_def
  proof (intro keeps_sthen conc keeps_in_world)
    show "keeps i g2 (snd (case sv_execution_starter env of
         None \<Rightarrow> (Inr x, case goal of None \<Rightarrow> g2 | Some gl \<Rightarrow> link_execution_to_goal gl (e_id x) g2)
       | Some start \<Rightarrow> sthen (in_world (start (e_id x)) (case goal of None \<Rightarrow> g2 | Some gl \<Rightarrow> link_execution_to_goal gl (e_id x) g2))
           (\<lambda>_ g4. (Inr x, g4))))" for g2 x
    proof (cases "sv_execution_starter env")
      case (Some start)
      show ?thesis unfolding Some option.case
        by (rule keeps_trans [OF link [where x = "e_id x"]], rule keeps_sthen) simp_all
    qed (simp add: link)
  qed
  show "keeps i g (snd (maybe_wake_goal_supervisor env s goal_id source g))"
    by (auto simp: maybe_wake_goal_supervisor_def Let_def split: option.splits intro!: keeps_sthen)
qed

lemma keepsD: "keeps i g g' \<Longrightarrow> slots_distinct (sg_claims g) \<Longrightarrow> slots_distinct (sg_claims g')"
  by (simp add: keeps_def)

lemma keeps_launch_failed:
  assumes "sch_id s \<noteq> i" and d: "slots_distinct (sg_claims g)"
  shows "keeps i g (snd (launch_failed env s source fire_at e g))"
proof -
  define g1 where "g1 = (case fire_at of None \<Rightarrow> g | Some t \<Rightarrow> mark_fire_claim_failed env (sch_id s) t g)"
  have m: "keeps i g g1" unfolding g1_def using keeps_claims(3) [OF assms] by (cases fire_at) auto
  have "keeps i g1 (snd (sthen (disable_schedule env (sch_id s) g1) (\<lambda>_ g2. (Inl e, record_operation a p g2))))" for a p
    unfolding disable_schedule_def by (intro keeps_sthen keeps_update) (use assms(1) in auto)
  then show ?thesis
    unfolding launch_failed_def Let_def g1_def [symmetric] using m by (cases e) (auto intro: keeps_trans [OF m])
qed

lemma keeps_launched:
  assumes "sch_id s \<noteq> i" and d: "slots_distinct (sg_claims g)"
  shows "keeps i g (snd (launched env s source now fire_at goal_id x g))"
proof -
  define g1 where "g1 = (case fire_at of None \<Rightarrow> g | Some t \<Rightarrow> mark_fire_claim_fired env (sch_id s) t (e_id x) g)"
  have m: "keeps i g g1" unfolding g1_def using keeps_claims(2) [OF assms] by (cases fire_at) auto
  show ?thesis
    unfolding launched_def Let_def g1_def [symmetric]
    by (auto split: sum.split intro!: keeps_trans [OF m] keeps_sthen keeps_update m assms(1))
qed

lemma keeps_trigger:
  assumes "j \<noteq> i" and d: "slots_distinct (sg_claims g)"
  shows "keeps i g (snd (trigger_now env j source fire_at event g))"
proof (cases "get_schedule j g")
  case (Some s)
  have j: "sch_id s \<noteq> i" using get_schedule_id [OF Some] assms(1) by simp
  show ?thesis
    unfolding trigger_now_def Some option.case Let_def
  proof (rule keeps_sthen)
    fix goal g1
    assume "resolve_schedule_goal env s fire_at (clock (sg_world g)) g = (Inr goal, g1)"
    then have d1: "slots_distinct (sg_claims g1)" using keeps_launch(1) [of i g env s fire_at "clock (sg_world g)"] d keepsD by fastforce
    let ?l = "fire_schedule env s (schedule_trigger s source fire_at event (map_option gd_id goal))
       (case or_str (map_option gd_id goal) None of None \<Rightarrow> sch_input_template s
          | Some i \<Rightarrow> dsetdefault ''goal_id'' (VStr i) (sch_input_template s)) goal g1"
    have l: "keeps i g1 (snd ?l)" by simp
    have d2: "slots_distinct (sg_claims (snd ?l))" by (rule keepsD [OF l d1])
    show "keeps i g1 (snd (case ?l of (Inl e, g2) \<Rightarrow> launch_failed env s source fire_at e g2
        | (Inr x, g2) \<Rightarrow> launched env s source (clock (sg_world g)) fire_at (map_option gd_id goal) x g2))"
      using keeps_trans [OF l keeps_launch_failed [OF j d2]] keeps_trans [OF l keeps_launched [OF j d2]]
      by (cases ?l; cases "fst ?l") (simp_all only: prod.case sum.case fst_conv snd_conv)
  qed simp
qed (simp add: trigger_now_def)

section \<open>Schedules that never fire again\<close>

text \<open>
  The execution of the fire time \<open>t\<close> of schedule \<open>i\<close> has been started, but the row has not been advanced to the
  next fire time.
\<close>

definition unadvanced :: "string \<Rightarrow> datetime \<Rightarrow> scheduling \<Rightarrow> bool" where
  "unadvanced i t g \<longleftrightarrow> slots_distinct (sg_claims g) \<and> distinct (map sch_id (sg_schedules g)) \<and>
    (\<exists>s. get_schedule i g = Some s \<and> sch_next_fire_at s = Some t) \<and>
    (\<exists>c. sql_claim (sg_claims g) i t = Some c \<and> fc_status c = ''fired'')"

lemma keeps_unadvanced: "keeps i g g' \<Longrightarrow> unadvanced i t g \<Longrightarrow> unadvanced i t g'"
  by (simp add: keeps_def unadvanced_def)

lemma acquire_unadvanced:
  assumes "unadvanced i t g" and "sv_claims_supported env"
  shows "\<not> fst (acquire_fire_claim env i t g)" and "keeps i g (snd (acquire_fire_claim env i t g))"
proof -
  obtain c where c: "slots_distinct (sg_claims g)" "sql_claim (sg_claims g) i t = Some c" "fc_status c = ''fired''"
    using assms(1) by (auto simp: unadvanced_def)
  define r where "r = sql_acquire (clock (snd (uuid4 (sg_world g)))) (fst (uuid4 (sg_world g))) i t (sv_scheduler_id env)
    (sv_claim_lease_seconds env) (sg_claims g)"
  have e: "acquire_fire_claim env i t g = (fst r, g\<lparr>sg_world := snd (uuid4 (sg_world g)), sg_claims := snd r\<rparr>)"
    using assms(2) by (simp add: acquire_fire_claim_def r_def case_prod_unfold Let_def)
  have no: "\<not> fst r" using sql_claims.acquire_takes [OF c(1)] c(2,3) by (cases r) (fastforce simp: r_def)
  then have "sql_claim (snd r) = sql_claim (sg_claims g)"
    using sql_claims.acquire_refused [OF c(1)] by (cases r) (simp add: r_def)
  moreover have "slots_distinct (snd r)" using sql_claims.keeps_okay [OF c(1)] by (simp add: r_def)
  ultimately show "\<not> fst (acquire_fire_claim env i t g)" "keeps i g (snd (acquire_fire_claim env i t g))"
    using no by (simp_all add: e keeps_def get_schedule_def)
qed

lemma sthen_collect:
  "snd (sthen r (\<lambda>x g. (Inr (f x), g))) = snd r" "isl (fst (sthen r (\<lambda>x g. (Inr (f x), g)))) = isl (fst r)"
  by (cases r; cases "fst r"; auto)+

lemma run_due_Cons:
  "run_due env now (s # rest) g =
    (let fire_at = (case sch_next_fire_at s of Some t \<Rightarrow> t | None \<Rightarrow> now); a = acquire_fire_claim env (sch_id s) fire_at g;
         r = trigger_now env (sch_id s) ''scheduler'' (Some fire_at) None (snd a)
     in case compute_next_fire (sv_zones env) s now of
          Inl e \<Rightarrow> (Inl e, g)
        | Inr x \<Rightarrow> if \<not> tg_ready x then run_due env now rest g
            else if \<not> fst a then run_due env now rest (snd a)
            else case fst r of
                Inl e \<Rightarrow> run_due env now rest (record_operation (failed_action ''due'' e)
                       (failure_payload s [(''scheduled_fire_at'', VStr (isoformat fire_at))] e) (snd r))
              | Inr result \<Rightarrow> sthen (run_due env now rest (snd r)) (\<lambda>results g3. (Inr (result # results), g3)))"
  by (simp add: case_prod_unfold Let_def split: sum.split)

lemma run_due_unadvanced:
  assumes c: "sv_claims_supported env" and "unadvanced i t g"
    and "\<And>s. s \<in> set ss \<Longrightarrow> sch_id s = i \<Longrightarrow> sch_next_fire_at s = Some t"
  shows "keeps i g (snd (run_due env now ss g))"
  using assms(2,3)
proof (induction ss arbitrary: g)
  case (Cons s rest)
  have step: "keeps i g (snd (run_due env now rest g'))" if k: "keeps i g g'" for g'
    by (rule keeps_trans [OF k]) (rule Cons.IH [OF keeps_unadvanced [OF k Cons.prems(1)]], use Cons.prems(2) in simp)
  have d: "slots_distinct (sg_claims g)" using Cons.prems(1) by (simp add: unadvanced_def)
  define due where "due = (case sch_next_fire_at s of Some t \<Rightarrow> t | None \<Rightarrow> now)"
  define a where "a = acquire_fire_claim env (sch_id s) due g"
  have ka: "keeps i g (snd a)"
  proof (cases "sch_id s = i")
    case True
    then show ?thesis using acquire_unadvanced(2) [OF Cons.prems(1) c] Cons.prems(2) by (simp add: a_def due_def)
  next
    case False
    then show ?thesis unfolding a_def using keeps_claims(1) d by simp
  qed
  have fired: "keeps i g (snd (trigger_now env (sch_id s) src at' ev (snd a)))" if "fst a" for src at' ev
  proof -
    have "sch_id s \<noteq> i"
      using that acquire_unadvanced(1) [OF Cons.prems(1) c] Cons.prems(2) [of s] by (auto simp: a_def due_def)
    then show ?thesis using keeps_trans [OF ka keeps_trigger] keepsD [OF ka d] by blast
  qed
  define r where "r = trigger_now env (sch_id s) ''scheduler'' (Some due) None (snd a)"
  note run_due_Cons [of env now s rest g, unfolded Let_def, folded due_def, folded a_def, folded r_def]
  moreover have "keeps i g (snd r)" if "fst a" using fired [OF that] by (simp add: r_def)
  ultimately show ?case
    using step [OF keeps_refl] step [OF ka] step [of "snd r"] step [OF keeps_trans [OF _ keeps_record]]
    by (auto split: sum.split intro!: keeps_sthen)
qed simp

text \<open>The scheduler loop at successive times.\<close>

fun ticks :: "scheduler_env \<Rightarrow> datetime list \<Rightarrow> scheduling \<Rightarrow> scheduling" where
  "ticks env [] g = g"
| "ticks env (now # later) g = ticks env later (snd (run_due_schedules env (g\<lparr>sg_world := (sg_world g)\<lparr>clock := now\<rparr>\<rparr>)))"

lemma get_schedule_unique:
  assumes "distinct (map sch_id (sg_schedules g))" and "s \<in> set (sg_schedules g)"
  shows "get_schedule (sch_id s) g = Some s"
proof -
  have "distinct (map sch_id ss) \<Longrightarrow> s \<in> set ss \<Longrightarrow> find (\<lambda>x. sch_id x = sch_id s) ss = Some s" for ss
    by (induction ss) (auto simp: image_iff)
  then show ?thesis using assms by (simp add: get_schedule_def)
qed

text \<open>
  C33: A schedule whose fire time was claimed and fired, but whose row was not advanced, never fires again: at every
  later tick of any scheduler its claim is refused, and its row, with the fire time, the last fire time and the
  last execution, stays as it is.
\<close>

theorem unadvanced_schedule_never_fires_again:
  assumes "sv_claims_supported env" and "unadvanced i t g"
  shows "\<not> fst (acquire_fire_claim env i t (ticks env ts g)) \<and> get_schedule i (ticks env ts g) = get_schedule i g"
proof -
  have "keeps i g (ticks env ts g)"
    using assms(2)
  proof (induction ts arbitrary: g)
    case (Cons now later)
    let ?g = "g\<lparr>sg_world := (sg_world g)\<lparr>clock := now\<rparr>\<rparr>"
    have k: "keeps i g ?g" by (simp add: keeps_same)
    have u: "unadvanced i t ?g" by (rule keeps_unadvanced [OF k Cons.prems])
    have "sch_next_fire_at s = Some t" if "s \<in> set (list_schedules ?g)" "sch_id s = i" for s
      using that u get_schedule_unique [of ?g s] by (auto simp: list_schedules_def unadvanced_def)
    then have "keeps i g (snd (run_due_schedules env ?g))"
      unfolding run_due_schedules_def by (intro keeps_trans [OF k] run_due_unadvanced [OF assms(1) u])
    then show ?case using Cons.IH [OF keeps_unadvanced [OF _ Cons.prems]] by (simp add: keeps_trans)
  qed simp
  then show ?thesis using keeps_unadvanced [OF _ assms(2)] acquire_unadvanced(1) assms(1) by (simp add: keeps_def)
qed

text \<open>How it comes to that: the next fire time is computed after the claim has been settled.\<close>

lemma uncomputable_leaves_unadvanced:
  assumes "get_schedule i g = Some s" and "sch_next_fire_at s = Some t" and "sv_claims_supported env"
    and "slots_distinct (sg_claims g)" and "distinct (map sch_id (sg_schedules g))"
    and "sql_claim (sg_claims g) i t = Some c" and "fc_claimed_by c = sv_scheduler_id env" and "fc_status c = ''claimed''"
    and "sbind (schedule_of (sv_pydantic env) [] (dmerge (schedule_dump (sv_pydantic env) s)
        [(''last_fire_at'', VStr (isoformat now)), (''metadata'', VDict (schedule_metadata_after_fire s (e_id x) goal_id))]))
      (\<lambda>r. compute_next_fire (sv_zones env) r now) = Inl e"
  shows "fst (launched env s source now (Some t) goal_id x g) = Inl e"
    and "unadvanced i t (snd (launched env s source now (Some t) goal_id x g))"
proof -
  have i: "sch_id s = i" by (rule get_schedule_id [OF assms(1)])
  have l: "launched env s source now (Some t) goal_id x g = (Inl e, mark_fire_claim_fired env i t (e_id x) g)"
    using assms(9) by (simp add: launched_def Let_def i)
  then show "fst (launched env s source now (Some t) goal_id x g) = Inl e" by simp
  show "unadvanced i t (snd (launched env s source now (Some t) goal_id x g))"
    using assms(1-5) sql_claims.settles [OF assms(4,6,7,8), of "clock (sg_world g)" "e_id x"]
      sql_claims.keeps_okay [OF assms(4), of _ _ i t]
    by (simp add: l mark_fire_claim_fired_def unadvanced_def get_schedule_def) blast
qed

text \<open>
  A schedule whose next fire time cannot be computed keeps all schedules listed after it from firing: the pass
  fails at that schedule, and the others are not even looked at.
\<close>

theorem uncomputable_schedule_blocks_the_rest:
  assumes "list_schedules g = before @ s # rest"
    and "compute_next_fire (sv_zones env) s (clock (sg_world g)) = Inl e"
  shows "isl (fst (run_due_schedules env g)) \<and>
    snd (run_due_schedules env g) = snd (run_due env (clock (sg_world g)) before g)"
proof -
  have "isl (fst (run_due env now (before @ s # rest) h)) \<and>
      snd (run_due env now (before @ s # rest) h) = snd (run_due env now before h)"
    if "compute_next_fire (sv_zones env) s now = Inl e" for now h
  proof (induction before arbitrary: h)
    case (Cons a before)
    show ?case
      unfolding append_Cons run_due_Cons Let_def using Cons.IH by (auto simp: sthen_collect split: sum.split)
  qed (simp add: that)
  then show ?thesis using assms by (simp add: run_due_schedules_def)
qed

section \<open>Patched schedules\<close>

lemma map_of_rev_distinct:
  assumes "distinct (map fst d)"
  shows "map_of (rev d) k = map_of d k"
proof -
  have "distinct (map fst (rev d))" using assms by (simp add: rev_map [symmetric])
  then show ?thesis using assms by (metis map_of_eqI map_of_eq_Some_iff set_rev option.exhaust not_Some_eq)
qed


section \<open>The limit on concurrent executions\<close>

lemma create_execution_rows:
  assumes "create_execution d workflow_id input trigger adapter goal w = (Inr x, w')"
  shows "executions (db w') = dset (e_id x) (x\<lparr>e_updated_at := clock w\<rparr>) (executions (db w))"
    and "map_of (e_metadata x) ''trigger'' = Some (VDict trigger)"
    and "clock w' = clock w"
proof -
  have rows: "executions (db (snd (prepare_execution y v))) = dset (e_id y) (y\<lparr>e_updated_at := clock v\<rparr>) (executions (db v))"
    "clock (snd (prepare_execution y v)) = clock v" "fst (prepare_execution y v) = y"
    "executions (db (snd (crewai_prepare_execution y v))) = dset (e_id y) (y\<lparr>e_updated_at := clock v\<rparr>) (executions (db v))"
    "clock (snd (crewai_prepare_execution y v)) = clock v" "fst (crewai_prepare_execution y v) = y" for y v
    by (simp_all add: prepare_execution_def crewai_prepare_execution_def new_state_def engine_emit_def emit_payload_def uuid4_def
        Let_def case_prod_unfold emit_executions(1) ACTIVITY_EVENT_TYPES_def save_execution_def repo_save_execution_def
        split: option.split)
  obtain y where y: "map_of (e_metadata y) ''trigger'' = Some (VDict trigger)"
    and x: "(if e_runtime_adapter_id y = ''native'' then prepare_execution y (snd (uuid4 w))
       else crewai_prepare_execution y (snd (uuid4 w))) = (x, w')"
  proof (cases "p_get_workflow (dp_plane d) workflow_id")
    case None
    then show ?thesis using assms by (simp add: create_execution_def)
  next
    case (Some workflow)
    let ?y = "sbind (resolve_adapter_for_workflow d workflow (normalized_runtime_adapter_id adapter)) (\<lambda>kind.
        sbind (build_execution_lifecycle_metadata (p_fromiso (dp_plane d)) trigger (wd_metadata workflow)) (\<lambda>lifecycle.
        sbind (str_field (case map_of trigger ''type'' of None \<Rightarrow> VStr ''manual'' | Some v \<Rightarrow> v)) (\<lambda>trigger_type.
        sbind (opt_str_field (py_or (jget trigger ''created_by'') (jget trigger ''run_by''))) (\<lambda>created_by.
          let y = new_execution (fst (uuid4 w)) (clock w) workflow_id kind goal trigger_type trigger input created_by
                (execution_metadata workflow trigger goal (normalized_runtime_adapter_id adapter) lifecycle)
          in sbind (resolve_execution_runtime_policy (h_getenv (dp_host d)) (dp_runtime d) (Some workflow) (Some y) None None True)
               (\<lambda>policy. Inr (y\<lparr>e_metadata := dset ''runtime_policy'' (VDict (policy_dump policy)) (e_metadata y)\<rparr>))))))"
    have c: "create_execution d workflow_id input trigger adapter goal w = (case ?y of Inl e \<Rightarrow> (Inl e, w)
        | Inr y \<Rightarrow> (let (prepared, w2) = (if e_runtime_adapter_id y = ''native'' then prepare_execution y (snd (uuid4 w))
             else crewai_prepare_execution y (snd (uuid4 w))) in (Inr prepared, w2)))"
      by (simp add: create_execution_def Some Let_def case_prod_unfold)
    then obtain y where y: "?y = Inr y" using assms by (cases ?y) auto
    show ?thesis
    proof (rule that)
      show "map_of (e_metadata y) ''trigger'' = Some (VDict trigger)"
        using y unfolding sbind_Inr_iff Let_def by (auto simp: new_execution_def execution_metadata_def map_of_dset)
      show "(if e_runtime_adapter_id y = ''native'' then prepare_execution y (snd (uuid4 w))
         else crewai_prepare_execution y (snd (uuid4 w))) = (x, w')"
        using assms unfolding c y by (simp add: case_prod_unfold prod_eq_iff Let_def split: if_splits)
    qed
  qed
  have "y = x" using x rows(3,6) by (metis fst_conv)
  moreover have "executions (db w') = dset (e_id y) (y\<lparr>e_updated_at := clock w\<rparr>) (executions (db w))" "clock w' = clock w"
    using x rows [of y "snd (uuid4 w)"] by (auto simp: uuid4_def split: if_splits)
  ultimately show "executions (db w') = dset (e_id x) (x\<lparr>e_updated_at := clock w\<rparr>) (executions (db w))"
    "map_of (e_metadata x) ''trigger'' = Some (VDict trigger)" "clock w' = clock w"
    using y by simp_all
qed

definition readable_trigger :: "Execution \<Rightarrow> bool" where
  "readable_trigger x \<longleftrightarrow> (case map_of (e_metadata x) ''trigger'' of None \<Rightarrow> True | Some v \<Rightarrow> as_dict v \<noteq> None)"

definition started_by :: "string \<Rightarrow> Execution \<Rightarrow> bool" where
  "started_by i x \<longleftrightarrow>
    jget (case map_of (e_metadata x) ''trigger'' of None \<Rightarrow> [] | Some v \<Rightarrow> the (as_dict v)) ''schedule_id'' = VStr i \<or>
    jget (e_metadata x) ''schedule_id'' = VStr i"

lemma of_schedule_iff:
  "of_schedule i xs = Inr ys \<longleftrightarrow> (\<forall>x\<in>set xs. readable_trigger x) \<and> ys = filter (started_by i) xs"
proof (induction xs arbitrary: ys)
  case (Cons x xs)
  show ?case
    by (auto simp: readable_trigger_def started_by_def sbind_Inr_iff Cons.IH split: option.split)
qed auto

lemma dset_counts:
  "length (filter P (dvalues (dset k v d))) \<le> length (filter P (dvalues d)) + 1"
  "set (dvalues (dset k v d)) \<subseteq> insert v (set (dvalues d))"
  by (induction d) (auto simp: dvalues_def)

lemma of_schedule_dset:
  assumes "of_schedule i (filter P (dvalues d)) = Inr xs" and "map_of (e_metadata v) ''trigger'' = Some (VDict trigger)"
  obtains ys where "of_schedule i (filter P (dvalues (dset k v d))) = Inr ys" "length ys \<le> length xs + 1"
proof
  have "readable_trigger v" using assms(2) by (simp add: readable_trigger_def)
  then show "of_schedule i (filter P (dvalues (dset k v d))) = Inr (filter (started_by i) (filter P (dvalues (dset k v d))))"
    using assms(1) dset_counts(2) [of k v d] unfolding of_schedule_iff by auto
  show "length (filter (started_by i) (filter P (dvalues (dset k v d)))) \<le> length xs + 1"
    using assms(1) dset_counts(1) [of "\<lambda>x. P x \<and> started_by i x" k v d] unfolding of_schedule_iff by simp
qed

lemma queue_start_rows:
  assumes "queue_start i w = (Inr x, w')"
  obtains e where "map_of (executions (db w)) i = Some e" "x = e\<lparr>e_status := QUEUED\<rparr>"
    "executions (db w') = dset (e_id e) (x\<lparr>e_updated_at := clock w\<rparr>) (executions (db w))"
proof (cases "get_execution i (db w)")
  case (Some e)
  then show ?thesis using assms
    by (intro that [of e])
      (auto simp: queue_start_def Let_def create_task_def db_update_execution_def update_execution_def repo_save_execution_def
        get_execution_def split: option.splits if_splits)
qed (use assms in \<open>simp add: queue_start_def\<close>)

lemma assert_concurrency_passed:
  assumes "assert_concurrency s g = (Inr u, g')"
  obtains xs where "of_schedule (sch_id s) (list_active_executions (db (sg_world g))) = Inr xs" "g' = g"
    "int (length xs) < sch_max_concurrent_executions s"
  using assms by (auto simp: assert_concurrency_def split: sum.splits if_splits)

text \<open>
  C31: A schedule stays within its limit: when an execution has been started for it, no more executions that it
  has started are active than \<open>max_concurrent_executions\<close> allows, the new one included.
\<close>

theorem schedule_stays_within_its_limit:
  assumes "fire_schedule env s trigger input goal g = (Inr x, g')" and "sv_execution_starter env = Some queue_start"
  shows "\<exists>ys. of_schedule (sch_id s) (list_active_executions (db (sg_world g'))) = Inr ys \<and>
    int (length ys) \<le> sch_max_concurrent_executions s"
proof -
  obtain u g1 where a: "assert_concurrency s g = (Inr u, g1)"
    using assms(1) by (cases "assert_concurrency s g"; cases "fst (assert_concurrency s g)") (auto simp: fire_schedule_def)
  obtain xs where xs: "of_schedule (sch_id s) (list_active_executions (db (sg_world g))) = Inr xs" "g1 = g"
    "int (length xs) < sch_max_concurrent_executions s"
    by (rule assert_concurrency_passed [OF a])
  let ?create = "create_execution (sv_deployment env) (sch_workflow_id s) input trigger (sch_runtime_adapter_override s)
    (map_option gd_id goal) (sg_world g)"
  obtain e w1 where c: "?create = (Inr e, w1)"
    using assms(1) a xs(2) by (cases ?create; cases "fst ?create") (auto simp: fire_schedule_def in_world_def)
  let ?g2 = "g\<lparr>sg_world := w1\<rparr>"
  let ?g3 = "case goal of None \<Rightarrow> ?g2 | Some gl \<Rightarrow> link_execution_to_goal gl (e_id e) ?g2"
  have w3: "sg_world ?g3 = w1" by (cases goal) (auto simp: link_execution_to_goal_def)
  obtain q w2 where q: "queue_start (e_id e) w1 = (Inr q, w2)" and g': "sg_world g' = w2"
    using assms a xs(2) c w3
    by (cases "queue_start (e_id e) w1"; cases "fst (queue_start (e_id e) w1)") (auto simp: fire_schedule_def in_world_def Let_def)
  note rows = create_execution_rows [OF c]
  obtain r where r: "map_of (executions (db w1)) (e_id e) = Some r" "q = r\<lparr>e_status := QUEUED\<rparr>"
    "executions (db w2) = dset (e_id r) (q\<lparr>e_updated_at := clock w1\<rparr>) (executions (db w1))"
    by (rule queue_start_rows [OF q])
  have re: "r = e\<lparr>e_updated_at := clock (sg_world g)\<rparr>" using r(1) rows(1) by (simp add: map_of_dset)
  have "executions (db w2) = dset (e_id e) (q\<lparr>e_updated_at := clock w1\<rparr>) (executions (db (sg_world g)))"
    using r(3) rows(1) re by (simp add: update_last)
  moreover have "map_of (e_metadata (q\<lparr>e_updated_at := clock w1\<rparr>)) ''trigger'' = Some (VDict trigger)"
    using rows(2) by (simp add: r(2) re)
  moreover have "\<exists>ys. of_schedule (sch_id s) (list_active_executions (db w2)) = Inr ys \<and> length ys \<le> length xs + 1"
    using of_schedule_dset [OF xs(1) [unfolded list_active_executions_def] calculation(2)] calculation(1)
    unfolding list_active_executions_def by metis
  ultimately show ?thesis using xs(3) g' by auto
qed

section \<open>Competing schedulers\<close>

text \<open>
  C2: Schedulers of several processes that compete for the fire times of a schedule, in any interleaving of their
  claims, firings and failures: at any time at most one holds a claim whose lease still runs, and a fire time that
  has fired keeps its execution and is never claimed again.
\<close>

theorem fire_times_are_claimed_exclusively:
  assumes "(claim_step sql_acquire sql_fired sql_failed)\<^sup>*\<^sup>* \<lparr>cs_now = t0, cs_store = rows, cs_held = []\<rparr> s"
    and "slots_distinct rows"
    and "(claim_step sql_acquire sql_fired sql_failed)\<^sup>*\<^sup>* s s'"
  shows "(\<forall>a b i t l m. (a, i, t, l) \<in> set (cs_held s) \<and> (b, i, t, m) \<in> set (cs_held s) \<and> cs_now s < l \<and> cs_now s < m \<longrightarrow> a = b) \<and>
    (\<forall>i t c. sql_claim (cs_store s) i t = Some c \<and> fc_status c = ''fired'' \<longrightarrow>
       sql_claim (cs_store s') i t = Some c \<and>
       (\<forall>now j name lease. \<not> fst (sql_acquire now j i t name lease (cs_store s'))))"
proof -
  have "sql_claims.held_ok \<lparr>cs_now = t0, cs_store = rows, cs_held = []\<rparr>" using assms(2) by (simp add: sql_claims.held_ok_def)
  from sql_claims.held_ok_run [OF assms(1) this] have h: "sql_claims.held_ok s" .
  have "sql_claim (cs_store s') i t = Some c \<and> (\<forall>now j name lease. \<not> fst (sql_acquire now j i t name lease (cs_store s')))"
    if "sql_claim (cs_store s) i t = Some c" "fc_status c = ''fired''" for i t c
    using sql_claims.fired_run [OF assms(3) h that] sql_claims.fired_not_taken that(2) by blast
  then show ?thesis using sql_claims.one_live_holder [OF h] by blast
qed

section \<open>Samples\<close>

definition every_minute :: ScheduleDefinition where
  "every_minute = \<lparr>sch_id = ''s-2'', sch_name = ''every minute'', sch_workflow_id = ''wf-1'', sch_enabled = True,
     sch_trigger_type = INTERVAL, sch_trigger_config = [(''interval_seconds'', VInt 60)], sch_input_template = [],
     sch_runtime_adapter_override = Some ''native'', sch_max_concurrent_executions = 1, sch_timezone = ''UTC'',
     sch_next_fire_at = Some 60000000, sch_last_fire_at = None, sch_metadata = []\<rparr>"

definition leap_days :: ScheduleDefinition where
  "leap_days = every_minute\<lparr>sch_id := ''s-1'', sch_trigger_type := CRON, sch_trigger_config := [(''cron'', VStr ''0 0 29 2 *'')],
     sch_next_fire_at := Some 1835395200000000\<rparr>"

definition schedules_env :: scheduler_env where
  "schedules_env = \<lparr>sv_deployment = sample_deployment\<lparr>dp_plane := sample_plane\<lparr>p_get_workflow := \<lambda>_. Some diamond_workflow\<rparr>,
       dp_host := sample_host\<lparr>h_getenv := \<lambda>_. None\<rparr>\<rparr>,
     sv_pydantic = \<lparr>pd_bool = (\<lambda>v. case v of VBool b \<Rightarrow> Inr b | _ \<Rightarrow> Inl (ValidationError ''bool'')),
       pd_int = (\<lambda>v. case v of VInt n \<Rightarrow> Inr n | _ \<Rightarrow> Inl (ValidationError ''int'')),
       pd_datetime = (\<lambda>v. case v of VStr s \<Rightarrow> (case int_literal s of Some t \<Rightarrow> Inr t | None \<Rightarrow> Inl (ValidationError ''datetime''))
         | _ \<Rightarrow> Inl (ValidationError ''datetime'')),
       pd_datetime_text = int_str\<rparr>,
     sv_zones = \<lambda>_. None, sv_float_text = \<lambda>_. [], sv_scheduler_id = ''scheduler-1'', sv_claim_lease_seconds = 300,
     sv_claims_supported = True, sv_goal_repo = True, sv_execution_starter = Some queue_start, sv_goal_supervisor_waker = None\<rparr>"

lemma schedules_env_fields [simp]:
  "sv_claims_supported schedules_env" "sv_execution_starter schedules_env = Some queue_start"
  "sv_zones schedules_env = (\<lambda>_. None)" "pd_datetime_text (sv_pydantic schedules_env) = int_str"
  "pd_datetime (sv_pydantic schedules_env) (VStr t) =
     (case int_literal t of Some d \<Rightarrow> Inr d | None \<Rightarrow> Inl (ValidationError ''datetime''))"
  by (simp_all add: schedules_env_def)

definition two_schedules :: scheduling where
  "two_schedules = \<lparr>sg_world = sample_world\<lparr>clock := 1835481600000000\<rparr>, sg_schedules = [every_minute, leap_days],
     sg_claims = [(new_claim 0 ''c-1'' ''s-1'' 1835395200000000 ''scheduler-1'' 300)\<lparr>fc_status := ''fired''\<rparr>], sg_goals = []\<rparr>"

lemma five_minutes: "\<not> isl (cron_matches ''*/5'' ''*'' ''*'' ''*'' ''*'' q)"
proof -
  have "py_int (VStr ''5'') = Inr 5" by code_simp
  then show ?thesis by (simp add: cron_matches_def match_field_def match_part_def startswith_def Let_def case_prod_unfold)
qed


lemma leap_day_fields: "cron_matches ''0'' ''0'' ''29'' ''2'' ''*'' q =
    Inr (q div minute mod 60 = 0 \<and> q div (60 * minute) mod 24 = 0 \<and> snd (civil_from_days (q div (1440 * minute))) = (2, 29))"
proof -
  have "py_int (VStr ''0'') = Inr 0" "py_int (VStr ''29'') = Inr 29" "py_int (VStr ''2'') = Inr 2" by code_simp+
  then show ?thesis
    by (simp add: cron_matches_def match_field_def match_part_def startswith_def Let_def case_prod_unfold prod_eq_iff)
qed

definition no_leap_day_in :: "int list \<Rightarrow> bool" where
  "no_leap_day_in days \<longleftrightarrow> list_all (\<lambda>d. snd (civil_from_days d) \<noteq> (2, 29)) days"

lemma no_leap_day_before: "no_leap_day_in [21244..21430]"
  by code_simp

lemma no_leap_day_after: "no_leap_day_in [21431..21610]"
  by code_simp

lemma no_leap_day:
  assumes "21244 \<le> d" and "d \<le> 21610"
  shows "snd (civil_from_days d) \<noteq> (2, 29)"
proof -
  have "d \<in> set [21244..21430] \<or> d \<in> set [21431..21610]" unfolding set_upto atLeastAtMost_iff using assms by linarith
  then show ?thesis
    using no_leap_day_before no_leap_day_after unfolding no_leap_day_in_def list_all_iff by blast
qed

lemma leap_days_uncomputable: "compute_next_fire (\<lambda>_. None) leap_days 1835481600000000 = Inl (no_next_fire ''0 0 29 2 *'')"
proof -
  have "cron_search (cron_matches ''0'' ''0'' ''29'' ''2'' ''*'') (1835481660000000 + 366 * 1440 * minute) 1835481660000000 = Inr None"
    unfolding cron_search_missed
  proof (intro allI impI)
    fix q :: int
    assume q: "1835481660000000 \<le> q" "q \<le> 1835481660000000 + 366 * 1440 * minute"
    have "21244 \<le> q div (1440 * minute)" "q div (1440 * minute) \<le> 21610"
      using zdiv_mono1 [OF q(1), of "1440 * minute"] zdiv_mono1 [OF q(2), of "1440 * minute"] by (simp_all add: minute_def)
    then have "snd (civil_from_days (q div (1440 * minute))) \<noteq> (2, 29)" by (rule no_leap_day)
    then show "cron_matches ''0'' ''0'' ''29'' ''2'' ''*'' q = Inr False" by (simp add: leap_day_fields)
  qed
  then show ?thesis
    by (simp add: compute_next_fire_def leap_days_def every_minute_def next_cron_fire_def is_space_def zone_of_def
        first_candidate_def minute_def datetime_max_def)
qed

theorem uncomputable_schedule_blocks_the_rest_witness:
  "isl (fst (run_due_schedules schedules_env two_schedules)) \<and> snd (run_due_schedules schedules_env two_schedules) = two_schedules \<and>
   compute_next_fire (sv_zones schedules_env) every_minute (clock (sg_world two_schedules)) =
     Inr \<lparr>tg_next_fire_at = Some 60000000, tg_ready = True\<rparr>"
proof -
  have "list_schedules two_schedules = [] @ leap_days # [every_minute]"
    by (simp add: list_schedules_def two_schedules_def leap_days_def every_minute_def less_eq_char_def)
  moreover have "compute_next_fire (sv_zones schedules_env) leap_days (clock (sg_world two_schedules)) = Inl (no_next_fire ''0 0 29 2 *'')"
    using leap_days_uncomputable by (simp add: two_schedules_def)
  moreover have "compute_next_fire (sv_zones schedules_env) every_minute (clock (sg_world two_schedules)) =
     Inr \<lparr>tg_next_fire_at = Some 60000000, tg_ready = True\<rparr>"
    by (simp add: compute_next_fire_def every_minute_def two_schedules_def)
  ultimately show ?thesis using uncomputable_schedule_blocks_the_rest [of two_schedules "[]"] by auto
qed

theorem unadvanced_schedule_never_fires_again_witness:
  "get_schedule ''s-1'' (ticks schedules_env [1835481660000000, 1835481720000000] two_schedules) = Some leap_days \<and>
   \<not> fst (acquire_fire_claim schedules_env ''s-1'' 1835395200000000
     (ticks schedules_env [1835481660000000, 1835481720000000] two_schedules))"
proof -
  have g: "get_schedule ''s-1'' two_schedules = Some leap_days"
    by (simp add: get_schedule_def two_schedules_def leap_days_def every_minute_def)
  have "unadvanced ''s-1'' 1835395200000000 two_schedules"
    unfolding unadvanced_def g
    by (simp add: two_schedules_def slots_distinct_def sql_claim_def is_slot_def new_claim_def leap_days_def every_minute_def)
  from unadvanced_schedule_never_fires_again [OF _ this, of schedules_env] g show ?thesis by (simp del: ticks.simps)
qed

definition switched_off :: scheduling where
  "switched_off = two_schedules\<lparr>sg_schedules := [leap_days\<lparr>sch_enabled := False, sch_next_fire_at := None\<rparr>]\<rparr>"


theorem schedule_stays_within_its_limit_witness:
  "\<exists>x g' ys. fire_schedule schedules_env leap_days [] [] None two_schedules = (Inr x, g') \<and>
     of_schedule ''s-1'' (list_active_executions (db (sg_world g'))) = Inr ys \<and> length ys \<le> 1"
proof -
  have "\<not> isl (fst (fire_schedule schedules_env leap_days [] [] None two_schedules))" by code_simp
  then obtain x g' where r: "fire_schedule schedules_env leap_days [] [] None two_schedules = (Inr x, g')"
    by (cases "fire_schedule schedules_env leap_days [] [] None two_schedules";
        cases "fst (fire_schedule schedules_env leap_days [] [] None two_schedules)") auto
  from schedule_stays_within_its_limit [OF r] show ?thesis
    using r by (auto simp: leap_days_def every_minute_def)
qed

theorem fire_times_are_claimed_exclusively_witness:
  "\<exists>s. (claim_step sql_acquire sql_fired sql_failed)\<^sup>*\<^sup>* \<lparr>cs_now = 0, cs_store = [], cs_held = []\<rparr> s \<and>
     cs_held s = [] \<and> \<not> fst (sql_acquire 9 ''c-2'' ''s-1'' 5 ''other'' 300 (cs_store s))"
proof -
  let ?step = "claim_step sql_acquire sql_fired sql_failed"
  let ?s0 = "\<lparr>cs_now = 0, cs_store = [], cs_held = []\<rparr> :: ScheduleFireClaim list claim_system"
  let ?c = "new_claim 0 ''c-1'' ''s-1'' 5 ''me'' 300"
  let ?s1 = "?s0\<lparr>cs_store := [?c], cs_held := [(''me'', ''s-1'', 5, 0 + seconds 300)]\<rparr>"
  let ?s2 = "?s1\<lparr>cs_store := sql_fired 0 ''s-1'' 5 ''ex-1'' ''me'' [?c], cs_held := []\<rparr>"
  have "?step ?s0 ?s1"
    using claim_step.take [of sql_acquire ?s0 "''c-1''" "''s-1''" 5 "''me''" 300 "[?c]"] by (simp add: sql_acquire_def)
  moreover have "?step ?s1 ?s2"
    using claim_step.fire [of "''me''" "''s-1''" 5 "0 + seconds 300" ?s1 sql_acquire sql_fired sql_failed "''ex-1''"] by simp
  ultimately have run: "?step\<^sup>*\<^sup>* ?s0 ?s2" by (meson converse_rtranclp_into_rtranclp r_into_rtranclp)
  obtain c where c: "sql_claim (cs_store ?s2) ''s-1'' 5 = Some c" "fc_status c = ''fired''"
    by (simp add: sql_claim_def sql_fired_def own_claim_def is_slot_def new_claim_def)
  have "\<not> fst (sql_acquire 9 ''c-2'' ''s-1'' 5 ''other'' 300 (cs_store ?s2))"
    using fire_times_are_claimed_exclusively [OF run _ rtranclp.rtrancl_refl] c by (simp add: slots_distinct_def)
  then show ?thesis using run by (intro exI [of _ ?s2]) simp
qed

end
