(* ===== verification/Context_Health.thy ===== *)
theory Context_Health
  imports Task_Run
begin

text \<open>
  The messages of a model call (\<open>app/llm/base.py\<close>) and how full the context of a model is with them
  (\<open>app/runtime/governance/context_health.py\<close>): the estimate of tokens, the window of a model profile and the
  status by the share of the window that is used.
\<close>

section \<open>Messages and profiles\<close>

record ModelToolCall =
  mc_id :: "string option"
  mc_name :: string
  mc_arguments :: json
  mc_raw :: pyval

record ModelMessage =
  mm_role :: string
  mm_content :: pyval
  mm_name :: "string option"
  mm_tool_call_id :: "string option"
  mm_tool_calls :: "ModelToolCall list"
  mm_metadata :: json

definition plain_message :: "string \<Rightarrow> pyval \<Rightarrow> ModelMessage" where
  "plain_message role content =
    \<lparr>mm_role = role, mm_content = content, mm_name = None, mm_tool_call_id = None, mm_tool_calls = [], mm_metadata = []\<rparr>"

text \<open>The fields of a model profile that the agent and its governance read.\<close>

record ModelProfile = ModelProfileDefinition +
  mp_provider :: string
  mp_model :: string
  mp_context_window :: "int option"
  mp_temperature :: "pyfloat option"
  mp_parameters :: json

record ContextHealth =
  ch_estimated_prompt_tokens :: int
  ch_reserved_completion_tokens :: int
  ch_estimated_total_context_tokens :: int
  ch_context_window :: "int option"
  ch_remaining_context_tokens :: "int option"
  ch_usage_ratio :: "rat option"
  ch_status :: string
  ch_estimate_method :: string
  ch_estimator_version :: string

definition opt_int :: "int option \<Rightarrow> pyval" where
  "opt_int n = (case n of None \<Rightarrow> VNone | Some i \<Rightarrow> VInt i)"

definition opt_float :: "rat option \<Rightarrow> pyval" where
  "opt_float r = (case r of None \<Rightarrow> VNone | Some q \<Rightarrow> VFloat (Fin q))"

definition health_dump :: "ContextHealth \<Rightarrow> json" where
  "health_dump h =
    [(''estimated_prompt_tokens'', VInt (ch_estimated_prompt_tokens h)),
     (''reserved_completion_tokens'', VInt (ch_reserved_completion_tokens h)),
     (''estimated_total_context_tokens'', VInt (ch_estimated_total_context_tokens h)),
     (''context_window'', opt_int (ch_context_window h)),
     (''remaining_context_tokens'', opt_int (ch_remaining_context_tokens h)),
     (''usage_ratio'', opt_float (ch_usage_ratio h)), (''status'', VStr (ch_status h)),
     (''estimate_method'', VStr (ch_estimate_method h)), (''estimator_version'', VStr (ch_estimator_version h))]"

section \<open>Tokens\<close>

definition ESTIMATE_METHOD :: string where
  "ESTIMATE_METHOD = ''plain_text_chars_div_4_with_message_overhead''"

definition ESTIMATOR_VERSION :: string where "ESTIMATOR_VERSION = ''v1''"

definition content_text :: "(rat \<Rightarrow> string) \<Rightarrow> pyval \<Rightarrow> string" where
  "content_text ft v = (case v of VStr s \<Rightarrow> s | _ \<Rightarrow> json_dumps ft '', '' '': '' v)"

definition estimate_text_tokens :: "(rat \<Rightarrow> string) \<Rightarrow> pyval \<Rightarrow> int" where
  "estimate_text_tokens ft v =
    (let text = content_text ft v in if strip text = [] then 0 else max 1 (int (length text) div 4))"

definition message_tokens :: "(rat \<Rightarrow> string) \<Rightarrow> ModelMessage \<Rightarrow> int" where
  "message_tokens ft message =
    4 + (if truthy_str (mm_name message) then 1 else 0) + (if truthy_str (mm_tool_call_id message) then 1 else 0) +
    estimate_text_tokens ft (mm_content message)"

definition estimate_model_messages_tokens :: "(rat \<Rightarrow> string) \<Rightarrow> ModelMessage list \<Rightarrow> int" where
  "estimate_model_messages_tokens ft messages =
    (if messages = [] then 0 else 2 + sum_list (map (message_tokens ft) messages))"

section \<open>The window and its use\<close>

text \<open>The first candidate that is a positive integer or the text of one; a boolean is neither.\<close>

fun window_candidate :: "pyval \<Rightarrow> int option" where
  "window_candidate (VInt n) = (if 0 < n then Some n else None)"
| "window_candidate (VStr s) = (case int_literal s of Some n \<Rightarrow> if 0 < n then Some n else None | None \<Rightarrow> None)"
| "window_candidate _ = None"

definition resolve_model_context_window :: "ModelProfile option \<Rightarrow> int option" where
  "resolve_model_context_window model_profile =
    (case model_profile of
       None \<Rightarrow> None
     | Some profile \<Rightarrow>
         first_some window_candidate
           (opt_int (mp_context_window profile) #
            map (jget (mp_parameters profile))
              [''context_window'', ''context_length'', ''context_tokens'', ''max_context_tokens'',
               ''model_context_window'', ''num_ctx'']))"

definition context_usage_status :: "rat option \<Rightarrow> string" where
  "context_usage_status usage_ratio =
    (case usage_ratio of
       None \<Rightarrow> ''unknown''
     | Some r \<Rightarrow> if 1 \<le> r then ''overflow'' else if 85 / 100 \<le> r then ''critical''
         else if 70 / 100 \<le> r then ''warning'' else ''normal'')"

text \<open>\<open>round(r, n)\<close>.\<close>

definition round_places :: "nat \<Rightarrow> rat \<Rightarrow> rat" where
  "round_places n r = of_int (round_even (r * 10 ^ n)) / 10 ^ n"

definition nonzero_or :: "int option \<Rightarrow> int option \<Rightarrow> int option" where
  "nonzero_or a b = (case a of Some n \<Rightarrow> if n \<noteq> 0 then Some n else b | None \<Rightarrow> b)"

definition estimate_context_health ::
  "(rat \<Rightarrow> string) \<Rightarrow> ModelMessage list \<Rightarrow> ModelProfile option \<Rightarrow> int option \<Rightarrow> ContextHealth" where
  "estimate_context_health ft messages model_profile reserved_completion_tokens =
    (let prompt_tokens = estimate_model_messages_tokens ft messages;
         reserved = (case model_profile of
             None \<Rightarrow> 0
           | Some profile \<Rightarrow>
               (case nonzero_or reserved_completion_tokens (mp_max_tokens profile) of None \<Rightarrow> 0 | Some n \<Rightarrow> max n 0));
         total = prompt_tokens + reserved;
         context_window = resolve_model_context_window model_profile;
         usage_ratio = (case context_window of
             Some n \<Rightarrow> if 0 < n then Some (rat_of_int total / rat_of_int n) else None
           | None \<Rightarrow> None)
     in \<lparr>ch_estimated_prompt_tokens = prompt_tokens, ch_reserved_completion_tokens = reserved,
         ch_estimated_total_context_tokens = total, ch_context_window = context_window,
         ch_remaining_context_tokens = map_option (\<lambda>n. max (n - total) 0) context_window,
         ch_usage_ratio = map_option (round_places 6) usage_ratio, ch_status = context_usage_status usage_ratio,
         ch_estimate_method = ESTIMATE_METHOD, ch_estimator_version = ESTIMATOR_VERSION\<rparr>)"

definition too_full :: "ContextHealth \<Rightarrow> bool" where
  "too_full h \<longleftrightarrow> ch_status h \<in> {''critical'', ''overflow''}"

section \<open>Lemmas\<close>

lemma estimate_text_tokens_nonneg: "0 \<le> estimate_text_tokens ft v"
  by (simp add: estimate_text_tokens_def Let_def max.coboundedI1)

lemma message_tokens_pos: "4 \<le> message_tokens ft m"
  using estimate_text_tokens_nonneg [of ft "mm_content m"] by (simp add: message_tokens_def)

lemma messages_tokens_append:
  "messages \<noteq> [] \<Longrightarrow> estimate_model_messages_tokens ft (messages @ added) =
    estimate_model_messages_tokens ft messages + sum_list (map (message_tokens ft) added)"
  by (simp add: estimate_model_messages_tokens_def)

lemma sum_tokens_nonneg: "0 \<le> sum_list (map (message_tokens ft) ms)"
  by (intro sum_list_nonneg) (use message_tokens_pos [of ft] in \<open>force intro: order_trans [of 0 4]\<close>)

lemma messages_tokens_mono:
  "estimate_model_messages_tokens ft messages \<le> estimate_model_messages_tokens ft (messages @ added)"
  using sum_tokens_nonneg [of ft messages] sum_tokens_nonneg [of ft added] by (simp add: estimate_model_messages_tokens_def)

lemma usage_status_mono:
  assumes "context_usage_status (Some r) \<in> {''critical'', ''overflow''}" and "r \<le> q"
  shows "context_usage_status (Some q) \<in> {''critical'', ''overflow''}"
proof -
  have "85 / 100 \<le> r" using assms(1) by (auto simp: context_usage_status_def split: if_splits)
  then have "85 / 100 \<le> q" using assms(2) by linarith
  then show ?thesis by (simp add: context_usage_status_def)
qed

text \<open>A context that is too full stays so when messages are added.\<close>

lemma too_full_mono:
  assumes "too_full (estimate_context_health ft messages p n)"
  shows "too_full (estimate_context_health ft (messages @ added) p n)"
proof -
  let ?tokens = "\<lambda>ms. estimate_model_messages_tokens ft ms"
  let ?r = "case p of None \<Rightarrow> 0 | Some profile \<Rightarrow> (case nonzero_or n (mp_max_tokens profile) of None \<Rightarrow> 0 | Some n \<Rightarrow> max n 0)"
  obtain k where k: "resolve_model_context_window p = Some k" "0 < k"
    using assms by (auto simp: too_full_def estimate_context_health_def Let_def context_usage_status_def
        split: option.splits if_splits)
  have "rat_of_int (?tokens messages + ?r) \<le> rat_of_int (?tokens (messages @ added) + ?r)"
    using messages_tokens_mono [of ft messages added] by (simp del: of_int_add)
  then have le: "rat_of_int (?tokens messages + ?r) / rat_of_int k \<le> rat_of_int (?tokens (messages @ added) + ?r) / rat_of_int k"
    using k(2) by (simp add: divide_right_mono)
  have status: "ch_status (estimate_context_health ft ms p n) =
      context_usage_status (Some (rat_of_int (?tokens ms + ?r) / rat_of_int k))" for ms
    using k by (simp add: estimate_context_health_def Let_def)
  show ?thesis using usage_status_mono [OF _ le] assms by (simp only: too_full_def status)
qed

end
