(* ===== verification/Compaction.thy ===== *)
theory Compaction
  imports Context_Health "HOL-Library.Sublist"
begin

text \<open>
  The compaction of an agent's transcript, \<open>app/runtime/governance/compaction.py\<close>: which messages are
  protected, which may be dropped, and the list that replaces them. The wording of the summary
  (\<open>_build_summary\<close>) is an argument, and so is the memory service the context pack is stored with.
\<close>

section \<open>Results\<close>

record ContextCompactionRecord =
  cr_compacted :: bool
  cr_reason :: "string option"
  cr_memory_id :: "string option"
  cr_source_model_request_id :: "string option"
  cr_estimated_tokens_saved :: int
  cr_metadata :: json

record ContextCompactionResult =
  cc_messages :: "ModelMessage list"
  cc_record :: ContextCompactionRecord
  cc_summary :: string

definition record_dump :: "ContextCompactionRecord \<Rightarrow> json" where
  "record_dump r =
    [(''compacted'', VBool (cr_compacted r)), (''reason'', opt_str (cr_reason r)), (''memory_id'', opt_str (cr_memory_id r)),
     (''source_model_request_id'', opt_str (cr_source_model_request_id r)),
     (''estimated_tokens_saved'', VInt (cr_estimated_tokens_saved r)), (''metadata'', VDict (cr_metadata r))]"

section \<open>Configuration\<close>

definition governance_config :: "WorkflowDefinition \<Rightarrow> json" where
  "governance_config workflow =
    (let governance = (case jget (wd_metadata workflow) ''runtime_governance'' of
           VDict g \<Rightarrow> dict_or_empty (jget g ''context_compaction'') | _ \<Rightarrow> [])
     in dmerge (dmerge [] governance) (dict_or_empty (jget (wd_metadata workflow) ''context_compaction'')))"

definition persist_context_pack_enabled :: "bool \<Rightarrow> WorkflowDefinition \<Rightarrow> bool" where
  "persist_context_pack_enabled settings_default workflow =
    (case map_of (governance_config workflow) ''persist_context_pack'' of
       Some v \<Rightarrow> truthy v | None \<Rightarrow> settings_default)"

definition int_config :: "json \<Rightarrow> string \<Rightarrow> int \<Rightarrow> int \<Rightarrow> int option \<Rightarrow> exc + int" where
  "int_config config key default_value minimum maximum =
    sbind (except_type_value (py_int (case map_of config key of None \<Rightarrow> VInt default_value | Some v \<Rightarrow> v)) default_value)
      (\<lambda>v. let v1 = max v minimum in Inr (case maximum of None \<Rightarrow> v1 | Some m \<Rightarrow> min v1 m))"

section \<open>Protected messages\<close>

definition message_token_count :: "(rat \<Rightarrow> string) \<Rightarrow> ModelMessage \<Rightarrow> int" where
  "message_token_count ft message = estimate_text_tokens ft (mm_content message) + 6"

definition message_payload :: "codec \<Rightarrow> ModelMessage \<Rightarrow> json" where
  "message_payload jc message =
    (case mm_content message of
       VDict d \<Rightarrow> d
     | VStr s \<Rightarrow> (case jc_loads jc s of Some (VDict d) \<Rightarrow> d | _ \<Rightarrow> [])
     | _ \<Rightarrow> [])"

definition text_contains_any :: "pyval \<Rightarrow> string list \<Rightarrow> bool" where
  "text_contains_any v needles =
    (case as_str v of None \<Rightarrow> False | Some s \<Rightarrow> list_ex (contains (lower s)) needles)"

abbreviation pending_decision :: string where "pending_decision \<equiv> ''pending_human_decision''"
abbreviation tool_trouble :: string where "tool_trouble \<equiv> ''unresolved_tool_error''"

text \<open>\<open>str(d.get(key, '')).lower()\<close>.\<close>

definition status_text :: "(rat \<Rightarrow> string) \<Rightarrow> json \<Rightarrow> string \<Rightarrow> string" where
  "status_text ft d key = lower (py_str ft (case map_of d key of None \<Rightarrow> VStr [] | Some v \<Rightarrow> v))"

definition governance_reason :: "(rat \<Rightarrow> string) \<Rightarrow> json \<Rightarrow> string option" where
  "governance_reason ft metadata =
    (case jget metadata ''runtime_governance'' of
       VDict governance \<Rightarrow>
         if jget governance ''protected_from_compaction'' = VBool True
         then Some (py_str ft (py_or (jget governance ''protected_reason'') (VStr ''runtime_governance'')))
         else if truthy (jget governance ''pending_approval'') \<or> truthy (jget governance ''pending_human_input'')
         then Some pending_decision
         else if truthy (jget governance ''unresolved_tool_error'') \<or> truthy (jget governance ''tool_error'')
         then Some tool_trouble else None
     | _ \<Rightarrow> None)"

definition metadata_reason :: "(rat \<Rightarrow> string) \<Rightarrow> json \<Rightarrow> string option" where
  "metadata_reason ft metadata =
    (if jget metadata ''protected_from_compaction'' = VBool True
     then Some (py_str ft (py_or (jget metadata ''protected_reason'') (VStr ''metadata'')))
     else if truthy (jget metadata ''pending_approval'') \<or> truthy (jget metadata ''pending_human_input'') then Some pending_decision
     else if truthy (jget metadata ''unresolved_tool_error'') \<or> truthy (jget metadata ''tool_error'') then Some tool_trouble
     else if status_text ft metadata ''approval_status'' = ''pending'' then Some pending_decision
     else None)"

definition payload_reason :: "(rat \<Rightarrow> string) \<Rightarrow> json \<Rightarrow> string option" where
  "payload_reason ft payload =
    (if truthy (jget payload ''pending_approval'') \<or> truthy (jget payload ''approval_required'') \<or>
        truthy (jget payload ''approval_request_id'') \<or>
        status_text ft payload ''status'' \<in> {''pending_approval'', ''waiting_for_approval'', ''approval_required''}
     then Some pending_decision
     else if truthy (jget payload ''error'') \<or> truthy (jget payload ''exception'') \<or> truthy (jget payload ''tool_error'') \<or>
        status_text ft payload ''status'' \<in> {''error'', ''failed'', ''failure''} \<or> jget payload ''success'' = VBool False
     then Some tool_trouble else None)"

definition text_reason :: "pyval \<Rightarrow> string option" where
  "text_reason content =
    (if text_contains_any content [''pending approval'', ''approval required'', ''waiting for approval''] then Some pending_decision
     else if text_contains_any content [''tool failed'', ''tool error'', ''traceback'', ''exception''] then Some tool_trouble
     else None)"

definition protected_message_reason :: "codec \<Rightarrow> ModelMessage \<Rightarrow> string option" where
  "protected_message_reason jc message =
    (let ft = jc_float jc in
     if mm_role message \<in> {''system'', ''user''} then Some (mm_role message @ ''_message'')
     else case governance_reason ft (mm_metadata message) of Some r \<Rightarrow> Some r | None \<Rightarrow>
       (case metadata_reason ft (mm_metadata message) of Some r \<Rightarrow> Some r | None \<Rightarrow>
         (case payload_reason ft (message_payload jc message) of Some r \<Rightarrow> Some r | None \<Rightarrow> text_reason (mm_content message))))"

definition is_protected :: "codec \<Rightarrow> ModelMessage \<Rightarrow> bool" where
  "is_protected jc message \<longleftrightarrow> truthy_str (protected_message_reason jc message)"

definition protected_message_indices :: "codec \<Rightarrow> ModelMessage list \<Rightarrow> (nat \<times> string) list" where
  "protected_message_indices jc messages =
    List.map_filter (\<lambda>(index, message). map_option (Pair index) (or_str (protected_message_reason jc message) None))
      (List.enumerate 0 messages)"

section \<open>Messages that may be dropped\<close>

definition answer_indices :: "ModelMessage list \<Rightarrow> nat list" where
  "answer_indices messages = filter (\<lambda>i. mm_role (messages ! i) \<in> {''assistant'', ''tool''}) [0..<length messages]"

definition compactable_message_indices :: "codec \<Rightarrow> ModelMessage list \<Rightarrow> json \<Rightarrow> exc + nat list" where
  "compactable_message_indices jc messages config =
    (let assistant_or_tool = answer_indices messages in
     if assistant_or_tool = [] then Inr []
     else
       sbind (int_config config ''preserve_recent_messages'' 1 0 (Some 10)) (\<lambda>recent_count.
       sbind (int_config config ''oversized_message_tokens'' 600 50 None) (\<lambda>oversized_threshold.
       let recent_indices = (if recent_count \<noteq> 0 then set (last_n (nat recent_count) assistant_or_tool) else {})
       in Inr (filter (\<lambda>index. \<not> is_protected jc (messages ! index) \<and>
            (index \<notin> recent_indices \<or> oversized_threshold \<le> message_token_count (jc_float jc) (messages ! index)))
            assistant_or_tool))))"

definition leading_system_count :: "ModelMessage list \<Rightarrow> nat" where
  "leading_system_count messages = length (takeWhile (\<lambda>m. mm_role m = ''system'') messages)"

section \<open>The compaction\<close>

definition COMPACTION_STRATEGY_VERSION :: string where
  "COMPACTION_STRATEGY_VERSION = ''deterministic-runtime-summary-v1''"

type_synonym summarizer = "nat list \<Rightarrow> (nat \<times> string) list \<Rightarrow> int \<Rightarrow> string"

definition unchanged_result :: "ModelMessage list \<Rightarrow> string \<Rightarrow> string \<Rightarrow> ContextCompactionResult" where
  "unchanged_result messages reason source_model_request_id =
    \<lparr>cc_messages = messages,
     cc_record = \<lparr>cr_compacted = False, cr_reason = Some reason, cr_memory_id = None,
       cr_source_model_request_id = Some source_model_request_id, cr_estimated_tokens_saved = 0, cr_metadata = []\<rparr>,
     cc_summary = []\<rparr>"

definition summary_message_of :: "string \<Rightarrow> string \<Rightarrow> nat \<Rightarrow> ModelMessage" where
  "summary_message_of summary source_model_request_id protected_count =
    \<lparr>mm_role = ''system'', mm_content = VStr summary, mm_name = Some ''runtime_context_compaction'',
     mm_tool_call_id = None, mm_tool_calls = [],
     mm_metadata = [(''runtime_governance'', VDict
       [(''compacted'', VBool True), (''strategy'', VStr COMPACTION_STRATEGY_VERSION),
        (''source_model_request_id'', VStr source_model_request_id), (''protected_context_retained'', VBool True),
        (''protected_message_count'', VInt (int protected_count))])]\<rparr>"

definition without_compacted :: "nat list \<Rightarrow> ModelMessage \<Rightarrow> ModelMessage list \<Rightarrow> ModelMessage list" where
  "without_compacted compact_indices summary_message messages =
    (let leading_systems = leading_system_count messages
     in take leading_systems messages @ [summary_message] @
        map snd (filter (\<lambda>(index, message). index + leading_systems \<notin> set compact_indices)
          (List.enumerate 0 (drop leading_systems messages))))"

text \<open>The keys of \<open>protected_message_reasons\<close> are integers; JSON prints them.\<close>

definition protected_metadata :: "ModelMessage list \<Rightarrow> (nat \<times> string) list \<Rightarrow> json" where
  "protected_metadata messages protected_indices =
    [(''strategy'', VStr COMPACTION_STRATEGY_VERSION), (''protected_context_retained'', VBool True),
     (''protected_message_count'', VInt (int (length protected_indices))),
     (''protected_message_roles'', VList (map (\<lambda>(index, _). VStr (mm_role (messages ! index))) protected_indices)),
     (''protected_message_reasons'', VDict (map (\<lambda>(index, reason). (nat_str index, VStr reason)) protected_indices))]"

definition deterministic_compact_messages ::
  "codec \<Rightarrow> WorkflowDefinition \<Rightarrow> ModelProfile \<Rightarrow> summarizer \<Rightarrow> ModelMessage list \<Rightarrow> ContextHealth \<Rightarrow> string \<Rightarrow>
   exc + ContextCompactionResult" where
  "deterministic_compact_messages jc workflow profile summarize messages context_health source_model_request_id =
    (let config = governance_config workflow; ft = jc_float jc in
     if (case map_of config ''enabled'' of None \<Rightarrow> False | Some v \<Rightarrow> v = VBool False)
     then Inr (unchanged_result messages ''disabled'' source_model_request_id)
     else
       sbind (compactable_message_indices jc messages config) (\<lambda>compact_indices.
       let protected_indices = protected_message_indices jc messages in
       if compact_indices = [] then Inr (unchanged_result messages ''no_compactable_messages'' source_model_request_id)
       else
         sbind (int_config config ''max_summary_chars'' 5000 1200 (Some 20000)) (\<lambda>max_chars.
         sbind (int_config config ''min_estimated_tokens_saved'' 50 0 None) (\<lambda>min_saved.
         let before_tokens = estimate_model_messages_tokens ft messages;
             summary = summarize compact_indices protected_indices max_chars;
             summary_message = summary_message_of summary source_model_request_id (length protected_indices);
             compacted_messages = without_compacted compact_indices summary_message messages;
             after_tokens = estimate_model_messages_tokens ft compacted_messages;
             tokens_saved = max (before_tokens - after_tokens) 0;
             estimates = [(''before_estimated_prompt_tokens'', VInt before_tokens),
               (''after_estimated_prompt_tokens'', VInt after_tokens)]
         in if tokens_saved < min_saved then
              Inr \<lparr>cc_messages = messages,
                cc_record = \<lparr>cr_compacted = False, cr_reason = Some ''insufficient_savings'', cr_memory_id = None,
                  cr_source_model_request_id = Some source_model_request_id, cr_estimated_tokens_saved = tokens_saved,
                  cr_metadata = estimates @ [(''min_estimated_tokens_saved'', VInt min_saved)] @
                    protected_metadata messages protected_indices\<rparr>,
                cc_summary = summary\<rparr>
            else
              Inr \<lparr>cc_messages = compacted_messages,
                cc_record = \<lparr>cr_compacted = True, cr_reason = Some ''context_health_threshold'', cr_memory_id = None,
                  cr_source_model_request_id = Some source_model_request_id, cr_estimated_tokens_saved = tokens_saved,
                  cr_metadata = estimates @
                    [(''compacted_message_count'', VInt (int (length compact_indices))),
                     (''preserved_message_count'', VInt (int (length compacted_messages))),
                     (''context_status_before'', VStr (ch_status context_health)),
                     (''context_window'', opt_int (ch_context_window context_health)),
                     (''context_usage_ratio_before'', opt_float (ch_usage_ratio context_health)),
                     (''model_profile_id'', VStr (mp_id profile))] @ protected_metadata messages protected_indices\<rparr>,
                cc_summary = summary\<rparr>))))"

section \<open>The runtime compactor\<close>

definition COMPACTION_STATE_HEADER :: string where
  "COMPACTION_STATE_HEADER = ''Runtime Context Compaction State''"

definition newline :: string where "newline = [CHR 0x0A]"

definition str_or :: "string option \<Rightarrow> string \<Rightarrow> string" where
  "str_or s d = (case or_str s None of None \<Rightarrow> d | Some t \<Rightarrow> t)"

definition compaction_state_block :: "ContextCompactionRecord \<Rightarrow> string" where
  "compaction_state_block r = join newline
    [''# '' @ COMPACTION_STATE_HEADER, ''context_compacted=true'', ''compaction_reason='' @ str_or (cr_reason r) ''unknown'',
     ''context_pack_memory_id='' @ str_or (cr_memory_id r) ''none'',
     ''source_model_request_id='' @ str_or (cr_source_model_request_id r) ''unknown'',
     ''estimated_tokens_saved='' @ int_str (cr_estimated_tokens_saved r),
     ''protected_context_retained='' @ (if truthy (jget (cr_metadata r) ''protected_context_retained'') then ''true'' else ''false'')]"

text \<open>The first summary message of the list is annotated, its content changed by the given function.\<close>

definition governance_note :: "ContextCompactionRecord \<Rightarrow> ModelMessage \<Rightarrow> json" where
  "governance_note r message =
    dset ''runtime_governance'' (VDict (dmerge (dict_or_empty (jget (mm_metadata message) ''runtime_governance''))
      [(''context_compacted'', VBool True), (''compaction_reason'', opt_str (cr_reason r)),
       (''context_pack_memory_id'', opt_str (cr_memory_id r)),
       (''estimated_tokens_saved'', VInt (cr_estimated_tokens_saved r))])) (mm_metadata message)"

fun annotate_first :: "(ModelMessage \<Rightarrow> ModelMessage) \<Rightarrow> ModelMessage list \<Rightarrow> ModelMessage list" where
  "annotate_first f [] = []"
| "annotate_first f (message # messages) =
    (if mm_name message = Some ''runtime_context_compaction'' then f message # messages
     else message # annotate_first f messages)"

definition state_first :: "(rat \<Rightarrow> string) \<Rightarrow> ContextCompactionRecord \<Rightarrow> ModelMessage \<Rightarrow> ModelMessage" where
  "state_first ft r message =
    (let content = py_str ft (mm_content message)
     in message\<lparr>mm_metadata := governance_note r message,
          mm_content := VStr (if startswith content (''# '' @ COMPACTION_STATE_HEADER) then content
            else compaction_state_block r @ newline @ newline @ content)\<rparr>)"

definition annotate_compaction_state :: "(rat \<Rightarrow> string) \<Rightarrow> ContextCompactionResult \<Rightarrow> ContextCompactionResult" where
  "annotate_compaction_state ft result =
    (if \<not> cr_compacted (cc_record result) then result
     else
       let messages = annotate_first (state_first ft (cc_record result)) (cc_messages result)
       in result\<lparr>cc_messages := messages,
            cc_summary := (case find (\<lambda>m. mm_name m = Some ''runtime_context_compaction'') messages of
                None \<Rightarrow> cc_summary result | Some m \<Rightarrow> py_str ft (mm_content m))\<rparr>)"

definition source_event_sequence_range :: "NativeExecutionState \<Rightarrow> json" where
  "source_event_sequence_range state =
    (let end_sequence = max (st_sequence state - 1) 0
     in [(''source_event_start_sequence'', VInt (if 0 < end_sequence then 1 else 0)),
         (''source_event_end_sequence'', VInt end_sequence)])"

type_synonym memory_writer = "json \<Rightarrow> world \<Rightarrow> (exc + string) \<times> world"

definition context_pack_payload ::
  "WorkflowDefinition \<Rightarrow> TaskDefinition \<Rightarrow> AgentDefinition \<Rightarrow> string \<Rightarrow> ContextCompactionResult \<Rightarrow> datetime \<Rightarrow> json" where
  "context_pack_payload workflow task agent execution_id result now =
    (let r = cc_record result in
    [(''scope'', VStr ''workflow''), (''workflow_id'', VStr (wd_id workflow)), (''agent_id'', VStr (ad_id agent)),
     (''source'', VStr ''runtime_context_compaction''), (''source_execution_id'', VStr execution_id),
     (''memory_type'', VStr ''context_pack''), (''status'', VStr ''active''), (''importance'', VInt 45),
     (''summary'', VStr (''Runtime context compaction for '' @ td_name task)), (''content'', VStr (cc_summary result)),
     (''tags'', VList [VStr ''context_pack'', VStr ''runtime_compaction'', VStr ''execution'']),
     (''metadata'', VDict (dmerge
       [(''mode'', VStr ''runtime_compaction''), (''task_id'', VStr (td_id task)), (''agent_id'', VStr (ad_id agent)),
        (''execution_id'', VStr execution_id),
        (''source_model_request_id'', opt_str (cr_source_model_request_id r)),
        (''compacted'', VBool (cr_compacted r)), (''compaction_reason'', opt_str (cr_reason r)),
        (''estimated_tokens_saved'', VInt (cr_estimated_tokens_saved r)), (''created_at'', VStr (isoformat now))]
       (cr_metadata r)))])"

text \<open>The record with the id of the stored pack, or with the error of storing it.\<close>

definition persist_context_pack ::
  "memory_writer \<Rightarrow> WorkflowDefinition \<Rightarrow> TaskDefinition \<Rightarrow> AgentDefinition \<Rightarrow> string \<Rightarrow> ContextCompactionResult \<Rightarrow> world \<Rightarrow>
   ContextCompactionRecord \<times> world" where
  "persist_context_pack create_memory workflow task agent execution_id result w =
    (let r = cc_record result in
     if strip (cc_summary result) = [] then (r, w)
     else case create_memory (context_pack_payload workflow task agent execution_id result (clock w)) w of
       (Inr memory_id, w1) \<Rightarrow> (if memory_id = [] then r else r\<lparr>cr_memory_id := Some memory_id\<rparr>, w1)
     | (Inl e, w1) \<Rightarrow> (r\<lparr>cr_metadata := dset ''memory_persist_error'' (VStr (exc_str e)) (cr_metadata r)\<rparr>, w1))"

record compactor =
  co_summarize :: "WorkflowDefinition \<Rightarrow> TaskDefinition \<Rightarrow> AgentDefinition \<Rightarrow> ModelMessage list \<Rightarrow> ContextHealth \<Rightarrow> world \<Rightarrow> summarizer"
  co_create_memory :: "memory_writer option"
  co_persist_default :: bool

definition runtime_compact ::
  "codec \<Rightarrow> compactor \<Rightarrow> WorkflowDefinition \<Rightarrow> TaskDefinition \<Rightarrow> AgentDefinition \<Rightarrow> ModelProfile \<Rightarrow> string \<Rightarrow>
   ModelMessage list \<Rightarrow> ContextHealth \<Rightarrow> string \<Rightarrow> ContextCompactionResult act" where
  "runtime_compact jc co workflow task agent profile execution_id messages context_health source_model_request_id w =
    (case deterministic_compact_messages jc workflow profile (co_summarize co workflow task agent messages context_health w)
            messages context_health source_model_request_id of
       Inl e \<Rightarrow> (Inl e, w)
     | Inr result \<Rightarrow>
         if \<not> cr_compacted (cc_record result) then (Inr result, w)
         else
           let r1 = (cc_record result)\<lparr>cr_metadata := dmerge (cr_metadata (cc_record result))
                      (source_event_sequence_range (run_state execution_id w))\<rparr>;
               result1 = result\<lparr>cc_record := r1\<rparr>;
               (r2, w1) = (case co_create_memory co of
                   Some create_memory \<Rightarrow> if persist_context_pack_enabled (co_persist_default co) workflow
                     then persist_context_pack create_memory workflow task agent execution_id result1 w else (r1, w)
                 | None \<Rightarrow> (r1, w))
           in (Inr (annotate_compaction_state (jc_float jc) (result1\<lparr>cc_record := r2\<rparr>)), w1))"

end
