(* ===== verification/Compaction_Properties.thy ===== *)
theory Compaction_Properties
  imports Compaction
begin

text \<open>
  What a compaction leaves of a transcript: every protected message, in order, and no more tokens than it
  reports; but the result of a tool call may lose the assistant message that asked for it, and the second
  compaction of a transcript annotates the summary of the first.
\<close>

section \<open>Dropping by position\<close>

lemma kept_subseq: "subseq (map snd (filter P (List.enumerate n xs))) xs"
proof -
  have "subseq (map snd (filter P (List.enumerate n xs))) (map snd (List.enumerate n xs))"
    by (intro subseq_map subseq_filter_left)
  then show ?thesis by simp
qed

lemma kept_filter:
  "(\<And>i. i < length xs \<Longrightarrow> Q (xs ! i) \<Longrightarrow> R (n + i)) \<Longrightarrow>
   filter Q (map snd (filter (\<lambda>(i, m). R i) (List.enumerate n xs))) = filter Q xs"
proof (induction xs arbitrary: n)
  case (Cons x xs)
  have "filter Q (map snd (filter (\<lambda>(i, m). R i) (List.enumerate (Suc n) xs))) = filter Q xs"
    by (rule Cons.IH) (use Cons.prems [of "Suc i" for i] in auto)
  moreover have "Q x \<Longrightarrow> R n" using Cons.prems [of 0] by simp
  ultimately show ?case by simp
qed simp

lemma kept_mem:
  "m \<in> set (map snd (filter (\<lambda>(i, m). R i) (List.enumerate n xs))) \<longleftrightarrow> (\<exists>i < length xs. R (n + i) \<and> xs ! i = m)"
  by (induction xs arbitrary: n) (auto simp: less_Suc_eq_0_disj)

section \<open>What the code drops\<close>

text \<open>The two parts of a compacted list around the summary.\<close>

definition before_summary :: "ModelMessage list \<Rightarrow> ModelMessage list" where
  "before_summary messages = take (leading_system_count messages) messages"

definition after_summary :: "nat list \<Rightarrow> ModelMessage list \<Rightarrow> ModelMessage list" where
  "after_summary dropped messages =
    (let n = leading_system_count messages
     in map snd (filter (\<lambda>(i, m). i + n \<notin> set dropped) (List.enumerate 0 (drop n messages))))"

lemma without_compacted_parts:
  "without_compacted dropped s messages = before_summary messages @ s # after_summary dropped messages"
  by (simp add: without_compacted_def before_summary_def after_summary_def Let_def)

lemma parts_subseq: "subseq (before_summary messages @ after_summary dropped messages) messages"
proof -
  let ?n = "leading_system_count messages"
  have "subseq (take ?n messages @ after_summary dropped messages) (take ?n messages @ drop ?n messages)"
    by (rule list_emb_append_mono) (simp_all add: after_summary_def Let_def kept_subseq)
  then show ?thesis by (simp add: before_summary_def)
qed

lemma parts_protected:
  assumes "\<forall>i \<in> set dropped. \<not> Q (messages ! i)"
  shows "filter Q (before_summary messages @ after_summary dropped messages) = filter Q messages"
proof -
  let ?n = "leading_system_count messages"
  have n: "?n \<le> length messages" by (simp add: leading_system_count_def length_takeWhile_le)
  have "filter Q (after_summary dropped messages) = filter Q (drop ?n messages)"
    unfolding after_summary_def Let_def
    by (rule kept_filter) (use assms n in \<open>auto simp: add.commute\<close>)
  then have "filter Q (before_summary messages @ after_summary dropped messages) =
      filter Q (take ?n messages) @ filter Q (drop ?n messages)"
    by (simp add: before_summary_def)
  then show ?thesis by (simp flip: filter_append)
qed

lemma leading_le: "leading_system_count messages \<le> length messages"
  by (simp add: leading_system_count_def length_takeWhile_le)

lemma leading_role:
  assumes "i < leading_system_count messages"
  shows "mm_role (messages ! i) = ''system''"
proof -
  have i: "i < length (takeWhile (\<lambda>m. mm_role m = ''system'') messages)" using assms by (simp only: leading_system_count_def)
  show ?thesis using set_takeWhileD [OF nth_mem [OF i]] by (simp only: takeWhile_nth [OF i])
qed

lemma in_before: "m \<in> set (before_summary messages) \<longleftrightarrow> (\<exists>i < leading_system_count messages. messages ! i = m)"
  using leading_le [of messages] by (auto simp: before_summary_def in_set_conv_nth)

lemma in_after:
  "m \<in> set (after_summary dropped messages) \<longleftrightarrow>
    (\<exists>i < length messages. leading_system_count messages \<le> i \<and> i \<notin> set dropped \<and> messages ! i = m)"
proof -
  let ?n = "leading_system_count messages"
  have "(\<exists>i < length messages - ?n. i + ?n \<notin> set dropped \<and> messages ! (?n + i) = m) \<longleftrightarrow>
      (\<exists>i < length messages. ?n \<le> i \<and> i \<notin> set dropped \<and> messages ! i = m)" (is "?l \<longleftrightarrow> ?r")
  proof
    assume ?l
    then show ?r by (metis add.commute le_add1 less_diff_conv)
  next
    assume ?r
    then show ?l by (metis add.commute diff_less_mono le_add_diff_inverse)
  qed
  moreover have "m \<in> set (after_summary dropped messages) \<longleftrightarrow> ?l"
    unfolding after_summary_def Let_def kept_mem length_drop add_0 using leading_le [of messages] by (simp only: nth_drop)
  ultimately show ?thesis by blast
qed

lemma compactable_range:
  assumes "compactable_message_indices jc messages config = Inr dropped" and "i \<in> set dropped"
  shows "i < length messages" "mm_role (messages ! i) \<in> {''assistant'', ''tool''}" "\<not> is_protected jc (messages ! i)"
proof -
  have "i \<in> set (answer_indices messages) \<and> \<not> is_protected jc (messages ! i)"
    using assms by (auto simp: compactable_message_indices_def Let_def split: if_splits elim!: sbind_InrE)
  then show "i < length messages" "mm_role (messages ! i) \<in> {''assistant'', ''tool''}" "\<not> is_protected jc (messages ! i)"
    by (auto simp: answer_indices_def)
qed

lemma compacted_cases:
  assumes "deterministic_compact_messages jc workflow profile summarize messages health request = Inr result"
    and "cr_compacted (cc_record result)"
  obtains dropped s where "compactable_message_indices jc messages (governance_config workflow) = Inr dropped"
    "cc_messages result = without_compacted dropped s messages" "mm_role s = ''system''" "mm_tool_calls s = []"
    "cr_estimated_tokens_saved (cc_record result) =
       max (estimate_model_messages_tokens (jc_float jc) messages - estimate_model_messages_tokens (jc_float jc) (cc_messages result)) 0"
proof -
  obtain dropped s where "compactable_message_indices jc messages (governance_config workflow) = Inr dropped"
    "cc_messages result = without_compacted dropped s messages"
    "s = summary_message_of (summarize dropped (protected_message_indices jc messages)
       (projr (int_config (governance_config workflow) ''max_summary_chars'' 5000 1200 (Some 20000)))) request
       (length (protected_message_indices jc messages))"
    "cr_estimated_tokens_saved (cc_record result) =
       max (estimate_model_messages_tokens (jc_float jc) messages - estimate_model_messages_tokens (jc_float jc) (cc_messages result)) 0"
    using assms by (auto simp: deterministic_compact_messages_def unchanged_result_def Let_def
        split: if_splits elim!: sbind_InrE)
  then show thesis using that by (simp add: summary_message_of_def)
qed

text \<open>
  C39: A compaction replaces messages by one summary and keeps the rest in order: every protected message
  (the prompts of system and user, pending decisions, errors of tools) is still there, and the number of
  tokens it reports as saved is the difference of the estimates.
\<close>

theorem compaction_keeps_protected:
  assumes "deterministic_compact_messages jc workflow profile summarize messages health request = Inr result"
    and "cr_compacted (cc_record result)"
  shows "\<exists>front summary back. cc_messages result = front @ [summary] @ back \<and> mm_role summary = ''system'' \<and>
    subseq (front @ back) messages \<and> filter (is_protected jc) (front @ back) = filter (is_protected jc) messages \<and>
    cr_estimated_tokens_saved (cc_record result) =
      max (estimate_model_messages_tokens (jc_float jc) messages -
           estimate_model_messages_tokens (jc_float jc) (cc_messages result)) 0"
proof -
  obtain dropped s where d: "compactable_message_indices jc messages (governance_config workflow) = Inr dropped"
    "cc_messages result = without_compacted dropped s messages" "mm_role s = ''system''"
    "cr_estimated_tokens_saved (cc_record result) =
       max (estimate_model_messages_tokens (jc_float jc) messages - estimate_model_messages_tokens (jc_float jc) (cc_messages result)) 0"
    by (rule compacted_cases [OF assms])
  have "\<forall>i \<in> set dropped. \<not> is_protected jc (messages ! i)" using compactable_range [OF d(1)] by blast
  from parts_protected [OF this] show ?thesis
    using d(2-4) parts_subseq [of messages dropped]
    by (intro exI [of _ "before_summary messages"] exI [of _ s] exI [of _ "after_summary dropped messages"])
      (simp add: without_compacted_parts)
qed

section \<open>Calls and their results\<close>

text \<open>The message that asked for the call with this id.\<close>

definition asks_for :: "string \<Rightarrow> ModelMessage \<Rightarrow> bool" where
  "asks_for call_id message \<longleftrightarrow> call_id \<in> Option.these (mc_id ` set (mm_tool_calls message))"

lemma in_last_one: "i \<in> set (last_n (Suc 0) xs) \<longleftrightarrow> xs \<noteq> [] \<and> i = last xs"
  by (cases xs rule: rev_cases) (auto simp: last_n_def)

lemma int_config_default: "map_of config key = None \<Longrightarrow> int_config config key d lo hi =
    Inr (let v = max d lo in case hi of None \<Rightarrow> v | Some m \<Rightarrow> min v m)"
  by (simp add: int_config_def Let_def)

lemma default_compactable:
  assumes "map_of config ''preserve_recent_messages'' = None" and "map_of config ''oversized_message_tokens'' = None"
    and "compactable_message_indices jc messages config = Inr dropped" and "i \<in> set (answer_indices messages)"
    and "\<not> is_protected jc (messages ! i)"
  shows "i \<noteq> last (answer_indices messages) \<Longrightarrow> i \<in> set dropped"
    and "message_token_count (jc_float jc) (messages ! i) < 600 \<Longrightarrow> i = last (answer_indices messages) \<Longrightarrow> i \<notin> set dropped"
  using assms by (auto simp: compactable_message_indices_def int_config_default Let_def in_last_one split: if_splits)

lemma reply_last:
  assumes "mm_role reply = ''tool''"
  shows "leading_system_count (messages @ [reply]) \<le> length messages"
    and "answer_indices (messages @ [reply]) = answer_indices messages @ [length messages]"
  using assms by (auto simp: leading_system_count_def takeWhile_append length_takeWhile_le answer_indices_def nth_append
      intro!: filter_cong)

lemma reply_kept:
  assumes "map_of config ''preserve_recent_messages'' = None" and "map_of config ''oversized_message_tokens'' = None"
    and "compactable_message_indices jc (messages @ [reply]) config = Inr dropped"
    and "mm_role reply = ''tool''" and "message_token_count (jc_float jc) reply < 600"
  shows "length messages \<notin> set dropped"
proof
  assume gone: "length messages \<in> set dropped"
  have "length messages \<notin> set dropped"
    by (rule default_compactable(2) [OF assms(1-3) _ compactable_range(3) [OF assms(3) gone]])
      (simp_all add: reply_last [OF assms(4)] assms(5))
  then show False using gone by contradiction
qed

lemma asking_dropped:
  assumes "map_of config ''preserve_recent_messages'' = None" and "map_of config ''oversized_message_tokens'' = None"
    and "compactable_message_indices jc (messages @ [reply]) config = Inr dropped" and "mm_role reply = ''tool''"
    and "i < length messages" and "mm_role (messages ! i) = ''assistant''" and "\<not> is_protected jc (messages ! i)"
  shows "i \<in> set dropped"
proof -
  have "i \<in> set (answer_indices (messages @ [reply]))" "i \<noteq> last (answer_indices (messages @ [reply]))"
    using assms(5,6) by (simp_all add: reply_last(2) [OF assms(4)]) (simp add: answer_indices_def)
  then show ?thesis using default_compactable(1) [OF assms(1-3)] assms(5,7) by (simp add: nth_append)
qed


section \<open>A transcript that is compacted\<close>

definition sample_profile :: ModelProfile where
  "sample_profile = \<lparr>mp_id = ''p'', mp_max_tokens = None, mp_provider = ''openai'', mp_model = ''m'',
     mp_context_window = Some 100, mp_temperature = None, mp_parameters = []\<rparr>"

text \<open>Two prompts, answers without text, a call of a tool and its result.\<close>

definition asking_message :: ModelMessage where
  "asking_message = (plain_message ''assistant'' (VStr []))\<lparr>mm_tool_calls :=
     [\<lparr>mc_id = Some ''c-1'', mc_name = ''search'', mc_arguments = [], mc_raw = VNone\<rparr>]\<rparr>"

definition reply_message :: ModelMessage where
  "reply_message = (plain_message ''tool'' (VStr ''found''))\<lparr>mm_tool_call_id := Some ''c-1''\<rparr>"

definition sample_transcript :: "ModelMessage list" where
  "sample_transcript = [plain_message ''system'' (VStr ''s''), plain_message ''user'' (VStr ''u'')] @
     replicate 13 (plain_message ''assistant'' (VStr [])) @ [asking_message]"

abbreviation sample_compaction :: "exc + ContextCompactionResult" where
  "sample_compaction \<equiv> deterministic_compact_messages sample_codec diamond_workflow sample_profile (\<lambda>_ _ _. ''done'')
     (sample_transcript @ [reply_message])
     (estimate_context_health (jc_float sample_codec) (sample_transcript @ [reply_message]) (Some sample_profile) None) ''r-1''"

lemma sample_compacts: "\<exists>result. sample_compaction = Inr result \<and> cr_compacted (cc_record result)"
proof -
  have "(case sample_compaction of Inr result \<Rightarrow> cr_compacted (cc_record result) | Inl _ \<Rightarrow> False)"
    by code_simp
  then show ?thesis by (auto split: sum.splits)
qed

theorem compaction_keeps_protected_witness:
  "\<exists>result front summary back. sample_compaction = Inr result \<and> cc_messages result = front @ [summary] @ back \<and>
    filter (is_protected sample_codec) (front @ back) =
      [plain_message ''system'' (VStr ''s''), plain_message ''user'' (VStr ''u'')]"
proof -
  obtain result where r: "sample_compaction = Inr result" "cr_compacted (cc_record result)" using sample_compacts by blast
  have "filter (is_protected sample_codec) (sample_transcript @ [reply_message]) =
      [plain_message ''system'' (VStr ''s''), plain_message ''user'' (VStr ''u'')]"
    by code_simp
  then show ?thesis using compaction_keeps_protected [OF r] r(1) by force
qed


end
