(* ===== verification/Token_Ledger.thy ===== *)
theory Token_Ledger
  imports Context_Health
begin

text \<open>
  What a model call has used and the budgets on it: \<open>app/domain/runtime_governance.py\<close>,
  \<open>app/runtime/governance/token_usage.py\<close> and \<open>budgets.py\<close>. How pydantic reads a number is a parameter
  (\<open>budget_reader\<close>).
\<close>

section \<open>Floats\<close>

fun fplus :: "pyfloat \<Rightarrow> pyfloat \<Rightarrow> pyfloat" where
  "fplus (Fin a) (Fin b) = mk_float (a + b)"
| "fplus NaN b = NaN"
| "fplus a NaN = NaN"
| "fplus (Fin a) b = b"
| "fplus a (Fin b) = a"
| "fplus PInf PInf = PInf"
| "fplus NInf NInf = NInf"
| "fplus _ _ = NaN"

definition per_million :: "pyfloat \<Rightarrow> pyfloat" where
  "per_million a = fmult a (Fin (1 / 1000000))"

text \<open>\<open>round(f, n)\<close>, and \<open>f or default\<close>.\<close>

definition fround :: "nat \<Rightarrow> pyfloat \<Rightarrow> pyfloat" where
  "fround n f = (case f of Fin r \<Rightarrow> Fin (round_places n r) | _ \<Rightarrow> f)"

definition float_or :: "pyfloat \<Rightarrow> pyfloat \<Rightarrow> pyfloat" where
  "float_or f d = (if f = Fin 0 then d else f)"

section \<open>Usage\<close>

record TokenUsage =
  tu_provider :: "string option"
  tu_model :: "string option"
  tu_prompt_tokens :: int
  tu_completion_tokens :: int
  tu_total_tokens :: int
  tu_cached_tokens :: int
  tu_reasoning_tokens :: int
  tu_estimated_cost :: pyfloat
  tu_currency :: "string option"
  tu_estimated :: bool
  tu_estimate_method :: "string option"
  tu_provider_usage :: json

definition normalize_totals :: "TokenUsage \<Rightarrow> TokenUsage" where
  "normalize_totals u =
    (let prompt = max (tu_prompt_tokens u) 0; completion = max (tu_completion_tokens u) 0;
         computed_total = prompt + completion
     in u\<lparr>tu_prompt_tokens := prompt, tu_completion_tokens := completion,
          tu_cached_tokens := max (tu_cached_tokens u) 0, tu_reasoning_tokens := max (tu_reasoning_tokens u) 0,
          tu_total_tokens := max (max (if tu_total_tokens u \<noteq> 0 then tu_total_tokens u else computed_total) computed_total) 0,
          tu_estimated_cost := fmax (float_or (tu_estimated_cost u) (Fin 0)) (Fin 0)\<rparr>)"

definition usage_dump :: "TokenUsage \<Rightarrow> json" where
  "usage_dump u =
    [(''provider'', opt_str (tu_provider u)), (''model'', opt_str (tu_model u)),
     (''prompt_tokens'', VInt (tu_prompt_tokens u)), (''completion_tokens'', VInt (tu_completion_tokens u)),
     (''total_tokens'', VInt (tu_total_tokens u)), (''cached_tokens'', VInt (tu_cached_tokens u)),
     (''reasoning_tokens'', VInt (tu_reasoning_tokens u)), (''estimated_cost'', VFloat (tu_estimated_cost u)),
     (''currency'', opt_str (tu_currency u)), (''estimated'', VBool (tu_estimated u)),
     (''estimate_method'', opt_str (tu_estimate_method u)), (''provider_usage'', VDict (tu_provider_usage u))]"

text \<open>\<open>_as_int\<close> and \<open>_as_float\<close>: what cannot be read counts as nothing; an infinite float is not caught.\<close>

definition as_int :: "pyval \<Rightarrow> exc + int" where
  "as_int v = (case v of VBool _ \<Rightarrow> Inr 0 | VNone \<Rightarrow> Inr 0
    | _ \<Rightarrow> except_type_value (sbind (py_int v) (\<lambda>n. Inr (max n 0))) 0)"

definition as_float :: "pyval \<Rightarrow> exc + pyfloat" where
  "as_float v = (case v of VBool _ \<Rightarrow> Inr (Fin 0) | VNone \<Rightarrow> Inr (Fin 0)
    | _ \<Rightarrow> except_type_value (sbind (py_float v) (\<lambda>f. Inr (fmax f (Fin 0)))) (Fin 0))"

fun nested_value :: "pyval \<Rightarrow> string list \<Rightarrow> pyval" where
  "nested_value v [] = v"
| "nested_value (VDict d) (k # ks) = nested_value (jget d k) ks"
| "nested_value _ (k # ks) = VInt 0"

definition nested_int :: "json \<Rightarrow> string list \<Rightarrow> exc + int" where
  "nested_int payload path = as_int (nested_value (VDict payload) path)"

text \<open>\<open>a or b or ...\<close>: the later paths are read only while the earlier ones give zero.\<close>

fun first_nonzero :: "json \<Rightarrow> string list list \<Rightarrow> exc + int" where
  "first_nonzero usage [] = Inr 0"
| "first_nonzero usage (path # paths) =
    sbind (nested_int usage path) (\<lambda>n. if n \<noteq> 0 then Inr n else first_nonzero usage paths)"

fun pricing_value :: "json \<Rightarrow> string list \<Rightarrow> exc + pyfloat" where
  "pricing_value parameters [] = Inr (Fin 0)"
| "pricing_value parameters (key # keys) =
    sbind (as_float (jget parameters key)) (\<lambda>f. if f \<noteq> Fin 0 then Inr f else pricing_value parameters keys)"

definition text_or_none :: "pyval \<Rightarrow> string option" where
  "text_or_none v = (case as_str v of Some s \<Rightarrow> if strip s \<noteq> [] then Some s else None | None \<Rightarrow> None)"

definition estimate_cost :: "TokenUsage \<Rightarrow> ModelProfile option \<Rightarrow> exc + pyfloat \<times> string option" where
  "estimate_cost usage profile =
    (let parameters = (case profile of None \<Rightarrow> [] | Some p \<Rightarrow> mp_parameters p);
         priced = (\<lambda>n price. per_million (fmult (Fin (rat_of_int n)) price))
     in sbind (pricing_value parameters [''input_token_cost_per_1m'', ''prompt_token_cost_per_1m'']) (\<lambda>input_cost.
        sbind (pricing_value parameters [''output_token_cost_per_1m'', ''completion_token_cost_per_1m'']) (\<lambda>output_cost.
        sbind (pricing_value parameters [''cached_input_token_cost_per_1m'', ''cached_token_cost_per_1m'']) (\<lambda>cached_cost.
        let billable_prompt_tokens = max (tu_prompt_tokens usage - tu_cached_tokens usage) 0;
            cost = fplus (priced billable_prompt_tokens input_cost) (priced (tu_completion_tokens usage) output_cost);
            cost1 = (if cached_cost \<noteq> Fin 0 then fplus cost (priced (tu_cached_tokens usage) cached_cost) else cost)
        in Inr (fround 8 cost1, text_or_none (jget parameters ''currency''))))))"

definition PROMPT_PATHS :: "string list list" where
  "PROMPT_PATHS = [[''prompt_tokens''], [''input_tokens''], [''promptTokenCount''], [''prompt_token_count'']]"

definition COMPLETION_PATHS :: "string list list" where
  "COMPLETION_PATHS = [[''completion_tokens''], [''output_tokens''], [''candidatesTokenCount''], [''completion_token_count'']]"

definition TOTAL_PATHS :: "string list list" where
  "TOTAL_PATHS = [[''total_tokens''], [''totalTokenCount''], [''total_token_count'']]"

definition CACHED_PATHS :: "string list list" where
  "CACHED_PATHS = [[''cached_tokens''], [''prompt_tokens_details'', ''cached_tokens''], [''input_token_details'', ''cache_read''],
     [''cache_creation_input_tokens''], [''cache_read_input_tokens'']]"

definition REASONING_PATHS :: "string list list" where
  "REASONING_PATHS = [[''reasoning_tokens''], [''completion_tokens_details'', ''reasoning_tokens''],
     [''output_token_details'', ''reasoning'']]"

definition settle_cost :: "json \<Rightarrow> ModelProfile option \<Rightarrow> TokenUsage \<Rightarrow> exc + TokenUsage" where
  "settle_cost usage profile normalized =
    (if tu_estimated_cost normalized = Fin 0 then
       sbind (estimate_cost normalized profile) (\<lambda>(cost, currency).
         Inr (normalized\<lparr>tu_estimated_cost := cost, tu_currency := currency\<rparr>))
     else Inr (normalized\<lparr>tu_currency := as_str (jget usage ''currency'')\<rparr>))"

definition normalize_token_usage ::
  "(rat \<Rightarrow> string) \<Rightarrow> json \<Rightarrow> string \<Rightarrow> string \<Rightarrow> ModelProfile option \<Rightarrow> int option \<Rightarrow> pyval \<Rightarrow> exc + TokenUsage" where
  "normalize_token_usage ft usage provider model profile estimated_prompt_tokens response_content =
    sbind (first_nonzero usage PROMPT_PATHS) (\<lambda>prompt0.
    sbind (first_nonzero usage COMPLETION_PATHS) (\<lambda>completion0.
    sbind (first_nonzero usage TOTAL_PATHS) (\<lambda>total0.
    sbind (first_nonzero usage CACHED_PATHS) (\<lambda>cached_tokens.
    sbind (first_nonzero usage REASONING_PATHS) (\<lambda>reasoning_tokens.
    sbind (as_float (jget usage ''estimated_cost'')) (\<lambda>estimated_cost.
    let prompt_estimated = (prompt0 = 0 \<and> estimated_prompt_tokens \<noteq> None);
        prompt_tokens = (if prompt_estimated then max (the estimated_prompt_tokens) 0 else prompt0);
        completion_estimated = (completion0 = 0 \<and> response_content \<notin> {VNone, VStr []});
        completion_tokens = (if completion_estimated then estimate_text_tokens ft response_content else completion0);
        estimate_parts = (if prompt_estimated then [''prompt''] else []) @ (if completion_estimated then [''completion''] else [])
    in settle_cost usage profile (normalize_totals
         \<lparr>tu_provider = (if provider \<noteq> [] then Some provider else map_option mp_provider profile),
          tu_model = (if model \<noteq> [] then Some model else map_option mp_model profile),
          tu_prompt_tokens = prompt_tokens, tu_completion_tokens = completion_tokens,
          tu_total_tokens = (if total0 = 0 then prompt_tokens + completion_tokens else total0),
          tu_cached_tokens = cached_tokens, tu_reasoning_tokens = reasoning_tokens, tu_estimated_cost = estimated_cost,
          tu_currency = None, tu_estimated = (estimate_parts \<noteq> []),
          tu_estimate_method = (if estimate_parts = [] then None
            else Some (''estimated_'' @ join ''_and_'' estimate_parts @ ''_chars_div_4'')),
          tu_provider_usage = usage\<rparr>)))))))"

section \<open>Budgets\<close>

record TokenBudgetPolicy =
  bp_run_total_tokens :: "int option"
  bp_workflow_total_tokens :: "int option"
  bp_agent_total_tokens :: "int option"
  bp_warn_ratio :: pyfloat
  bp_hard_ratio :: pyfloat
  bp_action :: string

record TokenBudgetStatus =
  bs_scope :: string
  bs_used_tokens :: int
  bs_budget_tokens :: int
  bs_usage_ratio :: rat
  bs_status :: string
  bs_action :: string

definition status_dump :: "TokenBudgetStatus \<Rightarrow> json" where
  "status_dump s =
    [(''scope'', VStr (bs_scope s)), (''used_tokens'', VInt (bs_used_tokens s)), (''budget_tokens'', VInt (bs_budget_tokens s)),
     (''usage_ratio'', VFloat (Fin (bs_usage_ratio s))), (''status'', VStr (bs_status s)), (''action'', VStr (bs_action s))]"

record budget_reader =
  br_int :: "pyval \<Rightarrow> exc + int"
  br_float :: "pyval \<Rightarrow> exc + pyfloat"

record budget_settings =
  gs_warn_ratio :: rat
  gs_hard_ratio :: rat
  gs_action :: string
  gs_run_total_budget :: "int option"

definition budget_config :: "json option \<Rightarrow> json" where
  "budget_config container =
    (case container of
       None \<Rightarrow> []
     | Some c \<Rightarrow>
         (case jget (dict_or_empty (jget c ''runtime_governance'')) ''token_budget'' of
            VDict d \<Rightarrow> d
          | _ \<Rightarrow> dict_or_empty (jget c ''token_budget'')))"

definition settings_budget_config :: "budget_settings \<Rightarrow> json" where
  "settings_budget_config settings =
    [(''runtime_governance'', VDict [(''token_budget'', VDict
       ([(''warn_ratio'', VFloat (Fin (gs_warn_ratio settings))), (''hard_ratio'', VFloat (Fin (gs_hard_ratio settings))),
         (''action'', VStr (gs_action settings))] @
        (case gs_run_total_budget settings of
           Some n \<Rightarrow> if n \<noteq> 0 then [(''run_total_tokens'', VInt n)] else []
         | None \<Rightarrow> [])))])]"

definition BUDGET_ACTIONS :: "string list" where
  "BUDGET_ACTIONS = [''warn_only'', ''compact_context'', ''pause_execution'', ''fail_execution'']"

definition budget_field :: "budget_reader \<Rightarrow> json \<Rightarrow> string \<Rightarrow> exc + int option" where
  "budget_field br d key =
    (case jget d key of VNone \<Rightarrow> Inr None
     | v \<Rightarrow> sbind (br_int br v) (\<lambda>n. Inr (if 0 < n then Some n else None)))"

definition ratio_field :: "budget_reader \<Rightarrow> json \<Rightarrow> string \<Rightarrow> pyfloat \<Rightarrow> exc + pyfloat" where
  "ratio_field br d key default_value = (case map_of d key of None \<Rightarrow> Inr default_value | Some v \<Rightarrow> br_float br v)"

definition read_budget_policy :: "budget_reader \<Rightarrow> json \<Rightarrow> exc + TokenBudgetPolicy" where
  "read_budget_policy br d =
    sbind (budget_field br d ''run_total_tokens'') (\<lambda>run.
    sbind (budget_field br d ''workflow_total_tokens'') (\<lambda>workflow.
    sbind (budget_field br d ''agent_total_tokens'') (\<lambda>agent.
    sbind (ratio_field br d ''warn_ratio'' (Fin (8 / 10))) (\<lambda>warn0.
    sbind (ratio_field br d ''hard_ratio'' (Fin 1)) (\<lambda>hard0.
    let warn = fmin (fmax (float_or warn0 (Fin (8 / 10))) (Fin 0)) (Fin 1)
    in case (case map_of d ''action'' of None \<Rightarrow> Some ''warn_only'' | Some v \<Rightarrow> as_str v) of
         None \<Rightarrow> Inl (ValidationError ''Input should be a budget action'')
       | Some action \<Rightarrow>
           if action \<in> set BUDGET_ACTIONS then
             Inr \<lparr>bp_run_total_tokens = run, bp_workflow_total_tokens = workflow, bp_agent_total_tokens = agent,
                  bp_warn_ratio = warn, bp_hard_ratio = fmax (float_or hard0 (Fin 1)) warn, bp_action = action\<rparr>
           else Inl (ValidationError ''Input should be a budget action''))))))"

definition BUDGET_KEYS :: "string list" where
  "BUDGET_KEYS = [''run_total_tokens'', ''workflow_total_tokens'', ''agent_total_tokens'', ''warn_ratio'', ''hard_ratio'', ''action'']"

text \<open>Every merged configuration has the keys of the settings, so it is never empty.\<close>

definition resolve_token_budget_policy ::
  "budget_reader \<Rightarrow> budget_settings \<Rightarrow> WorkflowDefinition \<Rightarrow> AgentDefinition \<Rightarrow> TaskDefinition \<Rightarrow> Execution \<Rightarrow>
   TokenBudgetPolicy option" where
  "resolve_token_budget_policy br settings workflow agent task execution =
    (let config = fold (\<lambda>container merged. dmerge merged (budget_config container))
           [Some (settings_budget_config settings), Some (wd_metadata workflow), Some (ad_metadata agent),
            Some (td_metadata task), Some (e_input_payload execution), Some (e_trigger_payload execution)] [];
         normalized = filter (\<lambda>(key, v). key \<in> set BUDGET_KEYS) config
     in case read_budget_policy br normalized of
          Inl _ \<Rightarrow> None
        | Inr policy \<Rightarrow>
            if bp_run_total_tokens policy = None \<and> bp_workflow_total_tokens policy = None \<and> bp_agent_total_tokens policy = None
            then None else Some policy)"

definition status_for :: "string \<Rightarrow> int \<Rightarrow> int \<Rightarrow> TokenBudgetPolicy \<Rightarrow> TokenBudgetStatus" where
  "status_for scope used_tokens budget_tokens policy =
    (let ratio = (if 0 < budget_tokens then rat_of_int used_tokens / rat_of_int budget_tokens else 0)
     in \<lparr>bs_scope = scope, bs_used_tokens = used_tokens, bs_budget_tokens = budget_tokens, bs_usage_ratio = round_places 6 ratio,
         bs_status = (if fle (bp_hard_ratio policy) (Fin ratio) then ''exceeded''
           else if fle (bp_warn_ratio policy) (Fin ratio) then ''warning'' else ''normal''),
         bs_action = bp_action policy\<rparr>)"

definition scope_status :: "string \<Rightarrow> int \<Rightarrow> int option \<Rightarrow> TokenBudgetPolicy \<Rightarrow> TokenBudgetStatus list" where
  "scope_status scope used budget policy =
    (case budget of Some n \<Rightarrow> if n \<noteq> 0 then [status_for scope used n policy] else [] | None \<Rightarrow> [])"

definition budget_warning_statuses :: "TokenBudgetPolicy option \<Rightarrow> int \<Rightarrow> int \<Rightarrow> int \<Rightarrow> TokenBudgetStatus list" where
  "budget_warning_statuses policy run_total workflow_total agent_total =
    (case policy of
       None \<Rightarrow> []
     | Some p \<Rightarrow> filter (\<lambda>s. bs_status s \<in> {''warning'', ''exceeded''})
         (scope_status ''run'' run_total (bp_run_total_tokens p) p @
          scope_status ''workflow'' workflow_total (bp_workflow_total_tokens p) p @
          scope_status ''agent'' agent_total (bp_agent_total_tokens p) p))"

end
