(* ===== verification/Token_Recorder.thy ===== *)
theory Token_Recorder
  imports Token_Ledger Compaction
begin

text \<open>
  The account of an execution, \<open>app/runtime/governance/recorder.py\<close>: the tokens its model calls have used,
  the health of its context and its compactions, in the metadata of the execution's row. Each call reads the
  row, changes the metadata and writes the row back.
\<close>

section \<open>Buckets\<close>

text \<open>\<open>int(v or 0)\<close>, \<open>dict(v or {})\<close> and \<open>list(v or [])\<close>.\<close>

definition count_value :: "pyval \<Rightarrow> exc + int" where
  "count_value v = py_int (py_or v (VInt 0))"

definition list_or_empty :: "pyval \<Rightarrow> pyval list" where
  "list_or_empty v = (case as_list v of None \<Rightarrow> [] | Some xs \<Rightarrow> xs)"

definition governance_of :: "json \<Rightarrow> json" where
  "governance_of metadata = dict_or_empty (jget metadata ''runtime_governance'')"

definition TOKEN_FIELDS :: "string list" where
  "TOKEN_FIELDS = [''prompt_tokens'', ''completion_tokens'', ''total_tokens'', ''estimated_cost'']"

definition usage_bucket :: "json \<Rightarrow> string \<Rightarrow> json" where
  "usage_bucket container key =
    fold (\<lambda>field. dsetdefault field (if field = ''estimated_cost'' then VFloat (Fin 0) else VInt 0)) TOKEN_FIELDS
      (dict_or_empty (jget container key))"

definition add_usage :: "TokenUsage \<Rightarrow> json \<Rightarrow> exc + json" where
  "add_usage usage bucket =
    sbind (count_value (jget bucket ''prompt_tokens'')) (\<lambda>prompt.
    sbind (count_value (jget bucket ''completion_tokens'')) (\<lambda>completion.
    sbind (count_value (jget bucket ''total_tokens'')) (\<lambda>total.
    sbind (py_float (py_or (jget bucket ''estimated_cost'') (VFloat (Fin 0)))) (\<lambda>cost.
    let b1 = dset ''prompt_tokens'' (VInt (prompt + tu_prompt_tokens usage)) bucket;
        b2 = dset ''completion_tokens'' (VInt (completion + tu_completion_tokens usage)) b1;
        b3 = dset ''total_tokens'' (VInt (total + tu_total_tokens usage)) b2;
        b4 = dset ''estimated_cost'' (VFloat (fround 8 (fplus cost (tu_estimated_cost usage)))) b3
    in Inr (case or_str (tu_currency usage) None of None \<Rightarrow> b4 | Some c \<Rightarrow> dset ''currency'' (VStr c) b4)))))"

definition model_fallback_metadata :: "TokenUsage \<Rightarrow> json option" where
  "model_fallback_metadata usage =
    (case jget (tu_provider_usage usage) ''model_fallback'' of
       VDict fallback \<Rightarrow> if jget fallback ''used'' = VBool True then Some fallback else None
     | _ \<Rightarrow> None)"

definition increment_fallback_count :: "json \<Rightarrow> exc + json" where
  "increment_fallback_count bucket =
    sbind (count_value (jget bucket ''fallback_count'')) (\<lambda>n. Inr (dset ''fallback_count'' (VInt (n + 1)) bucket))"

text \<open>One entry of a container of buckets, when the key is there.\<close>

definition change_bucket :: "string option \<Rightarrow> (json \<Rightarrow> exc + json) \<Rightarrow> json \<Rightarrow> exc + json" where
  "change_bucket key f container =
    (case or_str key None of
       None \<Rightarrow> Inr container
     | Some k \<Rightarrow> sbind (f (usage_bucket container k)) (\<lambda>bucket. Inr (dset k (VDict bucket) container)))"

section \<open>The account\<close>

record usage_source =
  us_agent_id :: "string option"
  us_task_id :: "string option"
  us_workflow_id :: "string option"
  us_model_request_id :: "string option"
  us_event_id :: "string option"

definition model_key :: "TokenUsage \<Rightarrow> string" where
  "model_key usage =
    (let key = join '':'' (filter (\<lambda>part. part \<noteq> []) (List.map_filter id [tu_provider usage, tu_model usage]))
     in if key = [] then ''unknown'' else key)"

text \<open>The four buckets a use is added to, and counted in when another model had to answer.\<close>

definition change_buckets :: "usage_source \<Rightarrow> string \<Rightarrow> (json \<Rightarrow> exc + json) \<Rightarrow> json \<Rightarrow> exc + json" where
  "change_buckets source model f token_usage =
    sbind (change_bucket (Some ''total'') f token_usage) (\<lambda>t1.
    sbind (change_bucket (us_agent_id source) f (dict_or_empty (jget t1 ''by_agent''))) (\<lambda>by_agent.
    sbind (change_bucket (us_task_id source) f (dict_or_empty (jget t1 ''by_task''))) (\<lambda>by_task.
    sbind (change_bucket (Some model) f (dict_or_empty (jget t1 ''by_model''))) (\<lambda>by_model.
    Inr (dset ''by_model'' (VDict by_model) (dset ''by_task'' (VDict by_task) (dset ''by_agent'' (VDict by_agent) t1)))))))"

definition note_fallback :: "usage_source \<Rightarrow> string \<Rightarrow> string \<Rightarrow> json \<Rightarrow> json \<Rightarrow> exc + json" where
  "note_fallback source model now fallback token_usage =
    sbind (change_buckets source model increment_fallback_count token_usage) (\<lambda>t1.
    let fallback_records = list_or_empty (jget t1 ''model_fallbacks'') @
          [VDict (dmerge fallback
            [(''agent_id'', opt_str (us_agent_id source)), (''task_id'', opt_str (us_task_id source)),
             (''workflow_id'', opt_str (us_workflow_id source)), (''model_request_id'', opt_str (us_model_request_id source)),
             (''event_id'', opt_str (us_event_id source)), (''updated_at'', VStr now)])]
    in sbind (count_value (jget t1 ''fallback_count'')) (\<lambda>n.
       Inr (dset ''model_fallbacks'' (VList (last_n 25 fallback_records)) (dset ''fallback_count'' (VInt (n + 1)) t1))))"

definition account_usage :: "usage_source \<Rightarrow> TokenUsage \<Rightarrow> string \<Rightarrow> json \<Rightarrow> exc + json" where
  "account_usage source usage now token_usage =
    sbind (change_buckets source (model_key usage) (add_usage usage) token_usage) (\<lambda>t1.
    sbind (case model_fallback_metadata usage of
        None \<Rightarrow> Inr t1
      | Some fallback \<Rightarrow> note_fallback source (model_key usage) now fallback t1) (\<lambda>t2.
    let t3 = (case or_str (us_event_id source) None of
            None \<Rightarrow> t2
          | Some event_id \<Rightarrow>
              dset ''processed_event_ids''
                (VList (last_n 100 (list_or_empty (jget token_usage ''processed_event_ids'') @ [VStr event_id]))) t2)
    in Inr (dset ''updated_at'' (VStr now) (dset ''last_event_id'' (opt_str (us_event_id source))
         (dset ''last_model_request_id'' (opt_str (us_model_request_id source)) t3)))))"

section \<open>Budget warnings\<close>

definition budget_event_key :: "TokenBudgetStatus \<Rightarrow> string" where
  "budget_event_key status = bs_scope status @ '':'' @ int_str (bs_budget_tokens status) @ '':'' @ bs_status status"

text \<open>The statuses that have not been reported before, and the record of those that have.\<close>

fun new_warnings :: "usage_source \<Rightarrow> string \<Rightarrow> TokenBudgetStatus list \<Rightarrow> json \<Rightarrow> TokenBudgetStatus list \<times> json" where
  "new_warnings source now [] seen_keys = ([], seen_keys)"
| "new_warnings source now (status # statuses) seen_keys =
    (if map_of seen_keys (budget_event_key status) \<noteq> None then new_warnings source now statuses seen_keys
     else
       let (rest, seen_keys') = new_warnings source now statuses (dset (budget_event_key status)
             (VDict (dmerge (status_dump status)
               [(''agent_id'', opt_str (us_agent_id source)), (''task_id'', opt_str (us_task_id source)),
                (''workflow_id'', opt_str (us_workflow_id source)), (''event_id'', opt_str (us_event_id source)),
                (''emitted_at'', VStr now)])) seen_keys)
       in (status # rest, seen_keys'))"

definition write_governance :: "json \<Rightarrow> Execution \<Rightarrow> world \<Rightarrow> Execution \<times> world" where
  "write_governance governance execution w =
    (let x = execution\<lparr>e_metadata := dset ''runtime_governance'' (VDict governance) (e_metadata execution),
           e_updated_at := clock w\<rparr>
     in (x, db_update_execution x w))"

definition record_token_usage_snapshot ::
  "string \<Rightarrow> TokenUsage \<Rightarrow> TokenBudgetPolicy option \<Rightarrow> usage_source \<Rightarrow> TokenBudgetStatus list act" where
  "record_token_usage_snapshot execution_id usage policy source w =
    (case get_execution execution_id (db w) of
       None \<Rightarrow> (Inr [], w)
     | Some execution \<Rightarrow>
         let governance = governance_of (e_metadata execution);
             token_usage = dict_or_empty (jget governance ''token_usage'');
             now = isoformat (clock w)
         in if truthy_str (us_event_id source) \<and>
               opt_str (us_event_id source) \<in> set (list_or_empty (jget token_usage ''processed_event_ids''))
            then (Inr [], w)
            else case sbind (account_usage source usage now token_usage) (\<lambda>account.
                sbind (count_value (jget (dict_or_empty (jget account ''total'')) ''total_tokens'')) (\<lambda>run_total.
                sbind (count_value (jget (dict_or_empty (jget (dict_or_empty (jget account ''by_agent''))
                    (case us_agent_id source of None \<Rightarrow> [] | Some a \<Rightarrow> a))) ''total_tokens'')) (\<lambda>agent_total.
                Inr (account, budget_warning_statuses policy run_total run_total agent_total)))) of
              Inl e \<Rightarrow> (Inl e, w)
            | Inr (account, statuses) \<Rightarrow>
                let (new_statuses, seen_keys) = new_warnings source now statuses
                      (dict_or_empty (jget governance ''budget_warnings_emitted''));
                    governance1 = dset ''budget_warnings_emitted'' (VDict seen_keys)
                      (dset ''token_usage'' (VDict account) governance)
                in (Inr new_statuses, snd (write_governance governance1 execution w)))"

section \<open>Health and compactions\<close>

definition record_context_health_snapshot ::
  "string \<Rightarrow> ContextHealth \<Rightarrow> string option \<Rightarrow> string option \<Rightarrow> string option \<Rightarrow> world \<Rightarrow> world" where
  "record_context_health_snapshot execution_id context_health agent_id task_id event_id w =
    (case get_execution execution_id (db w) of
       None \<Rightarrow> w
     | Some execution \<Rightarrow>
         let entry = dmerge (health_dump context_health)
               [(''agent_id'', opt_str agent_id), (''task_id'', opt_str task_id), (''event_id'', opt_str event_id),
                (''updated_at'', VStr (isoformat (clock w)))]
         in snd (write_governance (dset ''context_health'' (VDict [(''last'', VDict entry)])
              (governance_of (e_metadata execution))) execution w))"

definition count_compaction :: "ContextCompactionRecord \<Rightarrow> json \<Rightarrow> json \<Rightarrow> exc + json" where
  "count_compaction record entry container =
    (let records = list_or_empty (jget container ''records'') @ [VDict entry];
         c1 = dset ''records'' (VList (last_n 25 records)) (dset ''last'' (VDict entry) container)
     in sbind (count_value (jget c1 ''count'')) (\<lambda>n.
        let c2 = dset ''count'' (VInt (n + 1)) c1 in
        if \<not> cr_compacted record then Inr c2
        else
          sbind (count_value (jget c2 ''compacted_count'')) (\<lambda>m.
          let c3 = dset ''compacted_count'' (VInt (m + 1)) c2 in
          sbind (count_value (jget c3 ''estimated_tokens_saved'')) (\<lambda>saved.
          Inr (dset ''estimated_tokens_saved'' (VInt (saved + cr_estimated_tokens_saved record)) c3)))))"

definition record_context_compaction_snapshot ::
  "string \<Rightarrow> ContextCompactionRecord \<Rightarrow> string option \<Rightarrow> string option \<Rightarrow> string option \<Rightarrow> unit act" where
  "record_context_compaction_snapshot execution_id record agent_id task_id event_id w =
    (case get_execution execution_id (db w) of
       None \<Rightarrow> (Inr (), w)
     | Some execution \<Rightarrow>
         let governance = governance_of (e_metadata execution);
             entry = dmerge (record_dump record)
               [(''agent_id'', opt_str agent_id), (''task_id'', opt_str task_id), (''event_id'', opt_str event_id),
                (''updated_at'', VStr (isoformat (clock w)))]
         in case count_compaction record entry (dict_or_empty (jget governance ''context_compaction'')) of
              Inl e \<Rightarrow> (Inl e, w)
            | Inr container \<Rightarrow>
                (Inr (), snd (write_governance (dset ''context_compaction'' (VDict container) governance) execution w)))"

end
