(* ===== verification/Token_Properties.thy ===== *)
theory Token_Properties
  imports Token_Recorder Run_Completion
begin

text \<open>
  What the account of an execution says: every use of tokens is added once, to the total and to its agent;
  a budget is reported when its share is reached, but once only, whoever uses the tokens afterwards; and the
  node loop's write-back of the execution throws the account away.
\<close>

section \<open>Reading the account\<close>

definition row_governance :: "string \<Rightarrow> world \<Rightarrow> json" where
  "row_governance i w = (case get_execution i (db w) of None \<Rightarrow> [] | Some x \<Rightarrow> governance_of (e_metadata x))"

definition account_of :: "json \<Rightarrow> json" where
  "account_of governance = dict_or_empty (jget governance ''token_usage'')"

definition bucket_tokens :: "json \<Rightarrow> string \<Rightarrow> int" where
  "bucket_tokens container key =
    (case count_value (jget (dict_or_empty (jget container key)) ''total_tokens'') of Inl _ \<Rightarrow> 0 | Inr n \<Rightarrow> n)"

definition tokens_used :: "string \<Rightarrow> world \<Rightarrow> int" where
  "tokens_used i w = bucket_tokens (account_of (row_governance i w)) ''total''"

definition tokens_used_by :: "string \<Rightarrow> string \<Rightarrow> world \<Rightarrow> int" where
  "tokens_used_by agent_id i w =
    bucket_tokens (dict_or_empty (jget (account_of (row_governance i w)) ''by_agent'')) agent_id"

definition processed :: "string \<Rightarrow> string \<Rightarrow> world \<Rightarrow> bool" where
  "processed event_id i w \<longleftrightarrow>
    VStr event_id \<in> set (list_or_empty (jget (account_of (row_governance i w)) ''processed_event_ids''))"

declare dict_or_empty_VDict [simp]

lemma count_zero [simp]: "count_value VNone = Inr 0" "count_value (VInt n) = Inr n"
  by (simp_all add: count_value_def py_or_def)

lemma map_of_dsetdefault:
  "map_of (dsetdefault k v d) k' = (if k' = k \<and> map_of d k = None then Some v else map_of d k')"
  by (auto simp: dsetdefault_def split: option.split)

lemma setdefault_tokens:
  "count_value (jget (usage_bucket container key) ''total_tokens'') = count_value (jget (dict_or_empty (jget container key)) ''total_tokens'')"
  by (simp add: usage_bucket_def TOKEN_FIELDS_def jget_def map_of_dsetdefault split: option.split)

section \<open>Changing buckets\<close>

lemma add_usage_tokens:
  assumes "add_usage usage bucket = Inr bucket'"
  shows "\<exists>n. count_value (jget bucket ''total_tokens'') = Inr n \<and>
    count_value (jget bucket' ''total_tokens'') = Inr (n + tu_total_tokens usage)"
  using assms by (auto simp: add_usage_def Let_def split: option.splits elim!: sbind_InrE)

lemma increment_tokens:
  "increment_fallback_count bucket = Inr bucket' \<Longrightarrow> jget bucket' ''total_tokens'' = jget bucket ''total_tokens''"
  by (auto simp: increment_fallback_count_def elim!: sbind_InrE)

text \<open>A change of a bucket that adds \<open>n\<close> to its total.\<close>

definition adds :: "int \<Rightarrow> (json \<Rightarrow> exc + json) \<Rightarrow> bool" where
  "adds n f \<longleftrightarrow> (\<forall>b b'. f b = Inr b' \<longrightarrow> (case count_value (jget b' ''total_tokens'') of Inl _ \<Rightarrow> 0 | Inr k \<Rightarrow> k) =
     (case count_value (jget b ''total_tokens'') of Inl _ \<Rightarrow> 0 | Inr k \<Rightarrow> k) + n)"

lemma adds_usage: "adds (tu_total_tokens usage) (add_usage usage)"
  unfolding adds_def by (auto dest!: add_usage_tokens)

lemma adds_fallback: "adds 0 increment_fallback_count"
  by (auto simp: adds_def dest!: increment_tokens)

lemma change_bucket_tokens:
  assumes "adds n f" and "change_bucket key f container = Inr container'"
  shows "bucket_tokens container' k = bucket_tokens container k + (if or_str key None = Some k then n else 0)"
proof (cases "or_str key None")
  case None
  then show ?thesis using assms(2) by (simp add: change_bucket_def)
next
  case (Some k')
  then obtain b where b: "f (usage_bucket container k') = Inr b" "container' = dset k' (VDict b) container"
    using assms(2) by (auto simp: change_bucket_def elim!: sbind_InrE)
  show ?thesis using Some assms(1) b(1) setdefault_tokens [of container k']
    by (auto simp: bucket_tokens_def b(2) adds_def)
qed

lemma change_bucket_other:
  "change_bucket key f container = Inr container' \<Longrightarrow> or_str key None \<noteq> Some k \<Longrightarrow> jget container' k = jget container k"
  by (auto simp: change_bucket_def split: option.splits elim!: sbind_InrE)

lemma change_buckets_tokens:
  assumes "adds n f" and "change_buckets source model f account = Inr account'"
  shows "bucket_tokens account' ''total'' = bucket_tokens account ''total'' + n"
    and "bucket_tokens (dict_or_empty (jget account' ''by_agent'')) a =
      bucket_tokens (dict_or_empty (jget account ''by_agent'')) a + (if or_str (us_agent_id source) None = Some a then n else 0)"
    and "k \<notin> {''total'', ''by_agent'', ''by_task'', ''by_model''} \<Longrightarrow> jget account' k = jget account k"
proof -
  obtain t1 by_agent by_task by_model where
    t1: "change_bucket (Some ''total'') f account = Inr t1"
    and agent: "change_bucket (us_agent_id source) f (dict_or_empty (jget t1 ''by_agent'')) = Inr by_agent"
    and account': "account' = dset ''by_model'' (VDict by_model) (dset ''by_task'' (VDict by_task) (dset ''by_agent'' (VDict by_agent) t1))"
    using assms(2) by (auto simp: change_buckets_def elim!: sbind_InrE)
  have other: "jget t1 k = jget account k" if "k \<noteq> ''total''" for k
    using change_bucket_other [OF t1] that by (simp add: or_str_def)
  show "bucket_tokens account' ''total'' = bucket_tokens account ''total'' + n"
    using change_bucket_tokens [OF assms(1) t1, of "''total''"] by (simp add: account' bucket_tokens_def or_str_def)
  show "bucket_tokens (dict_or_empty (jget account' ''by_agent'')) a =
      bucket_tokens (dict_or_empty (jget account ''by_agent'')) a + (if or_str (us_agent_id source) None = Some a then n else 0)"
    using change_bucket_tokens [OF assms(1) agent, of a] by (simp add: account' other)
  show "k \<notin> {''total'', ''by_agent'', ''by_task'', ''by_model''} \<Longrightarrow> jget account' k = jget account k"
    using other by (auto simp: account')
qed

lemma note_fallback_tokens:
  assumes "note_fallback source model now fallback account = Inr account'"
  shows "bucket_tokens account' ''total'' = bucket_tokens account ''total''"
    and "bucket_tokens (dict_or_empty (jget account' ''by_agent'')) a = bucket_tokens (dict_or_empty (jget account ''by_agent'')) a"
    and "jget account' ''processed_event_ids'' = jget account ''processed_event_ids''"
proof -
  obtain t1 fs n where t1: "change_buckets source model increment_fallback_count account = Inr t1"
    and account': "account' = dset ''model_fallbacks'' fs (dset ''fallback_count'' n t1)"
    using assms by (auto simp: note_fallback_def Let_def elim!: sbind_InrE)
  note c = change_buckets_tokens [OF adds_fallback t1]
  show "bucket_tokens account' ''total'' = bucket_tokens account ''total''"
    using c(1) by (simp add: account' bucket_tokens_def)
  show "bucket_tokens (dict_or_empty (jget account' ''by_agent'')) a = bucket_tokens (dict_or_empty (jget account ''by_agent'')) a"
    using c(2) [of a] by (simp add: account')
  show "jget account' ''processed_event_ids'' = jget account ''processed_event_ids''"
    using c(3) by (simp add: account')
qed

lemma account_usage_tokens:
  assumes "account_usage source usage now account = Inr account'"
  shows "bucket_tokens account' ''total'' = bucket_tokens account ''total'' + tu_total_tokens usage"
    and "bucket_tokens (dict_or_empty (jget account' ''by_agent'')) a =
      bucket_tokens (dict_or_empty (jget account ''by_agent'')) a +
        (if or_str (us_agent_id source) None = Some a then tu_total_tokens usage else 0)"
    and "us_event_id source = Some ev \<Longrightarrow> ev \<noteq> [] \<Longrightarrow> VStr ev \<in> set (list_or_empty (jget account' ''processed_event_ids''))"
proof -
  obtain t1 t2 where t1: "change_buckets source (model_key usage) (add_usage usage) account = Inr t1"
    and t2: "(case model_fallback_metadata usage of None \<Rightarrow> Inr t1
      | Some fallback \<Rightarrow> note_fallback source (model_key usage) now fallback t1) = Inr t2"
    and account': "account' = dset ''updated_at'' (VStr now) (dset ''last_event_id'' (opt_str (us_event_id source))
        (dset ''last_model_request_id'' (opt_str (us_model_request_id source))
          (case or_str (us_event_id source) None of None \<Rightarrow> t2 | Some event_id \<Rightarrow>
            dset ''processed_event_ids'' (VList (last_n 100 (list_or_empty (jget account ''processed_event_ids'') @ [VStr event_id]))) t2)))"
    using assms by (auto simp: account_usage_def Let_def elim!: sbind_InrE)
  note c = change_buckets_tokens [OF adds_usage t1]
  have "bucket_tokens t2 ''total'' = bucket_tokens t1 ''total''" for t
    using t2 note_fallback_tokens(1) by (auto split: option.splits)
  moreover have "bucket_tokens (dict_or_empty (jget t2 ''by_agent'')) a = bucket_tokens (dict_or_empty (jget t1 ''by_agent'')) a" for a
    using t2 note_fallback_tokens(2) by (auto split: option.splits)
  ultimately show "bucket_tokens account' ''total'' = bucket_tokens account ''total'' + tu_total_tokens usage"
    "bucket_tokens (dict_or_empty (jget account' ''by_agent'')) a =
      bucket_tokens (dict_or_empty (jget account ''by_agent'')) a +
        (if or_str (us_agent_id source) None = Some a then tu_total_tokens usage else 0)"
    using c(1) c(2) [of a] by (auto simp: account' bucket_tokens_def split: option.split)
  show "us_event_id source = Some ev \<Longrightarrow> ev \<noteq> [] \<Longrightarrow> VStr ev \<in> set (list_or_empty (jget account' ''processed_event_ids''))"
    by (cases ev) (auto simp: account' or_str_def list_or_empty_def last_n_def)
qed

section \<open>One recording\<close>

lemma write_governance_row:
  "e_id x = i \<Longrightarrow> get_execution i (db (snd (write_governance g x w))) =
     Some (x\<lparr>e_metadata := dset ''runtime_governance'' (VDict g) (e_metadata x), e_updated_at := clock w\<rparr>)"
  by (simp add: write_governance_def Let_def db_update_execution_def update_execution_def repo_save_execution_def
      get_execution_def)

lemma write_governance_frame [simp]:
  "events (db (snd (write_governance g x w))) = events (db w)"
  "states (snd (write_governance g x w)) = states w" "clock (snd (write_governance g x w)) = clock w"
  "keyed (db w) \<Longrightarrow> keyed (db (snd (write_governance g x w)))"
  by (simp_all add: write_governance_def Let_def db_update_execution_def update_execution_def)

lemma record_cases:
  assumes "keyed (db w)" and "record_token_usage_snapshot i usage policy source w = (Inr statuses, w')"
  obtains (nothing) "statuses = []" "w' = w"
      "get_execution i (db w) = None \<or> (\<exists>ev. us_event_id source = Some ev \<and> processed ev i w)"
  | (counted) account seen where "account_usage source usage (isoformat (clock w)) (account_of (row_governance i w)) = Inr account"
      "(statuses, seen) = new_warnings source (isoformat (clock w))
         (budget_warning_statuses policy (bucket_tokens account ''total'') (bucket_tokens account ''total'')
           (bucket_tokens (dict_or_empty (jget account ''by_agent'')) (case us_agent_id source of None \<Rightarrow> [] | Some a \<Rightarrow> a)))
         (dict_or_empty (jget (row_governance i w) ''budget_warnings_emitted''))"
      "account_of (row_governance i w') = account" "jget (row_governance i w') ''budget_warnings_emitted'' = VDict seen"
      "keyed (db w')" "get_execution i (db w) \<noteq> None" "get_execution i (db w') \<noteq> None"
      "\<not> (\<exists>ev. us_event_id source = Some ev \<and> ev \<noteq> [] \<and> processed ev i w)"
proof (cases "get_execution i (db w)")
  case None
  show thesis by (rule nothing) (use assms(2) None in \<open>simp_all add: record_token_usage_snapshot_def\<close>)
next
  case (Some x)
  have id: "e_id x = i" by (rule keyedD [OF assms(1) Some])
  have row: "row_governance i w = governance_of (e_metadata x)" by (simp add: row_governance_def Some)
  show thesis
  proof (cases "truthy_str (us_event_id source) \<and> opt_str (us_event_id source) \<in>
      set (list_or_empty (jget (account_of (row_governance i w)) ''processed_event_ids''))")
    case True
    have "\<exists>ev. us_event_id source = Some ev \<and> processed ev i w"
      using True by (auto simp: processed_def truthy_str_def split: option.splits list.splits)
    show thesis
      by (rule nothing) (use \<open>\<exists>ev. us_event_id source = Some ev \<and> processed ev i w\<close> assms(2) Some True in \<open>simp_all add: record_token_usage_snapshot_def Let_def row account_of_def\<close>)
  next
    case False
    let ?now = "isoformat (clock w)"
    let ?read = "sbind (account_usage source usage ?now (account_of (row_governance i w))) (\<lambda>account.
      sbind (count_value (jget (dict_or_empty (jget account ''total'')) ''total_tokens'')) (\<lambda>run_total.
      sbind (count_value (jget (dict_or_empty (jget (dict_or_empty (jget account ''by_agent''))
        (case us_agent_id source of None \<Rightarrow> [] | Some a \<Rightarrow> a))) ''total_tokens'')) (\<lambda>agent_total.
      Inr (account, budget_warning_statuses policy run_total run_total agent_total))))"
    have step: "record_token_usage_snapshot i usage policy source w = (case ?read of
        Inl e \<Rightarrow> (Inl e, w)
      | Inr (account, statuses) \<Rightarrow>
          (let (new, seen) = new_warnings source ?now statuses (dict_or_empty (jget (row_governance i w) ''budget_warnings_emitted''))
           in (Inr new, snd (write_governance (dset ''budget_warnings_emitted'' (VDict seen)
             (dset ''token_usage'' (VDict account) (row_governance i w))) x w))))"
      using Some False by (auto simp: record_token_usage_snapshot_def Let_def row account_of_def case_prod_unfold split: sum.split)
    obtain account all where read: "?read = Inr (account, all)"
      using assms(2) unfolding step by (cases ?read) auto
    obtain new seen where warn: "new_warnings source ?now all (dict_or_empty (jget (row_governance i w) ''budget_warnings_emitted'')) = (new, seen)"
      by (rule prod.exhaust)
    have w': "w' = snd (write_governance (dset ''budget_warnings_emitted'' (VDict seen)
        (dset ''token_usage'' (VDict account) (row_governance i w))) x w)" and new: "new = statuses"
      using assms(2) unfolding step read by (simp_all add: warn)
    obtain n m where a: "account_usage source usage ?now (account_of (row_governance i w)) = Inr account"
        "count_value (jget (dict_or_empty (jget account ''total'')) ''total_tokens'') = Inr n"
        "count_value (jget (dict_or_empty (jget (dict_or_empty (jget account ''by_agent''))
           (case us_agent_id source of None \<Rightarrow> [] | Some a \<Rightarrow> a))) ''total_tokens'') = Inr m"
      and all: "all = budget_warning_statuses policy n n m"
      using read by (auto elim!: sbind_InrE)
    have s: "new_warnings source ?now (budget_warning_statuses policy n n m)
        (dict_or_empty (jget (row_governance i w) ''budget_warnings_emitted'')) = (statuses, seen)"
      using warn by (simp add: all new)
    have row': "row_governance i w' = dset ''budget_warnings_emitted'' (VDict seen)
        (dset ''token_usage'' (VDict account) (row_governance i w))"
      by (simp add: w' row_governance_def write_governance_row [OF id] governance_of_def)
    show thesis
    proof (rule counted [of account seen])
      show "\<not> (\<exists>ev. us_event_id source = Some ev \<and> ev \<noteq> [] \<and> processed ev i w)"
        using False by (auto simp: processed_def truthy_str_def split: option.splits list.splits)
      show "keyed (db w')" "get_execution i (db w') \<noteq> None" using assms(1) by (simp_all add: w' write_governance_row [OF id])
    qed (use a s Some in \<open>simp_all add: row' account_of_def bucket_tokens_def\<close>)
  qed
qed

lemma recorded_once:
  assumes "keyed (db w)" and "get_execution i (db w) \<noteq> None"
    and "us_event_id source = Some event_id" and "event_id \<noteq> []" and "\<not> processed event_id i w"
    and "record_token_usage_snapshot i usage policy source w = (Inr statuses, w')"
  shows "tokens_used i w' = tokens_used i w + tu_total_tokens usage \<and>
    (\<forall>agent. tokens_used_by agent i w' = tokens_used_by agent i w +
       (if us_agent_id source = Some agent \<and> agent \<noteq> [] then tu_total_tokens usage else 0)) \<and>
    (\<forall>usage2 policy2 source2. us_event_id source2 = Some event_id \<longrightarrow>
       record_token_usage_snapshot i usage2 policy2 source2 w' = (Inr [], w'))"
proof -
  obtain account seen where
    a: "account_usage source usage (isoformat (clock w)) (account_of (row_governance i w)) = Inr account"
    and r: "account_of (row_governance i w') = account" "get_execution i (db w') \<noteq> None"
    using assms(1,6) by (cases rule: record_cases) (use assms(2,3,5) in auto)
  note c = account_usage_tokens [OF a]
  have again: "record_token_usage_snapshot i usage2 policy2 source2 w' = (Inr [], w')"
    if "us_event_id source2 = Some event_id" for usage2 policy2 source2
  proof -
    obtain x where x: "get_execution i (db w') = Some x" using r(2) by blast
    have "opt_str (us_event_id source2) \<in> set (list_or_empty (jget (account_of (row_governance i w')) ''processed_event_ids''))"
      using c(3) [OF assms(3,4)] that by (simp add: r(1))
    moreover have "truthy_str (us_event_id source2)" using that assms(4) by (cases event_id) (simp_all add: truthy_str_def)
    ultimately show ?thesis using x
      by (simp add: record_token_usage_snapshot_def Let_def row_governance_def account_of_def)
  qed
  have "or_str (us_agent_id source) None = Some agent \<longleftrightarrow> us_agent_id source = Some agent \<and> agent \<noteq> []" for agent
    by (auto simp: or_str_def split: option.split list.split)
  then show ?thesis using c(1,2) again by (simp add: tokens_used_def tokens_used_by_def r(1))
qed


section \<open>Recording does not fail\<close>

text \<open>A bucket whose counts are numbers, and an account made of such buckets.\<close>

definition bucket_ok :: "json \<Rightarrow> bool" where
  "bucket_ok b \<longleftrightarrow>
    (\<forall>k \<in> {''prompt_tokens'', ''completion_tokens'', ''total_tokens'', ''fallback_count''}. \<exists>n. count_value (jget b k) = Inr n) \<and>
    (\<exists>f. py_float (py_or (jget b ''estimated_cost'') (VFloat (Fin 0))) = Inr f)"

definition buckets_ok :: "json \<Rightarrow> bool" where
  "buckets_ok c \<longleftrightarrow> (\<forall>k. bucket_ok (dict_or_empty (jget c k)))"

definition account_ok :: "json \<Rightarrow> bool" where
  "account_ok t \<longleftrightarrow> bucket_ok (dict_or_empty (jget t ''total'')) \<and> buckets_ok (dict_or_empty (jget t ''by_agent'')) \<and>
    buckets_ok (dict_or_empty (jget t ''by_task'')) \<and> buckets_ok (dict_or_empty (jget t ''by_model'')) \<and>
    (\<exists>n. count_value (jget t ''fallback_count'') = Inr n)"

lemma py_float_or [simp]: "\<exists>g. py_float (py_or (VFloat f) (VFloat (Fin 0))) = Inr g"
  by (simp add: py_or_def)

lemma bucket_ok_empty [simp]: "bucket_ok []"
  by (simp add: bucket_ok_def) (simp add: py_or_def)

lemma bucket_ok_default: "bucket_ok (dict_or_empty (jget c k)) \<Longrightarrow> bucket_ok (usage_bucket c k)"
  by (auto simp: bucket_ok_def usage_bucket_def TOKEN_FIELDS_def jget_def map_of_dsetdefault split: option.split)

text \<open>A change that succeeds on such a bucket and gives one.\<close>

definition keeps_ok :: "(json \<Rightarrow> exc + json) \<Rightarrow> bool" where
  "keeps_ok f \<longleftrightarrow> (\<forall>b. bucket_ok b \<longrightarrow> (\<exists>b'. f b = Inr b' \<and> bucket_ok b'))"

lemma keeps_add: "keeps_ok (add_usage usage)"
  by (auto simp: keeps_ok_def bucket_ok_def add_usage_def Let_def split: option.split)

lemma keeps_increment: "keeps_ok increment_fallback_count"
  by (auto simp: keeps_ok_def bucket_ok_def increment_fallback_count_def)

lemma change_bucket_ok:
  assumes "keeps_ok f" and "\<And>k. or_str key None = Some k \<Longrightarrow> bucket_ok (dict_or_empty (jget c k))"
  shows "\<exists>c'. change_bucket key f c = Inr c' \<and>
    (\<forall>k. bucket_ok (dict_or_empty (jget c k)) \<longrightarrow> bucket_ok (dict_or_empty (jget c' k))) \<and>
    (\<forall>k. or_str key None \<noteq> Some k \<longrightarrow> jget c' k = jget c k)"
proof (cases "or_str key None")
  case None
  then show ?thesis by (simp add: change_bucket_def)
next
  case (Some k)
  obtain b where "f (usage_bucket c k) = Inr b" "bucket_ok b"
    using assms(1) bucket_ok_default [OF assms(2) [OF Some]] by (auto simp: keeps_ok_def)
  then show ?thesis using Some by (auto simp: change_bucket_def)
qed

lemma change_buckets_ok:
  assumes f: "keeps_ok f" and ok: "account_ok t"
  shows "\<exists>t'. change_buckets source model f t = Inr t' \<and> account_ok t'"
proof -
  obtain t1 where t1: "change_bucket (Some ''total'') f t = Inr t1" "bucket_ok (dict_or_empty (jget t1 ''total''))"
    "\<And>k. k \<noteq> ''total'' \<Longrightarrow> jget t1 k = jget t k"
    using change_bucket_ok [OF f, of "Some ''total''" t] ok by (auto simp: account_ok_def or_str_def)
  have all: "\<exists>c'. change_bucket key f c = Inr c' \<and> buckets_ok c'" if "buckets_ok c" for key c
    using change_bucket_ok [OF f, of key c] that by (auto simp: buckets_ok_def)
  have c: "buckets_ok (dict_or_empty (jget t1 ''by_agent''))" "buckets_ok (dict_or_empty (jget t1 ''by_task''))"
    "buckets_ok (dict_or_empty (jget t1 ''by_model''))" "\<exists>n. count_value (jget t1 ''fallback_count'') = Inr n"
    using ok by (simp_all add: account_ok_def t1(3))
  obtain a b m where "change_bucket (us_agent_id source) f (dict_or_empty (jget t1 ''by_agent'')) = Inr a" "buckets_ok a"
    "change_bucket (us_task_id source) f (dict_or_empty (jget t1 ''by_task'')) = Inr b" "buckets_ok b"
    "change_bucket (Some model) f (dict_or_empty (jget t1 ''by_model'')) = Inr m" "buckets_ok m"
    using all [OF c(1)] all [OF c(2)] all [OF c(3)] by metis
  then show ?thesis using t1(1,2) c(4) by (simp add: change_buckets_def account_ok_def)
qed

lemma account_usage_ok:
  assumes "account_ok t"
  shows "\<exists>t'. account_usage source usage now t = Inr t' \<and> account_ok t'"
proof -
  obtain t1 where t1: "change_buckets source (model_key usage) (add_usage usage) t = Inr t1" "account_ok t1"
    using change_buckets_ok [OF keeps_add assms] by blast
  have other: "account_ok (dset k v d) = account_ok d"
    if "k \<notin> {''total'', ''by_agent'', ''by_task'', ''by_model'', ''fallback_count''}" for k v d
    using that by (auto simp: account_ok_def)
  have "\<exists>t2. (case model_fallback_metadata usage of None \<Rightarrow> Inr t1
      | Some fallback \<Rightarrow> note_fallback source (model_key usage) now fallback t1) = Inr t2 \<and> account_ok t2"
  proof (cases "model_fallback_metadata usage")
    case (Some fallback)
    obtain t3 where t3: "change_buckets source (model_key usage) increment_fallback_count t1 = Inr t3" "account_ok t3"
      using change_buckets_ok [OF keeps_increment t1(2)] by blast
    obtain n where "count_value (jget t3 ''fallback_count'') = Inr n" using t3(2) by (auto simp: account_ok_def)
    moreover have "account_ok (dset ''fallback_count'' (VInt m) t3)" for m using t3(2) by (simp add: account_ok_def)
    ultimately show ?thesis using t3(1) by (simp add: Some note_fallback_def Let_def other)
  qed (simp add: t1)
  then show ?thesis using t1(1) by (auto simp: account_usage_def Let_def other split: option.split)
qed

lemma account_ok_recorded:
  assumes "keyed (db w)" and "account_ok (account_of (row_governance i w))"
  shows "\<exists>statuses w'. record_token_usage_snapshot i usage policy source w = (Inr statuses, w') \<and>
    account_ok (account_of (row_governance i w')) \<and> keyed (db w')"
proof -
  obtain t where t: "account_usage source usage (isoformat (clock w)) (account_of (row_governance i w)) = Inr t" "account_ok t"
    using account_usage_ok [OF assms(2)] by blast
  have counts: "\<exists>n. count_value (jget (dict_or_empty (jget t ''total'')) ''total_tokens'') = Inr n"
    "\<exists>n. count_value (jget (dict_or_empty (jget (dict_or_empty (jget t ''by_agent'')) a)) ''total_tokens'') = Inr n" for a
    using t(2) by (simp_all add: account_ok_def buckets_ok_def bucket_ok_def)
  have "\<exists>statuses w'. record_token_usage_snapshot i usage policy source w = (Inr statuses, w')"
  proof (cases "get_execution i (db w)")
    case (Some x)
    then have "row_governance i w = governance_of (e_metadata x)" by (simp add: row_governance_def)
    then show ?thesis
      using Some t(1) counts(1) counts(2) [of "case us_agent_id source of None \<Rightarrow> [] | Some a \<Rightarrow> a"]
      by (auto simp: record_token_usage_snapshot_def Let_def account_of_def case_prod_unfold)
  qed (simp add: record_token_usage_snapshot_def)
  then obtain statuses w' where r: "record_token_usage_snapshot i usage policy source w = (Inr statuses, w')" by blast
  from assms(1) r show ?thesis
  proof (cases rule: record_cases)
    case nothing
    then show ?thesis using assms r by simp
  next
    case (counted account seen)
    then show ?thesis using t r by simp
  qed
qed


section \<open>Budgets\<close>

lemma budget_key_inj:
  assumes "budget_event_key s = budget_event_key t" and "bs_scope s = bs_scope t" and "bs_budget_tokens s = bs_budget_tokens t"
  shows "bs_status s = bs_status t"
  using assms by (simp add: budget_event_key_def)

lemma new_warnings_seen:
  assumes "new_warnings source now statuses seen = (new, seen')"
  shows "map_of seen k \<noteq> None \<Longrightarrow> map_of seen' k \<noteq> None"
    and "s \<in> set new \<Longrightarrow> s \<in> set statuses \<and> map_of seen (budget_event_key s) = None \<and> map_of seen' (budget_event_key s) \<noteq> None"
    and "s \<in> set statuses \<Longrightarrow> map_of seen (budget_event_key s) = None \<Longrightarrow> \<exists>t \<in> set new. budget_event_key t = budget_event_key s"
proof -
  have "(map_of seen k \<noteq> None \<longrightarrow> map_of seen' k \<noteq> None) \<and>
    (s \<in> set new \<longrightarrow> s \<in> set statuses \<and> map_of seen (budget_event_key s) = None \<and> map_of seen' (budget_event_key s) \<noteq> None) \<and>
    (s \<in> set statuses \<longrightarrow> map_of seen (budget_event_key s) = None \<longrightarrow> (\<exists>t \<in> set new. budget_event_key t = budget_event_key s))"
    for k s
    using assms
  proof (induction source now statuses seen arbitrary: new seen' k s rule: new_warnings.induct)
    case (2 source now status statuses seen)
    show ?case
    proof (cases "map_of seen (budget_event_key status) \<noteq> None")
      case True
      then show ?thesis using 2(1) [OF True] 2(3) by auto
    next
      case False
      then obtain rest where r: "new_warnings source now statuses (dset (budget_event_key status)
             (VDict (dmerge (status_dump status)
               [(''agent_id'', opt_str (us_agent_id source)), (''task_id'', opt_str (us_task_id source)),
                (''workflow_id'', opt_str (us_workflow_id source)), (''event_id'', opt_str (us_event_id source)),
                (''emitted_at'', VStr now)])) seen) = (rest, seen')" "new = status # rest"
        using 2(3) by (auto simp: Let_def split: prod.splits)
      note IH = 2(2) [OF False r(1)]
      have "map_of seen' (budget_event_key status) \<noteq> None" using IH [of "budget_event_key status"] by simp
      then show ?thesis using False r(2) IH [of k s] by (auto split: if_splits)
    qed
  qed simp
  then show "map_of seen k \<noteq> None \<Longrightarrow> map_of seen' k \<noteq> None"
    "s \<in> set new \<Longrightarrow> s \<in> set statuses \<and> map_of seen (budget_event_key s) = None \<and> map_of seen' (budget_event_key s) \<noteq> None"
    "s \<in> set statuses \<Longrightarrow> map_of seen (budget_event_key s) = None \<Longrightarrow> \<exists>t \<in> set new. budget_event_key t = budget_event_key s"
    by blast+
qed

lemma status_fields [simp]:
  "bs_scope (status_for scope used budget p) = scope" "bs_budget_tokens (status_for scope used budget p) = budget"
  by (simp_all add: status_for_def Let_def)

definition scope_budget :: "TokenBudgetPolicy \<Rightarrow> string \<Rightarrow> int option" where
  "scope_budget p scope = (if scope = ''run'' then bp_run_total_tokens p
     else if scope = ''workflow'' then bp_workflow_total_tokens p else bp_agent_total_tokens p)"

lemma warning_budget:
  "t \<in> set (budget_warning_statuses (Some p) run workflow agent) \<Longrightarrow> scope_budget p (bs_scope t) = Some (bs_budget_tokens t)"
  by (auto simp: budget_warning_statuses_def scope_status_def scope_budget_def split: option.splits if_splits)

lemma warning_scope:
  "t \<in> set (budget_warning_statuses (Some p) run workflow agent) \<Longrightarrow> bs_scope t \<in> {''run'', ''workflow'', ''agent''}"
  by (auto simp: budget_warning_statuses_def scope_status_def split: option.splits if_splits)

lemma run_warning:
  assumes "bp_run_total_tokens p = Some n" and "0 < n"
  shows "(\<exists>s \<in> set (budget_warning_statuses (Some p) run workflow agent). bs_scope s = ''run'' \<and> bs_status s = ''exceeded'') \<longleftrightarrow>
    fle (bp_hard_ratio p) (Fin (rat_of_int run / rat_of_int n))"
  using assms by (auto simp: budget_warning_statuses_def scope_status_def status_for_def Let_def split: option.splits if_splits)

definition warned :: "string \<Rightarrow> string \<Rightarrow> world \<Rightarrow> bool" where
  "warned key i w \<longleftrightarrow> map_of (dict_or_empty (jget (row_governance i w) ''budget_warnings_emitted'')) key \<noteq> None"

lemma recorded_warnings:
  assumes "keyed (db w)" and "record_token_usage_snapshot i usage policy source w = (Inr statuses, w')"
  shows "keyed (db w')" and "warned k i w \<Longrightarrow> warned k i w'"
    and "s \<in> set statuses \<Longrightarrow> warned (budget_event_key s) i w' \<and> \<not> warned (budget_event_key s) i w"
    and "s \<in> set statuses \<Longrightarrow> \<exists>p. policy = Some p \<and> scope_budget p (bs_scope s) = Some (bs_budget_tokens s)"
proof -
  have "keyed (db w') \<and> (warned k i w \<longrightarrow> warned k i w') \<and>
    (s \<in> set statuses \<longrightarrow> warned (budget_event_key s) i w' \<and> \<not> warned (budget_event_key s) i w \<and>
      (\<exists>p. policy = Some p \<and> scope_budget p (bs_scope s) = Some (bs_budget_tokens s)))" for k s
    using assms
  proof (cases rule: record_cases)
    case nothing
    then show ?thesis using assms(1) by simp
  next
    case (counted account seen)
    note n = new_warnings_seen [OF counted(2) [symmetric]]
    have "\<exists>p. policy = Some p \<and> scope_budget p (bs_scope s) = Some (bs_budget_tokens s)" if "s \<in> set statuses"
    proof (cases policy)
      case None
      then show ?thesis using n(2) [OF that] by (simp add: budget_warning_statuses_def)
    next
      case (Some p)
      then show ?thesis using n(2) [OF that] by (blast intro: warning_budget)
    qed
    then show ?thesis using counted(4,5) n(1) [of k] n(2) [of s] by (auto simp: warned_def)
  qed
  then show "keyed (db w')" "warned k i w \<Longrightarrow> warned k i w'"
    "s \<in> set statuses \<Longrightarrow> warned (budget_event_key s) i w' \<and> \<not> warned (budget_event_key s) i w"
    "s \<in> set statuses \<Longrightarrow> \<exists>p. policy = Some p \<and> scope_budget p (bs_scope s) = Some (bs_budget_tokens s)"
    by blast+
qed

text \<open>The recordings of one model call after the other, with the statuses they report.\<close>

fun record_all :: "string \<Rightarrow> TokenBudgetPolicy option \<Rightarrow> (TokenUsage \<times> usage_source) list \<Rightarrow> TokenBudgetStatus list act" where
  "record_all i policy [] w = (Inr [], w)"
| "record_all i policy ((usage, source) # calls) w =
    andthen (record_token_usage_snapshot i usage policy source w) (\<lambda>statuses w1.
      andthen (record_all i policy calls w1) (\<lambda>later w2. (Inr (statuses @ later), w2)))"

lemma warned_stays_silent:
  "keyed (db w) \<Longrightarrow> warned k i w \<Longrightarrow> record_all i policy calls w = (Inr later, w') \<Longrightarrow> t \<in> set later \<Longrightarrow>
   budget_event_key t \<noteq> k"
proof (induction calls arbitrary: w later)
  case (Cons call calls)
  obtain usage source where call: "call = (usage, source)" by (rule prod.exhaust)
  obtain statuses w1 rest where r: "record_token_usage_snapshot i usage policy source w = (Inr statuses, w1)"
      "record_all i policy calls w1 = (Inr rest, w')" "later = statuses @ rest"
    using Cons.prems(3) by (auto simp: call elim!: andthen_InrE)
  note one = recorded_warnings [OF Cons.prems(1) r(1)]
  show ?case using Cons.prems(2,4) Cons.IH [OF one(1) one(2) [OF Cons.prems(2)] r(2)] one(3) by (auto simp: r(3))
qed simp

lemma recorded_calls_budget:
  "keyed (db w) \<Longrightarrow> record_all i policy calls w = (Inr later, w') \<Longrightarrow> t \<in> set later \<Longrightarrow>
   \<exists>p. policy = Some p \<and> scope_budget p (bs_scope t) = Some (bs_budget_tokens t)"
proof (induction calls arbitrary: w later)
  case (Cons call calls)
  obtain usage source where call: "call = (usage, source)" by (rule prod.exhaust)
  obtain statuses w1 rest where r: "record_token_usage_snapshot i usage policy source w = (Inr statuses, w1)"
      "record_all i policy calls w1 = (Inr rest, w')" "later = statuses @ rest"
    using Cons.prems(2) by (auto simp: call elim!: andthen_InrE)
  note one = recorded_warnings [OF Cons.prems(1) r(1)]
  show ?case using Cons.prems(3) Cons.IH [OF one(1) r(2)] one(4) by (auto simp: r(3))
qed simp


lemma reported_when_reached:
  assumes "keyed (db w)" and "get_execution i (db w) \<noteq> None"
    and "us_event_id source = Some event_id" and "\<not> processed event_id i w"
    and "bp_run_total_tokens p = Some budget" and "0 < budget" and "bp_hard_ratio p = Fin hard"
    and "\<not> warned (''run:'' @ int_str budget @ '':exceeded'') i w"
    and "record_token_usage_snapshot i usage (Some p) source w = (Inr statuses, w')"
  shows "(\<exists>s \<in> set statuses. bs_scope s = ''run'' \<and> bs_status s = ''exceeded'') \<longleftrightarrow>
    hard \<le> rat_of_int (tokens_used i w') / rat_of_int budget"
proof -
  let ?statuses = "\<lambda>account. budget_warning_statuses (Some p) (bucket_tokens account ''total'') (bucket_tokens account ''total'')
    (bucket_tokens (dict_or_empty (jget account ''by_agent'')) (case us_agent_id source of None \<Rightarrow> [] | Some a \<Rightarrow> a))"
  obtain account seen where
    n: "new_warnings source (isoformat (clock w)) (?statuses account)
      (dict_or_empty (jget (row_governance i w) ''budget_warnings_emitted'')) = (statuses, seen)"
    and account: "account_of (row_governance i w') = account"
  proof (cases rule: record_cases [OF assms(1,9)])
    case (2 account seen)
    then show thesis using that [of account seen] by simp
  qed (use assms(2-4) in auto)
  note seen = new_warnings_seen [OF n]
  have key: "budget_event_key s = ''run:'' @ int_str budget @ '':exceeded''"
    if "s \<in> set (?statuses account)" "bs_scope s = ''run''" "bs_status s = ''exceeded''" for s
    using warning_budget [OF that(1)] that(2,3) assms(5) by (simp add: budget_event_key_def scope_budget_def)
  have "(\<exists>s \<in> set statuses. bs_scope s = ''run'' \<and> bs_status s = ''exceeded'') \<longleftrightarrow>
      (\<exists>s \<in> set (?statuses account). bs_scope s = ''run'' \<and> bs_status s = ''exceeded'')"
  proof
    assume "\<exists>s \<in> set (?statuses account). bs_scope s = ''run'' \<and> bs_status s = ''exceeded''"
    then obtain s where s: "s \<in> set (?statuses account)" "bs_scope s = ''run''" "bs_status s = ''exceeded''" by blast
    have "map_of (dict_or_empty (jget (row_governance i w) ''budget_warnings_emitted'')) (budget_event_key s) = None"
      using assms(8) key [OF s] by (simp add: warned_def)
    from seen(3) [OF s(1) this] obtain t where t: "t \<in> set statuses" "budget_event_key t = budget_event_key s" by blast
    have in_all: "t \<in> set (?statuses account)" using seen(2) [OF t(1)] by blast
    have run: "bs_scope t = ''run''"
      using warning_scope [OF in_all] t(2) s(2) by (auto simp: budget_event_key_def)
    then have "bs_budget_tokens t = budget" using warning_budget [OF in_all] assms(5) by (simp add: scope_budget_def)
    then have "bs_status t = ''exceeded''" using t(2) key [OF s] run by (simp add: budget_event_key_def)
    then show "\<exists>s \<in> set statuses. bs_scope s = ''run'' \<and> bs_status s = ''exceeded''" using t(1) run by blast
  next
    assume "\<exists>s \<in> set statuses. bs_scope s = ''run'' \<and> bs_status s = ''exceeded''"
    then show "\<exists>s \<in> set (?statuses account). bs_scope s = ''run'' \<and> bs_status s = ''exceeded''" using seen(2) by blast
  qed
  then show ?thesis
    using run_warning [OF assms(5,6), of "bucket_tokens account ''total''" "bucket_tokens account ''total''"] assms(7)
    by (simp add: tokens_used_def account)
qed

text \<open>
  The budget of a run is reported as exceeded, the first time, exactly when the tokens the execution has
  used reach the hard share of it.
\<close>

theorem run_budget_is_reported_when_reached:
  assumes "keyed (db w)" and "get_execution i (db w) \<noteq> None"
    and "us_event_id source = Some event_id" and "\<not> processed event_id i w"
    and "bp_run_total_tokens p = Some budget" and "0 < budget" and "bp_hard_ratio p = Fin hard"
    and "\<not> warned (''run:'' @ int_str budget @ '':exceeded'') i w"
    and "record_token_usage_snapshot i usage (Some p) source w = (Inr statuses, w')"
  shows "(\<exists>s \<in> set statuses. bs_scope s = ''run'' \<and> bs_status s = ''exceeded'') \<longleftrightarrow>
    hard \<le> rat_of_int (tokens_used i w') / rat_of_int budget"
  by (rule reported_when_reached [OF assms])

section \<open>The write-back of the node loop\<close>

text \<open>The governance a value of the execution or a row carries.\<close>

definition governs :: "pyval \<Rightarrow> Execution \<Rightarrow> bool" where
  "governs g x \<longleftrightarrow> jget (e_metadata x) ''runtime_governance'' = g"

definition row_governs :: "pyval \<Rightarrow> string \<Rightarrow> world \<Rightarrow> bool" where
  "row_governs g i w \<longleftrightarrow> (\<exists>e. get_execution i (db w) = Some e \<and> governs g e)"

text \<open>The agent executor leaves the governance of the execution object it is given alone.\<close>

definition governance_agent :: "engine_env \<Rightarrow> bool" where
  "governance_agent en \<longleftrightarrow> (\<forall>call x w. jget (e_metadata (fst (snd (en_agent en call x w)))) ''runtime_governance'' =
     jget (e_metadata x) ''runtime_governance'')"

lemma row_governs_kept:
  assumes "row_governs g i w" and "executions_kept (db w) (db w')"
  shows "row_governs g i w'"
proof -
  obtain e where e: "get_execution i (db w) = Some e" "governs g e" using assms(1) by (auto simp: row_governs_def)
  obtain e' where e': "get_execution i (db w') = Some e'" "same_but_activity e e'"
    using executions_keptD [OF assms(2) e(1)] by blast
  have "jget (e_metadata e') ''runtime_governance'' = jget (e_metadata e) ''runtime_governance''"
    by (rule same_but_activityD(11) [OF e'(2)]) simp
  then show ?thesis using e(2) e'(1) by (simp add: row_governs_def governs_def)
qed

lemma row_governs_emit: "keyed (db w) \<Longrightarrow> row_governs g i w \<Longrightarrow> row_governs g i (snd (run_emit j ty ac p m md a t w))"
  by (erule row_governs_kept) (simp add: run_emit_def Let_def case_prod_unfold emit_executions)

lemma row_governs_handoff:
  "keyed (db w) \<Longrightarrow> row_governs g i w \<Longrightarrow> row_governs g i (handoff workflow previous target st j w)"
  by (auto simp: handoff_def emit_handoff_event_def Let_def case_prod_unfold row_governs_emit split: option.split)

lemma rbind_row: "rbind r f = (a, y, v) \<Longrightarrow> (\<And>b x w. fst (snd (f b x w)) = x) \<Longrightarrow> y = fst (snd r)"
  by (cases r rule: prod_cases3; cases "fst r") (auto, metis fst_conv snd_conv)

lemma governs_attempts:
  assumes env: "quiet_env en" and agent: "governance_agent en"
  shows "governs g x \<Longrightarrow> attempts en call ov wl m n used x w = (r, x', w') \<Longrightarrow> governs g x'"
proof (induction "calls_left ov m n used" arbitrary: n used x w r rule: less_induct)
  case less
  have once: "governs g y" if at: "attempt_once en call ov n m x w = (a, y, v)" for a y v
  proof -
    obtain v0 where "y = fst (snd (en_agent en call x v0))"
      using at unfolding attempt_once_def Let_def by (force dest: rbind_row)
    then show ?thesis using agent less.prems(1) by (simp add: governance_agent_def governs_def)
  qed
  show ?case
  proof (cases rule: attempts_cases [OF less.prems(2)])
    case (5 e w1 x1 p)
    have "calls_left ov m (n + 1) used < calls_left ov m n used" using 5(2) by (simp add: calls_left_def)
    then show ?thesis using less.hyps once 5(1,3) by blast
  next
    case (6 e w1 x1 w2 p)
    have "calls_left ov m (n + 1) True < calls_left ov m n used" using 6(2-4) by (simp add: calls_left_def)
    then show ?thesis using less.hyps once 6(1,6) by blast
  qed (use once in blast)+
qed

text \<open>The row and the object agree on the governance before a part of the loop and after it.\<close>

definition in_step :: "pyval \<Rightarrow> string \<Rightarrow> Execution \<Rightarrow> world \<Rightarrow> bool" where
  "in_step g i x w \<longleftrightarrow> sane i x w \<and> governs g x \<and> row_governs g i w"

fun returns_in :: "(Execution \<Rightarrow> world \<Rightarrow> bool) \<Rightarrow> 'a run \<Rightarrow> bool" where
  "returns_in P (Inl e, x, w) = True"
| "returns_in P (Inr a, x, w) = P x w"

lemma returns_rbind:
  "(\<And>a x w. r = (Inr a, x, w) \<Longrightarrow> returns_in P (f a x w)) \<Longrightarrow> returns_in P (rbind r f)"
  by (cases r rule: prod_cases3; cases "fst r") auto

lemma governs_try_task:
  assumes "quiet_env en" "governance_agent en" "governs g x"
    and "try_task en workflow task agent profile ov timeout x w = (r, x', w')"
  shows "governs g x'"
proof -
  obtain a v where ask: "maybe_request_task_approval en workflow task agent (e_id x) (jget ov ''approval_policy'') None w = (a, v)"
    by (rule prod.exhaust)
  show ?thesis
    using assms(3,4) governs_attempts [OF assms(1-3)]
    by (cases a) (auto simp: try_task_def on_world_def ask execute_task_with_runtime_overrides_def case_prod_unfold Let_def
        split: option.splits)
qed

lemma settle_in_step:
  assumes "sane i x w" and "governs g x"
  shows "returns_in (in_step g i) (settle_node en workflow previous target output x w)"
proof -
  obtain node task agent where t: "target = (node, task, agent)" by (rule prod_cases3)
  have id: "e_id x = i" using assms(1) by (simp add: sane_def)
  have stored: "in_step g i (x\<lparr>e_output_payload := p\<rparr>) (handoff workflow previous target st i
      (db_update_execution (x\<lparr>e_output_payload := p\<rparr>) v))" if "sane i x v" for p st v
  proof -
    have k: "keyed (db (db_update_execution (x\<lparr>e_output_payload := p\<rparr>) v))"
      using sane_update [OF that] by (simp add: sane_def)
    have "row_governs g i (db_update_execution (x\<lparr>e_output_payload := p\<rparr>) v)"
      using assms(2) id by (simp add: row_governs_def governs_def db_update_execution_def update_execution_def
          repo_save_execution_def get_execution_def Let_def)
    then show ?thesis
      using row_governs_handoff [OF k] sane_row [OF sane.keeps_handoff [OF sane_update [OF that]], of "x\<lparr>e_output_payload := p\<rparr>"] assms(2)
      by (simp add: in_step_def governs_def)
  qed
  have s: "sane i x (change_state i (record_output en k v) (change_state i (put_error k' m) w))"
    "sane i x (change_state i (record_output en k v) w)" for k v k' m
    using assms(1) id by (auto intro!: sane_change simp: record_output_def put_error_def Let_def)
  show ?thesis using stored [OF s(1)] stored [OF s(2)]
    by (auto simp: settle_node_def t Let_def id split: option.split sum.split)
qed

lemma run_node_in_step:
  assumes env: "loop_env en" and agent: "governance_agent en" and s: "in_step g i x w"
  shows "returns_in (in_step g i) (run_node en workflow policy previous target x w)"
proof -
  obtain node task ag where t: "target = (node, task, ag)" by (rule prod_cases3)
  have q: "quiet_env en" using env by (simp add: loop_env_def)
  have sane: "sane i x w" and gx: "governs g x" using s by (simp_all add: in_step_def)
  have step: "returns_in (in_step g i) (rbind (route_failure workflow node (try_task en workflow task ag profile ov timeout x v))
      (settle_node en workflow previous target))" if v: "sane i x v" for profile ov timeout v
  proof (rule returns_rbind)
    fix a y u assume "route_failure workflow node (try_task en workflow task ag profile ov timeout x v) = (Inr a, y, u)"
    then obtain r u' where tr: "try_task en workflow task ag profile ov timeout x v = (r, y, u')"
      "u = u' \<or> (\<exists>k m. u = change_state (e_id y) (put_error k m) u')"
      by (cases "try_task en workflow task ag profile ov timeout x v" rule: prod_cases3)
        (auto simp: route_failure_def split: sum.splits if_splits)
    have y: "sane i y u'" using sane.keeps_try_task [OF q v] tr(1) by (metis ends_in.simps)
    then have "sane i y u" using tr(2) by (auto intro!: sane_change simp: put_error_def)
    then show "returns_in (in_step g i) (settle_node en workflow previous target a y u)"
      by (rule settle_in_step [OF _ governs_try_task [OF q agent gx tr(1)]])
  qed
  define w1 where "w1 = change_state (e_id x) (\<lambda>st. st\<lparr>st_current_node_id := Some (n_id node),
      st_current_agent_id := Some (ad_id ag), st_current_task_id := Some (td_id task)\<rparr>) w"
  have s1: "sane i x w1" unfolding w1_def by (rule sane_change [OF sane]) simp
  have graph: "sane i x (en_graph_before en wl tk ag' y v)" if "sane i x v" for wl tk ag' y v
    using env by (intro sane_quiet [OF that]) (simp add: loop_env_def)
  have s2: "sane i x (task_note j ty ag task p (en_graph_before en wl tk ag' y (handoff workflow previous target st k w1)))"
    for j ty p wl tk ag' y st k
    by (rule sane_task_note [OF graph [OF sane.keeps_handoff [OF s1]]])
  show ?thesis
    using step [OF s2] unfolding run_node_def Let_def t prod.case w1_def [symmetric, folded t]
    by (auto simp: t split: sum.split)
qed

lemma row_governs_beaten: "row_governs g i w \<Longrightarrow> row_governs g i (beaten x w)"
  by (auto simp: row_governs_def governs_def beaten_def heartbeat_def get_execution_def Let_def split: option.splits)

lemma node_step_in_step:
  assumes env: "loop_env en" and agent: "governance_agent en" and s: "in_step g i x w"
  shows "returns_in (in_step g i) (node_step en workflow policy retry node loop x w)"
proof -
  define w1 where "w1 = beaten x w"
  have s1: "in_step g i x w1" using s by (simp add: in_step_def w1_def sane_beaten row_governs_beaten)
  have noted: "in_step g i x (run_note j ty p w1)" for j ty p
    using s1 by (simp add: in_step_def sane_note run_note_def row_governs_emit sane_emit) (simp add: sane_def row_governs_emit)
  have node: "returns_in (in_step g i) (rbind (run_node en workflow p t u x w1) (\<lambda>_ x w. (Inr l, x, w)))" for p t u and l :: loop_state
    using run_node_in_step [OF env agent s1, of workflow p t u]
    by (cases "run_node en workflow p t u x w1" rule: prod_cases3; cases "fst (run_node en workflow p t u x w1)") auto
  show ?thesis using s s1 noted node
    by (auto simp: node_step_def Let_def case_prod_unfold w1_def [symmetric] split: option.split sum.split)
qed

lemma run_nodes_in_step:
  assumes env: "loop_env en" and agent: "governance_agent en"
  shows "in_step g i x w \<Longrightarrow> returns_in (in_step g i) (run_nodes en workflow policy retry nodes loop x w)"
proof (induction nodes arbitrary: loop x w)
  case (Cons node nodes)
  have step: "returns_in (in_step g i) (node_step en workflow policy retry node loop x w)"
    by (rule node_step_in_step [OF env agent Cons.prems])
  show ?case
    unfolding run_nodes.simps by (rule returns_rbind) (use step Cons.IH in force)
qed simp


section \<open>A run that uses tokens\<close>

definition sample_usage :: TokenUsage where
  "sample_usage = \<lparr>tu_provider = Some ''openai'', tu_model = Some ''m'', tu_prompt_tokens = 900, tu_completion_tokens = 100,
     tu_total_tokens = 1000, tu_cached_tokens = 0, tu_reasoning_tokens = 0, tu_estimated_cost = Fin 0, tu_currency = None,
     tu_estimated = False, tu_estimate_method = None, tu_provider_usage = []\<rparr>"

definition sample_source :: "string \<Rightarrow> usage_source" where
  "sample_source event_id = \<lparr>us_agent_id = Some ''a'', us_task_id = Some ''t'', us_workflow_id = Some ''wf-1'',
     us_model_request_id = Some ''r-1'', us_event_id = Some event_id\<rparr>"

definition sample_policy :: TokenBudgetPolicy where
  "sample_policy = \<lparr>bp_run_total_tokens = Some 1000, bp_workflow_total_tokens = None, bp_agent_total_tokens = None,
     bp_warn_ratio = Fin (8 / 10), bp_hard_ratio = Fin 1, bp_action = ''fail_execution''\<rparr>"

abbreviation sample_record :: "string \<Rightarrow> world \<Rightarrow> (exc + TokenBudgetStatus list) \<times> world" where
  "sample_record event_id \<equiv> record_token_usage_snapshot ''ex-1'' sample_usage (Some sample_policy) (sample_source event_id)"

lemma sample_before:
  "keyed (db sample_world)" "get_execution ''ex-1'' (db sample_world) \<noteq> None" "\<not> processed ev ''ex-1'' sample_world"
  "\<not> warned k ''ex-1'' sample_world" "tokens_used ''ex-1'' sample_world = 0"
  "account_of (row_governance ''ex-1'' sample_world) = []"
  using sample_world_ok(2)
  by (simp_all add: sample_world_def get_execution_def processed_def warned_def tokens_used_def
      row_governance_def governance_of_def account_of_def dict_or_empty_def list_or_empty_def bucket_tokens_def)

lemma sample_account_ok: "account_ok (account_of (row_governance ''ex-1'' sample_world))"
  by (simp add: sample_before account_ok_def buckets_ok_def dict_or_empty_def)

lemma sample_recorded:
  "\<exists>statuses w1. sample_record ''ev-1'' sample_world = (Inr statuses, w1) \<and>
     (\<exists>later w2. record_all ''ex-1'' (Some sample_policy) [(sample_usage, sample_source ''ev-2'')] w1 = (Inr later, w2))"
proof -
  obtain statuses w1 where one: "sample_record ''ev-1'' sample_world = (Inr statuses, w1)"
    "account_ok (account_of (row_governance ''ex-1'' w1))" "keyed (db w1)"
    using account_ok_recorded [OF sample_before(1) sample_account_ok] by blast
  show ?thesis using one account_ok_recorded [OF one(3,2), of sample_usage "Some sample_policy" "sample_source ''ev-2''"] by auto
qed



theorem run_budget_is_reported_when_reached_witness:
  "\<exists>statuses w1. sample_record ''ev-1'' sample_world = (Inr statuses, w1) \<and>
     ((\<exists>s \<in> set statuses. bs_scope s = ''run'' \<and> bs_status s = ''exceeded'') \<longleftrightarrow>
      1 \<le> rat_of_int (tokens_used ''ex-1'' w1) / 1000)"
proof -
  obtain statuses w1 where r: "sample_record ''ev-1'' sample_world = (Inr statuses, w1)" using sample_recorded by blast
  from run_budget_is_reported_when_reached [OF sample_before(1,2) _ sample_before(3) _ _ _ sample_before(4) r, of "''ev-1''" 1000 1]
  show ?thesis using r by (auto simp: sample_source_def sample_policy_def)
qed


text \<open>An agent that records a thousand tokens for its task.\<close>

definition spend :: "Execution \<Rightarrow> world \<Rightarrow> world" where
  "spend x w = snd (record_token_usage_snapshot (e_id x) sample_usage None (sample_source ''ev-1'') w)"

lemma recorder_frame:
  "states (snd (record_token_usage_snapshot i u p src w)) = states w"
  "events (db (snd (record_token_usage_snapshot i u p src w))) = events (db w)"
  "keyed (db w) \<Longrightarrow> keyed (db (snd (record_token_usage_snapshot i u p src w)))"
  by (auto simp: record_token_usage_snapshot_def Let_def case_prod_unfold split: option.split sum.split)

lemma busy_engine_ok: "loop_env (busy_engine spend)" "governance_agent (busy_engine spend)"
proof -
  have "no_start w (spend x w)" for x w
    unfolding spend_def by (rule quiet_frame) (simp_all add: recorder_frame)
  then show "loop_env (busy_engine spend)" "governance_agent (busy_engine spend)"
    by (simp_all add: loop_env_def harmless_graph_def quiet_env_def governance_agent_def busy_engine_def sample_env_def)
qed


end
