(* ===== verification/Spec2Isabelle.thy ===== *)
theory Spec2Isabelle
  imports SQL_Ledger Store_Invariants Isolation_Properties Worker_Properties Failing_Loop Tool_Safety
  Retry_Properties Scheduler_Properties Compaction_Properties Token_Properties
begin

text \<open>
  Open Agency runs workflows of LLM agents as durable \<^emph>\<open>executions\<close>: rows in a store, an event
  stream per execution, waits an execution can be suspended on, approvals by an operator, worker
  containers, and a control plane that starts, resumes, repairs and replaces executions. This
  development models that execution core (\<open>app/runtime\<close>, \<open>app/domain\<close> and the services and
  repositories it uses) and proves what keeps it correct.

  \<^bold>\<open>Theories and the code they model.\<close>
  \<^item> \<open>Py_Prelude\<close>, \<open>Py_Numbers\<close>: Python values, dictionaries in insertion order, strings, time,
    exceptions, numeric conversions. \<open>Samples\<close>: concrete values for the witnesses.
  \<^item> \<open>Domain\<close>: executions, events, waits, approval rows, run states, container states, revisions
    (\<open>app/domain\<close>, \<open>runtime/native/state.py\<close>). \<open>Execution_Activity\<close>: \<open>services/execution_activity.py\<close>.
  \<^item> \<open>Execution_Store\<close>: \<open>InMemoryExecutionStore\<close>; \<open>SQL_Ledger\<close>: the wait table of \<open>SQLExecutionStore\<close>;
    \<open>Wait_Ledger\<close>: the contract both keep, as the locale \<open>ledger\<close> and a simulation between stores;
    \<open>Store_Invariants\<close>: event streams, locks and keys of the store.
  \<^item> \<open>Operations\<close>: \<open>runtime/operations.py\<close>. \<open>Events\<close>: redaction, the event bus, the emitter, and the
    record \<open>world\<close> that all components share.
  \<^item> \<open>Wait_Service\<close>: \<open>services/execution_waits.py\<close>; \<open>Approvals\<close>: \<open>runtime/native/approvals.py\<close>;
    \<open>Staleness\<close>: \<open>services/execution_classification.py\<close>; \<open>Engine\<close>: the lifecycle commands of
    \<open>runtime/native/engine.py\<close> and \<open>runtime/registry.py\<close>.
  \<^item> \<open>Execution_Lifecycle\<close>: \<open>runtime/execution_lifecycle.py\<close>; \<open>Containers\<close>: \<open>runtime/containers.py\<close> and
    \<open>runtime/lifecycle.py\<close>; \<open>Revisions\<close>: \<open>runtime/revisions.py\<close> and its repository.
  \<^item> \<open>Control_Plane\<close>, \<open>Repair\<close>, \<open>Isolation\<close>, \<open>Isolation_Properties\<close>: \<open>runtime/control_plane.py\<close> (commands;
    repair of stale executions; isolated runs, replacement and creation of executions);
    \<open>Reconcile\<close>: \<open>runtime/reconcile.py\<close>. \<open>Worker\<close>, \<open>Worker_Properties\<close>: \<open>runtime/worker.py\<close>, the process in the
    container whose exit code the reconciler reads.

  \<^item> The native engine (\<open>runtime/native/engine.py\<close>, \<open>planner.py\<close>): \<open>Planner\<close> orders the nodes; \<open>Routing\<close>
    decides the outcome of a node and which edges it activates; \<open>Task_Run\<close> calls the agent of a task with
    its overrides, approvals and retries; \<open>Checkpoints\<close> writes and reads the progress of a run;
    \<open>Cycles\<close> is the loop of a persistent execution; \<open>Node_Loop\<close> is \<open>start_execution\<close>, which composes them.
    \<open>Run_Properties\<close> (with the locale \<open>run_invariant\<close>), \<open>Run_Safety\<close>, \<open>Run_Completion\<close> and \<open>Failing_Loop\<close> prove what
    a run guarantees. \<open>Py_Text\<close>: JSON text and conversions the engine uses. \<open>Retries\<close>, \<open>Retry_Properties\<close>:
    \<open>retry_task\<close> and \<open>resume_from_checkpoint\<close> of \<open>services/executions.py\<close>.
  \<^item> The tools an agent calls: \<open>Tools\<close> and \<open>Tool_Risk\<close> (\<open>domain/tools.py\<close>, \<open>tools/names.py\<close>, \<open>tools/risk.py\<close>, the
    provider keys of \<open>integrations/connectors.py\<close>) and \<open>Tool_Executor\<close> (\<open>native/tool_executor.py\<close>, the dispatch of
    \<open>tools/registry.py\<close>), with \<open>Tool_Safety\<close>.

  \<^item> Schedules that start executions: \<open>Schedules\<close> (\<open>domain/schedules.py\<close>, \<open>scheduler/triggers.py\<close>), \<open>Fire_Claims\<close> (the claims on
    fire times in both schedule repositories, with the locale \<open>fire_claims\<close>), \<open>Scheduler\<close> (\<open>scheduler/scheduler.py\<close>,
    \<open>services/schedules.py\<close>) and \<open>Scheduler_Properties\<close>.

  \<^item> The governance of model calls (\<open>runtime/governance\<close>, \<open>domain/runtime_governance.py\<close>, the messages of \<open>llm/base.py\<close>):
    \<open>Context_Health\<close> estimates how full a context is, \<open>Compaction\<close> shortens a transcript, \<open>Token_Ledger\<close> reads a
    provider's usage and the budgets, \<open>Token_Recorder\<close> keeps the account of an execution; \<open>Compaction_Properties\<close>,
    \<open>Token_Properties\<close>. The agent executor that calls them is the parameter \<open>en_agent\<close>, so how often it does is not
    modelled; what it may rely on, and what the engine's checkpoints do to the account, is.

  \<^bold>\<open>Conventions.\<close> A method is a function of its arguments and the \<open>world\<close>; one that may raise returns
  \<open>exc + 'a\<close> with the world as it stands then, so every raise and early return is a branch. A row
  read from the store is a value, as with the SQL store: changing it has no effect until it is
  saved. Everything between two \<open>await\<close>s of the code runs as one step; the theorems about
  interleavings quantify over sequences of such operations.

  \<^bold>\<open>Parameters.\<close> Code outside the repository is an argument: hashes and the HMAC, regular expressions,
  \<open>datetime.fromisoformat\<close>, the text of floats, the Docker client (\<open>docker_api\<close>), the environment and
  the file system (\<open>host\<close>), the supply of UUIDs. The engine's collaborators are the fields of
  \<open>engine_env\<close>: the repositories of workflows and model profiles, the agent executor (\<open>en_agent\<close>), the
  retrieval of graph context, the delegate and the awaited decision of an approval, the completion
  handler. \<open>quiet_env\<close>, \<open>harmless_graph\<close> and \<open>loop_env\<close> state what a run relies on: that none of them
  records the start of a step, changes what the nodes have produced or touches another row. The
  executor of tool calls has its own parameters in \<open>tool_env\<close>.

  \<^bold>\<open>What the lemmas show.\<close> For each component: an invariant its operations keep (\<open>ledger_inv\<close>, \<open>sql_inv\<close>,
  \<open>keyed\<close>, \<open>world_ok\<close>, \<open>revisions_ok\<close>), the effect of each operation on every branch, and the
  properties listed below and in the component theories. \<open>reaches_later_task\<close> and the other loops
  without structural recursion come with termination proofs; no fuel is used.

  \<^bold>\<open>Not modelled.\<close> HTTP routes, conversations and channels, the persona and memory services, the
  knowledge graph, LLM providers, the implementations of single tools, the browser runtime, the command line, the
  Mongo and SQL repositories other than the wait table and the schedules: they prepare inputs for, or present results
  of, the execution core. The rounding of IEEE doubles is not modelled: a float is an exact rational
  in the range of doubles or a special value.
\<close>

section \<open>The wait ledger under any interleaving\<close>

definition sample_script :: "ledger_op list" where
  "sample_script = [Create sample_wait, Resolve 5 ''w-1'' RESOLVED ''a'' [] None,
     Resolve 6 ''w-1'' EXPIRED ''b'' [] None]"

lemma sample_script_ok: "get ''w-1'' l = None \<Longrightarrow> script_ok get sample_script l"
  by (simp add: script_ok_def sample_script_def resolution_ok_def
      TERMINAL_EXECUTION_WAIT_STATUSES_def max_len_def)

lemma empty_store_ledger: "ledger_inv empty_store" "get_execution_wait i empty_store = None"
  by (simp_all add: ledger_inv_def empty_store_def get_execution_wait_def)

lemma empty_table_ledger: "sql_inv []" "sql_lookup i [] = None"
  by (simp_all add: sql_inv_def sql_lookup_def sql_get_execution_wait_def)

text \<open>
  C5: Whatever sequence of creations and resolutions reaches the in-memory wait ledger, in
  whatever interleaving, no wait is claimed twice: at most one resolver is told that it is the
  one that woke the execution.
\<close>

theorem memory_claims_once:
  assumes "ledger_inv s" and "script_ok get_execution_wait xs s"
  shows "distinct (claimed_ids (fst (ledger_run create_execution_wait mem_resolve xs s)))"
  by (rule mem.run_claims_distinct [OF assms])

theorem memory_claims_once_witness:
  "distinct (claimed_ids (fst (ledger_run create_execution_wait mem_resolve sample_script empty_store)))"
  by (rule memory_claims_once)
    (simp_all add: empty_store_ledger sample_script_ok)

text \<open>
  C4: The SQL ledger has the same guarantee: its conditional \<open>UPDATE ... WHERE status = 'pending'\<close>
  lets at most one resolver claim a wait, for every sequence of statements.
\<close>

theorem sql_claims_once:
  assumes "sql_inv rows" and "script_ok sql_lookup xs rows"
  shows "distinct (claimed_ids
    (fst (ledger_run sql_create_execution_wait sql_resolve_execution_wait xs rows)))"
  by (rule sql.run_claims_distinct [OF assms])

theorem sql_claims_once_witness:
  "distinct (claimed_ids
    (fst (ledger_run sql_create_execution_wait sql_resolve_execution_wait sample_script [])))"
  by (rule sql_claims_once) (simp_all add: empty_table_ledger sample_script_ok)

text \<open>
  C7: The SQL store refines the in-memory store: from ledgers with the same waits, every
  sequence of operations gives the same answers and leaves the same waits in both.
\<close>

theorem sql_refines_memory:
  assumes "ledger_inv s" and "sql_inv rows" and "\<And>i. get_execution_wait i s = sql_lookup i rows"
    and "script_ok get_execution_wait xs s"
  shows "fst (ledger_run sql_create_execution_wait sql_resolve_execution_wait xs rows) =
      fst (ledger_run create_execution_wait mem_resolve xs s) \<and>
    (\<forall>i. sql_lookup i (snd (ledger_run sql_create_execution_wait sql_resolve_execution_wait xs rows)) =
      get_execution_wait i (snd (ledger_run create_execution_wait mem_resolve xs s)))"
proof -
  have "stores.related s rows" using assms(1-3) by (simp add: stores.related_def)
  then show ?thesis
    using stores.run_related [of s rows xs] assms(4) unfolding stores.related_def by simp
qed

theorem sql_refines_memory_witness:
  "fst (ledger_run sql_create_execution_wait sql_resolve_execution_wait sample_script []) =
      fst (ledger_run create_execution_wait mem_resolve sample_script empty_store) \<and>
    (\<forall>i. sql_lookup i (snd (ledger_run sql_create_execution_wait sql_resolve_execution_wait sample_script [])) =
      get_execution_wait i (snd (ledger_run create_execution_wait mem_resolve sample_script empty_store)))"
  by (rule sql_refines_memory)
    (simp_all add: empty_store_ledger empty_table_ledger sample_script_ok)

text \<open>
  Once a wait is settled, no later creation or resolution changes any of its fields, in
  either store, and nobody claims it again.
\<close>

theorem settled_wait_is_final:
  assumes "ledger_inv s" and "script_ok get_execution_wait xs s"
    and "get_execution_wait i s = Some w" and "w_status w \<in> TERMINAL_EXECUTION_WAIT_STATUSES"
  shows "get_execution_wait i (snd (ledger_run create_execution_wait mem_resolve xs s)) = Some w \<and>
    i \<notin> set (claimed_ids (fst (ledger_run create_execution_wait mem_resolve xs s)))"
  by (rule mem.run_settled [OF assms(1-3)]) (use assms(4) in auto)

definition settled_store :: store where
  "settled_store = empty_store\<lparr>waits := [(''w-0'', sample_wait\<lparr>w_id := ''w-0'',
     w_idempotency_key := ''k-0'', w_status := RESOLVED, w_resolved_at := Some 3\<rparr>)]\<rparr>"

theorem settled_wait_is_final_witness:
  "get_execution_wait ''w-0'' (snd (ledger_run create_execution_wait mem_resolve sample_script settled_store))
     = get_execution_wait ''w-0'' settled_store \<and>
   ''w-0'' \<notin> set (claimed_ids (fst (ledger_run create_execution_wait mem_resolve sample_script settled_store)))"
  using settled_wait_is_final [of settled_store sample_script "''w-0''"
      "sample_wait\<lparr>w_id := ''w-0'', w_idempotency_key := ''k-0'', w_status := RESOLVED,
         w_resolved_at := Some 3\<rparr>"]
  by (simp add: settled_store_def ledger_inv_def get_execution_wait_def sample_script_ok
      TERMINAL_EXECUTION_WAIT_STATUSES_def)

lemma sql_inv_slots:
  assumes "sql_inv rows"
  shows "length (filter (\<lambda>r. o_execution_id r = eid \<and> o_status r = ''pending'') rows) \<le> 1"
    and "distinct (map (\<lambda>r. (o_execution_id r, o_idempotency_key r)) rows)"
proof -
  have uniq: "r = r'" if "r \<in> set rows" "r' \<in> set rows" "o_execution_id r = o_execution_id r'"
    "o_status r = ''pending'' \<and> o_status r' = ''pending'' \<or> o_idempotency_key r = o_idempotency_key r'"
    for r r'
  proof -
    from assms that obtain w w' where w: "row_of w r" "row_of w' r'"
      unfolding sql_inv_def by blast
    have "same_slot w w'"
      using that(3,4) row_of_simps(1-4) [OF w(1)] row_of_simps(1-4) [OF w(2)]
      unfolding same_slot_def by auto
    with assms that w show ?thesis unfolding sql_inv_def by blast
  qed
  have d: "distinct rows" using assms by (auto simp: sql_inv_def distinct_map)
  show "distinct (map (\<lambda>r. (o_execution_id r, o_idempotency_key r)) rows)"
    using d uniq by (auto simp: distinct_map inj_on_def)
  let ?f = "filter (\<lambda>r. o_execution_id r = eid \<and> o_status r = ''pending'') rows"
  show "length ?f \<le> 1"
  proof (cases ?f)
    case (Cons r rs)
    have "set ?f \<subseteq> {r}" 
    proof
      fix x assume x: "x \<in> set ?f"
      have "r \<in> set ?f" using Cons by simp
      with x show "x \<in> {r}" using uniq [of x r] by simp
    qed
    then have "card (set ?f) \<le> 1" using card_mono [of "{r}" "set ?f"] by simp
    then show ?thesis using distinct_card [of ?f] d by simp
  qed simp
qed

text \<open>
  After any sequence of operations on the SQL ledger an execution has at most one pending
  wait, and no two waits of an execution share an idempotency key.
\<close>

theorem one_wait_per_slot:
  assumes "sql_inv rows" and "script_ok sql_lookup xs rows"
    and "rows' = snd (ledger_run sql_create_execution_wait sql_resolve_execution_wait xs rows)"
  shows "length (filter (\<lambda>r. o_execution_id r = eid \<and> o_status r = ''pending'') rows') \<le> 1 \<and>
    distinct (map (\<lambda>r. (o_execution_id r, o_idempotency_key r)) rows')"
  using sql_inv_slots [OF sql.run_invar [OF assms(1,2)]] assms(3) by blast

theorem one_wait_per_slot_witness:
  "length (filter (\<lambda>r. o_execution_id r = ''ex-1'' \<and> o_status r = ''pending'')
     (snd (ledger_run sql_create_execution_wait sql_resolve_execution_wait sample_script []))) \<le> 1"
  using one_wait_per_slot [OF empty_table_ledger(1) _ refl, of sample_script "''ex-1''"]
  by (simp add: sample_script_ok empty_table_ledger)

end
